(* ===== verification/Prelude.thy ===== *)
theory Prelude
  imports Complex_Main "HOL-Library.AList" "HOL-Library.Sublist"
begin

text \<open>
  Shared vocabulary of the development: JavaScript string and array operations used all over
  the sources, insertion-ordered maps, and the generic locales (state machines with an
  invariant, keyed collections) that the component theories interpret.

  A JavaScript string is modelled as a list of UTF-16 code units below U+0100, i.e. the HOL
  type \<^typ>\<open>string\<close>; strings with larger code units are outside the model.
\<close>

named_theorems js_simps "evaluation rules for the JavaScript library operations"
named_theorems inv_intros "each operation preserves its component's invariant"

section \<open>Strings\<close>

text \<open>White space as \<open>String.prototype.trim\<close> and \<open>\s\<close> see it, below U+0100.\<close>

definition is_space :: "char \<Rightarrow> bool" where
  "is_space c \<longleftrightarrow> (let n = (of_char c :: nat) in n = 32 \<or> (9 \<le> n \<and> n \<le> 13) \<or> n = 160)"

definition trim :: "string \<Rightarrow> string" where
  "trim s = rev (dropWhile is_space (rev (dropWhile is_space s)))"

definition code_unit :: "char \<Rightarrow> nat" where
  "code_unit c = of_char c"

definition lower_char :: "char \<Rightarrow> char" where
  "lower_char c = (let n = code_unit c in
     if (65 \<le> n \<and> n \<le> 90) \<or> (192 \<le> n \<and> n \<le> 222 \<and> n \<noteq> 215) then char_of (n + 32) else c)"

definition to_lower :: "string \<Rightarrow> string" where
  "to_lower s = map lower_char s"

fun split_on :: "char \<Rightarrow> string \<Rightarrow> string list" where
  "split_on c [] = [[]]"
| "split_on c (x # xs) =
     (if x = c then [] # split_on c xs
      else (case split_on c xs of [] \<Rightarrow> [[x]] | y # ys \<Rightarrow> (x # y) # ys))"

fun join :: "string \<Rightarrow> string list \<Rightarrow> string" where
  "join sep [] = []"
| "join sep [x] = x"
| "join sep (x # y # ys) = x @ sep @ join sep (y # ys)"

lemma split_on_not_Nil [simp]: "split_on c s \<noteq> []"
  by (cases s) (auto split: list.splits)

lemma split_on_no_sep: "x \<in> set (split_on c s) \<Longrightarrow> c \<notin> set x"
  by (induction s arbitrary: x) (auto split: if_splits list.splits)

lemma split_on_plain [simp]: "c \<notin> set s \<Longrightarrow> split_on c s = [s]"
  by (induction s) auto

lemma split_on_append_sep: "c \<notin> set x \<Longrightarrow> split_on c (x @ c # s) = x # split_on c s"
  by (induction x) auto

lemma join_Cons: "ys \<noteq> [] \<Longrightarrow> join sep (x # ys) = x @ sep @ join sep ys"
  by (cases ys) auto

lemma join_split_on: "join [c] (split_on c s) = s"
proof (induction s)
  case (Cons x xs)
  then show ?case
    by (cases "split_on c xs"; cases "tl (split_on c xs)") (auto simp: join_Cons)
qed simp

lemma split_on_join: "xs \<noteq> [] \<Longrightarrow> (\<forall>x\<in>set xs. c \<notin> set x) \<Longrightarrow> split_on c (join [c] xs) = xs"
proof (induction xs)
  case (Cons x xs)
  then show ?case by (cases xs) (auto simp: split_on_append_sep)
qed simp

lemma set_join: "set (join sep xs) \<subseteq> set sep \<union> (\<Union>x\<in>set xs. set x)"
  by (induction sep xs rule: join.induct) auto

lemma trim_idem [simp]: "trim (trim s) = trim s"
proof -
  have drop_id: "xs = [] \<or> \<not> is_space (hd xs) \<Longrightarrow> dropWhile is_space xs = xs" for xs
    by (cases xs) auto
  let ?u = "dropWhile is_space s"
  let ?t = "dropWhile is_space (rev ?u)"
  have t: "?t = [] \<or> \<not> is_space (hd ?t)" by (metis hd_dropWhile)
  have "rev ?t = [] \<or> \<not> is_space (hd (rev ?t))"
  proof (cases "?t = []")
    case False
    obtain p where p: "?u = rev ?t @ p"
      by (metis rev_append rev_rev_ident takeWhile_dropWhile_id)
    then have "hd (rev ?t) = hd ?u" using False by (metis hd_append2 rev_is_Nil_conv)
    moreover have "?u \<noteq> []" using p False by (metis append_is_Nil_conv rev_is_Nil_conv)
    ultimately show ?thesis by (metis hd_dropWhile)
  qed simp
  then have "dropWhile is_space (rev ?t) = rev ?t" by (rule drop_id)
  moreover from t have "dropWhile is_space ?t = ?t" by (rule drop_id)
  ultimately show ?thesis by (simp add: trim_def)
qed

lemma set_trim: "set (trim s) \<subseteq> set s"
  by (auto simp: trim_def dest!: set_dropWhileD)

lemma trim_no_space: "(\<forall>c\<in>set s. \<not> is_space c) \<Longrightarrow> trim s = s"
proof -
  assume ns: "\<forall>c\<in>set s. \<not> is_space c"
  have "dropWhile is_space xs = xs" if "set xs \<subseteq> set s" for xs
    using ns that by (cases xs) auto
  then show ?thesis by (simp add: trim_def)
qed

lemma trim_Cons_space [simp]: "is_space c \<Longrightarrow> trim (c # s) = trim s"
  by (simp add: trim_def)

text \<open>\<open>s.includes(q)\<close>\<close>

fun includes_str :: "string \<Rightarrow> string \<Rightarrow> bool" where
  "includes_str q [] \<longleftrightarrow> q = []"
| "includes_str q (c # s) \<longleftrightarrow> prefix q (c # s) \<or> includes_str q s"

lemma includes_str_sublist: "includes_str q s \<longleftrightarrow> sublist q s"
  by (induction s) (auto simp: sublist_Cons_right)

text \<open>\<open>x ?? d\<close>, and the truth value of an optional string: neither absent nor empty.\<close>

definition the_default :: "'a \<Rightarrow> 'a option \<Rightarrow> 'a" where
  "the_default d x = (case x of Some v \<Rightarrow> v | None \<Rightarrow> d)"

definition truthy_opt :: "string option \<Rightarrow> bool" where
  "truthy_opt s \<longleftrightarrow> s \<noteq> None \<and> s \<noteq> Some []"

section \<open>Arrays\<close>

text \<open>\<open>xs.filter((_, j) => j !== i)\<close>\<close>

definition remove_at :: "nat \<Rightarrow> 'a list \<Rightarrow> 'a list" where
  "remove_at i xs = take i xs @ drop (Suc i) xs"

text \<open>\<open>xs[i]\<close> with \<open>undefined\<close> out of range; indices are integers.\<close>

definition js_nth :: "'a list \<Rightarrow> int \<Rightarrow> 'a option" where
  "js_nth xs i = (if 0 \<le> i \<and> nat i < length xs then Some (xs ! nat i) else None)"

text \<open>\<open>xs.indexOf(x)\<close>: \<open>-1\<close> when absent.\<close>

fun index_of :: "'a list \<Rightarrow> 'a \<Rightarrow> int" where
  "index_of [] x = -1"
| "index_of (y # ys) x = (if y = x then 0 else (let i = index_of ys x in if i < 0 then -1 else i + 1))"

lemma index_of_ge: "- 1 \<le> index_of xs x"
  by (induction xs) (auto simp: Let_def)

lemma index_of_mem: "x \<in> set xs \<Longrightarrow> 0 \<le> index_of xs x"
  by (induction xs) (auto simp: Let_def)

lemma index_of_nth: "distinct xs \<Longrightarrow> i < length xs \<Longrightarrow> index_of xs (xs ! i) = int i"
  by (induction xs arbitrary: i) (auto simp: Let_def nth_Cons split: nat.splits)

lemma index_of_absent: "x \<notin> set xs \<Longrightarrow> index_of xs x = -1"
  by (induction xs) auto

lemma remove_at_length: "i < length xs \<Longrightarrow> length (remove_at i xs) = length xs - 1"
  by (simp add: remove_at_def)

lemma set_remove_at: "set (remove_at i xs) \<subseteq> set xs"
  by (auto simp: remove_at_def dest: in_set_takeD in_set_dropD)

section \<open>Insertion-ordered maps\<close>

text \<open>The elements of a list in order of first appearance.\<close>

fun firsts :: "'a list \<Rightarrow> 'a list" where
  "firsts [] = []"
| "firsts (x # xs) = x # filter (\<lambda>y. y \<noteq> x) (firsts xs)"

lemma firsts_snoc: "firsts (xs @ [x]) = (if x \<in> set xs then firsts xs else firsts xs @ [x])"
proof (induction xs)
  case (Cons y ys)
  have "set (firsts zs) = set zs" for zs :: "'a list" by (induction zs) auto
  with Cons show ?case by auto
qed simp

lemma set_firsts [simp]: "set (firsts xs) = set xs"
  by (induction xs) auto

lemma distinct_firsts [simp]: "distinct (firsts xs)"
  by (induction xs) auto


text \<open>
  \<open>Map.set\<close> and assignment to an object property: overwrite in place, or append. This is
  \<open>AList.update\<close>, whose characteristic equation is \<open>update_conv\<close>.
\<close>

lemma keys_update: "map fst (AList.update k v m) = (if k \<in> set (map fst m) then map fst m else map fst m @ [k])"
  by (induction m) auto

lemma distinct_update_keys: "distinct (map fst m) \<Longrightarrow> distinct (map fst (AList.update k v m))"
  by (simp add: keys_update)

lemma update_absent: "k \<notin> set (map fst m) \<Longrightarrow> AList.update k v m = m @ [(k, v)]"
  by (induction m) auto

text \<open>Building an object from a list of members, later duplicates overwriting.\<close>

definition from_members :: "('k \<times> 'v) list \<Rightarrow> ('k \<times> 'v) list" where
  "from_members kvs = fold (\<lambda>(k, v) m. AList.update k v m) kvs []"

lemma fold_update_append:
  "distinct (map fst kvs) \<Longrightarrow> set (map fst kvs) \<inter> set (map fst m) = {} \<Longrightarrow>
   fold (\<lambda>(k, v) m. AList.update k v m) kvs m = m @ kvs"
proof (induction kvs arbitrary: m)
  case (Cons kv kvs)
  obtain k v where [simp]: "kv = (k, v)" by (cases kv)
  from Cons.prems have "k \<notin> set (map fst m)" by auto
  have "fold (\<lambda>(k, v) m. AList.update k v m) kvs (m @ [(k, v)]) = (m @ [(k, v)]) @ kvs"
    using Cons.prems by (intro Cons.IH) auto
  with \<open>k \<notin> set (map fst m)\<close> show ?case by (simp add: update_absent)
qed simp

lemma from_members_distinct: "distinct (map fst kvs) \<Longrightarrow> from_members kvs = kvs"
  by (simp add: from_members_def fold_update_append)

section \<open>Interfaces\<close>

text \<open>A deterministic state machine whose every step keeps an invariant.\<close>

locale invariant_machine =
  fixes step :: "'s \<Rightarrow> 'e \<Rightarrow> 's"
    and inv :: "'s \<Rightarrow> bool"
  assumes step_inv: "inv s \<Longrightarrow> inv (step s e)"
begin

lemma run_inv: "inv s \<Longrightarrow> inv (fold (\<lambda>e s. step s e) es s)"
  by (induction es arbitrary: s) (auto intro: step_inv)

end

text \<open>
  A collection addressed by the key of its elements: \<open>get\<close>, an \<open>upsert\<close> that replaces the
  element with the same key or adds it, and a \<open>delete\<close>.
\<close>

locale keyed_collection =
  fixes key :: "'a \<Rightarrow> string"
    and get :: "'s \<Rightarrow> string \<Rightarrow> 'a option"
    and upsert :: "'a \<Rightarrow> 's \<Rightarrow> 's"
    and delete :: "string \<Rightarrow> 's \<Rightarrow> 's"
  assumes get_upsert: "get (upsert a s) k = (if k = key a then Some a else get s k)"
    and get_delete: "get (delete k' s) k = (if k = k' then None else get s k)"
begin

lemma upsert_get_same: "get (upsert a s) (key a) = Some a"
  by (simp add: get_upsert)

lemma upsert_overwrites: "key a = key b \<Longrightarrow> get (upsert b (upsert a s)) k = get (upsert b s) k"
  by (simp add: get_upsert)

lemma delete_upsert: "get (delete (key a) (upsert a s)) k = get (delete (key a) s) k"
  by (simp add: get_upsert get_delete)

lemma upsert_commute: "key a \<noteq> key b \<Longrightarrow> get (upsert a (upsert b s)) k = get (upsert b (upsert a s)) k"
  by (simp add: get_upsert)

lemma delete_idem: "get (delete k' (delete k' s)) k = get (delete k' s) k"
  by (simp add: get_delete)

end

end
