(* ===== verification/Json.thy ===== *)
theory Json
  imports Prelude
begin

text \<open>
  JavaScript values, \<open>JSON.stringify\<close> and \<open>JSON.parse\<close> as the sources use them.

  \<open>JFun\<close> stands for a function value: it only arises as a member a plain object inherits from
  \<open>Object.prototype\<close>. Numbers are the rationals that their decimal texts denote (no rounding to
  binary doubles, no negative zero), printed without an exponent and with at most 25 fraction
  digits. The parser spends one unit of fuel per nested value and per element; twice the length of
  the text is enough (\<open>pvalue_fuel\<close>), which is what \<open>json_parse\<close> passes.
\<close>

datatype js =
    JUndef
  | JNull
  | JBool bool
  | JNum rat
  | JStr string
  | JArr "js list"
  | JObj "(string \<times> js) list"
  | JFun

fun truthy :: "js \<Rightarrow> bool" where
  "truthy JUndef = False"
| "truthy JNull = False"
| "truthy (JBool b) = b"
| "truthy (JNum n) = (n \<noteq> 0)"
| "truthy (JStr s) = (s \<noteq> [])"
| "truthy (JArr _) = True"
| "truthy (JObj _) = True"
| "truthy JFun = True"

text \<open>Members every plain object inherits; reading one that is not own yields a function, or, for
  \<open>__proto__\<close>, the prototype object itself (which has no own property the sources read).\<close>

definition inherited_members :: "string list" where
  "inherited_members = [''constructor'', ''toString'', ''toLocaleString'', ''valueOf'',
     ''hasOwnProperty'', ''isPrototypeOf'', ''propertyIsEnumerable'',
     ''__defineGetter__'', ''__defineSetter__'', ''__lookupGetter__'', ''__lookupSetter__'']"

definition inherited :: "string \<Rightarrow> js" where
  "inherited k = (if k = ''__proto__'' then JObj []
     else if k \<in> set inherited_members then JFun else JUndef)"

text \<open>\<open>v[k]\<close>: \<open>None\<close> is the \<open>TypeError\<close> that \<open>undefined\<close> and \<open>null\<close> raise. Only the property
  names the sources read matter; arrays and primitives have none of them.\<close>

fun js_get :: "js \<Rightarrow> string \<Rightarrow> js option" where
  "js_get JUndef k = None"
| "js_get JNull k = None"
| "js_get (JObj kvs) k = Some (case map_of kvs k of Some v \<Rightarrow> v | None \<Rightarrow> inherited k)"
| "js_get v k = Some JUndef"

section \<open>Printing\<close>

definition digit_char :: "nat \<Rightarrow> char" where
  "digit_char d = char_of (48 + d)"

definition is_digit :: "char \<Rightarrow> bool" where
  "is_digit c \<longleftrightarrow> 48 \<le> code_unit c \<and> code_unit c \<le> 57"

definition digit_val :: "char \<Rightarrow> nat" where
  "digit_val c = code_unit c - 48"

fun show_nat :: "nat \<Rightarrow> string" where
  "show_nat n = (if n < 10 then [digit_char n] else show_nat (n div 10) @ [digit_char (n mod 10)])"

declare show_nat.simps [simp del]

definition show_int :: "int \<Rightarrow> string" where
  "show_int i = (if i < 0 then CHR ''-'' # show_nat (nat (- i)) else show_nat (nat i))"

fun frac_digits :: "nat \<Rightarrow> rat \<Rightarrow> string" where
  "frac_digits 0 r = []"
| "frac_digits (Suc n) r =
     (if r = 0 then []
      else let d = \<lfloor>10 * r\<rfloor> in digit_char (nat d) # frac_digits n (10 * r - of_int d))"

definition show_num :: "rat \<Rightarrow> string" where
  "show_num r = (let a = \<bar>r\<bar>; i = \<lfloor>a\<rfloor>; f = a - of_int i in
     (if r < 0 then ''-'' else []) @ show_nat (nat i) @
     (if f = 0 then [] else CHR ''.'' # frac_digits 25 f))"

definition hex_char :: "nat \<Rightarrow> char" where
  "hex_char d = (if d < 10 then char_of (48 + d) else char_of (87 + d))"

definition esc_char :: "char \<Rightarrow> string" where
  "esc_char c = (let n = code_unit c in
     if c = CHR 0x22 then [CHR 0x5C, CHR 0x22]
     else if c = CHR 0x5C then [CHR 0x5C, CHR 0x5C]
     else if n = 8 then [CHR 0x5C, CHR ''b'']
     else if n = 12 then [CHR 0x5C, CHR ''f'']
     else if n = 10 then [CHR 0x5C, CHR ''n'']
     else if n = 13 then [CHR 0x5C, CHR ''r'']
     else if n = 9 then [CHR 0x5C, CHR ''t'']
     else if n < 32 then [CHR 0x5C, CHR ''u'', CHR ''0'', CHR ''0'', hex_char (n div 16), hex_char (n mod 16)]
     else [c])"

definition quote_str :: "string \<Rightarrow> string" where
  "quote_str s = CHR 0x22 # concat (map esc_char s) @ [CHR 0x22]"

text \<open>\<open>JSON.stringify\<close>: \<open>None\<close> is the result \<open>undefined\<close> (for \<open>undefined\<close> and functions), printed
  as \<open>null\<close> inside an array and left out of an object.\<close>

fun stringify :: "js \<Rightarrow> string option"
  and elems_text :: "js list \<Rightarrow> string list"
  and members_text :: "(string \<times> js) list \<Rightarrow> string list" where
  "stringify JUndef = None"
| "stringify JNull = Some ''null''"
| "stringify (JBool b) = Some (if b then ''true'' else ''false'')"
| "stringify (JNum n) = Some (show_num n)"
| "stringify (JStr s) = Some (quote_str s)"
| "stringify (JArr vs) = Some (''['' @ join '','' (elems_text vs) @ '']'')"
| "stringify (JObj kvs) = Some (''{'' @ join '','' (members_text kvs) @ ''}'')"
| "stringify JFun = None"
| "elems_text [] = []"
| "elems_text (v # vs) = (case stringify v of None \<Rightarrow> ''null'' | Some t \<Rightarrow> t) # elems_text vs"
| "members_text [] = []"
| "members_text ((k, v) # kvs) =
     (case stringify v of None \<Rightarrow> members_text kvs
      | Some t \<Rightarrow> (quote_str k @ '':'' @ t) # members_text kvs)"

section \<open>Parsing\<close>

definition json_ws :: "char \<Rightarrow> bool" where
  "json_ws c \<longleftrightarrow> c = CHR '' '' \<or> c = CHR 0x09 \<or> c = CHR 0x0A \<or> c = CHR 0x0D"

definition skip_ws :: "string \<Rightarrow> string" where
  "skip_ws s = dropWhile json_ws s"

definition digits_val :: "string \<Rightarrow> nat" where
  "digits_val ds = foldl (\<lambda>a c. 10 * a + digit_val c) 0 ds"

definition pexp :: "string \<Rightarrow> int \<times> string" where
  "pexp s = (case s of
     [] \<Rightarrow> (0, s)
   | c # t \<Rightarrow>
       if c = CHR ''e'' \<or> c = CHR ''E'' then
         let neg = (t \<noteq> [] \<and> hd t = CHR ''-'');
             u = (if t \<noteq> [] \<and> (hd t = CHR ''-'' \<or> hd t = CHR ''+'') then tl t else t);
             ds = takeWhile is_digit u
         in if ds = [] then (0, s)
            else ((if neg then - int (digits_val ds) else int (digits_val ds)), dropWhile is_digit u)
       else (0, s))"

definition pfrac :: "string \<Rightarrow> string \<times> string" where
  "pfrac s = (case s of
     [] \<Rightarrow> ([], s)
   | c # t \<Rightarrow>
       if c = CHR ''.'' \<and> takeWhile is_digit t \<noteq> [] then (takeWhile is_digit t, dropWhile is_digit t)
       else ([], s))"

definition scale10 :: "rat \<Rightarrow> int \<Rightarrow> rat" where
  "scale10 r e = (if 0 \<le> e then r * 10 ^ nat e else r / 10 ^ nat (- e))"

definition pnumber :: "string \<Rightarrow> (rat \<times> string) option" where
  "pnumber s =
     (let neg = (s \<noteq> [] \<and> hd s = CHR ''-'');
          s1 = (if neg then tl s else s);
          all = takeWhile is_digit s1
      in if all = [] then None
         else
           let ip = (if hd all = CHR ''0'' then [CHR ''0''] else all);
               (fp, s2) = pfrac (drop (length ip) s1);
               (e, s3) = pexp s2;
               m = (of_nat (digits_val (ip @ fp)) :: rat);
               v = scale10 m (e - int (length fp))
           in Some (if neg then - v else v, s3))"

definition hex_val :: "char \<Rightarrow> nat option" where
  "hex_val c = (let n = code_unit c in
     if 48 \<le> n \<and> n \<le> 57 then Some (n - 48)
     else if 97 \<le> n \<and> n \<le> 102 then Some (n - 87)
     else if 65 \<le> n \<and> n \<le> 70 then Some (n - 55)
     else None)"

definition unescape :: "char \<Rightarrow> char option" where
  "unescape c =
     (if c = CHR 0x22 then Some (CHR 0x22) else if c = CHR 0x5C then Some (CHR 0x5C)
      else if c = CHR ''/'' then Some (CHR ''/'') else if c = CHR ''b'' then Some (CHR 0x08)
      else if c = CHR ''f'' then Some (CHR 0x0C) else if c = CHR ''n'' then Some (CHR 0x0A)
      else if c = CHR ''r'' then Some (CHR 0x0D) else if c = CHR ''t'' then Some (CHR 0x09)
      else None)"

text \<open>The characters of a string literal, after its opening quote. A \<open>\u\<close> escape of a code unit
  above U+00FF is outside the model's strings and is refused.\<close>

fun pstring :: "string \<Rightarrow> (string \<times> string) option" where
  "pstring [] = None"
| "pstring (c # s) =
     (if c = CHR 0x22 then Some ([], s)
      else if c = CHR 0x5C then
        (case s of
           [] \<Rightarrow> None
         | d # t \<Rightarrow>
             if d = CHR ''u'' then
               (case t of
                  h1 # h2 # h3 # h4 # u \<Rightarrow>
                    (case (hex_val h1, hex_val h2, hex_val h3, hex_val h4) of
                       (Some a, Some b, Some x, Some y) \<Rightarrow>
                         if a = 0 \<and> b = 0 then
                           map_option (\<lambda>(r, q). (char_of (16 * x + y) # r, q)) (pstring u)
                         else None
                     | _ \<Rightarrow> None)
                | _ \<Rightarrow> None)
             else (case unescape d of None \<Rightarrow> None
                   | Some e \<Rightarrow> map_option (\<lambda>(r, q). (e # r, q)) (pstring t)))
      else if code_unit c < 32 then None
      else map_option (\<lambda>(r, q). (c # r, q)) (pstring s))"

fun pvalue :: "nat \<Rightarrow> string \<Rightarrow> (js \<times> string) option"
  and pelems :: "nat \<Rightarrow> string \<Rightarrow> (js list \<times> string) option"
  and pmembers :: "nat \<Rightarrow> string \<Rightarrow> ((string \<times> js) list \<times> string) option" where
  "pvalue 0 s = None"
| "pvalue (Suc n) s =
     (case skip_ws s of
        [] \<Rightarrow> None
      | c # t \<Rightarrow>
          if c = CHR 0x22 then map_option (\<lambda>(x, r). (JStr x, r)) (pstring t)
          else if c = CHR ''['' then
            (let u = skip_ws t in
             if u \<noteq> [] \<and> hd u = CHR '']'' then Some (JArr [], tl u)
             else map_option (\<lambda>(vs, r). (JArr vs, r)) (pelems n u))
          else if c = CHR ''{'' then
            (let u = skip_ws t in
             if u \<noteq> [] \<and> hd u = CHR ''}'' then Some (JObj [], tl u)
             else map_option (\<lambda>(kvs, r). (JObj (from_members kvs), r)) (pmembers n u))
          else if prefix ''true'' (c # t) then Some (JBool True, drop 4 (c # t))
          else if prefix ''false'' (c # t) then Some (JBool False, drop 5 (c # t))
          else if prefix ''null'' (c # t) then Some (JNull, drop 4 (c # t))
          else map_option (\<lambda>(x, r). (JNum x, r)) (pnumber (c # t)))"
| "pelems 0 s = None"
| "pelems (Suc n) s =
     (case pvalue n s of
        None \<Rightarrow> None
      | Some (v, r) \<Rightarrow>
          (case skip_ws r of
             [] \<Rightarrow> None
           | c # t \<Rightarrow>
               if c = CHR '','' then map_option (\<lambda>(vs, q). (v # vs, q)) (pelems n t)
               else if c = CHR '']'' then Some ([v], t)
               else None))"
| "pmembers 0 s = None"
| "pmembers (Suc n) s =
     (case skip_ws s of
        [] \<Rightarrow> None
      | c # t \<Rightarrow>
          if c = CHR 0x22 then
            (case pstring t of
               None \<Rightarrow> None
             | Some (k, r) \<Rightarrow>
                 (case skip_ws r of
                    [] \<Rightarrow> None
                  | d # u \<Rightarrow>
                      if d = CHR '':'' then
                        (case pvalue n u of
                           None \<Rightarrow> None
                         | Some (v, r2) \<Rightarrow>
                             (case skip_ws r2 of
                                [] \<Rightarrow> None
                              | e # w \<Rightarrow>
                                  if e = CHR '','' then
                                    map_option (\<lambda>(kvs, q). ((k, v) # kvs, q)) (pmembers n w)
                                  else if e = CHR ''}'' then Some ([(k, v)], w)
                                  else None))
                      else None))
          else None)"

text \<open>\<open>JSON.parse\<close>: \<open>None\<close> is the thrown \<open>SyntaxError\<close>.\<close>

definition json_parse :: "string \<Rightarrow> js option" where
  "json_parse s =
     (case pvalue (2 * length s + 2) s of
        None \<Rightarrow> None
      | Some (v, r) \<Rightarrow> if skip_ws r = [] then Some v else None)"

end
