(* ===== verification/Json_Props.thy ===== *)
theory Json_Props
  imports Json
begin

text \<open>
  Facts about the JSON model: the parser consumes its input and never lacks fuel, the printer
  emits no raw control character, and parsing a printed value gives the value back.
\<close>

section \<open>The parser consumes its input\<close>

lemma skip_ws_length: "length (skip_ws s) \<le> length s"
  by (simp add: skip_ws_def length_dropWhile_le)

lemma pstring_length: "pstring s = Some (x, r) \<Longrightarrow> length r < length s"
proof (induction s arbitrary: x r rule: length_induct)
  case (1 s)
  then have IH: "pstring t = Some (y, q) \<Longrightarrow> length t < length s \<Longrightarrow> length q < length t" for t y q
    by blast
  obtain c t where s: "s = c # t" using "1.prems" by (cases s) auto
  show ?case
    using "1.prems" s by (auto split: if_splits list.splits option.splits dest!: IH)
qed

lemma pfrac_length: "length (snd (pfrac s)) \<le> length s"
  by (auto simp: pfrac_def length_dropWhile_le le_SucI split: list.splits)

lemma pexp_length: "length (snd (pexp s)) \<le> length s"
proof -
  have "length (dropWhile is_digit (tl t)) \<le> Suc (length t)" for t
    using length_dropWhile_le [of is_digit "tl t"] by simp
  then show ?thesis
    by (auto simp: pexp_def Let_def length_dropWhile_le le_SucI split: list.splits)
qed

lemma pnumber_length: "pnumber s = Some (x, r) \<Longrightarrow> length r < length s"
proof -
  assume p: "pnumber s = Some (x, r)"
  define s1 where "s1 = (if s \<noteq> [] \<and> hd s = CHR ''-'' then tl s else s)"
  define al where "al = takeWhile is_digit s1"
  define ip where "ip = (if hd al = CHR ''0'' then [CHR ''0''] else al)"
  from p have ne: "al \<noteq> []"
    by (auto simp: pnumber_def Let_def al_def s1_def split: if_splits)
  from p have "r = snd (pexp (snd (pfrac (drop (length ip) s1))))"
    by (auto simp: pnumber_def Let_def al_def s1_def ip_def split: prod.splits if_splits)
  then have "length r \<le> length (drop (length ip) s1)"
    using pfrac_length [of "drop (length ip) s1"] pexp_length [of "snd (pfrac (drop (length ip) s1))"]
    by simp
  moreover have "0 < length ip" using ne by (simp add: ip_def)
  moreover have "s1 \<noteq> []" using ne by (auto simp: al_def)
  moreover have "length s1 \<le> length s" by (simp add: s1_def)
  ultimately show ?thesis by (cases s1; cases ip) auto
qed

lemma parser_length:
  shows "pvalue n s = Some (v, r) \<Longrightarrow> length r < length s"
    and "pelems n s = Some (vs, r) \<Longrightarrow> length r < length s"
    and "pmembers n s = Some (kvs, r) \<Longrightarrow> length r < length s"
proof (induction n s and n s and n s arbitrary: v r and vs r and kvs r
    rule: pvalue_pelems_pmembers.induct)
  case (2 n s)
  obtain c t where ct: "skip_ws s = c # t"
    using "2.prems" by (cases "skip_ws s") auto
  then have le: "Suc (length t) \<le> length s" using skip_ws_length [of s] by simp
  have ws: "length (tl (skip_ws t)) \<le> length t" "length (skip_ws t) \<le> length t"
    using skip_ws_length [of t] by auto
  consider "c = CHR 0x22" | "c = CHR ''[''" | "c = CHR ''{''" |
    "c \<notin> {CHR 0x22, CHR ''['', CHR ''{''}" by blast
  then show ?case
  proof cases
    case 1
    then show ?thesis using "2.prems" ct le by (auto dest!: pstring_length)
  next
    case 2
    then have "pelems n (skip_ws t) = Some (vs, q) \<Longrightarrow>
        \<not> (skip_ws t \<noteq> [] \<and> hd (skip_ws t) = CHR '']'') \<Longrightarrow> length q < length t" for vs q
      using "2.IH"(1) [OF ct _ _ refl, of vs q] ws by simp
    then show ?thesis using 2 "2.prems" ct le ws by (auto simp: Let_def split: if_splits)
  next
    case 3
    then have "pmembers n (skip_ws t) = Some (kvs, q) \<Longrightarrow>
        \<not> (skip_ws t \<noteq> [] \<and> hd (skip_ws t) = CHR ''}'') \<Longrightarrow> length q < length t" for kvs q
      using "2.IH"(2) [OF ct _ _ _ refl, of kvs q] ws by simp
    then show ?thesis using 3 "2.prems" ct le ws by (auto simp: Let_def split: if_splits)
  next
    case 4
    then show ?thesis using "2.prems" ct le
      by (auto split: if_splits dest!: pnumber_length)
  qed
next
  case (4 n s)
  then obtain v' r' where v: "pvalue n s = Some (v', r')"
    by (cases "pvalue n s") auto
  with "4.IH"(1) have l: "length r' < length s" by blast
  from "4.prems" v obtain c t where ct: "skip_ws r' = c # t"
    by (cases "skip_ws r'") auto
  then have "length t < length s" using skip_ws_length [of r'] l by simp
  then show ?case using "4.prems" v ct "4.IH"(2) [OF v _ ct] by (fastforce split: if_splits)
next
  case (6 n s)
  then obtain c t where ct: "skip_ws s = c # t" and c: "c = CHR 0x22"
    by (cases "skip_ws s") (auto split: if_splits)
  then have le: "Suc (length t) \<le> length s" using skip_ws_length [of s] by simp
  from "6.prems" ct c obtain k r1 where k: "pstring t = Some (k, r1)"
    by (cases "pstring t") auto
  then have l1: "length r1 < length t" by (rule pstring_length)
  from "6.prems" ct c k obtain d u where du: "skip_ws r1 = d # u" and d: "d = CHR '':''"
    by (cases "skip_ws r1") (auto split: if_splits)
  then have l2: "Suc (length u) \<le> length r1" using skip_ws_length [of r1] by simp
  from "6.prems" ct c k du d obtain v r2 where v: "pvalue n u = Some (v, r2)"
    by (cases "pvalue n u") auto
  have l3: "length r2 < length u" using "6.IH"(1) [OF ct c k _ du d v] by simp
  from "6.prems" ct c k du d v obtain e w where ew: "skip_ws r2 = e # w"
    by (cases "skip_ws r2") auto
  then have l4: "Suc (length w) \<le> length r2" using skip_ws_length [of r2] by simp
  show ?case
    using "6.prems" ct c k du d v ew le l1 l2 l3 l4 "6.IH"(2) [OF ct c k _ du d v _ ew]
    by (fastforce split: if_splits)
qed simp_all

section \<open>The fuel is enough\<close>

text \<open>Past twice the length of the text, more fuel changes nothing.\<close>

lemma parser_fuel:
  shows "2 * length s + 1 \<le> n \<Longrightarrow> pvalue (Suc n) s = pvalue n s"
    and "2 * length s + 2 \<le> n \<Longrightarrow> pelems (Suc n) s = pelems n s"
    and "2 * length s + 2 \<le> n \<Longrightarrow> pmembers (Suc n) s = pmembers n s"
proof (induction n s and n s and n s rule: pvalue_pelems_pmembers.induct)
  case (2 n s)
  show ?case
  proof (cases "skip_ws s")
    case (Cons c t)
    then have le: "Suc (length t) \<le> length s" using skip_ws_length [of s] by simp
    with "2.prems" skip_ws_length [of t] have fuel: "2 * length (skip_ws t) + 2 \<le> n" by simp
    let ?u = "skip_ws t"
    consider "c = CHR ''['' \<and> \<not> (?u \<noteq> [] \<and> hd ?u = CHR '']'')"
      | "c = CHR ''{'' \<and> \<not> (?u \<noteq> [] \<and> hd ?u = CHR ''}'')"
      | "\<not> (c = CHR ''['' \<and> \<not> (?u \<noteq> [] \<and> hd ?u = CHR '']''))
         \<and> \<not> (c = CHR ''{'' \<and> \<not> (?u \<noteq> [] \<and> hd ?u = CHR ''}''))" by blast
    then show ?thesis
    proof cases
      case 1
      then have "pelems (Suc n) ?u = pelems n ?u"
        using "2.IH"(1) [OF Cons _ _ refl] fuel by simp
      then show ?thesis using Cons 1 by (auto simp: Let_def simp del: pelems.simps)
    next
      case 2
      then have "pmembers (Suc n) ?u = pmembers n ?u"
        using "2.IH"(2) [OF Cons _ _ _ refl] fuel by simp
      then show ?thesis using Cons 2 by (auto simp: Let_def simp del: pmembers.simps)
    next
      case 3
      then show ?thesis using Cons by (simp del: pelems.simps pmembers.simps add: Let_def)
    qed
  qed simp
next
  case (4 n s)
  show ?case
  proof (cases "pvalue n s")
    case None
    with "4.IH"(1) "4.prems" show ?thesis by simp
  next
    case (Some vr)
    then obtain v r where v: "pvalue n s = Some (v, r)" by (cases vr) auto
    then have l: "length r < length s" by (rule parser_length(1))
    have v': "pvalue (Suc n) s = Some (v, r)" using "4.IH"(1) "4.prems" v by simp
    show ?thesis
    proof (cases "skip_ws r")
      case Nil
      then show ?thesis using v v'
        by (simp add: pelems.simps(2) [of "Suc n" s] pelems.simps(2) [of n s] del: pelems.simps)
    next
      case (Cons c t)
      then have "length t < length r" using skip_ws_length [of r] by simp
      then have "c = CHR '','' \<Longrightarrow> pelems (Suc n) t = pelems n t"
        using "4.IH"(2) [OF v refl Cons] "4.prems" l by simp
      then show ?thesis using v v' Cons
        by (simp add: pelems.simps(2) [of "Suc n" s] pelems.simps(2) [of n s] del: pelems.simps)
    qed
  qed
next
  case (6 n s)
  show ?case
  proof (cases "skip_ws s")
    case (Cons c t)
    then have le: "Suc (length t) \<le> length s" using skip_ws_length [of s] by simp
    show ?thesis
    proof (cases "c = CHR 0x22 \<and> pstring t \<noteq> None")
      case True
      then obtain k r where k: "pstring t = Some (k, r)" and c: "c = CHR 0x22" by auto
      then have l1: "length r < length t" by (auto dest: pstring_length)
      show ?thesis
      proof (cases "skip_ws r")
        case (Cons d u)
        note du = this
        then have l2: "length u < length r" using skip_ws_length [of r] by simp
        have u: "d = CHR '':'' \<Longrightarrow> pvalue (Suc n) u = pvalue n u"
          using "6.IH"(1) [OF \<open>skip_ws s = c # t\<close> c k refl du] "6.prems" le l1 l2 by simp
        show ?thesis
        proof (cases "d = CHR '':'' \<and> pvalue n u \<noteq> None")
          case True
          then obtain v r2 where v: "pvalue n u = Some (v, r2)" and d: "d = CHR '':''" by auto
          then have l3: "length r2 < length u" by (auto dest: parser_length(1))
          have "pmembers (Suc n) w = pmembers n w" if "skip_ws r2 = CHR '','' # w" for w
            using "6.IH"(2) [OF \<open>skip_ws s = c # t\<close> c k refl du d v refl that refl] that
              "6.prems" le l1 l2 l3 skip_ws_length [of r2] by simp
          then show ?thesis using \<open>skip_ws s = c # t\<close> c k du d u v
            by (cases "skip_ws r2")
              (auto simp: pmembers.simps(2) [of "Suc n" s] pmembers.simps(2) [of n s] simp del: pmembers.simps)
        next
          case False
          then show ?thesis using \<open>skip_ws s = c # t\<close> c k du u
            by (cases "pvalue n u")
              (auto simp: pmembers.simps(2) [of "Suc n" s] pmembers.simps(2) [of n s] del: pmembers.simps)
        qed
      next
        case Nil
        then show ?thesis using \<open>skip_ws s = c # t\<close> c k
          by (simp add: pmembers.simps(2) [of "Suc n" s] pmembers.simps(2) [of n s] del: pmembers.simps)
      qed
    next
      case False
      then show ?thesis using Cons
        by (cases "pstring t")
          (auto simp: pmembers.simps(2) [of "Suc n" s] pmembers.simps(2) [of n s] simp del: pmembers.simps)
    qed
  next
    case Nil
    then show ?thesis by (simp add: pmembers.simps(2) [of "Suc n" s] pmembers.simps(2) [of n s] del: pmembers.simps)
  qed
qed simp_all

lemma pvalue_fuel: "2 * length s + 1 \<le> n \<Longrightarrow> n \<le> m \<Longrightarrow> pvalue m s = pvalue n s"
proof (induction "m - n" arbitrary: m)
  case (Suc d)
  then obtain m' where m: "m = Suc m'" by (cases m) auto
  with Suc have "pvalue m' s = pvalue n s" by simp
  moreover have "pvalue (Suc m') s = pvalue m' s"
    using Suc.hyps(2) Suc.prems m by (intro parser_fuel(1)) simp
  ultimately show ?case using m by simp
qed simp

section \<open>Digits\<close>

lemma code_unit_char_of: "n < 256 \<Longrightarrow> code_unit (char_of n) = n"
  by (simp add: code_unit_def take_bit_eq_mod)

lemma char_of_code_unit [simp]: "char_of (code_unit c) = c"
  by (simp add: code_unit_def)

lemma code_unit_less: "code_unit c < 256"
  by (simp add: code_unit_def)

lemma digit_char [simp]: "d < 10 \<Longrightarrow> is_digit (digit_char d)" "d < 10 \<Longrightarrow> digit_val (digit_char d) = d"
  by (simp_all add: is_digit_def digit_val_def digit_char_def code_unit_char_of)

lemma show_nat_digits: "\<forall>c\<in>set (show_nat n). is_digit c"
proof (induction n rule: show_nat.induct)
  case (1 n)
  then show ?case by (subst show_nat.simps) auto
qed

lemma show_nat_Nil [simp]: "show_nat n \<noteq> []"
  by (subst show_nat.simps) simp

lemma digits_val_show_nat [simp]: "digits_val (show_nat n) = n"
proof (induction n rule: show_nat.induct)
  case (1 n)
  then show ?case by (subst show_nat.simps) (auto simp: digits_val_def)
qed

lemma show_nat_hd: "n \<noteq> 0 \<Longrightarrow> digit_val (hd (show_nat n)) \<noteq> 0"
proof (induction n rule: show_nat.induct)
  case (1 n)
  then show ?case by (subst show_nat.simps) auto
qed

lemma show_nat_0 [simp]: "show_nat 0 = ''0''"
  by code_simp

lemma digit_val_0 [simp]: "digit_val CHR ''0'' = 0"
  by (simp add: digit_val_def code_unit_def)

text \<open>What may follow a number for the number to end there.\<close>

definition num_end :: "string \<Rightarrow> bool" where
  "num_end r \<longleftrightarrow> r = [] \<or> hd r \<in> {CHR '','', CHR '']'', CHR ''}''} \<or> is_space (hd r)"

lemma num_endD:
  assumes "num_end r"
  shows "takeWhile is_digit r = []" "dropWhile is_digit r = r" "pfrac r = ([], r)" "pexp r = (0, r)"
proof -
  have "r = [] \<or> (\<not> is_digit (hd r) \<and> hd r \<noteq> CHR ''.'' \<and> hd r \<noteq> CHR ''e'' \<and> hd r \<noteq> CHR ''E'')"
    using assms by (auto simp: num_end_def is_digit_def is_space_def code_unit_def Let_def)
  then show "takeWhile is_digit r = []" "dropWhile is_digit r = r" "pfrac r = ([], r)" "pexp r = (0, r)"
    by (cases r; auto simp: pfrac_def pexp_def)+
qed

lemma takeWhile_show_nat:
  "num_end r \<Longrightarrow> takeWhile is_digit (show_nat n @ r) = show_nat n"
  using show_nat_digits [of n] num_endD(1) by (simp add: takeWhile_append2)

lemma show_nat_zero_hd: "hd (show_nat n) = CHR ''0'' \<Longrightarrow> n = 0"
  using show_nat_hd [of n] by (cases "n = 0") auto

lemma pnumber_nat: "num_end r \<Longrightarrow> pnumber (show_nat n @ r) = Some (of_nat n, r)"
proof -
  assume r: "num_end r"
  have "hd (show_nat n @ r) = hd (show_nat n)" by simp
  moreover have "is_digit (hd (show_nat n))" using show_nat_digits [of n] by simp
  ultimately have neg: "hd (show_nat n @ r) \<noteq> CHR ''-''" by (auto simp: is_digit_def code_unit_def)
  show ?thesis
  proof (cases "n = 0")
    case True
    then show ?thesis using r
      by (simp add: pnumber_def Let_def num_endD scale10_def digits_val_def is_digit_def code_unit_def)
  next
    case False
    then have "hd (show_nat n) \<noteq> CHR ''0''" using show_nat_zero_hd by blast
    then show ?thesis using neg r
      by (simp add: pnumber_def Let_def takeWhile_show_nat num_endD scale10_def)
  qed
qed

lemma pnumber_int: "num_end r \<Longrightarrow> pnumber (show_int i @ r) = Some (of_int i, r)"
proof (cases "i < 0")
  case True
  assume r: "num_end r"
  let ?n = "nat (- i)"
  have "hd (show_nat ?n) \<noteq> CHR ''0''" using True show_nat_zero_hd [of ?n] by auto
  moreover have "rat_of_nat ?n = - of_int i" using True by (simp add: of_nat_nat)
  ultimately show ?thesis using True r
    by (simp add: pnumber_def Let_def show_int_def takeWhile_show_nat num_endD scale10_def)
next
  case False
  assume "num_end r"
  with False pnumber_nat [of r "nat i"] show ?thesis by (simp add: show_int_def of_nat_nat)
qed

lemma show_num_int: "show_num (of_int i) = show_int i"
  by (simp add: show_num_def show_int_def Let_def abs_if)

section \<open>String literals\<close>

lemma hex_val_char: "d < 16 \<Longrightarrow> hex_val (hex_char d) = Some d"
  by (auto simp: hex_val_def hex_char_def code_unit_char_of Let_def)

lemma pstring_esc: "pstring (esc_char c @ s) = map_option (\<lambda>(r, q). (c # r, q)) (pstring s)"
proof -
  let ?n = "code_unit c"
  have c: "c = char_of ?n" by simp
  consider "c = CHR 0x22" | "c = CHR 0x5C" | "?n \<in> {8, 9, 10, 12, 13}"
    | "?n < 32" "?n \<notin> {8, 9, 10, 12, 13}" "c \<noteq> CHR 0x22" "c \<noteq> CHR 0x5C"
    | "32 \<le> ?n" "c \<noteq> CHR 0x22" "c \<noteq> CHR 0x5C" by force
  then show ?thesis
  proof cases
    case 3
    have "char_of (8::nat) = CHR 0x08" "char_of (9::nat) = CHR 0x09" "char_of (10::nat) = CHR 0x0A"
      "char_of (12::nat) = CHR 0x0C" "char_of (13::nat) = CHR 0x0D" by code_simp+
    with 3 c have "c = CHR 0x08 \<or> c = CHR 0x09 \<or> c = CHR 0x0A \<or> c = CHR 0x0C \<or> c = CHR 0x0D"
      by (elim insertE) (metis empty_iff)+
    then show ?thesis by (auto simp: esc_char_def code_unit_def Let_def unescape_def)
  next
    case 4
    then have h: "hex_val (hex_char (?n div 16)) = Some (?n div 16)"
      "hex_val (hex_char (?n mod 16)) = Some (?n mod 16)"
      by (auto intro!: hex_val_char)
    have z: "hex_val CHR ''0'' = Some 0" by (simp add: hex_val_def code_unit_def)
    show ?thesis using 4 h z by (simp add: esc_char_def Let_def)
  next
    case 5
    then show ?thesis by (auto simp: esc_char_def Let_def)
  qed (simp_all add: esc_char_def code_unit_def Let_def unescape_def)
qed

lemma pstring_quote: "pstring (concat (map esc_char x) @ CHR 0x22 # r) = Some (x, r)"
  by (induction x) (simp_all add: pstring_esc)

lemma hex_char_not_control: "d < 16 \<Longrightarrow> 32 \<le> code_unit (hex_char d)"
  by (auto simp: hex_char_def code_unit_char_of)

lemma esc_char_printable: "x \<in> set (esc_char c) \<Longrightarrow> 32 \<le> code_unit x"
  using hex_char_not_control [unfolded code_unit_def]
  by (auto simp: esc_char_def Let_def code_unit_def split: if_splits)

lemma quote_str_printable: "x \<in> set (quote_str s) \<Longrightarrow> 32 \<le> code_unit x"
  by (auto simp: quote_str_def code_unit_def [of "CHR 0x22"] dest: esc_char_printable)

section \<open>Round trip\<close>

text \<open>Values that JSON can carry: no \<open>undefined\<close> or function, whole numbers, distinct keys.\<close>

fun plain :: "js \<Rightarrow> bool" where
  "plain JUndef = False"
| "plain JNull = True"
| "plain (JBool b) = True"
| "plain (JNum n) = (of_int \<lfloor>n\<rfloor> = n)"
| "plain (JStr s) = True"
| "plain (JArr vs) = list_all plain vs"
| "plain (JObj kvs) = (distinct (map fst kvs) \<and> list_all (\<lambda>kv. plain (snd kv)) kvs)"
| "plain JFun = False"

lemma show_num_plain: "plain (JNum r) \<Longrightarrow> show_num r = show_int \<lfloor>r\<rfloor>"
  by (metis plain.simps(4) show_num_int)

lemma plain_stringify: "plain v \<Longrightarrow> \<exists>t. stringify v = Some t"
  by (cases v) auto

text \<open>First characters of printed values, which tell the parser's branches apart.\<close>

lemma skip_ws_id: "s \<noteq> [] \<Longrightarrow> \<not> json_ws (hd s) \<Longrightarrow> skip_ws s = s"
  by (cases s) (auto simp: skip_ws_def)

lemma show_int_hd: "is_digit (hd (show_int i)) \<or> hd (show_int i) = CHR ''-''"
  using show_nat_digits [of "nat i"] hd_in_set [OF show_nat_Nil, of "nat i"]
  by (auto simp: show_int_def)

lemma show_int_Nil [simp]: "show_int i \<noteq> []"
  by (simp add: show_int_def)

lemma pvalue_int: "num_end r \<Longrightarrow> pvalue (Suc n) (show_int i @ r) = Some (JNum (of_int i), r)"
proof -
  assume r: "num_end r"
  obtain c t where ct: "show_int i = c # t" by (cases "show_int i") auto
  then have c: "is_digit c \<or> c = CHR ''-''" using show_int_hd [of i] by simp
  then have ne: "c \<noteq> CHR 0x22" "c \<noteq> CHR ''[''" "c \<noteq> CHR ''{''" "c \<noteq> CHR ''t''" "c \<noteq> CHR ''f''"
    "c \<noteq> CHR ''n''" "\<not> json_ws c" by (auto simp: is_digit_def code_unit_def json_ws_def)
  then have "skip_ws (show_int i @ r) = c # (t @ r)" using ct by (simp add: skip_ws_def)
  moreover have "pnumber (c # (t @ r)) = Some (of_int i, r)" using pnumber_int [OF r, of i] ct by simp
  ultimately show ?thesis using ne by simp
qed

lemma stringify_hd: "plain v \<Longrightarrow> stringify v = Some t \<Longrightarrow>
  t \<noteq> [] \<and> \<not> json_ws (hd t) \<and> hd t \<noteq> CHR '']'' \<and> hd t \<noteq> CHR ''}''"
proof (cases v)
  case (JNum r)
  assume "plain v" "stringify v = Some t"
  with JNum have "t = show_int \<lfloor>r\<rfloor>" using show_num_plain by auto
  then show ?thesis using show_int_hd [of "\<lfloor>r\<rfloor>"]
    by (auto simp: is_digit_def code_unit_def json_ws_def)
qed (auto simp: json_ws_def quote_str_def split: if_splits)

lemma num_end_sep: "c \<in> {CHR '','', CHR '']'', CHR ''}''} \<Longrightarrow> num_end (c # r)"
  by (simp add: num_end_def)

lemma pvalue_stringify:
  shows "plain v \<Longrightarrow> stringify v = Some t \<Longrightarrow>
           \<exists>N. \<forall>n\<ge>N. \<forall>r. num_end r \<longrightarrow> pvalue n (t @ r) = Some (v, r)"
    and "list_all plain vs \<Longrightarrow> vs \<noteq> [] \<Longrightarrow>
           \<exists>N. \<forall>n\<ge>N. \<forall>r. pelems n (join '','' (elems_text vs) @ '']'' @ r) = Some (vs, r)"
    and "list_all (\<lambda>kv. plain (snd kv)) kvs \<Longrightarrow> kvs \<noteq> [] \<Longrightarrow>
           \<exists>N. \<forall>n\<ge>N. \<forall>r. pmembers n (join '','' (members_text kvs) @ ''}'' @ r) = Some (kvs, r)"
proof (induction v and vs and kvs arbitrary: t rule: stringify_elems_text_members_text.induct)
  case (3 b)
  then show ?case by (intro exI [of _ 1]) (auto simp: skip_ws_def json_ws_def Suc_le_eq gr0_conv_Suc)
next
  case (4 x)
  then have t: "t = show_int \<lfloor>x\<rfloor>" and x: "of_int \<lfloor>x\<rfloor> = x"
    using show_num_plain by auto
  show ?case unfolding t using pvalue_int [where i = "\<lfloor>x\<rfloor>"] x
    by (intro exI [of _ 1]) (auto simp: Suc_le_eq gr0_conv_Suc)
next
  case (5 x)
  then show ?case
    by (intro exI [of _ 1])
      (auto simp: skip_ws_def json_ws_def Suc_le_eq gr0_conv_Suc quote_str_def pstring_quote)
next
  case (6 vs)
  show ?case
  proof (cases vs)
    case Nil
    then show ?thesis using "6.prems"
      by (intro exI [of _ 1]) (auto simp: skip_ws_def json_ws_def Suc_le_eq gr0_conv_Suc)
  next
    case (Cons w ws)
    then obtain N where N: "\<forall>n\<ge>N. \<forall>r. pelems n (join '','' (elems_text vs) @ '']'' @ r) = Some (vs, r)"
      using "6.IH" "6.prems" by auto
    define j where "j = join '','' (elems_text vs)"
    obtain u where u: "stringify w = Some u" "plain w"
      using Cons "6.prems" plain_stringify by auto
    have "j \<noteq> [] \<and> hd j = hd u"
      using stringify_hd [OF u(2,1)] u(1) Cons by (cases "elems_text ws") (auto simp: j_def)
    with stringify_hd [OF u(2,1)] have j: "skip_ws (j @ q) = j @ q" "hd (j @ q) \<noteq> CHR '']''" for q
      by (auto intro!: skip_ws_id)
    have t: "t = CHR ''['' # j @ '']''" using "6.prems" by (simp add: j_def)
    have "pvalue (Suc n) (t @ r) = Some (JArr vs, r)" if "N \<le> n" for n r
      using N j [of "CHR '']'' # r"] that
      by (simp add: t skip_ws_id json_ws_def Let_def j_def [symmetric] del: pelems.simps)
    then show ?thesis by (intro exI [of _ "Suc N"]) (metis Suc_le_D Suc_le_mono)
  qed
next
  case (7 kvs)
  show ?case
  proof (cases kvs)
    case Nil
    then show ?thesis using "7.prems"
      by (intro exI [of _ 1])
        (auto simp: skip_ws_def json_ws_def Suc_le_eq gr0_conv_Suc)
  next
    case (Cons kv kvs')
    then obtain N where N: "\<forall>n\<ge>N. \<forall>r. pmembers n (join '','' (members_text kvs) @ ''}'' @ r) = Some (kvs, r)"
      using "7.IH" "7.prems" by auto
    define j where "j = join '','' (members_text kvs)"
    obtain k w where kv: "kv = (k, w)" by (cases kv)
    obtain u where u: "stringify w = Some u"
      using Cons kv "7.prems" plain_stringify by auto
    have "j \<noteq> [] \<and> hd j = CHR 0x22"
      using u Cons kv by (cases "members_text kvs'") (auto simp: j_def quote_str_def)
    then have j: "skip_ws (j @ q) = j @ q" "hd (j @ q) \<noteq> CHR ''}''" for q
      by (auto intro!: skip_ws_id simp: json_ws_def)
    have "from_members kvs = kvs" using "7.prems" by (simp add: from_members_distinct)
    moreover have t: "t = CHR ''{'' # j @ ''}''" using "7.prems" by (simp add: j_def)
    ultimately have "pvalue (Suc n) (t @ r) = Some (JObj kvs, r)" if "N \<le> n" for n r
      using N j [of "CHR ''}'' # r"] that
      by (simp add: skip_ws_id json_ws_def Let_def j_def [symmetric] del: pmembers.simps)
    then show ?thesis by (intro exI [of _ "Suc N"]) (metis Suc_le_D Suc_le_mono)
  qed
next
  case (10 v vs)
  then obtain t where t: "stringify v = Some t" using plain_stringify [of v] by auto
  with "10.IH"(1) "10.prems" obtain N where
    N: "\<forall>n\<ge>N. \<forall>r. num_end r \<longrightarrow> pvalue n (t @ r) = Some (v, r)" by auto
  show ?case
  proof (cases vs)
    case Nil
    have "pelems (Suc n) (t @ '']'' @ r) = Some ([v], r)" if "N \<le> n" for n r
      using N that by (simp add: num_end_sep skip_ws_id json_ws_def)
    then show ?thesis using Nil t by (intro exI [of _ "Suc N"]) (auto simp: Suc_le_eq dest!: Suc_le_D less_imp_Suc_add)
  next
    case (Cons w ws)
    with "10.IH"(2) "10.prems" obtain M where
      M: "\<forall>n\<ge>M. \<forall>r. pelems n (join '','' (elems_text vs) @ '']'' @ r) = Some (vs, r)" by auto
    have "pelems (Suc n) (t @ '','' @ join '','' (elems_text vs) @ '']'' @ r) = Some (v # vs, r)"
      if "max N M \<le> n" for n r
      using N M that by (simp add: num_end_sep skip_ws_id json_ws_def)
    then show ?thesis using Cons t
      by (intro exI [of _ "Suc (max N M)"]) (auto simp: Suc_le_eq dest!: Suc_le_D less_imp_Suc_add)
  qed
next
  case (12 k v kvs)
  then obtain t where t: "stringify v = Some t" using plain_stringify [of v] by auto
  with "12.IH"(1) "12.prems" obtain N where
    N: "\<forall>n\<ge>N. \<forall>r. num_end r \<longrightarrow> pvalue n (t @ r) = Some (v, r)" by auto
  have q: "quote_str k @ s = CHR 0x22 # (concat (map esc_char k) @ CHR 0x22 # s)" for s
    by (simp add: quote_str_def)
  show ?case
  proof (cases kvs)
    case Nil
    have "pmembers (Suc n) (quote_str k @ '':'' @ t @ ''}'' @ r) = Some ([(k, v)], r)" if "N \<le> n" for n r
      using N that unfolding q by (simp add: num_end_sep skip_ws_id json_ws_def pstring_quote)
    then show ?thesis using Nil t by (intro exI [of _ "Suc N"]) (auto simp: Suc_le_eq dest!: Suc_le_D less_imp_Suc_add)
  next
    case (Cons w ws)
    with "12.IH" "12.prems" t obtain M where
      M: "\<forall>n\<ge>M. \<forall>r. pmembers n (join '','' (members_text kvs) @ ''}'' @ r) = Some (kvs, r)" by auto
    have ne: "members_text kvs \<noteq> []" using Cons "12.prems" plain_stringify by (cases w) fastforce
    have "pmembers (Suc n) (quote_str k @ '':'' @ t @ '','' @ join '','' (members_text kvs) @ ''}'' @ r) = Some ((k, v) # kvs, r)"
      if "max N M \<le> n" for n r
      using N M that unfolding q by (simp add: num_end_sep skip_ws_id json_ws_def pstring_quote)
    then show ?thesis using ne t
      by (intro exI [of _ "Suc (max N M)"]) (auto simp: join_Cons Suc_le_eq dest!: Suc_le_D less_imp_Suc_add)
  qed
qed (auto simp: skip_ws_def json_ws_def Suc_le_eq gr0_conv_Suc intro!: exI [of _ 1])

text \<open>\<open>JSON.parse(JSON.stringify(v))\<close> gives \<open>v\<close> back.\<close>

lemma json_roundtrip:
  assumes "plain v" and "stringify v = Some t"
  shows "json_parse t = Some v"
proof -
  obtain N where N: "\<forall>n\<ge>N. \<forall>r. num_end r \<longrightarrow> pvalue n (t @ r) = Some (v, r)"
    using pvalue_stringify(1) [OF assms] by blast
  have "pvalue (2 * length t + 2) t = pvalue (max N (2 * length t + 2)) t"
    by (rule pvalue_fuel [symmetric]) simp_all
  also have "\<dots> = Some (v, [])"
    using N [rule_format, of "max N (2 * length t + 2)" "[]"] by (simp add: num_end_def)
  finally show ?thesis by (simp add: json_parse_def skip_ws_def)
qed

end
