(* ===== verification/SseStream.thy ===== *)
theory SseStream
  imports Json_Props
begin

text \<open>
  \<open>readEventStream\<close> of \<open>sdk/javascript/src/index.ts\<close>: cutting a chunked text stream into
  Server-Sent Events and extracting their data payloads, and the callback \<open>stream\<close> runs on each
  payload. The chunks are the decoded texts the reader yields; \<open>TextDecoder\<close> in stream mode decodes
  the same text however the bytes are cut, so it is not part of the model.
\<close>

abbreviation LF :: char where
  "LF \<equiv> CHR 0x0A"

section \<open>Cutting events\<close>

text \<open>\<open>buffer.indexOf('\n\n')\<close> with the two slices around it; \<open>None\<close> is \<open>-1\<close>.\<close>

fun split_event :: "string \<Rightarrow> (string \<times> string) option" where
  "split_event [] = None"
| "split_event [c] = None"
| "split_event (a # b # s) =
     (if a = LF \<and> b = LF then Some ([], s)
      else map_option (\<lambda>(e, r). (a # e, r)) (split_event (b # s)))"

definition strip_one_space :: "string \<Rightarrow> string" where
  "strip_one_space s = (case s of c # t \<Rightarrow> if c = CHR '' '' then t else s | [] \<Rightarrow> [])"

definition event_data :: "string \<Rightarrow> string" where
  "event_data rawEvent =
     join [LF] (map (\<lambda>line. strip_one_space (drop 5 line))
       (filter (prefix ''data:'') (split_on LF rawEvent)))"

lemma split_event_length: "split_event s = Some (e, r) \<Longrightarrow> length r < length s"
  by (induction s arbitrary: e rule: split_event.induct) (auto split: if_splits)

text \<open>The inner loop: the payloads handed to \<open>onData\<close> (empty ones are skipped) and what stays in
  the buffer.\<close>

function drain :: "string \<Rightarrow> string list \<times> string" where
  "drain buffer =
     (case split_event buffer of
        None \<Rightarrow> ([], buffer)
      | Some (rawEvent, rest) \<Rightarrow>
          (let data = event_data rawEvent; (ds, b) = drain rest
           in (if data \<noteq> [] then data # ds else ds, b)))"
  by pat_completeness auto
termination
  by (relation "measure length") (auto dest: split_event_length)

declare drain.simps [simp del]

text \<open>One turn of the outer loop, and the whole stream up to \<open>done\<close>.\<close>

definition read_chunk :: "string \<Rightarrow> string \<Rightarrow> string list \<times> string" where
  "read_chunk buffer chunk = drain (buffer @ chunk)"

fun read_chunks :: "string \<Rightarrow> string list \<Rightarrow> string list \<times> string" where
  "read_chunks buffer [] = ([], buffer)"
| "read_chunks buffer (c # cs) =
     (let (ds, b) = read_chunk buffer c; (ds', b') = read_chunks b cs in (ds @ ds', b'))"

definition readEventStream :: "string list \<Rightarrow> string list" where
  "readEventStream chunks = fst (read_chunks [] chunks)"

text \<open>The callback of \<open>stream\<close>: \<open>Some flags\<close> is a call of \<open>onUpdate(flags)\<close>. A payload that is not
  JSON, or that has no property to read, is skipped.\<close>

definition on_data :: "string \<Rightarrow> js option" where
  "on_data data =
     (case json_parse data of
        None \<Rightarrow> None
      | Some payload \<Rightarrow>
          (case js_get payload ''flags'' of
             None \<Rightarrow> None
           | Some flags \<Rightarrow> if truthy flags then Some flags else None))"

section \<open>Chunk boundaries do not matter\<close>

text \<open>A parser fed piece by piece whose state after two pieces is the state after their
  concatenation.\<close>

locale chunked_parser =
  fixes feed :: "'st \<Rightarrow> 'c list \<Rightarrow> 'o list \<times> 'st"
  assumes feed_append: "feed s (a @ b) =
    (fst (feed s a) @ fst (feed (snd (feed s a)) b), snd (feed (snd (feed s a)) b))"
    and feed_settled: "feed (snd (feed s a)) [] = ([], snd (feed s a))"
begin

fun feed_all :: "'st \<Rightarrow> 'c list list \<Rightarrow> 'o list \<times> 'st" where
  "feed_all s [] = ([], s)"
| "feed_all s (c # cs) = (fst (feed s c) @ fst (feed_all (snd (feed s c)) cs),
     snd (feed_all (snd (feed s c)) cs))"

lemma feed_all_concat: "feed_all (snd (feed s a)) cs = feed (snd (feed s a)) (concat cs)"
proof (induction cs arbitrary: s a)
  case (Cons c cs)
  from Cons.IH [of "snd (feed s a)" c] show ?case
    by (simp add: feed_append [of _ c "concat cs"])
qed (simp add: feed_settled)

end

lemma split_event_append: "split_event a = Some (e, r) \<Longrightarrow> split_event (a @ b) = Some (e, r @ b)"
  by (induction a arbitrary: e rule: split_event.induct) (auto split: if_splits)

lemma drain_None: "split_event s = None \<Longrightarrow> drain s = ([], s)"
  by (subst drain.simps) simp

lemma drain_Some: "split_event s = Some (e, r) \<Longrightarrow>
  drain s = ((if event_data e \<noteq> [] then event_data e # fst (drain r) else fst (drain r)), snd (drain r))"
  by (subst drain.simps) (simp add: case_prod_beta Let_def)

lemma drain_rest: "split_event (snd (drain s)) = None"
proof (induction s rule: drain.induct)
  case (1 s)
  show ?case
  proof (cases "split_event s")
    case (Some er)
    then obtain e r where s: "split_event s = Some (e, r)" by (cases er) auto
    then show ?thesis using "1.IH" [OF s refl refl] by (simp add: drain_Some [OF s])
  qed (simp add: drain_None)
qed

lemma drain_append:
  "drain (a @ b) = (fst (drain a) @ fst (drain (snd (drain a) @ b)), snd (drain (snd (drain a) @ b)))"
proof (induction a rule: drain.induct)
  case (1 a)
  show ?case
  proof (cases "split_event a")
    case (Some er)
    then obtain e r where s: "split_event a = Some (e, r)" by (cases er) auto
    have "drain (r @ b) = (fst (drain r) @ fst (drain (snd (drain r) @ b)), snd (drain (snd (drain r) @ b)))"
      by (rule "1.IH" [OF s refl refl])
    then show ?thesis by (simp add: drain_Some [OF s] drain_Some [OF split_event_append [OF s]])
  qed (simp add: drain_None)
qed

interpretation sse: chunked_parser read_chunk
  by unfold_locales (simp_all add: read_chunk_def drain_append [of "_ @ _" _, simplified] drain_None drain_rest)

lemma read_chunks_feed_all: "read_chunks b cs = sse.feed_all b cs"
  by (induction cs arbitrary: b) (simp_all add: case_prod_beta Let_def)

lemma read_chunks_concat: "read_chunks [] cs = read_chunk [] (concat cs)"
proof -
  have "snd (read_chunk [] []) = []" by (simp add: read_chunk_def drain_None)
  then show ?thesis using sse.feed_all_concat [of "[]" "[]" cs] by (simp add: read_chunks_feed_all)
qed

section \<open>Events on the wire\<close>

text \<open>An event as a server writes it: one \<open>data:\<close> line per line of the payload, then a blank line.\<close>

definition event_text :: "string list \<Rightarrow> string" where
  "event_text lines = join [LF] (map (\<lambda>l. ''data: '' @ l) lines) @ [LF, LF]"

text \<open>Joining nonempty lines leaves no blank line, so the first blank line is the event's end.\<close>

lemma split_event_line:
  "LF \<notin> set l \<Longrightarrow> l \<noteq> [] \<Longrightarrow> split_event (l @ LF # LF # s) = Some (l, s)"
  by (induction l rule: split_event.induct) auto

lemma split_event_line_more:
  "LF \<notin> set l \<Longrightarrow> l \<noteq> [] \<Longrightarrow> t \<noteq> [] \<Longrightarrow> hd t \<noteq> LF \<Longrightarrow>
   split_event (l @ LF # t) = map_option (\<lambda>(e, r). (l @ LF # e, r)) (split_event t)"
proof (induction l rule: split_event.induct)
  case (2 c)
  then show ?case by (cases t) (auto simp: option.map_comp comp_def case_prod_beta)
next
  case (3 a b s)
  then show ?case by (auto simp: option.map_comp comp_def case_prod_beta)
qed simp

lemma split_event_lines:
  "ls \<noteq> [] \<Longrightarrow> \<forall>l\<in>set ls. LF \<notin> set l \<and> l \<noteq> [] \<Longrightarrow>
   split_event (join [LF] ls @ LF # LF # s) = Some (join [LF] ls, s)"
proof (induction ls)
  case (Cons l ls)
  show ?case
  proof (cases ls)
    case Nil
    then show ?thesis using Cons.prems by (simp add: split_event_line)
  next
    case (Cons m ms)
    then have ne: "join [LF] ls \<noteq> []" "hd (join [LF] ls @ LF # LF # s) \<noteq> LF"
      using Cons.prems by (cases m; cases ms; auto)+
    have "split_event (join [LF] ls @ LF # LF # s) = Some (join [LF] ls, s)"
      using Cons.IH Cons.prems Cons by auto
    then show ?thesis using Cons Cons.prems ne
      by (simp add: join_Cons split_event_line_more del: join.simps)
  qed
qed simp

lemma event_data_lines:
  "ls \<noteq> [] \<Longrightarrow> \<forall>l\<in>set ls. LF \<notin> set l \<Longrightarrow>
   event_data (join [LF] (map (\<lambda>l. ''data: '' @ l) ls)) = join [LF] ls"
proof -
  assume a: "ls \<noteq> []" "\<forall>l\<in>set ls. LF \<notin> set l"
  have "split_on LF (join [LF] (map (\<lambda>l. ''data: '' @ l) ls)) = map (\<lambda>l. ''data: '' @ l) ls"
    using a by (intro split_on_join) auto
  moreover have "filter (prefix ''data:'') (map (\<lambda>l. ''data: '' @ l) ls) = map (\<lambda>l. ''data: '' @ l) ls"
    by (auto simp: filter_id_conv)
  ultimately show ?thesis
    by (simp add: event_data_def comp_def strip_one_space_def)
qed

lemma drain_event:
  assumes "ls \<noteq> []" "\<forall>l\<in>set ls. LF \<notin> set l"
  shows "drain (event_text ls @ s) =
    ((if join [LF] ls \<noteq> [] then join [LF] ls # fst (drain s) else fst (drain s)), snd (drain s))"
proof -
  have "split_event (join [LF] (map (\<lambda>l. ''data: '' @ l) ls) @ LF # LF # s) =
      Some (join [LF] (map (\<lambda>l. ''data: '' @ l) ls), s)"
    using assms by (intro split_event_lines) auto
  from drain_Some [OF this] show ?thesis
    unfolding event_data_lines [OF assms] by (simp add: event_text_def)
qed

lemma drain_events:
  "\<forall>ls\<in>set evs. ls \<noteq> [] \<and> (\<forall>l\<in>set ls. LF \<notin> set l) \<Longrightarrow>
   drain (concat (map event_text evs)) = (filter (\<lambda>d. d \<noteq> []) (map (join [LF]) evs), [])"
proof (induction evs)
  case (Cons ls evs)
  then show ?case by (simp add: drain_event)
qed (simp add: drain_None)

end
