(* ===== verification/SdkClient.thy ===== *)
theory SdkClient
  imports SseStream
begin

text \<open>
  The per-call client of \<open>sdk/javascript/src/index.ts\<close>: evaluation contexts, \<open>request\<close>, the
  evaluation calls with their fallbacks, and the reconnecting \<open>stream\<close> as a state machine.

  \<open>fetch\<close> is the outside world: a function of the request and the world that returns a network
  error or a response, with the world after it. A rejected promise is the left side of a sum.
\<close>

section \<open>Contexts\<close>

text \<open>\<open>{ ...base, ...attributes }\<close>\<close>

definition spread :: "(string \<times> js) list \<Rightarrow> (string \<times> js) list \<Rightarrow> (string \<times> js) list" where
  "spread base attrs = fold (\<lambda>(k, v) m. AList.update k v m) attrs base"

definition context_of :: "string \<Rightarrow> string \<Rightarrow> (string \<times> js) list \<Rightarrow> js" where
  "context_of kind key attributes = JObj (spread [(''kind'', JStr kind), (''key'', JStr key)] attributes)"

record context_part =
  cp_kind :: string
  cp_key :: string
  cp_attributes :: "(string \<times> js) list option"

definition multiContext :: "context_part list \<Rightarrow> js" where
  "multiContext parts =
     JObj (fold (\<lambda>p ctx. AList.update (cp_kind p)
         (JObj (spread [(''key'', JStr (cp_key p))] (the_default [] (cp_attributes p)))) ctx)
       parts [(''kind'', JStr ''multi'')])"

section \<open>Requests\<close>

record http_request =
  rq_method :: string
  rq_url :: string
  rq_headers :: "(string \<times> string) list"
  rq_body :: "string option"

record http_response =
  rs_status :: int
  rs_body :: "string option"

datatype sdk_error =
    NetworkError string
  | FlagItError int string
  | SyntaxError
  | TypeError
  | NoFetch

type_synonym 'w fetch = "http_request \<Rightarrow> 'w \<Rightarrow> (string + http_response) \<times> 'w"

record 'w client =
  ct_baseUrl :: string
  ct_sdkKey :: string
  ct_fetch :: "'w fetch"

text \<open>\<open>baseUrl.replace(/\/+$/, '')\<close>\<close>

definition strip_slashes :: "string \<Rightarrow> string" where
  "strip_slashes s = rev (dropWhile (\<lambda>c. c = CHR ''/'') (rev s))"

text \<open>\<open>doFetch\<close> is the option, else the global; neither being a function is the thrown error.\<close>

definition createClient :: "string \<Rightarrow> string \<Rightarrow> 'w fetch option \<Rightarrow> 'w fetch option \<Rightarrow> sdk_error + 'w client" where
  "createClient baseUrl sdkKey opt_fetch global_fetch =
     (case (case opt_fetch of Some f \<Rightarrow> Some f | None \<Rightarrow> global_fetch) of
        None \<Rightarrow> Inl NoFetch
      | Some f \<Rightarrow> Inr \<lparr>ct_baseUrl = strip_slashes baseUrl, ct_sdkKey = sdkKey, ct_fetch = f\<rparr>)"

definition ok_status :: "int \<Rightarrow> bool" where
  "ok_status s \<longleftrightarrow> 200 \<le> s \<and> s \<le> 299"

definition request_of :: "'w client \<Rightarrow> string \<Rightarrow> string \<Rightarrow> js option \<Rightarrow> http_request" where
  "request_of c method path body =
     \<lparr>rq_method = method, rq_url = ct_baseUrl c @ path,
      rq_headers = (''X-SDK-Key'', ct_sdkKey c) #
        (if body \<noteq> None then [(''Content-Type'', ''application/json'')] else []),
      rq_body = (case body of Some b \<Rightarrow> stringify b | None \<Rightarrow> None)\<rparr>"

text \<open>\<open>res.json()\<close> rejects on an empty or malformed body.\<close>

definition response_json :: "http_response \<Rightarrow> sdk_error + js" where
  "response_json res =
     (case rs_body res of None \<Rightarrow> Inl SyntaxError
      | Some t \<Rightarrow> (case json_parse t of Some v \<Rightarrow> Inr v | None \<Rightarrow> Inl SyntaxError))"

definition request :: "'w client \<Rightarrow> string \<Rightarrow> string \<Rightarrow> js option \<Rightarrow> 'w \<Rightarrow> (sdk_error + js) \<times> 'w" where
  "request c method path body w =
     (case ct_fetch c (request_of c method path body) w of
        (Inl e, w') \<Rightarrow> (Inl (NetworkError e), w')
      | (Inr res, w') \<Rightarrow>
          (if \<not> ok_status (rs_status res) then (Inl (FlagItError (rs_status res) path), w')
           else if rs_status res = 202 \<or> rs_status res = 204 then (Inr JUndef, w')
           else (response_json res, w')))"

definition evaluate :: "'w client \<Rightarrow> string \<Rightarrow> js \<Rightarrow> 'w \<Rightarrow> (sdk_error + js) \<times> 'w" where
  "evaluate c flagKey ctx w =
     request c ''POST'' ''/api/v1/eval'' (Some (JObj [(''flag_key'', JStr flagKey), (''context'', ctx)])) w"

text \<open>Any rejection, a missing \<open>value\<close> and a result that has no properties all give \<open>undefined\<close>.\<close>

definition safeValue :: "'w client \<Rightarrow> string \<Rightarrow> js \<Rightarrow> 'w \<Rightarrow> js \<times> 'w" where
  "safeValue c flagKey ctx w =
     (case evaluate c flagKey ctx w of
        (Inl e, w') \<Rightarrow> (JUndef, w')
      | (Inr v, w') \<Rightarrow> (case js_get v ''value'' of Some x \<Rightarrow> (x, w') | None \<Rightarrow> (JUndef, w')))"

definition bool_or :: "bool \<Rightarrow> js \<Rightarrow> bool" where
  "bool_or fallback v = (case v of JBool b \<Rightarrow> b | _ \<Rightarrow> fallback)"

definition string_or :: "string \<Rightarrow> js \<Rightarrow> string" where
  "string_or fallback v = (case v of JStr s \<Rightarrow> s | _ \<Rightarrow> fallback)"

definition number_or :: "rat \<Rightarrow> js \<Rightarrow> rat" where
  "number_or fallback v = (case v of JNum n \<Rightarrow> n | _ \<Rightarrow> fallback)"

definition value_or :: "js \<Rightarrow> js \<Rightarrow> js" where
  "value_or fallback v = (case v of JUndef \<Rightarrow> fallback | _ \<Rightarrow> v)"

definition boolVariation :: "'w client \<Rightarrow> string \<Rightarrow> js \<Rightarrow> bool \<Rightarrow> 'w \<Rightarrow> bool \<times> 'w" where
  "boolVariation c flagKey ctx fallback w = apfst (bool_or fallback) (safeValue c flagKey ctx w)"

definition stringVariation :: "'w client \<Rightarrow> string \<Rightarrow> js \<Rightarrow> string \<Rightarrow> 'w \<Rightarrow> string \<times> 'w" where
  "stringVariation c flagKey ctx fallback w = apfst (string_or fallback) (safeValue c flagKey ctx w)"

definition numberVariation :: "'w client \<Rightarrow> string \<Rightarrow> js \<Rightarrow> rat \<Rightarrow> 'w \<Rightarrow> rat \<times> 'w" where
  "numberVariation c flagKey ctx fallback w = apfst (number_or fallback) (safeValue c flagKey ctx w)"

definition variation :: "'w client \<Rightarrow> string \<Rightarrow> js \<Rightarrow> js \<Rightarrow> 'w \<Rightarrow> js \<times> 'w" where
  "variation c flagKey ctx fallback w = apfst (value_or fallback) (safeValue c flagKey ctx w)"

text \<open>\<open>out.flags ?? {}\<close>\<close>

definition allFlags :: "'w client \<Rightarrow> js \<Rightarrow> 'w \<Rightarrow> (sdk_error + js) \<times> 'w" where
  "allFlags c ctx w =
     (case request c ''POST'' ''/api/v1/eval/all'' (Some (JObj [(''context'', ctx)])) w of
        (Inl e, w') \<Rightarrow> (Inl e, w')
      | (Inr out, w') \<Rightarrow>
          (case js_get out ''flags'' of
             None \<Rightarrow> (Inl TypeError, w')
           | Some v \<Rightarrow> (Inr (if v = JUndef \<or> v = JNull then JObj [] else v), w')))"

definition sendEvents :: "'w client \<Rightarrow> js \<Rightarrow> 'w \<Rightarrow> (sdk_error + unit) \<times> 'w" where
  "sendEvents c summary w =
     (case request c ''POST'' ''/api/v1/events'' (Some summary) w of
        (Inl e, w') \<Rightarrow> (Inl e, w') | (Inr _, w') \<Rightarrow> (Inr (), w'))"

section \<open>The stream\<close>

text \<open>\<open>encodeURIComponent\<close>: unreserved characters stay, the others are their UTF-8 bytes in hex.\<close>

definition unreserved :: "char \<Rightarrow> bool" where
  "unreserved c \<longleftrightarrow> (let n = code_unit c in
     (48 \<le> n \<and> n \<le> 57) \<or> (65 \<le> n \<and> n \<le> 90) \<or> (97 \<le> n \<and> n \<le> 122)) \<or> c \<in> set ''-_.!~*()'' \<or> c = CHR 0x27"

definition upper_hex :: "nat \<Rightarrow> char" where
  "upper_hex d = (if d < 10 then char_of (48 + d) else char_of (55 + d))"

definition pct_byte :: "nat \<Rightarrow> string" where
  "pct_byte b = [CHR ''%'', upper_hex (b div 16), upper_hex (b mod 16)]"

definition encode_char :: "char \<Rightarrow> string" where
  "encode_char c = (let n = code_unit c in
     if unreserved c then [c]
     else if n < 128 then pct_byte n
     else pct_byte (192 + n div 64) @ pct_byte (128 + n mod 64))"

definition encodeURIComponent :: "string \<Rightarrow> string" where
  "encodeURIComponent s = concat (map encode_char s)"

definition stream_request :: "'w client \<Rightarrow> js \<Rightarrow> http_request" where
  "stream_request c ctx =
     \<lparr>rq_method = ''GET'',
      rq_url = ct_baseUrl c @ ''/api/v1/eval/stream?context='' @
        encodeURIComponent (the_default ''undefined'' (stringify ctx)),
      rq_headers = [(''X-SDK-Key'', ct_sdkKey c), (''Accept'', ''text/event-stream'')],
      rq_body = None\<rparr>"

text \<open>
  Where \<open>run\<close> is suspended: awaiting the response, awaiting the next chunk (with the text buffered
  so far), awaiting the reconnect delay, or returned.
\<close>

datatype phase = Connecting | Reading string | Sleeping int | Stopped

record stream =
  sm_phase :: phase
  sm_backoff :: int
  sm_closed :: bool

text \<open>What can happen to a stream: \<open>fetch\<close> rejects or responds (status, and whether there is a
  body), the reader yields a chunk, ends or rejects, the delay elapses, or the caller closes it.\<close>

datatype stream_event =
    FetchFails string
  | FetchResponds int bool
  | Chunk string
  | BodyEnds
  | ReadFails string
  | TimerFires
  | Close

datatype stream_effect =
    OnUpdate js
  | OnError sdk_error
  | OpenRequest
  | Delay int
  | Abort

definition initial_stream :: stream where
  "initial_stream = \<lparr>sm_phase = Connecting, sm_backoff = 1000, sm_closed = False\<rparr>"

text \<open>After an attempt ends without an exception: \<open>if (closed) return; await delay(backoff)\<close>.\<close>

definition after_attempt :: "stream \<Rightarrow> stream \<times> stream_effect list" where
  "after_attempt s =
     (if sm_closed s then (s\<lparr>sm_phase := Stopped\<rparr>, [])
      else (s\<lparr>sm_phase := Sleeping (sm_backoff s)\<rparr>, [Delay (sm_backoff s)]))"

text \<open>The \<open>catch\<close> clause; closing aborts the controller, so the two flags agree.\<close>

definition caught :: "sdk_error \<Rightarrow> stream \<Rightarrow> stream \<times> stream_effect list" where
  "caught err s =
     (if sm_closed s then (s\<lparr>sm_phase := Stopped\<rparr>, [])
      else (let (s', fx) = after_attempt s in (s', OnError err # fx)))"

fun stream_step :: "stream \<Rightarrow> stream_event \<Rightarrow> stream \<times> stream_effect list" where
  "stream_step s Close = (s\<lparr>sm_closed := True\<rparr>, [Abort])"
| "stream_step s (FetchFails e) =
     (case sm_phase s of Connecting \<Rightarrow> caught (NetworkError e) s | _ \<Rightarrow> (s, []))"
| "stream_step s (FetchResponds status has_body) =
     (case sm_phase s of
        Connecting \<Rightarrow>
          if \<not> ok_status status \<or> \<not> has_body then caught (FlagItError status ''/api/v1/eval/stream'') s
          else (s\<lparr>sm_phase := Reading [], sm_backoff := 1000\<rparr>, [])
      | _ \<Rightarrow> (s, []))"
| "stream_step s (Chunk text) =
     (case sm_phase s of
        Reading buffer \<Rightarrow>
          (let (ds, b) = read_chunk buffer text
           in (s\<lparr>sm_phase := Reading b\<rparr>, map OnUpdate (List.map_filter on_data ds)))
      | _ \<Rightarrow> (s, []))"
| "stream_step s BodyEnds =
     (case sm_phase s of Reading _ \<Rightarrow> after_attempt s | _ \<Rightarrow> (s, []))"
| "stream_step s (ReadFails e) =
     (case sm_phase s of Reading _ \<Rightarrow> caught (NetworkError e) s | _ \<Rightarrow> (s, []))"
| "stream_step s TimerFires =
     (case sm_phase s of
        Sleeping _ \<Rightarrow>
          (let s' = s\<lparr>sm_backoff := min (sm_backoff s * 2) 30000\<rparr>
           in if sm_closed s then (s'\<lparr>sm_phase := Stopped\<rparr>, [])
              else (s'\<lparr>sm_phase := Connecting\<rparr>, [OpenRequest]))
      | _ \<Rightarrow> (s, []))"

fun stream_run :: "stream \<Rightarrow> stream_event list \<Rightarrow> stream \<times> stream_effect list" where
  "stream_run s [] = (s, [])"
| "stream_run s (e # es) =
     (let (s', fx) = stream_step s e; (s'', fx') = stream_run s' es in (s'', fx @ fx'))"

end
