(* ===== verification/SdkClient_Props.thy ===== *)
theory SdkClient_Props
  imports SdkClient
begin

text \<open>
  Lemmas about the per-call client and its stream: what the contexts hold, that the fallback calls
  never see an error, the bounds of the reconnect delay, silence after \<open>close()\<close>, and the
  delivery of the snapshots a server writes however they are cut into chunks.
\<close>

section \<open>Contexts\<close>

lemma spread_map_of: "map_of (spread base attrs) = map_of base ++ map_of (rev attrs)"
proof (induction attrs arbitrary: base)
  case (Cons kv attrs)
  obtain k v where kv: "kv = (k, v)" by (cases kv)
  have "map_of (spread base (kv # attrs)) = map_of (spread (AList.update k v base) attrs)"
    by (simp add: spread_def kv)
  also have "\<dots> = map_of (AList.update k v base) ++ map_of (rev attrs)" by (rule Cons.IH)
  finally show ?case by (simp add: kv update_conv' map_add_assoc [symmetric] del: map_add_assoc)
    (rule ext, simp add: map_add_def split: option.splits)
qed (simp add: spread_def)

lemma context_of_get:
  "js_get (context_of kind key attrs) k =
     Some (case map_of (rev attrs) k of Some v \<Rightarrow> v
       | None \<Rightarrow> if k = ''kind'' then JStr kind else if k = ''key'' then JStr key else inherited k)"
  by (simp add: context_of_def spread_map_of map_add_def split: option.splits)

lemma multiContext_fold:
  "map_of (fold (\<lambda>p ctx. AList.update (cp_kind p) (f p) ctx) parts base) k =
     (case map_of (rev (map (\<lambda>p. (cp_kind p, f p)) parts)) k of Some v \<Rightarrow> Some v | None \<Rightarrow> map_of base k)"
proof (induction parts arbitrary: base)
  case (Cons p parts)
  show ?case by (auto simp: Cons.IH update_conv' split: option.splits)
qed simp

section \<open>Calls\<close>

lemma request_ok:
  assumes "ct_fetch c (request_of c m p b) w = (Inr res, w')" "ok_status (rs_status res)"
    "rs_status res \<notin> {202, 204}" "rs_body res = Some t" "stringify v = Some t" "plain v"
  shows "request c m p b w = (Inr v, w')"
  using assms by (simp add: request_def response_json_def json_roundtrip)

lemma safeValue_error: "evaluate c f ctx w = (Inl e, w') \<Longrightarrow> safeValue c f ctx w = (JUndef, w')"
  by (simp add: safeValue_def)

lemma strip_slashes_snoc [simp]: "strip_slashes (s @ ''/'') = strip_slashes s"
  by (simp add: strip_slashes_def)

lemma strip_slashes_last: "strip_slashes s \<noteq> [] \<Longrightarrow> last (strip_slashes s) \<noteq> CHR ''/''"
proof -
  assume ne: "strip_slashes s \<noteq> []"
  then have "dropWhile (\<lambda>c. c = CHR ''/'') (rev s) \<noteq> []" by (simp add: strip_slashes_def)
  from hd_dropWhile [OF this] this show ?thesis by (simp add: strip_slashes_def last_rev)
qed

section \<open>Printed values have no raw control character\<close>

lemma show_nat_printable: "c \<in> set (show_nat n) \<Longrightarrow> 32 \<le> code_unit c"
  using show_nat_digits [of n] by (auto simp: is_digit_def)

lemma show_int_printable: "c \<in> set (show_int i) \<Longrightarrow> 32 \<le> code_unit c"
  by (auto simp: show_int_def code_unit_def [of "CHR ''-''"] dest: show_nat_printable split: if_splits)

definition printable :: "string \<Rightarrow> bool" where
  "printable s \<longleftrightarrow> (\<forall>c\<in>set s. 32 \<le> code_unit c)"

lemma printable_simps [simp]:
  "printable []" "printable (c # s) \<longleftrightarrow> 32 \<le> code_unit c \<and> printable s"
  "printable (a @ b) \<longleftrightarrow> printable a \<and> printable b"
  by (auto simp: printable_def)

lemma printable_join: "printable sep \<Longrightarrow> \<forall>x\<in>set xs. printable x \<Longrightarrow> printable (join sep xs)"
  by (induction sep xs rule: join.induct) auto

lemma printable_code:
  "32 \<le> code_unit CHR '',''" "32 \<le> code_unit CHR '':''" "32 \<le> code_unit CHR ''[''" "32 \<le> code_unit CHR '']''"
  "32 \<le> code_unit CHR ''{''" "32 \<le> code_unit CHR ''}''" "32 \<le> code_unit CHR ''a''" "32 \<le> code_unit CHR ''e''"
  "32 \<le> code_unit CHR ''f''" "32 \<le> code_unit CHR ''l''" "32 \<le> code_unit CHR ''n''" "32 \<le> code_unit CHR ''r''"
  "32 \<le> code_unit CHR ''s''" "32 \<le> code_unit CHR ''t''" "32 \<le> code_unit CHR ''u''"
  by (simp_all add: code_unit_def)

lemma stringify_printable:
  shows "plain v \<Longrightarrow> stringify v = Some t \<Longrightarrow> printable t"
    and "list_all plain vs \<Longrightarrow> \<forall>x\<in>set (elems_text vs). printable x"
    and "list_all (\<lambda>kv. plain (snd kv)) kvs \<Longrightarrow> \<forall>x\<in>set (members_text kvs). printable x"
proof (induction v and vs and kvs arbitrary: t rule: stringify_elems_text_members_text.induct)
  case (4 n)
  then have "t = show_int \<lfloor>n\<rfloor>" using show_num_plain by auto
  then show ?case by (auto simp: printable_def dest: show_int_printable)
next
  case (5 s)
  then show ?case by (auto simp: printable_def dest: quote_str_printable)
next
  case (12 k v kvs)
  then show ?case
    by (auto simp: printable_code split: option.splits)
      (auto simp: printable_def dest: quote_str_printable)
qed (auto simp: printable_code intro!: printable_join split: option.splits if_splits)

lemma stringify_no_LF: "plain v \<Longrightarrow> stringify v = Some t \<Longrightarrow> LF \<notin> set t"
  by (drule (1) stringify_printable) (auto simp: printable_def code_unit_def)

section \<open>The stream machine\<close>

definition stream_inv :: "stream \<Rightarrow> bool" where
  "stream_inv s \<longleftrightarrow> 1000 \<le> sm_backoff s \<and> sm_backoff s \<le> 30000 \<and>
     (case sm_phase s of
        Sleeping d \<Rightarrow> d = sm_backoff s
      | Reading b \<Rightarrow> split_event b = None
      | Stopped \<Rightarrow> sm_closed s
      | Connecting \<Rightarrow> True)"

lemma stream_step_inv: "stream_inv s \<Longrightarrow> stream_inv (fst (stream_step s e))"
  using drain_rest
  by (cases e; cases "sm_phase s")
    (auto simp: stream_inv_def caught_def after_attempt_def Let_def read_chunk_def case_prod_beta)

interpretation strm: invariant_machine "\<lambda>s e. fst (stream_step s e)" stream_inv
  by unfold_locales (rule stream_step_inv)

lemma stream_run_fst: "fst (stream_run s es) = fold (\<lambda>e s. fst (stream_step s e)) es s"
  by (induction es arbitrary: s) (simp_all add: case_prod_beta Let_def)

lemma stream_run_inv: "stream_inv s \<Longrightarrow> stream_inv (fst (stream_run s es))"
  by (simp add: stream_run_fst strm.run_inv)

lemma stream_run_Cons_snd:
  "snd (stream_run s (e # es)) = snd (stream_step s e) @ snd (stream_run (fst (stream_step s e)) es)"
  by (simp add: case_prod_beta Let_def)

lemma stream_run_append:
  "stream_run s (es @ es') =
     (fst (stream_run (fst (stream_run s es)) es'),
      snd (stream_run s es) @ snd (stream_run (fst (stream_run s es)) es'))"
  by (induction es arbitrary: s) (simp_all add: case_prod_beta Let_def)

lemma initial_stream_inv: "stream_inv initial_stream"
  by (simp add: stream_inv_def initial_stream_def)

text \<open>The delays asked for: an invariant of the run gives their bounds.\<close>

lemma stream_step_delay:
  "stream_inv s \<Longrightarrow> Delay d \<in> set (snd (stream_step s e)) \<Longrightarrow> 1000 \<le> d \<and> d \<le> 30000"
  by (cases e; cases "sm_phase s")
    (auto simp: stream_inv_def caught_def after_attempt_def Let_def case_prod_beta split: if_splits)

lemma stream_run_delay:
  "stream_inv s \<Longrightarrow> Delay d \<in> set (snd (stream_run s es)) \<Longrightarrow> 1000 \<le> d \<and> d \<le> 30000"
proof (induction es arbitrary: s)
  case (Cons e es)
  then show ?case
    using stream_step_delay [of s d e] Cons.IH [OF stream_step_inv [OF Cons.prems(1)]]
    by (auto simp: stream_run_Cons_snd simp del: stream_run.simps)
qed simp

text \<open>Once closed, a stream stays closed and only deliveries and further aborts can be seen.\<close>

lemma stream_step_closed: "sm_closed s \<Longrightarrow> sm_closed (fst (stream_step s e))"
  by (cases e; cases "sm_phase s") (auto simp: caught_def after_attempt_def Let_def case_prod_beta)

lemma stream_step_closed_fx:
  "sm_closed s \<Longrightarrow> fx \<in> set (snd (stream_step s e)) \<Longrightarrow> fx = Abort \<or> (\<exists>v. fx = OnUpdate v)"
  by (cases e; cases "sm_phase s")
    (auto simp: caught_def after_attempt_def Let_def case_prod_beta split: if_splits)

lemma stream_run_closed:
  "sm_closed s \<Longrightarrow> fx \<in> set (snd (stream_run s es)) \<Longrightarrow> fx = Abort \<or> (\<exists>v. fx = OnUpdate v)"
proof (induction es arbitrary: s)
  case (Cons e es)
  then show ?case
    using stream_step_closed_fx [of s fx e] Cons.IH [OF stream_step_closed [OF Cons.prems(1)]]
    by (auto simp: stream_run_Cons_snd simp del: stream_run.simps)
qed simp

section \<open>Exponential backoff\<close>

definition nth_delay :: "nat \<Rightarrow> int" where
  "nth_delay i = min (1000 * 2 ^ i) 30000"

lemma nth_delay_Suc: "nth_delay (Suc i) = min (nth_delay i * 2) 30000"
  by (simp add: nth_delay_def min_def)

lemma failing_cycles:
  "sm_phase s = Connecting \<Longrightarrow> \<not> sm_closed s \<Longrightarrow> sm_backoff s = nth_delay i \<Longrightarrow>
   stream_run s (concat (replicate k [FetchFails e, TimerFires])) =
     (s\<lparr>sm_backoff := nth_delay (i + k)\<rparr>,
      concat (map (\<lambda>j. [OnError (NetworkError e), Delay (nth_delay j), OpenRequest]) [i..<i + k]))"
proof (induction k arbitrary: s i)
  case (Suc k)
  let ?s = "s\<lparr>sm_backoff := nth_delay (Suc i)\<rparr>"
  have "stream_run ?s (concat (replicate k [FetchFails e, TimerFires])) =
     (?s\<lparr>sm_backoff := nth_delay (Suc i + k)\<rparr>,
      concat (map (\<lambda>j. [OnError (NetworkError e), Delay (nth_delay j), OpenRequest]) [Suc i..<Suc i + k]))"
    using Suc.prems by (intro Suc.IH) auto
  moreover have "[i..<i + Suc k] = i # [Suc i..<Suc i + k]" by (simp add: upt_rec)
  moreover have "s = \<lparr>sm_phase = Connecting, sm_backoff = nth_delay i, sm_closed = False\<rparr>"
    using Suc.prems by (cases s) simp
  ultimately show ?case
    by (simp add: caught_def after_attempt_def Let_def nth_delay_Suc del: upt_Suc)
qed simp

section \<open>Snapshots arrive whatever the chunks\<close>

definition snapshot_text :: "js \<Rightarrow> string" where
  "snapshot_text flags = the (stringify (JObj [(''flags'', flags)]))"

lemma snapshot_plain: "plain flags \<Longrightarrow>
  stringify (JObj [(''flags'', flags)]) = Some (snapshot_text flags) \<and> LF \<notin> set (snapshot_text flags)
    \<and> snapshot_text flags \<noteq> []"
proof -
  assume p: "plain flags"
  then have v: "plain (JObj [(''flags'', flags)])" by simp
  then show ?thesis
    using plain_stringify [OF v] stringify_no_LF [OF v] stringify_hd [OF v]
    by (auto simp: snapshot_text_def simp del: stringify.simps plain.simps)
qed

lemma on_data_snapshot: "plain flags \<Longrightarrow> truthy flags \<Longrightarrow> on_data (snapshot_text flags) = Some flags"
proof -
  assume p: "plain flags" "truthy flags"
  then have "plain (JObj [(''flags'', flags)])" by simp
  with snapshot_plain [OF p(1)] have "json_parse (snapshot_text flags) = Some (JObj [(''flags'', flags)])"
    using json_roundtrip by blast
  then show ?thesis using p by (simp add: on_data_def)
qed

lemma stream_run_chunks:
  "sm_phase s = Reading b \<Longrightarrow>
   stream_run s (map Chunk cs) =
     (s\<lparr>sm_phase := Reading (snd (read_chunks b cs))\<rparr>,
      map OnUpdate (List.map_filter on_data (fst (read_chunks b cs))))"
proof (induction cs arbitrary: s b)
  case Nil
  then show ?case by (cases s) (simp add: map_filter_simps)
next
  case (Cons c cs)
  have "stream_run (s\<lparr>sm_phase := Reading (snd (read_chunk b c))\<rparr>) (map Chunk cs) =
      (s\<lparr>sm_phase := Reading (snd (read_chunks (snd (read_chunk b c)) cs))\<rparr>,
       map OnUpdate (List.map_filter on_data (fst (read_chunks (snd (read_chunk b c)) cs))))"
    using Cons.IH [of "s\<lparr>sm_phase := Reading (snd (read_chunk b c))\<rparr>"] by simp
  then show ?case using Cons.prems by (simp add: case_prod_beta Let_def map_filter_def)
qed

lemma stream_delivers:
  assumes s: "sm_phase s = Reading []"
    and fs: "\<forall>f\<in>set fs. plain f \<and> truthy f"
    and cs: "concat cs = concat (map (\<lambda>f. event_text [snapshot_text f]) fs)"
  shows "snd (stream_run s (map Chunk cs)) = map OnUpdate fs"
proof -
  have "\<forall>ls\<in>set (map (\<lambda>f. [snapshot_text f]) fs). ls \<noteq> [] \<and> (\<forall>l\<in>set ls. LF \<notin> set l)"
    using fs snapshot_plain by auto
  from drain_events [OF this] have "drain (concat cs) =
      (filter (\<lambda>d. d \<noteq> []) (map snapshot_text fs), [])"
    by (simp add: cs comp_def)
  also have "filter (\<lambda>d. d \<noteq> []) (map snapshot_text fs) = map snapshot_text fs"
    using fs snapshot_plain by (auto intro: filter_True)
  finally have "read_chunks [] cs = (map snapshot_text fs, [])"
    by (simp add: read_chunks_concat read_chunk_def)
  moreover have "List.map_filter on_data (map snapshot_text fs) = fs"
    using fs by (induction fs) (simp_all add: map_filter_simps on_data_snapshot)
  ultimately show ?thesis by (simp add: stream_run_chunks [OF s])
qed

end
