(* ===== verification/SdkCached.thy ===== *)
theory SdkCached
  imports SdkClient_Props
begin

text \<open>
  The cached client of \<open>sdk/javascript/src/index.ts\<close> (\<open>createCachedClient\<close>): a store filled by a
  stream, synchronous reads that count usage, batched flushes, and \<open>identify\<close>/\<open>close\<close>.

  The state holds every stream ever started (the last one is \<open>handle\<close>), because a stream that was
  closed can still be suspended in a read. Promises and listeners are numbers. \<open>identify\<close> suspends
  at \<open>await flush()\<close>: its two halves are the events \<open>Identify\<close> and \<open>IdentifyResume\<close>.
\<close>

type_synonym usage = "(string \<times> (js \<times> nat) list) list"

record cached =
  cc_track :: bool
  cc_store :: js
  cc_ready :: bool
  cc_context :: js
  cc_streams :: "stream list"
  cc_listeners :: "nat list"
  cc_waiters :: "nat list"
  cc_resolved :: "nat list"
  cc_next :: nat
  cc_counts :: usage
  cc_timer :: bool
  cc_identifying :: "js list"

datatype cached_effect =
    StreamFx nat stream_effect
  | Send usage
  | ReportError sdk_error
  | Notify nat

datatype cached_event =
    StreamEv nat stream_event
  | Read string
  | FlushCall
  | FlushFails sdk_error
  | WaitForInit
  | Subscribe nat
  | Unsubscribe nat
  | Identify js
  | IdentifyResume nat
  | CloseClient

section \<open>The operations\<close>

definition startStream :: "cached \<Rightarrow> cached \<times> cached_effect list" where
  "startStream st =
     (st\<lparr>cc_streams := cc_streams st @ [initial_stream]\<rparr>,
      [StreamFx (length (cc_streams st)) OpenRequest])"

text \<open>\<open>createCachedClient\<close>; the interval runs only when events are tracked.\<close>

definition createCachedClient :: "js \<Rightarrow> bool \<Rightarrow> int \<Rightarrow> cached \<times> cached_effect list" where
  "createCachedClient ctx trackEvents flushIntervalMs =
     startStream \<lparr>cc_track = trackEvents, cc_store = JObj [], cc_ready = False, cc_context = ctx,
       cc_streams = [], cc_listeners = [], cc_waiters = [], cc_resolved = [], cc_next = 0,
       cc_counts = [], cc_timer = (0 < flushIntervalMs \<and> trackEvents), cc_identifying = []\<rparr>"

definition markReady :: "cached \<Rightarrow> cached" where
  "markReady st = st\<lparr>cc_ready := True, cc_resolved := cc_resolved st @ cc_waiters st, cc_waiters := []\<rparr>"

text \<open>The \<open>onUpdate\<close> callback of every stream.\<close>

definition onUpdate :: "js \<Rightarrow> cached \<Rightarrow> cached \<times> cached_effect list" where
  "onUpdate flags st =
     (let st1 = st\<lparr>cc_store := flags\<rparr>;
          st2 = (if \<not> cc_ready st1 then markReady st1 else st1)
      in (st2, map Notify (cc_listeners st2)))"

definition record_use :: "string \<Rightarrow> js \<Rightarrow> cached \<Rightarrow> cached" where
  "record_use flagKey v st =
     (if \<not> cc_track st then st
      else (let byVariation = the_default [] (map_of (cc_counts st) flagKey);
                n = the_default 0 (map_of byVariation v)
            in st\<lparr>cc_counts := AList.update flagKey (AList.update v (n + 1) byVariation) (cc_counts st)\<rparr>))"

text \<open>\<open>store[flagKey]\<close>, and \<open>read\<close>, which counts what it finds.\<close>

definition lookup :: "cached \<Rightarrow> string \<Rightarrow> js" where
  "lookup st flagKey = the_default JUndef (js_get (cc_store st) flagKey)"

definition read :: "cached \<Rightarrow> string \<Rightarrow> js \<times> cached" where
  "read st flagKey =
     (let ev = lookup st flagKey
      in (ev, if truthy ev then record_use flagKey (the_default JUndef (js_get ev ''variation'')) st else st))"

definition value_of :: "js \<Rightarrow> js" where
  "value_of ev = (if truthy ev then the_default JUndef (js_get ev ''value'') else JUndef)"

definition cachedBool :: "cached \<Rightarrow> string \<Rightarrow> bool \<Rightarrow> bool" where
  "cachedBool st flagKey fallback = bool_or fallback (value_of (fst (read st flagKey)))"

definition cachedString :: "cached \<Rightarrow> string \<Rightarrow> string \<Rightarrow> string" where
  "cachedString st flagKey fallback = string_or fallback (value_of (fst (read st flagKey)))"

definition cachedNumber :: "cached \<Rightarrow> string \<Rightarrow> rat \<Rightarrow> rat" where
  "cachedNumber st flagKey fallback = number_or fallback (value_of (fst (read st flagKey)))"

text \<open>\<open>ev ? ev.value : fallback\<close>: a missing \<open>value\<close> is not replaced.\<close>

definition cachedVariation :: "cached \<Rightarrow> string \<Rightarrow> js \<Rightarrow> js" where
  "cachedVariation st flagKey fallback =
     (let ev = fst (read st flagKey) in if truthy ev then the_default JUndef (js_get ev ''value'') else fallback)"

definition cachedAllFlags :: "cached \<Rightarrow> (string \<times> js) list" where
  "cachedAllFlags st = (case cc_store st of JObj kvs \<Rightarrow> kvs | _ \<Rightarrow> [])"

text \<open>The synchronous part of \<open>flush\<close>: the summary is taken and the buffer cleared before the send.\<close>

definition flush :: "cached \<Rightarrow> cached \<times> cached_effect list" where
  "flush st = (if cc_counts st = [] then (st, [])
     else (st\<lparr>cc_counts := []\<rparr>, [Send (cc_counts st)]))"

text \<open>The body of the request \<open>flush\<close> makes.\<close>

definition summary_json :: "usage \<Rightarrow> js" where
  "summary_json counts =
     JObj [(''flags'', JObj (map (\<lambda>(flagKey, byVariation).
       (flagKey, JObj [(''counters'', JArr (map (\<lambda>(v, n).
          JObj [(''variation'', v), (''count'', JNum (of_nat n))]) byVariation))])) counts))]"

text \<open>\<open>handle?.close()\<close>\<close>

definition close_handle :: "cached \<Rightarrow> cached \<times> cached_effect list" where
  "close_handle st =
     (let i = length (cc_streams st) - 1
      in if cc_streams st = [] then (st, [])
         else (st\<lparr>cc_streams := (cc_streams st)[i := fst (stream_step (cc_streams st ! i) Close)]\<rparr>,
               map (StreamFx i) (snd (stream_step (cc_streams st ! i) Close))))"

definition new_waiter :: "cached \<Rightarrow> cached" where
  "new_waiter st = st\<lparr>cc_waiters := cc_waiters st @ [cc_next st], cc_next := Suc (cc_next st)\<rparr>"

text \<open>\<open>waitForInitialization\<close>: a resolved promise, or one that the next snapshot resolves.\<close>

definition waitForInitialization :: "cached \<Rightarrow> cached" where
  "waitForInitialization st =
     (if cc_ready st
      then st\<lparr>cc_resolved := cc_resolved st @ [cc_next st], cc_next := Suc (cc_next st)\<rparr>
      else new_waiter st)"

text \<open>\<open>identify\<close> from the resumption after \<open>await flush()\<close> on.\<close>

definition identify_resume :: "js \<Rightarrow> cached \<Rightarrow> cached \<times> cached_effect list" where
  "identify_resume ctx st =
     (let (st1, fx1) = close_handle st;
          st2 = new_waiter (st1\<lparr>cc_store := JObj [], cc_ready := False, cc_context := ctx\<rparr>);
          (st3, fx3) = startStream st2
      in (st3, fx1 @ fx3))"

text \<open>The effects of one stream step, as the callbacks \<open>onUpdate\<close> and \<open>onError\<close> turn them into
  effects of the client.\<close>

fun stream_effects :: "nat \<Rightarrow> stream_effect list \<Rightarrow> cached \<Rightarrow> cached \<times> cached_effect list" where
  "stream_effects i [] st = (st, [])"
| "stream_effects i (OnUpdate flags # fxs) st =
     (let (st1, fx1) = onUpdate flags st; (st2, fx2) = stream_effects i fxs st1 in (st2, fx1 @ fx2))"
| "stream_effects i (OnError e # fxs) st =
     (let (st2, fx2) = stream_effects i fxs st in (st2, ReportError e # fx2))"
| "stream_effects i (fx # fxs) st =
     (let (st2, fx2) = stream_effects i fxs st in (st2, StreamFx i fx # fx2))"

fun cached_step :: "cached \<Rightarrow> cached_event \<Rightarrow> cached \<times> cached_effect list" where
  "cached_step st (StreamEv i e) =
     (if i < length (cc_streams st) \<and> e \<noteq> Close then
        (let (s', fx) = stream_step (cc_streams st ! i) e
         in stream_effects i fx (st\<lparr>cc_streams := (cc_streams st)[i := s']\<rparr>))
      else (st, []))"
| "cached_step st (Read flagKey) = (snd (read st flagKey), [])"
| "cached_step st FlushCall = flush st"
| "cached_step st (FlushFails e) = (st, [ReportError e])"
| "cached_step st WaitForInit = (waitForInitialization st, [])"
| "cached_step st (Subscribe l) =
     (st\<lparr>cc_listeners := (if l \<in> set (cc_listeners st) then cc_listeners st else cc_listeners st @ [l])\<rparr>, [])"
| "cached_step st (Unsubscribe l) = (st\<lparr>cc_listeners := filter (\<lambda>x. x \<noteq> l) (cc_listeners st)\<rparr>, [])"
| "cached_step st (Identify ctx) =
     (let (st1, fx) = flush st in (st1\<lparr>cc_identifying := cc_identifying st1 @ [ctx]\<rparr>, fx))"
| "cached_step st (IdentifyResume i) =
     (if i < length (cc_identifying st) then
        identify_resume (cc_identifying st ! i) (st\<lparr>cc_identifying := remove_at i (cc_identifying st)\<rparr>)
      else (st, []))"
| "cached_step st CloseClient =
     (let (st1, fx1) = close_handle (st\<lparr>cc_timer := False\<rparr>); (st2, fx2) = flush st1 in (st2, fx1 @ fx2))"

fun cached_run :: "cached \<Rightarrow> cached_event list \<Rightarrow> cached \<times> cached_effect list" where
  "cached_run st [] = (st, [])"
| "cached_run st (e # es) =
     (let (st1, fx1) = cached_step st e; (st2, fx2) = cached_run st1 es in (st2, fx1 @ fx2))"

end
