(* ===== verification/SdkCached_Props.thy ===== *)
theory SdkCached_Props
  imports SdkCached
begin

text \<open>
  Lemmas about the cached client: usage counts are neither lost nor invented between a read and a
  flush, initialization promises are resolved by the first snapshot, at most the last stream is
  open, and reads come from the store alone.
\<close>

section \<open>Usage counts\<close>

text \<open>How often a flag's variation is counted in a usage buffer or summary, and in a list of effects.\<close>

definition count_of :: "usage \<Rightarrow> string \<Rightarrow> js \<Rightarrow> nat" where
  "count_of u f v = the_default 0 (map_of (the_default [] (map_of u f)) v)"

definition sent_of :: "cached_effect list \<Rightarrow> string \<Rightarrow> js \<Rightarrow> nat" where
  "sent_of fxs f v = sum_list (map (\<lambda>fx. case fx of Send u \<Rightarrow> count_of u f v | _ \<Rightarrow> 0) fxs)"

lemma sent_of_simps [simp]:
  "sent_of [] f v = 0"
  "sent_of (fx # fxs) f v = (case fx of Send u \<Rightarrow> count_of u f v | _ \<Rightarrow> 0) + sent_of fxs f v"
  "sent_of (a @ b) f v = sent_of a f v + sent_of b f v"
  by (simp_all add: sent_of_def)

lemma count_of_Nil [simp]: "count_of [] f v = 0"
  by (simp add: count_of_def the_default_def)

text \<open>The reads that are counted along a run: tracked reads that find a truthy evaluation.\<close>

definition read_hit :: "cached \<Rightarrow> cached_event \<Rightarrow> string \<Rightarrow> js \<Rightarrow> nat" where
  "read_hit st e f v = (case e of
     Read g \<Rightarrow> if cc_track st \<and> g = f \<and> truthy (lookup st f) \<and>
         the_default JUndef (js_get (lookup st f) ''variation'') = v then 1 else 0
   | _ \<Rightarrow> 0)"

fun reads_of :: "cached \<Rightarrow> cached_event list \<Rightarrow> string \<Rightarrow> js \<Rightarrow> nat" where
  "reads_of st [] f v = 0"
| "reads_of st (e # es) f v = read_hit st e f v + reads_of (fst (cached_step st e)) es f v"

lemma count_of_record:
  "cc_track st \<Longrightarrow> count_of (cc_counts (record_use g w st)) f v =
     count_of (cc_counts st) f v + (if g = f \<and> w = v then 1 else 0)"
  by (auto simp: record_use_def count_of_def the_default_def Let_def update_conv' split: option.splits)

lemma record_use_off: "\<not> cc_track st \<Longrightarrow> record_use g w st = st"
  by (simp add: record_use_def)

lemma onUpdate_counts [simp]: "cc_counts (fst (onUpdate v st)) = cc_counts st" "sent_of (snd (onUpdate w st)) f v = 0"
  by (simp_all add: onUpdate_def Let_def markReady_def sent_of_def comp_def)

lemma stream_effects_counts [simp]:
  "cc_counts (fst (stream_effects i fxs st)) = cc_counts st"
  "sent_of (snd (stream_effects i fxs st)) f v = 0"
proof (induction fxs arbitrary: st)
  case (Cons fx fxs)
  { case 1 show ?case using Cons by (cases fx) (simp_all add: case_prod_beta Let_def) }
  { case 2 show ?case using Cons by (cases fx) (simp_all add: case_prod_beta Let_def) }
qed simp_all

lemma sent_StreamFx [simp]: "sent_of (map (StreamFx i) fxs) f v = 0"
  by (simp add: sent_of_def comp_def)

lemma close_handle_counts [simp]:
  "cc_counts (fst (close_handle st)) = cc_counts st" "sent_of (snd (close_handle st)) f v = 0"
  by (simp_all add: close_handle_def Let_def)

lemma flush_counts: "count_of (cc_counts (fst (flush st))) f v + sent_of (snd (flush st)) f v = count_of (cc_counts st) f v"
  by (simp add: flush_def)

lemma identify_resume_counts [simp]:
  "cc_counts (fst (identify_resume ctx st)) = cc_counts st" "sent_of (snd (identify_resume ctx st)) f v = 0"
  by (simp_all add: identify_resume_def Let_def case_prod_beta startStream_def new_waiter_def)

lemma cached_step_counts:
  "count_of (cc_counts (fst (cached_step st e))) f v + sent_of (snd (cached_step st e)) f v =
   count_of (cc_counts st) f v + read_hit st e f v"
proof (cases e)
  case (Read g)
  then show ?thesis
    by (cases "cc_track st") (auto simp: read_def Let_def count_of_record record_use_off read_hit_def)
next
  case (Identify ctx)
  then show ?thesis using flush_counts [of st f v]
    by (simp add: Let_def case_prod_beta read_hit_def)
next
  case CloseClient
  then show ?thesis using flush_counts [of "fst (close_handle (st\<lparr>cc_timer := False\<rparr>))" f v]
    by (simp add: Let_def case_prod_beta read_hit_def)
next
  case FlushCall
  then show ?thesis using flush_counts [of st f v] by (simp add: read_hit_def)
qed (simp_all add: Let_def case_prod_beta read_hit_def waitForInitialization_def new_waiter_def)

lemma cached_run_counts:
  "count_of (cc_counts (fst (cached_run st es))) f v + sent_of (snd (cached_run st es)) f v =
   count_of (cc_counts st) f v + reads_of st es f v"
proof (induction es arbitrary: st)
  case (Cons e es)
  show ?case
    using Cons.IH [of "fst (cached_step st e)"] cached_step_counts [of st e f v]
    by (simp add: Let_def case_prod_beta)
qed simp

section \<open>Promises and streams\<close>

text \<open>
  No promise is lost or resolved twice, none waits once the client is ready, every stream but the
  last is closed, and every stream keeps its own invariant.
\<close>

definition cached_inv :: "cached \<Rightarrow> bool" where
  "cached_inv st \<longleftrightarrow>
     (cc_ready st \<longrightarrow> cc_waiters st = []) \<and>
     distinct (cc_resolved st @ cc_waiters st) \<and>
     set (cc_resolved st @ cc_waiters st) = {0..<cc_next st} \<and>
     cc_streams st \<noteq> [] \<and>
     (\<forall>s\<in>set (butlast (cc_streams st)). sm_closed s) \<and>
     (\<forall>s\<in>set (cc_streams st). stream_inv s)"

definition promises_inv :: "cached \<Rightarrow> bool" where
  "promises_inv st \<longleftrightarrow>
     (cc_ready st \<longrightarrow> cc_waiters st = []) \<and>
     distinct (cc_resolved st @ cc_waiters st) \<and>
     set (cc_resolved st @ cc_waiters st) = {0..<cc_next st}"

definition streams_inv :: "stream list \<Rightarrow> bool" where
  "streams_inv ss \<longleftrightarrow> ss \<noteq> [] \<and> (\<forall>s\<in>set (butlast ss). sm_closed s) \<and> (\<forall>s\<in>set ss. stream_inv s)"

lemma cached_inv_split: "cached_inv st \<longleftrightarrow> promises_inv st \<and> streams_inv (cc_streams st)"
  by (auto simp: cached_inv_def promises_inv_def streams_inv_def)

lemma promises_inv_frame [simp]:
  "promises_inv (st\<lparr>cc_store := a\<rparr>) = promises_inv st" "promises_inv (st\<lparr>cc_context := c\<rparr>) = promises_inv st"
  "promises_inv (st\<lparr>cc_streams := ss\<rparr>) = promises_inv st" "promises_inv (st\<lparr>cc_listeners := l\<rparr>) = promises_inv st"
  "promises_inv (st\<lparr>cc_counts := u\<rparr>) = promises_inv st" "promises_inv (st\<lparr>cc_timer := t\<rparr>) = promises_inv st"
  "promises_inv (st\<lparr>cc_identifying := i\<rparr>) = promises_inv st"
  by (simp_all add: promises_inv_def)

lemma promises_markReady: "promises_inv st \<Longrightarrow> promises_inv (markReady st)"
  by (simp add: promises_inv_def markReady_def)

lemma promises_onUpdate: "promises_inv st \<Longrightarrow> promises_inv (fst (onUpdate v st))"
  by (auto simp: onUpdate_def Let_def intro: promises_markReady)

lemma promises_stream_effects: "promises_inv st \<Longrightarrow> promises_inv (fst (stream_effects i fxs st))"
proof (induction fxs arbitrary: st)
  case (Cons fx fxs)
  then show ?case by (cases fx) (simp_all add: case_prod_beta Let_def promises_onUpdate)
qed simp

lemma promises_new_waiter: "promises_inv st \<Longrightarrow> \<not> cc_ready st \<Longrightarrow> promises_inv (new_waiter st)"
  by (auto simp: promises_inv_def new_waiter_def)

lemma promises_wait: "promises_inv st \<Longrightarrow> promises_inv (waitForInitialization st)"
  by (auto simp: waitForInitialization_def promises_new_waiter)
    (auto simp: promises_inv_def)

lemma promises_unready: "promises_inv st \<Longrightarrow> promises_inv (st\<lparr>cc_ready := False\<rparr>)"
  by (simp add: promises_inv_def)

lemma promises_flush: "promises_inv st \<Longrightarrow> promises_inv (fst (flush st))"
  by (simp add: flush_def)

lemma promises_close_handle: "promises_inv st \<Longrightarrow> promises_inv (fst (close_handle st))"
  by (simp add: close_handle_def Let_def)

lemma promises_identify: "promises_inv st \<Longrightarrow> promises_inv (fst (identify_resume ctx st))"
proof -
  assume "promises_inv st"
  then have "promises_inv (fst (close_handle st)\<lparr>cc_ready := False\<rparr>)"
    by (intro promises_unready promises_close_handle)
  then have "promises_inv (fst (close_handle st)\<lparr>cc_store := JObj [], cc_ready := False, cc_context := ctx\<rparr>)"
    by (simp add: promises_inv_def)
  then have "promises_inv (new_waiter (fst (close_handle st)\<lparr>cc_store := JObj [], cc_ready := False, cc_context := ctx\<rparr>))"
    by (rule promises_new_waiter) simp
  then show ?thesis by (simp add: identify_resume_def Let_def case_prod_beta startStream_def)
qed

lemma record_use_frame [simp]:
  "promises_inv (record_use f v st) = promises_inv st" "cc_streams (record_use f v st) = cc_streams st"
  by (simp_all add: record_use_def Let_def)

lemma streams_frame [simp]:
  "cc_streams (fst (stream_effects i fxs st)) = cc_streams st"
  "cc_streams (fst (flush st)) = cc_streams st"
  "cc_streams (waitForInitialization st) = cc_streams st"
  "cc_streams (new_waiter st) = cc_streams st"
proof -
  have "cc_streams (fst (onUpdate v st)) = cc_streams st" for v st
    by (simp add: onUpdate_def Let_def markReady_def)
  note upd = this
  show "cc_streams (fst (stream_effects i fxs st)) = cc_streams st"
  proof (induction fxs arbitrary: st)
    case (Cons fx fxs)
    then show ?case by (cases fx) (simp_all add: case_prod_beta Let_def upd)
  qed simp
qed (simp_all add: flush_def waitForInitialization_def new_waiter_def)

lemma streams_inv_update:
  assumes "streams_inv ss" "i < length ss"
  shows "streams_inv (ss[i := fst (stream_step (ss ! i) e)])"
proof -
  have b: "\<forall>s\<in>set (butlast ss). sm_closed s" using assms(1) by (simp add: streams_inv_def)
  have "\<forall>s\<in>set (butlast (ss[i := fst (stream_step (ss ! i) e)])). sm_closed s"
  proof (cases "i < length ss - 1")
    case True
    then have "ss ! i \<in> set (butlast ss)" by (metis length_butlast nth_butlast nth_mem)
    with b True show ?thesis
      by (auto simp: butlast_list_update stream_step_closed dest: set_update_subset_insert [THEN subsetD])
  next
    case False
    with assms(2) have "i = length ss - 1" by linarith
    then show ?thesis using b by (simp add: butlast_list_update)
  qed
  moreover have "\<forall>s\<in>set (ss[i := fst (stream_step (ss ! i) e)]). stream_inv s"
    using assms stream_step_inv [of "ss ! i" e]
    by (auto simp: streams_inv_def dest!: set_update_subset_insert [THEN subsetD])
  ultimately show ?thesis using assms(1) by (simp add: streams_inv_def)
qed

lemma streams_close_handle:
  assumes "streams_inv (cc_streams st)"
  shows "streams_inv (cc_streams (fst (close_handle st)))"
    "sm_closed (last (cc_streams (fst (close_handle st))))"
proof -
  let ?ss = "cc_streams st"
  have ne: "?ss \<noteq> []" using assms by (simp add: streams_inv_def)
  then show "streams_inv (cc_streams (fst (close_handle st)))"
    using streams_inv_update [OF assms, of "length ?ss - 1" Close]
    by (simp add: close_handle_def Let_def del: stream_step.simps)
  show "sm_closed (last (cc_streams (fst (close_handle st))))"
    using ne by (simp add: close_handle_def Let_def last_conv_nth)
qed

lemma streams_identify:
  assumes "streams_inv (cc_streams st)"
  shows "streams_inv (cc_streams (fst (identify_resume ctx st)))"
proof -
  define ss where "ss = cc_streams (fst (close_handle st))"
  have "streams_inv ss" "sm_closed (last ss)" using streams_close_handle [OF assms] by (simp_all add: ss_def)
  moreover from this have "\<forall>s\<in>set ss. sm_closed s"
    by (cases ss rule: rev_cases) (auto simp: streams_inv_def)
  ultimately have "streams_inv (ss @ [initial_stream])"
    by (auto simp: streams_inv_def initial_stream_inv butlast_append)
  then show ?thesis
    by (simp add: identify_resume_def Let_def case_prod_beta startStream_def ss_def)
qed

lemma promises_close_client:
  "promises_inv st \<Longrightarrow> promises_inv (fst (flush (fst (close_handle (st\<lparr>cc_timer := False\<rparr>)))))"
  by (intro promises_flush promises_close_handle) (simp add: promises_inv_def)

lemma streams_close_client:
  "streams_inv (cc_streams st) \<Longrightarrow> streams_inv (cc_streams (fst (close_handle (st\<lparr>cc_timer := False\<rparr>))))"
  by (rule streams_close_handle) simp

lemma cached_step_inv: "cached_inv st \<Longrightarrow> cached_inv (fst (cached_step st e))"
  unfolding cached_inv_split
  by (cases e)
    (auto simp: case_prod_beta Let_def read_def streams_inv_update streams_identify streams_close_client
      intro: promises_stream_effects promises_wait promises_flush promises_close_client promises_identify)

interpretation cachedm: invariant_machine "\<lambda>st e. fst (cached_step st e)" cached_inv
  by unfold_locales (rule cached_step_inv)

lemma cached_run_fst: "fst (cached_run st es) = fold (\<lambda>e st. fst (cached_step st e)) es st"
  by (induction es arbitrary: st) (simp_all add: case_prod_beta Let_def)

lemma cached_run_inv: "cached_inv st \<Longrightarrow> cached_inv (fst (cached_run st es))"
  by (simp add: cached_run_fst cachedm.run_inv)

lemma createCachedClient_inv: "cached_inv (fst (createCachedClient ctx t ms))"
  by (simp add: createCachedClient_def startStream_def cached_inv_def initial_stream_inv)

section \<open>A stream feeds the store\<close>

lemma stream_effects_append:
  "stream_effects i (a @ b) st =
     (fst (stream_effects i b (fst (stream_effects i a st))),
      snd (stream_effects i a st) @ snd (stream_effects i b (fst (stream_effects i a st))))"
proof (induction a arbitrary: st)
  case (Cons fx a)
  then show ?case by (cases fx) (simp_all add: case_prod_beta Let_def)
qed simp

lemma onUpdate_streams:
  "onUpdate v (st\<lparr>cc_streams := ss\<rparr>) = ((fst (onUpdate v st))\<lparr>cc_streams := ss\<rparr>, snd (onUpdate v st))"
  by (simp add: onUpdate_def Let_def markReady_def)

lemma stream_effects_streams:
  "stream_effects i fxs (st\<lparr>cc_streams := ss\<rparr>) =
     ((fst (stream_effects i fxs st))\<lparr>cc_streams := ss\<rparr>, snd (stream_effects i fxs st))"
proof (induction fxs arbitrary: st)
  case (Cons fx fxs)
  then show ?case by (cases fx) (simp_all add: case_prod_beta Let_def onUpdate_streams)
qed simp

text \<open>Running the events of one stream is running the stream and then its callbacks.\<close>

lemma cached_run_stream:
  "i < length (cc_streams st) \<Longrightarrow> Close \<notin> set es \<Longrightarrow>
   cached_run st (map (StreamEv i) es) =
     (let r = stream_run (cc_streams st ! i) es;
          f = stream_effects i (snd r) st
      in ((fst f)\<lparr>cc_streams := (cc_streams st)[i := fst r]\<rparr>, snd f))"
proof (induction es arbitrary: st)
  case (Cons e es)
  define s1 where "s1 = fst (stream_step (cc_streams st ! i) e)"
  define fx where "fx = snd (stream_step (cc_streams st ! i) e)"
  define st1 where "st1 = fst (stream_effects i fx st)\<lparr>cc_streams := (cc_streams st)[i := s1]\<rparr>"
  have step: "cached_step st (StreamEv i e) = (st1, snd (stream_effects i fx st))"
    using Cons.prems by (auto simp: st1_def s1_def fx_def case_prod_beta Let_def stream_effects_streams)
  have n: "cc_streams st1 ! i = s1" "i < length (cc_streams st1)" using Cons.prems by (simp_all add: st1_def)
  have IH: "cached_run st1 (map (StreamEv i) es) =
     (let r = stream_run s1 es; f = stream_effects i (snd r) st1
      in ((fst f)\<lparr>cc_streams := (cc_streams st1)[i := fst r]\<rparr>, snd f))"
    using Cons.IH [of st1] Cons.prems n by simp
  have e: "stream_step (cc_streams st ! i) e = (s1, fx)" by (simp add: s1_def fx_def)
  show ?case
    by (simp add: step IH e Let_def case_prod_beta stream_effects_append del: cached_step.simps stream_step.simps)
      (simp add: st1_def stream_effects_streams)
qed simp

lemma stream_effects_updates:
  "fs \<noteq> [] \<Longrightarrow>
   (let st' = fst (stream_effects i (map OnUpdate fs) st) in
     cc_store st' = last fs \<and> cc_ready st' \<and>
     (promises_inv st \<longrightarrow> cc_waiters st' = []) \<and> cc_counts st' = cc_counts st) \<and>
   snd (stream_effects i (map OnUpdate fs) st) = concat (replicate (length fs) (map Notify (cc_listeners st)))"
proof (induction fs arbitrary: st)
  case (Cons f fs)
  define st1 where "st1 = fst (onUpdate f st)"
  have l: "snd (onUpdate f st) = map Notify (cc_listeners st)" "cc_listeners st1 = cc_listeners st"
    "cc_store st1 = f" "cc_ready st1" "cc_counts st1 = cc_counts st"
    "promises_inv st \<Longrightarrow> cc_waiters st1 = [] \<and> promises_inv st1"
    using promises_onUpdate [of st f]
    by (auto simp: st1_def onUpdate_def Let_def markReady_def promises_inv_def)
  show ?case
  proof (cases fs)
    case Nil
    then show ?thesis using l by (simp add: Let_def case_prod_beta st1_def [symmetric])
  next
    case (Cons g gs)
    then have "fs \<noteq> []" by simp
    from Cons.IH [OF this, of st1] l show ?thesis
      by (simp add: Let_def case_prod_beta st1_def [symmetric] Cons)
  qed
qed simp

lemma cached_delivery:
  assumes i: "i < length (cc_streams st)" "sm_phase (cc_streams st ! i) = Reading []"
    and fs: "fs \<noteq> []" "\<forall>f\<in>set fs. plain f \<and> truthy f"
    and cs: "concat cs = concat (map (\<lambda>f. event_text [snapshot_text f]) fs)"
  shows "let r = cached_run st (map (\<lambda>c. StreamEv i (Chunk c)) cs) in
     cc_store (fst r) = last fs \<and> cc_ready (fst r) \<and> (promises_inv st \<longrightarrow> cc_waiters (fst r) = []) \<and>
     cc_counts (fst r) = cc_counts st \<and>
     snd r = concat (replicate (length fs) (map Notify (cc_listeners st)))"
proof -
  have "snd (stream_run (cc_streams st ! i) (map Chunk cs)) = map OnUpdate fs"
    by (rule stream_delivers [OF i(2) fs(2) cs])
  moreover have "map (\<lambda>c. StreamEv i (Chunk c)) cs = map (StreamEv i) (map Chunk cs)" by simp
  moreover have "Close \<notin> set (map Chunk cs)" by auto
  ultimately show ?thesis
    using cached_run_stream [OF i(1), of "map Chunk cs"] stream_effects_updates [OF fs(1), of i st]
    by (simp add: Let_def comp_def)
qed

end
