(* ===== verification/Types.thy ===== *)
theory Types
  imports Json
begin

text \<open>
  The domain types of the dashboard (\<open>web/src/types\<close>): flags, their per-environment
  configuration, targeting clauses and rules, semantic instructions, segments, change requests,
  scheduled changes, triggers and webhooks. An optional field is an \<open>option\<close>; \<open>unknown\<close> is
  \<^typ>\<open>js\<close>; the indices, weights, seeds and versions, integers on the wire, are \<^typ>\<open>int\<close>.
  Fields that no operation of the dashboard reads or writes are left out of the audit entries.
\<close>

section \<open>types/segment.ts\<close>

record clause =
  cl_contextKind :: "string option"
  cl_attribute :: "string option"
  cl_op :: string
  cl_values :: "js list"
  cl_negate :: "bool option"

record segment_rule =
  sr_id :: "string option"
  sr_clauses :: "clause list"
  sr_weight :: "int option"
  sr_bucketBy :: "string option"
  sr_rolloutContextKind :: "string option"

record segment_target =
  st_contextKind :: string
  st_values :: "string list"

record segment =
  sg_id :: string
  sg_project_id :: string
  sg_key :: string
  sg_name :: string
  sg_description :: string
  sg_included :: "string list"
  sg_excluded :: "string list"
  sg_included_contexts :: "segment_target list"
  sg_excluded_contexts :: "segment_target list"
  sg_rules :: "segment_rule list"
  sg_version :: int
  sg_created_at :: string
  sg_updated_at :: string

record create_segment_input =
  cs_key :: string
  cs_name :: string
  cs_description :: "string option"

record save_segment_input =
  ss_name :: string
  ss_description :: string
  ss_included :: "string list"
  ss_excluded :: "string list"
  ss_included_contexts :: "segment_target list"
  ss_excluded_contexts :: "segment_target list"
  ss_rules :: "segment_rule list"

section \<open>types/flag.ts\<close>

record flag =
  fl_id :: string
  fl_project_id :: string
  fl_key :: string
  fl_name :: string
  fl_description :: string
  fl_client_side_available :: bool
  fl_temporary :: bool
  fl_variations :: "js list"
  fl_created_at :: string
  fl_updated_at :: string

datatype lifecycle_status = LcNew | LcActive | LcInactive

record flag_lifecycle =
  lf_flag :: flag
  lf_status :: lifecycle_status
  lf_last_evaluated :: "string option"

record flag_with_state =
  fs_flag :: flag
  fs_on :: bool

record create_flag_input =
  cf_key :: string
  cf_name :: string
  cf_description :: "string option"
  cf_client_side_available :: "bool option"
  cf_temporary :: "bool option"
  cf_variations :: "js list"

record weighted_variation =
  wv_variation :: int
  wv_weight :: int

record rollout =
  ro_variations :: "weighted_variation list"
  ro_bucketBy :: "string option"
  ro_contextKind :: "string option"
  ro_seed :: "int option"

record variation_or_rollout =
  vr_variation :: "int option"
  vr_rollout :: "rollout option"

record flag_rule =
  fr_id :: "string option"
  fr_clauses :: "clause list"
  fr_variation :: "int option"
  fr_rollout :: "rollout option"

record target =
  tg_contextKind :: string
  tg_values :: "string list"
  tg_variation :: int

record flag_config =
  fc_on :: bool
  fc_off_variation :: int
  fc_fallthrough :: variation_or_rollout
  fc_targets :: "target list"
  fc_rules :: "flag_rule list"
  fc_version :: int

record flag_instruction =
  fi_kind :: string
  fi_variation :: "int option"
  fi_contextKind :: "string option"
  fi_values :: "string list option"
  fi_clauses :: "clause list option"
  fi_rollout :: "rollout option"
  fi_ruleId :: "string option"
  fi_ruleIds :: "string list option"

text \<open>An instruction literal \<open>{ kind }\<close>; the other fields are set by record update.\<close>

definition instruction :: "string \<Rightarrow> flag_instruction" where
  "instruction k = \<lparr>fi_kind = k, fi_variation = None, fi_contextKind = None, fi_values = None,
     fi_clauses = None, fi_rollout = None, fi_ruleId = None, fi_ruleIds = None\<rparr>"

section \<open>types/change.ts, scheduled-change.ts, trigger.ts, webhook.ts\<close>

datatype change_status = ChPending | ChApproved | ChRejected

record change_request =
  cr_id :: string
  cr_project_id :: string
  cr_environment_id :: string
  cr_environment_key :: string
  cr_flag_key :: string
  cr_instructions :: "flag_instruction list"
  cr_comment :: string
  cr_status :: change_status
  cr_requested_by :: string
  cr_requested_by_email :: string
  cr_reviewed_by :: "string option"
  cr_reviewed_by_email :: "string option"
  cr_review_comment :: "string option"
  cr_created_at :: string
  cr_reviewed_at :: "string option"

datatype scheduled_status = ScPending | ScApplied | ScCancelled | ScFailed

record scheduled_change =
  sc_id :: string
  sc_project_id :: string
  sc_environment_id :: string
  sc_environment_key :: string
  sc_flag_key :: string
  sc_instructions :: "flag_instruction list"
  sc_comment :: string
  sc_scheduled_for :: string
  sc_status :: scheduled_status
  sc_error :: "string option"
  sc_created_by :: string
  sc_created_by_email :: string
  sc_created_at :: string
  sc_applied_at :: "string option"

datatype trigger_action = TrOn | TrOff

record flag_trigger =
  tr_id :: string
  tr_project_id :: string
  tr_environment_id :: string
  tr_environment_key :: string
  tr_flag_key :: string
  tr_action :: trigger_action
  tr_description :: string
  tr_enabled :: bool
  tr_exec_count :: int
  tr_created_by :: string
  tr_created_by_email :: string
  tr_created_at :: string
  tr_last_executed_at :: "string option"
  tr_token :: "string option"
  tr_url :: "string option"

record webhook =
  wh_id :: string
  wh_organization_id :: string
  wh_url :: string
  wh_secret :: "string option"
  wh_event_types :: "string list"
  wh_description :: string
  wh_enabled :: bool
  wh_created_by :: string
  wh_created_by_email :: string
  wh_created_at :: string

datatype delivery_status = DlPending | DlSuccess | DlFailed

record webhook_delivery =
  wd_id :: string
  wd_webhook_id :: string
  wd_event_type :: string
  wd_status :: delivery_status
  wd_attempts :: int
  wd_response_status :: int
  wd_error :: "string option"
  wd_next_attempt_at :: string
  wd_created_at :: string
  wd_delivered_at :: "string option"

section \<open>types/user.ts, organization.ts, project.ts, environment.ts, sdk-key.ts, role.ts, member.ts\<close>

record user =
  us_id :: string
  us_email :: string
  us_full_name :: string
  us_is_superuser :: bool
  us_is_active :: bool
  us_created_at :: string
  us_updated_at :: string

record organization =
  or_id :: string
  or_slug :: string
  or_name :: string
  or_created_at :: string
  or_updated_at :: string

record project =
  pr_id :: string
  pr_organization_id :: string
  pr_key :: string
  pr_name :: string
  pr_created_at :: string
  pr_updated_at :: string

record environment =
  en_id :: string
  en_project_id :: string
  en_key :: string
  en_name :: string
  en_created_at :: string
  en_updated_at :: string

datatype sdk_kind = KServer | KClient

record sdk_key =
  sk_id :: string
  sk_environment_id :: string
  sk_key :: string
  sk_kind :: sdk_kind
  sk_name :: string
  sk_last_used_at :: "string option"
  sk_revoked_at :: "string option"
  sk_created_at :: string

datatype role_scope = ScopeOrganization | ScopeProject

record role =
  rl_id :: string
  rl_organization_id :: string
  rl_key :: string
  rl_name :: string
  rl_description :: string
  rl_scope :: role_scope
  rl_is_system :: bool
  rl_permissions :: "string list"
  rl_created_at :: string
  rl_updated_at :: string

record member =
  mb_user_id :: string
  mb_email :: string
  mb_full_name :: string
  mb_role :: string

record setup_input =
  su_email :: string
  su_password :: string
  su_full_name :: "string option"
  su_organization_slug :: "string option"
  su_organization_name :: "string option"

section \<open>types/auth.ts, context.ts, analytics.ts, audit.ts\<close>

text \<open>\<open>AuthUser\<close> has the fields of \<open>User\<close>.\<close>

type_synonym auth_user = user

record login_input =
  li_email :: string
  li_password :: string

record session =
  se_token :: string
  se_user :: auth_user

record seen_context =
  sn_id :: string
  sn_environment_id :: string
  sn_kind :: string
  sn_key :: string
  sn_attributes :: "(string \<times> js) list"
  sn_first_seen :: string
  sn_last_seen :: string

record context_evaluation =
  ce_flag_key :: string
  ce_variation :: int
  ce_value :: js
  ce_reason :: string

record context_detail =
  cd_context :: seen_context
  cd_evaluations :: "context_evaluation list"

record flag_stats =
  fa_flag_key :: string
  fa_environment :: string
  fa_since :: string
  fa_variations :: "(int \<times> int) list"
  fa_total :: int

record env_stats =
  ea_environment :: string
  ea_since :: string
  ea_flags :: "(string \<times> int) list"
  ea_total :: int

definition STATS_WINDOWS :: "(string \<times> string) list" where
  "STATS_WINDOWS = [(''1h'', ''1h''), (''24h'', ''24h''), (''168h'', ''7d''), (''720h'', ''30d'')]"

record audit_entry =
  au_id :: string
  au_actor_email :: string
  au_action :: string
  au_resource_type :: string
  au_resource_key :: string
  au_comment :: "string option"
  au_created_at :: string

end
