(* ===== verification/Clauses.thy ===== *)
theory Clauses
  imports Types Json_Props
begin

text \<open>
  \<open>web/src/lib/clauses.ts\<close>: the clause operators, coercion of typed clause values, their rendering
  for editing and the one-line summary of a clause. The lemmas show which values survive
  being rendered and parsed again, which is what every keystroke in the clause editor does.
\<close>

definition CLAUSE_OPERATORS :: "(string \<times> string) list" where
  "CLAUSE_OPERATORS = [
     (''in'', ''is one of''),
     (''startsWith'', ''starts with''),
     (''endsWith'', ''ends with''),
     (''contains'', ''contains''),
     (''matches'', ''matches regex''),
     (''lessThan'', ''less than''),
     (''lessThanOrEqual'', ''less than or equal''),
     (''greaterThan'', ''greater than''),
     (''greaterThanOrEqual'', ''greater than or equal''),
     (''before'', ''before (date)''),
     (''after'', ''after (date)''),
     (''semVerEqual'', ''semver equals''),
     (''semVerLessThan'', ''semver less than''),
     (''semVerGreaterThan'', ''semver greater than''),
     (''segmentMatch'', ''is in segment'')]"

definition coerceValue :: "string \<Rightarrow> js" where
  "coerceValue input =
     (let t = trim input in
      case json_parse t of
        Some (JNum n) \<Rightarrow> JNum n
      | Some (JBool b) \<Rightarrow> JBool b
      | _ \<Rightarrow> JStr t)"

definition parseValues :: "string \<Rightarrow> js list" where
  "parseValues input =
     map coerceValue (filter (\<lambda>v. v \<noteq> []) (map trim (split_on CHR '','' input)))"

text \<open>\<open>join\<close> prints \<open>undefined\<close>, the result of \<open>JSON.stringify\<close> on a function, as the empty string.\<close>

definition display_value :: "js \<Rightarrow> string" where
  "display_value v = (case v of JStr s \<Rightarrow> s | _ \<Rightarrow> (case stringify v of Some t \<Rightarrow> t | None \<Rightarrow> []))"

definition displayValues :: "js list \<Rightarrow> string" where
  "displayValues values = join '', '' (map display_value values)"

definition clauseText :: "clause \<Rightarrow> string" where
  "clauseText clause =
     (let label = (case map_of CLAUSE_OPERATORS (cl_op clause) of Some l \<Rightarrow> l | None \<Rightarrow> cl_op clause);
          subject = (case cl_attribute clause of
              Some a \<Rightarrow> if a \<noteq> [] then (case cl_contextKind clause of Some k \<Rightarrow> k | None \<Rightarrow> ''user'') @ ''.'' @ a
                        else ''segment''
            | None \<Rightarrow> ''segment'');
          op = (if cl_negate clause = Some True then ''not ('' @ label @ '')'' else label)
      in subject @ '' '' @ op @ '' ['' @ displayValues (cl_values clause) @ '']'')"

section \<open>Coercion\<close>

lemma coerceValue_trim: "coerceValue (trim s) = coerceValue s"
  by (simp add: coerceValue_def)

text \<open>The values an edit can produce, and that an edit therefore keeps.\<close>

definition stable_value :: "js \<Rightarrow> bool" where
  "stable_value v = (case v of
     JStr s \<Rightarrow> s \<noteq> [] \<and> trim s = s \<and> CHR '','' \<notin> set s \<and>
       (case json_parse s of Some (JNum _) \<Rightarrow> False | Some (JBool _) \<Rightarrow> False | _ \<Rightarrow> True)
   | JBool b \<Rightarrow> True
   | JNum n \<Rightarrow> plain (JNum n)
   | _ \<Rightarrow> False)"

lemma show_nat_chars: "c \<in> set (show_nat n) \<Longrightarrow> \<not> is_space c \<and> c \<noteq> CHR '',''"
  using show_nat_digits [of n] by (auto simp: is_digit_def is_space_def code_unit_def Let_def)

lemma show_int_chars: "c \<in> set (show_int i) \<Longrightarrow> \<not> is_space c \<and> c \<noteq> CHR '',''"
  by (auto simp: show_int_def is_space_def Let_def dest: show_nat_chars split: if_splits)

lemma display_stable:
  assumes "stable_value v"
  shows "display_value v \<noteq> []" "trim (display_value v) = display_value v"
    "CHR '','' \<notin> set (display_value v)" "coerceValue (display_value v) = v"
proof -
  have bt: "trim ''true'' = ''true''" "trim ''false'' = ''false''"
    by code_simp+
  have "display_value v \<noteq> [] \<and> trim (display_value v) = display_value v \<and>
    CHR '','' \<notin> set (display_value v)"
  proof (cases v)
    case (JNum n)
    then have "display_value v = show_int \<lfloor>n\<rfloor>"
      using assms show_num_plain [of n] by (simp add: stable_value_def display_value_def)
    then show ?thesis by (auto dest: show_int_chars intro!: trim_no_space)
  qed (use assms bt in \<open>auto simp: stable_value_def display_value_def\<close>)
  then show 1: "display_value v \<noteq> []" "trim (display_value v) = display_value v"
    "CHR '','' \<notin> set (display_value v)" by blast+
  show "coerceValue (display_value v) = v"
  proof (cases "\<exists>s. v = JStr s")
    case True
    then obtain s where s: "v = JStr s" by blast
    then have t: "trim s = s" and j: "case json_parse s of Some (JNum _) \<Rightarrow> False | Some (JBool _) \<Rightarrow> False | _ \<Rightarrow> True"
      using assms by (simp_all add: stable_value_def)
    show ?thesis
    proof (cases "json_parse s")
      case (Some w)
      then show ?thesis using s t j by (cases w) (simp_all add: coerceValue_def display_value_def)
    qed (simp add: s t coerceValue_def display_value_def)
  next
    case False
    with assms have p: "plain v" by (cases v) (simp_all add: stable_value_def)
    with False have s: "stringify v = Some (display_value v)"
      using plain_stringify [of v] by (cases v) (auto simp: display_value_def)
    have "json_parse (trim (display_value v)) = Some v"
      by (simp add: 1(2) json_roundtrip [OF p s])
    with False assms show ?thesis
      by (cases v) (simp_all add: coerceValue_def stable_value_def)
  qed
qed

lemma coerceValue_stable:
  assumes "trim s \<noteq> []" "CHR '','' \<notin> set s"
    and "\<And>n. json_parse (trim s) = Some (JNum n) \<Longrightarrow> plain (JNum n)"
  shows "stable_value (coerceValue s)"
proof -
  have c: "CHR '','' \<notin> set (trim s)" using assms(2) set_trim [of s] by blast
  show ?thesis
  proof (cases "json_parse (trim s)")
    case (Some w)
    then show ?thesis using assms(1,3) c by (cases w) (simp_all add: coerceValue_def stable_value_def)
  qed (use assms(1) c in \<open>simp add: coerceValue_def stable_value_def\<close>)
qed

lemma split_join_comma:
  "xs \<noteq> [] \<Longrightarrow> \<forall>x\<in>set xs. CHR '','' \<notin> set x \<Longrightarrow>
   split_on CHR '','' (join '', '' xs) = hd xs # map (\<lambda>x. CHR '' '' # x) (tl xs)"
proof (induction xs)
  case (Cons x xs)
  show ?case
  proof (cases xs)
    case (Cons y ys)
    then have "split_on CHR '','' (join '', '' xs) = y # map (\<lambda>x. CHR '' '' # x) ys"
      using Cons.IH Cons.prems by simp
    then have "split_on CHR '','' (CHR '' '' # join '', '' xs) = (CHR '' '' # y) # map (\<lambda>x. CHR '' '' # x) ys"
      by simp
    then show ?thesis using Cons Cons.prems by (simp add: split_on_append_sep)
  qed (use Cons.prems in simp)
qed simp

lemma parse_display:
  assumes "list_all stable_value vs"
  shows "parseValues (displayValues vs) = vs"
proof (cases vs)
  case Nil
  then show ?thesis by (simp add: parseValues_def displayValues_def trim_def)
next
  case (Cons v ws)
  define xs where "xs = map display_value vs"
  have d: "\<forall>x\<in>set xs. x \<noteq> [] \<and> trim x = x \<and> CHR '','' \<notin> set x"
    using assms display_stable by (auto simp: xs_def list_all_iff)
  have "xs \<noteq> []" using Cons by (simp add: xs_def)
  then have "map trim (split_on CHR '','' (displayValues vs)) = map trim xs"
    using d split_join_comma [of xs] by (cases xs) (auto simp: displayValues_def xs_def is_space_def)
  also have "\<dots> = xs" using d by (simp add: map_idI)
  finally have "parseValues (displayValues vs) = map coerceValue (filter (\<lambda>v. v \<noteq> []) xs)"
    by (simp add: parseValues_def)
  also have "filter (\<lambda>v. v \<noteq> []) xs = xs" using d by (auto intro: filter_True)
  also have "map coerceValue xs = vs"
    using assms display_stable(4) by (simp add: xs_def list_all_iff map_idI)
  finally show ?thesis .
qed

end
