(* ===== verification/Variations.thy ===== *)
theory Variations
  imports Types Json_Props
begin

text \<open>
  \<open>web/src/lib/variations.ts\<close> (labels, even splits, rollout payloads) with the percentage editor
  \<open>web/src/features/flags/components/RolloutEditor.tsx\<close> and \<open>Number(...)\<close> on its input text.
  Percentages are whole numbers in the dashboard: \<open>evenPercents\<close>, \<open>percentsFromRollout\<close> and
  \<open>clampPercent\<close> only produce those; weights are out of 100000.
\<close>

definition js_round :: "rat \<Rightarrow> int" where
  "js_round x = \<lfloor>x + 1 / 2\<rfloor>"

section \<open>lib/variations.ts\<close>

text \<open>\<open>JSON.stringify\<close> is only undefined on values that are not JSON, which no variation is.\<close>

definition variationLabel :: "js list \<Rightarrow> int \<Rightarrow> string" where
  "variationLabel variations index =
     (case js_nth variations index of
        None \<Rightarrow> CHR ''#'' # show_int index
      | Some v \<Rightarrow>
          (case v of
             JUndef \<Rightarrow> CHR ''#'' # show_int index
           | JStr s \<Rightarrow> s
           | _ \<Rightarrow> (case stringify v of Some t \<Rightarrow> t | None \<Rightarrow> ''undefined'')))"

definition evenPercents :: "int \<Rightarrow> int list" where
  "evenPercents count =
     (if count \<le> 0 then []
      else let base = 100 div count; out = replicate (nat count) base
           in out[0 := out ! 0 + (100 - base * count)])"

record rollout_opts =
  op_bucketBy :: "string option"
  op_contextKind :: "string option"
  op_seed :: "int option"

text \<open>\<open>...(opts.bucketBy ? ... : {})\<close>: an empty string is dropped like \<open>undefined\<close>.\<close>

definition truthy_string :: "string option \<Rightarrow> string option" where
  "truthy_string s = (case s of Some x \<Rightarrow> if x \<noteq> [] then Some x else None | None \<Rightarrow> None)"

definition rolloutFromPercents :: "int list \<Rightarrow> rollout_opts \<Rightarrow> rollout" where
  "rolloutFromPercents percents opts =
     \<lparr>ro_variations = map (\<lambda>(i, p). \<lparr>wv_variation = int i, wv_weight = js_round (of_int p * 1000)\<rparr>)
        (enumerate 0 percents),
      ro_bucketBy = truthy_string (op_bucketBy opts),
      ro_contextKind = truthy_string (op_contextKind opts),
      ro_seed = op_seed opts\<rparr>"

definition put_percent :: "int \<Rightarrow> weighted_variation \<Rightarrow> int list \<Rightarrow> int list" where
  "put_percent count wv out =
     (if 0 \<le> wv_variation wv \<and> wv_variation wv < count
      then out[nat (wv_variation wv) := js_round (of_int (wv_weight wv) / 1000)] else out)"

definition percentsFromRollout :: "rollout option \<Rightarrow> int \<Rightarrow> int list" where
  "percentsFromRollout rollout count =
     fold (put_percent count)
       (case rollout of Some r \<Rightarrow> ro_variations r | None \<Rightarrow> []) (replicate (nat count) 0)"

section \<open>Number(text)\<close>

text \<open>The numbers \<open>Number\<close> yields on a string: a finite one, an infinity or \<open>NaN\<close>.\<close>

datatype js_number = NaN | PosInf | NegInf | Fin rat

definition radix_digits :: "nat \<Rightarrow> string \<Rightarrow> rat option" where
  "radix_digits b ds =
     (if ds \<noteq> [] \<and> (\<forall>c\<in>set ds. case hex_val c of Some d \<Rightarrow> d < b | None \<Rightarrow> False)
      then Some (of_nat (foldl (\<lambda>a c. b * a + the (hex_val c)) 0 ds)) else None)"

text \<open>An unsigned decimal literal: digits with an optional point and exponent, at least one digit.\<close>

definition decimal_literal :: "string \<Rightarrow> rat option" where
  "decimal_literal s =
     (let ip = takeWhile is_digit s; s1 = dropWhile is_digit s;
          dot = (s1 \<noteq> [] \<and> hd s1 = CHR ''.'');
          fp = (if dot then takeWhile is_digit (tl s1) else []);
          s2 = (if dot then dropWhile is_digit (tl s1) else s1);
          (e, s3) = pexp s2
      in if ip @ fp = [] \<or> s3 \<noteq> [] then None
         else Some (scale10 (of_nat (digits_val (ip @ fp))) (e - int (length fp))))"

definition js_number_of :: "string \<Rightarrow> js_number" where
  "js_number_of text =
     (let s = trim text;
          neg = (s \<noteq> [] \<and> hd s = CHR ''-'');
          u = (if s \<noteq> [] \<and> (hd s = CHR ''-'' \<or> hd s = CHR ''+'') then tl s else s);
          radix = (\<lambda>b. case radix_digits b (drop 2 s) of Some r \<Rightarrow> Fin r | None \<Rightarrow> NaN)
      in if s = [] then Fin 0
         else if prefix ''0x'' s \<or> prefix ''0X'' s then radix 16
         else if prefix ''0o'' s \<or> prefix ''0O'' s then radix 8
         else if prefix ''0b'' s \<or> prefix ''0B'' s then radix 2
         else if u = ''Infinity'' then (if neg then NegInf else PosInf)
         else (case decimal_literal u of None \<Rightarrow> NaN | Some r \<Rightarrow> Fin (if neg then - r else r)))"

section \<open>RolloutEditor\<close>

definition clampPercent :: "string \<Rightarrow> int" where
  "clampPercent value =
     (case js_number_of value of
        NaN \<Rightarrow> 0
      | PosInf \<Rightarrow> 100
      | NegInf \<Rightarrow> 0
      | Fin x \<Rightarrow> max 0 (min 100 (js_round x)))"

text \<open>The change handler of row \<open>i\<close> and the total line below the rows.\<close>

definition rollout_edit :: "int list \<Rightarrow> nat \<Rightarrow> string \<Rightarrow> int list" where
  "rollout_edit percents i value = percents[i := clampPercent value]"

text \<open>The total line: the number shown and whether it is followed by the warning.\<close>

definition rollout_total :: "int list \<Rightarrow> int \<times> bool" where
  "rollout_total percents = (let total = foldl (+) 0 percents in (total, total \<noteq> 100))"

text \<open>One row of the editor: the input's value and the label of its variation.\<close>

record rollout_row =
  rr_value :: int
  rr_label :: string

definition rollout_rows :: "js list \<Rightarrow> int list \<Rightarrow> rollout_row list" where
  "rollout_rows variations percents =
     map (\<lambda>i. \<lparr>rr_value = (case js_nth percents (int i) of Some p \<Rightarrow> p | None \<Rightarrow> 0),
               rr_label = variationLabel variations (int i)\<rparr>)
       [0..<length variations]"

section \<open>Even splits\<close>

lemma foldl_plus_int: "foldl (+) a xs = a + sum_list (xs :: int list)"
  by (induction xs arbitrary: a) auto

lemma evenPercents_length: "length (evenPercents n) = nat n"
  by (simp add: evenPercents_def Let_def)

lemma sum_list_update: "i < length xs \<Longrightarrow> sum_list (xs[i := x]) = sum_list xs - xs ! i + (x :: int)"
  by (induction xs arbitrary: i) (auto split: nat.splits)

lemma evenPercents_sum: "0 < n \<Longrightarrow> sum_list (evenPercents n) = 100"
  by (simp add: evenPercents_def Let_def sum_list_update sum_list_replicate)

lemma evenPercents_close:
  assumes "0 < n" "p \<in> set (evenPercents n)"
  shows "100 div n \<le> p" "p \<le> 100"
proof -
  have "100 div n * n \<le> 100" "0 \<le> 100 div n"
    using assms(1) pos_mod_sign [of n 100] div_mult_mod_eq [of 100 n]
    by (linarith, simp add: pos_imp_zdiv_nonneg_iff)
  moreover have "100 div n \<le> 100" using \<open>100 div n * n \<le> 100\<close> \<open>0 \<le> 100 div n\<close> assms(1)
    by (smt (verit) mult_le_cancel_left1)
  moreover have "100 div n \<le> 100 div n * n" using assms(1) \<open>0 \<le> 100 div n\<close>
    by (simp add: mult_le_cancel_left1)
  moreover have "p = 100 div n \<or> p = 100 div n + (100 - 100 div n * n)"
    using assms set_update_subset_insert [of "replicate (nat n) (100 div n)" 0]
    by (auto simp: evenPercents_def Let_def)
  ultimately show "100 div n \<le> p" "p \<le> 100" by linarith+
qed

section \<open>Rollout payloads\<close>

lemma js_round_int [simp]: "js_round (of_int i) = i"
  by (simp add: js_round_def floor_eq_iff)

lemma js_round_1000 [simp]: "js_round (of_int p * 1000) = p * 1000"
  using js_round_int [of "p * 1000"] by simp

lemma js_round_div [simp]: "js_round (of_int (p * 1000) / 1000) = p"
  by simp

lemma rolloutFromPercents_weights:
  "map wv_weight (ro_variations (rolloutFromPercents ps opts)) = map (\<lambda>p. p * 1000) ps"
proof -
  have "map (\<lambda>x. snd x * 1000) (enumerate n ps) = map (\<lambda>p. p * 1000) ps" for n
    by (induction ps arbitrary: n) auto
  then show ?thesis by (simp add: rolloutFromPercents_def comp_def case_prod_beta)
qed

lemma rolloutFromPercents_total:
  "sum_list (map wv_weight (ro_variations (rolloutFromPercents ps opts))) = sum_list ps * 1000"
  by (simp add: rolloutFromPercents_weights sum_list_mult_const)

lemma fold_put_percent:
  "n + length ps \<le> nat count \<Longrightarrow> length out = nat count \<Longrightarrow>
   fold (put_percent count)
     (map (\<lambda>(i, p). \<lparr>wv_variation = int i, wv_weight = js_round (of_int p * 1000)\<rparr>) (enumerate n ps)) out
   = take n out @ ps @ drop (n + length ps) out"
proof (induction ps arbitrary: n out)
  case (Cons p ps)
  have "put_percent count \<lparr>wv_variation = int n, wv_weight = p * 1000\<rparr> out = out[n := p]"
    using Cons.prems by (simp add: put_percent_def zless_nat_eq_int_zless [symmetric])
  moreover have "take (Suc n) (out[n := p]) = take n out @ [p]"
    using Cons.prems by (simp add: take_Suc_conv_app_nth)
  ultimately show ?case using Cons.prems Cons.IH [of "Suc n" "out[n := p]"] by simp
qed simp

lemma percentsFromRollout_roundtrip:
  "percentsFromRollout (Some (rolloutFromPercents ps opts)) (int (length ps)) = ps"
  using fold_put_percent [of 0 ps "int (length ps)" "replicate (length ps) 0"]
  by (simp add: percentsFromRollout_def rolloutFromPercents_def del: js_round_1000)

lemma percentsFromRollout_length: "length (percentsFromRollout r n) = nat n"
proof -
  have "length (fold (put_percent n) wvs out) = length out" for wvs out
    by (induction wvs arbitrary: out) (auto simp: put_percent_def)
  then show ?thesis by (simp add: percentsFromRollout_def)
qed

lemma clampPercent_range: "0 \<le> clampPercent v \<and> clampPercent v \<le> 100"
  by (auto simp: clampPercent_def split: js_number.splits)

lemma rollout_edit_range:
  "\<forall>p\<in>set ps. 0 \<le> p \<and> p \<le> 100 \<Longrightarrow> \<forall>p\<in>set (rollout_edit ps i v). 0 \<le> p \<and> p \<le> 100"
  using clampPercent_range [of v] set_update_subset_insert [of ps i]
  by (fastforce simp: rollout_edit_def)

end
