(* ===== verification/Instructions.thy ===== *)
theory Instructions
  imports Types "HOL-Library.Multiset"
begin

text \<open>
  Semantic instructions: their one-line summaries (\<open>web/src/lib/instructions.ts\<close>) and their
  application to a flag's configuration as the dashboard's fixture backend does it
  (\<open>applyInstructions\<close> in \<open>web/src/mocks/handlers.ts\<close>).

  \<open>crypto.randomUUID\<close> is the parameter \<open>uuid\<close>, a supply of identifiers read at a counter that the
  operations pass along. \<open>target_set\<close> is the abstract view of the individual targets: which key of
  which context kind is served which variation.
\<close>

section \<open>lib/instructions.ts\<close>

definition show_opt_int :: "int option \<Rightarrow> string" where
  "show_opt_int i = (case i of Some n \<Rightarrow> show_int n | None \<Rightarrow> ''undefined'')"

definition instructionText :: "flag_instruction \<Rightarrow> string" where
  "instructionText ins =
     (let k = fi_kind ins; v = show_opt_int (fi_variation ins);
          vals = join '', '' (case fi_values ins of Some xs \<Rightarrow> xs | None \<Rightarrow> [])
      in if k = ''turnFlagOn'' then ''Turn targeting on''
         else if k = ''turnFlagOff'' then ''Turn targeting off''
         else if k = ''updateOffVariation'' then ''Set off variation to #'' @ v
         else if k = ''updateFallthroughVariation'' then ''Set default variation to #'' @ v
         else if k = ''addTargets'' then ''Serve #'' @ v @ '' to '' @ vals
         else if k = ''removeTargets'' then ''Stop serving #'' @ v @ '' to '' @ vals
         else if k = ''addRule'' then ''Add a targeting rule serving #'' @ v
         else if k = ''removeRule'' then ''Remove a targeting rule''
         else k)"

definition instructionsText :: "flag_instruction list \<Rightarrow> string" where
  "instructionsText instructions = join ''; '' (map instructionText instructions)"

section \<open>applyInstructions\<close>

definition newConfig :: flag_config where
  "newConfig = \<lparr>fc_on = False, fc_off_variation = 1,
     fc_fallthrough = \<lparr>vr_variation = Some 0, vr_rollout = None\<rparr>,
     fc_targets = [], fc_rules = [], fc_version = 1\<rparr>"

text \<open>\<open>xs.find(p)\<close> followed by a mutation of the element found.\<close>

fun update_first :: "('a \<Rightarrow> bool) \<Rightarrow> ('a \<Rightarrow> 'a) \<Rightarrow> 'a list \<Rightarrow> 'a list" where
  "update_first p f [] = []"
| "update_first p f (x # xs) = (if p x then f x # xs else x # update_first p f xs)"

definition add_value :: "string \<Rightarrow> string list \<Rightarrow> string list" where
  "add_value v vs = (if v \<in> set vs then vs else vs @ [v])"

definition is_target :: "string \<Rightarrow> int \<Rightarrow> target \<Rightarrow> bool" where
  "is_target kind variation x \<longleftrightarrow> tg_variation x = variation \<and> tg_contextKind x = kind"

definition add_targets :: "string \<Rightarrow> int \<Rightarrow> string list \<Rightarrow> target list \<Rightarrow> target list" where
  "add_targets kind variation values ts =
     (let ts1 = (if find (is_target kind variation) ts = None
                 then ts @ [\<lparr>tg_contextKind = kind, tg_values = [], tg_variation = variation\<rparr>] else ts)
      in update_first (is_target kind variation)
           (\<lambda>t. t\<lparr>tg_values := fold add_value values (tg_values t)\<rparr>) ts1)"

definition remove_targets :: "string \<Rightarrow> int \<Rightarrow> string list \<Rightarrow> target list \<Rightarrow> target list" where
  "remove_targets kind variation values ts =
     filter (\<lambda>x. tg_values x \<noteq> [])
       (update_first (is_target kind variation)
          (\<lambda>t. t\<lparr>tg_values := filter (\<lambda>v. v \<notin> set values) (tg_values t)\<rparr>) ts)"

text \<open>\<open>order.indexOf(r.id)\<close>: a rule without an id sorts like one that is not listed.\<close>

definition rule_rank :: "string list \<Rightarrow> flag_rule \<Rightarrow> int" where
  "rule_rank order r = (case fr_id r of Some i \<Rightarrow> index_of order i | None \<Rightarrow> -1)"

definition reorder_rules :: "string list \<Rightarrow> flag_rule list \<Rightarrow> flag_rule list" where
  "reorder_rules order rs = sort_key (rule_rank order) rs"

text \<open>One round of the loop. The state is the configuration and the number of identifiers drawn.\<close>

definition apply_instruction ::
  "(nat \<Rightarrow> string) \<Rightarrow> flag_config \<times> nat \<Rightarrow> flag_instruction \<Rightarrow> flag_config \<times> nat" where
  "apply_instruction uuid st ins =
     (let current = fst st; n = snd st; k = fi_kind ins in
      if k = ''turnFlagOn'' then (current\<lparr>fc_on := True\<rparr>, n)
      else if k = ''turnFlagOff'' then (current\<lparr>fc_on := False\<rparr>, n)
      else if k = ''addRule'' \<and> fi_clauses ins \<noteq> None then
        (current\<lparr>fc_rules := fc_rules current @
           [\<lparr>fr_id = Some (uuid n), fr_clauses = the (fi_clauses ins),
             fr_variation = fi_variation ins, fr_rollout = fi_rollout ins\<rparr>]\<rparr>, Suc n)
      else if k = ''updateRule'' \<and> truthy_opt (fi_ruleId ins) \<and> fi_clauses ins \<noteq> None then
        (current\<lparr>fc_rules := map (\<lambda>r. if fr_id r = fi_ruleId ins
           then r\<lparr>fr_clauses := the (fi_clauses ins), fr_variation := fi_variation ins,
                  fr_rollout := fi_rollout ins\<rparr> else r) (fc_rules current)\<rparr>, n)
      else if k = ''removeRule'' \<and> truthy_opt (fi_ruleId ins) then
        (current\<lparr>fc_rules := filter (\<lambda>r. fr_id r \<noteq> fi_ruleId ins) (fc_rules current)\<rparr>, n)
      else if k = ''reorderRules'' \<and> fi_ruleIds ins \<noteq> None then
        (current\<lparr>fc_rules := reorder_rules (the (fi_ruleIds ins)) (fc_rules current)\<rparr>, n)
      else if k = ''updateOffVariation'' \<and> fi_variation ins \<noteq> None then
        (current\<lparr>fc_off_variation := the (fi_variation ins)\<rparr>, n)
      else if k = ''updateFallthroughVariation'' \<and> fi_variation ins \<noteq> None then
        (current\<lparr>fc_fallthrough := \<lparr>vr_variation = fi_variation ins, vr_rollout = None\<rparr>\<rparr>, n)
      else if k = ''addTargets'' \<and> fi_variation ins \<noteq> None \<and> fi_values ins \<noteq> None then
        (current\<lparr>fc_targets := add_targets (the_default ''user'' (fi_contextKind ins))
           (the (fi_variation ins)) (the (fi_values ins)) (fc_targets current)\<rparr>, n)
      else if k = ''removeTargets'' \<and> fi_variation ins \<noteq> None \<and> fi_values ins \<noteq> None then
        (current\<lparr>fc_targets := remove_targets (the_default ''user'' (fi_contextKind ins))
           (the (fi_variation ins)) (the (fi_values ins)) (fc_targets current)\<rparr>, n)
      else (current, n))"

definition applyInstructions ::
  "(nat \<Rightarrow> string) \<Rightarrow> flag_config \<times> nat \<Rightarrow> flag_instruction list \<Rightarrow> flag_config \<times> nat" where
  "applyInstructions uuid st instructions =
     (let st' = fold (\<lambda>ins s. apply_instruction uuid s ins) instructions st
      in ((fst st')\<lparr>fc_version := fc_version (fst st') + 1\<rparr>, snd st'))"

section \<open>Individual targets\<close>

text \<open>Which variation is served to which key of which context kind.\<close>

definition target_set :: "target list \<Rightarrow> (string \<times> int \<times> string) set" where
  "target_set ts = (\<Union>t\<in>set ts. (\<lambda>v. (tg_contextKind t, tg_variation t, v)) ` set (tg_values t))"

definition target_key :: "target \<Rightarrow> string \<times> int" where
  "target_key t = (tg_contextKind t, tg_variation t)"

text \<open>Well-formed targets: one entry per context kind and variation, no key listed twice in it.\<close>

definition targets_ok :: "target list \<Rightarrow> bool" where
  "targets_ok ts \<longleftrightarrow> distinct (map target_key ts) \<and> list_all (\<lambda>t. distinct (tg_values t)) ts"

lemma set_add_value [simp]: "set (add_value v vs) = insert v (set vs)"
  by (auto simp: add_value_def)

lemma set_fold_add_value [simp]: "set (fold add_value xs vs) = set xs \<union> set vs"
  by (induction xs arbitrary: vs) auto

lemma distinct_fold_add_value [simp]: "distinct vs \<Longrightarrow> distinct (fold add_value xs vs)"
  by (induction xs arbitrary: vs) (auto simp: add_value_def)

lemma is_target_key: "is_target k v t \<longleftrightarrow> target_key t = (k, v)"
  by (auto simp: is_target_def target_key_def)

lemma update_first_map:
  "distinct (map target_key ts) \<Longrightarrow>
   update_first (is_target k v) f ts = map (\<lambda>t. if target_key t = (k, v) then f t else t) ts"
proof (induction ts)
  case (Cons t ts)
  show ?case
  proof (cases "target_key t = (k, v)")
    case True
    then have "\<forall>u\<in>set ts. target_key u \<noteq> (k, v)" using Cons.prems by force
    then have "map (\<lambda>t. if target_key t = (k, v) then f t else t) ts = ts" by (simp add: map_idI)
    then show ?thesis using True by (simp add: is_target_key)
  next
    case False
    then show ?thesis using Cons by (simp add: is_target_key)
  qed
qed simp

lemma target_key_values [simp]: "target_key (t\<lparr>tg_values := x\<rparr>) = target_key t"
  by (simp add: target_key_def)

lemma target_set_alt: "(k, v, x) \<in> target_set ts \<longleftrightarrow> (\<exists>t\<in>set ts. target_key t = (k, v) \<and> x \<in> set (tg_values t))"
  by (auto simp: target_set_def target_key_def)

lemma find_target: "find (is_target k v) ts = None \<longleftrightarrow> (k, v) \<notin> target_key ` set ts"
  by (auto simp: find_None_iff is_target_key) (metis image_eqI)

text \<open>The target list an update starts from: it holds exactly one entry for the pair.\<close>

definition ensure_target :: "string \<Rightarrow> int \<Rightarrow> target list \<Rightarrow> target list" where
  "ensure_target k v ts = (if find (is_target k v) ts = None
     then ts @ [\<lparr>tg_contextKind = k, tg_values = [], tg_variation = v\<rparr>] else ts)"

lemma ensure_target_ok:
  assumes "targets_ok ts"
  shows "targets_ok (ensure_target k v ts)" "target_set (ensure_target k v ts) = target_set ts"
    "(k, v) \<in> target_key ` set (ensure_target k v ts)"
proof -
  have t: "target_key \<lparr>tg_contextKind = k, tg_values = [], tg_variation = v\<rparr> = (k, v)"
    by (simp add: target_key_def)
  show "targets_ok (ensure_target k v ts)"
    using assms t by (auto simp: ensure_target_def targets_ok_def find_target)
  show "target_set (ensure_target k v ts) = target_set ts"
    by (simp add: ensure_target_def target_set_def)
  show "(k, v) \<in> target_key ` set (ensure_target k v ts)"
    using t find_target [of k v ts] by (auto simp: ensure_target_def)
qed

lemma add_targets_eq:
  "targets_ok ts \<Longrightarrow> add_targets k v xs ts =
   map (\<lambda>t. if target_key t = (k, v) then t\<lparr>tg_values := fold add_value xs (tg_values t)\<rparr> else t)
     (ensure_target k v ts)"
  using ensure_target_ok(1) [of ts k v]
  by (simp add: add_targets_def ensure_target_def targets_ok_def Let_def update_first_map)

lemma map_keeps_keys:
  "(\<And>t. target_key (f t) = target_key t) \<Longrightarrow> map target_key (map f ts) = map target_key ts"
  by simp

lemma add_targets_ok: "targets_ok ts \<Longrightarrow> targets_ok (add_targets k v xs ts)"
proof -
  assume ok: "targets_ok ts"
  let ?f = "\<lambda>t. if target_key t = (k, v) then t\<lparr>tg_values := fold add_value xs (tg_values t)\<rparr> else t"
  have "map target_key (map ?f (ensure_target k v ts)) = map target_key (ensure_target k v ts)"
    by (rule map_keeps_keys) simp
  then show ?thesis using ensure_target_ok(1) [OF ok, of k v]
    by (auto simp: add_targets_eq [OF ok] targets_ok_def list_all_iff simp del: map_map)
qed

lemma add_targets_set:
  assumes "targets_ok ts"
  shows "target_set (add_targets k v xs ts) = target_set ts \<union> {(k, v, x) |x. x \<in> set xs}"
proof -
  have "(k', v', x) \<in> target_set (add_targets k v xs ts) \<longleftrightarrow>
        (k', v', x) \<in> target_set (ensure_target k v ts) \<or> (k' = k \<and> v' = v \<and> x \<in> set xs)" for k' v' x
  proof -
    let ?f = "\<lambda>t. if target_key t = (k, v) then t\<lparr>tg_values := fold add_value xs (tg_values t)\<rparr> else t"
    let ?E = "ensure_target k v ts"
    have f: "target_key (?f t) = target_key t"
      "x \<in> set (tg_values (?f t)) \<longleftrightarrow> x \<in> set (tg_values t) \<or> (target_key t = (k, v) \<and> x \<in> set xs)" for t
      by auto
    have "(k', v', x) \<in> target_set (add_targets k v xs ts) \<longleftrightarrow>
        (\<exists>t\<in>set ?E. target_key t = (k', v') \<and> x \<in> set (tg_values (?f t)))"
      unfolding add_targets_eq [OF assms] target_set_alt set_map bex_simps f(1) ..
    also have "\<dots> \<longleftrightarrow> (k', v', x) \<in> target_set ?E \<or> (k' = k \<and> v' = v \<and> x \<in> set xs)"
      unfolding f(2) target_set_alt using ensure_target_ok(3) [OF assms, of k v] by fastforce
    finally show ?thesis .
  qed
  then show ?thesis by (auto simp: ensure_target_ok(2) [OF assms])
qed

lemma target_set_filter_empty: "target_set (filter (\<lambda>x. tg_values x \<noteq> []) ts) = target_set ts"
  by (auto simp: target_set_def)

lemma remove_targets_eq:
  "targets_ok ts \<Longrightarrow> remove_targets k v xs ts = filter (\<lambda>x. tg_values x \<noteq> [])
     (map (\<lambda>t. if target_key t = (k, v)
       then t\<lparr>tg_values := filter (\<lambda>y. y \<notin> set xs) (tg_values t)\<rparr> else t) ts)"
  by (simp add: remove_targets_def targets_ok_def update_first_map)

lemma remove_targets_ok: "targets_ok ts \<Longrightarrow> targets_ok (remove_targets k v xs ts)"
proof -
  assume ok: "targets_ok ts"
  let ?f = "\<lambda>t. if target_key t = (k, v)
    then t\<lparr>tg_values := filter (\<lambda>y. y \<notin> set xs) (tg_values t)\<rparr> else t"
  have "map target_key (map ?f ts) = map target_key ts" by (rule map_keeps_keys) simp
  then have "distinct (map target_key (map ?f ts))" using ok by (simp add: targets_ok_def del: map_map)
  then show ?thesis using ok
    by (auto simp: remove_targets_eq [OF ok] targets_ok_def list_all_iff distinct_map_filter simp del: map_map)
qed

lemma remove_targets_set:
  assumes "targets_ok ts"
  shows "target_set (remove_targets k v xs ts) = target_set ts - {(k, v, x) |x. x \<in> set xs}"
proof -
  have "(k', v', x) \<in> target_set (remove_targets k v xs ts) \<longleftrightarrow>
        (k', v', x) \<in> target_set ts \<and> \<not> (k' = k \<and> v' = v \<and> x \<in> set xs)" for k' v' x
  proof -
    let ?f = "\<lambda>t. if target_key t = (k, v)
      then t\<lparr>tg_values := filter (\<lambda>y. y \<notin> set xs) (tg_values t)\<rparr> else t"
    have f: "target_key (?f t) = target_key t"
      "x \<in> set (tg_values (?f t)) \<longleftrightarrow> x \<in> set (tg_values t) \<and> \<not> (target_key t = (k, v) \<and> x \<in> set xs)" for t
      by auto
    have "(k', v', x) \<in> target_set (remove_targets k v xs ts) \<longleftrightarrow>
        (\<exists>t\<in>set ts. target_key t = (k', v') \<and> x \<in> set (tg_values (?f t)))"
      unfolding remove_targets_eq [OF assms] target_set_filter_empty target_set_alt set_map bex_simps f(1) ..
    also have "\<dots> \<longleftrightarrow> (k', v', x) \<in> target_set ts \<and> \<not> (k' = k \<and> v' = v \<and> x \<in> set xs)"
      unfolding f(2) target_set_alt by auto
    finally show ?thesis .
  qed
  then show ?thesis by auto
qed

lemma remove_targets_nonempty: "t \<in> set (remove_targets k v xs ts) \<Longrightarrow> tg_values t \<noteq> []"
  by (simp add: remove_targets_def)

section \<open>Rules\<close>

lemma reorder_rules_mset: "mset (reorder_rules order rs) = mset rs"
  by (simp add: reorder_rules_def)

lemma sort_key_of_sorted: "sorted (map f xs) \<Longrightarrow> sort_key f xs = xs"
  by (simp add: sort_key_id_if_sorted)

text \<open>A full order of distinct ids puts the rules exactly in that order.\<close>

lemma reorder_rules_exact:
  assumes "mset rs = mset rs'" "map fr_id rs' = map Some order" "distinct order"
  shows "reorder_rules order rs = rs'"
proof -
  have rank: "rule_rank order (rs' ! i) = int i" if "i < length rs'" for i
  proof -
    have "length order = length rs'" using assms(2) by (metis length_map)
    then have "fr_id (rs' ! i) = Some (order ! i)" using that assms(2) by (metis nth_map)
    then show ?thesis using that assms(3) \<open>length order = length rs'\<close>
      by (simp add: rule_rank_def index_of_nth)
  qed
  then have ranks: "map (rule_rank order) rs' = map int [0..<length rs']"
    by (intro nth_equalityI) auto
  have "distinct (map (rule_rank order) rs')" by (simp add: ranks distinct_map)
  then have inj: "inj_on (rule_rank order) (set rs')" by (simp add: distinct_map)
  have s: "sorted (map (rule_rank order) rs')" unfolding ranks by (simp add: sorted_map)
  let ?xs = "sort_key (rule_rank order) rs"
  have m: "mset ?xs = mset rs'" using assms(1) by simp
  then have set: "set ?xs = set rs'" by (rule mset_eq_setD)
  have "distinct (map (rule_rank order) ?xs)"
    using \<open>distinct (map (rule_rank order) rs')\<close> m by (metis mset_eq_imp_distinct_iff mset_map)
  then have "?xs = rs'"
    using inj set s \<open>distinct (map (rule_rank order) rs')\<close>
    by (intro map_sorted_distinct_set_unique [of "rule_rank order"]) auto
  then show ?thesis by (simp add: reorder_rules_def)
qed

section \<open>Configurations\<close>

definition rule_ids_ok :: "(nat \<Rightarrow> string) \<Rightarrow> nat \<Rightarrow> flag_rule list \<Rightarrow> bool" where
  "rule_ids_ok uuid n rs \<longleftrightarrow> distinct (map fr_id rs) \<and>
     (\<forall>r\<in>set rs. \<exists>i. fr_id r = Some i \<and> (\<forall>m\<ge>n. uuid m \<noteq> i))"

text \<open>A configuration with \<open>n\<close> identifiers drawn: rules have distinct ids, none of which the supply
  can draw again, and the individual targets are well formed.\<close>

definition config_inv :: "(nat \<Rightarrow> string) \<Rightarrow> flag_config \<times> nat \<Rightarrow> bool" where
  "config_inv uuid st \<longleftrightarrow> inj uuid \<and> rule_ids_ok uuid (snd st) (fc_rules (fst st)) \<and>
     targets_ok (fc_targets (fst st))"

lemma targets_ok_Nil [inv_intros]: "targets_ok []"
  by (simp add: targets_ok_def)

lemma rule_ids_ok_append:
  "inj uuid \<Longrightarrow> rule_ids_ok uuid n rs \<Longrightarrow> fr_id r = Some (uuid n) \<Longrightarrow> rule_ids_ok uuid (Suc n) (rs @ [r])"
  by (fastforce simp: rule_ids_ok_def dest: injD)

lemma rule_ids_ok_map:
  "rule_ids_ok uuid n rs \<Longrightarrow> (\<And>r. fr_id (f r) = fr_id r) \<Longrightarrow> rule_ids_ok uuid n (map f rs)"
  by (auto simp: rule_ids_ok_def comp_def)

lemma rule_ids_ok_filter: "rule_ids_ok uuid n rs \<Longrightarrow> rule_ids_ok uuid n (filter p rs)"
  by (auto simp: rule_ids_ok_def distinct_map_filter)

lemma rule_ids_ok_mset: "rule_ids_ok uuid n rs \<Longrightarrow> mset rs' = mset rs \<Longrightarrow> rule_ids_ok uuid n rs'"
  unfolding rule_ids_ok_def by (metis mset_eq_imp_distinct_iff mset_eq_setD mset_map)

lemmas config_intros = add_targets_ok remove_targets_ok rule_ids_ok_append rule_ids_ok_map
  rule_ids_ok_filter rule_ids_ok_mset [OF _ reorder_rules_mset]

lemma apply_instruction_inv: "config_inv uuid st \<Longrightarrow> config_inv uuid (apply_instruction uuid st ins)"
  by (auto simp: config_inv_def apply_instruction_def Let_def intro!: config_intros)

interpretation cfg: invariant_machine "apply_instruction uuid" "config_inv uuid" for uuid
  by unfold_locales (rule apply_instruction_inv)

lemma config_inv_version [simp]: "config_inv uuid (c\<lparr>fc_version := v\<rparr>, n) = config_inv uuid (c, n)"
  by (simp add: config_inv_def)

lemma applyInstructions_inv: "config_inv uuid st \<Longrightarrow> config_inv uuid (applyInstructions uuid st inss)"
  using cfg.run_inv [of uuid st inss] by (simp add: applyInstructions_def Let_def)

lemma newConfig_inv: "inj uuid \<Longrightarrow> config_inv uuid (newConfig, n)"
  by (simp add: config_inv_def newConfig_def rule_ids_ok_def targets_ok_def)

lemma apply_instruction_version: "fc_version (fst (apply_instruction uuid st ins)) = fc_version (fst st)"
  by (simp add: apply_instruction_def Let_def)

lemma applyInstructions_version:
  "fc_version (fst (applyInstructions uuid st inss)) = fc_version (fst st) + 1"
proof -
  have "fc_version (fst (fold (\<lambda>ins s. apply_instruction uuid s ins) inss st)) = fc_version (fst st)"
    by (induction inss arbitrary: st) (simp_all add: apply_instruction_version)
  then show ?thesis by (simp add: applyInstructions_def Let_def)
qed

lemma apply_instruction_counter: "snd st \<le> snd (apply_instruction uuid st ins)"
  by (simp add: apply_instruction_def Let_def)

lemma applyInstructions_counter: "snd st \<le> snd (applyInstructions uuid st inss)"
proof -
  have "snd st \<le> snd (fold (\<lambda>ins s. apply_instruction uuid s ins) inss st)"
  proof (induction inss arbitrary: st)
    case (Cons a inss)
    then show ?case
      using order_trans [OF apply_instruction_counter [of st uuid a]] by simp
  qed simp
  then show ?thesis by (simp add: applyInstructions_def Let_def)
qed

end
