(* ===== verification/MockStore.thy ===== *)
theory MockStore
  imports Instructions
begin

text \<open>
  The in-memory backend of the dashboard's tests and demo mode (\<open>web/src/mocks/handlers.ts\<close>):
  its module-level state, seeds and resets, and the request handlers for users, setup,
  organizations, roles, members, projects, environments, SDK keys, contexts, flags, segments,
  flag configurations and statistics. Change requests, schedules, triggers and webhooks are in
  \<open>MockGovernance\<close>.

  A handler is a function of the decoded request and the state. The users are kept by reference:
  \<open>seedUsers\<close> and \<open>mockUsers\<close> share their objects, so the users live in a heap and the array holds
  addresses. Every other handler that mutates an object mutates one that a single array holds.
  Identifiers come from a supply, times from the host's clock.
\<close>

section \<open>State\<close>

record host =
  ho_uuid :: "nat \<Rightarrow> string"
  ho_iso :: "int \<Rightarrow> string"
  ho_parse :: "string \<Rightarrow> int option"

datatype 'a response = Json int 'a | Detail int string | Empty int

record backend =
  bk_heap :: "user list"
  bk_users :: "nat list"
  bk_needsSetup :: bool
  bk_organizations :: "organization list"
  bk_projects :: "project list"
  bk_flags :: "flag list"
  bk_environments :: "environment list"
  bk_segments :: "segment list"
  bk_sdkKeys :: "sdk_key list"
  bk_roles :: "role list"
  bk_members :: "member list"
  bk_configs :: "(string \<times> flag_config) list"
  bk_changes :: "change_request list"
  bk_scheduled :: "scheduled_change list"
  bk_triggers :: "flag_trigger list"
  bk_webhooks :: "webhook list"
  bk_drawn :: nat

definition seed_time :: string where
  "seed_time = ''2026-07-12T00:00:00Z''"

definition seedUsers :: "user list" where
  "seedUsers =
     [\<lparr>us_id = ''1'', us_email = ''admin@flag-it.dev'', us_full_name = ''Admin'', us_is_superuser = True,
       us_is_active = True, us_created_at = ''2026-07-01T00:00:00Z'', us_updated_at = ''2026-07-01T00:00:00Z''\<rparr>,
      \<lparr>us_id = ''2'', us_email = ''alan@example.com'', us_full_name = ''Alan Turing'', us_is_superuser = False,
       us_is_active = True, us_created_at = ''2026-07-01T00:00:00Z'', us_updated_at = ''2026-07-01T00:00:00Z''\<rparr>]"

definition mockUser :: auth_user where
  "mockUser = \<lparr>us_id = ''u1'', us_email = ''admin@flag-it.dev'', us_full_name = ''Admin'',
     us_is_superuser = True, us_is_active = True, us_created_at = seed_time, us_updated_at = seed_time\<rparr>"

definition seedOrganizations :: "organization list" where
  "seedOrganizations = [\<lparr>or_id = ''t1'', or_slug = ''acme'', or_name = ''Acme Inc'',
     or_created_at = seed_time, or_updated_at = seed_time\<rparr>]"

definition mk_project :: "string \<Rightarrow> string \<Rightarrow> string \<Rightarrow> project" where
  "mk_project i key name = \<lparr>pr_id = i, pr_organization_id = ''t1'', pr_key = key, pr_name = name,
     pr_created_at = seed_time, pr_updated_at = seed_time\<rparr>"

definition seedProjects :: "project list" where
  "seedProjects = [mk_project ''p1'' ''checkout'' ''Checkout'', mk_project ''p2'' ''mobile-app'' ''Mobile App'']"

definition seedFlags :: "flag list" where
  "seedFlags =
     [\<lparr>fl_id = ''f1'', fl_project_id = ''p1'', fl_key = ''new-checkout'', fl_name = ''New checkout'',
       fl_description = ''Rolls out the redesigned checkout flow.'', fl_client_side_available = True,
       fl_temporary = True, fl_variations = [JBool True, JBool False],
       fl_created_at = seed_time, fl_updated_at = seed_time\<rparr>,
      \<lparr>fl_id = ''f2'', fl_project_id = ''p1'', fl_key = ''pricing-tier'', fl_name = ''Pricing tier'',
       fl_description = [], fl_client_side_available = False,
       fl_temporary = False, fl_variations = [JStr ''free'', JStr ''pro'', JStr ''enterprise''],
       fl_created_at = seed_time, fl_updated_at = seed_time\<rparr>]"

definition mk_environment :: "string \<Rightarrow> string \<Rightarrow> string \<Rightarrow> environment" where
  "mk_environment i key name = \<lparr>en_id = i, en_project_id = ''p1'', en_key = key, en_name = name,
     en_created_at = seed_time, en_updated_at = seed_time\<rparr>"

definition seedEnvironments :: "environment list" where
  "seedEnvironments = [mk_environment ''env-prod'' ''production'' ''Production'',
     mk_environment ''env-staging'' ''staging'' ''Staging'']"

definition seedSegments :: "segment list" where
  "seedSegments = [\<lparr>sg_id = ''s1'', sg_project_id = ''p1'', sg_key = ''beta-users'', sg_name = ''Beta users'',
     sg_description = ''Early-access cohort.'', sg_included = [''user-1'', ''user-2''], sg_excluded = [],
     sg_included_contexts = [], sg_excluded_contexts = [], sg_rules = [], sg_version = 1,
     sg_created_at = seed_time, sg_updated_at = seed_time\<rparr>]"

definition allPermissions :: "string list" where
  "allPermissions = [''organization.read'', ''organization.update'', ''member.manage'', ''role.manage'',
     ''audit.read'', ''project.create'', ''project.read'', ''project.update'', ''project.delete'',
     ''environment.manage'', ''sdk_key.manage'', ''flag.read'', ''flag.write'', ''flag.delete'']"

definition mk_role ::
  "string \<Rightarrow> string \<Rightarrow> string \<Rightarrow> string \<Rightarrow> role_scope \<Rightarrow> bool \<Rightarrow> string list \<Rightarrow> role" where
  "mk_role i key name description scope is_system permissions =
     \<lparr>rl_id = i, rl_organization_id = ''t1'', rl_key = key, rl_name = name, rl_description = description,
      rl_scope = scope, rl_is_system = is_system, rl_permissions = permissions,
      rl_created_at = seed_time, rl_updated_at = seed_time\<rparr>"

definition seedRoles :: "role list" where
  "seedRoles =
     [mk_role ''r1'' ''organization_admin'' ''Organization Admin'' ''Full control of the organization.''
        ScopeOrganization True [''*''],
      mk_role ''r2'' ''writer'' ''Writer'' [] ScopeProject True
        [''project.read'', ''flag.read'', ''flag.write'', ''flag.delete''],
      mk_role ''r3'' ''reader'' ''Reader'' [] ScopeProject True [''project.read'', ''flag.read'']]"

definition seedMembers :: "member list" where
  "seedMembers = [\<lparr>mb_user_id = ''u1'', mb_email = ''admin@flag-it.dev'', mb_full_name = ''Admin'',
     mb_role = ''organization_admin''\<rparr>]"

definition seedSdkKeys :: "sdk_key list" where
  "seedSdkKeys = [\<lparr>sk_id = ''k1'', sk_environment_id = ''env-prod'',
     sk_key = ''sdk-mock0000000000000000000000000000'', sk_kind = KServer, sk_name = ''CI'', sk_last_used_at = None, sk_revoked_at = None,
     sk_created_at = seed_time\<rparr>]"

definition mockContexts :: "seen_context list" where
  "mockContexts =
     [\<lparr>sn_id = ''c1'', sn_environment_id = ''env-prod'', sn_kind = ''user'', sn_key = ''alice'',
       sn_attributes = [(''plan'', JStr ''pro''), (''country'', JStr ''US'')],
       sn_first_seen = seed_time, sn_last_seen = ''2026-07-12T09:20:00Z''\<rparr>,
      \<lparr>sn_id = ''c2'', sn_environment_id = ''env-prod'', sn_kind = ''account'', sn_key = ''acme-corp'',
       sn_attributes = [(''tier'', JStr ''enterprise'')],
       sn_first_seen = seed_time, sn_last_seen = ''2026-07-12T09:10:00Z''\<rparr>]"

text \<open>The state when the module is loaded, and the two resets.\<close>

definition initial_backend :: backend where
  "initial_backend = \<lparr>bk_heap = seedUsers, bk_users = [0, 1], bk_needsSetup = False,
     bk_organizations = seedOrganizations, bk_projects = seedProjects, bk_flags = seedFlags,
     bk_environments = seedEnvironments, bk_segments = seedSegments, bk_sdkKeys = seedSdkKeys,
     bk_roles = seedRoles, bk_members = seedMembers, bk_configs = [], bk_changes = [],
     bk_scheduled = [], bk_triggers = [], bk_webhooks = [], bk_drawn = 0\<rparr>"

definition resetUsers :: "backend \<Rightarrow> backend" where
  "resetUsers st = st\<lparr>bk_users := [0, 1]\<rparr>"

definition resetBackend :: "backend \<Rightarrow> backend" where
  "resetBackend st = st\<lparr>bk_needsSetup := False, bk_organizations := seedOrganizations,
     bk_projects := seedProjects, bk_flags := seedFlags, bk_environments := seedEnvironments,
     bk_segments := seedSegments, bk_sdkKeys := seedSdkKeys, bk_members := seedMembers,
     bk_roles := seedRoles, bk_configs := [], bk_changes := [], bk_scheduled := [],
     bk_triggers := [], bk_webhooks := []\<rparr>"

text \<open>\<open>crypto.randomUUID()\<close>, and its variant without dashes.\<close>

definition randomUUID :: "host \<Rightarrow> backend \<Rightarrow> string \<times> backend" where
  "randomUUID h st = (ho_uuid h (bk_drawn st), st\<lparr>bk_drawn := Suc (bk_drawn st)\<rparr>)"

definition strip_dashes :: "string \<Rightarrow> string" where
  "strip_dashes s = filter (\<lambda>c. c \<noteq> CHR ''-'') s"

section \<open>Searches\<close>

text \<open>The \<open>search\<close> parameter of the request's URL, absent or present.\<close>

definition searchParam :: "string option \<Rightarrow> string" where
  "searchParam search = to_lower (the_default [] search)"

definition includesAny :: "string \<Rightarrow> string list \<Rightarrow> bool" where
  "includesAny q texts \<longleftrightarrow> q = [] \<or> list_ex (\<lambda>f. includes_str q (to_lower f)) texts"

section \<open>Users\<close>

definition users_of :: "backend \<Rightarrow> user list" where
  "users_of st = map (\<lambda>a. bk_heap st ! a) (bk_users st)"

definition get_users :: "backend \<Rightarrow> user list response" where
  "get_users st = Json 200 (users_of st)"

definition post_user ::
  "host \<Rightarrow> int \<Rightarrow> string \<Rightarrow> string option \<Rightarrow> bool option \<Rightarrow> backend \<Rightarrow> user response \<times> backend" where
  "post_user h now email full_name is_superuser st =
     (let (i, st1) = randomUUID h st;
          u = \<lparr>us_id = i, us_email = email, us_full_name = the_default [] full_name,
               us_is_superuser = the_default False is_superuser, us_is_active = True,
               us_created_at = ho_iso h now, us_updated_at = ho_iso h now\<rparr>
      in (Json 200 u, st1\<lparr>bk_heap := bk_heap st1 @ [u], bk_users := bk_users st1 @ [length (bk_heap st1)]\<rparr>))"

definition patch_user :: "string \<Rightarrow> string \<Rightarrow> bool \<Rightarrow> backend \<Rightarrow> user response \<times> backend" where
  "patch_user userID full_name is_active st =
     (case find (\<lambda>a. us_id (bk_heap st ! a) = userID) (bk_users st) of
        None \<Rightarrow> (Detail 404 ''not found'', st)
      | Some a \<Rightarrow>
          (let u = (bk_heap st ! a)\<lparr>us_full_name := full_name, us_is_active := is_active\<rparr>
           in (Json 200 u, st\<lparr>bk_heap := (bk_heap st)[a := u]\<rparr>)))"

definition delete_user :: "string \<Rightarrow> backend \<Rightarrow> unit response \<times> backend" where
  "delete_user userID st =
     (Empty 204, st\<lparr>bk_users := filter (\<lambda>a. us_id (bk_heap st ! a) \<noteq> userID) (bk_users st)\<rparr>)"

section \<open>Setup, sign-in, organizations\<close>

definition get_setup :: "backend \<Rightarrow> bool response" where
  "get_setup st = Json 200 (bk_needsSetup st)"

text \<open>\<open>input.organization_slug ? ... : undefined\<close>: an empty slug creates no organization.\<close>

definition post_setup ::
  "host \<Rightarrow> setup_input \<Rightarrow> backend \<Rightarrow> (session \<times> organization option) response \<times> backend" where
  "post_setup h inp st =
     (if \<not> bk_needsSetup st then (Detail 409 ''setup already complete'', st)
      else
        (let st1 = st\<lparr>bk_needsSetup := False\<rparr>;
             (org, st2) =
               (if truthy_opt (su_organization_slug inp)
                then (let (i, s) = randomUUID h st1; slug = the (su_organization_slug inp)
                      in (Some \<lparr>or_id = i, or_slug = slug,
                            or_name = the_default slug (su_organization_name inp),
                            or_created_at = seed_time, or_updated_at = seed_time\<rparr>, s))
                else (None, st1))
         in (Json 201 (\<lparr>se_token = ''mock-token'', se_user = mockUser\<lparr>us_email := su_email inp\<rparr>\<rparr>, org),
             st2\<lparr>bk_organizations := (case org of Some x \<Rightarrow> [x] | None \<Rightarrow> [])\<rparr>)))"

definition post_login :: "session response" where
  "post_login = Json 200 \<lparr>se_token = ''mock-token'', se_user = mockUser\<rparr>"

definition get_me :: "auth_user response" where
  "get_me = Json 200 mockUser"

definition get_organizations :: "backend \<Rightarrow> organization list response" where
  "get_organizations st = Json 200 (bk_organizations st)"

definition delete_organization :: "string \<Rightarrow> backend \<Rightarrow> unit response \<times> backend" where
  "delete_organization slug st =
     (Empty 204, st\<lparr>bk_organizations := filter (\<lambda>t. or_slug t \<noteq> slug) (bk_organizations st)\<rparr>)"

definition delete_project :: "string \<Rightarrow> backend \<Rightarrow> unit response \<times> backend" where
  "delete_project projectKey st =
     (Empty 204, st\<lparr>bk_projects := filter (\<lambda>p. pr_key p \<noteq> projectKey) (bk_projects st)\<rparr>)"

definition get_permissions :: "string list response" where
  "get_permissions = Json 200 allPermissions"

definition get_roles :: "backend \<Rightarrow> role list response" where
  "get_roles st = Json 200 (bk_roles st)"

definition post_role ::
  "host \<Rightarrow> string \<Rightarrow> string \<Rightarrow> string option \<Rightarrow> role_scope \<Rightarrow> string list \<Rightarrow> backend \<Rightarrow> role response \<times> backend" where
  "post_role h key name description scope permissions st =
     (let (i, st1) = randomUUID h st;
          r = mk_role i key name (the_default [] description) scope False permissions
      in (Json 201 r, st1\<lparr>bk_roles := bk_roles st1 @ [r]\<rparr>))"

text \<open>The grant handler answers without storing anything.\<close>

record grant =
  gr_user_email :: string
  gr_role :: string
  gr_scope :: string
  gr_project_id :: string

definition post_project_role :: "string \<Rightarrow> string \<Rightarrow> string \<Rightarrow> grant response" where
  "post_project_role projectKey email role =
     Json 200 \<lparr>gr_user_email = email, gr_role = role, gr_scope = ''project'', gr_project_id = projectKey\<rparr>"

definition get_members :: "backend \<Rightarrow> member list response" where
  "get_members st = Json 200 (bk_members st)"

definition post_member ::
  "host \<Rightarrow> string \<Rightarrow> string option \<Rightarrow> backend \<Rightarrow> string response \<times> backend" where
  "post_member h email role st =
     (let (i, st1) = randomUUID h st;
          m = \<lparr>mb_user_id = i, mb_email = email, mb_full_name = [], mb_role = the_default [] role\<rparr>
      in (Json 201 i, st1\<lparr>bk_members := bk_members st1 @ [m]\<rparr>))"

section \<open>Projects, environments, SDK keys\<close>

definition get_projects :: "backend \<Rightarrow> project list response" where
  "get_projects st = Json 200 (bk_projects st)"

definition post_project ::
  "host \<Rightarrow> string \<Rightarrow> string \<Rightarrow> backend \<Rightarrow> (project \<times> environment list) response \<times> backend" where
  "post_project h key name st =
     (let (i, st1) = randomUUID h st; p = mk_project i key name
      in (Json 201 (p, bk_environments st1), st1\<lparr>bk_projects := bk_projects st1 @ [p]\<rparr>))"

definition get_project :: "string \<Rightarrow> backend \<Rightarrow> project response" where
  "get_project projectKey st =
     (case find (\<lambda>p. pr_key p = projectKey) (bk_projects st) of Some p \<Rightarrow> Json 200 p | None \<Rightarrow> Empty 404)"

definition get_environments :: "string option \<Rightarrow> backend \<Rightarrow> environment list response" where
  "get_environments search st =
     (let q = searchParam search
      in Json 200 (filter (\<lambda>e. includesAny q [en_key e, en_name e]) (bk_environments st)))"

definition post_environment ::
  "host \<Rightarrow> string \<Rightarrow> string \<Rightarrow> backend \<Rightarrow> environment response \<times> backend" where
  "post_environment h key name st =
     (let (i, st1) = randomUUID h st; e = mk_environment i key name
      in (Json 201 e, st1\<lparr>bk_environments := bk_environments st1 @ [e]\<rparr>))"

definition get_sdk_keys :: "backend \<Rightarrow> sdk_key list response" where
  "get_sdk_keys st = Json 200 (bk_sdkKeys st)"

definition post_sdk_key ::
  "host \<Rightarrow> sdk_kind \<Rightarrow> string option \<Rightarrow> backend \<Rightarrow> sdk_key response \<times> backend" where
  "post_sdk_key h kind name st =
     (let (i, st1) = randomUUID h st; (r, st2) = randomUUID h st1;
          k = \<lparr>sk_id = i, sk_environment_id = ''env-prod'',
               sk_key = (if kind = KClient then ''client-'' else ''sdk-'') @ strip_dashes r,
               sk_kind = kind, sk_name = the_default [] name,
               sk_last_used_at = None, sk_revoked_at = None, sk_created_at = seed_time\<rparr>
      in (Json 201 k, st2\<lparr>bk_sdkKeys := bk_sdkKeys st2 @ [k]\<rparr>))"

definition delete_sdk_key :: "string \<Rightarrow> backend \<Rightarrow> unit response \<times> backend" where
  "delete_sdk_key keyID st =
     (Empty 204, st\<lparr>bk_sdkKeys := filter (\<lambda>k. sk_id k \<noteq> keyID) (bk_sdkKeys st)\<rparr>)"

section \<open>Contexts\<close>

definition get_contexts :: "string option \<Rightarrow> seen_context list response" where
  "get_contexts search =
     (let q = searchParam search in Json 200 (filter (\<lambda>c. includesAny q [sn_kind c, sn_key c]) mockContexts))"

text \<open>The path parameter \<open>key\<close> is given decoded; a flag without variations shows \<open>undefined\<close>.\<close>

definition get_context :: "string \<Rightarrow> string \<Rightarrow> backend \<Rightarrow> context_detail response" where
  "get_context kind key st =
     (case find (\<lambda>c. sn_kind c = kind \<and> sn_key c = key) mockContexts of
        None \<Rightarrow> Empty 404
      | Some c \<Rightarrow> Json 200 \<lparr>cd_context = c,
          cd_evaluations = map (\<lambda>f. \<lparr>ce_flag_key = fl_key f, ce_variation = 0,
            ce_value = the_default JUndef (js_nth (fl_variations f) 0), ce_reason = ''FALLTHROUGH''\<rparr>)
            (bk_flags st)\<rparr>)"

section \<open>Flags\<close>

record flag_body =
  fb_name :: string
  fb_description :: "string option"
  fb_client_side_available :: "bool option"
  fb_temporary :: "bool option"
  fb_variations :: "js list"

definition find_flag :: "flag list \<Rightarrow> string \<Rightarrow> flag option" where
  "find_flag fs k = find (\<lambda>f. fl_key f = k) fs"

definition upsert_flag :: "flag \<Rightarrow> flag list \<Rightarrow> flag list" where
  "upsert_flag f fs = (if \<exists>g\<in>set fs. fl_key g = fl_key f
     then update_first (\<lambda>g. fl_key g = fl_key f) (\<lambda>_. f) fs else fs @ [f])"

definition remove_flag :: "string \<Rightarrow> flag list \<Rightarrow> flag list" where
  "remove_flag k fs = filter (\<lambda>f. fl_key f \<noteq> k) fs"

definition get_flags :: "backend \<Rightarrow> flag list response" where
  "get_flags st = Json 200 (bk_flags st)"

definition get_flag :: "string \<Rightarrow> backend \<Rightarrow> flag response" where
  "get_flag flagKey st = (case find_flag (bk_flags st) flagKey of None \<Rightarrow> Empty 404 | Some f \<Rightarrow> Json 200 f)"

definition put_flag :: "host \<Rightarrow> string \<Rightarrow> flag_body \<Rightarrow> backend \<Rightarrow> flag response \<times> backend" where
  "put_flag h flagKey body st =
     (let (i, st1) = randomUUID h st;
          f = \<lparr>fl_id = i, fl_project_id = ''p1'', fl_key = flagKey, fl_name = fb_name body,
               fl_description = the_default [] (fb_description body),
               fl_client_side_available = the_default False (fb_client_side_available body),
               fl_temporary = the_default False (fb_temporary body), fl_variations = fb_variations body,
               fl_created_at = seed_time, fl_updated_at = seed_time\<rparr>
      in (Json 200 f, st1\<lparr>bk_flags := upsert_flag f (bk_flags st1)\<rparr>))"

definition delete_flag :: "string \<Rightarrow> backend \<Rightarrow> unit response \<times> backend" where
  "delete_flag flagKey st = (Empty 204, st\<lparr>bk_flags := remove_flag flagKey (bk_flags st)\<rparr>)"

definition get_flag_lifecycle :: "backend \<Rightarrow> flag_lifecycle list response" where
  "get_flag_lifecycle st =
     Json 200 (map (\<lambda>f.
       (let status = (if fl_key f = ''pricing-tier'' then LcInactive else LcActive)
        in \<lparr>lf_flag = f, lf_status = status,
            lf_last_evaluated = Some (if status = LcInactive then ''2026-05-01T00:00:00Z'' else seed_time)\<rparr>))
       (bk_flags st))"

section \<open>Statistics\<close>

definition get_flag_stats :: "string \<Rightarrow> string \<Rightarrow> string option \<Rightarrow> flag_stats response" where
  "get_flag_stats flagKey envKey since =
     (let vs = [(0, 7200), (1, 3100)]
      in Json 200 \<lparr>fa_flag_key = flagKey, fa_environment = envKey, fa_since = the_default ''24h'' since,
           fa_variations = vs, fa_total = foldl (\<lambda>a v. a + snd v) 0 vs\<rparr>)"

definition get_env_stats :: "string \<Rightarrow> string option \<Rightarrow> env_stats response" where
  "get_env_stats envKey since =
     (let fs = [(''new-checkout'', 10300), (''pricing-tier'', 4200)]
      in Json 200 \<lparr>ea_environment = envKey, ea_since = the_default ''24h'' since,
           ea_flags = fs, ea_total = foldl (\<lambda>a f. a + snd f) 0 fs\<rparr>)"

section \<open>Flag configurations\<close>

definition configKey :: "string \<Rightarrow> string \<Rightarrow> string" where
  "configKey flagKey envKey = flagKey @ CHR '':'' # envKey"

text \<open>\<open>flagConfigs[k] ??= newConfig()\<close>\<close>

definition ensure_config :: "string \<Rightarrow> backend \<Rightarrow> flag_config \<times> backend" where
  "ensure_config k st =
     (case map_of (bk_configs st) k of
        Some c \<Rightarrow> (c, st)
      | None \<Rightarrow> (newConfig, st\<lparr>bk_configs := AList.update k newConfig (bk_configs st)\<rparr>))"

definition get_env_flags :: "string \<Rightarrow> string option \<Rightarrow> backend \<Rightarrow> flag_with_state list response" where
  "get_env_flags envKey search st =
     (let q = searchParam search
      in Json 200 (map (\<lambda>f. \<lparr>fs_flag = f,
           fs_on = (case map_of (bk_configs st) (configKey (fl_key f) envKey) of
             Some c \<Rightarrow> fc_on c | None \<Rightarrow> False)\<rparr>)
         (filter (\<lambda>f. includesAny q [fl_key f, fl_name f, fl_description f]) (bk_flags st))))"

definition get_flag_config :: "string \<Rightarrow> string \<Rightarrow> backend \<Rightarrow> flag_config response \<times> backend" where
  "get_flag_config flagKey envKey st =
     (let (c, st1) = ensure_config (configKey flagKey envKey) st in (Json 200 c, st1))"

text \<open>The mutation of the configuration under \<open>k\<close>, which the map and the callers share.\<close>

definition change_config ::
  "host \<Rightarrow> string \<Rightarrow> flag_instruction list \<Rightarrow> backend \<Rightarrow> flag_config \<times> backend" where
  "change_config h k instructions st =
     (let (c, st1) = ensure_config k st;
          (c', n) = applyInstructions (ho_uuid h) (c, bk_drawn st1) instructions
      in (c', st1\<lparr>bk_configs := AList.update k c' (bk_configs st1), bk_drawn := n\<rparr>))"

definition patch_flag_config ::
  "host \<Rightarrow> string \<Rightarrow> string \<Rightarrow> flag_instruction list \<Rightarrow> backend \<Rightarrow> flag_config response \<times> backend" where
  "patch_flag_config h flagKey envKey instructions st =
     (let (c, st1) = change_config h (configKey flagKey envKey) instructions st in (Json 200 c, st1))"

section \<open>Segments\<close>

record segment_body =
  sb_name :: "string option"
  sb_description :: "string option"
  sb_included :: "string list option"
  sb_excluded :: "string list option"
  sb_included_contexts :: "segment_target list option"
  sb_excluded_contexts :: "segment_target list option"
  sb_rules :: "segment_rule list option"

definition find_segment :: "segment list \<Rightarrow> string \<Rightarrow> segment option" where
  "find_segment ss k = find (\<lambda>s. sg_key s = k) ss"

definition upsert_segment :: "segment \<Rightarrow> segment list \<Rightarrow> segment list" where
  "upsert_segment s ss = (if find_segment ss (sg_key s) \<noteq> None
     then map (\<lambda>x. if sg_key x = sg_key s then s else x) ss else ss @ [s])"

definition remove_segment :: "string \<Rightarrow> segment list \<Rightarrow> segment list" where
  "remove_segment k ss = filter (\<lambda>s. sg_key s \<noteq> k) ss"

definition get_segments :: "string option \<Rightarrow> backend \<Rightarrow> segment list response" where
  "get_segments search st =
     (let q = searchParam search
      in Json 200 (filter (\<lambda>s. includesAny q [sg_key s, sg_name s, sg_description s]) (bk_segments st)))"

definition get_segment :: "string \<Rightarrow> backend \<Rightarrow> segment response" where
  "get_segment segKey st =
     (case find_segment (bk_segments st) segKey of None \<Rightarrow> Empty 404 | Some s \<Rightarrow> Json 200 s)"

text \<open>A new segment draws its identifier; an existing one keeps it and its creation time.\<close>

definition put_segment :: "host \<Rightarrow> string \<Rightarrow> segment_body \<Rightarrow> backend \<Rightarrow> segment response \<times> backend" where
  "put_segment h key body st =
     (let existing = find_segment (bk_segments st) key;
          (i, st1) = (case existing of Some s \<Rightarrow> (sg_id s, st) | None \<Rightarrow> randomUUID h st);
          s = \<lparr>sg_id = i, sg_project_id = ''p1'', sg_key = key, sg_name = the_default key (sb_name body),
               sg_description = the_default [] (sb_description body),
               sg_included = the_default [] (sb_included body),
               sg_excluded = the_default [] (sb_excluded body),
               sg_included_contexts = the_default [] (sb_included_contexts body),
               sg_excluded_contexts = the_default [] (sb_excluded_contexts body),
               sg_rules = the_default [] (sb_rules body),
               sg_version = (case existing of Some x \<Rightarrow> sg_version x | None \<Rightarrow> 0) + 1,
               sg_created_at = (case existing of Some x \<Rightarrow> sg_created_at x | None \<Rightarrow> seed_time),
               sg_updated_at = seed_time\<rparr>
      in (Json 200 s, st1\<lparr>bk_segments := upsert_segment s (bk_segments st1)\<rparr>))"

definition delete_segment :: "string \<Rightarrow> backend \<Rightarrow> unit response \<times> backend" where
  "delete_segment segKey st = (Empty 204, st\<lparr>bk_segments := remove_segment segKey (bk_segments st)\<rparr>)"

section \<open>Flags and segments are keyed collections\<close>

lemma find_update_first:
  "find (\<lambda>x. g x = k) (update_first (\<lambda>x. g x = g a) (\<lambda>_. a) xs) =
     (if k = g a \<and> (\<exists>x\<in>set xs. g x = g a) then Some a else find (\<lambda>x. g x = k) xs)"
  by (induction xs) auto

lemma find_key_None: "find (\<lambda>x. g x = k) xs = None \<longleftrightarrow> k \<notin> g ` set xs"
  by (auto simp: find_None_iff)

lemma find_snoc_key:
  "\<forall>x\<in>set xs. g x \<noteq> g a \<Longrightarrow>
   find (\<lambda>x. g x = k) (xs @ [a]) = (if k = g a then Some a else find (\<lambda>x. g x = k) xs)"
  by (induction xs) auto

lemma find_filter_key:
  "find (\<lambda>x. g x = k) (filter (\<lambda>x. g x \<noteq> k') xs) = (if k = k' then None else find (\<lambda>x. g x = k) xs)"
  by (induction xs) auto

lemma find_map_key:
  "find (\<lambda>x. g x = k) (map (\<lambda>x. if g x = g a then a else x) xs) =
     (if k = g a \<and> g a \<in> g ` set xs then Some a else find (\<lambda>x. g x = k) xs)"
  by (induction xs) auto

interpretation flg: keyed_collection fl_key find_flag upsert_flag remove_flag
proof
  fix a s k
  show "find_flag (upsert_flag a s) k = (if k = fl_key a then Some a else find_flag s k)"
    unfolding find_flag_def upsert_flag_def
    by (cases "\<exists>g\<in>set s. fl_key g = fl_key a") (simp_all add: find_update_first find_snoc_key)
qed (simp add: find_flag_def remove_flag_def find_filter_key)

interpretation seg: keyed_collection sg_key find_segment upsert_segment remove_segment
proof
  fix a s k
  show "find_segment (upsert_segment a s) k = (if k = sg_key a then Some a else find_segment s k)"
  proof (cases "\<forall>x\<in>set s. sg_key x \<noteq> sg_key a")
    case True
    then have "find (\<lambda>x. sg_key x = sg_key a) s = None" by (auto simp: find_None_iff)
    with True show ?thesis by (simp add: find_segment_def upsert_segment_def find_snoc_key)
  next
    case False
    then have m: "sg_key a \<in> sg_key ` set s" by (metis image_eqI)
    then have "find (\<lambda>x. sg_key x = sg_key a) s \<noteq> None" by (simp add: find_key_None)
    with m show ?thesis by (simp add: find_segment_def upsert_segment_def find_map_key)
  qed
qed (simp add: find_segment_def remove_segment_def find_filter_key)

end
