(* ===== verification/MockGovernance.thy ===== *)
theory MockGovernance
  imports MockStore
begin

text \<open>
  The governance handlers of \<open>web/src/mocks/handlers.ts\<close>: change requests and their review,
  scheduled changes with the lazy scheduler, triggers, webhooks and the audit log; and the machine
  that runs every state-changing handler of the fixture backend.

  A handler that awaits the request body after it has read the state has two halves. For the
  review of a change request the interleaving matters, so its halves are separate definitions; the
  object the first half found is captured by the second.
\<close>

section \<open>Change requests\<close>

definition change_status_text :: "change_status \<Rightarrow> string" where
  "change_status_text s = (case s of ChPending \<Rightarrow> ''pending'' | ChApproved \<Rightarrow> ''approved'' | ChRejected \<Rightarrow> ''rejected'')"

text \<open>\<open>!p || x === p\<close> for a query parameter.\<close>

definition param_matches :: "string option \<Rightarrow> string \<Rightarrow> bool" where
  "param_matches p x \<longleftrightarrow> (truthy_opt p \<longrightarrow> x = the p)"

definition get_changes :: "string option \<Rightarrow> backend \<Rightarrow> change_request list response" where
  "get_changes status st =
     Json 200 (filter (\<lambda>c. param_matches status (change_status_text (cr_status c))) (bk_changes st))"

definition no_instructions :: "'a list option \<Rightarrow> bool" where
  "no_instructions xs \<longleftrightarrow> xs = None \<or> xs = Some []"

definition post_change ::
  "host \<Rightarrow> int \<Rightarrow> string \<Rightarrow> string \<Rightarrow> string \<Rightarrow> string option \<Rightarrow> flag_instruction list option \<Rightarrow>
   backend \<Rightarrow> change_request response \<times> backend" where
  "post_change h now projectKey flagKey envKey comment instructions st =
     (if no_instructions instructions then (Detail 400 ''at least one instruction is required'', st)
      else
        (let (i, st1) = randomUUID h st;
             cr = \<lparr>cr_id = i, cr_project_id = projectKey, cr_environment_id = envKey,
                   cr_environment_key = envKey, cr_flag_key = flagKey, cr_instructions = the instructions,
                   cr_comment = the_default [] comment, cr_status = ChPending,
                   cr_requested_by = us_id mockUser, cr_requested_by_email = us_email mockUser,
                   cr_reviewed_by = None, cr_reviewed_by_email = None, cr_review_comment = None,
                   cr_created_at = ho_iso h now, cr_reviewed_at = None\<rparr>
         in (Json 200 cr, st1\<lparr>bk_changes := cr # bk_changes st1\<rparr>)))"

text \<open>Up to the \<open>await\<close>: an early answer, or the pending change that was found.\<close>

definition review_begin :: "string \<Rightarrow> backend \<Rightarrow> change_request response + change_request" where
  "review_begin changeId st =
     (case find (\<lambda>c. cr_id c = changeId) (bk_changes st) of
        None \<Rightarrow> Inl (Detail 404 ''not found'')
      | Some cr \<Rightarrow> if cr_status cr \<noteq> ChPending then Inl (Detail 409 ''not pending'') else Inr cr)"

definition reviewed :: "host \<Rightarrow> int \<Rightarrow> change_status \<Rightarrow> string option \<Rightarrow> change_request \<Rightarrow> change_request" where
  "reviewed h now status comment cr = cr\<lparr>cr_status := status, cr_reviewed_by := Some (us_id mockUser),
     cr_reviewed_by_email := Some (us_email mockUser), cr_review_comment := Some (the_default [] comment),
     cr_reviewed_at := Some (ho_iso h now)\<rparr>"

definition store_change :: "change_request \<Rightarrow> backend \<Rightarrow> backend" where
  "store_change cr st = st\<lparr>bk_changes := map (\<lambda>c. if cr_id c = cr_id cr then cr else c) (bk_changes st)\<rparr>"

definition approve_finish ::
  "host \<Rightarrow> int \<Rightarrow> change_request \<Rightarrow> string option \<Rightarrow> backend \<Rightarrow> change_request response \<times> backend" where
  "approve_finish h now cr comment st =
     (let (c, st1) = change_config h (configKey (cr_flag_key cr) (cr_environment_key cr)) (cr_instructions cr) st;
          cr' = reviewed h now ChApproved comment cr
      in (Json 200 cr', store_change cr' st1))"

definition reject_finish ::
  "host \<Rightarrow> int \<Rightarrow> change_request \<Rightarrow> string option \<Rightarrow> backend \<Rightarrow> change_request response \<times> backend" where
  "reject_finish h now cr comment st =
     (let cr' = reviewed h now ChRejected comment cr in (Json 200 cr', store_change cr' st))"

text \<open>The handlers run without interleaving.\<close>

definition approve_change ::
  "host \<Rightarrow> int \<Rightarrow> string \<Rightarrow> string option \<Rightarrow> backend \<Rightarrow> change_request response \<times> backend" where
  "approve_change h now changeId comment st =
     (case review_begin changeId st of Inl r \<Rightarrow> (r, st) | Inr cr \<Rightarrow> approve_finish h now cr comment st)"

definition reject_change ::
  "host \<Rightarrow> int \<Rightarrow> string \<Rightarrow> string option \<Rightarrow> backend \<Rightarrow> change_request response \<times> backend" where
  "reject_change h now changeId comment st =
     (case review_begin changeId st of Inl r \<Rightarrow> (r, st) | Inr cr \<Rightarrow> reject_finish h now cr comment st)"

section \<open>Scheduled changes\<close>

definition scheduled_status_text :: "scheduled_status \<Rightarrow> string" where
  "scheduled_status_text s = (case s of ScPending \<Rightarrow> ''pending'' | ScApplied \<Rightarrow> ''applied''
     | ScCancelled \<Rightarrow> ''cancelled'' | ScFailed \<Rightarrow> ''failed'')"

text \<open>A comparison with \<open>NaN\<close>, the time of a date that does not parse, is false.\<close>

definition not_after :: "host \<Rightarrow> string \<Rightarrow> int \<Rightarrow> bool" where
  "not_after h date now = (case ho_parse h date of None \<Rightarrow> False | Some t \<Rightarrow> t \<le> now)"

definition is_due :: "host \<Rightarrow> int \<Rightarrow> scheduled_change \<Rightarrow> bool" where
  "is_due h now sc \<longleftrightarrow> sc_status sc = ScPending \<and> not_after h (sc_scheduled_for sc) now"

fun run_due :: "host \<Rightarrow> int \<Rightarrow> scheduled_change list \<Rightarrow> backend \<Rightarrow> scheduled_change list \<times> backend" where
  "run_due h now [] st = ([], st)"
| "run_due h now (sc # scs) st =
     (let (sc', st1) =
        (if is_due h now sc
         then (sc\<lparr>sc_status := ScApplied, sc_applied_at := Some (ho_iso h now)\<rparr>,
               snd (change_config h (configKey (sc_flag_key sc) (sc_environment_key sc)) (sc_instructions sc) st))
         else (sc, st));
        (scs', st2) = run_due h now scs st1
      in (sc' # scs', st2))"

definition runDueScheduledChanges :: "host \<Rightarrow> int \<Rightarrow> backend \<Rightarrow> backend" where
  "runDueScheduledChanges h now st =
     (let (scs, st1) = run_due h now (bk_scheduled st) st in st1\<lparr>bk_scheduled := scs\<rparr>)"

definition get_scheduled ::
  "host \<Rightarrow> int \<Rightarrow> string option \<Rightarrow> string option \<Rightarrow> string option \<Rightarrow> backend \<Rightarrow>
   scheduled_change list response \<times> backend" where
  "get_scheduled h now status flag env st =
     (let st1 = runDueScheduledChanges h now st
      in (Json 200 (filter (\<lambda>c. param_matches status (scheduled_status_text (sc_status c)) \<and>
            param_matches flag (sc_flag_key c) \<and> param_matches env (sc_environment_key c))
            (bk_scheduled st1)), st1))"

definition post_scheduled ::
  "host \<Rightarrow> int \<Rightarrow> string \<Rightarrow> string \<Rightarrow> string \<Rightarrow> string option \<Rightarrow> string option \<Rightarrow>
   flag_instruction list option \<Rightarrow> backend \<Rightarrow> scheduled_change response \<times> backend" where
  "post_scheduled h now projectKey flagKey envKey comment scheduled_for instructions st =
     (if no_instructions instructions then (Detail 400 ''at least one instruction is required'', st)
      else if \<not> truthy_opt scheduled_for \<or> not_after h (the scheduled_for) now
      then (Detail 400 ''scheduled_for must be in the future'', st)
      else
        (let (i, st1) = randomUUID h st;
             sc = \<lparr>sc_id = i, sc_project_id = projectKey, sc_environment_id = envKey,
                   sc_environment_key = envKey, sc_flag_key = flagKey, sc_instructions = the instructions,
                   sc_comment = the_default [] comment, sc_scheduled_for = the scheduled_for,
                   sc_status = ScPending, sc_error = None, sc_created_by = us_id mockUser,
                   sc_created_by_email = us_email mockUser, sc_created_at = ho_iso h now,
                   sc_applied_at = None\<rparr>
         in (Json 200 sc, st1\<lparr>bk_scheduled := sc # bk_scheduled st1\<rparr>)))"

definition cancel_scheduled :: "string \<Rightarrow> backend \<Rightarrow> scheduled_change response \<times> backend" where
  "cancel_scheduled scheduledId st =
     (case find (\<lambda>c. sc_id c = scheduledId) (bk_scheduled st) of
        None \<Rightarrow> (Detail 404 ''not found'', st)
      | Some sc \<Rightarrow>
          (if sc_status sc \<noteq> ScPending then (Detail 404 ''not found'', st)
           else (let sc' = sc\<lparr>sc_status := ScCancelled\<rparr>
             in (Json 200 sc', st\<lparr>bk_scheduled :=
                  update_first (\<lambda>c. sc_id c = scheduledId) (\<lambda>_. sc') (bk_scheduled st)\<rparr>))))"

section \<open>Triggers\<close>

definition triggerURL :: "string \<Rightarrow> string" where
  "triggerURL token = ''http://localhost:8080/api/v1/triggers/'' @ token"

definition withoutSecret :: "flag_trigger \<Rightarrow> flag_trigger" where
  "withoutSecret t = t\<lparr>tr_token := None, tr_url := None\<rparr>"

definition trigger_token :: "host \<Rightarrow> backend \<Rightarrow> string \<times> backend" where
  "trigger_token h st = (let (r, st1) = randomUUID h st in (''trg_'' @ strip_dashes r, st1))"

definition get_triggers :: "string option \<Rightarrow> string option \<Rightarrow> backend \<Rightarrow> flag_trigger list response" where
  "get_triggers flag env st =
     Json 200 (map withoutSecret (filter (\<lambda>t. param_matches flag (tr_flag_key t) \<and>
       param_matches env (tr_environment_key t)) (bk_triggers st)))"

definition post_trigger ::
  "host \<Rightarrow> int \<Rightarrow> string \<Rightarrow> string \<Rightarrow> string \<Rightarrow> trigger_action \<Rightarrow> string option \<Rightarrow>
   backend \<Rightarrow> flag_trigger response \<times> backend" where
  "post_trigger h now projectKey flagKey envKey action description st =
     (let (token, st1) = trigger_token h st; (i, st2) = randomUUID h st1;
          t = \<lparr>tr_id = i, tr_project_id = projectKey, tr_environment_id = envKey, tr_environment_key = envKey,
               tr_flag_key = flagKey, tr_action = action, tr_description = the_default [] description,
               tr_enabled = True, tr_exec_count = 0, tr_created_by = us_id mockUser,
               tr_created_by_email = us_email mockUser, tr_created_at = ho_iso h now,
               tr_last_executed_at = None, tr_token = Some token, tr_url = Some (triggerURL token)\<rparr>
      in (Json 200 t, st2\<lparr>bk_triggers := t # bk_triggers st2\<rparr>))"

definition update_trigger ::
  "string \<Rightarrow> (flag_trigger \<Rightarrow> flag_trigger) \<Rightarrow> backend \<Rightarrow> backend" where
  "update_trigger triggerId f st =
     st\<lparr>bk_triggers := update_first (\<lambda>x. tr_id x = triggerId) f (bk_triggers st)\<rparr>"

definition enable_trigger :: "string \<Rightarrow> bool \<Rightarrow> backend \<Rightarrow> flag_trigger response \<times> backend" where
  "enable_trigger triggerId enabled st =
     (case find (\<lambda>x. tr_id x = triggerId) (bk_triggers st) of
        None \<Rightarrow> (Detail 404 ''not found'', st)
      | Some t \<Rightarrow> (Json 200 (withoutSecret (t\<lparr>tr_enabled := enabled\<rparr>)),
                   update_trigger triggerId (\<lambda>t. t\<lparr>tr_enabled := enabled\<rparr>) st))"

definition reset_trigger :: "host \<Rightarrow> string \<Rightarrow> backend \<Rightarrow> flag_trigger response \<times> backend" where
  "reset_trigger h triggerId st =
     (case find (\<lambda>x. tr_id x = triggerId) (bk_triggers st) of
        None \<Rightarrow> (Detail 404 ''not found'', st)
      | Some t \<Rightarrow>
          (let (token, st1) = trigger_token h st;
               f = (\<lambda>t. t\<lparr>tr_token := Some token, tr_url := Some (triggerURL token)\<rparr>)
           in (Json 200 (f t), update_trigger triggerId f st1)))"

definition delete_trigger :: "string \<Rightarrow> backend \<Rightarrow> unit response \<times> backend" where
  "delete_trigger triggerId st =
     (Empty 204, st\<lparr>bk_triggers := filter (\<lambda>x. tr_id x \<noteq> triggerId) (bk_triggers st)\<rparr>)"

section \<open>Webhooks and the audit log\<close>

definition webhookSecret :: "host \<Rightarrow> backend \<Rightarrow> string \<times> backend" where
  "webhookSecret h st = (let (r, st1) = randomUUID h st in (''whsec_'' @ strip_dashes r, st1))"

definition webhookNoSecret :: "webhook \<Rightarrow> webhook" where
  "webhookNoSecret w = w\<lparr>wh_secret := None\<rparr>"

definition get_webhooks :: "backend \<Rightarrow> webhook list response" where
  "get_webhooks st = Json 200 (map webhookNoSecret (bk_webhooks st))"

definition post_webhook ::
  "host \<Rightarrow> int \<Rightarrow> string \<Rightarrow> string list option \<Rightarrow> string option \<Rightarrow> backend \<Rightarrow> webhook response \<times> backend" where
  "post_webhook h now url event_types description st =
     (if no_instructions event_types then (Detail 400 ''at least one event type is required'', st)
      else
        (let (i, st1) = randomUUID h st; (secret, st2) = webhookSecret h st1;
             w = \<lparr>wh_id = i, wh_organization_id = ''t1'', wh_url = url, wh_secret = Some secret,
                  wh_event_types = the event_types, wh_description = the_default [] description,
                  wh_enabled = True, wh_created_by = us_id mockUser,
                  wh_created_by_email = us_email mockUser, wh_created_at = ho_iso h now\<rparr>
         in (Json 200 w, st2\<lparr>bk_webhooks := w # bk_webhooks st2\<rparr>)))"

definition update_webhook :: "string \<Rightarrow> (webhook \<Rightarrow> webhook) \<Rightarrow> backend \<Rightarrow> backend" where
  "update_webhook webhookId f st =
     st\<lparr>bk_webhooks := update_first (\<lambda>x. wh_id x = webhookId) f (bk_webhooks st)\<rparr>"

definition enable_webhook :: "string \<Rightarrow> bool \<Rightarrow> backend \<Rightarrow> webhook response \<times> backend" where
  "enable_webhook webhookId enabled st =
     (case find (\<lambda>x. wh_id x = webhookId) (bk_webhooks st) of
        None \<Rightarrow> (Detail 404 ''not found'', st)
      | Some w \<Rightarrow> (Json 200 (webhookNoSecret (w\<lparr>wh_enabled := enabled\<rparr>)),
                   update_webhook webhookId (\<lambda>w. w\<lparr>wh_enabled := enabled\<rparr>) st))"

definition reset_webhook :: "host \<Rightarrow> string \<Rightarrow> backend \<Rightarrow> webhook response \<times> backend" where
  "reset_webhook h webhookId st =
     (case find (\<lambda>x. wh_id x = webhookId) (bk_webhooks st) of
        None \<Rightarrow> (Detail 404 ''not found'', st)
      | Some w \<Rightarrow>
          (let (secret, st1) = webhookSecret h st
           in (Json 200 (w\<lparr>wh_secret := Some secret\<rparr>),
               update_webhook webhookId (\<lambda>w. w\<lparr>wh_secret := Some secret\<rparr>) st1)))"

text \<open>The test delivery and the delivery list are answered from constants; nothing is stored.\<close>

definition test_webhook :: "host \<Rightarrow> int \<Rightarrow> string \<Rightarrow> backend \<Rightarrow> webhook_delivery response \<times> backend" where
  "test_webhook h now webhookId st =
     (case find (\<lambda>x. wh_id x = webhookId) (bk_webhooks st) of
        None \<Rightarrow> (Detail 404 ''not found'', st)
      | Some w \<Rightarrow>
          (let (i, st1) = randomUUID h st
           in (Json 200 \<lparr>wd_id = i, wd_webhook_id = wh_id w, wd_event_type = ''webhook.test'',
                wd_status = DlPending, wd_attempts = 0, wd_response_status = 0, wd_error = None,
                wd_next_attempt_at = ho_iso h now, wd_created_at = ho_iso h now,
                wd_delivered_at = None\<rparr>, st1)))"

definition get_deliveries :: "string \<Rightarrow> webhook_delivery list response" where
  "get_deliveries webhookId = Json 200
     [\<lparr>wd_id = ''d1'', wd_webhook_id = webhookId, wd_event_type = ''flag.config.patched'',
       wd_status = DlSuccess, wd_attempts = 1, wd_response_status = 200, wd_error = None,
       wd_next_attempt_at = ''2026-07-13T12:00:00Z'', wd_created_at = ''2026-07-13T12:00:00Z'',
       wd_delivered_at = Some ''2026-07-13T12:00:01Z''\<rparr>,
      \<lparr>wd_id = ''d2'', wd_webhook_id = webhookId, wd_event_type = ''change.approved'',
       wd_status = DlFailed, wd_attempts = 5, wd_response_status = 500, wd_error = Some ''status 500'',
       wd_next_attempt_at = ''2026-07-13T11:00:00Z'', wd_created_at = ''2026-07-13T11:00:00Z'',
       wd_delivered_at = Some ''2026-07-13T11:05:00Z''\<rparr>]"

definition delete_webhook :: "string \<Rightarrow> backend \<Rightarrow> unit response \<times> backend" where
  "delete_webhook webhookId st =
     (Empty 204, st\<lparr>bk_webhooks := filter (\<lambda>x. wh_id x \<noteq> webhookId) (bk_webhooks st)\<rparr>)"

definition audit_entries :: "audit_entry list" where
  "audit_entries =
     [\<lparr>au_id = ''au1'', au_actor_email = ''admin@flag-it.dev'', au_action = ''flag.config.patched'',
       au_resource_type = ''flag'', au_resource_key = ''new-checkout'', au_comment = Some ''Launch for GA'',
       au_created_at = ''2026-07-13T12:00:00Z''\<rparr>,
      \<lparr>au_id = ''au2'', au_actor_email = ''admin@flag-it.dev'', au_action = ''sdk_key.created'',
       au_resource_type = ''sdk_key'', au_resource_key = ''k-123'', au_comment = None,
       au_created_at = ''2026-07-13T11:30:00Z''\<rparr>,
      \<lparr>au_id = ''au3'', au_actor_email = ''admin@flag-it.dev'', au_action = ''segment.saved'',
       au_resource_type = ''segment'', au_resource_key = ''beta-users'', au_comment = None,
       au_created_at = ''2026-07-13T10:00:00Z''\<rparr>]"

definition get_audit :: "string option \<Rightarrow> audit_entry list response" where
  "get_audit resource_type =
     Json 200 (filter (\<lambda>e. param_matches resource_type (au_resource_type e)) audit_entries)"

section \<open>The backend as a machine\<close>

datatype call =
    PostUser int string "string option" "bool option"
  | PatchUser string string bool
  | DeleteUser string
  | PostSetup setup_input
  | DeleteOrganization string
  | DeleteProject string
  | PostRole string string "string option" role_scope "string list"
  | PostMember string "string option"
  | PostProject string string
  | PostEnvironment string string
  | PostSdkKey sdk_kind "string option"
  | DeleteSdkKey string
  | PutFlag string flag_body
  | DeleteFlag string
  | GetFlagConfig string string
  | PatchFlagConfig string string "flag_instruction list"
  | PutSegment string segment_body
  | DeleteSegment string
  | PostChange int string string string "string option" "flag_instruction list option"
  | ApproveChange int string "string option"
  | RejectChange int string "string option"
  | GetScheduled int "string option" "string option" "string option"
  | PostScheduled int string string string "string option" "string option" "flag_instruction list option"
  | CancelScheduled string
  | PostTrigger int string string string trigger_action "string option"
  | EnableTrigger string bool
  | ResetTrigger string
  | DeleteTrigger string
  | PostWebhook int string "string list option" "string option"
  | EnableWebhook string bool
  | ResetWebhook string
  | TestWebhook int string
  | DeleteWebhook string
  | ResetUsers
  | ResetBackend

fun backend_step :: "host \<Rightarrow> backend \<Rightarrow> call \<Rightarrow> backend" where
  "backend_step h st (PostUser now e n s) = snd (post_user h now e n s st)"
| "backend_step h st (PatchUser i n a) = snd (patch_user i n a st)"
| "backend_step h st (DeleteUser i) = snd (delete_user i st)"
| "backend_step h st (PostSetup inp) = snd (post_setup h inp st)"
| "backend_step h st (DeleteOrganization s) = snd (delete_organization s st)"
| "backend_step h st (DeleteProject k) = snd (delete_project k st)"
| "backend_step h st (PostRole k n d s p) = snd (post_role h k n d s p st)"
| "backend_step h st (PostMember e r) = snd (post_member h e r st)"
| "backend_step h st (PostProject k n) = snd (post_project h k n st)"
| "backend_step h st (PostEnvironment k n) = snd (post_environment h k n st)"
| "backend_step h st (PostSdkKey k n) = snd (post_sdk_key h k n st)"
| "backend_step h st (DeleteSdkKey i) = snd (delete_sdk_key i st)"
| "backend_step h st (PutFlag k b) = snd (put_flag h k b st)"
| "backend_step h st (DeleteFlag k) = snd (delete_flag k st)"
| "backend_step h st (GetFlagConfig f e) = snd (get_flag_config f e st)"
| "backend_step h st (PatchFlagConfig f e is) = snd (patch_flag_config h f e is st)"
| "backend_step h st (PutSegment k b) = snd (put_segment h k b st)"
| "backend_step h st (DeleteSegment k) = snd (delete_segment k st)"
| "backend_step h st (PostChange now p f e c is) = snd (post_change h now p f e c is st)"
| "backend_step h st (ApproveChange now i c) = snd (approve_change h now i c st)"
| "backend_step h st (RejectChange now i c) = snd (reject_change h now i c st)"
| "backend_step h st (GetScheduled now s f e) = snd (get_scheduled h now s f e st)"
| "backend_step h st (PostScheduled now p f e c d is) = snd (post_scheduled h now p f e c d is st)"
| "backend_step h st (CancelScheduled i) = snd (cancel_scheduled i st)"
| "backend_step h st (PostTrigger now p f e a d) = snd (post_trigger h now p f e a d st)"
| "backend_step h st (EnableTrigger i b) = snd (enable_trigger i b st)"
| "backend_step h st (ResetTrigger i) = snd (reset_trigger h i st)"
| "backend_step h st (DeleteTrigger i) = snd (delete_trigger i st)"
| "backend_step h st (PostWebhook now u es d) = snd (post_webhook h now u es d st)"
| "backend_step h st (EnableWebhook i b) = snd (enable_webhook i b st)"
| "backend_step h st (ResetWebhook i) = snd (reset_webhook h i st)"
| "backend_step h st (TestWebhook now i) = snd (test_webhook h now i st)"
| "backend_step h st (DeleteWebhook i) = snd (delete_webhook i st)"
| "backend_step h st ResetUsers = resetUsers st"
| "backend_step h st ResetBackend = resetBackend st"

definition backend_run :: "host \<Rightarrow> backend \<Rightarrow> call list \<Rightarrow> backend" where
  "backend_run h st calls = fold (\<lambda>c s. backend_step h s c) calls st"

end
