(* ===== verification/MockGovernance_Props.thy ===== *)
theory MockGovernance_Props
  imports MockGovernance
begin

text \<open>
  Lemmas about the fixture backend: a lookup view of the configurations, which handlers touch which
  part of the state, the invariant of every reachable state, that a reviewed or settled change is
  final, and what a run of the scheduler does to the configurations.
\<close>

section \<open>Configurations\<close>

definition config_of :: "backend \<Rightarrow> string \<Rightarrow> flag_config" where
  "config_of st k = the_default newConfig (map_of (bk_configs st) k)"

lemma update_update: "AList.update k w (AList.update k v m) = AList.update k w m"
  by (induction m) auto

lemma ensure_config_eq:
  "fst (ensure_config k st) = config_of st k"
  "snd (ensure_config k st) = (if map_of (bk_configs st) k = None
     then st\<lparr>bk_configs := AList.update k newConfig (bk_configs st)\<rparr> else st)"
  by (auto simp: ensure_config_def config_of_def the_default_def split: option.splits)

definition applied :: "host \<Rightarrow> string \<Rightarrow> flag_instruction list \<Rightarrow> backend \<Rightarrow> flag_config \<times> nat" where
  "applied h k instructions st = applyInstructions (ho_uuid h) (config_of st k, bk_drawn st) instructions"

lemma change_config_eq:
  "change_config h k instructions st =
     (fst (applied h k instructions st),
      st\<lparr>bk_configs := AList.update k (fst (applied h k instructions st)) (bk_configs st),
         bk_drawn := snd (applied h k instructions st)\<rparr>)"
  by (simp add: change_config_def case_prod_beta Let_def ensure_config_eq applied_def update_update)

lemma config_of_change:
  "config_of (snd (change_config h k instructions st)) k' =
     (if k' = k then fst (applied h k instructions st) else config_of st k')"
  by (simp add: change_config_eq config_of_def update_conv' the_default_def)

lemma change_config_version:
  "fc_version (config_of (snd (change_config h k instructions st)) k') =
     fc_version (config_of st k') + (if k' = k then 1 else 0)"
  by (simp add: config_of_change applied_def applyInstructions_version)

lemma change_config_frame [simp]:
  "bk_changes (snd (change_config h k is st)) = bk_changes st"
  "bk_scheduled (snd (change_config h k is st)) = bk_scheduled st"
  "bk_triggers (snd (change_config h k is st)) = bk_triggers st"
  "bk_webhooks (snd (change_config h k is st)) = bk_webhooks st"
  "bk_flags (snd (change_config h k is st)) = bk_flags st"
  "bk_segments (snd (change_config h k is st)) = bk_segments st"
  "bk_users (snd (change_config h k is st)) = bk_users st"
  "bk_heap (snd (change_config h k is st)) = bk_heap st"
  by (simp_all add: change_config_eq)

lemma applied_drawn: "bk_drawn st \<le> snd (applied h k is st)"
  using applyInstructions_counter [of "(config_of st k, bk_drawn st)"] by (simp add: applied_def)

lemma change_config_drawn: "bk_drawn st \<le> bk_drawn (snd (change_config h k is st))"
  by (simp add: change_config_eq applied_drawn)

text \<open>Different flags and environments have different configurations when no flag key has a colon.\<close>

lemma configKey_inj:
  "CHR '':'' \<notin> set f \<Longrightarrow> CHR '':'' \<notin> set f' \<Longrightarrow> configKey f e = configKey f' e' \<Longrightarrow> f = f' \<and> e = e'"
  by (drule arg_cong [of _ _ "split_on CHR '':''"])
    (simp add: configKey_def split_on_append_sep, metis join_split_on)

section \<open>The scheduler\<close>

lemma run_due_frame [simp]:
  "bk_changes (snd (run_due h now scs st)) = bk_changes st"
  "bk_scheduled (snd (run_due h now scs st)) = bk_scheduled st"
  "bk_triggers (snd (run_due h now scs st)) = bk_triggers st"
  "bk_webhooks (snd (run_due h now scs st)) = bk_webhooks st"
  "bk_flags (snd (run_due h now scs st)) = bk_flags st"
  "bk_segments (snd (run_due h now scs st)) = bk_segments st"
  "bk_users (snd (run_due h now scs st)) = bk_users st"
  "bk_heap (snd (run_due h now scs st)) = bk_heap st"
  by (induction scs arbitrary: st) (simp_all add: case_prod_beta Let_def)

lemma run_due_drawn: "bk_drawn st \<le> bk_drawn (snd (run_due h now scs st))"
proof (induction scs arbitrary: st)
  case (Cons sc scs)
  show ?case
    using Cons.IH [of "snd (change_config h (configKey (sc_flag_key sc) (sc_environment_key sc)) (sc_instructions sc) st)"]
      Cons.IH [of st] change_config_drawn [of st]
    by (auto simp: case_prod_beta Let_def intro: order_trans)
qed simp

definition mark_applied :: "host \<Rightarrow> int \<Rightarrow> scheduled_change \<Rightarrow> scheduled_change" where
  "mark_applied h now sc = (if is_due h now sc
     then sc\<lparr>sc_status := ScApplied, sc_applied_at := Some (ho_iso h now)\<rparr> else sc)"

lemma run_due_list: "fst (run_due h now scs st) = map (mark_applied h now) scs"
  by (induction scs arbitrary: st) (simp_all add: case_prod_beta Let_def mark_applied_def)

definition sc_config_key :: "scheduled_change \<Rightarrow> string" where
  "sc_config_key sc = configKey (sc_flag_key sc) (sc_environment_key sc)"

text \<open>What the loop does to the configurations: the due changes, in the order of the array.\<close>

lemma run_due_state:
  "snd (run_due h now scs st) =
     fold (\<lambda>sc s. snd (change_config h (sc_config_key sc) (sc_instructions sc) s)) (filter (is_due h now) scs) st"
  by (induction scs arbitrary: st) (simp_all add: case_prod_beta Let_def sc_config_key_def)

lemma fold_change_version:
  "fc_version (config_of (fold (\<lambda>sc s. snd (change_config h (sc_config_key sc) (sc_instructions sc) s)) scs st) k) =
     fc_version (config_of st k) + int (length (filter (\<lambda>sc. sc_config_key sc = k) scs))"
  by (induction scs arbitrary: st) (simp_all add: change_config_version)

lemma mark_applied_simps [simp]:
  "sc_id (mark_applied h now sc) = sc_id sc" "\<not> is_due h now (mark_applied h now sc)"
  "sc_instructions (mark_applied h now sc) = sc_instructions sc"
  by (auto simp: mark_applied_def is_due_def)

lemma mark_applied_settled: "sc_status sc \<noteq> ScPending \<Longrightarrow> mark_applied h now sc = sc"
  by (simp add: mark_applied_def is_due_def)

lemma config_of_scheduled [simp]: "config_of (st\<lparr>bk_scheduled := x\<rparr>) k = config_of st k"
  by (simp add: config_of_def)

lemma runDue_parts:
  "bk_scheduled (runDueScheduledChanges h now st) = map (mark_applied h now) (bk_scheduled st)"
  "fc_version (config_of (runDueScheduledChanges h now st) k) =
     fc_version (config_of st k) +
     int (length (filter (\<lambda>sc. is_due h now sc \<and> sc_config_key sc = k) (bk_scheduled st)))"
  by (simp_all add: runDueScheduledChanges_def case_prod_beta Let_def run_due_list run_due_state
      fold_change_version conj_commute)

section \<open>What each handler touches\<close>

lemmas user_defs = post_user_def patch_user_def delete_user_def resetUsers_def
lemmas tenant_defs = post_setup_def delete_organization_def delete_project_def post_role_def
  post_member_def post_project_def post_environment_def post_sdk_key_def delete_sdk_key_def
lemmas catalogue_defs = put_flag_def delete_flag_def put_segment_def delete_segment_def
lemmas config_defs = get_flag_config_def patch_flag_config_def ensure_config_def
lemmas change_defs = post_change_def approve_change_def reject_change_def review_begin_def
  approve_finish_def reject_finish_def store_change_def
lemmas scheduled_defs = get_scheduled_def post_scheduled_def cancel_scheduled_def
  runDueScheduledChanges_def
lemmas trigger_defs = post_trigger_def enable_trigger_def reset_trigger_def delete_trigger_def
  update_trigger_def trigger_token_def
lemmas webhook_defs = post_webhook_def enable_webhook_def reset_webhook_def test_webhook_def
  delete_webhook_def update_webhook_def webhookSecret_def
lemmas handler_defs = user_defs tenant_defs catalogue_defs config_defs change_defs scheduled_defs
  trigger_defs webhook_defs randomUUID_def resetBackend_def Let_def case_prod_beta

lemma drawn_mono: "bk_drawn st \<le> bk_drawn (backend_step h st c)"
  using change_config_drawn run_due_drawn [of st h _ "bk_scheduled st"]
  by (cases c) (auto simp: handler_defs split: option.splits)

fun touches_changes :: "call \<Rightarrow> bool" where
  "touches_changes (PostChange now p f e cm is) = True"
| "touches_changes (ApproveChange now i cm) = True"
| "touches_changes (RejectChange now i cm) = True"
| "touches_changes ResetBackend = True"
| "touches_changes _ = False"

fun touches_scheduled :: "call \<Rightarrow> bool" where
  "touches_scheduled (PostScheduled now p f e cm d is) = True"
| "touches_scheduled (GetScheduled now s f e) = True"
| "touches_scheduled (CancelScheduled i) = True"
| "touches_scheduled ResetBackend = True"
| "touches_scheduled _ = False"

fun touches_triggers :: "call \<Rightarrow> bool" where
  "touches_triggers (PostTrigger now p f e a d) = True"
| "touches_triggers (EnableTrigger i b) = True"
| "touches_triggers (ResetTrigger i) = True"
| "touches_triggers (DeleteTrigger i) = True"
| "touches_triggers ResetBackend = True"
| "touches_triggers _ = False"

fun touches_configs :: "call \<Rightarrow> bool" where
  "touches_configs (GetFlagConfig f e) = True"
| "touches_configs (PatchFlagConfig f e is) = True"
| "touches_configs (ApproveChange now i cm) = True"
| "touches_configs (GetScheduled now s f e) = True"
| "touches_configs ResetBackend = True"
| "touches_configs _ = False"

fun touches_catalogue :: "call \<Rightarrow> bool" where
  "touches_catalogue (PutFlag k b) = True"
| "touches_catalogue (DeleteFlag k) = True"
| "touches_catalogue (PutSegment k b) = True"
| "touches_catalogue (DeleteSegment k) = True"
| "touches_catalogue ResetBackend = True"
| "touches_catalogue _ = False"

lemma changes_frame: "\<not> touches_changes c \<Longrightarrow> bk_changes (backend_step h st c) = bk_changes st"
  by (cases c) (simp_all add: handler_defs split: option.splits)

lemma scheduled_frame: "\<not> touches_scheduled c \<Longrightarrow> bk_scheduled (backend_step h st c) = bk_scheduled st"
  by (cases c) (simp_all add: handler_defs split: option.splits)

lemma triggers_frame: "\<not> touches_triggers c \<Longrightarrow> bk_triggers (backend_step h st c) = bk_triggers st"
  by (cases c) (simp_all add: handler_defs split: option.splits)

lemma configs_frame: "\<not> touches_configs c \<Longrightarrow> bk_configs (backend_step h st c) = bk_configs st"
  by (cases c) (simp_all add: handler_defs split: option.splits)

lemma catalogue_frame:
  "\<not> touches_catalogue c \<Longrightarrow> bk_flags (backend_step h st c) = bk_flags st"
  "\<not> touches_catalogue c \<Longrightarrow> bk_segments (backend_step h st c) = bk_segments st"
  by (cases c; simp add: handler_defs split: option.splits)+

section \<open>Identifiers\<close>

definition ids_fresh :: "host \<Rightarrow> nat \<Rightarrow> string list \<Rightarrow> bool" where
  "ids_fresh h n is \<longleftrightarrow> distinct is \<and> (\<forall>m\<ge>n. ho_uuid h m \<notin> set is)"

lemma ids_fresh_Nil [simp]: "ids_fresh h n []"
  by (simp add: ids_fresh_def)

lemma ids_fresh_mono: "ids_fresh h n is \<Longrightarrow> n \<le> m \<Longrightarrow> ids_fresh h m is"
  by (auto simp: ids_fresh_def)

lemma ids_fresh_Cons: "inj (ho_uuid h) \<Longrightarrow> ids_fresh h n is \<Longrightarrow> n \<le> i \<Longrightarrow> i < m \<Longrightarrow> ids_fresh h m (ho_uuid h i # is)"
  by (auto simp: ids_fresh_def dest: injD)

lemma ids_fresh_filter: "ids_fresh h n (map g xs) \<Longrightarrow> ids_fresh h n (map g (filter p xs))"
  by (auto simp: ids_fresh_def distinct_map_filter)

lemma map_update_first: "(\<And>x. p x \<Longrightarrow> g (f x) = g x) \<Longrightarrow> map g (update_first p f xs) = map g xs"
  by (induction xs) auto

lemma list_all_update_first: "list_all q xs \<Longrightarrow> (\<And>x. p x \<Longrightarrow> q x \<Longrightarrow> q (f x)) \<Longrightarrow> list_all q (update_first p f xs)"
  by (induction xs) auto

lemma find_key: "find (\<lambda>x. g x = k) xs = Some y \<Longrightarrow> g y = k \<and> y \<in> set xs"
  by (auto simp: find_Some_iff)

lemma find_map_other:
  "j \<noteq> k \<Longrightarrow> g a = j \<Longrightarrow> find (\<lambda>x. g x = k) (map (\<lambda>x. if g x = j then a else x) xs) = find (\<lambda>x. g x = k) xs"
  by (induction xs) auto

lemma find_update_first_other:
  "k \<noteq> k' \<Longrightarrow> (\<And>x. g x = k' \<Longrightarrow> g (f x) = k') \<Longrightarrow>
   find (\<lambda>x. g x = k) (update_first (\<lambda>x. g x = k') f xs) = find (\<lambda>x. g x = k) xs"
  by (induction xs) auto

lemma find_map_same: "(\<And>x. g (f x) = g x) \<Longrightarrow> find (\<lambda>x. g x = k) (map f xs) = map_option f (find (\<lambda>x. g x = k) xs)"
  by (induction xs) auto

section \<open>Change requests\<close>

text \<open>A pending change has no review, a reviewed one has all of it.\<close>

definition wf_change :: "change_request \<Rightarrow> bool" where
  "wf_change c \<longleftrightarrow> cr_instructions c \<noteq> [] \<and>
     (if cr_status c = ChPending
      then cr_reviewed_by c = None \<and> cr_reviewed_by_email c = None \<and> cr_review_comment c = None \<and> cr_reviewed_at c = None
      else cr_reviewed_by c \<noteq> None \<and> cr_reviewed_by_email c \<noteq> None \<and> cr_review_comment c \<noteq> None \<and> cr_reviewed_at c \<noteq> None)"

definition changes_inv :: "host \<Rightarrow> backend \<Rightarrow> bool" where
  "changes_inv h st \<longleftrightarrow> inj (ho_uuid h) \<and> ids_fresh h (bk_drawn st) (map cr_id (bk_changes st)) \<and>
     list_all wf_change (bk_changes st)"

lemma reviewed_wf: "wf_change c \<Longrightarrow> s \<noteq> ChPending \<Longrightarrow> wf_change (reviewed h now s cm c)"
  by (simp add: wf_change_def reviewed_def)

lemma reviewed_id [simp]: "cr_id (reviewed h now s cm c) = cr_id c"
  by (simp add: reviewed_def)

lemma store_ids: "map cr_id (map (\<lambda>c. if cr_id c = cr_id cr then cr else c) cs) = map cr_id cs"
  by (induction cs) auto

lemma store_change_inv:
  "changes_inv h st \<Longrightarrow> wf_change cr \<Longrightarrow> changes_inv h (store_change cr st)"
  unfolding changes_inv_def store_change_def
  by (simp add: store_ids del: map_map) (auto simp: list_all_iff)

lemma changes_inv_mono:
  "changes_inv h st \<Longrightarrow> bk_changes st' = bk_changes st \<Longrightarrow> bk_drawn st \<le> bk_drawn st' \<Longrightarrow> changes_inv h st'"
  by (auto simp: changes_inv_def intro: ids_fresh_mono)

lemma review_begin_Inr:
  "review_begin i st = Inr cr \<Longrightarrow> find (\<lambda>c. cr_id c = i) (bk_changes st) = Some cr \<and> cr_status cr = ChPending"
  by (auto simp: review_begin_def split: option.splits if_splits)

lemma approve_inv: "changes_inv h st \<Longrightarrow> changes_inv h (snd (approve_change h now i cm st))"
proof (cases "review_begin i st")
  case (Inr cr)
  assume inv: "changes_inv h st"
  let ?st1 = "snd (change_config h (configKey (cr_flag_key cr) (cr_environment_key cr)) (cr_instructions cr) st)"
  have "wf_change cr" using review_begin_Inr [OF Inr] inv
    by (auto simp: changes_inv_def list_all_iff dest: find_key)
  moreover have "changes_inv h ?st1" by (rule changes_inv_mono [OF inv]) (simp_all add: change_config_drawn)
  ultimately show ?thesis
    by (simp add: approve_change_def Inr approve_finish_def Let_def case_prod_beta store_change_inv reviewed_wf)
qed (simp add: approve_change_def)

lemma reject_inv: "changes_inv h st \<Longrightarrow> changes_inv h (snd (reject_change h now i cm st))"
proof (cases "review_begin i st")
  case (Inr cr)
  assume inv: "changes_inv h st"
  have "wf_change cr" using review_begin_Inr [OF Inr] inv
    by (auto simp: changes_inv_def list_all_iff dest: find_key)
  with inv show ?thesis
    by (simp add: reject_change_def Inr reject_finish_def Let_def store_change_inv reviewed_wf)
qed (simp add: reject_change_def)

lemma post_change_inv: "changes_inv h st \<Longrightarrow> changes_inv h (snd (post_change h now p f e cm is st))"
  by (auto simp: changes_inv_def post_change_def randomUUID_def Let_def wf_change_def no_instructions_def
      intro!: ids_fresh_Cons)

lemma changes_inv_step: "changes_inv h st \<Longrightarrow> changes_inv h (backend_step h st c)"
proof (cases "touches_changes c")
  case False
  assume "changes_inv h st"
  then show ?thesis by (rule changes_inv_mono) (simp_all add: changes_frame False drawn_mono)
next
  case True
  assume "changes_inv h st"
  with True show ?thesis
    by (cases c) (simp_all add: approve_inv reject_inv post_change_inv, simp add: changes_inv_def resetBackend_def)
qed

interpretation chg: invariant_machine "backend_step h" "changes_inv h" for h
  by unfold_locales (rule changes_inv_step)

text \<open>A reviewed change is final.\<close>

lemma change_final_step:
  assumes inv: "changes_inv h st" and f: "find (\<lambda>c. cr_id c = i) (bk_changes st) = Some cr"
    and s: "cr_status cr \<noteq> ChPending" and c: "c \<noteq> ResetBackend"
  shows "find (\<lambda>c. cr_id c = i) (bk_changes (backend_step h st c)) = Some cr"
proof (cases "touches_changes c")
  case False
  then show ?thesis using f by (simp add: changes_frame)
next
  case True
  have other: "cr_id cr' \<noteq> i" if "review_begin j st = Inr cr'" for j cr'
  proof
    assume "cr_id cr' = i"
    moreover have "find (\<lambda>c. cr_id c = j) (bk_changes st) = Some cr'" "cr_status cr' = ChPending"
      using review_begin_Inr [OF that] by blast+
    moreover from this(1) have "cr_id cr' = j" using find_key [of cr_id] by blast
    ultimately show False using f s by simp
  qed
  show ?thesis
  proof (cases c)
    case (PostChange now p fl e cm ins)
    have "i \<in> cr_id ` set (bk_changes st)" using find_key [OF f] by (metis image_eqI)
    then have "ho_uuid h (bk_drawn st) \<noteq> i" using inv by (auto simp: changes_inv_def ids_fresh_def)
    then show ?thesis using f by (simp add: PostChange post_change_def randomUUID_def Let_def)
  next
    case (ApproveChange now j cm)
    then show ?thesis using f other
      by (cases "review_begin j st")
        (simp_all add: approve_change_def approve_finish_def Let_def case_prod_beta store_change_def
          find_map_other)
  next
    case (RejectChange now j cm)
    then show ?thesis using f other
      by (cases "review_begin j st")
        (simp_all add: reject_change_def reject_finish_def Let_def store_change_def find_map_other)
  qed (use True c in simp_all)
qed

lemma change_final_run:
  "changes_inv h st \<Longrightarrow> find (\<lambda>c. cr_id c = i) (bk_changes st) = Some cr \<Longrightarrow> cr_status cr \<noteq> ChPending \<Longrightarrow>
   ResetBackend \<notin> set cs \<Longrightarrow> find (\<lambda>c. cr_id c = i) (bk_changes (backend_run h st cs)) = Some cr"
proof (induction cs arbitrary: st)
  case (Cons c cs)
  then have "find (\<lambda>c. cr_id c = i) (bk_changes (backend_step h st c)) = Some cr"
    by (intro change_final_step) auto
  with Cons show ?case by (simp add: backend_run_def changes_inv_step)
qed (simp add: backend_run_def)

section \<open>Scheduled changes\<close>

definition wf_scheduled :: "scheduled_change \<Rightarrow> bool" where
  "wf_scheduled c \<longleftrightarrow> sc_instructions c \<noteq> [] \<and> sc_scheduled_for c \<noteq> [] \<and> sc_status c \<noteq> ScFailed \<and>
     (sc_applied_at c \<noteq> None \<longleftrightarrow> sc_status c = ScApplied)"

definition scheduled_inv :: "host \<Rightarrow> backend \<Rightarrow> bool" where
  "scheduled_inv h st \<longleftrightarrow> inj (ho_uuid h) \<and> ids_fresh h (bk_drawn st) (map sc_id (bk_scheduled st)) \<and>
     list_all wf_scheduled (bk_scheduled st)"

lemma scheduled_inv_mono:
  "scheduled_inv h st \<Longrightarrow> bk_scheduled st' = bk_scheduled st \<Longrightarrow> bk_drawn st \<le> bk_drawn st' \<Longrightarrow> scheduled_inv h st'"
  by (auto simp: scheduled_inv_def intro: ids_fresh_mono)

lemma mark_applied_wf: "wf_scheduled c \<Longrightarrow> wf_scheduled (mark_applied h now c)"
  by (auto simp: wf_scheduled_def mark_applied_def is_due_def)

lemma get_scheduled_state: "snd (get_scheduled h now s f e st) = runDueScheduledChanges h now st"
  by (simp add: get_scheduled_def Let_def)

lemma runDue_drawn: "bk_drawn st \<le> bk_drawn (runDueScheduledChanges h now st)"
  using run_due_drawn by (simp add: runDueScheduledChanges_def case_prod_beta Let_def)

lemma runDue_inv: "scheduled_inv h st \<Longrightarrow> scheduled_inv h (runDueScheduledChanges h now st)"
  using ids_fresh_mono [OF _ runDue_drawn [of st h now]]
  by (auto simp: scheduled_inv_def runDue_parts comp_def list_all_iff mark_applied_wf)

lemma post_scheduled_inv: "scheduled_inv h st \<Longrightarrow> scheduled_inv h (snd (post_scheduled h now p f e cm d is st))"
  by (auto simp: scheduled_inv_def post_scheduled_def randomUUID_def Let_def wf_scheduled_def
      no_instructions_def truthy_opt_def intro!: ids_fresh_Cons)

lemma cancel_inv: "scheduled_inv h st \<Longrightarrow> scheduled_inv h (snd (cancel_scheduled i st))"
proof (cases "find (\<lambda>c. sc_id c = i) (bk_scheduled st)")
  case (Some sc)
  assume inv: "scheduled_inv h st"
  from find_key [of sc_id, OF Some] have k: "sc_id sc = i" "sc \<in> set (bk_scheduled st)" by blast+
  let ?sc = "sc\<lparr>sc_status := ScCancelled\<rparr>"
  have "map sc_id (update_first (\<lambda>c. sc_id c = i) (\<lambda>_. ?sc) (bk_scheduled st)) = map sc_id (bk_scheduled st)"
    by (rule map_update_first) (simp add: k)
  moreover have "list_all wf_scheduled (update_first (\<lambda>c. sc_id c = i) (\<lambda>_. ?sc) (bk_scheduled st))"
    if "sc_status sc = ScPending"
    using inv k that by (intro list_all_update_first) (auto simp: scheduled_inv_def list_all_iff wf_scheduled_def)
  ultimately show ?thesis using inv
    by (simp add: cancel_scheduled_def Some Let_def scheduled_inv_def)
qed (simp add: cancel_scheduled_def)

lemma scheduled_inv_step: "scheduled_inv h st \<Longrightarrow> scheduled_inv h (backend_step h st c)"
proof (cases "touches_scheduled c")
  case False
  assume "scheduled_inv h st"
  then show ?thesis by (rule scheduled_inv_mono) (simp_all add: scheduled_frame False drawn_mono)
next
  case True
  assume "scheduled_inv h st"
  with True show ?thesis
    by (cases c) (simp_all add: post_scheduled_inv cancel_inv runDue_inv get_scheduled_state,
        simp add: scheduled_inv_def resetBackend_def)
qed

interpretation sch: invariant_machine "backend_step h" "scheduled_inv h" for h
  by unfold_locales (rule scheduled_inv_step)

text \<open>A scheduled change that was applied or cancelled is final.\<close>

lemma scheduled_final_step:
  assumes inv: "scheduled_inv h st" and f: "find (\<lambda>c. sc_id c = i) (bk_scheduled st) = Some sc"
    and s: "sc_status sc \<noteq> ScPending" and c: "c \<noteq> ResetBackend"
  shows "find (\<lambda>c. sc_id c = i) (bk_scheduled (backend_step h st c)) = Some sc"
proof (cases "touches_scheduled c")
  case False
  then show ?thesis using f by (simp add: scheduled_frame)
next
  case True
  show ?thesis
  proof (cases c)
    case (PostScheduled now p fl e cm d ins)
    have "i \<in> sc_id ` set (bk_scheduled st)" using find_key [OF f] by (metis image_eqI)
    then have "ho_uuid h (bk_drawn st) \<noteq> i" using inv by (auto simp: scheduled_inv_def ids_fresh_def)
    then show ?thesis using f by (simp add: PostScheduled post_scheduled_def randomUUID_def Let_def)
  next
    case (GetScheduled now s f e)
    then show ?thesis using f s
      by (simp add: get_scheduled_state runDue_parts find_map_same f mark_applied_settled)
  next
    case (CancelScheduled j)
    show ?thesis
    proof (cases "j = i")
      case True
      then show ?thesis using f s by (simp add: CancelScheduled cancel_scheduled_def)
    next
      case False
      then show ?thesis using f
        by (auto simp: CancelScheduled cancel_scheduled_def Let_def find_update_first_other
            dest: find_key [of sc_id] split: option.splits)
    qed
  qed (use True c in simp_all)
qed

lemma scheduled_final_run:
  "scheduled_inv h st \<Longrightarrow> find (\<lambda>c. sc_id c = i) (bk_scheduled st) = Some sc \<Longrightarrow> sc_status sc \<noteq> ScPending \<Longrightarrow>
   ResetBackend \<notin> set cs \<Longrightarrow> find (\<lambda>c. sc_id c = i) (bk_scheduled (backend_run h st cs)) = Some sc"
proof (induction cs arbitrary: st)
  case (Cons c cs)
  then have "find (\<lambda>c. sc_id c = i) (bk_scheduled (backend_step h st c)) = Some sc"
    by (intro scheduled_final_step) auto
  with Cons show ?case by (simp add: backend_run_def scheduled_inv_step)
qed (simp add: backend_run_def)

section \<open>Every configuration version is accounted for\<close>

definition approved_for :: "string \<Rightarrow> change_request \<Rightarrow> bool" where
  "approved_for k c \<longleftrightarrow> cr_status c = ChApproved \<and> configKey (cr_flag_key c) (cr_environment_key c) = k"

definition applied_for :: "string \<Rightarrow> scheduled_change \<Rightarrow> bool" where
  "applied_for k c \<longleftrightarrow> sc_status c = ScApplied \<and> sc_config_key c = k"

text \<open>What the version of a configuration exceeds the governed changes recorded for it by.\<close>

definition ledger :: "backend \<Rightarrow> string \<Rightarrow> int" where
  "ledger st k = fc_version (config_of st k) - int (length (filter (approved_for k) (bk_changes st)))
     - int (length (filter (applied_for k) (bk_scheduled st)))"

definition is_patch :: "string \<Rightarrow> call \<Rightarrow> bool" where
  "is_patch k c = (case c of PatchFlagConfig f e _ \<Rightarrow> configKey f e = k | _ \<Rightarrow> False)"

lemma map_replace_absent: "k \<notin> g ` set xs \<Longrightarrow> map (\<lambda>z. if g z = k then y else z) xs = xs"
  by (intro map_idI) auto

lemma count_replace:
  "distinct (map g xs) \<Longrightarrow> x \<in> set xs \<Longrightarrow> g x = k \<Longrightarrow> \<not> P x \<Longrightarrow>
   length (filter P (map (\<lambda>z. if g z = k then y else z) xs)) = length (filter P xs) + (if P y then 1 else 0)"
proof (induction xs)
  case (Cons z xs)
  show ?case
  proof (cases "g z = k")
    case True
    then have "k \<notin> g ` set xs" using Cons.prems(1) by auto
    moreover from this have "x = z" using Cons.prems(2,3) by auto
    ultimately show ?thesis using True Cons.prems(4)
      by (simp add: map_replace_absent del: length_filter_map)
  next
    case False
    then have "x \<in> set xs" using Cons.prems(2,3) by auto
    then have "length (filter P (map (\<lambda>z. if g z = k then y else z) xs)) = length (filter P xs) + (if P y then 1 else 0)"
      using Cons.prems by (intro Cons.IH) simp_all
    with False show ?thesis by simp
  qed
qed simp

lemma count_update_first:
  "find (\<lambda>x. g x = k) xs = Some x \<Longrightarrow> \<not> P x \<Longrightarrow> \<not> P y \<Longrightarrow>
   length (filter P (update_first (\<lambda>x. g x = k) (\<lambda>_. y) xs)) = length (filter P xs)"
  by (induction xs) (auto split: if_splits)

lemma count_mark_applied:
  "length (filter (applied_for k) (map (mark_applied h now) cs)) =
     length (filter (applied_for k) cs) + length (filter (\<lambda>c. is_due h now c \<and> sc_config_key c = k) cs)"
  by (induction cs) (auto simp: mark_applied_def applied_for_def is_due_def sc_config_key_def)

lemma approved_for_reviewed:
  "approved_for k (reviewed h now s cm cr) \<longleftrightarrow>
     s = ChApproved \<and> configKey (cr_flag_key cr) (cr_environment_key cr) = k"
  by (simp add: approved_for_def reviewed_def)

lemma config_of_changes [simp]: "config_of (st\<lparr>bk_changes := x\<rparr>) k = config_of st k"
  by (simp add: config_of_def)

lemma approve_ledger:
  assumes "changes_inv h st"
  shows "ledger (snd (approve_change h now i cm st)) k = ledger st k"
proof (cases "review_begin i st")
  case (Inr cr)
  have f: "find (\<lambda>c. cr_id c = i) (bk_changes st) = Some cr" "cr_status cr = ChPending"
    using review_begin_Inr [OF Inr] by blast+
  let ?cr = "reviewed h now ChApproved cm cr"
  have "length (filter (approved_for k) (map (\<lambda>c. if cr_id c = cr_id cr then ?cr else c) (bk_changes st))) =
      length (filter (approved_for k) (bk_changes st)) + (if approved_for k ?cr then 1 else 0)"
    using assms f by (intro count_replace) (auto simp: changes_inv_def ids_fresh_def approved_for_def dest: find_key [of cr_id])
  then show ?thesis
    by (simp add: approve_change_def Inr approve_finish_def Let_def case_prod_beta store_change_def ledger_def
        change_config_version approved_for_reviewed del: length_filter_map)
qed (simp add: approve_change_def)

lemma reject_ledger:
  assumes "changes_inv h st"
  shows "ledger (snd (reject_change h now i cm st)) k = ledger st k"
proof (cases "review_begin i st")
  case (Inr cr)
  have f: "find (\<lambda>c. cr_id c = i) (bk_changes st) = Some cr" "cr_status cr = ChPending"
    using review_begin_Inr [OF Inr] by blast+
  let ?cr = "reviewed h now ChRejected cm cr"
  have "length (filter (approved_for k) (map (\<lambda>c. if cr_id c = cr_id cr then ?cr else c) (bk_changes st))) =
      length (filter (approved_for k) (bk_changes st)) + (if approved_for k ?cr then 1 else 0)"
    using assms f by (intro count_replace) (auto simp: changes_inv_def ids_fresh_def approved_for_def dest: find_key [of cr_id])
  then show ?thesis
    by (simp add: reject_change_def Inr reject_finish_def Let_def store_change_def ledger_def
        config_of_def approved_for_reviewed del: length_filter_map)
qed (simp add: reject_change_def)

lemma cancel_ledger: "ledger (snd (cancel_scheduled i st)) k = ledger st k"
  by (auto simp: cancel_scheduled_def Let_def ledger_def config_of_def applied_for_def
      intro!: count_update_first split: option.splits)

lemma runDue_ledger: "ledger (runDueScheduledChanges h now st) k = ledger st k"
proof -
  have "bk_changes (runDueScheduledChanges h now st) = bk_changes st"
    by (simp add: runDueScheduledChanges_def case_prod_beta Let_def)
  then show ?thesis by (simp add: ledger_def runDue_parts count_mark_applied del: length_filter_map)
qed

lemma config_of_get: "config_of (snd (get_flag_config f e st)) k = config_of st k"
  by (auto simp: get_flag_config_def case_prod_beta Let_def ensure_config_eq config_of_def update_conv'
      the_default_def)

lemma ledger_cong:
  "config_of st' k = config_of st k \<Longrightarrow> bk_changes st' = bk_changes st \<Longrightarrow> bk_scheduled st' = bk_scheduled st \<Longrightarrow>
   ledger st' k = ledger st k"
  by (simp add: ledger_def)

lemma patch_ledger: "ledger (snd (patch_flag_config h f e is st)) k = ledger st k + (if configKey f e = k then 1 else 0)"
  by (simp add: patch_flag_config_def case_prod_beta Let_def ledger_def change_config_version)

lemma ledger_step:
  assumes "changes_inv h st" "c \<noteq> ResetBackend"
  shows "ledger (backend_step h st c) k = ledger st k + (if is_patch k c then 1 else 0)"
proof -
  consider (none) "\<not> touches_changes c" "\<not> touches_scheduled c" "\<not> touches_configs c"
    | (some) "touches_changes c \<or> touches_scheduled c \<or> touches_configs c" by blast
  then show ?thesis
  proof cases
    case none
    then have "ledger (backend_step h st c) k = ledger st k"
      by (intro ledger_cong) (simp_all add: config_of_def configs_frame changes_frame scheduled_frame)
    moreover have "\<not> is_patch k c" using none by (cases c) (simp_all add: is_patch_def)
    ultimately show ?thesis by simp
  next
    case some
    then show ?thesis using assms
    proof (cases c)
      case (PostChange now p f e cm ins)
      then show ?thesis by (simp add: is_patch_def post_change_def randomUUID_def ledger_def config_of_def approved_for_def Let_def)
    next
      case (PostScheduled now p f e cm d ins)
      then show ?thesis by (simp add: is_patch_def post_scheduled_def randomUUID_def ledger_def config_of_def applied_for_def Let_def)
    next
      case (GetFlagConfig f e)
      have "ledger (snd (get_flag_config f e st)) k = ledger st k"
        by (intro ledger_cong config_of_get) (simp_all add: get_flag_config_def case_prod_beta Let_def ensure_config_eq)
      then show ?thesis by (simp add: GetFlagConfig is_patch_def)
    qed (simp_all add: is_patch_def approve_ledger reject_ledger cancel_ledger get_scheduled_state runDue_ledger
        patch_ledger)
  qed
qed

lemma ledger_run:
  "changes_inv h st \<Longrightarrow> ResetBackend \<notin> set cs \<Longrightarrow>
   ledger (backend_run h st cs) k = ledger st k + int (length (filter (is_patch k) cs))"
proof (induction cs arbitrary: st)
  case (Cons c cs)
  then have "ledger (backend_step h st c) k = ledger st k + (if is_patch k c then 1 else 0)"
    by (intro ledger_step) auto
  with Cons show ?case by (simp add: backend_run_def changes_inv_step)
qed (simp add: backend_run_def)

lemma initial_ledger: "ledger initial_backend k = 1"
  by (simp add: ledger_def config_of_def initial_backend_def newConfig_def the_default_def)

lemma initial_invs: "inj (ho_uuid h) \<Longrightarrow> changes_inv h initial_backend" "inj (ho_uuid h) \<Longrightarrow> scheduled_inv h initial_backend"
  by (simp_all add: changes_inv_def scheduled_inv_def initial_backend_def)

lemma run_invs: "inj (ho_uuid h) \<Longrightarrow> changes_inv h (backend_run h initial_backend cs)"
  "inj (ho_uuid h) \<Longrightarrow> scheduled_inv h (backend_run h initial_backend cs)"
  by (simp_all add: backend_run_def chg.run_inv sch.run_inv initial_invs)

end
