(* ===== verification/MockStore_Props.thy ===== *)
theory MockStore_Props
  imports MockGovernance_Props
begin

text \<open>
  Further lemmas about the fixture backend: keys stay unique, every stored configuration is well
  formed, trigger tokens are unique and revoked by a reset, lists show no secrets, the searches, and
  what the sharing of user objects and the interleaving of reviews do.
\<close>

section \<open>Keys\<close>

definition catalogue_inv :: "backend \<Rightarrow> bool" where
  "catalogue_inv st \<longleftrightarrow> distinct (map fl_key (bk_flags st)) \<and> distinct (map sg_key (bk_segments st)) \<and>
     list_all (\<lambda>s. 1 \<le> sg_version s) (bk_segments st)"

lemma upsert_flag_keys: "distinct (map fl_key fs) \<Longrightarrow> distinct (map fl_key (upsert_flag f fs))"
proof (cases "\<exists>g\<in>set fs. fl_key g = fl_key f")
  case True
  have "map fl_key (update_first (\<lambda>g. fl_key g = fl_key f) (\<lambda>_. f) fs) = map fl_key fs"
    by (rule map_update_first) simp
  moreover assume "distinct (map fl_key fs)"
  ultimately show ?thesis using True by (simp add: upsert_flag_def)
next
  case False
  moreover assume "distinct (map fl_key fs)"
  ultimately show ?thesis by (auto simp: upsert_flag_def)
qed

lemma upsert_segment_keys: "distinct (map sg_key ss) \<Longrightarrow> distinct (map sg_key (upsert_segment s ss))"
proof (cases "find_segment ss (sg_key s) = None")
  case True
  moreover assume "distinct (map sg_key ss)"
  ultimately show ?thesis by (auto simp: upsert_segment_def find_segment_def find_None_iff)
next
  case False
  moreover assume "distinct (map sg_key ss)"
  moreover have "map sg_key (map (\<lambda>x. if sg_key x = sg_key s then s else x) ss) = map sg_key ss"
    by (induction ss) auto
  ultimately show ?thesis by (simp add: upsert_segment_def del: map_map)
qed

lemma upsert_segment_set: "set (upsert_segment s ss) \<subseteq> insert s (set ss)"
  by (auto simp: upsert_segment_def)

lemma find_segment_set: "find_segment ss k = Some s \<Longrightarrow> s \<in> set ss \<and> sg_key s = k"
  by (auto simp: find_segment_def dest: find_key [of sg_key])

lemma put_flag_inv: "catalogue_inv st \<Longrightarrow> catalogue_inv (snd (put_flag h k b st))"
  by (simp add: catalogue_inv_def put_flag_def randomUUID_def Let_def upsert_flag_keys)

lemma put_segment_inv: "catalogue_inv st \<Longrightarrow> catalogue_inv (snd (put_segment h k b st))"
  using upsert_segment_set
  by (fastforce simp: catalogue_inv_def put_segment_def randomUUID_def Let_def upsert_segment_keys list_all_iff
      split: option.splits dest: find_segment_set)

lemma catalogue_inv_step: "catalogue_inv st \<Longrightarrow> catalogue_inv (backend_step h st c)"
proof (cases "touches_catalogue c")
  case False
  assume "catalogue_inv st"
  then show ?thesis by (simp add: catalogue_inv_def catalogue_frame False)
next
  case True
  assume "catalogue_inv st"
  with True show ?thesis
    by (cases c)
      (simp_all add: put_flag_inv put_segment_inv,
       auto simp: catalogue_inv_def delete_flag_def delete_segment_def remove_flag_def remove_segment_def
         distinct_map_filter list_all_iff resetBackend_def seedFlags_def seedSegments_def)
qed

interpretation cat: invariant_machine "backend_step h" catalogue_inv for h
  by unfold_locales (rule catalogue_inv_step)

section \<open>Stored configurations\<close>

definition configs_inv :: "host \<Rightarrow> backend \<Rightarrow> bool" where
  "configs_inv h st \<longleftrightarrow> inj (ho_uuid h) \<and> (\<forall>k. config_inv (ho_uuid h) (config_of st k, bk_drawn st))"

lemma config_inv_mono: "config_inv u (c, n) \<Longrightarrow> n \<le> m \<Longrightarrow> config_inv u (c, m)"
  by (fastforce simp: config_inv_def rule_ids_ok_def)

lemma configs_inv_mono:
  "configs_inv h st \<Longrightarrow> bk_configs st' = bk_configs st \<Longrightarrow> bk_drawn st \<le> bk_drawn st' \<Longrightarrow> configs_inv h st'"
  by (auto simp: configs_inv_def config_of_def intro: config_inv_mono)

lemma change_config_inv: "configs_inv h st \<Longrightarrow> configs_inv h (snd (change_config h k is st))"
proof -
  assume inv: "configs_inv h st"
  then have "config_inv (ho_uuid h) (applied h k is st)"
    by (simp add: configs_inv_def applied_def applyInstructions_inv)
  moreover have "bk_drawn (snd (change_config h k is st)) = snd (applied h k is st)"
    by (simp add: change_config_eq)
  ultimately show ?thesis using inv config_inv_mono [OF _ applied_drawn]
    by (auto simp: configs_inv_def config_of_change)
qed

lemma configs_inv_frame [simp]:
  "configs_inv h (st\<lparr>bk_scheduled := x\<rparr>) = configs_inv h st"
  "configs_inv h (store_change cr st) = configs_inv h st"
  by (simp_all add: configs_inv_def config_of_def store_change_def)

lemma fold_change_inv:
  "configs_inv h st \<Longrightarrow>
   configs_inv h (fold (\<lambda>sc s. snd (change_config h (sc_config_key sc) (sc_instructions sc) s)) scs st)"
  by (induction scs arbitrary: st) (simp_all add: change_config_inv)

lemma configs_inv_step: "configs_inv h st \<Longrightarrow> configs_inv h (backend_step h st c)"
proof (cases "touches_configs c")
  case False
  assume "configs_inv h st"
  then show ?thesis by (rule configs_inv_mono) (simp_all add: configs_frame False drawn_mono)
next
  case True
  assume inv: "configs_inv h st"
  have "configs_inv h (snd (get_flag_config f e st))" for f e
    using inv by (simp add: configs_inv_def config_of_get) (simp add: get_flag_config_def case_prod_beta Let_def ensure_config_eq)
  moreover have "configs_inv h (resetBackend st)"
    using inv newConfig_inv by (simp add: configs_inv_def resetBackend_def config_of_def the_default_def)
  moreover have "configs_inv h (snd (approve_change h now i cm st))" for now i cm
    using inv by (cases "review_begin i st")
      (simp_all add: approve_change_def approve_finish_def Let_def case_prod_beta change_config_inv)
  moreover have "configs_inv h (runDueScheduledChanges h now st)" for now
    using inv by (simp add: runDueScheduledChanges_def case_prod_beta Let_def run_due_state fold_change_inv)
  ultimately show ?thesis using True inv
    by (cases c) (simp_all add: get_scheduled_state patch_flag_config_def case_prod_beta Let_def change_config_inv)
qed

interpretation cfgs: invariant_machine "backend_step h" "configs_inv h" for h
  by unfold_locales (rule configs_inv_step)

lemma initial_configs: "inj (ho_uuid h) \<Longrightarrow> configs_inv h initial_backend"
  using newConfig_inv by (simp add: configs_inv_def config_of_def initial_backend_def the_default_def)

lemma initial_catalogue: "catalogue_inv initial_backend"
  by (simp add: catalogue_inv_def initial_backend_def seedFlags_def seedSegments_def)

section \<open>Trigger tokens\<close>

definition token_of :: "host \<Rightarrow> nat \<Rightarrow> string" where
  "token_of h n = ''trg_'' @ strip_dashes (ho_uuid h n)"

text \<open>Every trigger has a token and the URL of it, and no two triggers share a token.\<close>

definition triggers_inv :: "host \<Rightarrow> backend \<Rightarrow> bool" where
  "triggers_inv h st \<longleftrightarrow> inj (token_of h) \<and>
     ids_fresh (h\<lparr>ho_uuid := token_of h\<rparr>) (bk_drawn st) (map (\<lambda>t. the (tr_token t)) (bk_triggers st)) \<and>
     list_all (\<lambda>t. tr_token t \<noteq> None \<and> tr_url t = map_option triggerURL (tr_token t)) (bk_triggers st)"

lemma triggers_inv_mono:
  "triggers_inv h st \<Longrightarrow> bk_triggers st' = bk_triggers st \<Longrightarrow> bk_drawn st \<le> bk_drawn st' \<Longrightarrow> triggers_inv h st'"
  by (auto simp: triggers_inv_def intro: ids_fresh_mono)

lemma trigger_token_eq: "trigger_token h st = (token_of h (bk_drawn st), st\<lparr>bk_drawn := Suc (bk_drawn st)\<rparr>)"
  by (simp add: trigger_token_def randomUUID_def token_of_def)

lemma post_trigger_inv: "triggers_inv h st \<Longrightarrow> triggers_inv h (snd (post_trigger h now p f e a d st))"
  using ids_fresh_Cons [of "h\<lparr>ho_uuid := token_of h\<rparr>" "bk_drawn st" _ "bk_drawn st" "Suc (Suc (bk_drawn st))"]
  by (auto simp: triggers_inv_def post_trigger_def trigger_token_eq randomUUID_def Let_def)

lemma enable_trigger_inv: "triggers_inv h st \<Longrightarrow> triggers_inv h (snd (enable_trigger i b st))"
proof -
  assume inv: "triggers_inv h st"
  let ?ts = "update_first (\<lambda>x. tr_id x = i) (\<lambda>t. t\<lparr>tr_enabled := b\<rparr>) (bk_triggers st)"
  have "map (\<lambda>t. the (tr_token t)) ?ts = map (\<lambda>t. the (tr_token t)) (bk_triggers st)"
    by (rule map_update_first) simp
  moreover have "list_all (\<lambda>t. tr_token t \<noteq> None \<and> tr_url t = map_option triggerURL (tr_token t)) ?ts"
    using inv by (intro list_all_update_first) (auto simp: triggers_inv_def)
  ultimately show ?thesis using inv
    by (simp add: enable_trigger_def update_trigger_def triggers_inv_def split: option.splits)
qed

lemma fresh_replace:
  "inj (ho_uuid h) \<Longrightarrow> ids_fresh h n (map g ts) \<Longrightarrow> (\<And>t. g (f t) = ho_uuid h n) \<Longrightarrow>
   ids_fresh h (Suc n) (map g (update_first p f ts))"
proof (induction ts)
  case (Cons t ts)
  have "ids_fresh h n (map g ts)" using Cons.prems(2) by (simp add: ids_fresh_def)
  with Cons have IH: "ids_fresh h (Suc n) (map g (update_first p f ts))" by blast
  have sub: "set (map g (update_first p f us)) \<subseteq> insert (ho_uuid h n) (g ` set us)" for us
    using Cons.prems(3) by (induction us) auto
  show ?case
  proof (cases "p t")
    case True
    then show ?thesis using Cons.prems by (auto simp: ids_fresh_def dest: injD)
  next
    case False
    have "g t \<noteq> ho_uuid h n" using Cons.prems(2) by (auto simp: ids_fresh_def)
    moreover have "g t \<notin> g ` set ts" using Cons.prems(2) by (simp add: ids_fresh_def)
    ultimately have "g t \<notin> set (map g (update_first p f ts))" using sub [of ts] by blast
    then show ?thesis using False IH Cons.prems(2) by (auto simp: ids_fresh_def)
  qed
qed simp

lemma reset_trigger_inv: "triggers_inv h st \<Longrightarrow> triggers_inv h (snd (reset_trigger h i st))"
proof -
  assume inv: "triggers_inv h st"
  let ?f = "\<lambda>t. t\<lparr>tr_token := Some (token_of h (bk_drawn st)), tr_url := Some (triggerURL (token_of h (bk_drawn st)))\<rparr>"
  let ?ts = "update_first (\<lambda>x. tr_id x = i) ?f (bk_triggers st)"
  have "list_all (\<lambda>t. tr_token t \<noteq> None \<and> tr_url t = map_option triggerURL (tr_token t)) ?ts"
    using inv by (intro list_all_update_first) (auto simp: triggers_inv_def)
  moreover have "ids_fresh (h\<lparr>ho_uuid := token_of h\<rparr>) (Suc (bk_drawn st)) (map (\<lambda>t. the (tr_token t)) ?ts)"
    using inv by (intro fresh_replace) (auto simp: triggers_inv_def)
  ultimately show ?thesis using inv
    by (simp add: reset_trigger_def trigger_token_eq update_trigger_def triggers_inv_def Let_def split: option.splits)
qed

lemma triggers_inv_step: "triggers_inv h st \<Longrightarrow> triggers_inv h (backend_step h st c)"
proof (cases "touches_triggers c")
  case False
  assume "triggers_inv h st"
  then show ?thesis by (rule triggers_inv_mono) (simp_all add: triggers_frame False drawn_mono)
next
  case True
  assume "triggers_inv h st"
  with True show ?thesis
    by (cases c) (simp_all add: post_trigger_inv enable_trigger_inv reset_trigger_inv,
       auto simp: triggers_inv_def delete_trigger_def resetBackend_def list_all_iff intro: ids_fresh_filter)
qed

interpretation trg: invariant_machine "backend_step h" "triggers_inv h" for h
  by unfold_locales (rule triggers_inv_step)

lemma initial_triggers: "inj (token_of h) \<Longrightarrow> triggers_inv h initial_backend"
  by (simp add: triggers_inv_def initial_backend_def)

text \<open>A reset revokes the old token: no trigger has it afterwards.\<close>

lemma update_first_removes:
  "find p ts = Some t \<Longrightarrow> distinct (map g ts) \<Longrightarrow> (\<And>x. g (f x) = new) \<Longrightarrow> new \<notin> g ` set ts \<Longrightarrow>
   g t \<notin> g ` set (update_first p f ts)"
proof (induction ts)
  case (Cons u ts)
  show ?case
  proof (cases "p u")
    case True
    then show ?thesis using Cons.prems by auto
  next
    case False
    with Cons.prems have "find p ts = Some t" by simp
    moreover from this have "t \<in> set ts" by (auto simp: find_Some_iff)
    ultimately show ?thesis using Cons False by (auto simp: image_iff)
  qed
qed simp

lemma reset_revokes:
  assumes inv: "triggers_inv h st" and f: "find (\<lambda>x. tr_id x = i) (bk_triggers st) = Some t"
  shows "\<forall>t'\<in>set (bk_triggers (snd (reset_trigger h i st))). tr_token t' \<noteq> tr_token t"
proof -
  let ?g = "\<lambda>t. the (tr_token t)"
  let ?f = "\<lambda>t. t\<lparr>tr_token := Some (token_of h (bk_drawn st)), tr_url := Some (triggerURL (token_of h (bk_drawn st)))\<rparr>"
  have "?g t \<notin> ?g ` set (update_first (\<lambda>x. tr_id x = i) ?f (bk_triggers st))"
    by (rule update_first_removes [OF f, where new = "token_of h (bk_drawn st)"])
      (use inv in \<open>auto simp: triggers_inv_def ids_fresh_def\<close>)
  then have "\<forall>t'\<in>set (update_first (\<lambda>x. tr_id x = i) ?f (bk_triggers st)). tr_token t' \<noteq> tr_token t"
    by (metis image_eqI)
  then show ?thesis
    by (simp add: reset_trigger_def f trigger_token_eq update_trigger_def Let_def)
qed

section \<open>Configurations stay well formed, segments count their versions\<close>

lemma run_configs: "inj (ho_uuid h) \<Longrightarrow> configs_inv h (backend_run h initial_backend cs)"
  by (simp add: backend_run_def cfgs.run_inv initial_configs)

lemma run_catalogue: "catalogue_inv (backend_run h initial_backend cs)"
  by (simp add: backend_run_def cat.run_inv initial_catalogue)

lemma run_triggers: "inj (token_of h) \<Longrightarrow> triggers_inv h (backend_run h initial_backend cs)"
  by (simp add: backend_run_def trg.run_inv initial_triggers)

lemma put_flag_get:
  "get_flag k' (snd (put_flag h k b st)) = (if k' = k then fst (put_flag h k b st) else get_flag k' st)"
  by (simp add: get_flag_def put_flag_def randomUUID_def Let_def flg.get_upsert)

lemma delete_flag_get: "get_flag k' (snd (delete_flag k st)) = (if k' = k then Empty 404 else get_flag k' st)"
  by (simp add: get_flag_def delete_flag_def flg.get_delete)

lemma put_segment_get:
  "get_segment k' (snd (put_segment h k b st)) = (if k' = k then fst (put_segment h k b st) else get_segment k' st)"
  by (auto simp: get_segment_def put_segment_def randomUUID_def Let_def seg.get_upsert split: option.splits)

lemma put_segment_existing:
  "find_segment (bk_segments st) k = Some s \<Longrightarrow>
   \<exists>s'. fst (put_segment h k b st) = Json 200 s' \<and> sg_id s' = sg_id s \<and> sg_created_at s' = sg_created_at s \<and>
     sg_version s' = sg_version s + 1"
  by (simp add: put_segment_def Let_def)

lemma delete_segment_get:
  "get_segment k' (snd (delete_segment k st)) = (if k' = k then Empty 404 else get_segment k' st)"
  by (simp add: get_segment_def delete_segment_def seg.get_delete)

section \<open>Interleaved reviews\<close>

lemma approve_finish_version:
  "fc_version (config_of (snd (approve_finish h now cr cm st)) k) = fc_version (config_of st k) +
     (if configKey (cr_flag_key cr) (cr_environment_key cr) = k then 1 else 0)"
  by (simp add: approve_finish_def Let_def case_prod_beta store_change_def change_config_version)

text \<open>The list view gives no token away.\<close>

lemma listed_triggers:
  "get_triggers f e st = Json 200 ts \<Longrightarrow> \<forall>t\<in>set ts. tr_token t = None \<and> tr_url t = None"
  by (auto simp: get_triggers_def withoutSecret_def)

section \<open>Searches\<close>

lemma searchParam_None: "includesAny (searchParam None) texts"
  by (simp add: searchParam_def the_default_def to_lower_def includesAny_def)

lemma includesAny_iff:
  "includesAny (searchParam (Some q)) texts \<longleftrightarrow>
     q = [] \<or> (\<exists>t\<in>set texts. sublist (to_lower q) (to_lower t))"
  by (auto simp: includesAny_def searchParam_def the_default_def includes_str_sublist list_ex_iff to_lower_def)

end
