(* ===== verification/Session.thy ===== *)
theory Session
  imports Types
begin

text \<open>
  The session and boot of the dashboard: the bearer-token holder (\<open>web/src/lib/auth-token.ts\<close>), the
  stores (\<open>web/src/store\<close>), the runtime configuration (\<open>web/src/config/env.ts\<close>,
  \<open>web/vite/runtime-config.ts\<close>), the boot sequence (\<open>web/src/app/main.tsx\<close>) and the route guards
  (\<open>web/src/app/guards.tsx\<close>).

  \<open>localStorage\<close> is one optional item that may be unavailable, in which case each access throws. The
  schema library is a parameter of \<open>loadConfig\<close>; what the schema demands is \<open>config_schema\<close>.
\<close>

section \<open>lib/auth-token.ts\<close>

text \<open>\<open>cached\<close> is \<open>undefined\<close> (\<open>None\<close>), \<open>null\<close> (\<open>Some None\<close>) or a token.\<close>

record token_holder =
  tk_cached :: "string option option"
  tk_storage :: "string option"
  tk_broken :: bool

definition getToken :: "token_holder \<Rightarrow> string option \<times> token_holder" where
  "getToken st =
     (case tk_cached st of
        Some c \<Rightarrow> (c, st)
      | None \<Rightarrow> (let c = (if tk_broken st then None else tk_storage st) in (c, st\<lparr>tk_cached := Some c\<rparr>)))"

definition setToken :: "string \<Rightarrow> token_holder \<Rightarrow> token_holder" where
  "setToken token st =
     (let st1 = st\<lparr>tk_cached := Some (Some token)\<rparr>
      in if tk_broken st1 then st1 else st1\<lparr>tk_storage := Some token\<rparr>)"

definition clearToken :: "token_holder \<Rightarrow> token_holder" where
  "clearToken st =
     (let st1 = st\<lparr>tk_cached := Some None\<rparr> in if tk_broken st1 then st1 else st1\<lparr>tk_storage := None\<rparr>)"

section \<open>store\<close>

record auth_state =
  as_token :: "string option"
  as_isAuthenticated :: bool

type_synonym auth_world = "auth_state \<times> token_holder"

definition createAuthStore :: "token_holder \<Rightarrow> auth_world" where
  "createAuthStore h =
     (let (t1, h1) = getToken h; (t2, h2) = getToken h1
      in (\<lparr>as_token = t1, as_isAuthenticated = (t2 \<noteq> None)\<rparr>, h2))"

definition signIn :: "string \<Rightarrow> auth_world \<Rightarrow> auth_world" where
  "signIn token w = ((fst w)\<lparr>as_token := Some token, as_isAuthenticated := True\<rparr>, setToken token (snd w))"

definition signOut :: "auth_world \<Rightarrow> auth_world" where
  "signOut w = ((fst w)\<lparr>as_token := None, as_isAuthenticated := False\<rparr>, clearToken (snd w))"

text \<open>A page load evaluates the modules afresh: nothing is cached, the storage stays.\<close>

definition reload :: "auth_world \<Rightarrow> auth_world" where
  "reload w = createAuthStore ((snd w)\<lparr>tk_cached := None\<rparr>)"

datatype auth_event = SignIn string | SignOut | ReadToken | Reload

fun auth_step :: "auth_world \<Rightarrow> auth_event \<Rightarrow> auth_world" where
  "auth_step w (SignIn t) = signIn t w"
| "auth_step w SignOut = signOut w"
| "auth_step w ReadToken = (fst w, snd (getToken (snd w)))"
| "auth_step w Reload = reload w"

datatype theme = Light | Dark

record ui_state =
  ui_theme :: theme
  ui_sidebarOpen :: bool

definition initial_ui :: ui_state where
  "initial_ui = \<lparr>ui_theme = Dark, ui_sidebarOpen = True\<rparr>"

definition toggleTheme :: "ui_state \<Rightarrow> ui_state" where
  "toggleTheme s = s\<lparr>ui_theme := (if ui_theme s = Dark then Light else Dark)\<rparr>"

definition setSidebarOpen :: "bool \<Rightarrow> ui_state \<Rightarrow> ui_state" where
  "setSidebarOpen b s = s\<lparr>ui_sidebarOpen := b\<rparr>"

section \<open>config/env.ts\<close>

datatype deployment = Development | Staging | Production

record app_config =
  cg_apiUrl :: string
  cg_environment :: deployment
  cg_enableMocking :: bool

definition deployment_of :: "string \<Rightarrow> deployment option" where
  "deployment_of s = (if s = ''development'' then Some Development else if s = ''staging'' then Some Staging
     else if s = ''production'' then Some Production else None)"

text \<open>What \<open>configSchema\<close> declares: which value of \<open>/config.json\<close> is which configuration.\<close>

definition config_schema :: "js \<Rightarrow> app_config \<Rightarrow> bool" where
  "config_schema v c \<longleftrightarrow>
     js_get v ''apiUrl'' = Some (JStr (cg_apiUrl c)) \<and> cg_apiUrl c \<noteq> [] \<and>
     (\<exists>s. js_get v ''environment'' = Some (JStr s) \<and> deployment_of s = Some (cg_environment c)) \<and>
     (js_get v ''enableMocking'' = Some (JBool (cg_enableMocking c)) \<or>
      js_get v ''enableMocking'' = Some JUndef \<and> \<not> cg_enableMocking c)"

datatype config_error = HttpStatus int | NotJson | InvalidConfig | NotLoaded

text \<open>The fetch of \<open>/config.json\<close> gives a status and a body; \<open>safeParse\<close> is the schema library's.\<close>

definition loadConfig ::
  "(js \<Rightarrow> app_config option) \<Rightarrow> int \<Rightarrow> string \<Rightarrow> app_config option \<Rightarrow> (config_error + app_config) \<times> app_config option" where
  "loadConfig safeParse status body config =
     (if \<not> (200 \<le> status \<and> status \<le> 299) then (Inl (HttpStatus status), config)
      else (case json_parse body of
          None \<Rightarrow> (Inl NotJson, config)
        | Some v \<Rightarrow> (case safeParse v of
              None \<Rightarrow> (Inl InvalidConfig, config)
            | Some c \<Rightarrow> (Inr c, Some c))))"

definition getConfig :: "app_config option \<Rightarrow> config_error + app_config" where
  "getConfig config = (case config of None \<Rightarrow> Inl NotLoaded | Some c \<Rightarrow> Inr c)"

definition setConfig :: "app_config \<Rightarrow> app_config option" where
  "setConfig override = Some override"

section \<open>vite/runtime-config.ts\<close>

text \<open>The value written to \<open>public/config.json\<close>; \<open>env\<close> holds the \<open>APP_*\<close> variables.\<close>

definition runtimeConfig :: "(string \<rightharpoonup> string) \<Rightarrow> string \<Rightarrow> js" where
  "runtimeConfig env command =
     (let enableMocking = (if command = ''serve''
            then the_default ''true'' (env ''APP_ENABLE_MOCKING'') = ''true'' else False)
      in JObj [(''apiUrl'', JStr (the_default ''/api'' (env ''APP_API_URL''))),
               (''environment'', JStr (the_default ''development'' (env ''APP_ENVIRONMENT''))),
               (''enableMocking'', JBool enableMocking)])"

section \<open>app/main.tsx\<close>

datatype boot_effect = StartWorker | Render | ShowFailure config_error

definition bootstrap :: "(js \<Rightarrow> app_config option) \<Rightarrow> bool \<Rightarrow> int \<Rightarrow> string \<Rightarrow> boot_effect list" where
  "bootstrap safeParse dev status body =
     (case fst (loadConfig safeParse status body None) of
        Inl e \<Rightarrow> [ShowFailure e]
      | Inr c \<Rightarrow> (if dev \<and> cg_enableMocking c then [StartWorker, Render] else [Render]))"

section \<open>app/guards.tsx\<close>

text \<open>The setup query: pending, failed, or answered with \<open>needs_setup\<close>.\<close>

datatype setup_query = Pending | Failed | Answered bool

datatype guard_view = BootSpinner | Navigate string | ShowSetup | ShowLogin | ShowApp

definition needs_setup :: "setup_query \<Rightarrow> bool" where
  "needs_setup q \<longleftrightarrow> q = Answered True"

definition SetupRoute :: "setup_query \<Rightarrow> bool \<Rightarrow> guard_view" where
  "SetupRoute status isAuthenticated =
     (if status = Pending then BootSpinner
      else if \<not> needs_setup status then Navigate (if isAuthenticated then ''/'' else ''/login'')
      else ShowSetup)"

definition LoginRoute :: "setup_query \<Rightarrow> bool \<Rightarrow> guard_view" where
  "LoginRoute status isAuthenticated =
     (if status = Pending then BootSpinner
      else if needs_setup status then Navigate ''/setup''
      else if isAuthenticated then Navigate ''/''
      else ShowLogin)"

definition ProtectedLayout :: "setup_query \<Rightarrow> bool \<Rightarrow> guard_view" where
  "ProtectedLayout status isAuthenticated =
     (if status = Pending then BootSpinner
      else if needs_setup status then Navigate ''/setup''
      else if \<not> isAuthenticated then Navigate ''/login''
      else ShowApp)"

text \<open>The three top-level routes of \<open>app/router.tsx\<close>; every other path is below \<open>/\<close>.\<close>

definition route :: "string \<Rightarrow> setup_query \<Rightarrow> bool \<Rightarrow> guard_view" where
  "route path = (if path = ''/setup'' then SetupRoute else if path = ''/login'' then LoginRoute else ProtectedLayout)"

text \<open>Following redirects, at most \<open>n\<close> of them.\<close>

fun follow :: "nat \<Rightarrow> string \<Rightarrow> setup_query \<Rightarrow> bool \<Rightarrow> guard_view" where
  "follow 0 path status auth = route path status auth"
| "follow (Suc n) path status auth =
     (case route path status auth of Navigate path' \<Rightarrow> follow n path' status auth | v \<Rightarrow> v)"

section \<open>Lemmas\<close>

text \<open>The store and the token holder agree.\<close>

definition auth_inv :: "auth_world \<Rightarrow> bool" where
  "auth_inv w \<longleftrightarrow> tk_cached (snd w) = Some (as_token (fst w)) \<and> (as_isAuthenticated (fst w) \<longleftrightarrow> as_token (fst w) \<noteq> None) \<and>
     (\<not> tk_broken (snd w) \<longrightarrow> tk_storage (snd w) = as_token (fst w))"

lemma createAuthStore_inv: "tk_cached h = None \<Longrightarrow> auth_inv (createAuthStore h)"
  by (simp add: auth_inv_def createAuthStore_def getToken_def Let_def)

lemma auth_step_inv: "auth_inv w \<Longrightarrow> auth_inv (auth_step w e)"
proof (cases e)
  case Reload
  then show ?thesis by (simp add: reload_def createAuthStore_inv)
qed (auto simp: auth_inv_def signIn_def signOut_def setToken_def clearToken_def getToken_def Let_def)

interpretation auth: invariant_machine auth_step auth_inv
  by unfold_locales (rule auth_step_inv)

lemma reload_keeps: "auth_inv w \<Longrightarrow> \<not> tk_broken (snd w) \<Longrightarrow> reload w = w"
  by (cases w; cases "fst w"; cases "snd w") (auto simp: auth_inv_def reload_def createAuthStore_def getToken_def Let_def)

lemma follow_settles:
  "follow 2 path status auth =
     (case status of
        Pending \<Rightarrow> BootSpinner
      | Answered True \<Rightarrow> ShowSetup
      | _ \<Rightarrow> if auth then ShowApp else ShowLogin)"
  by (cases status)
    (auto simp: numeral_2_eq_2 route_def SetupRoute_def LoginRoute_def ProtectedLayout_def needs_setup_def
      split: bool.splits)

lemma runtimeConfig_schema:
  "config_schema (runtimeConfig env command) c \<longleftrightarrow>
     cg_apiUrl c = the_default ''/api'' (env ''APP_API_URL'') \<and> cg_apiUrl c \<noteq> [] \<and>
     deployment_of (the_default ''development'' (env ''APP_ENVIRONMENT'')) = Some (cg_environment c) \<and>
     (cg_enableMocking c \<longleftrightarrow> command = ''serve'' \<and> the_default ''true'' (env ''APP_ENABLE_MOCKING'') = ''true'')"
  by (auto simp: config_schema_def runtimeConfig_def Let_def)

end
