(* ===== verification/ApiClient.thy ===== *)
theory ApiClient
  imports Session SdkClient
begin

text \<open>
  The dashboard's transport (\<open>web/src/api/client.ts\<close>) and its endpoints
  (\<open>web/src/api/endpoints\<close>). An endpoint is the call it makes: method, path, body and how the answer
  is unwrapped; \<open>send\<close> performs a call. An input that is passed through to the body is a JSON value;
  an input whose members are read is a record. The keys in paths are not escaped unless the source
  escapes them.
\<close>

section \<open>api/client.ts\<close>

datatype api_error =
    ApiError int string string
  | ApiNetwork string
  | ApiSyntax
  | ApiNoConfig
  | ApiType
  | Message string

text \<open>\<open>request\<close>; the \<open>headers\<close> option is never given by an endpoint.\<close>

definition api_http :: "string \<Rightarrow> string option \<Rightarrow> string \<Rightarrow> string \<Rightarrow> js option \<Rightarrow> http_request" where
  "api_http apiUrl token method path body =
     \<lparr>rq_method = method, rq_url = apiUrl @ path,
      rq_headers = (if body \<noteq> None then [(''Content-Type'', ''application/json'')] else []) @
        (if truthy_opt token then [(''Authorization'', ''Bearer '' @ the token)] else []),
      rq_body = (case body of Some b \<Rightarrow> stringify b | None \<Rightarrow> None)\<rparr>"

definition api_request ::
  "app_config option \<Rightarrow> string option \<Rightarrow> 'w fetch \<Rightarrow> string \<Rightarrow> string \<Rightarrow> js option \<Rightarrow> 'w \<Rightarrow> (api_error + js) \<times> 'w" where
  "api_request config token fetch method path body w =
     (case getConfig config of
        Inl _ \<Rightarrow> (Inl ApiNoConfig, w)
      | Inr c \<Rightarrow>
          (case fetch (api_http (cg_apiUrl c) token method path body) w of
             (Inl e, w') \<Rightarrow> (Inl (ApiNetwork e), w')
           | (Inr res, w') \<Rightarrow>
               (if \<not> ok_status (rs_status res)
                then (Inl (ApiError (rs_status res) (cg_apiUrl c @ path)
                       (''Request failed: '' @ show_int (rs_status res) @ '' '' @ path)), w')
                else if rs_status res = 204 then (Inr JUndef, w')
                else (case rs_body res of
                    None \<Rightarrow> (Inl ApiSyntax, w')
                  | Some t \<Rightarrow> (case json_parse t of Some v \<Rightarrow> (Inr v, w') | None \<Rightarrow> (Inl ApiSyntax, w'))))))"

section \<open>Calls\<close>

text \<open>How the answer is returned: as it is, a list member (\<open>null\<close> is the empty list), or a member.\<close>

datatype unwrap = Whole | ListOf string | Member string

record api_call =
  ac_method :: string
  ac_path :: string
  ac_body :: "js option"
  ac_unwrap :: unwrap

definition call_get :: "string \<Rightarrow> unwrap \<Rightarrow> api_call" where
  "call_get path u = \<lparr>ac_method = ''GET'', ac_path = path, ac_body = None, ac_unwrap = u\<rparr>"

definition call_post :: "string \<Rightarrow> js option \<Rightarrow> api_call" where
  "call_post path body = \<lparr>ac_method = ''POST'', ac_path = path, ac_body = body, ac_unwrap = Whole\<rparr>"

definition call_put :: "string \<Rightarrow> js \<Rightarrow> api_call" where
  "call_put path body = \<lparr>ac_method = ''PUT'', ac_path = path, ac_body = Some body, ac_unwrap = Whole\<rparr>"

definition call_patch :: "string \<Rightarrow> js \<Rightarrow> api_call" where
  "call_patch path body = \<lparr>ac_method = ''PATCH'', ac_path = path, ac_body = Some body, ac_unwrap = Whole\<rparr>"

definition call_delete :: "string \<Rightarrow> api_call" where
  "call_delete path = \<lparr>ac_method = ''DELETE'', ac_path = path, ac_body = None, ac_unwrap = Whole\<rparr>"

definition unwrap_value :: "unwrap \<Rightarrow> js \<Rightarrow> api_error + js" where
  "unwrap_value u v =
     (case u of
        Whole \<Rightarrow> Inr v
      | ListOf m \<Rightarrow> (case js_get v m of
            None \<Rightarrow> Inl ApiType
          | Some x \<Rightarrow> Inr (if x = JUndef \<or> x = JNull then JArr [] else x))
      | Member m \<Rightarrow> (case js_get v m of None \<Rightarrow> Inl ApiType | Some x \<Rightarrow> Inr x))"

definition send :: "app_config option \<Rightarrow> string option \<Rightarrow> 'w fetch \<Rightarrow> api_call \<Rightarrow> 'w \<Rightarrow> (api_error + js) \<times> 'w" where
  "send config token fetch c w =
     (case api_request config token fetch (ac_method c) (ac_path c) (ac_body c) w of
        (Inl e, w') \<Rightarrow> (Inl e, w') | (Inr v, w') \<Rightarrow> (unwrap_value (ac_unwrap c) v, w'))"

section \<open>Paths\<close>

text \<open>A path is its segments, each after a slash.\<close>

definition path_of :: "string list \<Rightarrow> string" where
  "path_of segments = concat (map (\<lambda>s. CHR ''/'' # s) segments)"

definition project_path :: "string \<Rightarrow> string \<Rightarrow> string list" where
  "project_path org proj = [''organizations'', org, ''projects'', proj]"

text \<open>\<open>URLSearchParams\<close>: form encoding of a value, and \<open>qs ? `?${qs}` : ''\<close>.\<close>

definition form_char :: "char \<Rightarrow> string" where
  "form_char c = (let n = code_unit c in
     if n = 32 then ''+''
     else if (48 \<le> n \<and> n \<le> 57) \<or> (65 \<le> n \<and> n \<le> 90) \<or> (97 \<le> n \<and> n \<le> 122) \<or> c \<in> set ''*-._'' then [c]
     else if n < 128 then pct_byte n
     else pct_byte (192 + n div 64) @ pct_byte (128 + n mod 64))"

definition query_string :: "(string \<times> string) list \<Rightarrow> string" where
  "query_string params =
     (if params = [] then [] else CHR ''?'' # join ''&'' (map (\<lambda>(k, v). k @ ''='' @ concat (map form_char v)) params))"

definition optional_param :: "string \<Rightarrow> string option \<Rightarrow> (string \<times> string) list" where
  "optional_param k v = (if truthy_opt v then [(k, the v)] else [])"

definition search_suffix :: "string \<Rightarrow> string" where
  "search_suffix search = ''?search='' @ encodeURIComponent search"

section \<open>Endpoints\<close>

definition auth_login :: "js \<Rightarrow> api_call" where
  "auth_login input = call_post ''/auth/login'' (Some input)"

definition auth_me :: api_call where
  "auth_me = call_get ''/me'' Whole"

definition setup_status_call :: api_call where
  "setup_status_call = call_get ''/setup'' Whole"

definition setup_complete :: "js \<Rightarrow> api_call" where
  "setup_complete input = call_post ''/setup'' (Some input)"

definition organizations_list :: api_call where
  "organizations_list = call_get ''/organizations'' (ListOf ''organizations'')"

definition organizations_remove :: "string \<Rightarrow> api_call" where
  "organizations_remove org = call_delete (path_of [''organizations'', org])"

definition users_list :: api_call where
  "users_list = call_get ''/users'' (ListOf ''users'')"

definition users_create :: "js \<Rightarrow> api_call" where
  "users_create input = call_post ''/users'' (Some input)"

definition users_update :: "string \<Rightarrow> js \<Rightarrow> api_call" where
  "users_update i input = call_patch (path_of [''users'', i]) input"

definition users_remove :: "string \<Rightarrow> api_call" where
  "users_remove i = call_delete (path_of [''users'', i])"

definition roles_list :: "string \<Rightarrow> api_call" where
  "roles_list org = call_get (path_of [''organizations'', org, ''roles'']) (ListOf ''roles'')"

definition roles_permissions :: api_call where
  "roles_permissions = call_get ''/permissions'' (ListOf ''permissions'')"

definition roles_create :: "string \<Rightarrow> js \<Rightarrow> api_call" where
  "roles_create org input = call_post (path_of [''organizations'', org, ''roles'']) (Some input)"

definition members_list :: "string \<Rightarrow> api_call" where
  "members_list org = call_get (path_of [''organizations'', org, ''members'']) (ListOf ''members'')"

definition members_add :: "string \<Rightarrow> js \<Rightarrow> api_call" where
  "members_add org input = call_post (path_of [''organizations'', org, ''members'']) (Some input)"

definition members_grantProjectRole :: "string \<Rightarrow> string \<Rightarrow> js \<Rightarrow> api_call" where
  "members_grantProjectRole org proj input = call_post (path_of (project_path org proj @ [''roles''])) (Some input)"

definition projects_list :: "string \<Rightarrow> api_call" where
  "projects_list org = call_get (path_of [''organizations'', org, ''projects'']) (ListOf ''projects'')"

definition projects_get :: "string \<Rightarrow> string \<Rightarrow> api_call" where
  "projects_get org proj = call_get (path_of (project_path org proj)) Whole"

definition projects_create :: "string \<Rightarrow> js \<Rightarrow> api_call" where
  "projects_create org input =
     (call_post (path_of [''organizations'', org, ''projects'']) (Some input))\<lparr>ac_unwrap := Member ''project''\<rparr>"

definition projects_update :: "string \<Rightarrow> string \<Rightarrow> string \<Rightarrow> api_call" where
  "projects_update org proj name = call_patch (path_of (project_path org proj)) (JObj [(''name'', JStr name)])"

definition projects_remove :: "string \<Rightarrow> string \<Rightarrow> api_call" where
  "projects_remove org proj = call_delete (path_of (project_path org proj))"

definition environments_list :: "string \<Rightarrow> string \<Rightarrow> string \<Rightarrow> api_call" where
  "environments_list org proj search =
     call_get (path_of (project_path org proj @ [''environments'']) @ search_suffix search) (ListOf ''environments'')"

definition environments_create :: "string \<Rightarrow> string \<Rightarrow> js \<Rightarrow> api_call" where
  "environments_create org proj input = call_post (path_of (project_path org proj @ [''environments''])) (Some input)"

definition environment_path :: "string \<Rightarrow> string \<Rightarrow> string \<Rightarrow> string list" where
  "environment_path org proj envKey = project_path org proj @ [''environments'', envKey]"

definition sdkKeys_list :: "string \<Rightarrow> string \<Rightarrow> string \<Rightarrow> api_call" where
  "sdkKeys_list org proj envKey = call_get (path_of (environment_path org proj envKey @ [''sdk-keys''])) (ListOf ''sdk_keys'')"

definition sdkKeys_create :: "string \<Rightarrow> string \<Rightarrow> string \<Rightarrow> js \<Rightarrow> api_call" where
  "sdkKeys_create org proj envKey input =
     call_post (path_of (environment_path org proj envKey @ [''sdk-keys''])) (Some input)"

definition sdkKeys_revoke :: "string \<Rightarrow> string \<Rightarrow> string \<Rightarrow> string \<Rightarrow> api_call" where
  "sdkKeys_revoke org proj envKey keyId = call_delete (path_of (environment_path org proj envKey @ [''sdk-keys'', keyId]))"

definition contexts_list :: "string \<Rightarrow> string \<Rightarrow> string \<Rightarrow> string \<Rightarrow> api_call" where
  "contexts_list org proj envKey search =
     call_get (path_of (environment_path org proj envKey @ [''contexts'']) @ search_suffix search) (ListOf ''contexts'')"

definition contexts_get :: "string \<Rightarrow> string \<Rightarrow> string \<Rightarrow> string \<Rightarrow> string \<Rightarrow> api_call" where
  "contexts_get org proj envKey kind key =
     call_get (path_of (environment_path org proj envKey @
       [''contexts'', encodeURIComponent kind, encodeURIComponent key])) Whole"

definition segments_list :: "string \<Rightarrow> string \<Rightarrow> string \<Rightarrow> api_call" where
  "segments_list org proj search =
     call_get (path_of (project_path org proj @ [''segments'']) @ search_suffix search) (ListOf ''segments'')"

definition segments_get :: "string \<Rightarrow> string \<Rightarrow> string \<Rightarrow> api_call" where
  "segments_get org proj segKey = call_get (path_of (project_path org proj @ [''segments'', segKey])) Whole"

definition segments_save :: "string \<Rightarrow> string \<Rightarrow> string \<Rightarrow> js \<Rightarrow> api_call" where
  "segments_save org proj segKey body = call_put (path_of (project_path org proj @ [''segments'', segKey])) body"

definition segments_remove :: "string \<Rightarrow> string \<Rightarrow> string \<Rightarrow> api_call" where
  "segments_remove org proj segKey = call_delete (path_of (project_path org proj @ [''segments'', segKey]))"

definition flags_list :: "string \<Rightarrow> string \<Rightarrow> api_call" where
  "flags_list org proj = call_get (path_of (project_path org proj @ [''flags''])) (ListOf ''flags'')"

definition flags_listInEnv :: "string \<Rightarrow> string \<Rightarrow> string \<Rightarrow> string \<Rightarrow> api_call" where
  "flags_listInEnv org proj envKey search =
     call_get (path_of (environment_path org proj envKey @ [''flags'']) @ search_suffix search) (ListOf ''flags'')"

definition flags_create :: "string \<Rightarrow> string \<Rightarrow> create_flag_input \<Rightarrow> api_call" where
  "flags_create org proj input =
     call_put (path_of (project_path org proj @ [''flags'', cf_key input]))
       (JObj [(''name'', JStr (cf_name input)),
              (''description'', JStr (the_default [] (cf_description input))),
              (''client_side_available'', JBool (the_default False (cf_client_side_available input))),
              (''temporary'', JBool (the_default False (cf_temporary input))),
              (''variations'', JArr (cf_variations input))])"

definition flags_listLifecycle :: "string \<Rightarrow> string \<Rightarrow> api_call" where
  "flags_listLifecycle org proj = call_get (path_of (project_path org proj @ [''flags'', ''lifecycle''])) (ListOf ''flags'')"

definition flags_get :: "string \<Rightarrow> string \<Rightarrow> string \<Rightarrow> api_call" where
  "flags_get org proj flagKey = call_get (path_of (project_path org proj @ [''flags'', flagKey])) Whole"

definition flags_remove :: "string \<Rightarrow> string \<Rightarrow> string \<Rightarrow> api_call" where
  "flags_remove org proj flagKey = call_delete (path_of (project_path org proj @ [''flags'', flagKey]))"

definition config_path :: "string \<Rightarrow> string \<Rightarrow> string \<Rightarrow> string \<Rightarrow> string list" where
  "config_path org proj flagKey envKey = project_path org proj @ [''flags'', flagKey, ''environments'', envKey]"

definition flags_getConfig :: "string \<Rightarrow> string \<Rightarrow> string \<Rightarrow> string \<Rightarrow> api_call" where
  "flags_getConfig org proj flagKey envKey = call_get (path_of (config_path org proj flagKey envKey)) Whole"

definition flags_toggle :: "string \<Rightarrow> string \<Rightarrow> string \<Rightarrow> string \<Rightarrow> bool \<Rightarrow> api_call" where
  "flags_toggle org proj flagKey envKey on =
     call_patch (path_of (config_path org proj flagKey envKey))
       (JObj [(''instructions'', JArr [JObj [(''kind'', JStr (if on then ''turnFlagOn'' else ''turnFlagOff''))]])])"

definition flags_patchConfig :: "string \<Rightarrow> string \<Rightarrow> string \<Rightarrow> string \<Rightarrow> js \<Rightarrow> api_call" where
  "flags_patchConfig org proj flagKey envKey instructions =
     call_patch (path_of (config_path org proj flagKey envKey)) (JObj [(''instructions'', instructions)])"

definition changes_list :: "string \<Rightarrow> string \<Rightarrow> string option \<Rightarrow> api_call" where
  "changes_list org proj status =
     call_get (path_of (project_path org proj @ [''changes'']) @
       (if truthy_opt status then ''?status='' @ the status else [])) (ListOf ''changes'')"

definition changes_create :: "string \<Rightarrow> string \<Rightarrow> string \<Rightarrow> string \<Rightarrow> js \<Rightarrow> api_call" where
  "changes_create org proj flagKey envKey input =
     call_post (path_of (config_path org proj flagKey envKey @ [''changes''])) (Some input)"

definition changes_approve :: "string \<Rightarrow> string \<Rightarrow> string \<Rightarrow> string option \<Rightarrow> api_call" where
  "changes_approve org proj i comment =
     call_post (path_of (project_path org proj @ [''changes'', i, ''approve'']))
       (Some (JObj [(''comment'', JStr (the_default [] comment))]))"

definition changes_reject :: "string \<Rightarrow> string \<Rightarrow> string \<Rightarrow> string option \<Rightarrow> api_call" where
  "changes_reject org proj i comment =
     call_post (path_of (project_path org proj @ [''changes'', i, ''reject'']))
       (Some (JObj [(''comment'', JStr (the_default [] comment))]))"

definition scheduledChanges_list ::
  "string \<Rightarrow> string \<Rightarrow> string option \<Rightarrow> string option \<Rightarrow> string option \<Rightarrow> api_call" where
  "scheduledChanges_list org proj status flag env =
     call_get (path_of (project_path org proj @ [''scheduled-changes'']) @
       query_string (optional_param ''status'' status @ optional_param ''flag'' flag @ optional_param ''env'' env))
       (ListOf ''scheduled_changes'')"

definition scheduledChanges_create :: "string \<Rightarrow> string \<Rightarrow> string \<Rightarrow> string \<Rightarrow> js \<Rightarrow> api_call" where
  "scheduledChanges_create org proj flagKey envKey input =
     call_post (path_of (config_path org proj flagKey envKey @ [''scheduled-changes''])) (Some input)"

definition scheduledChanges_cancel :: "string \<Rightarrow> string \<Rightarrow> string \<Rightarrow> api_call" where
  "scheduledChanges_cancel org proj i =
     call_post (path_of (project_path org proj @ [''scheduled-changes'', i, ''cancel''])) None"

definition triggers_list :: "string \<Rightarrow> string \<Rightarrow> string \<Rightarrow> string \<Rightarrow> api_call" where
  "triggers_list org proj flagKey envKey =
     call_get (path_of (project_path org proj @ [''triggers'']) @ ''?flag='' @ flagKey @ ''&env='' @ envKey)
       (ListOf ''triggers'')"

definition triggers_create :: "string \<Rightarrow> string \<Rightarrow> string \<Rightarrow> string \<Rightarrow> js \<Rightarrow> api_call" where
  "triggers_create org proj flagKey envKey input =
     call_post (path_of (config_path org proj flagKey envKey @ [''triggers''])) (Some input)"

definition triggers_setEnabled :: "string \<Rightarrow> string \<Rightarrow> string \<Rightarrow> bool \<Rightarrow> api_call" where
  "triggers_setEnabled org proj i enabled =
     call_post (path_of (project_path org proj @ [''triggers'', i, ''enabled'']))
       (Some (JObj [(''enabled'', JBool enabled)]))"

definition triggers_reset :: "string \<Rightarrow> string \<Rightarrow> string \<Rightarrow> api_call" where
  "triggers_reset org proj i = call_post (path_of (project_path org proj @ [''triggers'', i, ''reset''])) None"

definition triggers_remove :: "string \<Rightarrow> string \<Rightarrow> string \<Rightarrow> api_call" where
  "triggers_remove org proj i = call_delete (path_of (project_path org proj @ [''triggers'', i]))"

definition audit_list :: "string \<Rightarrow> string \<Rightarrow> api_call" where
  "audit_list org resourceType =
     call_get (path_of [''organizations'', org, ''audit''] @
       query_string (optional_param ''resource_type'' (Some resourceType))) (ListOf ''entries'')"

definition webhooks_path :: "string \<Rightarrow> string list" where
  "webhooks_path org = [''organizations'', org, ''webhooks'']"

definition webhooks_list :: "string \<Rightarrow> api_call" where
  "webhooks_list org = call_get (path_of (webhooks_path org)) (ListOf ''webhooks'')"

definition webhooks_create :: "string \<Rightarrow> js \<Rightarrow> api_call" where
  "webhooks_create org input = call_post (path_of (webhooks_path org)) (Some input)"

definition webhooks_setEnabled :: "string \<Rightarrow> string \<Rightarrow> bool \<Rightarrow> api_call" where
  "webhooks_setEnabled org i enabled =
     call_post (path_of (webhooks_path org @ [i, ''enabled''])) (Some (JObj [(''enabled'', JBool enabled)]))"

definition webhooks_reset :: "string \<Rightarrow> string \<Rightarrow> api_call" where
  "webhooks_reset org i = call_post (path_of (webhooks_path org @ [i, ''reset''])) None"

definition webhooks_test :: "string \<Rightarrow> string \<Rightarrow> api_call" where
  "webhooks_test org i = call_post (path_of (webhooks_path org @ [i, ''test''])) None"

definition webhooks_remove :: "string \<Rightarrow> string \<Rightarrow> api_call" where
  "webhooks_remove org i = call_delete (path_of (webhooks_path org @ [i]))"

definition webhooks_deliveries :: "string \<Rightarrow> string \<Rightarrow> api_call" where
  "webhooks_deliveries org i = call_get (path_of (webhooks_path org @ [i, ''deliveries''])) (ListOf ''deliveries'')"

definition analytics_flagStats :: "string \<Rightarrow> string \<Rightarrow> string \<Rightarrow> string \<Rightarrow> string \<Rightarrow> api_call" where
  "analytics_flagStats org proj flagKey envKey since =
     call_get (path_of (config_path org proj flagKey envKey @ [''stats'']) @ ''?since='' @ since) Whole"

definition analytics_envStats :: "string \<Rightarrow> string \<Rightarrow> string \<Rightarrow> string \<Rightarrow> api_call" where
  "analytics_envStats org proj envKey since =
     call_get (path_of (environment_path org proj envKey @ [''stats'']) @ ''?since='' @ since) Whole"

end
