(* ===== verification/Hooks.thy ===== *)
theory Hooks
  imports ApiClient
begin

text \<open>
  The query keys (\<open>web/src/lib/query-keys.ts\<close>) and the hooks of every feature
  (\<open>web/src/features/*/hooks\<close>). The cache itself is a library: a query hook is the key it reads
  under, the call that fills it and whether it runs; a mutation hook is its call, the translation of
  its errors, and what it does to the cache and the session on success.
\<close>

type_synonym query_key = "string list"

section \<open>lib/query-keys.ts\<close>

definition key_me :: query_key where "key_me = [''auth'', ''me'']"
definition key_setupStatus :: query_key where "key_setupStatus = [''setup'', ''status'']"
definition key_organizations :: query_key where "key_organizations = [''organizations'', ''list'']"
definition key_permissions :: query_key where "key_permissions = [''permissions'']"

definition key_projects :: "string \<Rightarrow> query_key" where
  "key_projects org = [''projects'', org]"

definition key_project :: "string \<Rightarrow> string \<Rightarrow> query_key" where
  "key_project org proj = [''projects'', org, proj]"

definition key_flags :: "string \<Rightarrow> string \<Rightarrow> query_key" where
  "key_flags org proj = [''flags'', org, proj]"

definition key_flagLifecycle :: "string \<Rightarrow> string \<Rightarrow> query_key" where
  "key_flagLifecycle org proj = [''flags'', org, proj, ''lifecycle'']"

definition key_envFlags :: "string \<Rightarrow> string \<Rightarrow> string \<Rightarrow> query_key" where
  "key_envFlags org proj envKey = [''flags'', org, proj, ''env'', envKey]"

definition key_flag :: "string \<Rightarrow> string \<Rightarrow> string \<Rightarrow> query_key" where
  "key_flag org proj flagKey = [''flags'', org, proj, flagKey]"

definition key_flagConfig :: "string \<Rightarrow> string \<Rightarrow> string \<Rightarrow> string \<Rightarrow> query_key" where
  "key_flagConfig org proj flagKey envKey = [''flags'', org, proj, flagKey, ''config'', envKey]"

definition key_environments :: "string \<Rightarrow> string \<Rightarrow> query_key" where
  "key_environments org proj = [''environments'', org, proj]"

definition key_segments :: "string \<Rightarrow> string \<Rightarrow> query_key" where
  "key_segments org proj = [''segments'', org, proj]"

definition key_segment :: "string \<Rightarrow> string \<Rightarrow> string \<Rightarrow> query_key" where
  "key_segment org proj segKey = [''segments'', org, proj, segKey]"

definition key_contexts :: "string \<Rightarrow> string \<Rightarrow> string \<Rightarrow> query_key" where
  "key_contexts org proj envKey = [''contexts'', org, proj, envKey]"

definition key_context :: "string \<Rightarrow> string \<Rightarrow> string \<Rightarrow> string \<Rightarrow> string \<Rightarrow> query_key" where
  "key_context org proj envKey kind key = [''contexts'', org, proj, envKey, kind, key]"

definition key_sdkKeys :: "string \<Rightarrow> string \<Rightarrow> string \<Rightarrow> query_key" where
  "key_sdkKeys org proj envKey = [''sdk-keys'', org, proj, envKey]"

definition key_changes :: "string \<Rightarrow> string \<Rightarrow> query_key" where
  "key_changes org proj = [''changes'', org, proj]"

definition key_scheduledChanges :: "string \<Rightarrow> string \<Rightarrow> query_key" where
  "key_scheduledChanges org proj = [''scheduled-changes'', org, proj]"

definition key_triggers :: "string \<Rightarrow> string \<Rightarrow> query_key" where
  "key_triggers org proj = [''triggers'', org, proj]"

definition key_audit :: "string \<Rightarrow> query_key" where
  "key_audit org = [''audit'', org]"

definition key_webhooks :: "string \<Rightarrow> query_key" where
  "key_webhooks org = [''webhooks'', org]"

definition key_webhookDeliveries :: "string \<Rightarrow> string \<Rightarrow> query_key" where
  "key_webhookDeliveries org i = [''webhooks'', org, i, ''deliveries'']"

definition key_roles :: "string \<Rightarrow> query_key" where
  "key_roles org = [''roles'', org]"

definition key_members :: "string \<Rightarrow> query_key" where
  "key_members org = [''members'', org]"

section \<open>Queries\<close>

text \<open>A query's key, its call, whether it is enabled, whether it is retried, and whether its answer
  never goes stale.\<close>

record query_opts =
  qo_key :: query_key
  qo_call :: api_call
  qo_enabled :: bool
  qo_retry :: bool
  qo_forever :: bool

definition query :: "query_key \<Rightarrow> api_call \<Rightarrow> query_opts" where
  "query k c = \<lparr>qo_key = k, qo_call = c, qo_enabled = True, qo_retry = True, qo_forever = False\<rparr>"

definition useMe :: "bool \<Rightarrow> query_opts" where
  "useMe isAuthenticated = (query key_me auth_me)\<lparr>qo_enabled := isAuthenticated, qo_retry := False\<rparr>"

definition useSetupStatus :: query_opts where
  "useSetupStatus = (query key_setupStatus setup_status_call)\<lparr>qo_forever := True, qo_retry := False\<rparr>"

definition useOrganizations :: query_opts where
  "useOrganizations = query key_organizations organizations_list"

definition useUsers :: query_opts where
  "useUsers = query [''users''] users_list"

definition useProjects :: "string \<Rightarrow> query_opts" where
  "useProjects org = query (key_projects org) (projects_list org)"

definition useProject :: "string \<Rightarrow> string \<Rightarrow> query_opts" where
  "useProject org proj = query (key_project org proj) (projects_get org proj)"

definition useRoles :: "string \<Rightarrow> query_opts" where
  "useRoles org = query (key_roles org) (roles_list org)"

definition usePermissions :: query_opts where
  "usePermissions = (query key_permissions roles_permissions)\<lparr>qo_forever := True\<rparr>"

definition useMembers :: "string \<Rightarrow> query_opts" where
  "useMembers org = query (key_members org) (members_list org)"

definition useEnvironments :: "string \<Rightarrow> string \<Rightarrow> string \<Rightarrow> query_opts" where
  "useEnvironments org proj search =
     query (key_environments org proj @ [search]) (environments_list org proj search)"

definition useSdkKeys :: "string \<Rightarrow> string \<Rightarrow> string \<Rightarrow> query_opts" where
  "useSdkKeys org proj envKey =
     (query (key_sdkKeys org proj envKey) (sdkKeys_list org proj envKey))\<lparr>qo_enabled := envKey \<noteq> []\<rparr>"

definition useContexts :: "string \<Rightarrow> string \<Rightarrow> string \<Rightarrow> string \<Rightarrow> query_opts" where
  "useContexts org proj envKey search =
     (query (key_contexts org proj envKey @ [search]) (contexts_list org proj envKey search))
       \<lparr>qo_enabled := envKey \<noteq> []\<rparr>"

definition useContext :: "string \<Rightarrow> string \<Rightarrow> string \<Rightarrow> string \<Rightarrow> string \<Rightarrow> query_opts" where
  "useContext org proj envKey kind key =
     (query (key_context org proj envKey kind key) (contexts_get org proj envKey kind key))
       \<lparr>qo_enabled := envKey \<noteq> [] \<and> kind \<noteq> [] \<and> key \<noteq> []\<rparr>"

definition useSegments :: "string \<Rightarrow> string \<Rightarrow> string \<Rightarrow> query_opts" where
  "useSegments org proj search = query (key_segments org proj @ [search]) (segments_list org proj search)"

definition useSegment :: "string \<Rightarrow> string \<Rightarrow> string \<Rightarrow> query_opts" where
  "useSegment org proj segKey = query (key_segment org proj segKey) (segments_get org proj segKey)"

definition useFlags :: "string \<Rightarrow> string \<Rightarrow> query_opts" where
  "useFlags org proj = query (key_flags org proj) (flags_list org proj)"

definition useFlagLifecycle :: "string \<Rightarrow> string \<Rightarrow> query_opts" where
  "useFlagLifecycle org proj = query (key_flagLifecycle org proj) (flags_listLifecycle org proj)"

definition useEnvFlags :: "string \<Rightarrow> string \<Rightarrow> string \<Rightarrow> string \<Rightarrow> query_opts" where
  "useEnvFlags org proj envKey search =
     (query (key_envFlags org proj envKey @ [search]) (flags_listInEnv org proj envKey search))
       \<lparr>qo_enabled := envKey \<noteq> []\<rparr>"

definition useFlag :: "string \<Rightarrow> string \<Rightarrow> string \<Rightarrow> query_opts" where
  "useFlag org proj flagKey = query (key_flag org proj flagKey) (flags_get org proj flagKey)"

definition useFlagConfig :: "string \<Rightarrow> string \<Rightarrow> string \<Rightarrow> string \<Rightarrow> query_opts" where
  "useFlagConfig org proj flagKey envKey =
     (query (key_flagConfig org proj flagKey envKey) (flags_getConfig org proj flagKey envKey))
       \<lparr>qo_enabled := envKey \<noteq> []\<rparr>"

definition useChanges :: "string \<Rightarrow> string \<Rightarrow> string option \<Rightarrow> query_opts" where
  "useChanges org proj status =
     query (key_changes org proj @ [the_default ''all'' status]) (changes_list org proj status)"

definition useScheduledChanges ::
  "string \<Rightarrow> string \<Rightarrow> string \<Rightarrow> string \<Rightarrow> string option \<Rightarrow> query_opts" where
  "useScheduledChanges org proj flagKey envKey status =
     (query (key_scheduledChanges org proj @ [flagKey, envKey, the_default ''all'' status])
        (scheduledChanges_list org proj status (Some flagKey) (Some envKey)))\<lparr>qo_enabled := envKey \<noteq> []\<rparr>"

definition useTriggers :: "string \<Rightarrow> string \<Rightarrow> string \<Rightarrow> string \<Rightarrow> query_opts" where
  "useTriggers org proj flagKey envKey =
     (query (key_triggers org proj @ [flagKey, envKey]) (triggers_list org proj flagKey envKey))
       \<lparr>qo_enabled := envKey \<noteq> []\<rparr>"

definition useAudit :: "string \<Rightarrow> string \<Rightarrow> query_opts" where
  "useAudit org resourceType = query (key_audit org @ [resourceType]) (audit_list org resourceType)"

definition useWebhooks :: "string \<Rightarrow> query_opts" where
  "useWebhooks org = query (key_webhooks org) (webhooks_list org)"

definition useWebhookDeliveries :: "string \<Rightarrow> string \<Rightarrow> bool \<Rightarrow> query_opts" where
  "useWebhookDeliveries org i enabled =
     (query (key_webhookDeliveries org i) (webhooks_deliveries org i))\<lparr>qo_enabled := enabled\<rparr>"

definition useFlagStats :: "string \<Rightarrow> string \<Rightarrow> string \<Rightarrow> string \<Rightarrow> string \<Rightarrow> query_opts" where
  "useFlagStats org proj flagKey envKey since =
     (query [''stats'', ''flag'', org, proj, flagKey, envKey, since]
       (analytics_flagStats org proj flagKey envKey since))\<lparr>qo_enabled := envKey \<noteq> []\<rparr>"

definition useEnvStats :: "string \<Rightarrow> string \<Rightarrow> string \<Rightarrow> string \<Rightarrow> query_opts" where
  "useEnvStats org proj envKey since =
     (query [''stats'', ''env'', org, proj, envKey, since]
       (analytics_envStats org proj envKey since))\<lparr>qo_enabled := envKey \<noteq> []\<rparr>"

section \<open>Mutations\<close>

text \<open>What a mutation does on success: store the answer, or a member of it, under a key, invalidate
  every query below a key, clear the cache, or start a session with a token from the answer.\<close>

datatype cache_effect =
    SetData query_key js
  | Invalidate query_key
  | StartSession string

record mutation =
  mu_call :: api_call
  mu_error :: "api_error \<Rightarrow> api_error"
  mu_success :: "js \<Rightarrow> cache_effect list"

definition mutation_of :: "api_call \<Rightarrow> (js \<Rightarrow> cache_effect list) \<Rightarrow> mutation" where
  "mutation_of c f = \<lparr>mu_call = c, mu_error = (\<lambda>e. e), mu_success = f\<rparr>"

definition member_of :: "js \<Rightarrow> string \<Rightarrow> js" where
  "member_of v m = the_default JUndef (js_get v m)"

definition token_in :: "js \<Rightarrow> string" where
  "token_in v = (case member_of v ''token'' of JStr t \<Rightarrow> t | _ \<Rightarrow> [])"

text \<open>\<open>err instanceof ApiError && err.status === n\<close>\<close>

definition translate_status :: "int \<Rightarrow> string \<Rightarrow> api_error \<Rightarrow> api_error" where
  "translate_status n msg e = (case e of ApiError s _ _ \<Rightarrow> if s = n then Message msg else e | _ \<Rightarrow> e)"

definition useLogin :: "js \<Rightarrow> mutation" where
  "useLogin input = \<lparr>mu_call = auth_login input,
     mu_error = translate_status 401 ''Invalid email or password.'',
     mu_success = (\<lambda>s. [StartSession (token_in s), SetData key_me (member_of s ''user'')])\<rparr>"

definition useCompleteSetup :: "js \<Rightarrow> mutation" where
  "useCompleteSetup input = \<lparr>mu_call = setup_complete input,
     mu_error = translate_status 409 ''Setup has already been completed on this install.'',
     mu_success = (\<lambda>r. [StartSession (token_in r), SetData key_me (member_of r ''user''),
       SetData key_setupStatus (JObj [(''needs_setup'', JBool False)])])\<rparr>"

definition useDeleteOrganization :: "string \<Rightarrow> mutation" where
  "useDeleteOrganization org = mutation_of (organizations_remove org) (\<lambda>_. [Invalidate key_organizations])"

definition useCreateUser :: "js \<Rightarrow> mutation" where
  "useCreateUser input = mutation_of (users_create input) (\<lambda>_. [Invalidate [''users'']])"

definition useUpdateUser :: "string \<Rightarrow> js \<Rightarrow> mutation" where
  "useUpdateUser i input = mutation_of (users_update i input) (\<lambda>_. [Invalidate [''users'']])"

definition useDeleteUser :: "string \<Rightarrow> mutation" where
  "useDeleteUser i = mutation_of (users_remove i) (\<lambda>_. [Invalidate [''users'']])"

definition useCreateProject :: "string \<Rightarrow> js \<Rightarrow> mutation" where
  "useCreateProject org input = mutation_of (projects_create org input) (\<lambda>_. [Invalidate (key_projects org)])"

definition useUpdateProject :: "string \<Rightarrow> string \<Rightarrow> string \<Rightarrow> mutation" where
  "useUpdateProject org proj name = mutation_of (projects_update org proj name)
     (\<lambda>project. [SetData (key_project org proj) project, Invalidate (key_projects org)])"

definition useDeleteProject :: "string \<Rightarrow> string \<Rightarrow> mutation" where
  "useDeleteProject org proj = mutation_of (projects_remove org proj) (\<lambda>_. [Invalidate (key_projects org)])"

definition useCreateRole :: "string \<Rightarrow> js \<Rightarrow> mutation" where
  "useCreateRole org input = mutation_of (roles_create org input) (\<lambda>_. [Invalidate (key_roles org)])"

definition useAddMember :: "string \<Rightarrow> js \<Rightarrow> mutation" where
  "useAddMember org input = mutation_of (members_add org input) (\<lambda>_. [Invalidate (key_members org)])"

definition useGrantProjectRole :: "string \<Rightarrow> string \<Rightarrow> js \<Rightarrow> mutation" where
  "useGrantProjectRole org proj input = mutation_of (members_grantProjectRole org proj input) (\<lambda>_. [])"

definition useCreateEnvironment :: "string \<Rightarrow> string \<Rightarrow> js \<Rightarrow> mutation" where
  "useCreateEnvironment org proj input =
     mutation_of (environments_create org proj input) (\<lambda>_. [Invalidate (key_environments org proj)])"

definition useCreateSdkKey :: "string \<Rightarrow> string \<Rightarrow> string \<Rightarrow> js \<Rightarrow> mutation" where
  "useCreateSdkKey org proj envKey input =
     mutation_of (sdkKeys_create org proj envKey input) (\<lambda>_. [Invalidate (key_sdkKeys org proj envKey)])"

definition useRevokeSdkKey :: "string \<Rightarrow> string \<Rightarrow> string \<Rightarrow> string \<Rightarrow> mutation" where
  "useRevokeSdkKey org proj envKey keyId =
     mutation_of (sdkKeys_revoke org proj envKey keyId) (\<lambda>_. [Invalidate (key_sdkKeys org proj envKey)])"

text \<open>\<open>emptyDefinition\<close> and the body of a created segment.\<close>

definition emptyDefinition :: "(string \<times> js) list" where
  "emptyDefinition = [(''included'', JArr []), (''excluded'', JArr []), (''included_contexts'', JArr []),
     (''excluded_contexts'', JArr []), (''rules'', JArr [])]"

definition useCreateSegment :: "string \<Rightarrow> string \<Rightarrow> create_segment_input \<Rightarrow> mutation" where
  "useCreateSegment org proj input =
     mutation_of (segments_save org proj (cs_key input)
        (JObj ([(''name'', JStr (cs_name input)), (''description'', JStr (the_default [] (cs_description input)))]
           @ emptyDefinition)))
       (\<lambda>_. [Invalidate (key_segments org proj)])"

definition useSaveSegment :: "string \<Rightarrow> string \<Rightarrow> string \<Rightarrow> js \<Rightarrow> mutation" where
  "useSaveSegment org proj segKey body = mutation_of (segments_save org proj segKey body)
     (\<lambda>segment. [SetData (key_segment org proj segKey) segment, Invalidate (key_segments org proj)])"

definition useDeleteSegment :: "string \<Rightarrow> string \<Rightarrow> string \<Rightarrow> mutation" where
  "useDeleteSegment org proj segKey =
     mutation_of (segments_remove org proj segKey) (\<lambda>_. [Invalidate (key_segments org proj)])"

definition useToggleEnvFlag :: "string \<Rightarrow> string \<Rightarrow> string \<Rightarrow> string \<Rightarrow> bool \<Rightarrow> mutation" where
  "useToggleEnvFlag org proj envKey flagKey on =
     mutation_of (flags_toggle org proj flagKey envKey on) (\<lambda>_. [Invalidate (key_envFlags org proj envKey)])"

definition useCreateFlag :: "string \<Rightarrow> string \<Rightarrow> create_flag_input \<Rightarrow> mutation" where
  "useCreateFlag org proj input =
     mutation_of (flags_create org proj input) (\<lambda>_. [Invalidate (key_flags org proj)])"

definition useToggleFlag :: "string \<Rightarrow> string \<Rightarrow> string \<Rightarrow> string \<Rightarrow> bool \<Rightarrow> mutation" where
  "useToggleFlag org proj flagKey envKey on = mutation_of (flags_toggle org proj flagKey envKey on)
     (\<lambda>config. [SetData (key_flagConfig org proj flagKey envKey) config])"

definition usePatchFlagConfig :: "string \<Rightarrow> string \<Rightarrow> string \<Rightarrow> string \<Rightarrow> js \<Rightarrow> mutation" where
  "usePatchFlagConfig org proj flagKey envKey instructions =
     mutation_of (flags_patchConfig org proj flagKey envKey instructions)
       (\<lambda>config. [SetData (key_flagConfig org proj flagKey envKey) config, Invalidate (key_envFlags org proj envKey)])"

definition useDeleteFlag :: "string \<Rightarrow> string \<Rightarrow> string \<Rightarrow> mutation" where
  "useDeleteFlag org proj flagKey =
     mutation_of (flags_remove org proj flagKey) (\<lambda>_. [Invalidate [''flags'', org, proj]])"

definition useCreateChange :: "string \<Rightarrow> string \<Rightarrow> string \<Rightarrow> string \<Rightarrow> js \<Rightarrow> mutation" where
  "useCreateChange org proj flagKey envKey input =
     mutation_of (changes_create org proj flagKey envKey input) (\<lambda>_. [Invalidate (key_changes org proj)])"

definition useReviewChange :: "string \<Rightarrow> string \<Rightarrow> string \<Rightarrow> bool \<Rightarrow> string option \<Rightarrow> mutation" where
  "useReviewChange org proj i approve comment =
     mutation_of (if approve then changes_approve org proj i comment else changes_reject org proj i comment)
       (\<lambda>_. [Invalidate (key_changes org proj), Invalidate [''flags'', org, proj]])"

definition useCreateScheduledChange :: "string \<Rightarrow> string \<Rightarrow> string \<Rightarrow> string \<Rightarrow> js \<Rightarrow> mutation" where
  "useCreateScheduledChange org proj flagKey envKey input =
     mutation_of (scheduledChanges_create org proj flagKey envKey input)
       (\<lambda>_. [Invalidate (key_scheduledChanges org proj)])"

definition useCancelScheduledChange :: "string \<Rightarrow> string \<Rightarrow> string \<Rightarrow> mutation" where
  "useCancelScheduledChange org proj i =
     mutation_of (scheduledChanges_cancel org proj i) (\<lambda>_. [Invalidate (key_scheduledChanges org proj)])"

definition useCreateTrigger :: "string \<Rightarrow> string \<Rightarrow> string \<Rightarrow> string \<Rightarrow> js \<Rightarrow> mutation" where
  "useCreateTrigger org proj flagKey envKey input =
     mutation_of (triggers_create org proj flagKey envKey input) (\<lambda>_. [Invalidate (key_triggers org proj)])"

definition useSetTriggerEnabled :: "string \<Rightarrow> string \<Rightarrow> string \<Rightarrow> bool \<Rightarrow> mutation" where
  "useSetTriggerEnabled org proj i enabled =
     mutation_of (triggers_setEnabled org proj i enabled) (\<lambda>_. [Invalidate (key_triggers org proj)])"

definition useResetTrigger :: "string \<Rightarrow> string \<Rightarrow> string \<Rightarrow> mutation" where
  "useResetTrigger org proj i = mutation_of (triggers_reset org proj i) (\<lambda>_. [Invalidate (key_triggers org proj)])"

definition useDeleteTrigger :: "string \<Rightarrow> string \<Rightarrow> string \<Rightarrow> mutation" where
  "useDeleteTrigger org proj i = mutation_of (triggers_remove org proj i) (\<lambda>_. [Invalidate (key_triggers org proj)])"

definition useCreateWebhook :: "string \<Rightarrow> js \<Rightarrow> mutation" where
  "useCreateWebhook org input = mutation_of (webhooks_create org input) (\<lambda>_. [Invalidate (key_webhooks org)])"

definition useSetWebhookEnabled :: "string \<Rightarrow> string \<Rightarrow> bool \<Rightarrow> mutation" where
  "useSetWebhookEnabled org i enabled =
     mutation_of (webhooks_setEnabled org i enabled) (\<lambda>_. [Invalidate (key_webhooks org)])"

definition useResetWebhookSecret :: "string \<Rightarrow> string \<Rightarrow> mutation" where
  "useResetWebhookSecret org i = mutation_of (webhooks_reset org i) (\<lambda>_. [Invalidate (key_webhooks org)])"

definition useTestWebhook :: "string \<Rightarrow> string \<Rightarrow> mutation" where
  "useTestWebhook org i = mutation_of (webhooks_test org i) (\<lambda>_. [])"

definition useDeleteWebhook :: "string \<Rightarrow> string \<Rightarrow> mutation" where
  "useDeleteWebhook org i = mutation_of (webhooks_remove org i) (\<lambda>_. [Invalidate (key_webhooks org)])"

text \<open>Signing out: the session ends and the cache is cleared.\<close>

datatype logout_effect = EndSession | ClearCache

definition useLogout :: "logout_effect list" where
  "useLogout = [EndSession, ClearCache]"

text \<open>Running a mutation: its call, then its effects or its translated error.\<close>

definition mutate :: "app_config option \<Rightarrow> string option \<Rightarrow> 'w fetch \<Rightarrow> mutation \<Rightarrow> 'w \<Rightarrow> (api_error + cache_effect list) \<times> 'w" where
  "mutate config token fetch m w =
     (case send config token fetch (mu_call m) w of
        (Inl e, w') \<Rightarrow> (Inl (mu_error m e), w') | (Inr v, w') \<Rightarrow> (Inr (mu_success m v), w'))"

section \<open>Freshness\<close>

text \<open>An invalidation reaches every query whose key it is a prefix of.\<close>

definition refreshes :: "query_key \<Rightarrow> cache_effect \<Rightarrow> bool" where
  "refreshes k e = (case e of SetData k' _ \<Rightarrow> k' = k | Invalidate k' \<Rightarrow> prefix k' k | StartSession _ \<Rightarrow> False)"

definition covered :: "query_key \<Rightarrow> cache_effect list \<Rightarrow> bool" where
  "covered k es \<longleftrightarrow> list_ex (refreshes k) es"

lemmas key_defs = key_me_def key_setupStatus_def key_organizations_def key_permissions_def
  key_projects_def key_project_def key_flags_def key_flagLifecycle_def key_envFlags_def key_flag_def
  key_flagConfig_def key_environments_def key_segments_def key_segment_def key_contexts_def
  key_context_def key_sdkKeys_def key_changes_def key_scheduledChanges_def key_triggers_def
  key_audit_def key_webhooks_def key_webhookDeliveries_def key_roles_def key_members_def

lemma covered_simps [simp]:
  "covered k [] = False" "covered k (e # es) \<longleftrightarrow> refreshes k e \<or> covered k es"
  by (simp_all add: covered_def)

lemma refreshes_simps [simp]:
  "refreshes k (SetData k' v) \<longleftrightarrow> k' = k" "refreshes k (Invalidate k') \<longleftrightarrow> prefix k' k"
  "refreshes k (StartSession t) \<longleftrightarrow> False"
  by (simp_all add: refreshes_def)

end
