(* ===== verification/Wire.thy ===== *)
theory Wire
  imports Hooks Instructions
begin

text \<open>
  Instructions on the wire. The dashboard passes typed instructions to \<open>JSON.stringify\<close>, which drops
  absent members; the fixture backend reads the parsed body as instructions again. \<open>instruction_json\<close>
  is the object of an instruction, \<open>instruction_of\<close> the typed view of an object, and the lemmas show
  that nothing is lost between the two.
\<close>

section \<open>Objects of typed values\<close>

definition opt_member :: "string \<Rightarrow> ('a \<Rightarrow> js) \<Rightarrow> 'a option \<Rightarrow> (string \<times> js) list" where
  "opt_member k f x = (case x of None \<Rightarrow> [] | Some v \<Rightarrow> [(k, f v)])"

definition int_json :: "int \<Rightarrow> js" where
  "int_json i = JNum (of_int i)"

definition strings_json :: "string list \<Rightarrow> js" where
  "strings_json xs = JArr (map JStr xs)"

definition clause_json :: "clause \<Rightarrow> js" where
  "clause_json c = JObj (opt_member ''contextKind'' JStr (cl_contextKind c) @
     opt_member ''attribute'' JStr (cl_attribute c) @
     [(''op'', JStr (cl_op c)), (''values'', JArr (cl_values c))] @
     opt_member ''negate'' JBool (cl_negate c))"

definition weighted_json :: "weighted_variation \<Rightarrow> js" where
  "weighted_json wv = JObj [(''variation'', int_json (wv_variation wv)), (''weight'', int_json (wv_weight wv))]"

definition rollout_json :: "rollout \<Rightarrow> js" where
  "rollout_json r = JObj ([(''variations'', JArr (map weighted_json (ro_variations r)))] @
     opt_member ''bucketBy'' JStr (ro_bucketBy r) @ opt_member ''contextKind'' JStr (ro_contextKind r) @
     opt_member ''seed'' int_json (ro_seed r))"

definition instruction_json :: "flag_instruction \<Rightarrow> js" where
  "instruction_json ins = JObj ([(''kind'', JStr (fi_kind ins))] @
     opt_member ''variation'' int_json (fi_variation ins) @
     opt_member ''contextKind'' JStr (fi_contextKind ins) @
     opt_member ''values'' strings_json (fi_values ins) @
     opt_member ''clauses'' (\<lambda>cs. JArr (map clause_json cs)) (fi_clauses ins) @
     opt_member ''rollout'' rollout_json (fi_rollout ins) @
     opt_member ''ruleId'' JStr (fi_ruleId ins) @
     opt_member ''ruleIds'' strings_json (fi_ruleIds ins))"

definition instructions_json :: "flag_instruction list \<Rightarrow> js" where
  "instructions_json instructions = JArr (map instruction_json instructions)"

section \<open>Typed views of objects\<close>

definition members :: "js \<Rightarrow> (string \<times> js) list option" where
  "members v = (case v of JObj kvs \<Rightarrow> Some kvs | _ \<Rightarrow> None)"

definition str_of :: "js \<Rightarrow> string option" where
  "str_of v = (case v of JStr s \<Rightarrow> Some s | _ \<Rightarrow> None)"

definition bool_of :: "js \<Rightarrow> bool option" where
  "bool_of v = (case v of JBool b \<Rightarrow> Some b | _ \<Rightarrow> None)"

definition int_of_js :: "js \<Rightarrow> int option" where
  "int_of_js v = (case v of JNum n \<Rightarrow> if of_int \<lfloor>n\<rfloor> = n then Some \<lfloor>n\<rfloor> else None | _ \<Rightarrow> None)"

definition list_of :: "(js \<Rightarrow> 'a option) \<Rightarrow> js \<Rightarrow> 'a list option" where
  "list_of f v = (case v of JArr vs \<Rightarrow> those (map f vs) | _ \<Rightarrow> None)"

definition required :: "(js \<Rightarrow> 'a option) \<Rightarrow> (string \<times> js) list \<Rightarrow> string \<Rightarrow> 'a option" where
  "required f kvs k = (case map_of kvs k of None \<Rightarrow> None | Some v \<Rightarrow> f v)"

definition optional :: "(js \<Rightarrow> 'a option) \<Rightarrow> (string \<times> js) list \<Rightarrow> string \<Rightarrow> 'a option option" where
  "optional f kvs k = (case map_of kvs k of None \<Rightarrow> Some None | Some v \<Rightarrow> map_option Some (f v))"

definition clause_of :: "js \<Rightarrow> clause option" where
  "clause_of v = Option.bind (members v) (\<lambda>o1.
     Option.bind (optional str_of o1 ''contextKind'') (\<lambda>ck.
     Option.bind (optional str_of o1 ''attribute'') (\<lambda>a.
     Option.bind (required str_of o1 ''op'') (\<lambda>op1.
     Option.bind (required (list_of Some) o1 ''values'') (\<lambda>vs.
     Option.bind (optional bool_of o1 ''negate'') (\<lambda>ng.
       Some \<lparr>cl_contextKind = ck, cl_attribute = a, cl_op = op1, cl_values = vs, cl_negate = ng\<rparr>))))))"

definition weighted_of :: "js \<Rightarrow> weighted_variation option" where
  "weighted_of v = Option.bind (members v) (\<lambda>o1.
     Option.bind (required int_of_js o1 ''variation'') (\<lambda>i.
     Option.bind (required int_of_js o1 ''weight'') (\<lambda>w. Some \<lparr>wv_variation = i, wv_weight = w\<rparr>)))"

definition rollout_of :: "js \<Rightarrow> rollout option" where
  "rollout_of v = Option.bind (members v) (\<lambda>o1.
     Option.bind (required (list_of weighted_of) o1 ''variations'') (\<lambda>vs.
     Option.bind (optional str_of o1 ''bucketBy'') (\<lambda>b.
     Option.bind (optional str_of o1 ''contextKind'') (\<lambda>ck.
     Option.bind (optional int_of_js o1 ''seed'') (\<lambda>s.
       Some \<lparr>ro_variations = vs, ro_bucketBy = b, ro_contextKind = ck, ro_seed = s\<rparr>)))))"

definition instruction_of :: "js \<Rightarrow> flag_instruction option" where
  "instruction_of v = Option.bind (members v) (\<lambda>o1.
     Option.bind (required str_of o1 ''kind'') (\<lambda>k.
     Option.bind (optional int_of_js o1 ''variation'') (\<lambda>var.
     Option.bind (optional str_of o1 ''contextKind'') (\<lambda>ck.
     Option.bind (optional (list_of str_of) o1 ''values'') (\<lambda>vs.
     Option.bind (optional (list_of clause_of) o1 ''clauses'') (\<lambda>cs.
     Option.bind (optional rollout_of o1 ''rollout'') (\<lambda>ro.
     Option.bind (optional str_of o1 ''ruleId'') (\<lambda>ri.
     Option.bind (optional (list_of str_of) o1 ''ruleIds'') (\<lambda>rs.
       Some \<lparr>fi_kind = k, fi_variation = var, fi_contextKind = ck, fi_values = vs, fi_clauses = cs,
             fi_rollout = ro, fi_ruleId = ri, fi_ruleIds = rs\<rparr>)))))))))"

definition patch_body_of :: "js \<Rightarrow> flag_instruction list option" where
  "patch_body_of v = Option.bind (members v) (\<lambda>o1. required (list_of instruction_of) o1 ''instructions'')"

section \<open>Round trips\<close>

text \<open>Reading a member that may be absent, from an object built member by member.\<close>

lemma map_of_miss:
  "k \<noteq> k' \<Longrightarrow> map_of (opt_member k' f x @ rest) k = map_of rest k"
  "k \<noteq> k' \<Longrightarrow> map_of (opt_member k' f x) k = None"
  by (auto simp: opt_member_def split: option.splits)

lemma optional_hit:
  "(\<And>v. dec (enc v) = Some v) \<Longrightarrow> map_of rest k = None \<Longrightarrow> optional dec (opt_member k enc x @ rest) k = Some x"
  "(\<And>v. dec (enc v) = Some v) \<Longrightarrow> optional dec (opt_member k enc x) k = Some x"
  by (auto simp: optional_def opt_member_def split: option.splits)

lemma field_miss:
  "k \<noteq> k' \<Longrightarrow> optional dec (opt_member k' f x @ rest) k = optional dec rest k"
  "k \<noteq> k' \<Longrightarrow> optional dec (opt_member k' f x) k = Some None"
  "k \<noteq> k' \<Longrightarrow> required dec (opt_member k' f x @ rest) k = required dec rest k"
  "optional dec ((k', v) # rest) k = (if k = k' then map_option Some (dec v) else optional dec rest k)"
  "required dec ((k', v) # rest) k = (if k = k' then dec v else required dec rest k)"
  by (simp_all add: optional_def required_def map_of_miss del: map_of_append)

lemma those_map: "(\<And>x. x \<in> set xs \<Longrightarrow> f x = Some (g x)) \<Longrightarrow> those (map f xs) = Some (map g xs)"
  by (induction xs) auto

lemma those_inverse: "(\<And>x. x \<in> set xs \<Longrightarrow> dec (enc x) = Some x) \<Longrightarrow> list_of dec (JArr (map enc xs)) = Some xs"
proof -
  assume "\<And>x. x \<in> set xs \<Longrightarrow> dec (enc x) = Some x"
  then have "those (map (\<lambda>x. dec (enc x)) xs) = Some (map (\<lambda>x. x) xs)" by (rule those_map)
  then show ?thesis by (simp add: list_of_def comp_def)
qed

lemma list_of_Some: "list_of Some (JArr vs) = Some vs"
  using those_map [of vs Some "\<lambda>x. x"] by (simp add: list_of_def)

lemma basic_inverse [simp]:
  "str_of (JStr s) = Some s" "bool_of (JBool b) = Some b" "int_of_js (int_json i) = Some i"
  "list_of str_of (strings_json xs) = Some xs" "members (JObj kvs) = Some kvs"
  using those_inverse [of xs str_of JStr]
  by (simp_all add: str_of_def bool_of_def int_of_js_def int_json_def strings_json_def members_def)

lemmas field_rules = field_miss optional_hit map_of_miss list_of_Some

lemma clause_inverse: "clause_of (clause_json c) = Some c"
  by (simp add: clause_of_def clause_json_def field_rules del: map_of_append)

lemma weighted_inverse: "weighted_of (weighted_json w) = Some w"
  by (simp add: weighted_of_def weighted_json_def field_rules)

lemma list_inverses:
  "list_of weighted_of (JArr (map weighted_json ws)) = Some ws"
  "list_of clause_of (JArr (map clause_json cs)) = Some cs"
  by (simp_all add: those_inverse weighted_inverse clause_inverse)

lemma rollout_inverse: "rollout_of (rollout_json r) = Some r"
  by (simp add: rollout_of_def rollout_json_def field_rules list_inverses del: map_of_append)

lemma instruction_inverse: "instruction_of (instruction_json ins) = Some ins"
  by (simp add: instruction_of_def instruction_json_def field_rules list_inverses rollout_inverse
      del: map_of_append)

lemma patch_body_inverse: "patch_body_of (JObj [(''instructions'', instructions_json xs)]) = Some xs"
  by (simp add: patch_body_of_def required_def instructions_json_def those_inverse instruction_inverse)

section \<open>Instructions are plain JSON\<close>

definition plain_instruction :: "flag_instruction \<Rightarrow> bool" where
  "plain_instruction ins \<longleftrightarrow> (case fi_clauses ins of None \<Rightarrow> True
     | Some cs \<Rightarrow> list_all (\<lambda>c. list_all plain (cl_values c)) cs)"

lemma plain_object:
  "plain (JObj [])"
  "map_of r k = None \<Longrightarrow> plain v \<Longrightarrow> plain (JObj r) \<Longrightarrow> plain (JObj ((k, v) # r))"
  "map_of r k = None \<Longrightarrow> (\<And>v. x = Some v \<Longrightarrow> plain (f v)) \<Longrightarrow> plain (JObj r) \<Longrightarrow> plain (JObj (opt_member k f x @ r))"
  "(\<And>v. x = Some v \<Longrightarrow> plain (f v)) \<Longrightarrow> plain (JObj (opt_member k f x))"
  by (auto simp: opt_member_def map_of_eq_None_iff split: option.splits)

lemma plain_leaves [simp]: "plain (int_json i)" "plain (strings_json xs)"
  by (simp_all add: int_json_def strings_json_def list_all_iff)

lemmas plain_rules = plain_object map_of_miss

lemma plain_clause: "list_all plain (cl_values c) \<Longrightarrow> plain (clause_json c)"
  unfolding clause_json_def append_Cons append_Nil
  by (intro plain_object) (simp_all add: map_of_miss del: map_of_append)

lemma plain_weighted: "plain (weighted_json w)"
  by (simp add: weighted_json_def)

lemma plain_rollout: "plain (rollout_json r)"
  unfolding rollout_json_def append_Cons append_Nil
  by (intro plain_object) (simp_all add: map_of_miss list_all_iff plain_weighted del: map_of_append)

lemma plain_instruction: "plain_instruction ins \<Longrightarrow> plain (instruction_json ins)"
  unfolding instruction_json_def append_Cons append_Nil
  by (intro plain_object)
    (simp_all add: map_of_miss list_all_iff plain_clause plain_rollout plain_instruction_def del: map_of_append)

lemma plain_instructions:
  "list_all plain_instruction xs \<Longrightarrow> plain (JObj [(''instructions'', instructions_json xs)])"
  by (auto simp: instructions_json_def list_all_iff plain_instruction)

end
