(* ===== verification/Freshness.thy ===== *)
theory Freshness
  imports Wire MockStore_Props
begin

text \<open>
  The cached views of a project's flags against the fixture backend: which answers a mutation
  changes, and whether the hooks refresh the views of them. Queries and mutations are those of the
  flag and approval features for one organization and project.
\<close>

section \<open>Views and mutations\<close>

datatype flag_query =
    QFlags
  | QLifecycle
  | QEnvFlags string string
  | QFlag string
  | QFlagConfig string string
  | QChanges "string option"

fun hook_of :: "string \<Rightarrow> string \<Rightarrow> flag_query \<Rightarrow> query_opts" where
  "hook_of org proj QFlags = useFlags org proj"
| "hook_of org proj QLifecycle = useFlagLifecycle org proj"
| "hook_of org proj (QEnvFlags envKey search) = useEnvFlags org proj envKey search"
| "hook_of org proj (QFlag flagKey) = useFlag org proj flagKey"
| "hook_of org proj (QFlagConfig flagKey envKey) = useFlagConfig org proj flagKey envKey"
| "hook_of org proj (QChanges status) = useChanges org proj status"

text \<open>Whether the backend answers a query alike in two states.\<close>

fun same_answer :: "backend \<Rightarrow> backend \<Rightarrow> flag_query \<Rightarrow> bool" where
  "same_answer st st' QFlags \<longleftrightarrow> get_flags st = get_flags st'"
| "same_answer st st' QLifecycle \<longleftrightarrow> get_flag_lifecycle st = get_flag_lifecycle st'"
| "same_answer st st' (QEnvFlags e s) \<longleftrightarrow> get_env_flags e (Some s) st = get_env_flags e (Some s) st'"
| "same_answer st st' (QFlag f) \<longleftrightarrow> get_flag f st = get_flag f st'"
| "same_answer st st' (QFlagConfig f e) \<longleftrightarrow> fst (get_flag_config f e st) = fst (get_flag_config f e st')"
| "same_answer st st' (QChanges s) \<longleftrightarrow> get_changes s st = get_changes s st'"

datatype flag_mutation =
    MCreateFlag create_flag_input
  | MDeleteFlag string
  | MPatch string string "flag_instruction list"
  | MPropose int string string string "flag_instruction list"
  | MReview int bool string "string option"
  | MToggleEnv string string bool
  | MToggle string string bool

definition toggle_instruction :: "bool \<Rightarrow> flag_instruction" where
  "toggle_instruction on = instruction (if on then ''turnFlagOn'' else ''turnFlagOff'')"

fun mutation_hook :: "string \<Rightarrow> string \<Rightarrow> flag_mutation \<Rightarrow> mutation" where
  "mutation_hook org proj (MCreateFlag input) = useCreateFlag org proj input"
| "mutation_hook org proj (MDeleteFlag f) = useDeleteFlag org proj f"
| "mutation_hook org proj (MPatch f e xs) = usePatchFlagConfig org proj f e (instructions_json xs)"
| "mutation_hook org proj (MPropose now f e c xs) = useCreateChange org proj f e
     (JObj [(''instructions'', instructions_json xs), (''comment'', JStr c)])"
| "mutation_hook org proj (MReview now approve i c) = useReviewChange org proj i approve c"
| "mutation_hook org proj (MToggleEnv f e on) = useToggleEnvFlag org proj e f on"
| "mutation_hook org proj (MToggle f e on) = useToggleFlag org proj f e on"

text \<open>What the backend does with the mutation's request.\<close>

fun carried_out :: "host \<Rightarrow> string \<Rightarrow> flag_mutation \<Rightarrow> backend \<Rightarrow> backend" where
  "carried_out h proj (MCreateFlag input) st = snd (put_flag h (cf_key input)
     \<lparr>fb_name = cf_name input, fb_description = Some (the_default [] (cf_description input)),
      fb_client_side_available = Some (the_default False (cf_client_side_available input)),
      fb_temporary = Some (the_default False (cf_temporary input)), fb_variations = cf_variations input\<rparr> st)"
| "carried_out h proj (MDeleteFlag f) st = snd (delete_flag f st)"
| "carried_out h proj (MPatch f e xs) st = snd (patch_flag_config h f e xs st)"
| "carried_out h proj (MPropose now f e c xs) st = snd (post_change h now proj f e (Some c) (Some xs) st)"
| "carried_out h proj (MReview now approve i c) st =
     snd (if approve then approve_change h now i (Some (the_default [] c)) st
          else reject_change h now i (Some (the_default [] c)) st)"
| "carried_out h proj (MToggleEnv f e on) st = snd (patch_flag_config h f e [toggle_instruction on] st)"
| "carried_out h proj (MToggle f e on) st = snd (patch_flag_config h f e [toggle_instruction on] st)"

section \<open>What a patch changes\<close>

lemma env_flag_on:
  "(case map_of (bk_configs st) k of Some c \<Rightarrow> fc_on c | None \<Rightarrow> False) = fc_on (config_of st k)"
  by (simp add: config_of_def the_default_def newConfig_def split: option.splits)

lemma get_env_flags_eq:
  "get_env_flags e s st = Json 200 (map (\<lambda>f. \<lparr>fs_flag = f, fs_on = fc_on (config_of st (configKey (fl_key f) e))\<rparr>)
     (filter (\<lambda>f. includesAny (searchParam s) [fl_key f, fl_name f, fl_description f]) (bk_flags st)))"
  by (simp add: get_env_flags_def Let_def env_flag_on)

lemma get_flag_config_eq: "fst (get_flag_config f e st) = Json 200 (config_of st (configKey f e))"
  by (simp add: get_flag_config_def case_prod_beta Let_def ensure_config_eq)

lemma patch_state: "snd (patch_flag_config h f e xs st) = snd (change_config h (configKey f e) xs st)"
  by (simp add: patch_flag_config_def case_prod_beta Let_def)

text \<open>Flag keys have no colon (the key fields of the dashboard only admit slugs).\<close>

definition plain_keys :: "backend \<Rightarrow> bool" where
  "plain_keys st \<longleftrightarrow> (\<forall>f\<in>set (bk_flags st). CHR '':'' \<notin> set (fl_key f))"

lemma patch_same:
  assumes "CHR '':'' \<notin> set f" "plain_keys st"
    and q: "case q of QFlagConfig f' e' \<Rightarrow> CHR '':'' \<notin> set f' \<and> (f', e') \<noteq> (f, e) | QEnvFlags e' s \<Rightarrow> e' \<noteq> e | _ \<Rightarrow> True"
  shows "same_answer st (snd (patch_flag_config h f e xs st)) q"
proof -
  have cfg: "config_of (snd (change_config h (configKey f e) xs st)) (configKey f' e') = config_of st (configKey f' e')"
    if "CHR '':'' \<notin> set f'" "(f', e') \<noteq> (f, e)" for f' e'
    using configKey_inj [OF that(1) assms(1)] that(2) by (auto simp: config_of_change)
  show ?thesis using q
  proof (cases q)
    case (QEnvFlags e' s)
    then have "e' \<noteq> e" using q by simp
    then show ?thesis using assms(2)
      by (auto simp: QEnvFlags get_env_flags_eq patch_state plain_keys_def intro!: cfg [symmetric] arg_cong [of _ _ fc_on])
  next
    case (QFlagConfig f' e')
    then show ?thesis using q cfg by (simp add: get_flag_config_eq patch_state)
  qed (simp_all add: patch_state get_flags_def get_flag_lifecycle_def get_flag_def get_changes_def)
qed

section \<open>The hooks refresh what changes\<close>

fun query_plain :: "flag_query \<Rightarrow> bool" where
  "query_plain (QFlagConfig f e) \<longleftrightarrow> CHR '':'' \<notin> set f"
| "query_plain _ \<longleftrightarrow> True"

fun patches_config :: "flag_mutation \<Rightarrow> (string \<times> string) option" where
  "patches_config (MPatch f e xs) = Some (f, e)"
| "patches_config (MToggleEnv f e on) = Some (f, e)"
| "patches_config (MToggle f e on) = Some (f, e)"
| "patches_config _ = None"

lemmas hook_defs = useFlags_def useFlagLifecycle_def useEnvFlags_def useFlag_def useFlagConfig_def useChanges_def
  query_def useCreateFlag_def useDeleteFlag_def usePatchFlagConfig_def useCreateChange_def useReviewChange_def
  useToggleEnvFlag_def useToggleFlag_def mutation_of_def key_defs

lemma changes_frame_flags:
  "bk_changes (snd (put_flag h k b st)) = bk_changes st" "bk_changes (snd (delete_flag k st)) = bk_changes st"
  by (simp_all add: put_flag_def delete_flag_def randomUUID_def Let_def)

lemma propose_same:
  "(\<forall>s. q \<noteq> QChanges s) \<Longrightarrow> same_answer st (snd (post_change h now p f e c is st)) q"
  by (cases q) (simp_all add: post_change_def randomUUID_def Let_def get_flags_def get_flag_lifecycle_def
      get_flag_def get_env_flags_eq get_flag_config_eq config_of_def)

lemma mutation_fresh:
  assumes "plain_keys st" "query_plain q" "case m of MPatch f e xs \<Rightarrow> CHR '':'' \<notin> set f | MToggleEnv _ _ _ \<Rightarrow> False
      | MToggle _ _ _ \<Rightarrow> False | _ \<Rightarrow> True"
    and "\<not> same_answer st (carried_out h proj m st) q"
  shows "covered (qo_key (hook_of org proj q)) (mu_success (mutation_hook org proj m) v)"
proof (cases m)
  case (MPatch f e xs)
  have "\<not> (case q of QFlagConfig f' e' \<Rightarrow> CHR '':'' \<notin> set f' \<and> (f', e') \<noteq> (f, e) | QEnvFlags e' s \<Rightarrow> e' \<noteq> e | _ \<Rightarrow> True)"
    using assms patch_same [where f = f and st = st and q = q and e = e and h = h and xs = xs] by (auto simp: MPatch)
  then show ?thesis using assms(2) by (cases q) (auto simp: MPatch hook_defs)
next
  case (MPropose now f e c xs)
  then have "\<exists>s. q = QChanges s" using assms(4) propose_same [of q st h now proj f e "Some c" "Some xs"] by auto
  then show ?thesis by (auto simp: MPropose hook_defs)
next
  case (MReview now a i c)
  then show ?thesis by (cases q) (simp_all add: hook_defs)
next
  case (MCreateFlag inp)
  then show ?thesis using assms(4) by (cases q) (simp_all add: hook_defs get_changes_def changes_frame_flags)
next
  case (MDeleteFlag f)
  then show ?thesis using assms(4) by (cases q) (simp_all add: hook_defs get_changes_def changes_frame_flags)
qed (use assms(3) in simp_all)

text \<open>A toggle from the list does not refresh the flag's own configuration, and a toggle from the
  flag's page does not refresh the list.\<close>

lemma toggle_env_stale:
  "f \<noteq> ''env'' \<Longrightarrow>
   \<not> covered (qo_key (hook_of org proj (QFlagConfig f e))) (mu_success (mutation_hook org proj (MToggleEnv f e on)) v)"
  by (auto simp: hook_defs)

lemma toggle_stale:
  "f \<noteq> ''env'' \<Longrightarrow>
   \<not> covered (qo_key (hook_of org proj (QEnvFlags e s))) (mu_success (mutation_hook org proj (MToggle f e on)) v)"
  by (auto simp: hook_defs)

text \<open>When two views share a cache entry.\<close>

definition collide :: "flag_query \<Rightarrow> flag_query \<Rightarrow> bool" where
  "collide q q' \<longleftrightarrow>
     (case (q, q') of
        (QLifecycle, QFlag f) \<Rightarrow> f = ''lifecycle''
      | (QEnvFlags e s, QFlagConfig f e') \<Rightarrow> f = ''env'' \<and> e = ''config'' \<and> s = e'
      | (QChanges s, QChanges s') \<Rightarrow> the_default ''all'' s = the_default ''all'' s'
      | _ \<Rightarrow> False)"

lemma query_keys_unique:
  "qo_key (hook_of org proj q) = qo_key (hook_of org proj q') \<longleftrightarrow> q = q' \<or> collide q q' \<or> collide q' q"
  by (cases q; cases q') (auto simp: hook_defs collide_def)

lemma toggle_on: "fc_on (config_of (carried_out h proj (MToggle f e on) st) (configKey f e)) = on"
  "carried_out h proj (MToggleEnv f e on) st = carried_out h proj (MToggle f e on) st"
  by (simp_all add: patch_state config_of_change applied_def applyInstructions_def Let_def apply_instruction_def
      toggle_instruction_def instruction_def)

end
