(* ===== verification/Dashboard_Props.thy ===== *)
theory Dashboard_Props
  imports Freshness
begin

text \<open>
  Properties of the dashboard below its screens: session and boot, the transport against the fixture
  backend and the freshness of the cached views.
\<close>

section \<open>Session and boot\<close>

text \<open>The token a history of the session leaves; with storage unavailable a page load forgets it.\<close>

fun session_token :: "bool \<Rightarrow> string option \<Rightarrow> auth_event \<Rightarrow> string option" where
  "session_token broken t (SignIn t') = Some t'"
| "session_token broken t SignOut = None"
| "session_token broken t ReadToken = t"
| "session_token broken t Reload = (if broken then None else t)"

lemma auth_step_token:
  "auth_inv w \<Longrightarrow> as_token (fst (auth_step w e)) = session_token (tk_broken (snd w)) (as_token (fst w)) e \<and>
     tk_broken (snd (auth_step w e)) = tk_broken (snd w)"
  by (cases e) (auto simp: auth_inv_def signIn_def signOut_def setToken_def clearToken_def getToken_def reload_def
      createAuthStore_def Let_def)

lemma auth_run_token:
  assumes "auth_inv w"
  shows "as_token (fst (fold (\<lambda>e s. auth_step s e) es w)) =
     fold (\<lambda>e t. session_token (tk_broken (snd w)) t e) es (as_token (fst w))"
  using assms by (induction es arbitrary: w) (simp_all add: auth_step_inv auth_step_token)

text \<open>
  C23: through any history of sign-ins, sign-outs, token reads and page loads, the auth store holds
  exactly the token that history leaves, it says it is authenticated exactly when there is one, and
  the transport reads the same token from the holder; with storage available another page load changes
  nothing.
\<close>

theorem auth_session:
  assumes "tk_cached h = None"
  shows "let w = fold (\<lambda>e s. auth_step s e) es (createAuthStore h);
             t = fold (\<lambda>e t. session_token (tk_broken h) t e) es (if tk_broken h then None else tk_storage h)
     in as_token (fst w) = t \<and> as_isAuthenticated (fst w) = (t \<noteq> None) \<and> fst (getToken (snd w)) = t \<and>
        (tk_broken (snd w) \<or> reload w = w)"
proof -
  let ?w0 = "createAuthStore h"
  have w0: "auth_inv ?w0" by (rule createAuthStore_inv [OF assms])
  have start: "as_token (fst ?w0) = (if tk_broken h then None else tk_storage h)" "tk_broken (snd ?w0) = tk_broken h"
    using assms by (simp_all add: createAuthStore_def getToken_def Let_def)
  let ?w = "fold (\<lambda>e s. auth_step s e) es ?w0"
  have "auth_inv ?w" by (rule auth.run_inv [OF w0])
  then show ?thesis using auth_run_token [OF w0, of es] reload_keeps [of ?w]
    unfolding start by (auto simp: Let_def auth_inv_def getToken_def)
qed

lemma auth_session_witness:
  "as_token (fst (fold (\<lambda>e s. auth_step s e) [SignIn ''t1'', Reload]
     (createAuthStore \<lparr>tk_cached = None, tk_storage = None, tk_broken = False\<rparr>))) = Some ''t1''"
  using auth_session [of "\<lparr>tk_cached = None, tk_storage = None, tk_broken = False\<rparr>" "[SignIn ''t1'', Reload]"]
  by (simp add: Let_def)

lemma follow_more: "follow (Suc (Suc n)) path status auth = follow 2 path status auth"
  by (cases n; cases status)
    (auto simp: numeral_2_eq_2 route_def SetupRoute_def LoginRoute_def ProtectedLayout_def needs_setup_def
      split: guard_view.splits bool.splits if_splits)


text \<open>What the schema accepts, computed.\<close>

definition parse_config :: "js \<Rightarrow> app_config option" where
  "parse_config v =
     (case (js_get v ''apiUrl'', js_get v ''environment'', js_get v ''enableMocking'') of
        (Some (JStr url), Some (JStr s), m) \<Rightarrow>
          (case (deployment_of s, m) of
             (Some d, Some (JBool b)) \<Rightarrow> if url = [] then None else Some \<lparr>cg_apiUrl = url, cg_environment = d, cg_enableMocking = b\<rparr>
           | (Some d, Some JUndef) \<Rightarrow> if url = [] then None else Some \<lparr>cg_apiUrl = url, cg_environment = d, cg_enableMocking = False\<rparr>
           | _ \<Rightarrow> None)
      | _ \<Rightarrow> None)"

lemma parse_config_schema: "parse_config v = Some c \<longleftrightarrow> config_schema v c"
proof (cases "(js_get v ''apiUrl'', js_get v ''environment'')")
  case (Pair a b)
  then show ?thesis
    by (cases c; cases "js_get v ''enableMocking''")
      (auto simp: parse_config_def config_schema_def split: option.splits js.split if_splits)
qed

text \<open>
  C25: the configuration file the build writes is the one the dashboard boots with. When the schema
  library accepts exactly what the schema says, the app starts iff \<open>APP_API_URL\<close> is not empty and
  \<open>APP_ENVIRONMENT\<close> is one of the three deployments; the mock worker starts, before the first render,
  only in a development bundle of the dev server that has not switched mocking off; anything else shows
  the failure instead of rendering.
\<close>

theorem boot_follows_environment:
  assumes "\<forall>v c. safeParse v = Some c \<longleftrightarrow> config_schema v c"
    and "json_parse body = Some (runtimeConfig env command)"
  shows "bootstrap safeParse dev 200 body =
     (if the_default ''/api'' (env ''APP_API_URL'') \<noteq> [] \<and>
         deployment_of (the_default ''development'' (env ''APP_ENVIRONMENT'')) \<noteq> None
      then (if dev \<and> command = ''serve'' \<and> the_default ''true'' (env ''APP_ENABLE_MOCKING'') = ''true''
            then [StartWorker, Render] else [Render])
      else [ShowFailure InvalidConfig])"
proof -
  let ?v = "runtimeConfig env command" and ?d = "deployment_of (the_default ''development'' (env ''APP_ENVIRONMENT''))"
  let ?c = "\<lparr>cg_apiUrl = the_default ''/api'' (env ''APP_API_URL''), cg_environment = the ?d,
     cg_enableMocking = (command = ''serve'' \<and> the_default ''true'' (env ''APP_ENABLE_MOCKING'') = ''true'')\<rparr>"
  show ?thesis
  proof (cases "the_default ''/api'' (env ''APP_API_URL'') \<noteq> [] \<and> ?d \<noteq> None")
    case True
    then have "safeParse ?v = Some ?c" using assms(1) runtimeConfig_schema by auto
    then show ?thesis using True assms(2) by (simp add: bootstrap_def loadConfig_def)
  next
    case False
    then have "safeParse ?v \<noteq> Some c" for c using assms(1) runtimeConfig_schema by auto
    then have "safeParse ?v = None" by (cases "safeParse ?v") auto
    then show ?thesis using False assms(2) by (auto simp: bootstrap_def loadConfig_def)
  qed
qed

definition config_text :: string where
  "config_text = the (stringify (runtimeConfig (\<lambda>_. None) ''serve''))"

lemma plain_runtimeConfig: "plain (runtimeConfig env command)"
  by (simp add: runtimeConfig_def Let_def)

lemma config_text_parses: "json_parse config_text = Some (runtimeConfig (\<lambda>_. None) ''serve'')"
  using plain_stringify [OF plain_runtimeConfig [of "\<lambda>_. None" "''serve''"]]
    json_roundtrip [OF plain_runtimeConfig [of "\<lambda>_. None" "''serve''"]]
  by (auto simp: config_text_def)

lemma boot_follows_environment_witness: "bootstrap parse_config True 200 config_text = [StartWorker, Render]"
  using boot_follows_environment [of parse_config config_text "\<lambda>_. None" "''serve''" True]
  by (simp add: parse_config_schema config_text_parses the_default_def deployment_of_def)

section \<open>The transport\<close>

text \<open>The fixture backend behind the flag-configuration URL; \<open>render\<close> is how its answer is written.\<close>

definition patch_server ::
  "host \<Rightarrow> string \<Rightarrow> string \<Rightarrow> string \<Rightarrow> (flag_config response \<Rightarrow> string) \<Rightarrow> backend fetch" where
  "patch_server h url f e render rq st =
     (if rq_method rq = ''PATCH'' \<and> rq_url rq = url
      then (case Option.bind (Option.bind (rq_body rq) json_parse) patch_body_of of
          Some xs \<Rightarrow> (let (r, st') = patch_flag_config h f e xs st
            in (Inr \<lparr>rs_status = 200, rs_body = Some (render r)\<rparr>, st'))
        | None \<Rightarrow> (Inr \<lparr>rs_status = 400, rs_body = None\<rparr>, st))
      else (Inr \<lparr>rs_status = 404, rs_body = None\<rparr>, st))"

lemma encoded_body:
  assumes "list_all plain_instruction xs"
  shows "Option.bind (Option.bind (stringify (JObj [(''instructions'', instructions_json xs)])) json_parse) patch_body_of = Some xs"
  using plain_stringify [OF plain_instructions [OF assms]] json_roundtrip [OF plain_instructions [OF assms]] patch_body_inverse
  by auto

text \<open>
  A batch of instructions survives the wire whatever backend it meets: patching a flag's configuration from the dashboard
  sends one PATCH to the flag's environment URL, the backend decodes from its body exactly the
  instructions that were handed to the hook, its configurations change as those instructions say, and
  the answer becomes the cached configuration while the environment's flag list is invalidated.
\<close>

theorem patch_survives_the_wire:
  assumes "list_all plain_instruction xs"
    and "json_parse (render (fst (patch_flag_config h f e xs st))) = Some v"
  shows "mutate (Some c) token
       (patch_server h (cg_apiUrl c @ ''/organizations/'' @ org @ ''/projects/'' @ proj @ ''/flags/'' @ f @ ''/environments/'' @ e) f e render)
       (usePatchFlagConfig org proj f e (instructions_json xs)) st =
     (Inr [SetData (key_flagConfig org proj f e) v, Invalidate (key_envFlags org proj e)],
      snd (patch_flag_config h f e xs st))"
  using encoded_body [OF assms(1)] assms(2)
  by (simp add: mutate_def usePatchFlagConfig_def mutation_of_def flags_patchConfig_def call_patch_def send_def
      api_request_def getConfig_def api_http_def patch_server_def path_of_def config_path_def project_path_def
      unwrap_value_def ok_status_def case_prod_beta Let_def)

text \<open>A host for the witnesses: identifiers in unary, numeric times.\<close>

definition demo_host :: host where
  "demo_host = \<lparr>ho_uuid = (\<lambda>n. replicate n CHR ''x''), ho_iso = (\<lambda>t. show_int t),
     ho_parse = (\<lambda>s. Some (int (length s)))\<rparr>"

lemma patch_survives_the_wire_witness:
  "(case mutate (Some \<lparr>cg_apiUrl = ''/api'', cg_environment = Development, cg_enableMocking = True\<rparr>) None
     (patch_server demo_host ''/api/organizations/acme/projects/web/flags/beta/environments/dev'' ''beta'' ''dev'' (\<lambda>_. ''7''))
     (usePatchFlagConfig ''acme'' ''web'' ''beta'' ''dev'' (instructions_json [instruction ''turnFlagOn''])) initial_backend of
       (Inr es, st) \<Rightarrow> SetData (key_flagConfig ''acme'' ''web'' ''beta'' ''dev'') (JNum 7) \<in> set es \<and>
         fc_on (config_of st (configKey ''beta'' ''dev''))
     | _ \<Rightarrow> False)"
proof -
  have seven: "json_parse ''7'' = Some (JNum 7)"
  proof -
    have "show_nat 7 = ''7''" by code_simp
    then show ?thesis using json_roundtrip [of "JNum 7" "''7''"] by (simp add: show_num_int [of 7, simplified] show_int_def)
  qed
  show ?thesis
    using patch_survives_the_wire [of "[instruction ''turnFlagOn'']" "\<lambda>_. ''7''" demo_host "''beta''" "''dev''" initial_backend
        "JNum 7" "\<lparr>cg_apiUrl = ''/api'', cg_environment = Development, cg_enableMocking = True\<rparr>" None "''acme''" "''web''"] seven
    by (simp add: plain_instruction_def instruction_def patch_state config_of_change applied_def applyInstructions_def
        apply_instruction_def Let_def)
qed

section \<open>Freshness of the cached views\<close>



text \<open>
  C28: the two on/off toggles are the exception: turning a flag over changes the configuration that the
  flag's page shows and the flag list of the environment, but the toggle of the list refreshes only the
  list and the toggle of the page only the configuration, so the other view keeps its old answer.
\<close>

theorem toggles_leave_stale_views:
  assumes "f \<noteq> ''env''" "fc_on (config_of st (configKey f e)) \<noteq> on" "fl \<in> set (bk_flags st)" "fl_key fl = f"
  shows "\<not> same_answer st (carried_out h proj (MToggleEnv f e on) st) (QFlagConfig f e) \<and>
     \<not> covered (qo_key (hook_of org proj (QFlagConfig f e))) (mu_success (mutation_hook org proj (MToggleEnv f e on)) v) \<and>
     \<not> same_answer st (carried_out h proj (MToggle f e on) st) (QEnvFlags e []) \<and>
     \<not> covered (qo_key (hook_of org proj (QEnvFlags e []))) (mu_success (mutation_hook org proj (MToggle f e on)) v)"
proof -
  let ?st = "carried_out h proj (MToggle f e on) st"
  have on: "fc_on (config_of ?st (configKey f e)) = on" by (rule toggle_on)
  have "config_of st (configKey f e) \<noteq> config_of ?st (configKey f e)" using on assms(2) by metis
  moreover have flags: "bk_flags ?st = bk_flags st" by (simp add: patch_state)
  moreover have "\<not> same_answer st ?st (QEnvFlags e [])"
  proof
    assume "same_answer st ?st (QEnvFlags e [])"
    then have "\<forall>g\<in>set (bk_flags st). fc_on (config_of st (configKey (fl_key g) e)) = fc_on (config_of ?st (configKey (fl_key g) e))"
      by (simp add: get_env_flags_eq flags includesAny_def searchParam_def the_default_def to_lower_def del: carried_out.simps)
    then show False using on assms(2-4) by auto
  qed
  ultimately show ?thesis using toggle_env_stale [OF assms(1)] toggle_stale [OF assms(1)]
    by (simp add: get_flag_config_eq toggle_on(2) del: carried_out.simps mutation_hook.simps hook_of.simps)
qed

lemma toggles_leave_stale_views_witness:
  "\<not> same_answer initial_backend (carried_out demo_host ''web'' (MToggleEnv ''new-checkout'' ''dev'' True) initial_backend)
     (QFlagConfig ''new-checkout'' ''dev'')"
  using toggles_leave_stale_views [of "''new-checkout''" initial_backend "''dev''" True "hd seedFlags"]
  by (simp add: initial_backend_def seedFlags_def config_of_def the_default_def newConfig_def)


end
