(* ===== verification/View.thy ===== *)
theory View
  imports Types
begin

text \<open>
  What a component of the dashboard puts on the screen, and what a user can do with it.

  A rendered component is the list of its texts and controls in document order; layout and styling
  are not modelled. A control carries the message of its event handler (a \<open>Choice\<close> is picked by its value, a \<open>Select\<close> by
  the index of its option), and an event reaches a
  component only through a control that is on the screen and enabled. Text is in the code units of
  \<open>Prelude\<close>; the ellipsis, dash and quotation marks of the sources, which lie outside, are
  written in ASCII (\<open>...\<close>, \<open>-\<close>, quotes), as are the multiplication sign, the middle dot and the
  arrows.

  A query result is what the cache library hands to a container: pending, failed or loaded.
\<close>

section \<open>Nodes and events\<close>

datatype 'm node =
    Says string
  | Alert string
  | Badge string string
  | Placeholder
  | Link string string
  | Button string bool 'm
  | Field string string bool "string \<Rightarrow> 'm"
  | Choice string "(string \<times> string) list" string bool "string \<Rightarrow> 'm"
  | Select string "string list" int bool "nat \<Rightarrow> 'm"
  | Check string bool bool "bool \<Rightarrow> 'm"

text \<open>\<open>offers v m\<close>: a user looking at \<open>v\<close> can send \<open>m\<close>.\<close>

inductive offers :: "'m node list \<Rightarrow> 'm \<Rightarrow> bool" for v where
  press: "Button l True m \<in> set v \<Longrightarrow> offers v m"
| type_in: "Field l x True f \<in> set v \<Longrightarrow> offers v (f s)"
| pick: "Choice l options x True f \<in> set v \<Longrightarrow> k \<in> fst ` set options \<Longrightarrow> offers v (f k)"
| select: "Select l labels x True f \<in> set v \<Longrightarrow> i < length labels \<Longrightarrow> offers v (f i)"
| tick: "Check l b True f \<in> set v \<Longrightarrow> offers v (f (\<not> b))"

text \<open>The same, control by control.\<close>

fun node_offers :: "'m node \<Rightarrow> 'm \<Rightarrow> bool" where
  "node_offers (Button l e n) m \<longleftrightarrow> e \<and> m = n"
| "node_offers (Field l x e f) m \<longleftrightarrow> e \<and> (\<exists>s. m = f s)"
| "node_offers (Choice l options x e f) m \<longleftrightarrow> e \<and> (\<exists>k\<in>fst ` set options. m = f k)"
| "node_offers (Select l labels x e f) m \<longleftrightarrow> e \<and> (\<exists>i<length labels. m = f i)"
| "node_offers (Check l b e f) m \<longleftrightarrow> e \<and> m = f (\<not> b)"
| "node_offers _ m \<longleftrightarrow> False"

lemma offers_node: "offers v m \<longleftrightarrow> (\<exists>n\<in>set v. node_offers n m)"
proof
  assume "offers v m"
  then show "\<exists>n\<in>set v. node_offers n m" by (cases rule: offers.cases) force+
next
  assume "\<exists>n\<in>set v. node_offers n m"
  then obtain n where n: "n \<in> set v" "node_offers n m" by blast
  show "offers v m" by (cases n; insert n) (auto simp del: image_iff intro: offers.intros)
qed

lemma offers_simps [simp]:
  "\<not> offers [] m"
  "offers (n # v) m \<longleftrightarrow> node_offers n m \<or> offers v m"
  "offers (v @ w) m \<longleftrightarrow> offers v m \<or> offers w m"
  "offers (concat vs) m \<longleftrightarrow> (\<exists>v\<in>set vs. offers v m)"
  "offers (map f xs) m \<longleftrightarrow> (\<exists>x\<in>set xs. node_offers (f x) m)"
  by (auto simp: offers_node)

lemma node_offers_map: "node_offers (map_node f n) m \<longleftrightarrow> (\<exists>x. node_offers n x \<and> m = f x)"
  by (cases n) auto

lemma offers_map_node [simp]: "offers (map (map_node f) v) m \<longleftrightarrow> (\<exists>x. offers v x \<and> m = f x)"
  by (auto simp: offers_node node_offers_map)

lemma offers_if [simp]: "offers (if b then v else w) m \<longleftrightarrow> (if b then offers v m else offers w m)"
  by simp

section \<open>Shared fragments\<close>

definition alert :: "string option \<Rightarrow> 'm node list" where
  "alert message = (case message of Some m \<Rightarrow> if m = [] then [] else [Alert m] | None \<Rightarrow> [])"

definition says_if :: "bool \<Rightarrow> string \<Rightarrow> 'm node list" where
  "says_if b t = (if b then [Says t] else [])"

text \<open>A dialog that is closed renders nothing; one that is open can be dismissed.\<close>

definition dialog :: "bool \<Rightarrow> 'm \<Rightarrow> 'm node list \<Rightarrow> 'm node list" where
  "dialog shown close content = (if shown then Button ''Close'' True close # content else [])"

lemma offers_fragments [simp]:
  "\<not> offers (alert e) m" "\<not> offers (says_if b t) m"
  "offers (dialog shown close content) m \<longleftrightarrow> shown \<and> (m = close \<or> offers content m)"
  by (auto simp: alert_def says_if_def dialog_def split: option.splits)

text \<open>\<open>components/error-state.tsx\<close>; the containers pass no title and always a retry handler.\<close>

definition ErrorState_view :: "string option \<Rightarrow> string option \<Rightarrow> 'm option \<Rightarrow> 'm node list" where
  "ErrorState_view title message onRetry =
     [Says (case title of Some t \<Rightarrow> t | None \<Rightarrow> ''Something went wrong'')] @
     (case message of Some m \<Rightarrow> says_if (m \<noteq> []) m | None \<Rightarrow> []) @
     (case onRetry of Some retry \<Rightarrow> [Button ''Try again'' True retry] | None \<Rightarrow> [])"

definition ErrorState :: "string \<Rightarrow> 'm \<Rightarrow> 'm node list" where
  "ErrorState message retry = ErrorState_view None (Some message) (Some retry)"

lemma offers_ErrorState [simp]: "offers (ErrorState e r) m \<longleftrightarrow> m = r"
  by (simp add: ErrorState_def ErrorState_view_def)

section \<open>Query results\<close>

datatype 'a loaded = Loading | LoadFailed string | Loaded 'a

definition data_of :: "'a loaded \<Rightarrow> 'a option" where
  "data_of q = (case q of Loaded a \<Rightarrow> Some a | _ \<Rightarrow> None)"

text \<open>\<open>isPending ? <Skeleton/> : isError ? <ErrorState/> : content\<close>\<close>

definition loaded_view :: "'a loaded \<Rightarrow> 'm \<Rightarrow> ('a \<Rightarrow> 'm node list) \<Rightarrow> 'm node list" where
  "loaded_view q retry content = (case q of
     Loading \<Rightarrow> [Placeholder] | LoadFailed e \<Rightarrow> ErrorState e retry | Loaded a \<Rightarrow> content a)"

lemma data_of_simps [simp]: "data_of Loading = None" "data_of (LoadFailed e) = None" "data_of (Loaded a) = Some a"
  by (simp_all add: data_of_def)

lemma loaded_view_simps [simp]:
  "loaded_view Loading r c = [Placeholder]" "loaded_view (LoadFailed e) r c = ErrorState e r"
  "loaded_view (Loaded a) r c = c a"
  by (simp_all add: loaded_view_def)

section \<open>Running a component\<close>

text \<open>A user's session with a component: each event is one that the view offers under the properties its
  parent passes at that moment, which range over \<open>ps\<close>. \<open>out\<close> collects what the handlers emit, each
  with the properties it was emitted under.\<close>

inductive used_to ::
  "'p set \<Rightarrow> ('p \<Rightarrow> 's \<Rightarrow> 'm node list) \<Rightarrow> ('p \<Rightarrow> 's \<Rightarrow> 'm \<Rightarrow> 's \<times> 'e list) \<Rightarrow> 's \<Rightarrow> ('p \<times> 'e) list \<Rightarrow> 's \<Rightarrow> bool"
  for ps view update where
  idle: "used_to ps view update s [] s"
| act: "p \<in> ps \<Longrightarrow> offers (view p s) m \<Longrightarrow> update p s m = (s1, out1) \<Longrightarrow> used_to ps view update s1 out2 s2
    \<Longrightarrow> used_to ps view update s (map (Pair p) out1 @ out2) s2"

text \<open>A component whose handlers keep an invariant and only emit what is \<open>good\<close>.\<close>

locale component =
  fixes ps :: "'p set"
    and view :: "'p \<Rightarrow> 's \<Rightarrow> 'm node list"
    and update :: "'p \<Rightarrow> 's \<Rightarrow> 'm \<Rightarrow> 's \<times> 'e list"
    and inv :: "'s \<Rightarrow> bool"
    and good :: "'p \<Rightarrow> 'e \<Rightarrow> bool"
  assumes update_inv: "p \<in> ps \<Longrightarrow> inv s \<Longrightarrow> offers (view p s) m \<Longrightarrow> inv (fst (update p s m))"
    and update_good: "p \<in> ps \<Longrightarrow> inv s \<Longrightarrow> offers (view p s) m \<Longrightarrow> list_all (good p) (snd (update p s m))"
begin

lemma used: "used_to ps view update s out s' \<Longrightarrow> inv s \<Longrightarrow> inv s' \<and> list_all (\<lambda>(p, e). p \<in> ps \<and> good p e) out"
proof (induction rule: used_to.induct)
  case (act p s m s1 out1 out s2)
  then show ?case using update_inv [of p s m] update_good [of p s m] by (auto simp: list_all_iff)
qed simp

lemma used_good: "used_to ps view update s out s' \<Longrightarrow> inv s \<Longrightarrow> (p, e) \<in> set out \<Longrightarrow> p \<in> ps \<and> good p e"
  using used by (fastforce simp: list_all_iff)

lemma used_inv: "used_to ps view update s out s' \<Longrightarrow> inv s \<Longrightarrow> inv s'"
  using used by blast

end

text \<open>Two steps of a session: an event without output, and one that emits and ends it.\<close>

lemma quiet_step:
  "p \<in> ps \<Longrightarrow> offers (view p s) m \<Longrightarrow> update p s m = (s1, []) \<Longrightarrow> used_to ps view update s1 out t \<Longrightarrow>
   used_to ps view update s out t"
  using used_to.act [of p ps view s m update s1 "[]" out t] by simp

lemma last_step:
  "p \<in> ps \<Longrightarrow> offers (view p s) m \<Longrightarrow> update p s m = (t, [e]) \<Longrightarrow> used_to ps view update s [(p, e)] t"
  using used_to.act [of p ps view s m update t "[e]" "[]" t] used_to.idle [of ps view update t] by simp

end
