(* ===== verification/RuleForms.thy ===== *)
theory RuleForms
  imports Clauses Variations Instructions View
begin

text \<open>
  The targeting editors of a flag: the clause editor
  (\<open>web/src/features/segments/components/ClauseEditor.tsx\<close>), the rule form, the rule list, the
  individual targets, the variation select and the configuration card
  (\<open>web/src/features/flags/components\<close>), and the instructions their container
  \<open>FlagDetailPage.tsx\<close> sends.

  A component is its local state, an update per handler and what the handler emits. A handler whose
  control is disabled or not shown does nothing. The clause editors of a form are keyed by index:
  editor \<open>i\<close> keeps its local text as long as there is a clause \<open>i\<close>, and an editor that is mounted
  starts with the display of its clause.
\<close>

section \<open>ClauseEditor\<close>

definition newClause :: clause where
  "newClause = \<lparr>cl_contextKind = Some ''user'', cl_attribute = Some [], cl_op = ''in'', cl_values = [],
     cl_negate = Some False\<rparr>"

datatype clause_edit =
    EditKind string
  | EditAttribute string
  | EditOp string
  | EditValues string
  | EditNegate bool

text \<open>The clause handed to \<open>onChange\<close>, and the editor's text afterwards.\<close>

fun edit_clause :: "clause_edit \<Rightarrow> clause \<Rightarrow> clause" where
  "edit_clause (EditKind v) c = c\<lparr>cl_contextKind := Some v\<rparr>"
| "edit_clause (EditAttribute v) c = c\<lparr>cl_attribute := Some v\<rparr>"
| "edit_clause (EditOp v) c = c\<lparr>cl_op := v\<rparr>"
| "edit_clause (EditValues v) c = c\<lparr>cl_values := parseValues v\<rparr>"
| "edit_clause (EditNegate v) c = c\<lparr>cl_negate := Some v\<rparr>"

fun edit_text :: "clause_edit \<Rightarrow> string \<Rightarrow> string" where
  "edit_text (EditValues v) text = v"
| "edit_text _ text = text"

text \<open>The editor's controls; \<open>text\<close> is the local text of the values field.\<close>

definition ClauseEditor ::
  "bool \<Rightarrow> clause \<Rightarrow> string \<Rightarrow> (clause_edit \<Rightarrow> 'm) \<Rightarrow> 'm \<Rightarrow> 'm node list" where
  "ClauseEditor disabled c text change remove =
     [Field ''Context kind'' (the_default [] (cl_contextKind c)) (\<not> disabled) (change \<circ> EditKind),
      Field ''Attribute'' (the_default [] (cl_attribute c)) (\<not> disabled) (change \<circ> EditAttribute),
      Choice ''Operator'' CLAUSE_OPERATORS (cl_op c) (\<not> disabled) (change \<circ> EditOp),
      Field ''Values'' text (\<not> disabled) (change \<circ> EditValues),
      Check ''negate'' (the_default False (cl_negate c)) (\<not> disabled) (change \<circ> EditNegate),
      Button ''Remove clause'' (\<not> disabled) remove]"

text \<open>The texts of the editors once the clauses are \<open>cs\<close>.\<close>

definition mounted :: "string list \<Rightarrow> clause list \<Rightarrow> string list" where
  "mounted texts cs = take (length cs) texts @ map (\<lambda>c. displayValues (cl_values c)) (drop (length texts) cs)"

section \<open>VariationSelect\<close>

definition VariationSelect :: "string \<Rightarrow> js list \<Rightarrow> int \<Rightarrow> bool \<Rightarrow> (nat \<Rightarrow> 'm) \<Rightarrow> 'm node list" where
  "VariationSelect label variations v disabled change =
     [Select label (map (\<lambda>i. variationLabel variations (int i)) [0..<length variations]) v (\<not> disabled) change]"

section \<open>RolloutEditor\<close>

definition RolloutEditor :: "js list \<Rightarrow> int list \<Rightarrow> bool \<Rightarrow> (nat \<Rightarrow> string \<Rightarrow> 'm) \<Rightarrow> 'm node list" where
  "RolloutEditor variations percents disabled change =
     concat (map (\<lambda>(i, row). [Field (rr_label row @ '' percentage'') (show_int (rr_value row)) (\<not> disabled) (change i),
         Says ''%'', Says (rr_label row)]) (enumerate 0 (rollout_rows variations percents))) @
     [Says (''Total: '' @ show_int (fst (rollout_total percents)) @ ''%'' @
        (if snd (rollout_total percents) then '' - must be 100%'' else []))]"

section \<open>RuleForm\<close>

datatype serve_mode = ServeVariation | ServeRollout

record rule_form_props =
  rp_variations :: "js list"
  rp_initialClauses :: "clause list option"
  rp_initialServe :: "variation_or_rollout option"
  rp_busy :: bool

record rule_form =
  rf_draft :: "clause list"
  rf_texts :: "string list"
  rf_serve :: serve_mode
  rf_variation :: int
  rf_percents :: "int list"
  rf_bucketBy :: string
  rf_contextKind :: string
  rf_seed :: "int option"

definition initial_rollout :: "rule_form_props \<Rightarrow> rollout option" where
  "initial_rollout p = Option.bind (rp_initialServe p) vr_rollout"

definition initial_clauses :: "rule_form_props \<Rightarrow> clause list" where
  "initial_clauses p = (case rp_initialClauses p of
     Some cs \<Rightarrow> if cs \<noteq> [] then cs else [newClause] | None \<Rightarrow> [newClause])"

definition reset_form :: "rule_form_props \<Rightarrow> string list \<Rightarrow> rule_form" where
  "reset_form p texts =
     \<lparr>rf_draft = initial_clauses p,
      rf_texts = mounted texts (initial_clauses p),
      rf_serve = (if initial_rollout p \<noteq> None then ServeRollout else ServeVariation),
      rf_variation = the_default 0 (Option.bind (rp_initialServe p) vr_variation),
      rf_percents = (if initial_rollout p \<noteq> None
        then percentsFromRollout (initial_rollout p) (int (length (rp_variations p)))
        else evenPercents (int (length (rp_variations p)))),
      rf_bucketBy = the_default [] (Option.bind (initial_rollout p) ro_bucketBy),
      rf_contextKind = the_default [] (Option.bind (initial_rollout p) ro_contextKind),
      rf_seed = Option.bind (initial_rollout p) ro_seed\<rparr>"

definition RuleForm :: "rule_form_props \<Rightarrow> rule_form" where
  "RuleForm p = reset_form p []"

definition rolloutValid :: "rule_form \<Rightarrow> bool" where
  "rolloutValid st \<longleftrightarrow> foldl (+) 0 (rf_percents st) = 100"

definition clausesValid :: "clause list \<Rightarrow> bool" where
  "clausesValid cs \<longleftrightarrow> cs \<noteq> [] \<and> list_all (\<lambda>c. truthy_opt (cl_attribute c) \<and> cl_values c \<noteq> []) cs"

definition canSubmit :: "rule_form \<Rightarrow> bool" where
  "canSubmit st \<longleftrightarrow> clausesValid (rf_draft st) \<and> (rf_serve st = ServeVariation \<or> rolloutValid st)"

text \<open>\<open>text.trim() || undefined\<close>\<close>

definition trimmed_option :: "string \<Rightarrow> string option" where
  "trimmed_option s = (if trim s = [] then None else Some (trim s))"

definition served_of :: "rule_form \<Rightarrow> variation_or_rollout" where
  "served_of st = (if rf_serve st = ServeVariation
     then \<lparr>vr_variation = Some (rf_variation st), vr_rollout = None\<rparr>
     else \<lparr>vr_variation = None, vr_rollout = Some (rolloutFromPercents (rf_percents st)
       \<lparr>op_bucketBy = trimmed_option (rf_bucketBy st), op_contextKind = trimmed_option (rf_contextKind st),
        op_seed = rf_seed st\<rparr>)\<rparr>)"

definition submit :: "rule_form_props \<Rightarrow> rule_form \<Rightarrow> rule_form \<times> (clause list \<times> variation_or_rollout) option" where
  "submit p st = (if \<not> canSubmit st then (st, None)
     else (reset_form p (rf_texts st), Some (rf_draft st, served_of st)))"

datatype form_event =
    EditClause nat clause_edit
  | RemoveClause nat
  | AddClause
  | SetServe serve_mode
  | PickVariation nat
  | EditPercent nat string
  | EditBucketBy string
  | EditContextKind string
  | Reshuffle int
  | ResetSeed
  | Submit

text \<open>Whether the control is on the screen and enabled; the tabs are never disabled.\<close>

definition form_enabled :: "rule_form_props \<Rightarrow> rule_form \<Rightarrow> form_event \<Rightarrow> bool" where
  "form_enabled p st e \<longleftrightarrow>
     (case e of
        SetServe _ \<Rightarrow> True
      | EditClause i _ \<Rightarrow> \<not> rp_busy p \<and> i < length (rf_draft st)
      | RemoveClause i \<Rightarrow> \<not> rp_busy p \<and> i < length (rf_draft st)
      | AddClause \<Rightarrow> \<not> rp_busy p
      | PickVariation i \<Rightarrow> \<not> rp_busy p \<and> rf_serve st = ServeVariation \<and> i < length (rp_variations p)
      | EditPercent i _ \<Rightarrow> \<not> rp_busy p \<and> rf_serve st = ServeRollout \<and> i < length (rp_variations p)
      | EditBucketBy _ \<Rightarrow> \<not> rp_busy p \<and> rf_serve st = ServeRollout
      | EditContextKind _ \<Rightarrow> \<not> rp_busy p \<and> rf_serve st = ServeRollout
      | Reshuffle r \<Rightarrow> \<not> rp_busy p \<and> rf_serve st = ServeRollout \<and> 0 \<le> r \<and> r < 1000000000
      | ResetSeed \<Rightarrow> \<not> rp_busy p \<and> rf_serve st = ServeRollout \<and> rf_seed st \<noteq> None
      | Submit \<Rightarrow> \<not> rp_busy p \<and> canSubmit st)"

text \<open>What the form shows; \<open>r\<close> is the number the next click on Reshuffle draws.\<close>

definition RuleForm_view :: "rule_form_props \<Rightarrow> string \<Rightarrow> int \<Rightarrow> rule_form \<Rightarrow> form_event node list" where
  "RuleForm_view p submitLabel r st =
     concat (map (\<lambda>(i, c). ClauseEditor (rp_busy p) c (rf_texts st ! i) (EditClause i) (RemoveClause i))
       (enumerate 0 (rf_draft st))) @
     [Button ''Add clause'' (\<not> rp_busy p) AddClause, Says ''serve'',
      Choice ''serve'' [(''variation'', ''A variation''), (''rollout'', ''A rollout'')]
        (if rf_serve st = ServeVariation then ''variation'' else ''rollout'') True
        (\<lambda>k. SetServe (if k = ''variation'' then ServeVariation else ServeRollout))] @
     (if rf_serve st = ServeVariation
      then VariationSelect ''variation'' (rp_variations p) (rf_variation st) (rp_busy p) PickVariation
      else RolloutEditor (rp_variations p) (rf_percents st) (rp_busy p) EditPercent @
        [Field ''Bucket by'' (rf_bucketBy st) (\<not> rp_busy p) EditBucketBy,
         Field ''of kind'' (rf_contextKind st) (\<not> rp_busy p) EditContextKind,
         Says (case rf_seed st of None \<Rightarrow> ''Bucketing: default''
           | Some s \<Rightarrow> ''Bucketing: reshuffled (seed '' @ show_int s @ '')''),
         Button ''Reshuffle'' (\<not> rp_busy p) (Reshuffle r)] @
        (if rf_seed st \<noteq> None then [Button ''Reset'' (\<not> rp_busy p) ResetSeed] else [])) @
     [Button submitLabel (canSubmit st \<and> \<not> rp_busy p) Submit]"

definition set_draft :: "clause list \<Rightarrow> rule_form \<Rightarrow> rule_form" where
  "set_draft cs st = st\<lparr>rf_draft := cs, rf_texts := mounted (rf_texts st) cs\<rparr>"

fun form_handler :: "rule_form_props \<Rightarrow> rule_form \<Rightarrow> form_event \<Rightarrow> rule_form \<times> (clause list \<times> variation_or_rollout) option" where
  "form_handler p st (EditClause i e) =
     (set_draft ((rf_draft st)[i := edit_clause e (rf_draft st ! i)])
        (st\<lparr>rf_texts := (rf_texts st)[i := edit_text e (rf_texts st ! i)]\<rparr>), None)"
| "form_handler p st (RemoveClause i) = (set_draft (remove_at i (rf_draft st)) st, None)"
| "form_handler p st AddClause = (set_draft (rf_draft st @ [newClause]) st, None)"
| "form_handler p st (SetServe m) = (st\<lparr>rf_serve := m\<rparr>, None)"
| "form_handler p st (PickVariation i) = (st\<lparr>rf_variation := int i\<rparr>, None)"
| "form_handler p st (EditPercent i v) = (st\<lparr>rf_percents := rollout_edit (rf_percents st) i v\<rparr>, None)"
| "form_handler p st (EditBucketBy v) = (st\<lparr>rf_bucketBy := v\<rparr>, None)"
| "form_handler p st (EditContextKind v) = (st\<lparr>rf_contextKind := v\<rparr>, None)"
| "form_handler p st (Reshuffle r) = (st\<lparr>rf_seed := Some r\<rparr>, None)"
| "form_handler p st ResetSeed = (st\<lparr>rf_seed := None\<rparr>, None)"
| "form_handler p st Submit = submit p st"

definition form_step :: "rule_form_props \<Rightarrow> rule_form \<Rightarrow> form_event \<Rightarrow> rule_form \<times> (clause list \<times> variation_or_rollout) option" where
  "form_step p st e = (if form_enabled p st e then form_handler p st e else (st, None))"

fun form_run :: "rule_form_props \<Rightarrow> rule_form \<Rightarrow> form_event list \<Rightarrow> rule_form \<times> (clause list \<times> variation_or_rollout) list" where
  "form_run p st [] = (st, [])"
| "form_run p st (e # es) =
     (let (st1, out) = form_step p st e; (st2, outs) = form_run p st1 es
      in (st2, (case out of Some x \<Rightarrow> x # outs | None \<Rightarrow> outs)))"

section \<open>FlagRules\<close>

definition rolloutSummary :: "js list \<Rightarrow> rollout option \<Rightarrow> string" where
  "rolloutSummary variations ro =
     (let ps = percentsFromRollout ro (int (length variations));
          parts = map (\<lambda>(i, p). show_int p @ ''% '' @ variationLabel variations (int i))
            (filter (\<lambda>(i, p). 0 < p) (enumerate 0 ps));
          summary = (if join '', '' parts = [] then ''a rollout'' else join '', '' parts);
          bucketBy = Option.bind ro ro_bucketBy; contextKind = Option.bind ro ro_contextKind
      in if truthy_opt contextKind
         then summary @ '' (by '' @ the contextKind @ '' '' @ (if truthy_opt bucketBy then the bucketBy else ''key'') @ '')''
         else if truthy_opt bucketBy then summary @ '' (by '' @ the bucketBy @ '')''
         else summary)"

definition ruleServe :: "flag_rule \<Rightarrow> variation_or_rollout" where
  "ruleServe r = (if fr_variation r \<noteq> None then \<lparr>vr_variation = fr_variation r, vr_rollout = None\<rparr>
     else \<lparr>vr_variation = None, vr_rollout = fr_rollout r\<rparr>)"

text \<open>The line shown for a rule's served value.\<close>

definition served_text :: "js list \<Rightarrow> flag_rule \<Rightarrow> string" where
  "served_text variations r = (case fr_variation r of Some v \<Rightarrow> variationLabel variations v
     | None \<Rightarrow> rolloutSummary variations (fr_rollout r))"

text \<open>\<open>move\<close>: the order handed to \<open>onReorderRules\<close>.\<close>

definition rule_ids :: "flag_rule list \<Rightarrow> string list" where
  "rule_ids rules = List.map_filter (\<lambda>r. if truthy_opt (fr_id r) then fr_id r else None) rules"

definition move :: "flag_rule list \<Rightarrow> nat \<Rightarrow> int \<Rightarrow> string list option" where
  "move rules index delta =
     (let ids = rule_ids rules; target = int index + delta
      in case (js_nth ids (int index), js_nth ids target) of
           (Some a, Some b) \<Rightarrow> Some (ids[index := b, nat target := a])
         | _ \<Rightarrow> None)"

definition move_enabled :: "bool \<Rightarrow> flag_rule list \<Rightarrow> nat \<Rightarrow> int \<Rightarrow> bool" where
  "move_enabled busy rules index delta \<longleftrightarrow>
     \<not> busy \<and> index < length rules \<and> (if delta < 0 then index \<noteq> 0 else index \<noteq> length rules - 1)"

text \<open>The form that edits a rule in place.\<close>

definition edit_props :: "js list \<Rightarrow> flag_rule \<Rightarrow> bool \<Rightarrow> rule_form_props" where
  "edit_props variations rule busy = \<lparr>rp_variations = variations, rp_initialClauses = Some (fr_clauses rule),
     rp_initialServe = Some (ruleServe rule), rp_busy = busy\<rparr>"

definition add_props :: "js list \<Rightarrow> bool \<Rightarrow> rule_form_props" where
  "add_props variations busy = \<lparr>rp_variations = variations, rp_initialClauses = None,
     rp_initialServe = None, rp_busy = busy\<rparr>"

section \<open>IndividualTargets and FlagTargeting\<close>

text \<open>The add row: the key, the variation; \<open>add\<close> emits a trimmed non-empty key and clears the input.\<close>

definition add_target :: "string \<Rightarrow> int \<Rightarrow> string \<times> (int \<times> string) option" where
  "add_target key v = ([], if trim key \<noteq> [] then Some (v, trim key) else None)"

definition target_rows :: "js list \<Rightarrow> target list \<Rightarrow> (int \<times> string \<times> string) list" where
  "target_rows variations targets = concat (map (\<lambda>t. map (\<lambda>v.
     (tg_variation t, v, variationLabel variations (tg_variation t))) (tg_values t)) targets)"

definition hasTargets :: "target list \<Rightarrow> bool" where
  "hasTargets targets \<longleftrightarrow> list_ex (\<lambda>t. tg_values t \<noteq> []) targets"

text \<open>The two selects of the default rule and whether the rollout hint is shown.\<close>

definition FlagTargeting :: "flag_config \<Rightarrow> int \<times> int \<times> bool" where
  "FlagTargeting config = (the_default 0 (vr_variation (fc_fallthrough config)), fc_off_variation config,
     vr_rollout (fc_fallthrough config) \<noteq> None)"

section \<open>FlagConfigCard\<close>

definition fallthroughLabel :: "flag_config \<Rightarrow> js list \<Rightarrow> string option" where
  "fallthroughLabel config variations =
     (if vr_rollout (fc_fallthrough config) \<noteq> None then Some ''a percentage rollout''
      else map_option (variationLabel variations) (vr_variation (fc_fallthrough config)))"

definition plural :: "nat \<Rightarrow> string \<Rightarrow> string" where
  "plural n word = show_nat n @ '' '' @ word @ (if n = 1 then [] else ''s'')"

text \<open>The summary line, as its three parts.\<close>

definition config_summary :: "flag_config \<Rightarrow> string list" where
  "config_summary c = [plural (length (fc_rules c)) ''rule'', plural (length (fc_targets c)) ''target'',
     CHR ''v'' # show_int (fc_version c)]"

section \<open>The instructions of FlagDetailPage\<close>

definition set_fallthrough :: "int \<Rightarrow> flag_instruction list" where
  "set_fallthrough v = [(instruction ''updateFallthroughVariation'')\<lparr>fi_variation := Some v\<rparr>]"

definition set_off_variation :: "int \<Rightarrow> flag_instruction list" where
  "set_off_variation v = [(instruction ''updateOffVariation'')\<lparr>fi_variation := Some v\<rparr>]"

definition on_add_target :: "int \<Rightarrow> string \<Rightarrow> flag_instruction list" where
  "on_add_target v key = [(instruction ''addTargets'')\<lparr>fi_contextKind := Some ''user'',
     fi_variation := Some v, fi_values := Some [key]\<rparr>]"

definition on_remove_target :: "int \<Rightarrow> string \<Rightarrow> flag_instruction list" where
  "on_remove_target v key = [(instruction ''removeTargets'')\<lparr>fi_contextKind := Some ''user'',
     fi_variation := Some v, fi_values := Some [key]\<rparr>]"

definition on_add_rule :: "clause list \<Rightarrow> variation_or_rollout \<Rightarrow> flag_instruction list" where
  "on_add_rule clauses served = [(instruction ''addRule'')\<lparr>fi_clauses := Some clauses,
     fi_variation := vr_variation served, fi_rollout := vr_rollout served\<rparr>]"

definition on_update_rule :: "string \<Rightarrow> clause list \<Rightarrow> variation_or_rollout \<Rightarrow> flag_instruction list" where
  "on_update_rule ruleId clauses served = [(instruction ''updateRule'')\<lparr>fi_ruleId := Some ruleId,
     fi_clauses := Some clauses, fi_variation := vr_variation served, fi_rollout := vr_rollout served\<rparr>]"

definition on_remove_rule :: "string \<Rightarrow> flag_instruction list" where
  "on_remove_rule ruleId = [(instruction ''removeRule'')\<lparr>fi_ruleId := Some ruleId\<rparr>]"

definition on_reorder_rules :: "string list \<Rightarrow> flag_instruction list" where
  "on_reorder_rules ids = [(instruction ''reorderRules'')\<lparr>fi_ruleIds := Some ids\<rparr>]"

end
