(* ===== verification/Slugs.thy ===== *)
theory Slugs
  imports View ApiClient
begin

text \<open>
  The \<open>slugify\<close> function that every creation dialog and the setup wizard define
  (\<open>web/src/features/**/Create*Dialog.tsx\<close>, \<open>SetupWizard.tsx\<close>), against a reference definition: the
  words of the text, its maximal runs of lower-case letters and digits, joined with single dashes.
\<close>

section \<open>slugify\<close>

definition slug_char :: "char \<Rightarrow> bool" where
  "slug_char c \<longleftrightarrow> (let n = code_unit c in (48 \<le> n \<and> n \<le> 57) \<or> (97 \<le> n \<and> n \<le> 122))"

lemma dropWhile_le [termination_simp]: "length (dropWhile p xs) < Suc (length xs)"
  by (simp add: le_imp_less_Suc length_dropWhile_le)

text \<open>\<open>replace(/[^a-z0-9]+/g, '-')\<close>\<close>

fun dash_runs :: "string \<Rightarrow> string" where
  "dash_runs [] = []"
| "dash_runs (c # s) = (if slug_char c then c # dash_runs s
     else CHR ''-'' # dash_runs (dropWhile (\<lambda>x. \<not> slug_char x) s))"

text \<open>\<open>replace(/^-+|-+$/g, '')\<close>\<close>

definition trim_dashes :: "string \<Rightarrow> string" where
  "trim_dashes s = rev (dropWhile (\<lambda>c. c = CHR ''-'') (rev (dropWhile (\<lambda>c. c = CHR ''-'') s)))"

definition slugify :: "string \<Rightarrow> string" where
  "slugify value = trim_dashes (dash_runs (trim (to_lower value)))"

section \<open>The reference\<close>

text \<open>The pieces of a text between the characters that are not letters or digits.\<close>

fun slug_pieces :: "string \<Rightarrow> string list" where
  "slug_pieces [] = [[]]"
| "slug_pieces (c # s) = (if slug_char c then (c # hd (slug_pieces s)) # tl (slug_pieces s)
     else [] # slug_pieces s)"

definition slug_words :: "string \<Rightarrow> string list" where
  "slug_words s = filter (\<lambda>w. w \<noteq> []) (slug_pieces s)"

definition slug_text :: "string \<Rightarrow> bool" where
  "slug_text s \<longleftrightarrow> list_all slug_char s"

lemma slug_pieces_not_Nil [simp]: "slug_pieces s \<noteq> []"
  by (cases s) auto

lemma slug_pieces_each: "w \<in> set (slug_pieces s) \<Longrightarrow> slug_text w"
proof (induction s arbitrary: w)
  case (Cons c s)
  then show ?case by (cases "slug_pieces s") (auto simp: slug_text_def split: if_splits)
qed (simp add: slug_text_def)

lemma slug_words_each: "w \<in> set (slug_words s) \<Longrightarrow> w \<noteq> [] \<and> slug_text w"
  by (auto simp: slug_words_def slug_pieces_each)

lemma slug_pieces_gap: "\<not> slug_char c \<Longrightarrow> slug_pieces (s @ [c]) = slug_pieces s @ [[]]"
  by (induction s) (auto simp: hd_append)

lemma slug_words_gaps: "(\<forall>c\<in>set t. \<not> slug_char c) \<Longrightarrow> slug_words (s @ t) = slug_words s"
proof (induction t rule: rev_induct)
  case (snoc c t)
  then show ?case using slug_pieces_gap [of c "s @ t"] by (simp add: slug_words_def)
qed simp

lemma slug_words_drop: "(\<forall>c. p c \<longrightarrow> \<not> slug_char c) \<Longrightarrow> slug_words (dropWhile p s) = slug_words s"
  by (induction s) (auto simp: slug_words_def)

lemma slug_words_trim: "slug_words (trim s) = slug_words s"
proof -
  have space: "is_space c \<Longrightarrow> \<not> slug_char c" for c
    by (auto simp: is_space_def slug_char_def code_unit_def Let_def)
  let ?u = "dropWhile is_space s"
  have "?u = trim s @ rev (takeWhile is_space (rev ?u))"
    unfolding trim_def by (metis rev_append rev_rev_ident takeWhile_dropWhile_id)
  moreover have "\<forall>c\<in>set (rev (takeWhile is_space (rev ?u))). \<not> slug_char c"
    by (auto dest!: set_takeWhileD space)
  ultimately have "slug_words ?u = slug_words (trim s)" by (metis slug_words_gaps)
  then show ?thesis using slug_words_drop [of is_space s] space by simp
qed

section \<open>slugify is the reference\<close>

lemma dash_not_slug [simp]: "\<not> slug_char CHR ''-''"
  by (simp add: slug_char_def code_unit_def Let_def)

text \<open>\<open>dash_runs\<close> character by character; the flag says whether the character before was replaced.\<close>

fun dashing :: "bool \<Rightarrow> string \<Rightarrow> string" where
  "dashing gap [] = []"
| "dashing gap (c # s) = (if slug_char c then c # dashing False s
     else (if gap then [] else ''-'') @ dashing True s)"

lemma dashing_runs:
  "dashing False s = dash_runs s \<and> dashing True s = dash_runs (dropWhile (\<lambda>x. \<not> slug_char x) s)"
  by (induction s) auto

lemma dashing_words:
  "\<exists>b. set b \<subseteq> {CHR ''-''} \<and> dashing True s = join ''-'' (slug_words s) @ b \<and>
     dashing False s = (if hd (slug_pieces s) = [] \<and> s \<noteq> [] then ''-'' else []) @ join ''-'' (slug_words s) @ b"
proof (induction s)
  case (Cons c s)
  then obtain b where b: "set b \<subseteq> {CHR ''-''}" "dashing True s = join ''-'' (slug_words s) @ b"
    "dashing False s = (if hd (slug_pieces s) = [] \<and> s \<noteq> [] then ''-'' else []) @ join ''-'' (slug_words s) @ b"
    by blast
  obtain p ps where ps: "slug_pieces s = p # ps" by (cases "slug_pieces s") auto
  show ?case
  proof (cases "slug_char c")
    case True
    show ?thesis
    proof (cases "p = []")
      case p: True
      let ?ws = "filter (\<lambda>w. w \<noteq> []) ps"
      show ?thesis
      proof (cases "?ws = []")
        case True
        then show ?thesis using b ps p \<open>slug_char c\<close>
          by (intro exI [of _ "(if s \<noteq> [] then ''-'' else []) @ b"]) (auto simp: slug_words_def)
      next
        case False
        then have "s \<noteq> []" using ps by auto
        then show ?thesis using b ps p \<open>slug_char c\<close> False
          by (intro exI [of _ b]) (simp add: slug_words_def join_Cons)
      qed
    next
      case p: False
      then show ?thesis using b ps \<open>slug_char c\<close>
        by (intro exI [of _ b]) (cases "filter (\<lambda>w. w \<noteq> []) ps"; simp add: slug_words_def)
    qed
  next
    case False
    then show ?thesis using b by (intro exI [of _ b]) (simp add: slug_words_def)
  qed
qed (simp add: slug_words_def)

lemma trim_dashes_ends:
  assumes "m \<noteq> [] \<Longrightarrow> hd m \<noteq> CHR ''-'' \<and> last m \<noteq> CHR ''-''" "set a \<subseteq> {CHR ''-''}" "set b \<subseteq> {CHR ''-''}"
  shows "trim_dashes (a @ m @ b) = m"
proof -
  have drop_all: "dropWhile (\<lambda>c. c = CHR ''-'') (x @ y) = dropWhile (\<lambda>c. c = CHR ''-'') y" if "set x \<subseteq> {CHR ''-''}" for x y
    using that by (induction x) auto
  show ?thesis
  proof (cases "m = []")
    case True
    have all: "dropWhile (\<lambda>c. c = CHR ''-'') (a @ b) = []"
      using assms(2,3) by (auto simp: dropWhile_eq_Nil_conv)
    show ?thesis unfolding trim_dashes_def True append_Nil all by simp
  next
    case False
    have keep: "xs \<noteq> [] \<Longrightarrow> hd xs \<noteq> CHR ''-'' \<Longrightarrow> dropWhile (\<lambda>c. c = CHR ''-'') xs = xs" for xs :: string
      by (cases xs) auto
    have "dropWhile (\<lambda>c. c = CHR ''-'') (m @ b) = m @ b" "dropWhile (\<lambda>c. c = CHR ''-'') (rev m) = rev m"
      using keep [of "m @ b"] keep [of "rev m"] assms(1) False by (simp_all add: hd_rev)
    then show ?thesis using drop_all [of a "m @ b"] drop_all [of "rev b" "rev m"] assms
      by (simp add: trim_dashes_def)
  qed
qed

lemma join_words_ends:
  "(\<forall>w\<in>set ws. w \<noteq> [] \<and> slug_text w) \<Longrightarrow> ws \<noteq> [] \<Longrightarrow>
   join ''-'' ws \<noteq> [] \<and> slug_char (hd (join ''-'' ws)) \<and> slug_char (last (join ''-'' ws))"
proof (induction "''-''" ws rule: join.induct)
  case (3 x y ys)
  then show ?case by (auto simp: slug_text_def list_all_iff)
qed (auto simp: slug_text_def list_all_iff)

lemma slugify_words: "slugify value = join ''-'' (slug_words (to_lower value))"
proof -
  let ?s = "trim (to_lower value)" and ?j = "join ''-'' (slug_words (trim (to_lower value)))"
  have ends: "?j \<noteq> [] \<Longrightarrow> hd ?j \<noteq> CHR ''-'' \<and> last ?j \<noteq> CHR ''-''"
    using join_words_ends [of "slug_words ?s"] slug_words_each [of _ ?s] dash_not_slug
    by (metis join.simps(1))
  obtain b where "set b \<subseteq> {CHR ''-''}"
    "dash_runs ?s = (if hd (slug_pieces ?s) = [] \<and> ?s \<noteq> [] then ''-'' else []) @ ?j @ b"
    using dashing_words [of ?s] dashing_runs [of ?s] by metis
  then have "trim_dashes (dash_runs ?s) = ?j"
    using trim_dashes_ends [OF ends, of "''-''" b] trim_dashes_ends [OF ends, of "[]" b] by simp
  then show ?thesis by (simp add: slugify_def slug_words_trim)
qed

section \<open>Consequences\<close>

lemma slug_pieces_word: "slug_text w \<Longrightarrow> slug_pieces (w @ s) = (w @ hd (slug_pieces s)) # tl (slug_pieces s)"
  by (induction w) (auto simp: slug_text_def)

lemma slug_words_join: "(\<forall>w\<in>set ws. w \<noteq> [] \<and> slug_text w) \<Longrightarrow> slug_words (join ''-'' ws) = ws"
proof (induction "''-''" ws rule: join.induct)
  case (2 x)
  then show ?case using slug_pieces_word [of x "[]"] by (simp add: slug_words_def)
next
  case (3 x y ys)
  then show ?case using slug_pieces_word [of x "CHR ''-'' # join ''-'' (y # ys)"] by (simp add: slug_words_def)
qed (simp add: slug_words_def)

definition slug_set :: "char set" where
  "slug_set = {c. slug_char c \<or> c = CHR ''-''}"

lemma join_slug_chars: "(\<forall>w\<in>set ws. w \<noteq> [] \<and> slug_text w) \<Longrightarrow> set (join ''-'' ws) \<subseteq> slug_set"
  by (induction "''-''" ws rule: join.induct) (auto simp: slug_set_def slug_text_def list_all_iff)

lemma slugify_chars: "set (slugify value) \<subseteq> slug_set"
  using join_slug_chars [of "slug_words (to_lower value)"] slug_words_each by (simp add: slugify_words)

lemma lower_slug: "c \<in> slug_set \<Longrightarrow> lower_char c = c"
  by (auto simp: slug_set_def slug_char_def lower_char_def code_unit_def Let_def)

lemma to_lower_slugify: "to_lower (slugify value) = slugify value"
  using slugify_chars [of "value"] unfolding to_lower_def by (intro map_idI) (auto simp: lower_slug)

lemma slugify_join: "(\<forall>w\<in>set ws. w \<noteq> [] \<and> slug_text w) \<Longrightarrow> slugify (join ''-'' ws) = join ''-'' ws"
proof -
  assume ws: "\<forall>w\<in>set ws. w \<noteq> [] \<and> slug_text w"
  then have "set (join ''-'' ws) \<subseteq> slug_set" by (rule join_slug_chars)
  then have "to_lower (join ''-'' ws) = join ''-'' ws"
    unfolding to_lower_def by (intro map_idI) (auto simp: lower_slug)
  then show ?thesis using ws by (simp add: slugify_words slug_words_join)
qed

lemma slugify_idem [simp]: "slugify (slugify value) = slugify value"
  using slugify_join [of "slug_words (to_lower value)"] slug_words_each by (auto simp: slugify_words)

text \<open>A usable key: a slug that is not empty. It needs no escaping in a path.\<close>

definition key_ok :: "string \<Rightarrow> bool" where
  "key_ok k \<longleftrightarrow> k \<noteq> [] \<and> slugify k = k"

lemma key_ok_slugify: "slugify v \<noteq> [] \<Longrightarrow> key_ok (slugify v)"
  by (simp add: key_ok_def)

lemma key_ok_chars: "key_ok k \<Longrightarrow> set k \<subseteq> slug_set"
  using slugify_chars [of k] by (simp add: key_ok_def)

lemma slug_uri: "set k \<subseteq> slug_set \<Longrightarrow> encodeURIComponent k = k"
proof (induction k)
  case (Cons c k)
  then have "encode_char c = [c]"
    by (auto simp: encode_char_def unreserved_def slug_set_def slug_char_def code_unit_def Let_def)
  with Cons show ?case by (simp add: encodeURIComponent_def)
qed (simp add: encodeURIComponent_def)

lemma key_ok_colon: "key_ok k \<Longrightarrow> CHR '':'' \<notin> set k"
  using key_ok_chars [of k] by (auto simp: slug_set_def slug_char_def code_unit_def Let_def)

text \<open>A dash at the end of a key field is removed as it is typed.\<close>

lemma slugify_trailing_dash: "slugify (k @ ''-'') = slugify k"
proof -
  have "lower_char CHR ''-'' = CHR ''-''" by (simp add: lower_char_def code_unit_def Let_def)
  then show ?thesis
    using slug_words_gaps [of "''-''" "to_lower k"] by (simp add: slugify_words to_lower_def)
qed

end
