(* ===== verification/Dialogs.thy ===== *)
theory Dialogs
  imports Slugs
begin

text \<open>
  The creation dialogs with a name and a key: project, environment, segment, flag and role
  (\<open>web/src/features/**/Create*Dialog.tsx\<close>). They share the key field that follows the name until it is
  edited. A dialog is its local state, its view and an update per message; \<open>open\<close>, \<open>isCreating\<close> and
  the error are properties its page passes down, and what it calls back with is \<open>dialog_out\<close>.
\<close>

section \<open>Shared by the dialogs\<close>

record dialog_props =
  dp_open :: bool
  dp_busy :: bool
  dp_error :: "string option"

datatype 'o dialog_out = OpenChanged bool | Emitted 'o

datatype 'x keyed_msg = OpenChange bool | TypeName string | TypeKey string | Create | More 'x

record keyed_form =
  kf_name :: string
  kf_key :: string
  kf_keyEdited :: bool

definition handleNameChange :: "string \<Rightarrow> 'a keyed_form_scheme \<Rightarrow> 'a keyed_form_scheme" where
  "handleNameChange v st = (let st1 = st\<lparr>kf_name := v\<rparr>
     in if kf_keyEdited st1 then st1 else st1\<lparr>kf_key := slugify v\<rparr>)"

definition edit_key :: "string \<Rightarrow> 'a keyed_form_scheme \<Rightarrow> 'a keyed_form_scheme" where
  "edit_key v st = st\<lparr>kf_keyEdited := True, kf_key := slugify v\<rparr>"

definition named :: "'a keyed_form_scheme \<Rightarrow> bool" where
  "named st \<longleftrightarrow> trim (kf_name st) \<noteq> [] \<and> trim (kf_key st) \<noteq> []"

section \<open>CreateProjectDialog\<close>

definition blank_keyed :: keyed_form where
  "blank_keyed = \<lparr>kf_name = [], kf_key = [], kf_keyEdited = False\<rparr>"

fun project_update :: "keyed_form \<Rightarrow> unit keyed_msg \<Rightarrow> keyed_form \<times> (string \<times> string) dialog_out list" where
  "project_update st (OpenChange next) = (if next then st else blank_keyed, [OpenChanged next])"
| "project_update st (TypeName v) = (handleNameChange v st, [])"
| "project_update st (TypeKey v) = (edit_key v st, [])"
| "project_update st Create = (st, if named st then [Emitted (kf_key st, kf_name st)] else [])"
| "project_update st (More _) = (st, [])"

definition CreateProjectDialog :: "dialog_props \<Rightarrow> keyed_form \<Rightarrow> unit keyed_msg node list" where
  "CreateProjectDialog p st = dialog (dp_open p) (OpenChange False)
     ([Says ''New project'', Says ''A project holds flags across environments.''] @ alert (dp_error p) @
      [Field ''Name'' (kf_name st) True TypeName, Field ''Key'' (kf_key st) True TypeKey,
       Says ''Used in URLs. Lowercase, no spaces.'',
       Button (if dp_busy p then ''Creating...'' else ''Create project'')
         (trim (kf_name st) \<noteq> [] \<and> trim (kf_key st) \<noteq> [] \<and> \<not> dp_busy p) Create])"

section \<open>CreateEnvironmentDialog\<close>

fun environment_update :: "keyed_form \<Rightarrow> unit keyed_msg \<Rightarrow> keyed_form \<times> (string \<times> string) dialog_out list" where
  "environment_update st (OpenChange next) = (if next then st else blank_keyed, [OpenChanged next])"
| "environment_update st (TypeName v) = (handleNameChange v st, [])"
| "environment_update st (TypeKey v) = (edit_key v st, [])"
| "environment_update st Create = (st, if named st then [Emitted (kf_key st, kf_name st)] else [])"
| "environment_update st (More _) = (st, [])"

definition CreateEnvironmentDialog :: "dialog_props \<Rightarrow> keyed_form \<Rightarrow> unit keyed_msg node list" where
  "CreateEnvironmentDialog p st = dialog (dp_open p) (OpenChange False)
     ([Says ''New environment'', Says ''Every existing flag starts off in the new environment.''] @ alert (dp_error p) @
      [Field ''Name'' (kf_name st) True TypeName, Field ''Key'' (kf_key st) True TypeKey,
       Button (if dp_busy p then ''Creating...'' else ''Create environment'')
         (trim (kf_name st) \<noteq> [] \<and> trim (kf_key st) \<noteq> [] \<and> \<not> dp_busy p) Create])"

section \<open>CreateSegmentDialog\<close>

record segment_form = keyed_form +
  gf_description :: string

datatype segment_field = TypeDescription string

definition blank_segment_form :: segment_form where
  "blank_segment_form = \<lparr>kf_name = [], kf_key = [], kf_keyEdited = False, gf_description = []\<rparr>"

fun segment_form_update ::
  "segment_form \<Rightarrow> segment_field keyed_msg \<Rightarrow> segment_form \<times> create_segment_input dialog_out list" where
  "segment_form_update st (OpenChange next) = (if next then st else blank_segment_form, [OpenChanged next])"
| "segment_form_update st (TypeName v) = (handleNameChange v st, [])"
| "segment_form_update st (TypeKey v) = (edit_key v st, [])"
| "segment_form_update st (More (TypeDescription v)) = (st\<lparr>gf_description := v\<rparr>, [])"
| "segment_form_update st Create = (st, if named st
     then [Emitted \<lparr>cs_key = kf_key st, cs_name = kf_name st, cs_description = Some (trim (gf_description st))\<rparr>]
     else [])"

definition CreateSegmentDialog :: "dialog_props \<Rightarrow> segment_form \<Rightarrow> segment_field keyed_msg node list" where
  "CreateSegmentDialog p st = dialog (dp_open p) (OpenChange False)
     ([Says ''New segment'', Says ''A reusable group of contexts that flag rules can target.''] @ alert (dp_error p) @
      [Field ''Name'' (kf_name st) True TypeName, Field ''Key'' (kf_key st) True TypeKey,
       Field ''Description'' (gf_description st) True (More \<circ> TypeDescription),
       Button (if dp_busy p then ''Creating...'' else ''Create segment'')
         (trim (kf_name st) \<noteq> [] \<and> trim (kf_key st) \<noteq> [] \<and> \<not> dp_busy p) Create])"

section \<open>CreateFlagDialog\<close>

record flag_form = keyed_form +
  ff_type :: string
  ff_stringVars :: "string list"
  ff_temporary :: bool

datatype flag_field = PickType string | EditVar nat string | RemoveVar nat | AddVar | SetTemporary bool

definition blank_flag_form :: flag_form where
  "blank_flag_form = \<lparr>kf_name = [], kf_key = [], kf_keyEdited = False, ff_type = ''boolean'',
     ff_stringVars = [[], []], ff_temporary = False\<rparr>"

definition cleanVars :: "flag_form \<Rightarrow> string list" where
  "cleanVars st = filter (\<lambda>v. v \<noteq> []) (map trim (ff_stringVars st))"

definition flag_canSubmit :: "flag_form \<Rightarrow> bool" where
  "flag_canSubmit st \<longleftrightarrow> named st \<and> (ff_type st = ''boolean'' \<or> 2 \<le> length (cleanVars st))"

definition flag_input :: "flag_form \<Rightarrow> create_flag_input" where
  "flag_input st = \<lparr>cf_key = kf_key st, cf_name = kf_name st, cf_description = None,
     cf_client_side_available = None, cf_temporary = Some (ff_temporary st),
     cf_variations = (if ff_type st = ''boolean'' then [JBool True, JBool False] else map JStr (cleanVars st))\<rparr>"

fun flag_form_update :: "flag_form \<Rightarrow> flag_field keyed_msg \<Rightarrow> flag_form \<times> create_flag_input dialog_out list" where
  "flag_form_update st (OpenChange next) = (if next then st else blank_flag_form, [OpenChanged next])"
| "flag_form_update st (TypeName v) = (handleNameChange v st, [])"
| "flag_form_update st (TypeKey v) = (edit_key v st, [])"
| "flag_form_update st (More (PickType t)) = (st\<lparr>ff_type := t\<rparr>, [])"
| "flag_form_update st (More (EditVar i v)) = (st\<lparr>ff_stringVars := (ff_stringVars st)[i := v]\<rparr>, [])"
| "flag_form_update st (More (RemoveVar i)) = (st\<lparr>ff_stringVars := remove_at i (ff_stringVars st)\<rparr>, [])"
| "flag_form_update st (More AddVar) = (st\<lparr>ff_stringVars := ff_stringVars st @ [[]]\<rparr>, [])"
| "flag_form_update st (More (SetTemporary b)) = (st\<lparr>ff_temporary := b\<rparr>, [])"
| "flag_form_update st Create = (st, if flag_canSubmit st then [Emitted (flag_input st)] else [])"

definition variation_fields :: "flag_form \<Rightarrow> flag_field keyed_msg node list" where
  "variation_fields st =
     (if ff_type st = ''boolean'' then [Says ''Serves true or false.'']
      else concat (map (\<lambda>(i, v).
          [Field (''Variation '' @ show_nat (i + 1)) v True (More \<circ> EditVar i),
           Button (''Remove variation '' @ show_nat (i + 1)) (2 < length (ff_stringVars st)) (More (RemoveVar i))])
        (enumerate 0 (ff_stringVars st))) @ [Button ''Add variation'' True (More AddVar)])"

definition CreateFlagDialog :: "dialog_props \<Rightarrow> flag_form \<Rightarrow> flag_field keyed_msg node list" where
  "CreateFlagDialog p st = dialog (dp_open p) (OpenChange False)
     ([Says ''New flag'', Says ''A flag has two or more variations. It starts off in every environment.''] @
      alert (dp_error p) @
      [Field ''Name'' (kf_name st) True TypeName, Field ''Key'' (kf_key st) True TypeKey,
       Choice ''Variations'' [(''boolean'', ''Boolean''), (''string'', ''String'')] (ff_type st) True (More \<circ> PickType)] @
      variation_fields st @
      [Check ''Temporary flag (short-lived; flagged for cleanup once stale)'' (ff_temporary st) True (More \<circ> SetTemporary),
       Button (if dp_busy p then ''Creating...'' else ''Create flag'') (flag_canSubmit st \<and> \<not> dp_busy p) Create])"

section \<open>CreateRoleDialog\<close>

text \<open>\<open>toUpperCase\<close> of a code unit; the sharp s becomes two, and the two letters whose capital lies
  above U+00FF stay.\<close>

definition upper_char :: "char \<Rightarrow> string" where
  "upper_char c = (let n = code_unit c in
     if (97 \<le> n \<and> n \<le> 122) \<or> (224 \<le> n \<and> n \<le> 254 \<and> n \<noteq> 247) then [char_of (n - 32)]
     else if n = 223 then ''SS'' else [c])"

definition titleize :: "string \<Rightarrow> string" where
  "titleize s = join '' '' (map (\<lambda>w. case w of [] \<Rightarrow> [] | c # r \<Rightarrow> upper_char c @ r) (split_on CHR ''_'' s))"

definition resource_of :: "string \<Rightarrow> string" where
  "resource_of p = hd (split_on CHR ''.'' p)"

definition action_of :: "string \<Rightarrow> string" where
  "action_of p = join ''.'' (tl (split_on CHR ''.'' p))"

definition groupByResource :: "string list \<Rightarrow> (string \<times> string list) list" where
  "groupByResource permissions = fold (\<lambda>p m. AList.update (resource_of p)
     (the_default [] (map_of m (resource_of p)) @ [p]) m) permissions []"

record role_form = keyed_form +
  rr_description :: string
  rr_scope :: string
  rr_selected :: "string list"

datatype role_field = TypeRoleDescription string | PickScope string | Toggle string

record create_role_input =
  ci_key :: string
  ci_name :: string
  ci_description :: string
  ci_scope :: string
  ci_permissions :: "string list"

definition blank_role_form :: role_form where
  "blank_role_form = \<lparr>kf_name = [], kf_key = [], kf_keyEdited = False, rr_description = [],
     rr_scope = ''project'', rr_selected = []\<rparr>"

definition toggle_in :: "'a \<Rightarrow> 'a list \<Rightarrow> 'a list" where
  "toggle_in x xs = (if x \<in> set xs then filter (\<lambda>y. y \<noteq> x) xs else xs @ [x])"

fun role_form_update :: "role_form \<Rightarrow> role_field keyed_msg \<Rightarrow> role_form \<times> create_role_input dialog_out list" where
  "role_form_update st (OpenChange next) = (if next then st else blank_role_form, [OpenChanged next])"
| "role_form_update st (TypeName v) = (handleNameChange v st, [])"
| "role_form_update st (TypeKey v) = (edit_key v st, [])"
| "role_form_update st (More (TypeRoleDescription v)) = (st\<lparr>rr_description := v\<rparr>, [])"
| "role_form_update st (More (PickScope v)) = (st\<lparr>rr_scope := v\<rparr>, [])"
| "role_form_update st (More (Toggle perm)) = (st\<lparr>rr_selected := toggle_in perm (rr_selected st)\<rparr>, [])"
| "role_form_update st Create = (st, if named st \<and> rr_selected st \<noteq> []
     then [Emitted \<lparr>ci_key = kf_key st, ci_name = kf_name st, ci_description = trim (rr_description st),
             ci_scope = rr_scope st, ci_permissions = rr_selected st\<rparr>]
     else [])"

definition CreateRoleDialog :: "dialog_props \<Rightarrow> string list \<Rightarrow> role_form \<Rightarrow> role_field keyed_msg node list" where
  "CreateRoleDialog p permissions st = dialog (dp_open p) (OpenChange False)
     ([Says ''New role'', Says ''A named bundle of permissions to assign to members.''] @ alert (dp_error p) @
      [Field ''Name'' (kf_name st) True TypeName, Field ''Key'' (kf_key st) True TypeKey,
       Field ''Description'' (rr_description st) True (More \<circ> TypeRoleDescription),
       Choice ''Scope'' [(''project'', ''Project''), (''organization'', ''Organization'')] (rr_scope st) True
         (More \<circ> PickScope)] @
      concat (map (\<lambda>(resource, perms). Says (titleize resource) #
          map (\<lambda>perm. Check (action_of perm) (perm \<in> set (rr_selected st)) True (\<lambda>_. More (Toggle perm))) perms)
        (groupByResource permissions)) @
      [Button (if dp_busy p then ''Creating...'' else ''Create role'')
         (named st \<and> rr_selected st \<noteq> [] \<and> \<not> dp_busy p) Create])"

end
