(* ===== verification/Dialogs_Props.thy ===== *)
theory Dialogs_Props
  imports Dialogs
begin

text \<open>
  What the creation dialogs guarantee: whatever a user does with the controls on the screen, an emitted
  key is a non-empty slug, a flag has at least two usable variations and a role a non-empty set of
  permissions out of the vocabulary. Each dialog interprets \<open>component\<close> with its own invariant.
\<close>

section \<open>The key field\<close>

text \<open>The key is a slug, and the slug of the name as long as it has not been edited.\<close>

definition key_inv :: "'a keyed_form_scheme \<Rightarrow> bool" where
  "key_inv st \<longleftrightarrow> slugify (kf_key st) = kf_key st \<and> (\<not> kf_keyEdited st \<longrightarrow> kf_key st = slugify (kf_name st))"

lemma slugify_Nil [simp]: "slugify [] = []"
  by (simp add: slugify_words slug_words_def to_lower_def)

lemma key_inv_handlers [simp]:
  "key_inv st \<Longrightarrow> key_inv (handleNameChange v st)" "key_inv (edit_key v st)"
  by (simp_all add: key_inv_def handleNameChange_def edit_key_def Let_def)

lemma key_inv_blank [simp]:
  "key_inv blank_keyed" "key_inv blank_segment_form" "key_inv blank_flag_form" "key_inv blank_role_form"
  by (simp_all add: key_inv_def blank_keyed_def blank_segment_form_def blank_flag_form_def blank_role_form_def)

lemma named_key_ok: "key_inv st \<Longrightarrow> named st \<Longrightarrow> key_ok (kf_key st) \<and> trim (kf_name st) \<noteq> []"
  by (auto simp: key_inv_def named_def key_ok_def trim_def)

definition emits :: "('o \<Rightarrow> bool) \<Rightarrow> 'o dialog_out \<Rightarrow> bool" where
  "emits P e = (case e of OpenChanged _ \<Rightarrow> True | Emitted x \<Rightarrow> P x)"

lemma emits_simps [simp]: "emits P (OpenChanged b)" "emits P (Emitted x) = P x"
  by (simp_all add: emits_def)

definition entry_ok :: "string \<times> string \<Rightarrow> bool" where
  "entry_ok e \<longleftrightarrow> key_ok (fst e) \<and> trim (snd e) \<noteq> []"

section \<open>Projects, environments and segments\<close>

interpretation project_dialog: component UNIV CreateProjectDialog "\<lambda>_. project_update" key_inv
  "\<lambda>_. emits entry_ok"
proof
  fix p and s :: keyed_form and m assume "key_inv s"
  then show "key_inv (fst (project_update s m))" by (cases m) simp_all
  show "list_all (emits entry_ok) (snd (project_update s m))"
    using \<open>key_inv s\<close> by (cases m) (auto simp: entry_ok_def dest: named_key_ok)
qed

interpretation environment_dialog: component UNIV CreateEnvironmentDialog "\<lambda>_. environment_update" key_inv
  "\<lambda>_. emits entry_ok"
proof
  fix p and s :: keyed_form and m assume "key_inv s"
  then show "key_inv (fst (environment_update s m))" by (cases m) simp_all
  show "list_all (emits entry_ok) (snd (environment_update s m))"
    using \<open>key_inv s\<close> by (cases m) (auto simp: entry_ok_def dest: named_key_ok)
qed

definition segment_input_ok :: "create_segment_input \<Rightarrow> bool" where
  "segment_input_ok i \<longleftrightarrow> key_ok (cs_key i) \<and> trim (cs_name i) \<noteq> []"

lemma key_inv_description [simp]: "key_inv (st\<lparr>gf_description := v\<rparr>) = key_inv st"
  by (simp add: key_inv_def)

interpretation segment_dialog: component UNIV CreateSegmentDialog "\<lambda>_. segment_form_update" key_inv
  "\<lambda>_. emits segment_input_ok"
proof
  fix p and s :: segment_form and m assume "key_inv s"
  then show "key_inv (fst (segment_form_update s m))"
    by (cases "(s, m)" rule: segment_form_update.cases) simp_all
  show "list_all (emits segment_input_ok) (snd (segment_form_update s m))"
    using \<open>key_inv s\<close> by (cases "(s, m)" rule: segment_form_update.cases)
      (auto simp: segment_input_ok_def dest: named_key_ok)
qed

section \<open>Flags\<close>

definition flag_inv :: "flag_form \<Rightarrow> bool" where
  "flag_inv st \<longleftrightarrow> key_inv st \<and> 2 \<le> length (ff_stringVars st) \<and> ff_type st \<in> {''boolean'', ''string''}"

definition flag_input_ok :: "create_flag_input \<Rightarrow> bool" where
  "flag_input_ok i \<longleftrightarrow> key_ok (cf_key i) \<and> trim (cf_name i) \<noteq> [] \<and> 2 \<le> length (cf_variations i) \<and>
     (cf_variations i = [JBool True, JBool False] \<or>
      (\<forall>v\<in>set (cf_variations i). \<exists>s. v = JStr s \<and> s \<noteq> [] \<and> trim s = s))"

lemma flag_input_ok: "key_inv st \<Longrightarrow> flag_canSubmit st \<Longrightarrow> flag_input_ok (flag_input st)"
  by (auto simp: flag_input_ok_def flag_input_def flag_canSubmit_def cleanVars_def dest: named_key_ok)

lemma flag_offers_remove: "offers (CreateFlagDialog p st) (More (RemoveVar i)) \<Longrightarrow>
  2 < length (ff_stringVars st) \<and> i < length (ff_stringVars st)"
  by (auto simp: CreateFlagDialog_def variation_fields_def in_set_enumerate_eq split: if_splits)

lemma flag_offers_pick: "offers (CreateFlagDialog p st) (More (PickType t)) \<Longrightarrow> t \<in> {''boolean'', ''string''}"
  by (auto simp: CreateFlagDialog_def variation_fields_def split: if_splits)

interpretation flag_dialog: component UNIV CreateFlagDialog "\<lambda>_. flag_form_update" flag_inv "\<lambda>_. emits flag_input_ok"
proof
  fix p and s :: flag_form and m assume "flag_inv s" "offers (CreateFlagDialog p s) m"
  then show "flag_inv (fst (flag_form_update s m))"
  proof (cases "(s, m)" rule: flag_form_update.cases)
    case (4 st t)
    then show ?thesis using \<open>flag_inv s\<close> flag_offers_pick [of p s t] \<open>offers _ m\<close>
      by (auto simp: flag_inv_def key_inv_def)
  next
    case (6 st i)
    then show ?thesis using \<open>flag_inv s\<close> flag_offers_remove [of p s i] \<open>offers _ m\<close>
      by (auto simp: flag_inv_def key_inv_def remove_at_length)
  qed (auto simp: flag_inv_def blank_flag_form_def handleNameChange_def edit_key_def
      key_inv_def Let_def split: if_splits)
  show "list_all (emits flag_input_ok) (snd (flag_form_update s m))"
    using \<open>flag_inv s\<close> by (cases "(s, m)" rule: flag_form_update.cases) (auto simp: flag_inv_def flag_input_ok)
qed

section \<open>Roles\<close>

text \<open>The groups of the permission picker: by resource, in order of first appearance.\<close>

definition groups_of :: "string list \<Rightarrow> (string \<times> string list) list" where
  "groups_of ps = map (\<lambda>r. (r, filter (\<lambda>p. resource_of p = r) ps)) (firsts (map resource_of ps))"

lemma map_of_groups:
  "map_of (groups_of ps) r = (if r \<in> resource_of ` set ps then Some (filter (\<lambda>p. resource_of p = r) ps) else None)"
proof -
  have "map_of (map (\<lambda>r. (r, f r)) rs) r = (if r \<in> set rs then Some (f r) else None)" for rs :: "string list" and f :: "string \<Rightarrow> string list"
    by (induction rs) auto
  then show ?thesis by (simp add: groups_of_def)
qed

lemma update_map_key: "distinct rs \<Longrightarrow> k \<in> set rs \<Longrightarrow>
  AList.update k v (map (\<lambda>r. (r, f r)) rs) = map (\<lambda>r. (r, if r = k then v else f r)) rs"
  by (induction rs) auto

lemma groups_snoc:
  "AList.update (resource_of p) (the_default [] (map_of (groups_of ps) (resource_of p)) @ [p]) (groups_of ps)
     = groups_of (ps @ [p])"
proof (cases "resource_of p \<in> resource_of ` set ps")
  case True
  then show ?thesis unfolding map_of_groups
    by (simp add: groups_of_def firsts_snoc update_map_key the_default_def)
next
  case False
  then have "filter (\<lambda>q. resource_of q = resource_of p) ps = []" by (auto simp: filter_empty_conv image_iff)
  then show ?thesis unfolding map_of_groups using False
    by (auto simp: groups_of_def firsts_snoc the_default_def update_absent)
qed

lemma groupByResource_groups: "groupByResource ps = groups_of ps"
proof (induction ps rule: rev_induct)
  case (snoc p ps)
  then show ?case using groups_snoc [of p ps] by (simp add: groupByResource_def)
qed (simp add: groupByResource_def groups_of_def)

lemma resource_action: "CHR ''.'' \<in> set p \<Longrightarrow> resource_of p @ ''.'' @ action_of p = p"
proof -
  assume "CHR ''.'' \<in> set p"
  then obtain a b where p: "p = a @ CHR ''.'' # b" "CHR ''.'' \<notin> set a" by (metis split_list_first)
  then have "split_on CHR ''.'' p = a # split_on CHR ''.'' b" by (simp add: split_on_append_sep)
  then show ?thesis using p join_split_on [of "CHR ''.''" b] by (simp add: resource_of_def action_of_def)
qed

definition role_inv :: "string list \<Rightarrow> role_form \<Rightarrow> bool" where
  "role_inv permissions st \<longleftrightarrow> key_inv st \<and> distinct (rr_selected st) \<and> set (rr_selected st) \<subseteq> set permissions \<and>
     rr_scope st \<in> {''project'', ''organization''}"

definition role_input_ok :: "string list \<Rightarrow> create_role_input \<Rightarrow> bool" where
  "role_input_ok permissions i \<longleftrightarrow> key_ok (ci_key i) \<and> trim (ci_name i) \<noteq> [] \<and> ci_permissions i \<noteq> [] \<and>
     distinct (ci_permissions i) \<and> set (ci_permissions i) \<subseteq> set permissions \<and>
     ci_scope i \<in> {''project'', ''organization''}"

lemma role_offers:
  "offers (CreateRoleDialog p permissions st) (More (Toggle perm)) \<Longrightarrow> perm \<in> set permissions"
  "offers (CreateRoleDialog p permissions st) (More (PickScope s)) \<Longrightarrow> s \<in> {''project'', ''organization''}"
  by (auto simp: CreateRoleDialog_def groupByResource_groups groups_of_def split: if_splits)

interpretation role_dialog: component UNIV "\<lambda>p. CreateRoleDialog p permissions" "\<lambda>_. role_form_update"
  "role_inv permissions" "\<lambda>_. emits (role_input_ok permissions)"
proof
  fix p and s :: role_form and m
  assume inv: "role_inv permissions s" and off: "offers (CreateRoleDialog p permissions s) m"
  show "role_inv permissions (fst (role_form_update s m))"
  proof (cases "(s, m)" rule: role_form_update.cases)
    case (5 st v)
    then show ?thesis using inv role_offers(2) [of p permissions s v] off by (auto simp: role_inv_def key_inv_def)
  next
    case (6 st perm)
    then show ?thesis using inv role_offers(1) [of p permissions s perm] off
      by (auto simp: role_inv_def key_inv_def toggle_in_def)
  qed (use inv in \<open>auto simp: role_inv_def blank_role_form_def handleNameChange_def edit_key_def key_inv_def Let_def
      split: if_splits\<close>)
  show "list_all (emits (role_input_ok permissions)) (snd (role_form_update s m))"
    using inv by (cases "(s, m)" rule: role_form_update.cases)
      (auto simp: role_inv_def role_input_ok_def dest: named_key_ok)
qed

end
