(* ===== verification/AdminDialogs.thy ===== *)
theory AdminDialogs
  imports Dialogs_Props Instructions
begin

text \<open>
  The dialogs without a key field: SDK keys, users, webhooks, members and project roles, and the three
  that propose an on/off change of a flag (\<open>CreateTriggerDialog\<close>, \<open>RequestChangeDialog\<close>,
  \<open>ScheduleChangeDialog\<close>). Those opened by their own trigger button keep \<open>open\<close> in their state and
  clear their fields when they open; the others clear theirs when they close.

  \<open>Date\<close> is the environment of \<open>ScheduleChangeDialog\<close>: the local fields of an instant and the instant
  of a local time depend on the time zone, and are the record \<open>zone\<close>.
\<close>

section \<open>CreateSdkKeyDialog\<close>

record sdk_key_form =
  kk_kind :: string
  kk_name :: string

datatype sdk_key_msg = KOpenChange bool | KPickKind string | KTypeName string | KCreate

definition blank_sdk_key_form :: sdk_key_form where
  "blank_sdk_key_form = \<lparr>kk_kind = ''server'', kk_name = []\<rparr>"

fun sdk_key_update :: "sdk_key_form \<Rightarrow> sdk_key_msg \<Rightarrow> sdk_key_form \<times> (string \<times> string) dialog_out list" where
  "sdk_key_update st (KOpenChange next) = (if next then st else blank_sdk_key_form, [OpenChanged next])"
| "sdk_key_update st (KPickKind v) = (st\<lparr>kk_kind := v\<rparr>, [])"
| "sdk_key_update st (KTypeName v) = (st\<lparr>kk_name := v\<rparr>, [])"
| "sdk_key_update st KCreate = (st, [Emitted (kk_kind st, trim (kk_name st))])"

definition CreateSdkKeyDialog :: "dialog_props \<Rightarrow> sdk_key_form \<Rightarrow> sdk_key_msg node list" where
  "CreateSdkKeyDialog p st = dialog (dp_open p) (KOpenChange False)
     ([Says ''New SDK key'', Says ''Server keys are secret; client keys are public (browser/mobile).''] @
      alert (dp_error p) @
      [Choice ''Kind'' [(''server'', ''Server''), (''client'', ''Client'')] (kk_kind st) True KPickKind,
       Field ''Name'' (kk_name st) True KTypeName,
       Button (if dp_busy p then ''Creating...'' else ''Create key'') (\<not> dp_busy p) KCreate])"

section \<open>CreateUserDialog\<close>

record user_form =
  uf_open :: bool
  uf_email :: string
  uf_fullName :: string
  uf_password :: string
  uf_superuser :: bool

datatype user_msg = UOpenChange bool | UEmail string | UName string | UPassword string | USuperuser bool | UCreate

record create_user_input =
  cu_email :: string
  cu_password :: string
  cu_full_name :: string
  cu_is_superuser :: bool

definition user_canSubmit :: "user_form \<Rightarrow> bool" where
  "user_canSubmit st \<longleftrightarrow> trim (uf_email st) \<noteq> [] \<and> trim (uf_password st) \<noteq> []"

definition blank_user_form :: user_form where
  "blank_user_form = \<lparr>uf_open = False, uf_email = [], uf_fullName = [], uf_password = [], uf_superuser = False\<rparr>"

fun user_update :: "user_form \<Rightarrow> user_msg \<Rightarrow> user_form \<times> create_user_input list" where
  "user_update st (UOpenChange next) = ((if next then blank_user_form else st)\<lparr>uf_open := next\<rparr>, [])"
| "user_update st (UEmail v) = (st\<lparr>uf_email := v\<rparr>, [])"
| "user_update st (UName v) = (st\<lparr>uf_fullName := v\<rparr>, [])"
| "user_update st (UPassword v) = (st\<lparr>uf_password := v\<rparr>, [])"
| "user_update st (USuperuser b) = (st\<lparr>uf_superuser := b\<rparr>, [])"
| "user_update st UCreate = (if \<not> user_canSubmit st then (st, [])
     else (st\<lparr>uf_open := False\<rparr>, [\<lparr>cu_email = trim (uf_email st), cu_password = uf_password st,
       cu_full_name = trim (uf_fullName st), cu_is_superuser = uf_superuser st\<rparr>]))"

definition CreateUserDialog :: "bool \<Rightarrow> string option \<Rightarrow> user_form \<Rightarrow> user_msg node list" where
  "CreateUserDialog busy error st = Button ''New user'' True (UOpenChange True) # dialog (uf_open st) (UOpenChange False)
     ([Says ''New user'', Says ''Create a platform user account.''] @ alert error @
      [Field ''Email'' (uf_email st) True UEmail, Field ''Full name'' (uf_fullName st) True UName,
       Field ''Password'' (uf_password st) True UPassword,
       Check ''Superuser (full cross-organization access)'' (uf_superuser st) True USuperuser,
       Button (if busy then ''Creating...'' else ''Create user'') (user_canSubmit st \<and> \<not> busy) UCreate])"

section \<open>CreateWebhookDialog\<close>

definition EVENT_TYPE_ALL :: string where
  "EVENT_TYPE_ALL = ''*''"

definition WEBHOOK_EVENT_TYPES :: "(string \<times> string) list" where
  "WEBHOOK_EVENT_TYPES = [(''flag.saved'', ''Flag saved''), (''flag.config.patched'', ''Flag config changed''),
     (''flag.deleted'', ''Flag deleted''), (''change.requested'', ''Change requested''),
     (''change.approved'', ''Change approved''), (''change.rejected'', ''Change rejected''),
     (''trigger.fired'', ''Trigger fired'')]"

record webhook_form =
  wf_open :: bool
  wf_url :: string
  wf_description :: string
  wf_allEvents :: bool
  wf_selected :: "string list"

datatype webhook_msg = WOpenChange bool | WUrl string | WDescription string | WAll bool | WToggle string | WCreate

record create_webhook_input =
  cw_url :: string
  cw_event_types :: "string list"
  cw_description :: string

definition webhook_canSubmit :: "webhook_form \<Rightarrow> bool" where
  "webhook_canSubmit st \<longleftrightarrow> trim (wf_url st) \<noteq> [] \<and> (wf_allEvents st \<or> wf_selected st \<noteq> [])"

definition blank_webhook_form :: webhook_form where
  "blank_webhook_form = \<lparr>wf_open = False, wf_url = [], wf_description = [], wf_allEvents = True, wf_selected = []\<rparr>"

fun webhook_update :: "webhook_form \<Rightarrow> webhook_msg \<Rightarrow> webhook_form \<times> create_webhook_input list" where
  "webhook_update st (WOpenChange next) = ((if next then blank_webhook_form else st)\<lparr>wf_open := next\<rparr>, [])"
| "webhook_update st (WUrl v) = (st\<lparr>wf_url := v\<rparr>, [])"
| "webhook_update st (WDescription v) = (st\<lparr>wf_description := v\<rparr>, [])"
| "webhook_update st (WAll b) = (st\<lparr>wf_allEvents := b\<rparr>, [])"
| "webhook_update st (WToggle ev) = (st\<lparr>wf_selected := toggle_in ev (wf_selected st)\<rparr>, [])"
| "webhook_update st WCreate = (if \<not> webhook_canSubmit st then (st, [])
     else (st\<lparr>wf_open := False\<rparr>, [\<lparr>cw_url = trim (wf_url st),
       cw_event_types = (if wf_allEvents st then [EVENT_TYPE_ALL] else wf_selected st),
       cw_description = trim (wf_description st)\<rparr>]))"

definition CreateWebhookDialog :: "bool \<Rightarrow> webhook_form \<Rightarrow> webhook_msg node list" where
  "CreateWebhookDialog busy st =
     Button ''Add webhook'' True (WOpenChange True) # dialog (wf_open st) (WOpenChange False)
     ([Says ''Add a webhook'',
       Says ''Events are delivered as signed POSTs. The signing secret is shown once on create.'',
       Field ''Payload URL'' (wf_url st) True WUrl, Field ''Description'' (wf_description st) True WDescription,
       Check ''All events'' (wf_allEvents st) True WAll] @
      (if wf_allEvents st then []
       else map (\<lambda>(v, label). Check label (v \<in> set (wf_selected st)) True (\<lambda>_. WToggle v)) WEBHOOK_EVENT_TYPES) @
      [Button (if busy then ''Adding...'' else ''Add webhook'') (webhook_canSubmit st \<and> \<not> busy) WCreate])"

section \<open>AddMemberDialog and GrantProjectRoleDialog\<close>

record member_form =
  mf_email :: string
  mf_role :: string

datatype member_msg = MOpenChange bool | MEmail string | MRole string | MAdd

definition blank_member_form :: member_form where
  "blank_member_form = \<lparr>mf_email = [], mf_role = []\<rparr>"

fun member_update :: "member_form \<Rightarrow> member_msg \<Rightarrow> member_form \<times> (string \<times> string option) dialog_out list" where
  "member_update st (MOpenChange next) = (if next then st else blank_member_form, [OpenChanged next])"
| "member_update st (MEmail v) = (st\<lparr>mf_email := v\<rparr>, [])"
| "member_update st (MRole v) = (st\<lparr>mf_role := v\<rparr>, [])"
| "member_update st MAdd = (st, if trim (mf_email st) \<noteq> []
     then [Emitted (trim (mf_email st), if mf_role st = [] then None else Some (mf_role st))] else [])"

definition role_options :: "string \<Rightarrow> role list \<Rightarrow> (string \<times> string) list" where
  "role_options blank roles = ([], blank) # map (\<lambda>r. (rl_key r, rl_name r)) roles"

definition AddMemberDialog :: "dialog_props \<Rightarrow> role list \<Rightarrow> member_form \<Rightarrow> member_msg node list" where
  "AddMemberDialog p roles st = dialog (dp_open p) (MOpenChange False)
     ([Says ''Add member'', Says ''Add an existing user to this organization.''] @ alert (dp_error p) @
      [Field ''Email'' (mf_email st) True MEmail,
       Choice ''Role'' (role_options ''No role'' roles) (mf_role st) True MRole,
       Button (if dp_busy p then ''Adding...'' else ''Add member'') (trim (mf_email st) \<noteq> [] \<and> \<not> dp_busy p) MAdd])"

record grant_form =
  rg_open :: bool
  rg_email :: string
  rg_role :: string

datatype grant_msg = GOpenChange bool | GEmail string | GRole string | GGrant

definition grant_canSubmit :: "grant_form \<Rightarrow> bool" where
  "grant_canSubmit st \<longleftrightarrow> trim (rg_email st) \<noteq> [] \<and> rg_role st \<noteq> []"

fun grant_update :: "grant_form \<Rightarrow> grant_msg \<Rightarrow> grant_form \<times> (string \<times> string) list" where
  "grant_update st (GOpenChange next) =
     ((if next then \<lparr>rg_open = False, rg_email = [], rg_role = []\<rparr> else st)\<lparr>rg_open := next\<rparr>, [])"
| "grant_update st (GEmail v) = (st\<lparr>rg_email := v\<rparr>, [])"
| "grant_update st (GRole v) = (st\<lparr>rg_role := v\<rparr>, [])"
| "grant_update st GGrant = (if \<not> grant_canSubmit st then (st, [])
     else (st\<lparr>rg_open := False\<rparr>, [(trim (rg_email st), rg_role st)]))"

definition GrantProjectRoleDialog ::
  "string \<Rightarrow> role list \<Rightarrow> bool \<Rightarrow> string option \<Rightarrow> grant_form \<Rightarrow> grant_msg node list" where
  "GrantProjectRoleDialog projectKey roles busy error st =
     Button ''Grant project role'' True (GOpenChange True) # dialog (rg_open st) (GOpenChange False)
     ([Says ''Grant project role'', Says (''Give a user a role on '' @ projectKey @ '' only.'')] @ alert error @
      [Field ''Email'' (rg_email st) True GEmail,
       Choice ''Role'' (role_options ''Select a role'' roles) (rg_role st) True GRole,
       Button (if busy then ''Granting...'' else ''Grant role'') (grant_canSubmit st \<and> \<not> busy) GGrant])"

section \<open>CreateTriggerDialog\<close>

record trigger_form =
  tf_open :: bool
  tf_action :: string
  tf_description :: string

datatype trigger_msg = TOpenChange bool | TAction string | TDescription string | TCreate

fun trigger_update :: "trigger_form \<Rightarrow> trigger_msg \<Rightarrow> trigger_form \<times> (string \<times> string) list" where
  "trigger_update st (TOpenChange next) =
     ((if next then st\<lparr>tf_action := ''on'', tf_description := []\<rparr> else st)\<lparr>tf_open := next\<rparr>, [])"
| "trigger_update st (TAction v) = (st\<lparr>tf_action := v\<rparr>, [])"
| "trigger_update st (TDescription v) = (st\<lparr>tf_description := v\<rparr>, [])"
| "trigger_update st TCreate = (st\<lparr>tf_open := False\<rparr>, [(tf_action st, trim (tf_description st))])"

definition on_off :: "(string \<times> string) list" where
  "on_off = [(''on'', ''Turn targeting on''), (''off'', ''Turn targeting off'')]"

definition CreateTriggerDialog :: "string \<Rightarrow> bool \<Rightarrow> trigger_form \<Rightarrow> trigger_msg node list" where
  "CreateTriggerDialog envKey busy st =
     Button ''Create trigger'' True (TOpenChange True) # dialog (tf_open st) (TOpenChange False)
     [Says ''Create a trigger'',
      Says (''A webhook URL that, when POSTed to, applies an action to '' @ envKey @ ''. The URL is shown once.''),
      Choice ''Action'' on_off (tf_action st) True TAction,
      Field ''Description'' (tf_description st) True TDescription,
      Button (if busy then ''Creating...'' else ''Create trigger'') (\<not> busy) TCreate]"

section \<open>RequestChangeDialog\<close>

definition opposite :: "bool \<Rightarrow> string" where
  "opposite currentOn = (if currentOn then ''off'' else ''on'')"

definition turn_flag :: "string \<Rightarrow> flag_instruction list" where
  "turn_flag target = [instruction (if target = ''on'' then ''turnFlagOn'' else ''turnFlagOff'')]"

record change_form =
  hf_open :: bool
  hf_target :: string
  hf_comment :: string

datatype change_msg = COpenChange bool | CTarget string | CComment string | CSubmit

definition initial_change_form :: "bool \<Rightarrow> change_form" where
  "initial_change_form currentOn = \<lparr>hf_open = False, hf_target = opposite currentOn, hf_comment = []\<rparr>"

fun change_update :: "bool \<Rightarrow> change_form \<Rightarrow> change_msg \<Rightarrow> change_form \<times> (flag_instruction list \<times> string) list" where
  "change_update currentOn st (COpenChange next) =
     ((if next then st\<lparr>hf_target := opposite currentOn, hf_comment := []\<rparr> else st)\<lparr>hf_open := next\<rparr>, [])"
| "change_update currentOn st (CTarget v) = (st\<lparr>hf_target := v\<rparr>, [])"
| "change_update currentOn st (CComment v) = (st\<lparr>hf_comment := v\<rparr>, [])"
| "change_update currentOn st CSubmit =
     (st\<lparr>hf_open := False\<rparr>, [(turn_flag (hf_target st), trim (hf_comment st))])"

definition RequestChangeDialog :: "string \<Rightarrow> bool \<Rightarrow> change_form \<Rightarrow> change_msg node list" where
  "RequestChangeDialog envKey busy st =
     Button ''Request change'' True (COpenChange True) # dialog (hf_open st) (COpenChange False)
     [Says ''Request a change'',
      Says (''Propose a change to '' @ envKey @ '' for review. It is applied only once a reviewer approves it.''),
      Choice ''Targeting'' on_off (hf_target st) True CTarget,
      Field ''Comment'' (hf_comment st) True CComment,
      Button (if busy then ''Submitting...'' else ''Submit request'') (\<not> busy) CSubmit]"

section \<open>ScheduleChangeDialog\<close>

record zone =
  zn_fields :: "int \<Rightarrow> nat \<times> nat \<times> nat \<times> nat \<times> nat"
  zn_iso :: "string \<Rightarrow> string option"

definition pad2 :: "nat \<Rightarrow> string" where
  "pad2 n = (if length (show_nat n) < 2 then CHR ''0'' # show_nat n else show_nat n)"

text \<open>\<open>defaultLocalDateTime\<close>; the month counts from zero, instants are milliseconds.\<close>

definition defaultLocalDateTime :: "zone \<Rightarrow> int \<Rightarrow> string" where
  "defaultLocalDateTime z now =
     (case zn_fields z (now + 60 * 60 * 1000) of (y, mo, d, h, mi) \<Rightarrow>
        show_nat y @ ''-'' @ pad2 (mo + 1) @ ''-'' @ pad2 d @ ''T'' @ pad2 h @ '':'' @ pad2 mi)"

record schedule_form =
  hs_open :: bool
  hs_target :: string
  hs_when :: string
  hs_comment :: string

datatype schedule_msg = SOpenChange bool int | STarget string | SWhen string | SComment string | SSubmit

definition initial_schedule_form :: "bool \<Rightarrow> schedule_form" where
  "initial_schedule_form currentOn = \<lparr>hs_open = False, hs_target = opposite currentOn, hs_when = [], hs_comment = []\<rparr>"

text \<open>\<open>new Date(when).toISOString()\<close> throws for a time that does not parse; the form then stays open.\<close>

fun schedule_update ::
  "zone \<Rightarrow> bool \<Rightarrow> schedule_form \<Rightarrow> schedule_msg \<Rightarrow> schedule_form \<times> (flag_instruction list \<times> string \<times> string) list" where
  "schedule_update z currentOn st (SOpenChange next now) =
     ((if next then st\<lparr>hs_target := opposite currentOn, hs_when := defaultLocalDateTime z now, hs_comment := []\<rparr> else st)
        \<lparr>hs_open := next\<rparr>, [])"
| "schedule_update z currentOn st (STarget v) = (st\<lparr>hs_target := v\<rparr>, [])"
| "schedule_update z currentOn st (SWhen v) = (st\<lparr>hs_when := v\<rparr>, [])"
| "schedule_update z currentOn st (SComment v) = (st\<lparr>hs_comment := v\<rparr>, [])"
| "schedule_update z currentOn st SSubmit =
     (if hs_when st = [] then (st, [])
      else (case zn_iso z (hs_when st) of
          None \<Rightarrow> (st, [])
        | Some instant \<Rightarrow> (st\<lparr>hs_open := False\<rparr>, [(turn_flag (hs_target st), instant, trim (hs_comment st))])))"

definition ScheduleChangeDialog :: "string \<Rightarrow> bool \<Rightarrow> int \<Rightarrow> schedule_form \<Rightarrow> schedule_msg node list" where
  "ScheduleChangeDialog envKey busy now st =
     Button ''Schedule change'' True (SOpenChange True now) # dialog (hs_open st) (SOpenChange False now)
     [Says ''Schedule a change'',
      Says (''Apply a change to '' @ envKey @ '' automatically at a future time. Cancel it before then to prevent it.''),
      Choice ''Targeting'' on_off (hs_target st) True STarget,
      Field ''Apply at'' (hs_when st) True SWhen,
      Field ''Comment'' (hs_comment st) True SComment,
      Button (if busy then ''Scheduling...'' else ''Schedule'') (\<not> busy \<and> hs_when st \<noteq> []) SSubmit]"

section \<open>What the dialogs emit\<close>

definition webhook_inv :: "webhook_form \<Rightarrow> bool" where
  "webhook_inv st \<longleftrightarrow> distinct (wf_selected st) \<and> set (wf_selected st) \<subseteq> fst ` set WEBHOOK_EVENT_TYPES"

definition webhook_input_ok :: "create_webhook_input \<Rightarrow> bool" where
  "webhook_input_ok i \<longleftrightarrow> cw_url i \<noteq> [] \<and> trim (cw_url i) = cw_url i \<and>
     (cw_event_types i = [EVENT_TYPE_ALL] \<or>
      cw_event_types i \<noteq> [] \<and> distinct (cw_event_types i) \<and> set (cw_event_types i) \<subseteq> fst ` set WEBHOOK_EVENT_TYPES)"

lemma webhook_offers: "offers (CreateWebhookDialog busy st) (WToggle ev) \<Longrightarrow> ev \<in> fst ` set WEBHOOK_EVENT_TYPES"
  by (auto simp: CreateWebhookDialog_def image_iff split: if_splits) force+

interpretation webhook_dialog: component UNIV CreateWebhookDialog "\<lambda>_. webhook_update" webhook_inv "\<lambda>_. webhook_input_ok"
proof
  fix busy s m assume inv: "webhook_inv s" and off: "offers (CreateWebhookDialog busy s) m"
  show "webhook_inv (fst (webhook_update s m))"
  proof (cases m)
    case (WToggle ev)
    then show ?thesis using inv webhook_offers [of busy s ev] off by (auto simp: webhook_inv_def toggle_in_def)
  qed (use inv in \<open>auto simp: webhook_inv_def blank_webhook_form_def\<close>)
  show "list_all webhook_input_ok (snd (webhook_update s m))"
    using inv by (cases m) (auto simp: webhook_inv_def webhook_input_ok_def webhook_canSubmit_def)
qed

definition user_input_ok :: "create_user_input \<Rightarrow> bool" where
  "user_input_ok i \<longleftrightarrow> cu_email i \<noteq> [] \<and> trim (cu_email i) = cu_email i \<and> trim (cu_password i) \<noteq> []"

interpretation user_dialog: component UNIV "\<lambda>(busy, error). CreateUserDialog busy error" "\<lambda>_. user_update"
  "\<lambda>_. True" "\<lambda>_. user_input_ok"
proof
  fix s m
  show "list_all user_input_ok (snd (user_update s m))"
    by (cases m) (auto simp: user_input_ok_def user_canSubmit_def)
qed simp

definition grant_ok :: "role list \<Rightarrow> string \<times> string \<Rightarrow> bool" where
  "grant_ok roles g \<longleftrightarrow> fst g \<noteq> [] \<and> snd g \<noteq> [] \<and> snd g \<in> rl_key ` set roles"

definition grant_inv :: "role list \<Rightarrow> grant_form \<Rightarrow> bool" where
  "grant_inv roles st \<longleftrightarrow> rg_role st = [] \<or> rg_role st \<in> rl_key ` set roles"

interpretation grant_dialog: component UNIV "\<lambda>(busy, error). GrantProjectRoleDialog projectKey roles busy error"
  "\<lambda>_. grant_update" "grant_inv roles" "\<lambda>_. grant_ok roles"
proof
  fix p s m assume inv: "grant_inv roles s"
    and off: "offers ((\<lambda>(busy, error). GrantProjectRoleDialog projectKey roles busy error) p s) m"
  show "grant_inv roles (fst (grant_update s m))"
    using inv off by (cases p; cases m) (auto simp: grant_inv_def GrantProjectRoleDialog_def role_options_def)
  show "list_all (grant_ok roles) (snd (grant_update s m))"
    using inv by (cases m) (auto simp: grant_inv_def grant_ok_def grant_canSubmit_def)
qed

definition turns :: "flag_instruction list \<Rightarrow> bool" where
  "turns xs \<longleftrightarrow> xs = [instruction ''turnFlagOn''] \<or> xs = [instruction ''turnFlagOff'']"

lemma turns_turn_flag [simp]: "turns (turn_flag t)"
  by (simp add: turns_def turn_flag_def)

interpretation change_dialog: component UNIV "\<lambda>(envKey, busy, currentOn). RequestChangeDialog envKey busy"
  "\<lambda>(envKey, busy, currentOn). change_update currentOn" "\<lambda>_. True" "\<lambda>_. turns \<circ> fst"
proof
  fix p :: "string \<times> bool \<times> bool" and s m
  show "list_all (turns \<circ> fst) (snd ((\<lambda>(envKey, busy, currentOn). change_update currentOn) p s m))"
    by (cases p; cases m) auto
qed simp

interpretation schedule_dialog: component UNIV "\<lambda>(envKey, busy, now, currentOn). ScheduleChangeDialog envKey busy now"
  "\<lambda>(envKey, busy, now, currentOn). schedule_update z currentOn"
  "\<lambda>_. True" "\<lambda>_ e. turns (fst e) \<and> fst (snd e) \<in> ran (zn_iso z)"
proof
  fix p :: "string \<times> bool \<times> int \<times> bool" and s m
  show "list_all (\<lambda>e. turns (fst e) \<and> fst (snd e) \<in> ran (zn_iso z))
    (snd ((\<lambda>(envKey, busy, now, currentOn). schedule_update z currentOn) p s m))"
    by (cases p; cases m) (auto simp: ran_def split: option.splits)
qed simp

end
