(* ===== verification/FlagPanels.thy ===== *)
theory FlagPanels
  imports RuleForms AdminDialogs Hooks
begin

text \<open>
  The panels of a flag's page (\<open>web/src/features/flags/components\<close>): the rule list with its editors,
  the individual targets, the default rule, the configuration card, scheduled changes and triggers. A
  panel's outputs are the callbacks of its container. \<open>fmt\<close> is \<open>toLocaleString\<close> of a date, which
  depends on the locale and the time zone.
\<close>

section \<open>FlagRules\<close>

text \<open>Rules have distinct ids, so at most one is edited; its form is mounted when the editing starts.\<close>

record flag_rules =
  rs_editingId :: "string option"
  rs_edit :: rule_form
  rs_add :: rule_form

datatype rules_msg =
    Move nat int
  | StartEdit flag_rule
  | RemoveFlagRule string
  | InEdit flag_rule form_event
  | CancelEdit
  | InAdd form_event

datatype rules_out =
    AddRule "clause list" variation_or_rollout
  | UpdateRule string "clause list" variation_or_rollout
  | RemoveRule string
  | ReorderRules "string list"

definition initial_rules :: "js list \<Rightarrow> flag_rules" where
  "initial_rules variations = \<lparr>rs_editingId = None, rs_edit = RuleForm (add_props variations False),
     rs_add = RuleForm (add_props variations False)\<rparr>"

definition emit_rule :: "('a \<Rightarrow> 'b \<Rightarrow> rules_out) \<Rightarrow> ('a \<times> 'b) option \<Rightarrow> rules_out list" where
  "emit_rule f x = (case x of None \<Rightarrow> [] | Some (cs, v) \<Rightarrow> [f cs v])"

fun rules_update ::
  "js list \<Rightarrow> flag_rule list \<Rightarrow> bool \<Rightarrow> flag_rules \<Rightarrow> rules_msg \<Rightarrow> flag_rules \<times> rules_out list" where
  "rules_update vs rules busy st (Move i delta) =
     (st, case move rules i delta of None \<Rightarrow> [] | Some ids \<Rightarrow> [ReorderRules ids])"
| "rules_update vs rules busy st (StartEdit rule) =
     (st\<lparr>rs_editingId := fr_id rule, rs_edit := RuleForm (edit_props vs rule busy)\<rparr>, [])"
| "rules_update vs rules busy st (RemoveFlagRule i) = (st, [RemoveRule i])"
| "rules_update vs rules busy st (InEdit rule e) =
     (let (f, out) = form_handler (edit_props vs rule busy) (rs_edit st) e
      in (case out of
            None \<Rightarrow> (st\<lparr>rs_edit := f\<rparr>, [])
          | Some (cs, v) \<Rightarrow> (st\<lparr>rs_edit := f, rs_editingId := None\<rparr>, [UpdateRule (the_default [] (fr_id rule)) cs v])))"
| "rules_update vs rules busy st CancelEdit = (st\<lparr>rs_editingId := None\<rparr>, [])"
| "rules_update vs rules busy st (InAdd e) =
     (let (f, out) = form_handler (add_props vs busy) (rs_add st) e
      in (st\<lparr>rs_add := f\<rparr>, emit_rule AddRule out))"

definition rule_clause_texts :: "flag_rule \<Rightarrow> 'm node list" where
  "rule_clause_texts rule = map (\<lambda>(j, c). Says ((if j = 0 then ''If '' else ''and '') @ clauseText c))
     (enumerate 0 (fr_clauses rule))"

definition rule_row :: "js list \<Rightarrow> nat \<Rightarrow> bool \<Rightarrow> int \<Rightarrow> flag_rules \<Rightarrow> nat \<Rightarrow> flag_rule \<Rightarrow> rules_msg node list" where
  "rule_row vs n busy r st i rule =
     (if truthy_opt (rs_editingId st) \<and> fr_id rule = rs_editingId st
      then map (map_node (InEdit rule)) (RuleForm_view (edit_props vs rule busy) ''Save'' r (rs_edit st)) @
        [Button ''Cancel'' (\<not> busy) CancelEdit]
      else [Button ''Move rule up'' (\<not> (busy \<or> i = 0)) (Move i (- 1)),
            Button ''Move rule down'' (\<not> (busy \<or> i = n - 1)) (Move i 1)] @
        rule_clause_texts rule @ [Says (''serve '' @ served_text vs rule)] @
        (if truthy_opt (fr_id rule)
         then [Button ''Edit'' (\<not> busy) (StartEdit rule),
               Button ''Remove'' (\<not> busy) (RemoveFlagRule (the (fr_id rule)))]
         else []))"

definition FlagRules :: "js list \<Rightarrow> flag_rule list \<Rightarrow> bool \<Rightarrow> int \<Rightarrow> flag_rules \<Rightarrow> rules_msg node list" where
  "FlagRules vs rules busy r st =
     (if rules = [] then [Says ''No rules.'']
      else concat (map (\<lambda>(i, rule). rule_row vs (length rules) busy r st i rule) (enumerate 0 rules))) @
     [Says ''New rule''] @ map (map_node InAdd) (RuleForm_view (add_props vs busy) ''Add rule'' r (rs_add st))"

section \<open>IndividualTargets, FlagTargeting, FlagConfigCard\<close>

record targets_form =
  it_key :: string
  it_variation :: int

datatype targets_event = ItKey string | ItVariation nat | ItAdd | ItRemove int string

datatype target_out = OnAdd int string | OnRemove int string

fun individual_update :: "targets_form \<Rightarrow> targets_event \<Rightarrow> targets_form \<times> target_out list" where
  "individual_update st (ItKey v) = (st\<lparr>it_key := v\<rparr>, [])"
| "individual_update st (ItVariation i) = (st\<lparr>it_variation := int i\<rparr>, [])"
| "individual_update st ItAdd = (let (k, out) = add_target (it_key st) (it_variation st)
     in (st\<lparr>it_key := k\<rparr>, case out of None \<Rightarrow> [] | Some (v, key) \<Rightarrow> [OnAdd v key]))"
| "individual_update st (ItRemove v key) = (st, [OnRemove v key])"

definition IndividualTargets :: "js list \<Rightarrow> target list \<Rightarrow> bool \<Rightarrow> targets_form \<Rightarrow> targets_event node list" where
  "IndividualTargets vs targets disabled st =
     (if hasTargets targets
      then concat (map (\<lambda>(v, key, label). [Badge ''secondary'' key, Says ''serves'', Says label,
          Button (''Remove '' @ key) (\<not> disabled) (ItRemove v key)]) (target_rows vs targets))
      else [Says ''No individual targets.'']) @
     [Field ''Context key'' (it_key st) (\<not> disabled) ItKey, Says ''serves''] @
     VariationSelect ''variation'' vs (it_variation st) disabled ItVariation @
     [Button ''Add'' (\<not> (disabled \<or> trim (it_key st) = [])) ItAdd]"

datatype targeting_msg = SetFallthrough nat | SetOffVariation nat | InTargets targets_event

definition FlagTargeting_view ::
  "js list \<Rightarrow> flag_config \<Rightarrow> bool \<Rightarrow> targets_form \<Rightarrow> targeting_msg node list" where
  "FlagTargeting_view vs config busy st =
     (case FlagTargeting config of (fallthrough, off, isRollout) \<Rightarrow>
        [Says ''Default rule''] @ VariationSelect ''When on, serve'' vs fallthrough busy SetFallthrough @
        says_if isRollout ''(replaces the percentage rollout)'' @
        VariationSelect ''When off, serve'' vs off busy SetOffVariation @
        [Says ''Individual targets''] @
        map (map_node InTargets) (IndividualTargets vs (fc_targets config) busy st))"

definition FlagConfigCard :: "js list \<Rightarrow> flag_config \<Rightarrow> bool \<Rightarrow> bool node list" where
  "FlagConfigCard vs config isToggling =
     [Says (if fc_on config then ''On'' else ''Off''),
      Check ''Toggle flag'' (fc_on config) (\<not> isToggling) (\<lambda>on. on),
      Says (''When on, serves '' @ the_default ''-'' (fallthroughLabel config vs) @ ''.''),
      Says (''When off, serves '' @ variationLabel vs (fc_off_variation config) @ ''.''),
      Says (join '' - '' (config_summary config))]"

section \<open>ScheduledChangesCard\<close>

definition scheduled_label :: "scheduled_status \<Rightarrow> string" where
  "scheduled_label s = (case s of ScPending \<Rightarrow> ''pending'' | ScApplied \<Rightarrow> ''applied'' | ScCancelled \<Rightarrow> ''cancelled''
     | ScFailed \<Rightarrow> ''failed'')"

definition scheduled_variant :: "scheduled_status \<Rightarrow> string" where
  "scheduled_variant s = (case s of ScPending \<Rightarrow> ''secondary'' | ScApplied \<Rightarrow> ''default''
     | ScCancelled \<Rightarrow> ''destructive'' | ScFailed \<Rightarrow> ''destructive'')"

definition quoted :: "string \<Rightarrow> string" where
  "quoted s = CHR 0x22 # s @ [CHR 0x22]"

definition scheduled_row :: "(string \<Rightarrow> string) \<Rightarrow> bool \<Rightarrow> bool \<Rightarrow> scheduled_change \<Rightarrow> string node list" where
  "scheduled_row fmt cancels busy c =
     [Badge (scheduled_variant (sc_status c)) (scheduled_label (sc_status c)),
      Says (instructionsText (sc_instructions c)),
      Says ((if sc_status c = ScApplied \<and> truthy_opt (sc_applied_at c)
          then ''Applied '' @ fmt (the (sc_applied_at c)) else ''For '' @ fmt (sc_scheduled_for c)) @
        (if sc_created_by_email c \<noteq> [] then '' - by '' @ sc_created_by_email c else []))] @
     says_if (sc_comment c \<noteq> []) (quoted (sc_comment c)) @
     says_if (sc_status c = ScFailed \<and> truthy_opt (sc_error c)) (the_default [] (sc_error c)) @
     (if sc_status c = ScPending \<and> cancels then [Button ''Cancel'' (\<not> busy) (sc_id c)] else [])"

text \<open>The message is the id handed to \<open>onCancel\<close>; \<open>cancels\<close>: whether it is passed.\<close>

definition ScheduledChangesCard :: "(string \<Rightarrow> string) \<Rightarrow> bool \<Rightarrow> bool \<Rightarrow> scheduled_change list \<Rightarrow> string node list" where
  "ScheduledChangesCard fmt cancels busy changes =
     [Says ''Scheduled changes'', Says ''Changes applied automatically at a future time.''] @
     (if changes = [] then [Says ''No scheduled changes.'']
      else concat (map (scheduled_row fmt cancels busy) changes))"

section \<open>TriggersCard\<close>

datatype triggers_msg = DismissUrl | EnableTrigger string bool | ResetTrigger string | DeleteTrigger string

definition action_text :: "trigger_action \<Rightarrow> string" where
  "action_text a = (case a of TrOn \<Rightarrow> ''on'' | TrOff \<Rightarrow> ''off'')"

definition trigger_row :: "(string \<Rightarrow> string) \<Rightarrow> bool \<Rightarrow> flag_trigger \<Rightarrow> triggers_msg node list" where
  "trigger_row fmt busy t =
     [Badge (if tr_action t = TrOn then ''default'' else ''secondary'') (''Turn '' @ action_text (tr_action t))] @
     (if tr_enabled t then [] else [Badge ''destructive'' ''Disabled'']) @
     says_if (tr_description t \<noteq> []) (tr_description t) @
     [Says (''Fired '' @ show_int (tr_exec_count t) @ ''x'' @
        (if truthy_opt (tr_last_executed_at t) then '' - last '' @ fmt (the (tr_last_executed_at t)) else [])),
      Check (''Enable trigger '' @ (if tr_description t \<noteq> [] then tr_description t else action_text (tr_action t)))
        (tr_enabled t) (\<not> busy) (EnableTrigger (tr_id t)),
      Button ''Reset URL'' (\<not> busy) (ResetTrigger (tr_id t)),
      Button ''Delete'' (\<not> busy) (DeleteTrigger (tr_id t))]"

definition TriggersCard ::
  "(string \<Rightarrow> string) \<Rightarrow> bool \<Rightarrow> string option \<Rightarrow> flag_trigger list \<Rightarrow> triggers_msg node list" where
  "TriggersCard fmt busy revealedUrl triggers =
     [Says ''Triggers'', Says ''Webhook URLs that apply an action when POSTed to - e.g. from an alerting system.''] @
     (if truthy_opt revealedUrl
      then [Says ''Webhook URL - copy it now, it won't be shown again'', Says (the revealedUrl),
            Button ''Dismiss'' True DismissUrl]
      else []) @
     (if triggers = [] then [Says ''No triggers.''] else concat (map (trigger_row fmt busy) triggers))"

end
