(* ===== verification/FlagPanels_Props.thy ===== *)
theory FlagPanels_Props
  imports FlagPanels
begin

text \<open>
  What the rule list and its forms guarantee. A rule that leaves a form has usable clauses and serves
  either an existing variation or a rollout over the flag's variations that adds up to all contexts;
  the rule list only names rules it shows. The vocabulary is \<open>served_range\<close> (what a stored rule must
  satisfy for its form to start well), \<open>rule_ok\<close> (what a form emits) and \<open>rules_out_ok\<close>.
\<close>

section \<open>Served values\<close>

definition served_range :: "js list \<Rightarrow> variation_or_rollout \<Rightarrow> bool" where
  "served_range vs v \<longleftrightarrow>
     (case vr_variation v of Some i \<Rightarrow> 0 \<le> i \<and> i < int (length vs) | None \<Rightarrow> True) \<and>
     (case vr_rollout v of Some ro \<Rightarrow> list_all (\<lambda>w. 0 \<le> wv_weight w \<and> wv_weight w \<le> 100000) (ro_variations ro) | None \<Rightarrow> True)"

definition rollout_full :: "js list \<Rightarrow> rollout \<Rightarrow> bool" where
  "rollout_full vs ro \<longleftrightarrow> map wv_variation (ro_variations ro) = map int [0..<length vs] \<and>
     list_all (\<lambda>w. 0 \<le> wv_weight w) (ro_variations ro) \<and> sum_list (map wv_weight (ro_variations ro)) = 100000"

definition rule_ok :: "js list \<Rightarrow> clause list \<times> variation_or_rollout \<Rightarrow> bool" where
  "rule_ok vs x \<longleftrightarrow> clausesValid (fst x) \<and>
     (case (vr_variation (snd x), vr_rollout (snd x)) of
        (Some i, None) \<Rightarrow> 0 \<le> i \<and> i < int (length vs) | (None, Some ro) \<Rightarrow> rollout_full vs ro | _ \<Rightarrow> False)"

text \<open>The percentages a rollout starts the form with stay between 0 and 100.\<close>

definition percents_ok :: "int list \<Rightarrow> bool" where
  "percents_ok ps \<longleftrightarrow> list_all (\<lambda>p. 0 \<le> p \<and> p \<le> 100) ps"

lemma percents_ok_update: "percents_ok ps \<Longrightarrow> 0 \<le> p \<Longrightarrow> p \<le> 100 \<Longrightarrow> percents_ok (ps[i := p])"
  using set_update_subset_insert [of ps i p] by (auto simp: percents_ok_def list_all_iff)

lemma put_percent_ok:
  assumes "percents_ok ps" "0 \<le> wv_weight w" "wv_weight w \<le> 100000"
  shows "percents_ok (put_percent n w ps)"
proof -
  have "js_round (of_int (wv_weight w) / 1000) \<le> js_round (of_int 100)"
    "js_round (of_int 0) \<le> js_round (of_int (wv_weight w) / 1000)"
    using assms(2,3) unfolding js_round_def by (intro floor_mono; simp)+
  then show ?thesis using assms(1) unfolding js_round_int by (simp add: put_percent_def percents_ok_update)
qed

lemma percentsFromRollout_ok:
  assumes "case ro of Some r \<Rightarrow> list_all (\<lambda>w. 0 \<le> wv_weight w \<and> wv_weight w \<le> 100000) (ro_variations r) | None \<Rightarrow> True"
  shows "percents_ok (percentsFromRollout ro n)"
proof -
  have "percents_ok (fold (put_percent n) ws ps)"
    if "list_all (\<lambda>w. 0 \<le> wv_weight w \<and> wv_weight w \<le> 100000) ws" "percents_ok ps" for ws ps
    using that by (induction ws arbitrary: ps) (auto simp: put_percent_ok)
  moreover have "percents_ok (replicate (nat n) 0)" by (simp add: percents_ok_def list_all_iff)
  ultimately show ?thesis using assms by (cases ro) (simp_all add: percentsFromRollout_def)
qed

lemma evenPercents_ok: "percents_ok (evenPercents n)"
proof (cases "0 < n")
  case True
  then have "0 \<le> 100 div n" by (simp add: pos_imp_zdiv_nonneg_iff)
  then show ?thesis using evenPercents_close [OF True] by (fastforce simp: percents_ok_def list_all_iff)
qed (simp add: evenPercents_def percents_ok_def)

section \<open>The form\<close>

definition form_inv :: "js list \<Rightarrow> rule_form \<Rightarrow> bool" where
  "form_inv vs st \<longleftrightarrow> length (rf_percents st) = length vs \<and> percents_ok (rf_percents st) \<and>
     0 \<le> rf_variation st \<and> rf_variation st < int (length vs)"

definition props_ok :: "js list \<Rightarrow> rule_form_props \<Rightarrow> bool" where
  "props_ok vs p \<longleftrightarrow> vs \<noteq> [] \<and> rp_variations p = vs \<and>
     (case rp_initialServe p of Some v \<Rightarrow> served_range vs v | None \<Rightarrow> True)"

lemma reset_form_inv: "props_ok vs p \<Longrightarrow> form_inv vs (reset_form p texts)"
  by (cases "rp_initialServe p") (auto simp: props_ok_def form_inv_def reset_form_def initial_rollout_def evenPercents_length
      evenPercents_ok percentsFromRollout_length percentsFromRollout_ok served_range_def the_default_def
      intro!: percentsFromRollout_ok split: option.splits)

lemma set_draft_fields [simp]:
  "rf_percents (set_draft cs st) = rf_percents st" "rf_variation (set_draft cs st) = rf_variation st"
  by (simp_all add: set_draft_def)

lemma form_handler_inv:
  assumes "props_ok vs p" "form_inv vs st" "offers (RuleForm_view p label r st) e"
  shows "form_inv vs (fst (form_handler p st e))"
proof (cases "(p, st, e)" rule: form_handler.cases)
  case (5 p' st' i)
  then show ?thesis using assms
    by (auto simp: RuleForm_view_def ClauseEditor_def VariationSelect_def RolloutEditor_def props_ok_def form_inv_def split: if_splits)
next
  case (6 p' st' i v)
  then show ?thesis using assms(2) clampPercent_range [of v]
    by (simp add: form_inv_def rollout_edit_def percents_ok_update)
next
  case (11 p' st')
  then show ?thesis using assms(1,2) by (simp add: submit_def reset_form_inv)
qed (use assms(2) in \<open>simp_all add: form_inv_def\<close>)

lemma map_enumerate_snd: "map (\<lambda>x. f (fst x)) (enumerate n xs) = map f [n..<n + length xs]"
  by (induction xs arbitrary: n) (simp_all add: upt_rec)

lemma rollout_full_form:
  assumes "form_inv vs st" "rolloutValid st"
  shows "rollout_full vs (rolloutFromPercents (rf_percents st) opts)"
proof -
  let ?r = "rolloutFromPercents (rf_percents st) opts"
  have "map wv_variation (ro_variations ?r) = map int [0..<length vs]"
    using assms(1) map_enumerate_snd [of int 0 "rf_percents st"]
    by (simp add: rolloutFromPercents_def form_inv_def comp_def case_prod_beta)
  moreover have "sum_list (map wv_weight (ro_variations ?r)) = 100000"
    using assms(2) by (simp add: rolloutFromPercents_total rolloutValid_def foldl_plus_int)
  moreover have "list_all (\<lambda>w. 0 \<le> w) (map wv_weight (ro_variations ?r))"
    using assms(1) by (auto simp: rolloutFromPercents_weights form_inv_def percents_ok_def list_all_iff)
  ultimately show ?thesis by (simp add: rollout_full_def list_all_iff)
qed

lemma served_ok:
  "form_inv vs st \<Longrightarrow> canSubmit st \<Longrightarrow> rule_ok vs (rf_draft st, served_of st)"
  by (auto simp: rule_ok_def canSubmit_def served_of_def form_inv_def rollout_full_form)

lemma form_handler_emits:
  "form_inv vs st \<Longrightarrow> snd (form_handler p st e) = Some x \<Longrightarrow> rule_ok vs x"
  by (cases "(p, st, e)" rule: form_handler.cases) (auto simp: submit_def served_ok split: if_splits)

lemma rule_ok_range: "rule_ok vs x \<Longrightarrow> served_range vs (snd x)"
proof -
  assume ok: "rule_ok vs x"
  show ?thesis
  proof (cases "vr_rollout (snd x)")
    case (Some ro)
    then have ro: "rollout_full vs ro" "vr_variation (snd x) = None" using ok by (auto simp: rule_ok_def split: option.splits)
    have "wv_weight w \<le> 100000" if "w \<in> set (ro_variations ro)" for w
      using ro(1) that member_le_sum_list [of "wv_weight w" "map wv_weight (ro_variations ro)"]
      by (force simp: rollout_full_def list_all_iff)
    then show ?thesis using Some ro by (auto simp: served_range_def rollout_full_def list_all_iff)
  qed (use ok in \<open>auto simp: rule_ok_def served_range_def split: option.splits\<close>)
qed

section \<open>The rule list\<close>

text \<open>The rules shown: the flag has variations, and every rule starts its form well.\<close>

definition rules_shown :: "js list \<Rightarrow> flag_rule list \<Rightarrow> bool" where
  "rules_shown vs rules \<longleftrightarrow> vs \<noteq> [] \<and> (\<forall>r\<in>set rules. served_range vs (ruleServe r))"

definition rules_inv :: "js list \<Rightarrow> flag_rules \<Rightarrow> bool" where
  "rules_inv vs st \<longleftrightarrow> form_inv vs (rs_edit st) \<and> form_inv vs (rs_add st)"

fun rules_out_ok :: "js list \<Rightarrow> flag_rule list \<Rightarrow> rules_out \<Rightarrow> bool" where
  "rules_out_ok vs rules (AddRule cs v) \<longleftrightarrow> rule_ok vs (cs, v)"
| "rules_out_ok vs rules (UpdateRule i cs v) \<longleftrightarrow> i \<noteq> [] \<and> i \<in> set (rule_ids rules) \<and> rule_ok vs (cs, v)"
| "rules_out_ok vs rules (RemoveRule i) \<longleftrightarrow> i \<noteq> [] \<and> i \<in> set (rule_ids rules)"
| "rules_out_ok vs rules (ReorderRules ids) \<longleftrightarrow> mset ids = mset (rule_ids rules)"

lemma rule_idI: "r \<in> set rules \<Longrightarrow> fr_id r = Some i \<Longrightarrow> i \<noteq> [] \<Longrightarrow> i \<in> set (rule_ids rules)"
  by (force simp: rule_ids_def map_filter_def truthy_opt_def)

lemma move_mset:
  assumes "move rules i d = Some ids"
  shows "mset ids = mset (rule_ids rules)"
proof -
  have "mset (xs[i := xs ! j, j := xs ! i]) = mset xs" if "i < length xs" "j < length xs" for xs :: "string list" and i j
    using that mset_swap [of j xs i] by simp
  then show ?thesis using assms by (auto simp: move_def Let_def js_nth_def split: if_splits)
qed

lemma edit_props_ok: "rules_shown vs rules \<Longrightarrow> r \<in> set rules \<Longrightarrow> props_ok vs (edit_props vs r busy)"
  by (simp add: rules_shown_def props_ok_def edit_props_def)

lemma add_props_ok: "rules_shown vs rules \<Longrightarrow> props_ok vs (add_props vs busy)"
  by (simp add: rules_shown_def props_ok_def add_props_def)

lemma initial_rules_inv: "vs \<noteq> [] \<Longrightarrow> rules_inv vs (initial_rules vs)"
  using add_props_ok [of vs "[]" False] by (simp add: rules_inv_def rules_shown_def initial_rules_def RuleForm_def reset_form_inv)

text \<open>What the controls of the list refer to.\<close>

lemma rule_nth_id: "k < length rules \<Longrightarrow> fr_id (rules ! k) = Some i \<Longrightarrow> i \<noteq> [] \<Longrightarrow> i \<in> set (rule_ids rules)"
  by (rule rule_idI [OF nth_mem])

lemma offers_clause_texts [simp]: "\<not> offers (rule_clause_texts rule) m"
  by (auto simp: rule_clause_texts_def)

lemma rules_offers:
  "offers (FlagRules vs rules busy r st) (StartEdit rule) \<Longrightarrow> rule \<in> set rules"
  "offers (FlagRules vs rules busy r st) (RemoveFlagRule i) \<Longrightarrow> i \<noteq> [] \<and> i \<in> set (rule_ids rules)"
  "offers (FlagRules vs rules busy r st) (InAdd e) \<Longrightarrow> offers (RuleForm_view (add_props vs busy) ''Add rule'' r (rs_add st)) e"
  "offers (FlagRules vs rules busy r st) (InEdit rule e) \<Longrightarrow> rule \<in> set rules \<and> truthy_opt (fr_id rule) \<and>
     offers (RuleForm_view (edit_props vs rule busy) ''Save'' r (rs_edit st)) e"
  by (auto simp: FlagRules_def rule_row_def in_set_enumerate_eq truthy_opt_def simp del: offers_simps(5)
      intro: rule_nth_id split: if_splits)

text \<open>The properties of the list: the rules, whether a patch is in flight and the next random number.\<close>

type_synonym rules_props = "flag_rule list \<times> bool \<times> int"

definition rules_props_ok :: "js list \<Rightarrow> rules_props set" where
  "rules_props_ok vs = {p. rules_shown vs (fst p)}"

definition rules_view :: "js list \<Rightarrow> rules_props \<Rightarrow> flag_rules \<Rightarrow> rules_msg node list" where
  "rules_view vs p = FlagRules vs (fst p) (fst (snd p)) (snd (snd p))"

definition rules_handler :: "js list \<Rightarrow> rules_props \<Rightarrow> flag_rules \<Rightarrow> rules_msg \<Rightarrow> flag_rules \<times> rules_out list" where
  "rules_handler vs p = rules_update vs (fst p) (fst (snd p))"

interpretation rules_panel: component "rules_props_ok vs" "rules_view vs" "rules_handler vs" "rules_inv vs"
  "\<lambda>p. rules_out_ok vs (fst p)"
proof
  fix p :: rules_props and s m
  obtain rules busy r where p: "p = (rules, busy, r)" by (cases p)
  assume "p \<in> rules_props_ok vs" and inv: "rules_inv vs s" and "offers (rules_view vs p s) m"
  then have shown: "rules_shown vs rules" and off: "offers (FlagRules vs rules busy r s) m"
    by (simp_all add: p rules_props_ok_def rules_view_def)
  have "rules_inv vs (fst (rules_update vs rules busy s m))"
  proof (cases m)
    case (StartEdit rule)
    then have "props_ok vs (edit_props vs rule busy)" using shown off rules_offers(1) edit_props_ok by blast
    then show ?thesis using inv StartEdit by (simp add: rules_inv_def RuleForm_def reset_form_inv)
  next
    case (InEdit rule e)
    then have "form_inv vs (fst (form_handler (edit_props vs rule busy) (rs_edit s) e))"
      using shown inv off rules_offers(4) edit_props_ok form_handler_inv by (meson rules_inv_def)
    then show ?thesis using inv InEdit by (auto simp: rules_inv_def case_prod_beta Let_def split: option.splits)
  next
    case (InAdd e)
    then have "form_inv vs (fst (form_handler (add_props vs busy) (rs_add s) e))"
      using shown inv off rules_offers(3) add_props_ok form_handler_inv by (meson rules_inv_def)
    then show ?thesis using inv InAdd by (auto simp: rules_inv_def case_prod_beta Let_def)
  qed (use inv in \<open>auto simp: rules_inv_def\<close>)
  then show "rules_inv vs (fst (rules_handler vs p s m))" by (simp add: p rules_handler_def)
  have "list_all (rules_out_ok vs rules) (snd (rules_update vs rules busy s m))"
  proof (cases m)
    case (InEdit rule e)
    then have "rule \<in> set rules" "truthy_opt (fr_id rule)" using off rules_offers(4) by blast+
    then show ?thesis using inv InEdit form_handler_emits [of vs "rs_edit s" "edit_props vs rule busy" e]
      by (auto simp: rules_inv_def case_prod_beta Let_def truthy_opt_def the_default_def intro: rule_idI split: option.splits)
  next
    case (InAdd e)
    then show ?thesis using inv form_handler_emits [of vs "rs_add s" "add_props vs busy" e]
      by (auto simp: rules_inv_def case_prod_beta Let_def emit_rule_def split: option.splits)
  qed (use off rules_offers(2) move_mset in \<open>auto split: option.splits\<close>)
  then show "list_all (rules_out_ok vs (fst p)) (snd (rules_handler vs p s m))" by (simp add: p rules_handler_def)
qed

section \<open>Editing without a change\<close>

text \<open>A rule some form emitted, saved again as it is opened.\<close>

lemma trimmed_option_trim: "trimmed_option (the_default [] (trimmed_option s)) = trimmed_option s"
  "truthy_string (trimmed_option s) = trimmed_option s"
proof -
  have "trim [] = []" by (simp add: trim_def)
  then show "trimmed_option (the_default [] (trimmed_option s)) = trimmed_option s"
    by (cases "trim s = []") (simp_all add: trimmed_option_def the_default_def)
  show "truthy_string (trimmed_option s) = trimmed_option s"
    by (cases "trim s = []") (simp_all add: trimmed_option_def truthy_string_def)
qed

lemma reopened_form:
  assumes "form_inv vs st" "canSubmit st"
    and "fr_clauses rule = rf_draft st" "fr_variation rule = vr_variation (served_of st)" "fr_rollout rule = vr_rollout (served_of st)"
  shows "snd (form_handler (edit_props vs rule busy) (RuleForm (edit_props vs rule busy)) Submit) =
     Some (rf_draft st, served_of st)"
proof -
  let ?f = "RuleForm (edit_props vs rule busy)"
  have draft: "rf_draft ?f = rf_draft st" using assms
    by (simp add: RuleForm_def reset_form_def initial_clauses_def edit_props_def canSubmit_def clausesValid_def)
  show ?thesis
  proof (cases "rf_serve st")
    case ServeVariation
    then have "served_of ?f = served_of st" "rf_serve ?f = ServeVariation" using assms
      by (simp_all add: served_of_def RuleForm_def reset_form_def initial_rollout_def edit_props_def ruleServe_def the_default_def)
    then show ?thesis using assms(2) draft by (simp add: submit_def canSubmit_def)
  next
    case ServeRollout
    let ?o = "\<lparr>op_bucketBy = trimmed_option (rf_bucketBy st), op_contextKind = trimmed_option (rf_contextKind st), op_seed = rf_seed st\<rparr>"
    have ro: "initial_rollout (edit_props vs rule busy) = Some (rolloutFromPercents (rf_percents st) ?o)"
      using assms(4,5) ServeRollout by (simp add: initial_rollout_def edit_props_def ruleServe_def served_of_def)
    have vs: "rp_variations (edit_props vs rule busy) = vs" by (simp add: edit_props_def)
    have "rf_percents ?f = rf_percents st" "rf_serve ?f = ServeRollout"
      using assms(1) percentsFromRollout_roundtrip [of "rf_percents st" ?o]
      by (simp_all add: RuleForm_def reset_form_def ro vs form_inv_def)
    moreover have "rf_seed ?f = rf_seed st" "trimmed_option (rf_bucketBy ?f) = trimmed_option (rf_bucketBy st)"
      "trimmed_option (rf_contextKind ?f) = trimmed_option (rf_contextKind st)"
      by (simp_all add: RuleForm_def reset_form_def ro rolloutFromPercents_def trimmed_option_trim)
    ultimately show ?thesis using assms(2) draft ServeRollout
      by (simp add: submit_def canSubmit_def rolloutValid_def served_of_def)
  qed
qed

section \<open>Moving a rule\<close>

lemma rule_ids_all: "list_all (\<lambda>r. truthy_opt (fr_id r)) rules \<Longrightarrow> map Some (rule_ids rules) = map fr_id rules"
  by (induction rules) (auto simp: rule_ids_def map_filter_simps truthy_opt_def split: option.splits)

lemma move_swaps:
  assumes "list_all (\<lambda>r. truthy_opt (fr_id r)) rules" "distinct (map fr_id rules)"
    and "i < length rules" "0 \<le> int i + d" "int i + d < int (length rules)"
  shows "\<exists>ids. move rules i d = Some ids \<and>
     reorder_rules ids rules = rules[i := rules ! nat (int i + d), nat (int i + d) := rules ! i]"
proof -
  let ?j = "nat (int i + d)" and ?ids = "rule_ids rules"
  have ids: "map Some ?ids = map fr_id rules" using assms(1) by (rule rule_ids_all)
  then have len: "length ?ids = length rules" by (metis length_map)
  let ?new = "?ids[i := ?ids ! ?j, ?j := ?ids ! i]" and ?rules = "rules[i := rules ! ?j, ?j := rules ! i]"
  have j: "?j < length rules" using assms(4,5) by linarith
  have at_ids: "Some (?ids ! k) = fr_id (rules ! k)" if "k < length rules" for k
    using ids that len by (metis nth_map)
  have "move rules i d = Some ?new"
    using assms(3-5) len j by (simp add: move_def Let_def js_nth_def)
  moreover have "reorder_rules ?new rules = ?rules"
  proof (rule reorder_rules_exact)
    show "mset rules = mset ?rules" using mset_swap [of ?j rules i] assms(3) j by simp
    show "map fr_id ?rules = map Some ?new" using ids assms(3) j at_ids by (simp add: map_update)
    have "distinct (map Some ?ids)" using assms(2) ids by simp
    then have "distinct ?ids" by (simp add: distinct_map)
    then show "distinct ?new" using len assms(3) j by (metis distinct_swap)
  qed
  ultimately show ?thesis by blast
qed

end
