(* ===== verification/AuthForms.thy ===== *)
theory AuthForms
  imports Slugs
begin

text \<open>
  The first-run wizard (\<open>web/src/features/setup/components/SetupWizard.tsx\<close>) and the login form
  (\<open>web/src/features/auth/components/LoginForm.tsx\<close>) as components that own the entered values until
  they are submitted.
\<close>

section \<open>SetupWizard\<close>

record wizard =
  wz_step :: nat
  wz_email :: string
  wz_password :: string
  wz_fullName :: string
  wz_organizationName :: string
  wz_organizationSlug :: string
  wz_slugEdited :: bool

definition SetupWizard :: wizard where
  "SetupWizard = \<lparr>wz_step = 1, wz_email = [], wz_password = [], wz_fullName = [], wz_organizationName = [],
     wz_organizationSlug = [], wz_slugEdited = False\<rparr>"

definition accountValid :: "wizard \<Rightarrow> bool" where
  "accountValid w \<longleftrightarrow> trim (wz_email w) \<noteq> [] \<and> 8 \<le> length (wz_password w)"

definition organizationValid :: "wizard \<Rightarrow> bool" where
  "organizationValid w \<longleftrightarrow> trim (wz_organizationName w) \<noteq> [] \<and> trim (wz_organizationSlug w) \<noteq> []"

datatype wizard_msg =
    WizName string
  | WizEmail string
  | WizPassword string
  | WizOrganization string
  | WizSlug string
  | WizBack
  | WizSubmit

definition handleOrganizationNameChange :: "string \<Rightarrow> wizard \<Rightarrow> wizard" where
  "handleOrganizationNameChange v w = (let w1 = w\<lparr>wz_organizationName := v\<rparr>
     in if wz_slugEdited w1 then w1 else w1\<lparr>wz_organizationSlug := slugify v\<rparr>)"

fun wizard_update :: "wizard \<Rightarrow> wizard_msg \<Rightarrow> wizard \<times> setup_input list" where
  "wizard_update w (WizName v) = (w\<lparr>wz_fullName := v\<rparr>, [])"
| "wizard_update w (WizEmail v) = (w\<lparr>wz_email := v\<rparr>, [])"
| "wizard_update w (WizPassword v) = (w\<lparr>wz_password := v\<rparr>, [])"
| "wizard_update w (WizOrganization v) = (handleOrganizationNameChange v w, [])"
| "wizard_update w (WizSlug v) = (w\<lparr>wz_slugEdited := True, wz_organizationSlug := slugify v\<rparr>, [])"
| "wizard_update w WizBack = (w\<lparr>wz_step := 1\<rparr>, [])"
| "wizard_update w WizSubmit =
     (if wz_step w = 1 then (if accountValid w then w\<lparr>wz_step := 2\<rparr> else w, [])
      else (w, if organizationValid w
        then [\<lparr>su_email = wz_email w, su_password = wz_password w,
               su_full_name = (if wz_fullName w = [] then None else Some (wz_fullName w)),
               su_organization_slug = Some (wz_organizationSlug w),
               su_organization_name = Some (wz_organizationName w)\<rparr>]
        else []))"

definition SetupWizard_view :: "bool \<Rightarrow> string option \<Rightarrow> wizard \<Rightarrow> wizard_msg node list" where
  "SetupWizard_view isSubmitting errorMessage w = Says ''Welcome to flag-it'' #
     (if wz_step w = 1
      then [Says ''Let's set things up. First, create the owner account.'',
            Field ''Your name'' (wz_fullName w) True WizName, Field ''Email'' (wz_email w) True WizEmail,
            Field ''Password'' (wz_password w) True WizPassword, Says ''At least 8 characters.'',
            Button ''Continue'' (accountValid w) WizSubmit]
      else [Says ''Now create your first organization - an organization to hold projects.''] @ alert errorMessage @
           [Field ''Organization name'' (wz_organizationName w) True WizOrganization,
            Field ''Organization slug'' (wz_organizationSlug w) True WizSlug,
            Says ''Used in URLs. Lowercase, no spaces.'',
            Button ''Back'' (\<not> isSubmitting) WizBack,
            Button (if isSubmitting then ''Setting up...'' else ''Finish setup'')
              (organizationValid w \<and> \<not> isSubmitting) WizSubmit])"

section \<open>LoginForm\<close>

record login_form =
  lo_email :: string
  lo_password :: string

datatype login_msg = LoginEmail string | LoginPassword string | LoginSubmit

fun login_update :: "login_form \<Rightarrow> login_msg \<Rightarrow> login_form \<times> login_input list" where
  "login_update st (LoginEmail v) = (st\<lparr>lo_email := v\<rparr>, [])"
| "login_update st (LoginPassword v) = (st\<lparr>lo_password := v\<rparr>, [])"
| "login_update st LoginSubmit = (st, [\<lparr>li_email = lo_email st, li_password = lo_password st\<rparr>])"

definition LoginForm :: "bool \<Rightarrow> string option \<Rightarrow> login_form \<Rightarrow> login_msg node list" where
  "LoginForm isSubmitting errorMessage st =
     [Says ''Sign in to flag-it'', Says ''Use your flag-it account.''] @ alert errorMessage @
     [Field ''Email'' (lo_email st) True LoginEmail, Field ''Password'' (lo_password st) True LoginPassword,
      Button (if isSubmitting then ''Signing in...'' else ''Sign in'') (\<not> isSubmitting) LoginSubmit]"

section \<open>What the wizard submits\<close>

text \<open>On the second step the account is valid: its fields are not on the screen.\<close>

definition wizard_inv :: "wizard \<Rightarrow> bool" where
  "wizard_inv w \<longleftrightarrow> wz_step w \<in> {1, 2} \<and> (wz_step w = 2 \<longrightarrow> accountValid w) \<and>
     slugify (wz_organizationSlug w) = wz_organizationSlug w"

definition setup_ok :: "setup_input \<Rightarrow> bool" where
  "setup_ok i \<longleftrightarrow> trim (su_email i) \<noteq> [] \<and> 8 \<le> length (su_password i) \<and> su_full_name i \<noteq> Some [] \<and>
     (\<exists>slug name. su_organization_slug i = Some slug \<and> key_ok slug \<and> su_organization_name i = Some name \<and> trim name \<noteq> [])"

lemma wizard_inv_initial: "wizard_inv SetupWizard"
  by (simp add: wizard_inv_def SetupWizard_def slugify_words slug_words_def to_lower_def)

interpretation wizard_form: component UNIV "\<lambda>(isSubmitting, errorMessage). SetupWizard_view isSubmitting errorMessage"
  "\<lambda>_. wizard_update" wizard_inv "\<lambda>_. setup_ok"
proof
  fix p w m
  assume inv: "wizard_inv w" and off: "offers ((\<lambda>(isSubmitting, errorMessage). SetupWizard_view isSubmitting errorMessage) p w) m"
  show "wizard_inv (fst (wizard_update w m))"
    using inv off by (cases p; cases m) (auto simp: wizard_inv_def SetupWizard_view_def accountValid_def
        handleOrganizationNameChange_def Let_def split: if_splits)
  show "list_all setup_ok (snd (wizard_update w m))"
    using inv by (cases m) (auto simp: wizard_inv_def setup_ok_def accountValid_def organizationValid_def key_ok_def trim_def)
qed

end
