(* ===== verification/Lists.thy ===== *)
theory Lists
  imports FlagPanels
begin

text \<open>
  The tables and lists of the dashboard, which render resolved data. \<open>fmt\<close> and \<open>fmtn\<close> are
  \<open>toLocaleString\<close> of dates and numbers. Deleting a row goes through \<open>ConfirmDeleteDialog\<close>: the state of
  a list with delete buttons is the key of the row whose dialog is open.
\<close>

section \<open>ConfirmDeleteDialog and UserMenu\<close>

definition ConfirmDeleteDialog ::
  "bool \<Rightarrow> string \<Rightarrow> string \<Rightarrow> string \<Rightarrow> string \<Rightarrow> bool \<Rightarrow> 'm \<Rightarrow> 'm \<Rightarrow> 'm \<Rightarrow> 'm node list" where
  "ConfirmDeleteDialog shown triggerLabel title description confirmLabel busy ask cancel confirm =
     Button triggerLabel (\<not> busy) ask #
     (if shown then [Says title, Says description, Button ''Cancel'' True cancel, Button confirmLabel (\<not> busy) confirm]
      else [])"

datatype rows_msg = OpenRow string | AskDelete string | CancelDelete | ConfirmDelete string

datatype rows_out = Opened string | Deleted string

fun rows_update :: "string option \<Rightarrow> rows_msg \<Rightarrow> string option \<times> rows_out list" where
  "rows_update asking (OpenRow k) = (asking, [Opened k])"
| "rows_update asking (AskDelete k) = (Some k, [])"
| "rows_update asking CancelDelete = (None, [])"
| "rows_update asking (ConfirmDelete k) = (None, [Deleted k])"

fun words_of :: "string \<Rightarrow> string list" where
  "words_of [] = [[]]"
| "words_of (c # s) = (if is_space c then (if s \<noteq> [] \<and> is_space (hd s) then words_of s else [] # words_of s)
     else (c # hd (words_of s)) # tl (words_of s))"

definition first_char :: "string option \<Rightarrow> string" where
  "first_char w = (case w of Some (c # _) \<Rightarrow> [c] | _ \<Rightarrow> [])"

definition upper :: "string \<Rightarrow> string" where
  "upper s = concat (map upper_char s)"

text \<open>\<open>name.split(/[white space]+/)\<close> is \<open>words_of\<close>; the user is its email and full name.\<close>

definition initials :: "(string \<times> string) option \<Rightarrow> string" where
  "initials user = (case user of None \<Rightarrow> ''?''
     | Some (email, full_name) \<Rightarrow>
         (let name = trim full_name in
          if name \<noteq> [] then (let parts = words_of name in upper (first_char (js_nth parts 0) @ first_char (js_nth parts 1)))
          else upper (take 2 email)))"

definition UserMenu :: "bool \<Rightarrow> (string \<times> string) option \<Rightarrow> 'm \<Rightarrow> 'm \<Rightarrow> 'm node list" where
  "UserMenu shown user toggle leave = Button (initials user) True toggle #
     (if shown then (case user of Some (email, _) \<Rightarrow> [Says email] | None \<Rightarrow> []) @ [Button ''Sign out'' True leave] else [])"

section \<open>Flags\<close>

datatype flag_row_msg = OpenFlag string | ToggleFlag string bool

definition shown_name :: "string \<Rightarrow> string \<Rightarrow> string" where
  "shown_name name key = (if name \<noteq> [] then name else key)"

definition flag_row :: "string option \<Rightarrow> flag_with_state \<Rightarrow> flag_row_msg node list" where
  "flag_row togglingKey f = (let fl = fs_flag f in
     [Button (shown_name (fl_name fl) (fl_key fl)) True (OpenFlag (fl_key fl))] @
     (if fl_client_side_available fl then [Badge ''secondary'' ''Client-side''] else []) @
     (if fl_temporary fl then [Badge ''outline'' ''Temporary''] else []) @
     says_if (fl_description fl \<noteq> []) (fl_description fl) @
     [Says (fl_key fl), Says (show_nat (length (fl_variations fl))), Says (if fs_on f then ''On'' else ''Off''),
      Check (''Toggle '' @ shown_name (fl_name fl) (fl_key fl)) (fs_on f) (togglingKey \<noteq> Some (fl_key fl))
        (ToggleFlag (fl_key fl))])"

definition FlagList :: "string option \<Rightarrow> flag_with_state list \<Rightarrow> flag_row_msg node list" where
  "FlagList togglingKey flags = (if flags = [] then [Says ''No flags yet.'']
     else [Says ''Name'', Says ''Key'', Says ''Variations'', Says ''State''] @ concat (map (flag_row togglingKey) flags))"

definition lifecycle_badge :: "lifecycle_status \<Rightarrow> 'm node" where
  "lifecycle_badge s = (case s of LcNew \<Rightarrow> Badge ''secondary'' ''New'' | LcActive \<Rightarrow> Badge ''default'' ''Active''
     | LcInactive \<Rightarrow> Badge ''destructive'' ''Stale'')"

definition FlagLifecycleList :: "(string \<Rightarrow> string) \<Rightarrow> flag_lifecycle list \<Rightarrow> string node list" where
  "FlagLifecycleList fmt flags = (if flags = [] then [Says ''No flags match this filter.'']
     else [Says ''Name'', Says ''Status'', Says ''Last evaluated''] @ concat (map (\<lambda>f. let fl = lf_flag f in
         [Button (shown_name (fl_name fl) (fl_key fl)) True (fl_key fl)] @
         (if fl_temporary fl then [Badge ''outline'' ''Temporary''] else []) @
         [Says (fl_key fl), lifecycle_badge (lf_status f),
          Says (if truthy_opt (lf_last_evaluated f) then fmt (the (lf_last_evaluated f)) else ''Never'')]) flags))"

section \<open>Segments, environments, keys\<close>

definition SegmentList :: "segment list \<Rightarrow> string node list" where
  "SegmentList segments = (if segments = [] then [Says ''No segments yet.'']
     else [Says ''Name'', Says ''Key'', Says ''Members''] @ concat (map (\<lambda>s.
         [Button (shown_name (sg_name s) (sg_key s)) True (sg_key s)] @ says_if (sg_description s \<noteq> []) (sg_description s) @
         [Says (sg_key s), Says (show_nat (length (sg_included s)) @ '' included - '' @ plural (length (sg_rules s)) ''rule'')])
       segments))"

definition EnvironmentList :: "environment list \<Rightarrow> 'm node list" where
  "EnvironmentList environments = (if environments = [] then [Says ''No environments yet.'']
     else [Says ''Name'', Says ''Key''] @ concat (map (\<lambda>e. [Says (en_name e), Says (en_key e)]) environments))"

definition EnvironmentTabs :: "environment list \<Rightarrow> string \<Rightarrow> (string \<Rightarrow> 'm) \<Rightarrow> 'm node list" where
  "EnvironmentTabs environments selectedKey select =
     [Choice ''environment'' (map (\<lambda>e. (en_key e, en_name e)) environments) selectedKey True select]"

definition sdk_kind_text :: "sdk_kind \<Rightarrow> string" where
  "sdk_kind_text k = (case k of KServer \<Rightarrow> ''server'' | KClient \<Rightarrow> ''client'')"

definition dash_if_empty :: "string \<Rightarrow> string" where
  "dash_if_empty s = (if s \<noteq> [] then s else ''-'')"

definition SdkKeyList :: "bool \<Rightarrow> string option \<Rightarrow> sdk_key list \<Rightarrow> string node list" where
  "SdkKeyList revokes revokingId keys = (if keys = [] then [Says ''No SDK keys yet.'']
     else [Says ''Name'', Says ''Kind'', Says ''Key'', Says ''Actions''] @ concat (map (\<lambda>k.
         [Says (dash_if_empty (sk_name k)), Badge ''secondary'' (sdk_kind_text (sk_kind k)), Says (sk_key k)] @
         (if truthy_opt (sk_revoked_at k) then [Says ''Revoked'']
          else if revokes then [Button ''Revoke'' (revokingId \<noteq> Some (sk_id k)) (sk_id k)] else [])) keys))"

section \<open>Projects, organizations, users, members, roles\<close>

definition project_row :: "bool \<Rightarrow> bool \<Rightarrow> string option \<Rightarrow> project \<Rightarrow> rows_msg node list" where
  "project_row deletes busy asking p = [Button (pr_name p) True (OpenRow (pr_key p)), Says (pr_key p)] @
     (if deletes then ConfirmDeleteDialog (asking = Some (pr_key p)) ''Delete'' (''Delete '' @ pr_name p @ ''?'')
         ''This removes the project and all its flags, segments, environments, and SDK keys. This cannot be undone.''
         ''Delete project'' busy (AskDelete (pr_key p)) CancelDelete (ConfirmDelete (pr_key p)) else [])"

definition ProjectList :: "bool \<Rightarrow> bool \<Rightarrow> string option \<Rightarrow> project list \<Rightarrow> rows_msg node list" where
  "ProjectList deletes busy asking projects = (if projects = [] then [Says ''No projects yet.'']
     else [Says ''Name'', Says ''Key''] @ concat (map (project_row deletes busy asking) projects))"

definition ProjectSwitcher :: "bool \<Rightarrow> project list \<Rightarrow> string \<Rightarrow> 'm \<Rightarrow> (string \<Rightarrow> 'm) \<Rightarrow> 'm node list" where
  "ProjectSwitcher shown projects currentKey toggle select =
     Button (case List.find (\<lambda>p. pr_key p = currentKey) projects of Some p \<Rightarrow> pr_name p | None \<Rightarrow> currentKey) True toggle #
     (if shown then map (\<lambda>p. Button (pr_name p) True (select (pr_key p))) projects else [])"

definition OrganizationList :: "bool \<Rightarrow> bool \<Rightarrow> string option \<Rightarrow> organization list \<Rightarrow> rows_msg node list" where
  "OrganizationList deletes busy asking organizations = (if organizations = [] then [Says ''No organizations yet.'']
     else [Says ''Name'', Says ''Slug''] @ concat (map (\<lambda>g.
         [Button (or_name g) True (OpenRow (or_slug g)), Says (or_slug g)] @
         (if deletes then ConfirmDeleteDialog (asking = Some (or_slug g)) ''Delete'' (''Delete '' @ or_name g @ ''?'')
           ''This permanently removes the organization and everything in it - projects, flags, segments, members, and keys. This cannot be undone.''
           ''Delete organization'' busy (AskDelete (or_slug g)) CancelDelete (ConfirmDelete (or_slug g)) else [])) organizations))"

definition UserList :: "bool \<Rightarrow> string option \<Rightarrow> user list \<Rightarrow> rows_msg node list" where
  "UserList busy asking users = (if users = [] then [Says ''No users yet.'']
     else [Says ''Email'', Says ''Name'', Says ''Status''] @ concat (map (\<lambda>u.
         [Says (us_email u)] @ (if us_is_superuser u then [Badge ''secondary'' ''Superuser''] else []) @
         [Says (dash_if_empty (us_full_name u)),
          Badge (if us_is_active u then ''default'' else ''destructive'') (if us_is_active u then ''Active'' else ''Inactive'')] @
         ConfirmDeleteDialog (asking = Some (us_id u)) ''Delete'' (''Delete '' @ us_email u @ ''?'')
           ''This permanently removes the user account. This cannot be undone.''
           ''Delete user'' busy (AskDelete (us_id u)) CancelDelete (ConfirmDelete (us_id u))) users))"

definition MemberList :: "member list \<Rightarrow> 'm node list" where
  "MemberList members = (if members = [] then [Says ''No members yet.'']
     else [Says ''Email'', Says ''Name'', Says ''Role''] @ concat (map (\<lambda>m.
         [Says (mb_email m), Says (dash_if_empty (mb_full_name m)),
          (if mb_role m \<noteq> [] then Badge ''secondary'' (mb_role m) else Says ''-'')]) members))"

definition RoleList :: "role list \<Rightarrow> 'm node list" where
  "RoleList roles = (if roles = [] then [Says ''No roles yet.'']
     else [Says ''Name'', Says ''Key'', Says ''Scope'', Says ''Permissions''] @ concat (map (\<lambda>r.
         [Says (rl_name r)] @ (if rl_is_system r then [Badge ''outline'' ''System''] else []) @
         [Says (rl_key r), Badge ''secondary'' (case rl_scope r of ScopeOrganization \<Rightarrow> ''organization'' | ScopeProject \<Rightarrow> ''project''),
          Says (show_nat (length (rl_permissions r)))]) roles))"

section \<open>Change requests, webhooks, audit, contexts, statistics\<close>

definition change_label :: "change_status \<Rightarrow> string" where
  "change_label s = (case s of ChPending \<Rightarrow> ''pending'' | ChApproved \<Rightarrow> ''approved'' | ChRejected \<Rightarrow> ''rejected'')"

definition change_variant :: "change_status \<Rightarrow> string" where
  "change_variant s = (case s of ChPending \<Rightarrow> ''secondary'' | ChApproved \<Rightarrow> ''default'' | ChRejected \<Rightarrow> ''destructive'')"

text \<open>The message is the pair handed to \<open>onReview\<close>: the id and whether it is approved.\<close>

definition change_card :: "(string \<Rightarrow> string) \<Rightarrow> bool \<Rightarrow> bool \<Rightarrow> change_request \<Rightarrow> (string \<times> bool) node list" where
  "change_card fmt reviews busy c =
     [Says (cr_flag_key c), Badge ''outline'' (cr_environment_key c),
      Badge (change_variant (cr_status c)) (change_label (cr_status c)), Says (instructionsText (cr_instructions c))] @
     says_if (cr_comment c \<noteq> []) (quoted (cr_comment c)) @
     [Says (''Requested by '' @ cr_requested_by_email c @ '' - '' @ fmt (cr_created_at c))] @
     says_if (cr_status c \<noteq> ChPending \<and> truthy_opt (cr_reviewed_by_email c))
       ((if cr_status c = ChApproved then ''Approved'' else ''Rejected'') @ '' by '' @ the_default [] (cr_reviewed_by_email c) @
        (if truthy_opt (cr_review_comment c) then '' - '' @ quoted (the (cr_review_comment c)) else [])) @
     (if cr_status c = ChPending \<and> reviews then [Button ''Reject'' (\<not> busy) (cr_id c, False), Button ''Approve'' (\<not> busy) (cr_id c, True)]
      else [])"

definition ChangeRequestList :: "(string \<Rightarrow> string) \<Rightarrow> bool \<Rightarrow> bool \<Rightarrow> change_request list \<Rightarrow> (string \<times> bool) node list" where
  "ChangeRequestList fmt reviews busy changes = (if changes = [] then [Says ''No change requests.'']
     else concat (map (change_card fmt reviews busy) changes))"

datatype webhooks_msg = DismissSecret | EnableWebhook string bool | TestWebhook string | ViewDeliveries string
  | ResetSecret string | DeleteWebhook string

definition webhook_row :: "bool \<Rightarrow> webhook \<Rightarrow> webhooks_msg node list" where
  "webhook_row busy w =
     [Says (wh_url w)] @ (if wh_enabled w then [] else [Badge ''destructive'' ''Disabled'']) @
     says_if (wh_description w \<noteq> []) (wh_description w) @
     map (\<lambda>e. Badge ''secondary'' (if e = ''*'' then ''All events'' else e)) (wh_event_types w) @
     [Check (''Enable webhook '' @ shown_name (wh_description w) (wh_url w)) (wh_enabled w) (\<not> busy) (EnableWebhook (wh_id w)),
      Button ''Test'' (\<not> busy) (TestWebhook (wh_id w)), Button ''Deliveries'' True (ViewDeliveries (wh_id w)),
      Button ''Reset secret'' (\<not> busy) (ResetSecret (wh_id w)), Button ''Delete'' (\<not> busy) (DeleteWebhook (wh_id w))]"

definition WebhookList ::
  "bool \<Rightarrow> string option \<Rightarrow> string option \<Rightarrow> webhook list \<Rightarrow> webhooks_msg node list" where
  "WebhookList busy revealedSecret notice webhooks =
     (if truthy_opt revealedSecret
      then [Says ''Signing secret - copy it now, it won't be shown again'', Says (the revealedSecret),
            Button ''Dismiss'' True DismissSecret] else []) @
     says_if (truthy_opt notice) (the_default [] notice) @
     (if webhooks = [] then [Says ''No webhooks yet.''] else concat (map (webhook_row busy) webhooks))"

definition delivery_badge :: "delivery_status \<Rightarrow> 'm node" where
  "delivery_badge s = (case s of DlPending \<Rightarrow> Badge ''secondary'' ''pending'' | DlSuccess \<Rightarrow> Badge ''default'' ''success''
     | DlFailed \<Rightarrow> Badge ''destructive'' ''failed'')"

definition WebhookDeliveries :: "(string \<Rightarrow> string) \<Rightarrow> webhook_delivery list \<Rightarrow> 'm node list" where
  "WebhookDeliveries fmt deliveries = (if deliveries = [] then [Says ''No deliveries yet.'']
     else concat (map (\<lambda>d. [delivery_badge (wd_status d), Says (wd_event_type d),
         Says (''Attempt '' @ show_int (wd_attempts d) @
           (if wd_response_status d \<noteq> 0 then '' - HTTP '' @ show_int (wd_response_status d) else []) @
           '' - '' @ fmt (wd_created_at d))] @
         says_if (wd_status d = DlFailed \<and> truthy_opt (wd_error d)) (the_default [] (wd_error d))) deliveries))"

definition AuditList :: "(string \<Rightarrow> string) \<Rightarrow> audit_entry list \<Rightarrow> 'm node list" where
  "AuditList fmt entries = (if entries = [] then [Says ''No activity yet.'']
     else concat (map (\<lambda>e. [Badge ''secondary'' (au_action e),
         Says (if au_resource_key e \<noteq> [] then au_resource_type e @ ''/'' @ au_resource_key e else au_resource_type e)] @
         says_if (truthy_opt (au_comment e)) (quoted (the_default [] (au_comment e))) @
         [Says ((if au_actor_email e \<noteq> [] then au_actor_email e else ''system'') @ '' - '' @ fmt (au_created_at e))]) entries))"

definition ContextList :: "(string \<Rightarrow> string) \<Rightarrow> seen_context list \<Rightarrow> (string \<times> string) node list" where
  "ContextList fmt contexts = (if contexts = []
     then [Says ''No contexts seen yet. They appear here after flags are evaluated.'']
     else [Says ''Kind'', Says ''Key'', Says ''Last seen''] @ concat (map (\<lambda>c. [Badge ''secondary'' (sn_kind c),
         Button (sn_key c) True (sn_kind c, sn_key c), Says (fmt (sn_last_seen c))]) contexts))"

text \<open>\<open>display\<close>: a value that is not JSON shows nothing.\<close>

definition display :: "js \<Rightarrow> string" where
  "display v = (case v of JStr s \<Rightarrow> s | _ \<Rightarrow> the_default [] (stringify v))"

definition ExpectedVariationsTable :: "context_evaluation list \<Rightarrow> 'm node list" where
  "ExpectedVariationsTable evaluations = (if evaluations = [] then [Says ''No flags to evaluate.'']
     else [Says ''Flag'', Says ''Value'', Says ''Reason''] @ concat (map (\<lambda>e.
         [Says (ce_flag_key e), Says (display (ce_value e)), Says (ce_reason e)]) evaluations))"

record stats_row =
  sb_key :: string
  sb_label :: string
  sb_count :: int

definition pct :: "int \<Rightarrow> int \<Rightarrow> int" where
  "pct n t = (if 0 < t then js_round (of_int n / of_int t * 100) else 0)"

text \<open>\<open>selects\<close>: whether the container passes \<open>onSelect\<close>; the last number of a row is the width of its bar.\<close>

definition StatsBars :: "(int \<Rightarrow> string) \<Rightarrow> bool \<Rightarrow> int \<Rightarrow> stats_row list \<Rightarrow> string node list" where
  "StatsBars fmtn selects t rows = (if t = 0 \<or> rows = [] then [Says ''No evaluations yet.'']
     else concat (map (\<lambda>r. [(if selects then Button (sb_label r) True (sb_key r) else Says (sb_label r)),
         Says (fmtn (sb_count r) @ '' - '' @ show_int (pct (sb_count r) t) @ ''%''),
         Badge ''bar'' (show_int (pct (sb_count r) t) @ ''%'')]) rows))"

section \<open>EnvironmentBanner\<close>

definition EnvironmentBanner :: "deployment \<Rightarrow> bool \<Rightarrow> 'm node list" where
  "EnvironmentBanner environment mocking = (case environment of
     Production \<Rightarrow> []
   | Staging \<Rightarrow> [Says ''Staging - not production data'']
   | Development \<Rightarrow> [Says (if mocking then ''Development - data is mocked'' else ''Development - live API'')])"

end
