(* ===== verification/SegmentForms.thy ===== *)
theory SegmentForms
  imports RuleForms Hooks
begin

text \<open>
  Editing a segment (\<open>web/src/features/segments/components\<close>: \<open>SegmentTargetsEditor\<close>, \<open>RuleEditor\<close>,
  \<open>SegmentRulesEditor\<close>, \<open>SegmentEditor\<close>) and renaming a project
  (\<open>web/src/features/settings/components/ProjectGeneralForm.tsx\<close>).

  The clause editors keep the text of their values locally. A rule's editors are keyed by the rule's id
  or, for a rule that has none yet, by its position; the clauses of a rule by their position. A key
  present before and after a change keeps its local state.
\<close>

section \<open>SegmentTargetsEditor\<close>

datatype targets_msg = DraftKey string | AddKey | RemoveKey string

text \<open>The draft afterwards, and the list handed to \<open>onChange\<close>.\<close>

fun targets_update :: "string list \<Rightarrow> string \<Rightarrow> targets_msg \<Rightarrow> string \<times> string list option" where
  "targets_update values draft (DraftKey v) = (v, None)"
| "targets_update values draft AddKey = ([], let key = trim draft in
     if key \<noteq> [] \<and> key \<notin> set values then Some (values @ [key]) else None)"
| "targets_update values draft (RemoveKey v) = (draft, Some (filter (\<lambda>x. x \<noteq> v) values))"

text \<open>Pressing Enter in the field adds whether or not the button is enabled.\<close>

definition SegmentTargetsEditor :: "string \<Rightarrow> string list \<Rightarrow> string \<Rightarrow> targets_msg node list" where
  "SegmentTargetsEditor label values draft = Says label #
     (if values = [] then [Says ''None.'']
      else concat (map (\<lambda>v. [Badge ''secondary'' v, Button (''Remove '' @ v) True (RemoveKey v)]) values)) @
     [Field ''Add a context key'' draft True DraftKey, Button ''Enter'' True AddKey, Button ''Add'' (trim draft \<noteq> []) AddKey]"

section \<open>RuleEditor and SegmentRulesEditor\<close>

datatype rule_msg = ClauseChange nat clause_edit | ClauseRemove nat | ClauseAdd

fun rule_clauses :: "clause list \<Rightarrow> rule_msg \<Rightarrow> clause list" where
  "rule_clauses cs (ClauseChange i e) = cs[i := edit_clause e (cs ! i)]"
| "rule_clauses cs (ClauseRemove i) = remove_at i cs"
| "rule_clauses cs ClauseAdd = cs @ [newClause]"

datatype segment_rules_msg = InRule nat rule_msg | DropRule nat | NewRule

definition RuleEditor :: "bool \<Rightarrow> nat \<Rightarrow> segment_rule \<Rightarrow> string list \<Rightarrow> segment_rules_msg node list" where
  "RuleEditor disabled index rule texts =
     [Says (''Rule '' @ show_nat (index + 1)), Button ''Remove rule'' (\<not> disabled) (DropRule index)] @
     concat (map (\<lambda>(i, c). ClauseEditor disabled c (texts ! i) (InRule index \<circ> ClauseChange i) (InRule index (ClauseRemove i)))
       (enumerate 0 (sr_clauses rule))) @
     [Button ''Add clause'' (\<not> disabled) (InRule index ClauseAdd)]"

definition newRule :: segment_rule where
  "newRule = \<lparr>sr_id = None, sr_clauses = [newClause], sr_weight = None, sr_bucketBy = None, sr_rolloutContextKind = None\<rparr>"

fun segment_rules :: "segment_rule list \<Rightarrow> segment_rules_msg \<Rightarrow> segment_rule list" where
  "segment_rules rules (InRule i m) = rules[i := (rules ! i)\<lparr>sr_clauses := rule_clauses (sr_clauses (rules ! i)) m\<rparr>]"
| "segment_rules rules (DropRule i) = remove_at i rules"
| "segment_rules rules NewRule = rules @ [newRule]"

text \<open>\<open>key={rule.id ?? i}\<close>, and the local texts of every rule's editors once the rules are \<open>rules\<close>.\<close>

definition rule_key :: "nat \<Rightarrow> segment_rule \<Rightarrow> string" where
  "rule_key i r = the_default (show_nat i) (sr_id r)"

definition retexts :: "(string \<times> string list) list \<Rightarrow> segment_rule list \<Rightarrow> (string \<times> string list) list" where
  "retexts texts rules = map (\<lambda>(i, r). (rule_key i r,
     mounted (the_default [] (map_of texts (rule_key i r))) (sr_clauses r))) (enumerate 0 rules)"

definition texts_of :: "(string \<times> string list) list \<Rightarrow> nat \<Rightarrow> segment_rule \<Rightarrow> string list" where
  "texts_of texts i r = the_default [] (map_of texts (rule_key i r))"

fun typed :: "segment_rule list \<Rightarrow> (string \<times> string list) list \<Rightarrow> segment_rules_msg \<Rightarrow> (string \<times> string list) list" where
  "typed rules texts (InRule i (ClauseChange j e)) = (let k = rule_key i (rules ! i); ts = the_default [] (map_of texts k)
     in AList.update k (ts[j := edit_text e (ts ! j)]) texts)"
| "typed rules texts _ = texts"

definition SegmentRulesEditor ::
  "bool \<Rightarrow> segment_rule list \<Rightarrow> (string \<times> string list) list \<Rightarrow> segment_rules_msg node list" where
  "SegmentRulesEditor disabled rules texts =
     (if rules = [] then [Says ''No rules.'']
      else concat (map (\<lambda>(i, r). RuleEditor disabled i r (texts_of texts i r)) (enumerate 0 rules))) @
     [Button ''Add rule'' (\<not> disabled) NewRule]"

section \<open>SegmentEditor\<close>

record segment_editor =
  ed_included :: "string list"
  ed_excluded :: "string list"
  ed_rules :: "segment_rule list"
  ed_draftIncluded :: string
  ed_draftExcluded :: string
  ed_texts :: "(string \<times> string list) list"

definition SegmentEditor :: "segment \<Rightarrow> segment_editor" where
  "SegmentEditor s = \<lparr>ed_included = sg_included s, ed_excluded = sg_excluded s, ed_rules = sg_rules s,
     ed_draftIncluded = [], ed_draftExcluded = [], ed_texts = retexts [] (sg_rules s)\<rparr>"

text \<open>Rules are compared by their \<open>JSON.stringify\<close>: rules that differ serialize differently, and the edits
  keep the order of the members, so equal rules serialize alike.\<close>

definition dirty :: "segment \<Rightarrow> segment_editor \<Rightarrow> bool" where
  "dirty s st \<longleftrightarrow> join '' '' (ed_included st) \<noteq> join '' '' (sg_included s) \<or>
     join '' '' (ed_excluded st) \<noteq> join '' '' (sg_excluded s) \<or> ed_rules st \<noteq> sg_rules s"

definition handleSave :: "segment \<Rightarrow> segment_editor \<Rightarrow> save_segment_input" where
  "handleSave s st = \<lparr>ss_name = sg_name s, ss_description = sg_description s, ss_included = ed_included st,
     ss_excluded = ed_excluded st, ss_included_contexts = sg_included_contexts s,
     ss_excluded_contexts = sg_excluded_contexts s, ss_rules = ed_rules st\<rparr>"

datatype segment_msg = InIncluded targets_msg | InExcluded targets_msg | InRules segment_rules_msg | Save

fun segment_update :: "segment \<Rightarrow> segment_editor \<Rightarrow> segment_msg \<Rightarrow> segment_editor \<times> save_segment_input list" where
  "segment_update s st (InIncluded m) = (let (d, vs) = targets_update (ed_included st) (ed_draftIncluded st) m
     in (st\<lparr>ed_draftIncluded := d, ed_included := the_default (ed_included st) vs\<rparr>, []))"
| "segment_update s st (InExcluded m) = (let (d, vs) = targets_update (ed_excluded st) (ed_draftExcluded st) m
     in (st\<lparr>ed_draftExcluded := d, ed_excluded := the_default (ed_excluded st) vs\<rparr>, []))"
| "segment_update s st (InRules m) = (let rules = segment_rules (ed_rules st) m
     in (st\<lparr>ed_rules := rules, ed_texts := retexts (typed (ed_rules st) (ed_texts st) m) rules\<rparr>, []))"
| "segment_update s st Save = (st, [handleSave s st])"

definition SegmentEditor_view :: "segment \<Rightarrow> bool \<Rightarrow> string option \<Rightarrow> segment_editor \<Rightarrow> segment_msg node list" where
  "SegmentEditor_view s isSaving errorMessage st =
     alert errorMessage @ [Says ''Individual targets''] @
     map (map_node InIncluded) (SegmentTargetsEditor ''Included'' (ed_included st) (ed_draftIncluded st)) @
     map (map_node InExcluded) (SegmentTargetsEditor ''Excluded'' (ed_excluded st) (ed_draftExcluded st)) @
     [Says ''Rules'', Says ''A context is a member if it matches any rule (all clauses in the rule must match).''] @
     map (map_node InRules) (SegmentRulesEditor isSaving (ed_rules st) (ed_texts st)) @
     [Button (if isSaving then ''Saving...'' else ''Save changes'') (dirty s st \<and> \<not> isSaving) Save]"

section \<open>ProjectGeneralForm\<close>

datatype general_msg = GeneralName string | GeneralSave

fun general_update :: "string \<Rightarrow> general_msg \<Rightarrow> string \<times> string list" where
  "general_update name (GeneralName v) = (v, [])"
| "general_update name GeneralSave = (name, [trim name])"

definition ProjectGeneralForm :: "project \<Rightarrow> bool \<Rightarrow> string \<Rightarrow> general_msg node list" where
  "ProjectGeneralForm p isSaving name =
     [Field ''Key'' (pr_key p) False GeneralName, Field ''Name'' name True GeneralName,
      Button (if isSaving then ''Saving...'' else ''Save changes'')
        (\<not> (trim name = [] \<or> trim name = pr_name p \<or> isSaving)) GeneralSave]"

end
