(* ===== verification/Pages.thy ===== *)
theory Pages
  imports Lists SegmentForms AuthForms Wire
begin

text \<open>
  The containers of the dashboard (\<open>web/src/features/*/*Page.tsx\<close>): what they keep, which mutation they
  run or where they navigate on a message, and what they show for the state of their queries. The
  query results are arguments of the views; the parameters \<open>org\<close> and \<open>proj\<close> come from the route.
\<close>

section \<open>Shared by the containers\<close>

text \<open>\<open>Run m f\<close> runs a mutation; on success its \<open>onSuccess\<close> sends \<open>f\<close> of the answer to the page.\<close>

datatype 'm effect = Run mutation "js \<Rightarrow> 'm list" | Go string | Refetch query_opts

datatype run_state = Idle | Running | RunFailed

definition failed_message :: "run_state \<Rightarrow> string \<Rightarrow> string option" where
  "failed_message r m = (if r = RunFailed then Some m else None)"

definition controlled :: "bool \<Rightarrow> run_state \<Rightarrow> string \<Rightarrow> dialog_props" where
  "controlled shown r m = \<lparr>dp_open = shown, dp_busy = (r = Running), dp_error = failed_message r m\<rparr>"

definition project_url :: "string \<Rightarrow> string \<Rightarrow> string" where
  "project_url org proj = path_of (project_path org proj)"

text \<open>\<open>picked || environments.data?.[0]?.key || ''\<close>\<close>

definition selected_env :: "string \<Rightarrow> environment list loaded \<Rightarrow> string" where
  "selected_env picked environments = (if picked \<noteq> [] then picked
     else (case data_of environments of Some (e # _) \<Rightarrow> en_key e | _ \<Rightarrow> []))"

text \<open>The debounced search box: what is typed, what is searched for, and whether the timer runs.\<close>

record search_box =
  sq_query :: string
  sq_search :: string
  sq_timer :: bool

definition empty_box :: search_box where
  "empty_box = \<lparr>sq_query = [], sq_search = [], sq_timer = True\<rparr>"

definition type_query :: "string \<Rightarrow> search_box \<Rightarrow> search_box" where
  "type_query q b = (if q = sq_query b then b else b\<lparr>sq_query := q, sq_timer := True\<rparr>)"

definition timer_fires :: "search_box \<Rightarrow> search_box" where
  "timer_fires b = (if sq_timer b then b\<lparr>sq_search := sq_query b, sq_timer := False\<rparr> else b)"

text \<open>\<open>data && (data.length > 0 || search) ? <Input/> : null\<close>, and the list or the note that nothing matches.\<close>

definition search_field :: "string \<Rightarrow> search_box \<Rightarrow> 'a list loaded \<Rightarrow> (string \<Rightarrow> 'm) \<Rightarrow> 'm node list" where
  "search_field label b q change = (case data_of q of
     Some xs \<Rightarrow> if xs \<noteq> [] \<or> sq_search b \<noteq> [] then [Field label (sq_query b) True change] else []
   | None \<Rightarrow> [])"

definition matches_view :: "string \<Rightarrow> search_box \<Rightarrow> ('a list \<Rightarrow> 'm node list) \<Rightarrow> 'a list \<Rightarrow> 'm node list" where
  "matches_view what b content xs = (if xs = [] \<and> sq_search b \<noteq> []
     then [Says (''No '' @ what @ '' match '' @ quoted (sq_search b) @ ''.'')] else content xs)"

definition key_name_json :: "string \<times> string \<Rightarrow> js" where
  "key_name_json e = JObj [(''key'', JStr (fst e)), (''name'', JStr (snd e))]"

text \<open>A string member of an answer, \<open>undefined\<close> otherwise.\<close>

definition string_member :: "js \<Rightarrow> string \<Rightarrow> string option" where
  "string_member v m = (case member_of v m of JStr s \<Rightarrow> Some s | _ \<Rightarrow> None)"

section \<open>EnvironmentsPage\<close>

record env_page =
  xp_box :: search_box
  xp_open :: bool
  xp_form :: keyed_form

definition initial_env_page :: env_page where
  "initial_env_page = \<lparr>xp_box = empty_box, xp_open = False, xp_form = blank_keyed\<rparr>"

datatype env_page_msg = XNew | XDialog "unit keyed_msg" | XCreated | XQuery string | XTimer | XRetry

fun env_page_update :: "string \<Rightarrow> string \<Rightarrow> env_page \<Rightarrow> env_page_msg \<Rightarrow> env_page \<times> env_page_msg effect list" where
  "env_page_update org proj st XNew = (st\<lparr>xp_open := True\<rparr>, [])"
| "env_page_update org proj st (XDialog m) = (let (f, out) = environment_update (xp_form st) m; st1 = st\<lparr>xp_form := f\<rparr>
     in (case out of
           [OpenChanged b] \<Rightarrow> (st1\<lparr>xp_open := b\<rparr>, [])
         | [Emitted e] \<Rightarrow> (st1, [Run (useCreateEnvironment org proj (key_name_json e)) (\<lambda>_. [XCreated])])
         | _ \<Rightarrow> (st1, [])))"
| "env_page_update org proj st XCreated = (st\<lparr>xp_open := False\<rparr>, [])"
| "env_page_update org proj st (XQuery q) = (st\<lparr>xp_box := type_query q (xp_box st)\<rparr>, [])"
| "env_page_update org proj st XTimer = (st\<lparr>xp_box := timer_fires (xp_box st)\<rparr>, [])"
| "env_page_update org proj st XRetry = (st, [Refetch (useEnvironments org proj (sq_search (xp_box st)))])"

definition EnvironmentsPage :: "environment list loaded \<Rightarrow> run_state \<Rightarrow> env_page \<Rightarrow> env_page_msg node list" where
  "EnvironmentsPage q create st =
     [Says ''Environments'', Says ''Each environment has its own flag configuration and SDK keys.'',
      Button ''New environment'' True XNew] @
     map (map_node XDialog) (CreateEnvironmentDialog (controlled (xp_open st) create
       ''Could not create environment - the key may already be taken.'') (xp_form st)) @
     search_field ''Search environments by name or key'' (xp_box st) q XQuery @
     loaded_view q XRetry (matches_view ''environments'' (xp_box st) EnvironmentList)"

section \<open>SegmentsPage\<close>

record segments_page =
  gp_box :: search_box
  gp_open :: bool
  gp_form :: segment_form

datatype segments_page_msg = GNew | GDialog "segment_field keyed_msg" | GCreated string | GQuery string | GTimer | GRetry | GOpen string

fun segments_page_update ::
  "string \<Rightarrow> string \<Rightarrow> segments_page \<Rightarrow> segments_page_msg \<Rightarrow> segments_page \<times> segments_page_msg effect list" where
  "segments_page_update org proj st GNew = (st\<lparr>gp_open := True\<rparr>, [])"
| "segments_page_update org proj st (GDialog m) = (let (f, out) = segment_form_update (gp_form st) m; st1 = st\<lparr>gp_form := f\<rparr>
     in (case out of
           [OpenChanged b] \<Rightarrow> (st1\<lparr>gp_open := b\<rparr>, [])
         | [Emitted i] \<Rightarrow> (st1, [Run (useCreateSegment org proj i) (\<lambda>_. [GCreated (cs_key i)])])
         | _ \<Rightarrow> (st1, [])))"
| "segments_page_update org proj st (GCreated k) =
     (st\<lparr>gp_open := False\<rparr>, [Go (project_url org proj @ ''/segments/'' @ k)])"
| "segments_page_update org proj st (GQuery q) = (st\<lparr>gp_box := type_query q (gp_box st)\<rparr>, [])"
| "segments_page_update org proj st GTimer = (st\<lparr>gp_box := timer_fires (gp_box st)\<rparr>, [])"
| "segments_page_update org proj st GRetry = (st, [Refetch (useSegments org proj (sq_search (gp_box st)))])"
| "segments_page_update org proj st (GOpen k) = (st, [Go (project_url org proj @ ''/segments/'' @ k)])"

definition SegmentsPage :: "segment list loaded \<Rightarrow> run_state \<Rightarrow> segments_page \<Rightarrow> segments_page_msg node list" where
  "SegmentsPage q create st =
     [Says ''Segments'', Says ''Reusable targeting groups that flag rules can reference.'', Button ''New segment'' True GNew] @
     map (map_node GDialog) (CreateSegmentDialog (controlled (gp_open st) create
       ''Could not create segment - the key may already be taken.'') (gp_form st)) @
     search_field ''Search segments by name, key, or description'' (gp_box st) q GQuery @
     loaded_view q GRetry (matches_view ''segments'' (gp_box st) (\<lambda>xs. map (map_node GOpen) (SegmentList xs)))"

section \<open>FlagsPage\<close>

record flags_page =
  lp_box :: search_box
  lp_open :: bool
  lp_form :: flag_form
  lp_picked :: string

datatype flags_page_msg = LNew | LDialog "flag_field keyed_msg" | LCreated string | LQuery string | LTimer | LRetryEnvs
  | LRetryFlags string | LPick string | LRow string flag_row_msg

fun flags_page_update ::
  "string \<Rightarrow> string \<Rightarrow> flags_page \<Rightarrow> flags_page_msg \<Rightarrow> flags_page \<times> flags_page_msg effect list" where
  "flags_page_update org proj st LNew = (st\<lparr>lp_open := True\<rparr>, [])"
| "flags_page_update org proj st (LDialog m) = (let (f, out) = flag_form_update (lp_form st) m; st1 = st\<lparr>lp_form := f\<rparr>
     in (case out of
           [OpenChanged b] \<Rightarrow> (st1\<lparr>lp_open := b\<rparr>, [])
         | [Emitted i] \<Rightarrow> (st1, [Run (useCreateFlag org proj i)
             (\<lambda>flag. case js_get flag ''key'' of Some (JStr k) \<Rightarrow> [LCreated k] | _ \<Rightarrow> [])])
         | _ \<Rightarrow> (st1, [])))"
| "flags_page_update org proj st (LCreated k) = (st\<lparr>lp_open := False\<rparr>, [Go (project_url org proj @ ''/flags/'' @ k)])"
| "flags_page_update org proj st (LQuery q) = (st\<lparr>lp_box := type_query q (lp_box st)\<rparr>, [])"
| "flags_page_update org proj st LTimer = (st\<lparr>lp_box := timer_fires (lp_box st)\<rparr>, [])"
| "flags_page_update org proj st LRetryEnvs = (st, [Refetch (useEnvironments org proj [])])"
| "flags_page_update org proj st (LRetryFlags envKey) =
     (st, [Refetch (useEnvFlags org proj envKey (sq_search (lp_box st)))])"
| "flags_page_update org proj st (LPick k) = (st\<lparr>lp_picked := k\<rparr>, [])"
| "flags_page_update org proj st (LRow envKey (OpenFlag k)) = (st, [Go (project_url org proj @ ''/flags/'' @ k)])"
| "flags_page_update org proj st (LRow envKey (ToggleFlag k on)) =
     (st, [Run (useToggleEnvFlag org proj envKey k on) (\<lambda>_. [])])"

text \<open>\<open>toggling\<close> is the key of the flag whose toggle is in flight.\<close>

definition FlagsPage ::
  "environment list loaded \<Rightarrow> flag_with_state list loaded \<Rightarrow> run_state \<Rightarrow> string option \<Rightarrow> flags_page \<Rightarrow> flags_page_msg node list" where
  "FlagsPage environments flags create toggling st =
     [Says ''Flags'', Button ''New flag'' True LNew] @
     map (map_node LDialog) (CreateFlagDialog (controlled (lp_open st) create
       ''Could not create flag - the key may already be taken.'') (lp_form st)) @
     loaded_view environments LRetryEnvs (\<lambda>es. let envKey = selected_env (lp_picked st) environments in
       EnvironmentTabs es envKey LPick @
       search_field ''Search flags by name, key, or description'' (lp_box st) flags LQuery @
       loaded_view flags (LRetryFlags envKey) (matches_view ''flags'' (lp_box st)
         (\<lambda>xs. map (map_node (LRow envKey)) (FlagList toggling xs))))"

section \<open>ContextsPage and ContextDetailPage\<close>

record contexts_page =
  cp_box :: search_box
  cp_picked :: string

datatype contexts_page_msg = CtQuery string | CtTimer | CtRetryEnvs | CtRetry string | CtPick string
  | CtOpen string "string \<times> string"

fun contexts_page_update ::
  "string \<Rightarrow> string \<Rightarrow> contexts_page \<Rightarrow> contexts_page_msg \<Rightarrow> contexts_page \<times> contexts_page_msg effect list" where
  "contexts_page_update org proj st (CtQuery q) = (st\<lparr>cp_box := type_query q (cp_box st)\<rparr>, [])"
| "contexts_page_update org proj st CtTimer = (st\<lparr>cp_box := timer_fires (cp_box st)\<rparr>, [])"
| "contexts_page_update org proj st CtRetryEnvs = (st, [Refetch (useEnvironments org proj [])])"
| "contexts_page_update org proj st (CtRetry envKey) =
     (st, [Refetch (useContexts org proj envKey (sq_search (cp_box st)))])"
| "contexts_page_update org proj st (CtPick k) = (st\<lparr>cp_picked := k\<rparr>, [])"
| "contexts_page_update org proj st (CtOpen envKey c) =
     (st, [Go (project_url org proj @ ''/contexts/'' @ encodeURIComponent (fst c) @ ''/'' @ encodeURIComponent (snd c) @
        ''?env='' @ envKey)])"

definition ContextsPage ::
  "(string \<Rightarrow> string) \<Rightarrow> environment list loaded \<Rightarrow> seen_context list loaded \<Rightarrow> contexts_page \<Rightarrow> contexts_page_msg node list" where
  "ContextsPage fmt environments contexts st =
     [Says ''Contexts'', Says ''Entities that have evaluated flags, by environment.''] @
     loaded_view environments CtRetryEnvs (\<lambda>es. let envKey = selected_env (cp_picked st) environments in
       EnvironmentTabs es envKey CtPick @
       [Field ''Search contexts by kind or key'' (sq_query (cp_box st)) True CtQuery] @
       loaded_view contexts (CtRetry envKey) (\<lambda>xs. map (map_node (CtOpen envKey)) (ContextList fmt xs)))"

text \<open>\<open>pretty\<close> is \<open>JSON.stringify\<close> with an indentation of two.\<close>

definition ContextDetailPage ::
  "(js \<Rightarrow> string) \<Rightarrow> string \<Rightarrow> string \<Rightarrow> string \<Rightarrow> string \<Rightarrow> context_detail loaded \<Rightarrow> unit node list" where
  "ContextDetailPage pretty org proj kind key detail =
     [Link (project_url org proj @ ''/contexts'') ''Contexts'', Badge ''secondary'' kind, Says key] @
     loaded_view detail () (\<lambda>d. [Says ''Attributes'', Says (pretty (JObj (sn_attributes (cd_context d)))),
       Says ''Expected variations''] @ ExpectedVariationsTable (cd_evaluations d))"

end
