(* ===== verification/AdminPages.thy ===== *)
theory AdminPages
  imports Pages
begin

text \<open>
  The containers of the organization and settings screens: projects, organizations, users, roles,
  members, SDK keys, webhooks, general settings, the login and setup pages.
\<close>

section \<open>ProjectsPage, ProjectsSettingsPage, OrganizationsPage\<close>

record projects_page =
  jp_open :: bool
  jp_form :: keyed_form

datatype projects_page_msg = JNew | JDialog "unit keyed_msg" | JCreated string | JRow rows_msg | JRetry

fun projects_page_update :: "string \<Rightarrow> projects_page \<Rightarrow> projects_page_msg \<Rightarrow> projects_page \<times> projects_page_msg effect list" where
  "projects_page_update org st JNew = (st\<lparr>jp_open := True\<rparr>, [])"
| "projects_page_update org st (JDialog m) = (let (f, out) = project_update (jp_form st) m; st1 = st\<lparr>jp_form := f\<rparr>
     in (case out of
           [OpenChanged b] \<Rightarrow> (st1\<lparr>jp_open := b\<rparr>, [])
         | [Emitted e] \<Rightarrow> (st1, [Run (useCreateProject org (key_name_json e))
             (\<lambda>p. case js_get p ''key'' of Some (JStr k) \<Rightarrow> [JCreated k] | _ \<Rightarrow> [])])
         | _ \<Rightarrow> (st1, [])))"
| "projects_page_update org st (JCreated k) = (st\<lparr>jp_open := False\<rparr>, [Go (project_url org k)])"
| "projects_page_update org st (JRow (OpenRow k)) = (st, [Go (project_url org k)])"
| "projects_page_update org st (JRow _) = (st, [])"
| "projects_page_update org st JRetry = (st, [Refetch (useProjects org)])"

definition ProjectsPage :: "string \<Rightarrow> project list loaded \<Rightarrow> run_state \<Rightarrow> projects_page \<Rightarrow> projects_page_msg node list" where
  "ProjectsPage org q create st =
     [Link ''/'' ''Organizations'', Says ''Projects'', Says (''Projects in '' @ org @ ''.''), Button ''New project'' True JNew] @
     map (map_node JDialog) (CreateProjectDialog (controlled (jp_open st) create
       ''Could not create project - the key may already be taken.'') (jp_form st)) @
     loaded_view q JRetry (\<lambda>ps. map (map_node JRow) (ProjectList False False None ps))"

text \<open>A page whose rows are opened or, once confirmed, deleted: \<open>Inl\<close> a row's message, \<open>Inr\<close> a retry.\<close>

definition rows_effect :: "(string \<Rightarrow> string) \<Rightarrow> (string \<Rightarrow> mutation) \<Rightarrow> rows_out \<Rightarrow> 'm effect" where
  "rows_effect url delete out = (case out of Opened k \<Rightarrow> Go (url k) | Deleted k \<Rightarrow> Run (delete k) (\<lambda>_. []))"

fun projects_settings_update ::
  "string \<Rightarrow> string option \<Rightarrow> rows_msg + unit \<Rightarrow> string option \<times> (rows_msg + unit) effect list" where
  "projects_settings_update org asking (Inl m) = (let (a, out) = rows_update asking m
     in (a, map (rows_effect (project_url org) (useDeleteProject org)) out))"
| "projects_settings_update org asking (Inr _) = (asking, [Refetch (useProjects org)])"

definition ProjectsSettingsPage ::
  "project list loaded \<Rightarrow> run_state \<Rightarrow> string option \<Rightarrow> (rows_msg + unit) node list" where
  "ProjectsSettingsPage q remove asking =
     [Says ''Projects'', Says ''Applications in this organization.''] @
     loaded_view q (Inr ()) (\<lambda>ps. map (map_node Inl) (ProjectList True (remove = Running) asking ps))"

fun organizations_update ::
  "string option \<Rightarrow> rows_msg + unit \<Rightarrow> string option \<times> (rows_msg + unit) effect list" where
  "organizations_update asking (Inl m) = (let (a, out) = rows_update asking m
     in (a, map (rows_effect (\<lambda>slug. path_of [''organizations'', slug]) useDeleteOrganization) out))"
| "organizations_update asking (Inr _) = (asking, [Refetch useOrganizations])"

definition OrganizationsPage ::
  "organization list loaded \<Rightarrow> run_state \<Rightarrow> string option \<Rightarrow> (rows_msg + unit) node list" where
  "OrganizationsPage q remove asking =
     [Says ''Organizations'', Says ''Organizations you have access to.''] @
     loaded_view q (Inr ()) (\<lambda>os. map (map_node Inl) (OrganizationList True (remove = Running) asking os))"

section \<open>UsersPage\<close>

definition user_json :: "create_user_input \<Rightarrow> js" where
  "user_json i = JObj [(''email'', JStr (cu_email i)), (''password'', JStr (cu_password i)),
     (''full_name'', JStr (cu_full_name i)), (''is_superuser'', JBool (cu_is_superuser i))]"

record users_page =
  up_form :: user_form
  up_asking :: "string option"

datatype users_page_msg = UpDialog user_msg | UpRow rows_msg | UpRetry

fun users_page_update :: "users_page \<Rightarrow> users_page_msg \<Rightarrow> users_page \<times> users_page_msg effect list" where
  "users_page_update st (UpDialog m) = (let (f, out) = user_update (up_form st) m
     in (st\<lparr>up_form := f\<rparr>, map (\<lambda>i. Run (useCreateUser (user_json i)) (\<lambda>_. [])) out))"
| "users_page_update st (UpRow m) = (let (a, out) = rows_update (up_asking st) m
     in (st\<lparr>up_asking := a\<rparr>, List.map_filter (\<lambda>e. case e of Deleted i \<Rightarrow> Some (Run (useDeleteUser i) (\<lambda>_. [])) | _ \<Rightarrow> None) out))"
| "users_page_update st UpRetry = (st, [Refetch useUsers])"

definition UsersPage :: "user list loaded \<Rightarrow> run_state \<Rightarrow> run_state \<Rightarrow> users_page \<Rightarrow> users_page_msg node list" where
  "UsersPage q create remove st =
     [Says ''Users'', Says ''Platform accounts across all organizations.''] @
     map (map_node UpDialog) (CreateUserDialog (create = Running) (failed_message create ''Could not create the user.'') (up_form st)) @
     loaded_view q UpRetry (\<lambda>us. map (map_node UpRow) (UserList (remove = Running) (up_asking st) us))"

section \<open>RolesSettingsPage and MembersSettingsPage\<close>

definition role_json :: "create_role_input \<Rightarrow> js" where
  "role_json i = JObj [(''key'', JStr (ci_key i)), (''name'', JStr (ci_name i)), (''description'', JStr (ci_description i)),
     (''scope'', JStr (ci_scope i)), (''permissions'', strings_json (ci_permissions i))]"

record roles_page =
  yp_open :: bool
  yp_form :: role_form

datatype roles_page_msg = YNew | YDialog "role_field keyed_msg" | YCreated | YRetry

fun roles_page_update :: "string \<Rightarrow> roles_page \<Rightarrow> roles_page_msg \<Rightarrow> roles_page \<times> roles_page_msg effect list" where
  "roles_page_update org st YNew = (st\<lparr>yp_open := True\<rparr>, [])"
| "roles_page_update org st (YDialog m) = (let (f, out) = role_form_update (yp_form st) m; st1 = st\<lparr>yp_form := f\<rparr>
     in (case out of
           [OpenChanged b] \<Rightarrow> (st1\<lparr>yp_open := b\<rparr>, [])
         | [Emitted i] \<Rightarrow> (st1, [Run (useCreateRole org (role_json i)) (\<lambda>_. [YCreated])])
         | _ \<Rightarrow> (st1, [])))"
| "roles_page_update org st YCreated = (st\<lparr>yp_open := False\<rparr>, [])"
| "roles_page_update org st YRetry = (st, [Refetch (useRoles org)])"

definition RolesSettingsPage ::
  "role list loaded \<Rightarrow> string list loaded \<Rightarrow> run_state \<Rightarrow> roles_page \<Rightarrow> roles_page_msg node list" where
  "RolesSettingsPage q permissions create st =
     [Says ''Roles'', Says ''Permission bundles assigned to members.'', Button ''New role'' True YNew] @
     map (map_node YDialog) (CreateRoleDialog (controlled (yp_open st) create
       ''Could not create the role - the key may already be taken.'') (the_default [] (data_of permissions)) (yp_form st)) @
     loaded_view q YRetry RoleList"

definition add_member_json :: "string \<times> string option \<Rightarrow> js" where
  "add_member_json e = JObj ([(''email'', JStr (fst e))] @ opt_member ''role'' JStr (snd e))"

definition grant_json :: "string \<times> string \<Rightarrow> js" where
  "grant_json e = JObj [(''email'', JStr (fst e)), (''role'', JStr (snd e))]"

record members_page =
  mp_open :: bool
  mp_form :: member_form
  mp_grant :: grant_form
  mp_notice :: "string option"

datatype members_page_msg = MpAdd | MpDialog member_msg | MpGrant grant_msg | MpAdded | MpGranted "string \<times> string" | MpRetry

fun members_page_update ::
  "string \<Rightarrow> string \<Rightarrow> members_page \<Rightarrow> members_page_msg \<Rightarrow> members_page \<times> members_page_msg effect list" where
  "members_page_update org proj st MpAdd = (st\<lparr>mp_open := True\<rparr>, [])"
| "members_page_update org proj st (MpDialog m) = (let (f, out) = member_update (mp_form st) m; st1 = st\<lparr>mp_form := f\<rparr>
     in (case out of
           [OpenChanged b] \<Rightarrow> (st1\<lparr>mp_open := b\<rparr>, [])
         | [Emitted e] \<Rightarrow> (st1, [Run (useAddMember org (add_member_json e)) (\<lambda>_. [MpAdded])])
         | _ \<Rightarrow> (st1, [])))"
| "members_page_update org proj st (MpGrant m) = (let (f, out) = grant_update (mp_grant st) m
     in (st\<lparr>mp_grant := f\<rparr>, map (\<lambda>e. Run (useGrantProjectRole org proj (grant_json e)) (\<lambda>_. [MpGranted e])) out))"
| "members_page_update org proj st MpAdded = (st\<lparr>mp_open := False\<rparr>, [])"
| "members_page_update org proj st (MpGranted e) =
     (st\<lparr>mp_notice := Some (''Granted '' @ fst e @ '' the '' @ snd e @ '' role on '' @ proj @ ''.'')\<rparr>, [])"
| "members_page_update org proj st MpRetry = (st, [Refetch (useMembers org)])"

definition roles_of_scope :: "role_scope \<Rightarrow> role list loaded \<Rightarrow> role list" where
  "roles_of_scope s roles = filter (\<lambda>r. rl_scope r = s) (the_default [] (data_of roles))"

definition MembersSettingsPage ::
  "string \<Rightarrow> member list loaded \<Rightarrow> role list loaded \<Rightarrow> run_state \<Rightarrow> run_state \<Rightarrow> members_page \<Rightarrow> members_page_msg node list" where
  "MembersSettingsPage proj q roles add grant st =
     [Says ''Members'', Says ''Users with access to this organization.''] @
     map (map_node MpGrant) (GrantProjectRoleDialog proj (roles_of_scope ScopeProject roles) (grant = Running)
       (failed_message grant ''Could not grant the role - check the email exists.'') (mp_grant st)) @
     [Button ''Add member'' True MpAdd] @
     says_if (truthy_opt (mp_notice st)) (the_default [] (mp_notice st)) @
     map (map_node MpDialog) (AddMemberDialog (controlled (mp_open st) add
       ''Could not add the member - check the email exists.'') (roles_of_scope ScopeOrganization roles) (mp_form st)) @
     loaded_view q MpRetry MemberList"

section \<open>SdkKeysPage\<close>

definition sdk_key_json :: "string \<times> string \<Rightarrow> js" where
  "sdk_key_json e = JObj [(''kind'', JStr (fst e)), (''name'', JStr (snd e))]"

record sdk_keys_page =
  kp_picked :: string
  kp_open :: bool
  kp_form :: sdk_key_form

datatype sdk_keys_page_msg = KpNew | KpDialog string sdk_key_msg | KpCreated | KpPick string | KpRevoke string string
  | KpRetryEnvs | KpRetry string

fun sdk_keys_page_update ::
  "string \<Rightarrow> string \<Rightarrow> sdk_keys_page \<Rightarrow> sdk_keys_page_msg \<Rightarrow> sdk_keys_page \<times> sdk_keys_page_msg effect list" where
  "sdk_keys_page_update org proj st KpNew = (st\<lparr>kp_open := True\<rparr>, [])"
| "sdk_keys_page_update org proj st (KpDialog envKey m) = (let (f, out) = sdk_key_update (kp_form st) m; st1 = st\<lparr>kp_form := f\<rparr>
     in (case out of
           [OpenChanged b] \<Rightarrow> (st1\<lparr>kp_open := b\<rparr>, [])
         | [Emitted e] \<Rightarrow> (st1, [Run (useCreateSdkKey org proj envKey (sdk_key_json e)) (\<lambda>_. [KpCreated])])
         | _ \<Rightarrow> (st1, [])))"
| "sdk_keys_page_update org proj st KpCreated = (st\<lparr>kp_open := False\<rparr>, [])"
| "sdk_keys_page_update org proj st (KpPick k) = (st\<lparr>kp_picked := k\<rparr>, [])"
| "sdk_keys_page_update org proj st (KpRevoke envKey i) = (st, [Run (useRevokeSdkKey org proj envKey i) (\<lambda>_. [])])"
| "sdk_keys_page_update org proj st KpRetryEnvs = (st, [Refetch (useEnvironments org proj [])])"
| "sdk_keys_page_update org proj st (KpRetry envKey) = (st, [Refetch (useSdkKeys org proj envKey)])"

definition SdkKeysPage ::
  "environment list loaded \<Rightarrow> sdk_key list loaded \<Rightarrow> run_state \<Rightarrow> string option \<Rightarrow> sdk_keys_page \<Rightarrow> sdk_keys_page_msg node list" where
  "SdkKeysPage environments keys create revokingId st = (let envKey = selected_env (kp_picked st) environments in
     [Says ''SDK keys'', Says ''Keys SDKs use to evaluate flags in an environment.'',
      Button ''New SDK key'' (envKey \<noteq> []) KpNew] @
     map (map_node (KpDialog envKey)) (CreateSdkKeyDialog (controlled (kp_open st) create
       ''Could not create the SDK key.'') (kp_form st)) @
     loaded_view environments KpRetryEnvs (\<lambda>es. EnvironmentTabs es envKey KpPick @
       loaded_view keys (KpRetry envKey) (\<lambda>ks. map (map_node (KpRevoke envKey)) (SdkKeyList True revokingId ks))))"

section \<open>WebhooksSettingsPage\<close>

definition webhook_json :: "create_webhook_input \<Rightarrow> js" where
  "webhook_json i = JObj [(''url'', JStr (cw_url i)), (''event_types'', strings_json (cw_event_types i)),
     (''description'', JStr (cw_description i))]"

record webhooks_page =
  bp_form :: webhook_form
  bp_revealedSecret :: "string option"
  bp_notice :: "string option"
  bp_deliveriesFor :: "string option"

datatype webhooks_page_msg = BDialog webhook_msg | BList webhooks_msg | BMinted js | BQueued | BClose | BRetry | BRetryDeliveries

fun webhooks_page_update :: "string \<Rightarrow> webhooks_page \<Rightarrow> webhooks_page_msg \<Rightarrow> webhooks_page \<times> webhooks_page_msg effect list" where
  "webhooks_page_update org st (BDialog m) = (let (f, out) = webhook_update (bp_form st) m
     in (st\<lparr>bp_form := f\<rparr>, map (\<lambda>i. Run (useCreateWebhook org (webhook_json i)) (\<lambda>w. [BMinted w])) out))"
| "webhooks_page_update org st (BMinted w) = (st\<lparr>bp_notice := None, bp_revealedSecret := string_member w ''secret''\<rparr>, [])"
| "webhooks_page_update org st BQueued =
     (st\<lparr>bp_notice := Some ''Test event queued - it will be delivered shortly.''\<rparr>, [])"
| "webhooks_page_update org st (BList DismissSecret) = (st\<lparr>bp_revealedSecret := None\<rparr>, [])"
| "webhooks_page_update org st (BList (EnableWebhook i b)) = (st, [Run (useSetWebhookEnabled org i b) (\<lambda>_. [])])"
| "webhooks_page_update org st (BList (TestWebhook i)) = (st, [Run (useTestWebhook org i) (\<lambda>_. [BQueued])])"
| "webhooks_page_update org st (BList (ViewDeliveries i)) = (st\<lparr>bp_deliveriesFor := Some i\<rparr>, [])"
| "webhooks_page_update org st (BList (ResetSecret i)) = (st, [Run (useResetWebhookSecret org i) (\<lambda>w. [BMinted w])])"
| "webhooks_page_update org st (BList (DeleteWebhook i)) = (st, [Run (useDeleteWebhook org i) (\<lambda>_. [])])"
| "webhooks_page_update org st BClose = (st\<lparr>bp_deliveriesFor := None\<rparr>, [])"
| "webhooks_page_update org st BRetry = (st, [Refetch (useWebhooks org)])"
| "webhooks_page_update org st BRetryDeliveries = (st, [Refetch
     (useWebhookDeliveries org (the_default [] (bp_deliveriesFor st)) (bp_deliveriesFor st \<noteq> None))])"

definition WebhooksSettingsPage ::
  "(string \<Rightarrow> string) \<Rightarrow> webhook list loaded \<Rightarrow> webhook_delivery list loaded \<Rightarrow> bool \<Rightarrow> bool \<Rightarrow> webhooks_page \<Rightarrow> webhooks_page_msg node list" where
  "WebhooksSettingsPage fmt q deliveries creating busy st =
     [Says ''Webhooks'', Says ''Receive signed POSTs when events happen in this organization.''] @
     map (map_node BDialog) (CreateWebhookDialog creating (bp_form st)) @
     loaded_view q BRetry (\<lambda>ws. map (map_node BList) (WebhookList busy (bp_revealedSecret st) (bp_notice st) ws)) @
     dialog (bp_deliveriesFor st \<noteq> None) BClose (Says ''Recent deliveries'' #
       loaded_view deliveries BRetryDeliveries (WebhookDeliveries fmt))"

section \<open>GeneralSettingsPage, LoginPage, SetupPage\<close>

fun general_page_update ::
  "string \<Rightarrow> string \<Rightarrow> string \<Rightarrow> general_msg + unit \<Rightarrow> string \<times> (general_msg + unit) effect list" where
  "general_page_update org proj name (Inl m) = (let (n, out) = general_update name m
     in (n, map (\<lambda>v. Run (useUpdateProject org proj v) (\<lambda>_. [])) out))"
| "general_page_update org proj name (Inr _) = (name, [Refetch (useProject org proj)])"

definition GeneralSettingsPage :: "project loaded \<Rightarrow> bool \<Rightarrow> string \<Rightarrow> (general_msg + unit) node list" where
  "GeneralSettingsPage q isSaving name = [Says ''General'', Says ''Project settings.''] @
     loaded_view q (Inr ()) (\<lambda>p. map (map_node Inl) (ProjectGeneralForm p isSaving name))"

definition login_json :: "login_input \<Rightarrow> js" where
  "login_json i = JObj [(''email'', JStr (li_email i)), (''password'', JStr (li_password i))]"

datatype login_page_msg = InLogin login_msg | LoggedIn

fun login_page_update :: "login_form \<Rightarrow> login_page_msg \<Rightarrow> login_form \<times> login_page_msg effect list" where
  "login_page_update st (InLogin m) = (let (f, out) = login_update st m
     in (f, map (\<lambda>i. Run (useLogin (login_json i)) (\<lambda>_. [LoggedIn])) out))"
| "login_page_update st LoggedIn = (st, [Go ''/''])"

definition LoginPage :: "bool \<Rightarrow> string option \<Rightarrow> login_form \<Rightarrow> login_page_msg node list" where
  "LoginPage isSubmitting error st = map (map_node InLogin) (LoginForm isSubmitting error st)"

definition setup_json :: "setup_input \<Rightarrow> js" where
  "setup_json i = JObj ([(''email'', JStr (su_email i)), (''password'', JStr (su_password i))] @
     opt_member ''full_name'' JStr (su_full_name i) @ opt_member ''organization_name'' JStr (su_organization_name i) @
     opt_member ''organization_slug'' JStr (su_organization_slug i))"

datatype setup_page_msg = InWizard wizard_msg | SetupDone

fun setup_page_update :: "wizard \<Rightarrow> setup_page_msg \<Rightarrow> wizard \<times> setup_page_msg effect list" where
  "setup_page_update w (InWizard m) = (let (w1, out) = wizard_update w m
     in (w1, map (\<lambda>i. Run (useCompleteSetup (setup_json i)) (\<lambda>_. [SetupDone])) out))"
| "setup_page_update w SetupDone = (w, [Go ''/''])"

definition SetupPage :: "bool \<Rightarrow> string option \<Rightarrow> wizard \<Rightarrow> setup_page_msg node list" where
  "SetupPage isSubmitting error w = map (map_node InWizard) (SetupWizard_view isSubmitting error w)"

end
