(* ===== verification/ProjectPages.thy ===== *)
theory ProjectPages
  imports Pages
begin

text \<open>
  The containers of a project's other screens: approvals, lifecycle, audit log, analytics, a segment and
  a flag, and the layouts and routes around them (\<open>web/src/app/*Layout.tsx\<close>, \<open>router.tsx\<close>).
\<close>

section \<open>ApprovalsPage, LifecyclePage, AuditPage\<close>

datatype approvals_msg = ApFilter string | ApReview "string \<times> bool" | ApRetry

definition approvals_status :: "string \<Rightarrow> string option" where
  "approvals_status f = (if f = ''all'' then None else Some f)"

fun approvals_update :: "string \<Rightarrow> string \<Rightarrow> string \<Rightarrow> approvals_msg \<Rightarrow> string \<times> approvals_msg effect list" where
  "approvals_update org proj f (ApFilter v) = (v, [])"
| "approvals_update org proj f (ApReview r) = (f, [Run (useReviewChange org proj (fst r) (snd r) None) (\<lambda>_. [])])"
| "approvals_update org proj f ApRetry = (f, [Refetch (useChanges org proj (approvals_status f))])"

definition ApprovalsPage ::
  "(string \<Rightarrow> string) \<Rightarrow> change_request list loaded \<Rightarrow> bool \<Rightarrow> string \<Rightarrow> approvals_msg node list" where
  "ApprovalsPage fmt q reviewing f =
     [Says ''Approvals'', Says ''Proposed flag changes awaiting review. Approving a request applies it.'',
      Choice ''filter'' [(''pending'', ''Pending''), (''approved'', ''Approved''), (''rejected'', ''Rejected''), (''all'', ''All'')]
        f True ApFilter] @
     loaded_view q ApRetry (\<lambda>cs. map (map_node ApReview) (ChangeRequestList fmt True reviewing cs))"

datatype lifecycle_msg = LcFilter string | LcOpen string | LcRetry

definition lifecycle_filter :: "string \<Rightarrow> flag_lifecycle list \<Rightarrow> flag_lifecycle list" where
  "lifecycle_filter f flags = filter (\<lambda>x. if f = ''stale'' then lf_status x = LcInactive
     else if f = ''temporary'' then fl_temporary (lf_flag x) else True) flags"

fun lifecycle_update :: "string \<Rightarrow> string \<Rightarrow> string \<Rightarrow> lifecycle_msg \<Rightarrow> string \<times> lifecycle_msg effect list" where
  "lifecycle_update org proj f (LcFilter v) = (v, [])"
| "lifecycle_update org proj f (LcOpen k) = (f, [Go (project_url org proj @ ''/flags/'' @ k)])"
| "lifecycle_update org proj f LcRetry = (f, [Refetch (useFlagLifecycle org proj)])"

definition LifecyclePage :: "(string \<Rightarrow> string) \<Rightarrow> flag_lifecycle list loaded \<Rightarrow> string \<Rightarrow> lifecycle_msg node list" where
  "LifecyclePage fmt q f =
     [Says ''Flag lifecycle'', Says ''Flags by activity. Stale flags - not evaluated recently - are cleanup candidates, especially temporary ones.'',
      Choice ''filter'' [(''all'', ''All''), (''stale'', ''Stale''), (''temporary'', ''Temporary'')] f True LcFilter] @
     loaded_view q LcRetry (\<lambda>fs. map (map_node LcOpen) (FlagLifecycleList fmt (lifecycle_filter f fs)))"

definition AUDIT_FILTERS :: "(string \<times> string) list" where
  "AUDIT_FILTERS = [([], ''All''), (''flag'', ''Flags''), (''segment'', ''Segments''), (''sdk_key'', ''SDK keys''),
     (''webhook'', ''Webhooks''), (''role'', ''Roles'')]"

datatype audit_msg = AuFilter string | AuRetry

fun audit_update :: "string \<Rightarrow> string \<Rightarrow> audit_msg \<Rightarrow> string \<times> audit_msg effect list" where
  "audit_update org f (AuFilter v) = (v, [])"
| "audit_update org f AuRetry = (f, [Refetch (useAudit org f)])"

definition AuditPage :: "(string \<Rightarrow> string) \<Rightarrow> audit_entry list loaded \<Rightarrow> string \<Rightarrow> audit_msg node list" where
  "AuditPage fmt q f =
     [Says ''Audit log'', Says ''Every change in this organization, most recent first.'',
      Choice ''filter'' AUDIT_FILTERS f True AuFilter] @ loaded_view q AuRetry (AuditList fmt)"

section \<open>AnalyticsPage and FlagStatsSection\<close>

record analytics_page =
  an_picked :: string
  an_since :: string

datatype analytics_msg = AnPick string | AnSince string | AnOpen string | AnRetryEnvs | AnRetry string

fun analytics_update ::
  "string \<Rightarrow> string \<Rightarrow> analytics_page \<Rightarrow> analytics_msg \<Rightarrow> analytics_page \<times> analytics_msg effect list" where
  "analytics_update org proj st (AnPick k) = (st\<lparr>an_picked := k\<rparr>, [])"
| "analytics_update org proj st (AnSince s) = (st\<lparr>an_since := s\<rparr>, [])"
| "analytics_update org proj st (AnOpen k) = (st, [Go (project_url org proj @ ''/flags/'' @ k)])"
| "analytics_update org proj st AnRetryEnvs = (st, [Refetch (useEnvironments org proj [])])"
| "analytics_update org proj st (AnRetry envKey) = (st, [Refetch (useEnvStats org proj envKey (an_since st))])"

definition env_rows :: "env_stats \<Rightarrow> stats_row list" where
  "env_rows s = map (\<lambda>(k, n). \<lparr>sb_key = k, sb_label = k, sb_count = n\<rparr>) (ea_flags s)"

definition AnalyticsPage ::
  "(int \<Rightarrow> string) \<Rightarrow> environment list loaded \<Rightarrow> env_stats loaded \<Rightarrow> analytics_page \<Rightarrow> analytics_msg node list" where
  "AnalyticsPage fmtn environments stats st =
     [Says ''Analytics'', Says ''Flag-evaluation volume by environment. Counts are rolled up from server-side evaluation.''] @
     loaded_view environments AnRetryEnvs (\<lambda>es. let envKey = selected_env (an_picked st) environments in
       EnvironmentTabs es envKey AnPick @ [Choice ''since'' STATS_WINDOWS (an_since st) True AnSince] @
       loaded_view stats (AnRetry envKey) (\<lambda>s.
         [Says (fmtn (ea_total s) @ '' evaluations - '' @ plural (length (ea_flags s)) ''flag'')] @
         map (map_node AnOpen) (StatsBars fmtn True (ea_total s) (env_rows s))))"

definition variation_rows :: "js list \<Rightarrow> flag_stats \<Rightarrow> stats_row list" where
  "variation_rows vs s = map (\<lambda>(v, n). \<lparr>sb_key = show_int v, sb_label = variationLabel vs v, sb_count = n\<rparr>) (fa_variations s)"

definition window_label :: "string \<Rightarrow> string" where
  "window_label since = (case List.find (\<lambda>w. fst w = since) STATS_WINDOWS of Some w \<Rightarrow> snd w | None \<Rightarrow> since)"

datatype flag_stats_msg = FsSince string | FsRetry | FsBar string

definition FlagStatsSection ::
  "(int \<Rightarrow> string) \<Rightarrow> js list \<Rightarrow> flag_stats loaded \<Rightarrow> string \<Rightarrow> flag_stats_msg node list" where
  "FlagStatsSection fmtn vs stats since =
     [Says ''Evaluations'',
      Says (case data_of stats of Some s \<Rightarrow> fmtn (fa_total s) @ '' in the last '' @ window_label since
        | None \<Rightarrow> ''How this flag is resolving.''),
      Choice ''since'' STATS_WINDOWS since True FsSince] @
     loaded_view stats FsRetry (\<lambda>s. map (map_node FsBar) (StatsBars fmtn False (fa_total s) (variation_rows vs s)))"

section \<open>SegmentDetailPage\<close>

definition target_json :: "segment_target \<Rightarrow> js" where
  "target_json t = JObj [(''contextKind'', JStr (st_contextKind t)), (''values'', strings_json (st_values t))]"

definition segment_rule_json :: "segment_rule \<Rightarrow> js" where
  "segment_rule_json r = JObj (opt_member ''id'' JStr (sr_id r) @ [(''clauses'', JArr (map clause_json (sr_clauses r)))] @
     opt_member ''weight'' int_json (sr_weight r) @ opt_member ''bucketBy'' JStr (sr_bucketBy r) @
     opt_member ''rolloutContextKind'' JStr (sr_rolloutContextKind r))"

definition save_json :: "save_segment_input \<Rightarrow> js" where
  "save_json b = JObj [(''name'', JStr (ss_name b)), (''description'', JStr (ss_description b)),
     (''included'', strings_json (ss_included b)), (''excluded'', strings_json (ss_excluded b)),
     (''included_contexts'', JArr (map target_json (ss_included_contexts b))),
     (''excluded_contexts'', JArr (map target_json (ss_excluded_contexts b))),
     (''rules'', JArr (map segment_rule_json (ss_rules b)))]"

text \<open>The editor is mounted per version: a saved segment starts a fresh one.\<close>

record segment_page =
  dp_asking :: bool
  dp_editor :: segment_editor

datatype segment_page_msg = SpAsk | SpCancel | SpDelete | SpDeleted | SpEdit segment segment_msg | SpVersion segment | SpRetry

fun segment_page_update ::
  "string \<Rightarrow> string \<Rightarrow> string \<Rightarrow> segment_page \<Rightarrow> segment_page_msg \<Rightarrow> segment_page \<times> segment_page_msg effect list" where
  "segment_page_update org proj segKey st SpAsk = (st\<lparr>dp_asking := True\<rparr>, [])"
| "segment_page_update org proj segKey st SpCancel = (st\<lparr>dp_asking := False\<rparr>, [])"
| "segment_page_update org proj segKey st SpDelete =
     (st\<lparr>dp_asking := False\<rparr>, [Run (useDeleteSegment org proj segKey) (\<lambda>_. [SpDeleted])])"
| "segment_page_update org proj segKey st SpDeleted = (st, [Go (project_url org proj @ ''/segments'')])"
| "segment_page_update org proj segKey st (SpEdit s m) = (let (ed, out) = segment_update s (dp_editor st) m
     in (st\<lparr>dp_editor := ed\<rparr>, map (\<lambda>b. Run (useSaveSegment org proj segKey (save_json b)) (\<lambda>_. [])) out))"
| "segment_page_update org proj segKey st (SpVersion s) = (st\<lparr>dp_editor := SegmentEditor s\<rparr>, [])"
| "segment_page_update org proj segKey st SpRetry = (st, [Refetch (useSegment org proj segKey)])"

definition SegmentDetailPage ::
  "string \<Rightarrow> string \<Rightarrow> string \<Rightarrow> segment loaded \<Rightarrow> run_state \<Rightarrow> run_state \<Rightarrow> segment_page \<Rightarrow> segment_page_msg node list" where
  "SegmentDetailPage org proj segKey q save delete st =
     (let name = (case data_of q of Some s \<Rightarrow> sg_name s | None \<Rightarrow> segKey) in
     [Link (project_url org proj @ ''/segments'') ''Segments'', Says name] @
     (case data_of q of Some s \<Rightarrow> says_if (sg_description s \<noteq> []) (sg_description s) | None \<Rightarrow> []) @
     ConfirmDeleteDialog (dp_asking st) ''Delete segment'' (''Delete '' @ name @ ''?'')
       ''Flags referencing this segment will no longer match it. This cannot be undone.'' ''Delete segment''
       (delete = Running) SpAsk SpCancel SpDelete @
     loaded_view q SpRetry (\<lambda>s. map (map_node (SpEdit s)) (SegmentEditor_view s (save = Running)
       (failed_message save ''Could not save the segment.'') (dp_editor st))))"

section \<open>FlagDetailPage\<close>

record flag_page =
  pg_picked :: string
  pg_revealedUrl :: "string option"
  pg_asking :: bool
  pg_trigger :: trigger_form
  pg_change :: change_form
  pg_schedule :: schedule_form
  pg_targets :: targets_form
  pg_rules :: flag_rules

datatype flag_page_msg =
    PgPick string
  | PgAsk | PgCancel | PgDelete | PgDeleted
  | PgToggle bool
  | PgTrigger trigger_msg
  | PgChange change_msg
  | PgSchedule schedule_msg
  | PgTargeting targeting_msg
  | PgRules rules_msg
  | PgCancelScheduled string
  | PgTriggers triggers_msg
  | PgMinted js
  | PgRetryFlag | PgRetryEnvs | PgRetryConfig

text \<open>The page's data: the selected environment, the configuration and whether a patch is in flight.\<close>

record flag_ctx =
  px_org :: string
  px_proj :: string
  px_flag :: string
  px_env :: string
  px_variations :: "js list"
  px_config :: flag_config
  px_busy :: bool

definition patch_config :: "flag_ctx \<Rightarrow> flag_instruction list \<Rightarrow> 'm effect" where
  "patch_config p xs = Run (usePatchFlagConfig (px_org p) (px_proj p) (px_flag p) (px_env p) (instructions_json xs)) (\<lambda>_. [])"

definition rule_instructions :: "rules_out \<Rightarrow> flag_instruction list" where
  "rule_instructions out = (case out of AddRule cs v \<Rightarrow> on_add_rule cs v | UpdateRule i cs v \<Rightarrow> on_update_rule i cs v
     | RemoveRule i \<Rightarrow> on_remove_rule i | ReorderRules ids \<Rightarrow> on_reorder_rules ids)"

definition target_instructions_of :: "target_out \<Rightarrow> flag_instruction list" where
  "target_instructions_of out = (case out of OnAdd v k \<Rightarrow> on_add_target v k | OnRemove v k \<Rightarrow> on_remove_target v k)"

definition change_input :: "flag_instruction list \<times> string \<Rightarrow> js" where
  "change_input e = JObj [(''instructions'', instructions_json (fst e)), (''comment'', JStr (snd e))]"

definition schedule_input :: "flag_instruction list \<times> string \<times> string \<Rightarrow> js" where
  "schedule_input e = (case e of (xs, at_time, comment) \<Rightarrow> JObj [(''instructions'', instructions_json xs),
     (''scheduled_for'', JStr at_time), (''comment'', JStr comment)])"

definition trigger_input :: "string \<times> string \<Rightarrow> js" where
  "trigger_input e = JObj [(''action'', JStr (fst e)), (''description'', JStr (snd e))]"

fun flag_page_update ::
  "zone \<Rightarrow> flag_ctx \<Rightarrow> flag_page \<Rightarrow> flag_page_msg \<Rightarrow> flag_page \<times> flag_page_msg effect list" where
  "flag_page_update z p st (PgPick k) = (st\<lparr>pg_picked := k\<rparr>, [])"
| "flag_page_update z p st PgAsk = (st\<lparr>pg_asking := True\<rparr>, [])"
| "flag_page_update z p st PgCancel = (st\<lparr>pg_asking := False\<rparr>, [])"
| "flag_page_update z p st PgDelete =
     (st\<lparr>pg_asking := False\<rparr>, [Run (useDeleteFlag (px_org p) (px_proj p) (px_flag p)) (\<lambda>_. [PgDeleted])])"
| "flag_page_update z p st PgDeleted = (st, [Go (project_url (px_org p) (px_proj p))])"
| "flag_page_update z p st (PgToggle on) =
     (st, [Run (useToggleFlag (px_org p) (px_proj p) (px_flag p) (px_env p) on) (\<lambda>_. [])])"
| "flag_page_update z p st (PgTrigger m) = (let (f, out) = trigger_update (pg_trigger st) m
     in (st\<lparr>pg_trigger := f\<rparr>, map (\<lambda>e. Run (useCreateTrigger (px_org p) (px_proj p) (px_flag p) (px_env p) (trigger_input e))
          (\<lambda>t. [PgMinted t])) out))"
| "flag_page_update z p st (PgMinted t) = (st\<lparr>pg_revealedUrl := string_member t ''url''\<rparr>, [])"
| "flag_page_update z p st (PgChange m) = (let (f, out) = change_update (fc_on (px_config p)) (pg_change st) m
     in (st\<lparr>pg_change := f\<rparr>, map (\<lambda>e. Run (useCreateChange (px_org p) (px_proj p) (px_flag p) (px_env p) (change_input e))
          (\<lambda>_. [])) out))"
| "flag_page_update z p st (PgSchedule m) = (let (f, out) = schedule_update z (fc_on (px_config p)) (pg_schedule st) m
     in (st\<lparr>pg_schedule := f\<rparr>, map (\<lambda>e. Run (useCreateScheduledChange (px_org p) (px_proj p) (px_flag p) (px_env p)
          (schedule_input e)) (\<lambda>_. [])) out))"
| "flag_page_update z p st (PgTargeting (SetFallthrough v)) = (st, [patch_config p (set_fallthrough (int v))])"
| "flag_page_update z p st (PgTargeting (SetOffVariation v)) = (st, [patch_config p (set_off_variation (int v))])"
| "flag_page_update z p st (PgTargeting (InTargets m)) = (let (f, out) = individual_update (pg_targets st) m
     in (st\<lparr>pg_targets := f\<rparr>, map (\<lambda>e. patch_config p (target_instructions_of e)) out))"
| "flag_page_update z p st (PgRules m) =
     (let (f, out) = rules_update (px_variations p) (fc_rules (px_config p)) (px_busy p) (pg_rules st) m
      in (st\<lparr>pg_rules := f\<rparr>, map (\<lambda>e. patch_config p (rule_instructions e)) out))"
| "flag_page_update z p st (PgCancelScheduled i) = (st, [Run (useCancelScheduledChange (px_org p) (px_proj p) i) (\<lambda>_. [])])"
| "flag_page_update z p st (PgTriggers DismissUrl) = (st\<lparr>pg_revealedUrl := None\<rparr>, [])"
| "flag_page_update z p st (PgTriggers (EnableTrigger i b)) = (st, [Run (useSetTriggerEnabled (px_org p) (px_proj p) i b) (\<lambda>_. [])])"
| "flag_page_update z p st (PgTriggers (ResetTrigger i)) = (st, [Run (useResetTrigger (px_org p) (px_proj p) i) (\<lambda>t. [PgMinted t])])"
| "flag_page_update z p st (PgTriggers (DeleteTrigger i)) = (st, [Run (useDeleteTrigger (px_org p) (px_proj p) i) (\<lambda>_. [])])"
| "flag_page_update z p st PgRetryFlag = (st, [Refetch (useFlag (px_org p) (px_proj p) (px_flag p))])"
| "flag_page_update z p st PgRetryEnvs = (st, [Refetch (useEnvironments (px_org p) (px_proj p) [])])"
| "flag_page_update z p st PgRetryConfig = (st, [Refetch (useFlagConfig (px_org p) (px_proj p) (px_flag p) (px_env p))])"

text \<open>What the other mutations of the page are doing.\<close>

record flag_busy =
  fy_delete :: bool
  fy_toggle :: bool
  fy_patch :: bool
  fy_trigger :: bool
  fy_change :: bool
  fy_schedule :: bool
  fy_cancel :: bool
  fy_triggers :: bool

text \<open>The panels below the environment tabs; the statistics are a section of their own.\<close>

definition flag_panels ::
  "(string \<Rightarrow> string) \<Rightarrow> int \<Rightarrow> int \<Rightarrow> string \<Rightarrow> flag \<Rightarrow> flag_config \<Rightarrow> scheduled_change list option \<Rightarrow> flag_trigger list option \<Rightarrow>
   flag_busy \<Rightarrow> flag_page \<Rightarrow> flag_page_msg node list" where
  "flag_panels fmt now r envKey flag config scheduled triggers y st =
     map (map_node PgTrigger) (CreateTriggerDialog envKey (fy_trigger y) (pg_trigger st)) @
     map (map_node PgSchedule) (ScheduleChangeDialog envKey (fy_schedule y) now (pg_schedule st)) @
     map (map_node PgChange) (RequestChangeDialog envKey (fy_change y) (pg_change st)) @
     map (map_node PgToggle) (FlagConfigCard (fl_variations flag) config (fy_toggle y)) @
     map (map_node PgTargeting) (FlagTargeting_view (fl_variations flag) config (fy_patch y) (pg_targets st)) @
     [Says ''Targeting rules'', Says ''When on, contexts matching a rule get its variation (rules are checked in order, before the default).''] @
     map (map_node PgRules) (FlagRules (fl_variations flag) (fc_rules config) (fy_patch y) r (pg_rules st)) @
     (case scheduled of Some cs \<Rightarrow> map (map_node PgCancelScheduled) (ScheduledChangesCard fmt True (fy_cancel y) cs) | None \<Rightarrow> []) @
     (case triggers of Some ts \<Rightarrow> map (map_node PgTriggers) (TriggersCard fmt (fy_triggers y) (pg_revealedUrl st) ts) | None \<Rightarrow> [])"

definition FlagDetailPage ::
  "(string \<Rightarrow> string) \<Rightarrow> int \<Rightarrow> int \<Rightarrow> string \<Rightarrow> string \<Rightarrow> string \<Rightarrow> flag loaded \<Rightarrow> environment list loaded \<Rightarrow> flag_config loaded \<Rightarrow>
   scheduled_change list option \<Rightarrow> flag_trigger list option \<Rightarrow> flag_busy \<Rightarrow> flag_page \<Rightarrow> flag_page_msg node list" where
  "FlagDetailPage fmt now r org proj flagKey flag environments config scheduled triggers y st =
     (let name = (case data_of flag of Some f \<Rightarrow> fl_name f | None \<Rightarrow> flagKey);
          envKey = selected_env (pg_picked st) environments in
     [Link (project_url org proj) ''Flags'', Says name, Says flagKey] @
     ConfirmDeleteDialog (pg_asking st) ''Delete flag'' (''Delete '' @ name @ ''?'')
       ''This removes the flag and its configuration in every environment. This cannot be undone.'' ''Delete flag''
       (fy_delete y) PgAsk PgCancel PgDelete @
     (if flag = Loading \<or> environments = Loading then [Placeholder]
      else loaded_view flag PgRetryFlag (\<lambda>f. loaded_view environments PgRetryEnvs (\<lambda>es.
        EnvironmentTabs es envKey PgPick @
        loaded_view config PgRetryConfig (\<lambda>c. flag_panels fmt now r envKey f c scheduled triggers y st)))))"

section \<open>Layouts and routes\<close>

datatype layout_msg = ToggleSwitcher | ToggleMenu | SignOutChosen | SwitchProject string

definition AppLayout :: "app_config \<Rightarrow> (string \<times> bool) option \<Rightarrow> layout_msg node list \<Rightarrow> layout_msg node list" where
  "AppLayout config user outlet =
     EnvironmentBanner (cg_environment config) (cg_enableMocking config) @ [Link ''/'' ''flag-it''] @
     (case user of Some (email, superuser) \<Rightarrow> (if superuser then [Link ''/users'' ''Users''] else []) @ [Says email] | None \<Rightarrow> []) @
     [Button ''Sign out'' True SignOutChosen] @ outlet"

definition nav_items :: "string \<Rightarrow> (string \<times> string) list" where
  "nav_items base = [(base, ''Flags''), (base @ ''/segments'', ''Segments''), (base @ ''/contexts'', ''Contexts''),
     (base @ ''/approvals'', ''Approvals''), (base @ ''/lifecycle'', ''Lifecycle''), (base @ ''/audit'', ''Audit log''),
     (base @ ''/analytics'', ''Analytics''), (base @ ''/environments'', ''Environments'')]"

definition ProjectLayout ::
  "app_config \<Rightarrow> string \<Rightarrow> string \<Rightarrow> bool \<Rightarrow> bool \<Rightarrow> (string \<times> string) option \<Rightarrow> project list loaded \<Rightarrow>
   layout_msg node list \<Rightarrow> layout_msg node list" where
  "ProjectLayout config org proj switcher menu user projects outlet = (let base = project_url org proj in
     [Link ''/'' ''flag-it''] @ ProjectSwitcher switcher (the_default [] (data_of projects)) proj ToggleSwitcher SwitchProject @
     map (\<lambda>(to, label). Link to label) (nav_items base) @
     UserMenu menu user ToggleMenu SignOutChosen @ [Link (base @ ''/settings/general'') ''Settings''] @
     EnvironmentBanner (cg_environment config) (cg_enableMocking config) @ outlet)"

definition settings_items :: "(string \<times> string) list" where
  "settings_items = [(''general'', ''General''), (''projects'', ''Projects''), (''diagnostic-usage'', ''Diagnostic usage''),
     (''sdks'', ''SDKs''), (''members'', ''Members''), (''teams'', ''Teams''), (''roles'', ''Roles''),
     (''integrations'', ''Integrations''), (''applications'', ''Applications''), (''relay-proxy'', ''Relay Proxy''),
     (''authorization'', ''Authorization''), (''security'', ''Security''), (''sdk-keys'', ''SDK keys'')]"

definition SettingsLayout ::
  "app_config \<Rightarrow> string \<Rightarrow> string \<Rightarrow> bool \<Rightarrow> (string \<times> string) option \<Rightarrow> layout_msg node list \<Rightarrow> layout_msg node list" where
  "SettingsLayout config org proj menu user outlet = (let base = project_url org proj @ ''/settings'' in
     [Link (project_url org proj) ''Back to project''] @
     map (\<lambda>(slug, label). Link (base @ ''/'' @ slug) label) settings_items @
     UserMenu menu user ToggleMenu SignOutChosen @
     EnvironmentBanner (cg_environment config) (cg_enableMocking config) @ outlet)"

definition SettingsPlaceholder :: "string \<Rightarrow> 'm node list" where
  "SettingsPlaceholder pathname = (let slug = last (split_on CHR ''/'' pathname) in
     [Says (join '' '' (map (\<lambda>w. case w of [] \<Rightarrow> [] | c # r \<Rightarrow> upper_char c @ r) (split_on CHR ''-'' slug))),
      Says ''This section isn't built yet.''])"

datatype screen =
    OrganizationsScreen | UsersScreen | ProjectsScreen string
  | FlagsScreen string string | FlagScreen string string string
  | SegmentsScreen string string | SegmentScreen string string string
  | ContextsScreen string string | ContextScreen string string string string
  | ApprovalsScreen string string | LifecycleScreen string string | AuditScreen string string
  | AnalyticsScreen string string | EnvironmentsScreen string string
  | SettingsScreen string string string | NoScreen

definition settings_pages :: "string list" where
  "settings_pages = [''general'', ''sdk-keys'', ''projects'', ''diagnostic-usage'', ''sdks'', ''members'', ''teams'', ''roles'',
     ''integrations'', ''applications'', ''relay-proxy'', ''authorization'', ''security'']"

text \<open>The routes below \<open>/\<close>, by the segments of the path (the matcher's case folding is left out); the
  settings index is the general page.\<close>

fun router :: "string list \<Rightarrow> screen" where
  "router [] = OrganizationsScreen"
| "router [a] = (if a = ''users'' then UsersScreen else NoScreen)"
| "router [a, org] = (if a = ''organizations'' then ProjectsScreen org else NoScreen)"
| "router (a # org # b # proj # rest) = (if a = ''organizations'' \<and> b = ''projects'' then
     (case rest of
        [] \<Rightarrow> FlagsScreen org proj
      | [s] \<Rightarrow> if s = ''segments'' then SegmentsScreen org proj else if s = ''contexts'' then ContextsScreen org proj
          else if s = ''approvals'' then ApprovalsScreen org proj else if s = ''lifecycle'' then LifecycleScreen org proj
          else if s = ''audit'' then AuditScreen org proj else if s = ''analytics'' then AnalyticsScreen org proj
          else if s = ''environments'' then EnvironmentsScreen org proj
          else if s = ''settings'' then SettingsScreen org proj ''general'' else NoScreen
      | [s, k] \<Rightarrow> if s = ''flags'' then FlagScreen org proj k else if s = ''segments'' then SegmentScreen org proj k
          else if s = ''settings'' \<and> k \<in> set settings_pages then SettingsScreen org proj k else NoScreen
      | [s, kind, key] \<Rightarrow> if s = ''contexts'' then ContextScreen org proj kind key else NoScreen
      | _ \<Rightarrow> NoScreen) else NoScreen)"
| "router _ = NoScreen"

end
