(* ===== verification/Console_Props.thy ===== *)
theory Console_Props
  imports FlagPanels_Props AuthForms AdminPages ProjectPages
begin

text \<open>
  Properties of the dashboard's screens: what the forms, lists and pages let a user send. A session
  with a component is \<open>used_to\<close>: each event goes through a control that the view, under whatever
  properties its page passes then, has on the screen and enabled.
\<close>

section \<open>Keys\<close>

text \<open>
  C30: \<open>slugify\<close> computes the specification "the maximal runs of lower-case letters and digits of the
  lower-cased text, joined by single dashes": leading, trailing and repeated separators leave nothing,
  a slug is its own slug, and it needs no escaping in a URL.
\<close>

theorem slugify_spec:
  "slugify v = join ''-'' (slug_words (to_lower v)) \<and> slugify (slugify v) = slugify v \<and>
   encodeURIComponent (slugify v) = slugify v"
  by (intro conjI slugify_words slugify_idem slug_uri [OF slugify_chars])

text \<open>The keys that leave the creation dialogs and the setup wizard.\<close>

inductive created_key :: "string \<Rightarrow> bool" where
  project: "used_to UNIV CreateProjectDialog (\<lambda>_. project_update) blank_keyed out st \<Longrightarrow>
    (p, Emitted (k, n)) \<in> set out \<Longrightarrow> created_key k"
| environment: "used_to UNIV CreateEnvironmentDialog (\<lambda>_. environment_update) blank_keyed out st \<Longrightarrow>
    (p, Emitted (k, n)) \<in> set out \<Longrightarrow> created_key k"
| segment: "used_to UNIV CreateSegmentDialog (\<lambda>_. segment_form_update) blank_segment_form out st \<Longrightarrow>
    (p, Emitted i) \<in> set out \<Longrightarrow> created_key (cs_key i)"
| flag: "used_to UNIV CreateFlagDialog (\<lambda>_. flag_form_update) blank_flag_form out st \<Longrightarrow>
    (p, Emitted i) \<in> set out \<Longrightarrow> created_key (cf_key i)"
| role: "used_to UNIV (\<lambda>p. CreateRoleDialog p permissions) (\<lambda>_. role_form_update) blank_role_form out st \<Longrightarrow>
    (p, Emitted i) \<in> set out \<Longrightarrow> created_key (ci_key i)"
| organization: "used_to UNIV (\<lambda>(busy, e). SetupWizard_view busy e) (\<lambda>_. wizard_update) SetupWizard out st \<Longrightarrow>
    (p, i) \<in> set out \<Longrightarrow> su_organization_slug i = Some k \<Longrightarrow> created_key k"

lemma flag_inv_blank: "flag_inv blank_flag_form"
  using key_inv_blank(3) by (simp add: flag_inv_def blank_flag_form_def)

lemma role_inv_blank: "role_inv permissions blank_role_form"
  using key_inv_blank(4) by (simp add: role_inv_def blank_role_form_def)

lemma created_key_ok: "created_key k \<Longrightarrow> key_ok k"
proof (induction rule: created_key.induct)
  case (project out st p k n)
  then show ?case using project_dialog.used_good [OF project(1) key_inv_blank(1) project(2)] by (simp add: entry_ok_def)
next
  case (environment out st p k n)
  then show ?case using environment_dialog.used_good [OF environment(1) key_inv_blank(1) environment(2)]
    by (simp add: entry_ok_def)
next
  case (segment out st p i)
  then show ?case using segment_dialog.used_good [OF segment(1) key_inv_blank(2) segment(2)] by (simp add: segment_input_ok_def)
next
  case (flag out st p i)
  then show ?case using flag_dialog.used_good [OF flag(1) flag_inv_blank flag(2)] by (simp add: flag_input_ok_def)
next
  case (role permissions out st p i)
  then show ?case using role_dialog.used_good [OF role(1) role_inv_blank role(2)] by (simp add: role_input_ok_def)
next
  case (organization out st p i k)
  then show ?case using wizard_form.used_good [OF organization(1) wizard_inv_initial organization(2)] by (simp add: setup_ok_def)
qed

text \<open>
  C31: however a user types, clicks, cancels and retries, every key the dashboard creates - of a
  project, environment, segment, flag or role, or the organization of the setup wizard - is a
  non-empty slug, stands for itself in a URL, has no slash to break a path and no colon to break the
  backend's configuration keys.
\<close>

theorem created_keys_usable:
  assumes "created_key k"
  shows "k \<noteq> [] \<and> slugify k = k \<and> encodeURIComponent k = k \<and> CHR ''/'' \<notin> set k \<and> CHR '':'' \<notin> set k"
proof -
  have ok: "key_ok k" by (rule created_key_ok [OF assms])
  have "CHR ''/'' \<notin> slug_set" by (simp add: slug_set_def slug_char_def code_unit_def Let_def)
  then show ?thesis using ok key_ok_chars [OF ok] key_ok_colon [OF ok] slug_uri by (auto simp: key_ok_def)
qed

definition shown_dialog :: dialog_props where
  "shown_dialog = \<lparr>dp_open = True, dp_busy = False, dp_error = None\<rparr>"

lemmas environment_quiet = quiet_step [of shown_dialog UNIV CreateEnvironmentDialog _ _ "\<lambda>_. environment_update"]
lemmas environment_last = last_step [of shown_dialog UNIV CreateEnvironmentDialog _ _ "\<lambda>_. environment_update"]

lemma created_keys_usable_witness: "encodeURIComponent ''qa-1'' = ''qa-1''"
proof -
  let ?f = "\<lparr>kf_name = ''QA 1'', kf_key = ''qa-1'', kf_keyEdited = False\<rparr>"
  have facts: "slugify ''QA 1'' = ''qa-1''" "trim ''QA 1'' = ''QA 1''" "trim ''qa-1'' = ''qa-1''" by code_simp+
  note shown = CreateEnvironmentDialog_def shown_dialog_def dialog_def
  have "used_to UNIV CreateEnvironmentDialog (\<lambda>_. environment_update) ?f [(shown_dialog, Emitted (''qa-1'', ''QA 1''))] ?f"
  proof (rule environment_last)
    show "offers (CreateEnvironmentDialog shown_dialog ?f) Create" by (simp add: shown facts)
    show "environment_update ?f Create = (?f, [Emitted (''qa-1'', ''QA 1'')])" by (simp add: named_def facts)
  qed simp
  then have "used_to UNIV CreateEnvironmentDialog (\<lambda>_. environment_update) blank_keyed [(shown_dialog, Emitted (''qa-1'', ''QA 1''))] ?f"
  proof (rule environment_quiet [rotated 3])
    show "offers (CreateEnvironmentDialog shown_dialog blank_keyed) (TypeName ''QA 1'')" by (simp add: shown)
    show "environment_update blank_keyed (TypeName ''QA 1'') = (?f, [])"
      by (simp add: handleNameChange_def blank_keyed_def facts Let_def)
  qed simp
  then have "created_key ''qa-1''" by (rule created_key.environment) simp
  then show ?thesis using created_keys_usable by blast
qed

section \<open>Dialogs\<close>

text \<open>
  However the flag dialog is used, what it creates has a name that is not blank, a usable key and
  at least two variations: \<open>true\<close> and \<open>false\<close>, or trimmed, non-empty strings.
\<close>

theorem created_flags_usable:
  assumes "used_to UNIV CreateFlagDialog (\<lambda>_. flag_form_update) blank_flag_form out st" "(p, Emitted i) \<in> set out"
  shows "key_ok (cf_key i) \<and> trim (cf_name i) \<noteq> [] \<and> 2 \<le> length (cf_variations i) \<and>
     (cf_variations i = [JBool True, JBool False] \<or>
      (\<forall>v\<in>set (cf_variations i). \<exists>s. v = JStr s \<and> s \<noteq> [] \<and> trim s = s))"
  using flag_dialog.used_good [OF assms(1) flag_inv_blank assms(2)] by (simp add: flag_input_ok_def)

lemmas flag_quiet = quiet_step [of shown_dialog UNIV CreateFlagDialog _ _ "\<lambda>_. flag_form_update"]
lemmas flag_last = last_step [of shown_dialog UNIV CreateFlagDialog _ _ "\<lambda>_. flag_form_update"]

lemma created_flags_usable_witness:
  "2 \<le> length (cf_variations (flag_input (blank_flag_form\<lparr>kf_name := ''Beta'', kf_key := ''beta''\<rparr>)))"
proof -
  let ?f = "blank_flag_form\<lparr>kf_name := ''Beta'', kf_key := ''beta''\<rparr>"
  have facts: "slugify ''Beta'' = ''beta''" "trim ''Beta'' = ''Beta''" "trim ''beta'' = ''beta''" by code_simp+
  have can: "flag_canSubmit ?f" by (simp add: flag_canSubmit_def named_def facts blank_flag_form_def)
  note shown = CreateFlagDialog_def shown_dialog_def dialog_def
  have "used_to UNIV CreateFlagDialog (\<lambda>_. flag_form_update) ?f [(shown_dialog, Emitted (flag_input ?f))] ?f"
  proof (rule flag_last)
    show "offers (CreateFlagDialog shown_dialog ?f) Create" using can by (simp add: shown)
    show "flag_form_update ?f Create = (?f, [Emitted (flag_input ?f)])" using can by simp
  qed simp
  then have "used_to UNIV CreateFlagDialog (\<lambda>_. flag_form_update) blank_flag_form [(shown_dialog, Emitted (flag_input ?f))] ?f"
  proof (rule flag_quiet [rotated 3])
    show "offers (CreateFlagDialog shown_dialog blank_flag_form) (TypeName ''Beta'')" by (simp add: shown)
    show "flag_form_update blank_flag_form (TypeName ''Beta'') = (?f, [])"
      by (simp add: handleNameChange_def blank_flag_form_def facts Let_def)
  qed simp
  from created_flags_usable [OF this, of shown_dialog "flag_input ?f"] show ?thesis by simp
qed

text \<open>
  The permission picker's grouping by a map in insertion order is the grouping by resource in
  order of first appearance: each permission is listed once, under its own resource, in the order of
  the vocabulary, and a label \<open>resource.action\<close> is its group and its action.
\<close>

theorem permission_groups:
  "groupByResource permissions =
     map (\<lambda>r. (r, filter (\<lambda>p. resource_of p = r) permissions)) (firsts (map resource_of permissions)) \<and>
   distinct (map fst (groupByResource permissions)) \<and>
   (if CHR ''.'' \<in> set perm then resource_of perm @ ''.'' @ action_of perm else resource_of perm) = perm"
  using resource_action [of perm] by (simp add: groupByResource_groups groups_of_def comp_def resource_of_def)

text \<open>
  C34: however the first-run wizard is used, going back and forth included, it submits only a complete
  set-up: an email that is not blank, a password of at least eight characters, an organization name
  that is not blank, a usable slug, and a full name that is absent rather than empty.
\<close>

theorem wizard_submits_complete:
  assumes "used_to UNIV (\<lambda>(busy, e). SetupWizard_view busy e) (\<lambda>_. wizard_update) SetupWizard out w" "(p, i) \<in> set out"
  shows "trim (su_email i) \<noteq> [] \<and> 8 \<le> length (su_password i) \<and> su_full_name i \<noteq> Some [] \<and>
     (\<exists>slug name. su_organization_slug i = Some slug \<and> key_ok slug \<and> su_organization_name i = Some name \<and> trim name \<noteq> [])"
  using wizard_form.used_good [OF assms(1) wizard_inv_initial assms(2)] by (simp add: setup_ok_def)

definition finished_wizard :: wizard where
  "finished_wizard = \<lparr>wz_step = 2, wz_email = ''a@b'', wz_password = ''password'', wz_fullName = [],
     wz_organizationName = ''acme'', wz_organizationSlug = ''acme'', wz_slugEdited = False\<rparr>"

lemmas wizard_quiet = quiet_step [of "(False, None)" UNIV "\<lambda>(busy, e). SetupWizard_view busy e" _ _ "\<lambda>_. wizard_update", simplified]
lemmas wizard_last = last_step [of "(False, None)" UNIV "\<lambda>(busy, e). SetupWizard_view busy e" _ _ "\<lambda>_. wizard_update", simplified]

lemma wizard_submits_complete_witness: "8 \<le> length (su_password (hd (snd (wizard_update finished_wizard WizSubmit))))"
proof -
  let ?i = "hd (snd (wizard_update finished_wizard WizSubmit))" and ?w = finished_wizard
  let ?w3 = "?w\<lparr>wz_organizationName := [], wz_organizationSlug := []\<rparr>"
  let ?used = "used_to UNIV (\<lambda>(busy, e). SetupWizard_view busy e) (\<lambda>_. wizard_update)"
  let ?out = "[((False, None), ?i)]"
  have facts: "slugify ''acme'' = ''acme''" "trim ''acme'' = ''acme''" "trim ''a@b'' = ''a@b''" by code_simp+
  note views = SetupWizard_view_def accountValid_def organizationValid_def finished_wizard_def facts
  have "?used ?w ?out ?w"
    by (rule wizard_last [of _ WizSubmit]) (simp_all add: views)
  then have "?used ?w3 ?out ?w"
    by (rule wizard_quiet [of _ "WizOrganization ''acme''", rotated 2])
      (simp_all add: views handleOrganizationNameChange_def)
  then have "?used (?w3\<lparr>wz_step := 1\<rparr>) ?out ?w"
    by (rule wizard_quiet [of _ WizSubmit, rotated 2]) (simp_all add: views)
  then have "?used (?w3\<lparr>wz_step := 1, wz_password := []\<rparr>) ?out ?w"
    by (rule wizard_quiet [of _ "WizPassword ''password''", rotated 2]) (simp_all add: views)
  then have "?used (?w3\<lparr>wz_step := 1, wz_password := [], wz_email := []\<rparr>) ?out ?w"
    by (rule wizard_quiet [of _ "WizEmail ''a@b''", rotated 2]) (simp_all add: views)
  moreover have "?w3\<lparr>wz_step := 1, wz_password := [], wz_email := []\<rparr> = SetupWizard"
    by (simp add: finished_wizard_def SetupWizard_def)
  ultimately have "?used SetupWizard ?out ?w" by simp
  from wizard_submits_complete [OF this, of "(False, None)" ?i] show ?thesis by simp
qed

section \<open>Targeting rules\<close>


definition plan_clause :: clause where
  "plan_clause = newClause\<lparr>cl_attribute := Some ''plan'', cl_values := [JStr ''pro'']\<rparr>"

definition ab_rules :: "flag_rule list" where
  "ab_rules = [\<lparr>fr_id = Some ''a'', fr_clauses = [plan_clause], fr_variation = Some 0, fr_rollout = None\<rparr>,
     \<lparr>fr_id = Some ''b'', fr_clauses = [plan_clause], fr_variation = Some 1, fr_rollout = None\<rparr>]"

abbreviation bools :: "js list" where
  "bools \<equiv> [JBool True, JBool False]"

lemma ab_session:
  "used_to (rules_props_ok bools) (rules_view bools) (rules_handler bools) (initial_rules bools)
     [((ab_rules, False, 0), ReorderRules [''b'', ''a''])] (initial_rules bools)"
proof (rule last_step [where m = "Move 0 1"])
  show "(ab_rules, False, 0) \<in> rules_props_ok bools"
    by (simp add: rules_props_ok_def rules_shown_def ab_rules_def served_range_def ruleServe_def)
  show "offers (rules_view bools (ab_rules, False, 0) (initial_rules bools)) (Move 0 1)"
    by (simp add: rules_view_def FlagRules_def rule_row_def ab_rules_def initial_rules_def truthy_opt_def)
  show "rules_handler bools (ab_rules, False, 0) (initial_rules bools) (Move 0 1) = (initial_rules bools, [ReorderRules [''b'', ''a'']])"
    by (simp add: rules_handler_def move_def ab_rules_def rule_ids_def map_filter_simps truthy_opt_def js_nth_def)
qed


text \<open>
  C36: opening a rule in its edit form and saving at once sends back the same rule: a rule any form
  emitted - its clauses, its variation, or its rollout with weights, bucketing attribute, context kind
  and seed - is re-emitted unchanged.
\<close>

theorem edit_without_change:
  assumes "form_inv vs st" "canSubmit st"
    and "rule = \<lparr>fr_id = Some i, fr_clauses = rf_draft st, fr_variation = vr_variation (served_of st),
      fr_rollout = vr_rollout (served_of st)\<rparr>"
  shows "snd (form_handler (edit_props vs rule busy) (RuleForm (edit_props vs rule busy)) Submit) =
     Some (rf_draft st, served_of st)"
  using reopened_form [OF assms(1,2), of rule busy] assms(3) by simp

definition rollout_form :: rule_form where
  "rollout_form = \<lparr>rf_draft = [plan_clause],
     rf_texts = [''pro''], rf_serve = ServeRollout, rf_variation = 0, rf_percents = [30, 70],
     rf_bucketBy = '' email '', rf_contextKind = [], rf_seed = Some 5\<rparr>"

lemma rollout_form_ok: "form_inv bools rollout_form" "canSubmit rollout_form"
  by (simp_all add: rollout_form_def plan_clause_def form_inv_def percents_ok_def canSubmit_def clausesValid_def rolloutValid_def truthy_opt_def)

lemma edit_without_change_witness:
  "\<exists>st'. form_handler (edit_props bools
       \<lparr>fr_id = Some ''r'', fr_clauses = rf_draft rollout_form, fr_variation = vr_variation (served_of rollout_form),
        fr_rollout = vr_rollout (served_of rollout_form)\<rparr> False)
     (RuleForm (edit_props bools
       \<lparr>fr_id = Some ''r'', fr_clauses = rf_draft rollout_form, fr_variation = vr_variation (served_of rollout_form),
        fr_rollout = vr_rollout (served_of rollout_form)\<rparr> False)) Submit =
     (st', Some (rf_draft rollout_form, served_of rollout_form))"
  using edit_without_change [OF _ _ refl, of bools rollout_form "''r''" False]
  by (metis (no_types, lifting) prod.collapse rollout_form_ok)

text \<open>
  C37: the arrows of the rule list do what they show: for rules with distinct ids, moving rule \<open>i\<close> up
  or down hands \<open>onReorderRules\<close> a full list of ids, and the instruction the page makes of it exchanges
  the rule with its neighbour and leaves every other rule in its place.
\<close>

theorem move_exchanges_neighbours:
  assumes "list_all (\<lambda>r. truthy_opt (fr_id r)) (fc_rules c)" "distinct (map fr_id (fc_rules c))"
    and "i < length (fc_rules c)" "0 \<le> int i + d" "int i + d < int (length (fc_rules c))"
  shows "\<exists>ids. snd (rules_update vs (fc_rules c) busy st (Move i d)) = [ReorderRules ids] \<and>
     fst (applyInstructions uuid (c, n) (rule_instructions (ReorderRules ids))) =
       c\<lparr>fc_rules := (fc_rules c)[i := fc_rules c ! nat (int i + d), nat (int i + d) := fc_rules c ! i],
         fc_version := fc_version c + 1\<rparr>"
proof -
  obtain ids where ids: "move (fc_rules c) i d = Some ids"
    "reorder_rules ids (fc_rules c) = (fc_rules c)[i := fc_rules c ! nat (int i + d), nat (int i + d) := fc_rules c ! i]"
    using move_swaps [OF assms] by blast
  then show ?thesis
    by (simp add: rule_instructions_def on_reorder_rules_def applyInstructions_def apply_instruction_def instruction_def Let_def)
qed

lemma move_exchanges_neighbours_witness:
  "\<exists>ids. snd (rules_update [] (fc_rules (newConfig\<lparr>fc_rules := ab_rules\<rparr>)) False (initial_rules []) (Move 1 (- 1))) = [ReorderRules ids] \<and>
     fc_rules (fst (applyInstructions (\<lambda>n. []) (newConfig\<lparr>fc_rules := ab_rules\<rparr>, 0) (rule_instructions (ReorderRules ids)))) = rev ab_rules"
  using move_exchanges_neighbours [of "newConfig\<lparr>fc_rules := ab_rules\<rparr>" 1 "- 1" "[]" False "initial_rules []" "\<lambda>n. []" 0]
  by (auto simp: ab_rules_def truthy_opt_def)

text \<open>A configuration whose rules are all as the forms emit them.\<close>

definition rules_valid :: "js list \<Rightarrow> flag_config \<Rightarrow> bool" where
  "rules_valid vs c \<longleftrightarrow>
     (\<forall>r\<in>set (fc_rules c). rule_ok vs (fr_clauses r, \<lparr>vr_variation = fr_variation r, vr_rollout = fr_rollout r\<rparr>))"

lemma rules_valid_shown: "vs \<noteq> [] \<Longrightarrow> rules_valid vs c \<Longrightarrow> rules_shown vs (fc_rules c)"
  unfolding rules_shown_def rules_valid_def
  by (force simp: ruleServe_def served_range_def dest!: rule_ok_range split: option.splits)

lemma served_eta [simp]: "\<lparr>vr_variation = vr_variation v, vr_rollout = vr_rollout v\<rparr> = v"
  by (cases v) simp

lemma rule_instructions_valid:
  assumes "rules_valid vs c" "rules_out_ok vs rules e"
  shows "rules_valid vs (fst (applyInstructions uuid (c, n) (rule_instructions e)))"
proof (cases e)
  case (ReorderRules ids)
  then show ?thesis using assms reorder_rules_mset [of ids "fc_rules c"]
    by (auto simp: rules_valid_def rule_instructions_def on_reorder_rules_def applyInstructions_def apply_instruction_def
        instruction_def Let_def dest: mset_eq_setD)
qed (use assms in \<open>auto simp: rules_valid_def rule_instructions_def on_add_rule_def on_update_rule_def on_remove_rule_def
    applyInstructions_def apply_instruction_def instruction_def truthy_opt_def Let_def\<close>)

text \<open>
  C38: the screen and the store fit together: if every rule of a configuration is as the forms emit
  them and the configuration is well formed, then whatever the rule list emits, the batch of
  instructions the flag's page makes of it leads to such a configuration again, which the rule list can
  show and edit in turn.
\<close>

theorem rules_stay_valid:
  assumes "vs \<noteq> []" "used_to (rules_props_ok vs) (rules_view vs) (rules_handler vs) (initial_rules vs) out st" "(p, e) \<in> set out"
    and "rules_valid vs c" "config_inv uuid (c, n)"
  shows "let (c', n') = applyInstructions uuid (c, n) (rule_instructions e)
     in rules_valid vs c' \<and> config_inv uuid (c', n') \<and> rules_shown vs (fc_rules c')"
  using rule_instructions_valid [OF assms(4)] rules_panel.used_good [OF assms(2) initial_rules_inv [OF assms(1)] assms(3)]
    applyInstructions_inv [OF assms(5)] rules_valid_shown [OF assms(1)]
  by (auto simp: case_prod_beta Let_def)

definition unary_id :: "nat \<Rightarrow> string" where
  "unary_id n = replicate n CHR ''x''"

lemma rules_stay_valid_witness: "rules_valid bools (fst (applyInstructions unary_id (newConfig\<lparr>fc_rules := ab_rules\<rparr>, 0)
  (rule_instructions (ReorderRules [''b'', ''a'']))))"
proof -
  have fresh: "unary_id n \<noteq> ''a'' \<and> unary_id n \<noteq> ''b''" for n by (cases n) (auto simp: unary_id_def)
  have "rules_valid bools (newConfig\<lparr>fc_rules := ab_rules\<rparr>)"
    by (simp add: rules_valid_def rule_ok_def clausesValid_def ab_rules_def plan_clause_def truthy_opt_def)
  moreover have "config_inv unary_id (newConfig\<lparr>fc_rules := ab_rules\<rparr>, 0)"
    using fresh by (auto simp: config_inv_def rule_ids_ok_def targets_ok_def newConfig_def ab_rules_def inj_on_def unary_id_def)
  ultimately show ?thesis
    using rules_stay_valid [OF _ ab_session, of "(ab_rules, False, 0)" "ReorderRules [''b'', ''a'']"
        "newConfig\<lparr>fc_rules := ab_rules\<rparr>" unary_id 0]
    by (simp add: case_prod_beta Let_def)
qed

section \<open>Confirmation\<close>

lemma rows_deleted: "Deleted i \<in> set (snd (rows_update asking m)) \<Longrightarrow> m = ConfirmDelete i"
  by (cases m) auto

lemma user_runs:
  "Run (useDeleteUser i) k \<in> set (snd (users_page_update st m)) \<Longrightarrow> m = UpRow (ConfirmDelete i)"
  by (cases "(st, m)" rule: users_page_update.cases)
    (auto simp: case_prod_beta Let_def useDeleteUser_def useCreateUser_def mutation_of_def users_remove_def users_create_def
      call_delete_def call_post_def path_of_def map_filter_def split: rows_out.splits dest: rows_deleted)

text \<open>
  No user account is deleted without its confirmation: the users page sends the deletion of \<open>i\<close>
  only from a state that asks about \<open>i\<close>, when the list has loaded with that user, the question with the
  user's email is on the screen and no deletion is running; sending it closes the question.
\<close>

theorem user_deletion_confirmed:
  assumes "offers (UsersPage q create remove st) m" "Run (useDeleteUser i) k \<in> set (snd (users_page_update st m))"
  shows "up_asking st = Some i \<and> remove \<noteq> Running \<and> up_asking (fst (users_page_update st m)) = None \<and>
     (\<exists>us u. q = Loaded us \<and> u \<in> set us \<and> us_id u = i \<and>
        Says (''Delete '' @ us_email u @ ''?'') \<in> set (UsersPage q create remove st))"
proof -
  have m: "m = UpRow (ConfirmDelete i)" by (rule user_runs [OF assms(2)])
  then obtain us where us: "q = Loaded us" "offers (UserList (remove = Running) (up_asking st) us) (ConfirmDelete i)"
    using assms(1) by (cases q) (auto simp: UsersPage_def simp del: offers_simps(5))
  then obtain u where u: "u \<in> set us" "us_id u = i" "up_asking st = Some i" "remove \<noteq> Running"
    by (auto simp: UserList_def ConfirmDeleteDialog_def split: if_splits)
  have "Says (''Delete '' @ us_email u @ ''?'') \<in> set (UsersPage q create remove st)"
    using u us(1) by (force simp: UsersPage_def UserList_def ConfirmDeleteDialog_def)
  then show ?thesis using u us(1) m by auto
qed

definition sample_user :: user where
  "sample_user = \<lparr>us_id = ''u1'', us_email = ''ada@example.com'', us_full_name = [], us_is_superuser = False,
     us_is_active = True, us_created_at = [], us_updated_at = []\<rparr>"

lemma user_deletion_confirmed_witness:
  "up_asking (fst (users_page_update \<lparr>up_form = blank_user_form, up_asking = Some ''u1''\<rparr> (UpRow (ConfirmDelete ''u1'')))) = None"
  using user_deletion_confirmed [of "Loaded [sample_user]" Idle Idle "\<lparr>up_form = blank_user_form, up_asking = Some ''u1''\<rparr>"
      "UpRow (ConfirmDelete ''u1'')" "''u1''" "\<lambda>_. []"]
  by (simp add: UsersPage_def UserList_def ConfirmDeleteDialog_def sample_user_def map_filter_simps)

section \<open>Segments\<close>

lemma join_space_inj:
  assumes "\<forall>k\<in>set xs \<union> set ys. k \<noteq> [] \<and> CHR '' '' \<notin> set k"
  shows "join '' '' xs = join '' '' ys \<longleftrightarrow> xs = ys"
proof
  assume eq: "join '' '' xs = join '' '' ys"
  have empty: "zs = []" if "join '' '' zs = []" "\<forall>k\<in>set zs. k \<noteq> []" for zs
    using that by (cases zs; cases "tl zs") auto
  show "xs = ys"
  proof (cases "xs = [] \<or> ys = []")
    case True
    then show ?thesis using eq empty [of xs] empty [of ys] assms by (metis UnCI join.simps(1))
  next
    case False
    then show ?thesis using split_on_join [of xs "CHR '' ''"] split_on_join [of ys "CHR '' ''"] eq assms by (metis UnCI)
  qed
qed simp

text \<open>
  The segment editor offers to save exactly when its lists or its rules differ from the stored
  segment, provided no context key contains a space; what it saves is the edited lists and rules with
  everything else of the segment as it was, and once the segment is stored like that there is nothing
  left to save.
\<close>

theorem segment_dirty_exact:
  assumes "\<forall>k\<in>set (ed_included st) \<union> set (sg_included s) \<union> set (ed_excluded st) \<union> set (sg_excluded s). k \<noteq> [] \<and> CHR '' '' \<notin> set k"
  shows "(offers (SegmentEditor_view s False e st) Save \<longleftrightarrow>
       ed_included st \<noteq> sg_included s \<or> ed_excluded st \<noteq> sg_excluded s \<or> ed_rules st \<noteq> sg_rules s) \<and>
     snd (segment_update s st Save) = [handleSave s st] \<and>
     \<not> offers (SegmentEditor_view (s\<lparr>sg_included := ss_included (handleSave s st), sg_excluded := ss_excluded (handleSave s st),
        sg_rules := ss_rules (handleSave s st)\<rparr>) False e st) Save"
proof -
  have "offers (SegmentEditor_view t False e st) Save \<longleftrightarrow> dirty t st" for t
    by (auto simp: SegmentEditor_view_def alert_def simp del: offers_simps(5) split: option.splits)
  then show ?thesis
    using join_space_inj [of "ed_included st" "sg_included s"] join_space_inj [of "ed_excluded st" "sg_excluded s"] assms
    by (auto simp: dirty_def handleSave_def)
qed

definition sample_segment :: segment where
  "sample_segment = \<lparr>sg_id = ''s1'', sg_project_id = ''p1'', sg_key = ''beta'', sg_name = ''Beta'', sg_description = [],
     sg_included = [''k1''], sg_excluded = [], sg_included_contexts = [], sg_excluded_contexts = [], sg_rules = [],
     sg_version = 1, sg_created_at = [], sg_updated_at = []\<rparr>"

lemma segment_dirty_exact_witness:
  "offers (SegmentEditor_view sample_segment False None ((SegmentEditor sample_segment)\<lparr>ed_included := [''k1'', ''k2'']\<rparr>)) Save"
  using segment_dirty_exact [of "(SegmentEditor sample_segment)\<lparr>ed_included := [''k1'', ''k2'']\<rparr>" sample_segment None]
  by (simp add: sample_segment_def SegmentEditor_def)

text \<open>With a space in a key, replacing one key by its two halves is not offered for saving.\<close>

lemma dirty_misses_split_key:
  "\<not> dirty (s\<lparr>sg_included := [''a b''], sg_excluded := [], sg_rules := []\<rparr>)
     ((SegmentEditor s)\<lparr>ed_included := [''a'', ''b''], ed_excluded := [], ed_rules := []\<rparr>)"
  by (simp add: dirty_def)

section \<open>Creating an environment twice\<close>

text \<open>After an environment has been created the page closes the dialog without resetting its form: it
  reopens with the old name and key.\<close>

lemma environment_dialog_reopens_filled:
  "xp_form (fst (env_page_update org proj (fst (env_page_update org proj st XCreated)) XNew)) = xp_form st"
  by simp

end
