(* ===== verification/Layering.thy ===== *)
theory Layering
  imports Prelude "HOL-Library.List_Lexorder" "HOL-Library.Char_ord"
begin

text \<open>
  The architecture the repository enforces on itself: the layers and the dependency matrix of
  \<open>web/eslint.config.js\<close>, and \<open>web/scripts/list-components.mjs\<close>, which prints the presentational
  components and relies on that matrix for the claim that they are functions of their properties.

  The linter and its boundaries plugin are not part of the repository. How a pattern matches a path is
  the argument \<open>folder_matches\<close> (folder patterns) and \<open>glob\<close> (file patterns); what the plugin documents
  about folder patterns is the hypothesis \<open>folder_patterns\<close>. A path is relative to \<open>web/\<close> and written
  with slashes.
\<close>

section \<open>Elements and the dependency matrix\<close>

definition boundary_elements :: "(string \<times> string) list" where
  "boundary_elements =
    [(''app'', ''src/app''),
     (''config'', ''src/config''),
     (''types'', ''src/types''),
     (''lib'', ''src/lib''),
     (''api'', ''src/api/*''),
     (''api'', ''src/api''),
     (''store'', ''src/store''),
     (''mocks'', ''src/mocks''),
     (''test'', ''src/test''),
     (''ui'', ''src/components/ui''),
     (''ui-hook'', ''src/hooks''),
     (''component'', ''src/components''),
     (''component'', ''src/features/*/components''),
     (''hook'', ''src/features/*/hooks''),
     (''feature'', ''src/features/*'')]"

record policy =
  policy_from :: string
  policy_allow :: "string list"

definition layer :: "string \<Rightarrow> string list \<Rightarrow> policy" where
  "layer from_type allow = \<lparr>policy_from = from_type, policy_allow = allow\<rparr>"

definition policies :: "policy list" where
  "policies =
    [layer ''app'' [''app'', ''feature'', ''component'', ''ui'', ''hook'', ''store'', ''lib'', ''types'',
       ''mocks'', ''config''],
     layer ''feature'' [''feature'', ''hook'', ''store'', ''component'', ''ui'', ''lib'', ''types'', ''config''],
     layer ''hook'' [''api'', ''store'', ''lib'', ''types'', ''config''],
     layer ''component'' [''component'', ''ui'', ''ui-hook'', ''lib'', ''types''],
     layer ''ui'' [''ui'', ''ui-hook'', ''lib'', ''types''],
     layer ''ui-hook'' [''ui-hook'', ''lib'', ''types''],
     layer ''api'' [''api'', ''lib'', ''types'', ''config''],
     layer ''store'' [''store'', ''lib'', ''types'', ''config''],
     layer ''lib'' [''lib'', ''types''],
     layer ''types'' [''types''],
     layer ''config'' [''types''],
     layer ''mocks'' [''mocks'', ''types'', ''lib''],
     layer ''test'' [''app'', ''feature'', ''hook'', ''component'', ''ui'', ''api'', ''store'', ''lib'', ''types'',
       ''mocks'', ''config'', ''test'']]"

text \<open>\<open>default: 'disallow'\<close>: an import is allowed when a policy of its layer lists the imported layer.\<close>

definition may_import :: "string \<Rightarrow> string \<Rightarrow> bool" where
  "may_import a b \<longleftrightarrow> list_ex (\<lambda>p. policy_from p = a \<and> b \<in> set (policy_allow p)) policies"

definition import_graph :: "(string \<times> string) set" where
  "import_graph = {(a, b). may_import a b}"

text \<open>The first pattern that matches decides the layer of a file.\<close>

definition element_type :: "(string \<Rightarrow> string \<Rightarrow> bool) \<Rightarrow> string \<Rightarrow> string option" where
  "element_type folder_matches path =
     map_option fst (find (\<lambda>(_, pattern). folder_matches pattern path) boundary_elements)"

text \<open>What the plugin documents: a folder pattern matches the files inside the folders it describes, a
  star standing for one name.\<close>

fun in_folder :: "string list \<Rightarrow> string list \<Rightarrow> bool" where
  "in_folder [] path \<longleftrightarrow> path \<noteq> []"
| "in_folder (p # ps) [] \<longleftrightarrow> False"
| "in_folder (p # ps) (s # path) \<longleftrightarrow> (p = ''*'' \<or> p = s) \<and> in_folder ps path"

definition path_in_folder :: "string \<Rightarrow> string \<Rightarrow> bool" where
  "path_in_folder pattern path = in_folder (split_on CHR ''/'' pattern) (split_on CHR ''/'' path)"

definition folder_patterns :: "(string \<Rightarrow> string \<Rightarrow> bool) \<Rightarrow> bool" where
  "folder_patterns folder_matches \<longleftrightarrow> (\<forall>pattern path. folder_matches pattern path = path_in_folder pattern path)"

section \<open>Rule levels\<close>

record lint_block =
  lint_files :: "string list"
  lint_ignores :: "string list"
  lint_rules :: "(string \<times> string) list"

text \<open>The blocks of the configuration with the rules they set themselves; \<open>recommended\<close> stands for the
  rule sets they spread in from the plugins.\<close>

definition base_block :: "(string \<times> string) list \<Rightarrow> lint_block" where
  "base_block recommended = \<lparr>lint_files = [''**/*.{ts,tsx}''], lint_ignores = [],
     lint_rules = recommended @
       [(''react-refresh/only-export-components'', ''warn''),
        (''@typescript-eslint/consistent-type-imports'', ''error'')]\<rparr>"

definition boundaries_block :: lint_block where
  "boundaries_block = \<lparr>lint_files = [''src/**/*.{ts,tsx}''], lint_ignores = [],
     lint_rules = [(''boundaries/no-unknown-files'', ''error''), (''boundaries/dependencies'', ''error'')]\<rparr>"

definition env_block :: lint_block where
  "env_block = \<lparr>lint_files = [''src/**/*.{ts,tsx}''], lint_ignores = [''src/config/**''],
     lint_rules = [(''no-restricted-syntax'', ''error'')]\<rparr>"

definition vendored_block :: lint_block where
  "vendored_block = \<lparr>lint_files = [''src/components/ui/**'', ''src/hooks/**''], lint_ignores = [],
     lint_rules =
       [(''react-refresh/only-export-components'', ''off''),
        (''react-hooks/set-state-in-effect'', ''off''),
        (''react-hooks/purity'', ''off''),
        (''@typescript-eslint/no-unused-vars'', ''off'')]\<rparr>"

definition lint_blocks :: "(string \<times> string) list \<Rightarrow> lint_block list" where
  "lint_blocks recommended = [base_block recommended, boundaries_block, env_block, vendored_block]"

text \<open>The last setting wins, of the blocks that apply to the file and within a block.\<close>

definition block_applies :: "(string \<Rightarrow> string \<Rightarrow> bool) \<Rightarrow> string \<Rightarrow> lint_block \<Rightarrow> bool" where
  "block_applies glob path b \<longleftrightarrow>
     list_ex (\<lambda>p. glob p path) (lint_files b) \<and> \<not> list_ex (\<lambda>p. glob p path) (lint_ignores b)"

definition block_setting :: "(string \<Rightarrow> string \<Rightarrow> bool) \<Rightarrow> string \<Rightarrow> string \<Rightarrow> lint_block \<Rightarrow> string option \<Rightarrow> string option" where
  "block_setting glob path rule b before =
     (if block_applies glob path b
      then case map_of (rev (lint_rules b)) rule of Some l \<Rightarrow> Some l | None \<Rightarrow> before
      else before)"

definition rule_level :: "(string \<times> string) list \<Rightarrow> (string \<Rightarrow> string \<Rightarrow> bool) \<Rightarrow> string \<Rightarrow> string \<Rightarrow> string option" where
  "rule_level recommended glob path rule = fold (block_setting glob path rule) (lint_blocks recommended) None"

text \<open>Reading \<open>import.meta.env.NAME\<close> is reported except for the flags of the build tool.\<close>

definition env_flag_allowed :: "string \<Rightarrow> bool" where
  "env_flag_allowed name \<longleftrightarrow> name \<in> set [''DEV'', ''PROD'', ''MODE'', ''SSR'', ''BASE_URL'']"

definition env_read_reported :: "(string \<Rightarrow> string \<Rightarrow> bool) \<Rightarrow> string \<Rightarrow> string \<Rightarrow> bool" where
  "env_read_reported glob path name \<longleftrightarrow>
     rule_level [] glob path ''no-restricted-syntax'' = Some ''error'' \<and> \<not> env_flag_allowed name"

section \<open>Listing the presentational components\<close>

text \<open>A directory is the list of its entries; the scripts run with \<open>web/\<close> as the working directory.\<close>

datatype dirent = File string | Dir "(string \<times> dirent) list"

type_synonym dir = "(string \<times> dirent) list"

fun entry_at :: "dir \<Rightarrow> string list \<Rightarrow> dirent option" where
  "entry_at d [] = Some (Dir d)"
| "entry_at d (n # ns) = (case map_of d n of
     None \<Rightarrow> None
   | Some (File c) \<Rightarrow> if ns = [] then Some (File c) else None
   | Some (Dir e) \<Rightarrow> entry_at e ns)"

definition stat :: "dir \<Rightarrow> string \<Rightarrow> dirent option" where
  "stat tree path = entry_at tree (split_on CHR ''/'' path)"

definition is_directory :: "dir \<Rightarrow> string \<Rightarrow> bool" where
  "is_directory tree path = (case stat tree path of Some (Dir _) \<Rightarrow> True | _ \<Rightarrow> False)"

definition is_file :: "dir \<Rightarrow> string \<Rightarrow> bool" where
  "is_file tree path = (case stat tree path of Some (File _) \<Rightarrow> True | _ \<Rightarrow> False)"

definition ROOTS :: "string list" where
  "ROOTS = [''src/components'', ''src/features'']"

text \<open>\<open>/(^|\/)components(\/|$)/\<close>: some name of the path is \<open>components\<close>.\<close>

definition IS_COMPONENT_DIR :: "string \<Rightarrow> bool" where
  "IS_COMPONENT_DIR path \<longleftrightarrow> ''components'' \<in> set (split_on CHR ''/'' path)"

fun walk :: "string \<Rightarrow> dir \<Rightarrow> string list" where
  "walk dir [] = []"
| "walk dir ((entry, Dir d) # es) = walk (dir @ ''/'' @ entry) d @ walk dir es"
| "walk dir ((entry, File c) # es) = (dir @ ''/'' @ entry) # walk dir es"

definition walk_root :: "dir \<Rightarrow> string \<Rightarrow> string list" where
  "walk_root tree r = (case stat tree r of Some (Dir d) \<Rightarrow> walk r d | _ \<Rightarrow> [])"

definition listed_name :: "string \<Rightarrow> bool" where
  "listed_name f \<longleftrightarrow> suffix ''.tsx'' f \<and> \<not> suffix ''.test.tsx'' f \<and> \<not> suffix ''.stories.tsx'' f \<and>
     (IS_COMPONENT_DIR f \<or> prefix ''src/components'' f)"

definition listed_files :: "dir \<Rightarrow> string list" where
  "listed_files tree = sort (filter listed_name
     (concat (map (walk_root tree) (filter (is_directory tree) ROOTS))))"

text \<open>\<open>/export function ([A-Z]\w*)\s*\(/g\<close>\<close>

definition is_word :: "char \<Rightarrow> bool" where
  "is_word c \<longleftrightarrow> (let n = code_unit c in
     (48 \<le> n \<and> n \<le> 57) \<or> (65 \<le> n \<and> n \<le> 90) \<or> (97 \<le> n \<and> n \<le> 122) \<or> n = 95)"

definition is_upper :: "char \<Rightarrow> bool" where
  "is_upper c \<longleftrightarrow> (let n = code_unit c in 65 \<le> n \<and> n \<le> 90)"

definition match_component :: "string \<Rightarrow> (string \<times> string) option" where
  "match_component s =
     (if prefix ''export function '' s then
        (case drop 16 s of
           [] \<Rightarrow> None
         | c # cs \<Rightarrow>
             if is_upper c then
               (case dropWhile is_space (dropWhile is_word cs) of
                  d # ds \<Rightarrow> if d = CHR ''('' then Some (c # takeWhile is_word cs, ds) else None
                | [] \<Rightarrow> None)
             else None)
      else None)"

lemma match_component_shorter: "match_component s = Some (n, r) \<Longrightarrow> length r < length s"
proof -
  assume a: "match_component s = Some (n, r)"
  then obtain c cs where s: "drop 16 s = c # cs" and d: "dropWhile is_space (dropWhile is_word cs) = CHR ''('' # r"
    by (auto simp: match_component_def split: if_splits list.splits)
  have "length (CHR ''('' # r) \<le> length cs"
    using length_dropWhile_le [of is_space "dropWhile is_word cs"] length_dropWhile_le [of is_word cs]
    by (simp only: d)
  moreover have "length cs < length s" using arg_cong [OF s, of length] by simp
  ultimately show ?thesis by simp
qed

function exported_components :: "string \<Rightarrow> string list" where
  "exported_components [] = []"
| "exported_components (c # s) = (case match_component (c # s) of
     Some (name, r) \<Rightarrow> name # exported_components r
   | None \<Rightarrow> exported_components s)"
  by pat_completeness auto
termination by (relation "measure length") (auto dest: match_component_shorter)

definition replace_tsx :: "string \<Rightarrow> string" where
  "replace_tsx file = (if suffix ''.tsx'' file then take (length file - 4) file @ ''.stories.tsx'' else file)"

definition existsStory :: "dir \<Rightarrow> string \<Rightarrow> bool" where
  "existsStory tree file = is_file tree (replace_tsx file)"

text \<open>The report: every listed file that exports a component, whether it has a story, and the names. A
  file that cannot be read ends the script, so only what it printed before is left.\<close>

definition read_source :: "dir \<Rightarrow> string \<Rightarrow> string option" where
  "read_source tree file = (case stat tree file of Some (File c) \<Rightarrow> Some c | _ \<Rightarrow> None)"

fun report_files :: "dir \<Rightarrow> string list \<Rightarrow> (string \<times> bool \<times> string list) list" where
  "report_files tree [] = []"
| "report_files tree (f # fs) = (case read_source tree f of
     None \<Rightarrow> []
   | Some source \<Rightarrow>
       (let components = exported_components source in
        (if components = [] then [] else [(f, existsStory tree f, components)]) @ report_files tree fs))"

definition report :: "dir \<Rightarrow> (string \<times> bool \<times> string list) list" where
  "report tree = report_files tree (listed_files tree)"

definition total :: "dir \<Rightarrow> nat" where
  "total tree = sum_list (map (\<lambda>(_, _, components). length components) (report tree))"

end
