(* ===== verification/Layering_Props.thy ===== *)
theory Layering_Props
  imports Layering
begin

text \<open>
  What the dependency matrix guarantees: which layers a layer can reach through any chain of allowed
  imports, that the layers are ordered, and that the component list of \<open>list-components.mjs\<close> holds
  files whose layer cannot reach the data layers.
\<close>

section \<open>Reachability in the matrix\<close>

text \<open>Closure is decided on the table: a list of layers is closed forwards if the policies of its members
  allow nothing else, and backwards if no other layer's policy allows a member.\<close>

definition closed_under :: "string list \<Rightarrow> bool" where
  "closed_under S \<longleftrightarrow> list_all (\<lambda>p. policy_from p \<in> set S \<longrightarrow> list_all (\<lambda>b. b \<in> set S) (policy_allow p)) policies"

definition closed_above :: "string list \<Rightarrow> bool" where
  "closed_above S \<longleftrightarrow> list_all (\<lambda>p. list_ex (\<lambda>b. b \<in> set S) (policy_allow p) \<longrightarrow> policy_from p \<in> set S) policies"

text \<open>Every member is reached in at most two imports.\<close>

definition imports_within_two :: "string \<Rightarrow> string \<Rightarrow> bool" where
  "imports_within_two a b \<longleftrightarrow> a = b \<or> may_import a b \<or> list_ex (\<lambda>p. may_import a (policy_from p) \<and> may_import (policy_from p) b) policies"

lemma may_import_iff: "may_import a b \<longleftrightarrow> (\<exists>p\<in>set policies. policy_from p = a \<and> b \<in> set (policy_allow p))"
  by (simp add: may_import_def list_ex_iff)

lemma within_two: "imports_within_two a b \<Longrightarrow> (a, b) \<in> import_graph\<^sup>*"
  by (auto simp: imports_within_two_def import_graph_def list_ex_iff intro: r_into_rtrancl rtrancl_trans)

lemma closed_step: "closed_under S \<Longrightarrow> a \<in> set S \<Longrightarrow> may_import a b \<Longrightarrow> b \<in> set S"
  by (fastforce simp: closed_under_def list_all_iff may_import_iff)

lemma reach_eq:
  assumes "closed_under T" "a \<in> set T" "list_all (imports_within_two a) T"
  shows "import_graph\<^sup>* `` {a} = set T"
proof
  have "b \<in> set T" if "(a, b) \<in> import_graph\<^sup>*" for b
    using that by (induction rule: rtrancl_induct) (auto simp: import_graph_def assms(2) intro: closed_step [OF assms(1)])
  then show "import_graph\<^sup>* `` {a} \<subseteq> set T" by blast
  show "set T \<subseteq> import_graph\<^sup>* `` {a}" using assms(3) within_two by (auto simp: list_all_iff)
qed

lemma above_step: "closed_above S \<Longrightarrow> b \<in> set S \<Longrightarrow> may_import a b \<Longrightarrow> a \<in> set S"
  by (fastforce simp: closed_above_def list_all_iff list_ex_iff may_import_iff)

lemma reached_from:
  assumes "closed_above S" "c \<in> set S" "list_all (\<lambda>a. imports_within_two a c) S"
  shows "{a. (a, c) \<in> import_graph\<^sup>*} = set S"
proof
  have "a \<in> set S" if "(a, c) \<in> import_graph\<^sup>*" for a
    using that by (induction rule: converse_rtrancl_induct) (auto simp: import_graph_def assms(2) intro: above_step [OF assms(1)])
  then show "{a. (a, c) \<in> import_graph\<^sup>*} \<subseteq> set S" by blast
  show "set S \<subseteq> {a. (a, c) \<in> import_graph\<^sup>*}" using assms(3) within_two by (auto simp: list_all_iff)
qed

text \<open>Components, user-interface primitives and their hooks reach nothing but themselves, pure
  libraries and types.\<close>

definition dumb_layers :: "string list" where
  "dumb_layers = [''component'', ''ui'', ''ui-hook'', ''lib'', ''types'']"

lemma dumb_closed: "closed_under dumb_layers"
  by code_simp

lemma component_reaches: "import_graph\<^sup>* `` {''component''} = set dumb_layers"
  by (rule reach_eq; code_simp)

lemma component_ui: "may_import ''component'' ''ui''"
  by code_simp

lemma hook_reaches: "import_graph\<^sup>* `` {''hook''} = set [''hook'', ''api'', ''store'', ''lib'', ''types'', ''config'']"
  by (rule reach_eq; code_simp)

lemma reaches_api: "{a. (a, ''api'') \<in> import_graph\<^sup>*} = set [''app'', ''feature'', ''hook'', ''api'', ''test'']"
  by (rule reached_from; code_simp)

lemma reaches_mocks: "{a. (a, ''mocks'') \<in> import_graph\<^sup>*} = set [''app'', ''mocks'', ''test'']"
  by (rule reached_from; code_simp)

text \<open>A rank that every import of another layer decreases.\<close>

definition layer_rank :: "string \<Rightarrow> nat" where
  "layer_rank t = the_default 0 (map_of
     [(''lib'', 1), (''config'', 1), (''ui-hook'', 2), (''api'', 2), (''store'', 2), (''mocks'', 2),
      (''ui'', 3), (''hook'', 3), (''component'', 4), (''feature'', 5), (''app'', 6), (''test'', 7)] t)"

definition rank_decreases :: bool where
  "rank_decreases \<longleftrightarrow> list_all (\<lambda>p. list_all (\<lambda>b. b = policy_from p \<or> layer_rank b < layer_rank (policy_from p)) (policy_allow p)) policies"

lemma layers_acyclic: "acyclic (import_graph - Id)"
proof -
  have r: rank_decreases by code_simp
  have "import_graph - Id \<subseteq> {(a, b). layer_rank b < layer_rank a}"
    using r by (fastforce simp: rank_decreases_def list_all_iff import_graph_def may_import_iff)
  moreover have "{(a, b). layer_rank b < layer_rank a} = (measure layer_rank)\<inverse>"
    by auto
  ultimately have "import_graph - Id \<subseteq> (measure layer_rank)\<inverse>" by simp
  then show ?thesis using wf_acyclic [OF wf_measure] acyclic_converse acyclic_subset by metis
qed

section \<open>The layer of a file\<close>

lemma element_type_patterns:
  "folder_patterns m \<Longrightarrow> element_type m path =
     map_option fst (find (\<lambda>(_, pattern). path_in_folder pattern path) boundary_elements)"
  by (simp add: element_type_def folder_patterns_def)

text \<open>The patterns, cut at their slashes.\<close>

lemma pattern_names:
  "map (\<lambda>(t, p). (t, split_on CHR ''/'' p)) boundary_elements =
    [(''app'', [''src'', ''app'']), (''config'', [''src'', ''config'']), (''types'', [''src'', ''types'']),
     (''lib'', [''src'', ''lib'']), (''api'', [''src'', ''api'', ''*'']), (''api'', [''src'', ''api'']),
     (''store'', [''src'', ''store'']), (''mocks'', [''src'', ''mocks'']), (''test'', [''src'', ''test'']),
     (''ui'', [''src'', ''components'', ''ui'']), (''ui-hook'', [''src'', ''hooks'']),
     (''component'', [''src'', ''components'']), (''component'', [''src'', ''features'', ''*'', ''components'']),
     (''hook'', [''src'', ''features'', ''*'', ''hooks'']), (''feature'', [''src'', ''features'', ''*''])]"
  by code_simp

lemma find_map_pair: "map_option fst (find (\<lambda>(_, p). P (g p)) xs) = map_option fst (find (\<lambda>(_, q). P q) (map (\<lambda>(t, p). (t, g p)) xs))"
  by (induction xs) auto

lemma element_type_names:
  "folder_patterns m \<Longrightarrow> element_type m path =
     map_option fst (find (\<lambda>(_, names). in_folder names (split_on CHR ''/'' path))
       (map (\<lambda>(t, p). (t, split_on CHR ''/'' p)) boundary_elements))"
  unfolding element_type_patterns path_in_folder_def by (rule find_map_pair)

lemma in_folder_Nil [simp]: "in_folder ps [] \<longleftrightarrow> False"
  by (cases ps) auto

lemma component_layer:
  assumes "folder_patterns m" "split_on CHR ''/'' path = ''src'' # ''components'' # names" "names \<noteq> []"
  shows "element_type m path = Some (if hd names = ''ui'' \<and> tl names \<noteq> [] then ''ui'' else ''component'')"
  using assms(3) by (cases names) (simp_all add: element_type_names [OF assms(1)] pattern_names assms(2))

lemma feature_layer:
  assumes "folder_patterns m" "split_on CHR ''/'' path = ''src'' # ''features'' # owner # names" "names \<noteq> []"
  shows "element_type m path = Some (if tl names = [] then ''feature'' else
    if hd names = ''components'' then ''component'' else if hd names = ''hooks'' then ''hook'' else ''feature'')"
  using assms(3) by (cases names) (simp_all add: element_type_names [OF assms(1)] pattern_names assms(2))

section \<open>The component list\<close>

lemma walk_below: "f \<in> set (walk dir d) \<Longrightarrow> \<exists>r. f = dir @ ''/'' @ r"
  by (induction dir d rule: walk.induct) fastforce+

lemma split_on_prefix: "c \<notin> set x \<Longrightarrow> split_on c (x @ [c] @ s) = x # split_on c s"
  using split_on_append_sep [of c x s] by simp

lemma last_name: "\<exists>names. split_on c s = names @ [rev (takeWhile (\<lambda>x. x \<noteq> c) (rev s))]"
proof (induction s)
  case (Cons x xs)
  then obtain names where n: "split_on c xs = names @ [rev (takeWhile (\<lambda>x. x \<noteq> c) (rev xs))]" by blast
  show ?case
  proof (cases "x = c")
    case True
    have "takeWhile (\<lambda>x. x \<noteq> c) (rev xs @ [c]) = takeWhile (\<lambda>x. x \<noteq> c) (rev xs)"
      by (rule takeWhile_tail) simp
    then show ?thesis using True n by (auto intro!: exI [of _ "[] # names"])
  next
    case False
    show ?thesis
    proof (cases "c \<in> set xs")
      case True
      then have "takeWhile (\<lambda>x. x \<noteq> c) (rev xs @ [x]) = takeWhile (\<lambda>x. x \<noteq> c) (rev xs)"
        by (auto intro: takeWhile_append1)
      moreover have "names \<noteq> []"
      proof
        assume "names = []"
        then have "xs = rev (takeWhile (\<lambda>x. x \<noteq> c) (rev xs))" using n join_split_on [of c xs] by simp
        then have "c \<notin> set xs" by (metis (mono_tags) set_rev set_takeWhileD)
        then show False using True by simp
      qed
      ultimately show ?thesis using n \<open>x \<noteq> c\<close> by (cases names) (auto intro!: exI [of _ "(x # hd names) # tl names"])
    next
      case nc: False
      have "takeWhile (\<lambda>x. x \<noteq> c) (rev xs @ [x]) = rev xs @ [x]"
        using nc \<open>x \<noteq> c\<close> by (auto simp only: takeWhile_eq_all_conv set_append set_rev list.set)
      then have "rev (takeWhile (\<lambda>x. x \<noteq> c) (rev (x # xs))) = x # xs" by (simp only: rev.simps) simp
      moreover have "split_on c (x # xs) = [x # xs]" using nc \<open>x \<noteq> c\<close> by simp
      ultimately show ?thesis by (simp only: append_Nil) blast
    qed
  qed
qed simp

text \<open>A file name that ends in an extension is not the name of a folder without one.\<close>

lemma tsx_name: "suffix ''.tsx'' f \<Longrightarrow> last (split_on CHR ''/'' f) \<noteq> ''components''"
proof -
  assume "suffix ''.tsx'' f"
  then obtain g where "f = g @ ''.tsx''" by (auto simp: suffix_def)
  then have "CHR ''.'' \<in> set (rev (takeWhile (\<lambda>x. x \<noteq> CHR ''/'') (rev f)))" by simp
  moreover have "last (split_on CHR ''/'' f) = rev (takeWhile (\<lambda>x. x \<noteq> CHR ''/'') (rev f))"
    using last_name [of "CHR ''/''" f] by auto
  ultimately show ?thesis by auto
qed

text \<open>A listed file that sits in a \<open>components\<close> folder, but not in the one of its feature.\<close>

definition nested_components :: "string \<Rightarrow> bool" where
  "nested_components f = (case split_on CHR ''/'' f of
     a # b # c # d # e \<Rightarrow> a = ''src'' \<and> b = ''features'' \<and> d \<noteq> ''components'' \<and> ''components'' \<in> set (c # butlast (d # e))
   | _ \<Rightarrow> False)"

lemma listed_cases:
  assumes "f \<in> set (listed_files tree)"
  obtains names where "split_on CHR ''/'' f = ''src'' # ''components'' # names" "names \<noteq> []"
  | owner names where "split_on CHR ''/'' f = ''src'' # ''features'' # owner # names" "names \<noteq> []"
      "tl names = [] \<Longrightarrow> hd names \<noteq> ''components''" "''components'' \<in> set (owner # butlast names)"
proof -
  from assms obtain r where r: "r \<in> set ROOTS" "f \<in> set (walk_root tree r)" and l: "listed_name f"
    by (auto simp: listed_files_def)
  from r(2) obtain x where f: "f = r @ ''/'' @ x"
    by (auto simp: walk_root_def dest!: walk_below split: option.splits dirent.splits)
  from r(1) consider "r = ''src/components''" | "r = ''src/features''" by (auto simp: ROOTS_def)
  then show thesis
  proof cases
    case 1
    then have "split_on CHR ''/'' f = ''src'' # ''components'' # split_on CHR ''/'' x"
      using f split_on_prefix [of "CHR ''/''" "''src''" "''components/'' @ x"]
        split_on_prefix [of "CHR ''/''" "''components''" x] by simp
    then show thesis using that(1) by simp
  next
    case 2
    then have s: "split_on CHR ''/'' f = ''src'' # ''features'' # split_on CHR ''/'' x"
      using f split_on_prefix [of "CHR ''/''" "''src''" "''features/'' @ x"]
        split_on_prefix [of "CHR ''/''" "''features''" x] by simp
    obtain owner names where x: "split_on CHR ''/'' x = owner # names" by (cases "split_on CHR ''/'' x") auto
    have lst: "last (split_on CHR ''/'' f) \<noteq> ''components''" using l by (intro tsx_name) (simp add: listed_name_def)
    have "\<not> prefix ''src/components'' f" using f 2 by simp
    then have c: "''components'' \<in> set (owner # names)" using l s x by (auto simp: listed_name_def IS_COMPONENT_DIR_def)
    then have "names \<noteq> []" using lst s x by auto
    moreover have "tl names = [] \<Longrightarrow> hd names \<noteq> ''components''" using lst s x \<open>names \<noteq> []\<close> by (cases names) auto
    moreover have "''components'' \<in> set (owner # butlast names)"
      using c lst s x \<open>names \<noteq> []\<close> by (cases names rule: rev_cases) auto
    ultimately show thesis using that(2) s x by simp
  qed
qed

section \<open>Properties\<close>

text \<open>
  C16: the dependency matrix orders the layers. It has one policy for each layer of the element table and
  allows only declared layers; apart from imports within a layer it has no cycle; through any chain of
  allowed imports a component reaches only components, primitives, their hooks, libraries and types,
  and a query hook nothing above the data layers; only the composition root, containers, query hooks
  and tests ever reach the transport, and only the composition root and tests reach the fixtures.
\<close>
theorem layers_one_way:
  "distinct (map policy_from policies) \<and> set (map policy_from policies) = set (map fst boundary_elements) \<and>
   list_all (\<lambda>p. set (policy_allow p) \<subseteq> set (map fst boundary_elements)) policies \<and>
   acyclic (import_graph - Id) \<and>
   import_graph\<^sup>* `` {''component''} = {''component'', ''ui'', ''ui-hook'', ''lib'', ''types''} \<and>
   import_graph\<^sup>* `` {''hook''} = {''hook'', ''api'', ''store'', ''lib'', ''types'', ''config''} \<and>
   {a. (a, ''api'') \<in> import_graph\<^sup>*} = {''app'', ''feature'', ''hook'', ''api'', ''test''} \<and>
   {a. (a, ''mocks'') \<in> import_graph\<^sup>*} = {''app'', ''mocks'', ''test''}"
proof (intro conjI)
  show "distinct (map policy_from policies)" by code_simp
  show "set (map policy_from policies) = set (map fst boundary_elements)" by code_simp
  show "list_all (\<lambda>p. set (policy_allow p) \<subseteq> set (map fst boundary_elements)) policies" by code_simp
qed (use component_reaches hook_reaches reaches_api reaches_mocks layers_acyclic in
  \<open>simp_all only: dumb_layers_def list.set\<close>)

text \<open>
  C19: the component list is what it says for the folders the repository uses. If folder patterns match
  as the plugin documents, every file \<open>list-components\<close> lists has a layer; unless it sits in a
  \<open>components\<close> folder elsewhere than directly below its feature, that layer is \<open>component\<close> or \<open>ui\<close>, and
  no chain of allowed imports leads from it to the transport, the stores or a query hook.
\<close>
theorem listed_components_are_dumb:
  assumes "folder_patterns folder_matches" "f \<in> set (listed_files tree)"
  shows "\<exists>t. element_type folder_matches f = Some t \<and>
    (if nested_components f then t \<in> {''feature'', ''hook''}
     else t \<in> {''component'', ''ui''} \<and> import_graph\<^sup>* `` {t} \<inter> {''api'', ''store'', ''hook''} = {})"
proof -
  have reach: "import_graph\<^sup>* `` {t} \<inter> {''api'', ''store'', ''hook''} = {}" if "t \<in> {''component'', ''ui''}" for t
  proof -
    have "import_graph\<^sup>* `` {t} \<subseteq> import_graph\<^sup>* `` {''component''}"
      using that within_two [of "''component''" "''ui''"] by (auto intro: rtrancl_trans simp: imports_within_two_def component_ui)
    then show ?thesis unfolding component_reaches by (auto simp: dumb_layers_def)
  qed
  note reach_both = reach [of "''component''"] reach [of "''ui''"]
  show ?thesis
    using assms(2)
  proof (cases rule: listed_cases)
    case (1 names)
    have "\<not> nested_components f" using 1 by (cases names) (auto simp: nested_components_def split: list.splits)
    then show ?thesis using component_layer [OF assms(1) 1] reach_both by simp
  next
    case (2 owner names)
    have "nested_components f \<longleftrightarrow> hd names \<noteq> ''components''" using 2(1,2,4) by (cases names) (auto simp: nested_components_def)
    then show ?thesis using feature_layer [OF assms(1) 2(1,2)] 2(3) reach_both by auto
  qed
qed

text \<open>A small source tree: a component with a story, a container, and a component folder inside a folder
  of hooks.\<close>

definition demo_tree :: dir where
  "demo_tree = [(''src'', Dir
     [(''components'', Dir [(''error-state.tsx'', File ''export function ErrorState ('')]),
      (''features'', Dir [(''flags'', Dir
        [(''FlagsPage.tsx'', File []),
         (''components'', Dir [(''FlagList.tsx'', File ''export function FlagList(''), (''FlagList.stories.tsx'', File [])]),
         (''hooks'', Dir [(''components'', Dir [(''Odd.tsx'', File [])])])])])])]"

lemma demo_listed:
  "listed_files demo_tree = [''src/components/error-state.tsx'', ''src/features/flags/components/FlagList.tsx'',
     ''src/features/flags/hooks/components/Odd.tsx'']"
  by code_simp

lemma listed_components_are_dumb_witness:
  "(\<exists>t. element_type path_in_folder ''src/features/flags/components/FlagList.tsx'' = Some t \<and>
    (if nested_components ''src/features/flags/components/FlagList.tsx'' then t \<in> {''feature'', ''hook''}
     else t \<in> {''component'', ''ui''} \<and> import_graph\<^sup>* `` {t} \<inter> {''api'', ''store'', ''hook''} = {})) \<and>
   \<not> nested_components ''src/features/flags/components/FlagList.tsx''"
proof
  show "\<not> nested_components ''src/features/flags/components/FlagList.tsx''" by code_simp
qed (rule listed_components_are_dumb [of path_in_folder _ demo_tree]; simp add: folder_patterns_def demo_listed)

text \<open>What the exception allows: a file that the script lists as a function of its properties, in a layer
  that may import the transport.\<close>

lemma listed_but_not_dumb:
  "''src/features/flags/hooks/components/Odd.tsx'' \<in> set (listed_files demo_tree)"
  "element_type path_in_folder ''src/features/flags/hooks/components/Odd.tsx'' = Some ''hook''"
  "may_import ''hook'' ''api''"
  by (simp add: demo_listed) code_simp+

text \<open>The comment of the matrix says that test helpers may reach anywhere; the hooks of the primitives are
  left out of their policy.\<close>

lemma test_not_everywhere: "\<not> may_import ''test'' ''ui-hook''" "may_import ''test'' ''ui''"
  by code_simp+

text \<open>What the script reports.\<close>

lemma demo_report:
  "report demo_tree = [(''src/components/error-state.tsx'', False, [''ErrorState'']),
     (''src/features/flags/components/FlagList.tsx'', True, [''FlagList''])]" "total demo_tree = 2"
  by code_simp+

lemma report_lists: "(f, s, cs) \<in> set (report tree) \<Longrightarrow> f \<in> set (listed_files tree) \<and> cs \<noteq> []"
proof -
  have "(f, s, cs) \<in> set (report_files tree fs) \<Longrightarrow> f \<in> set fs \<and> cs \<noteq> []" for fs
    by (induction fs) (auto simp: Let_def split: option.splits if_splits)
  then show "(f, s, cs) \<in> set (report tree) \<Longrightarrow> f \<in> set (listed_files tree) \<and> cs \<noteq> []"
    by (simp add: report_def)
qed

lemmas block_simps = lint_blocks_def base_block_def boundaries_block_def env_block_def vendored_block_def
  block_setting_def block_applies_def

text \<open>The vendored folders are exempt from the rules their upstream breaks.\<close>

lemma vendored_rules:
  "glob ''src/components/ui/**'' path \<Longrightarrow>
   rule_level recommended glob path ''react-refresh/only-export-components'' = Some ''off''"
  by (simp add: rule_level_def block_simps)

lemma environment_reads:
  "glob ''src/config/**'' path \<Longrightarrow> \<not> env_read_reported glob path name"
  "glob ''src/**/*.{ts,tsx}'' path \<Longrightarrow> \<not> glob ''src/config/**'' path \<Longrightarrow>
   env_read_reported glob path name \<longleftrightarrow> \<not> env_flag_allowed name"
  by (simp_all add: env_read_reported_def rule_level_def block_simps)

end
