(* ===== verification/Kit.thy ===== *)
theory Kit
  imports Json
begin

text \<open>
  The values the user-interface kit (\<open>web/src/components/ui\<close>) computes with. A component of the kit is a
  function from its properties to what it renders.

  Properties are an association list in which an earlier entry wins, so that the attributes of an
  element, which the sources write first to last with the later one winning, are appended last to first:
  \<open><div data-slot="x" {...props} />\<close> is \<open>Elem ''div'' (props @ [(''data-slot'', PStr ''x'')])\<close>. Children are
  the property \<open>children\<close>; children written between the tags override one that is passed.

  Elements of other packages (primitives, icons) and of the document are \<open>Elem\<close> nodes with their name as
  the tag; an element of the kit is the application of its component. The class-name libraries stay
  uninterpreted: \<open>Cn xs\<close> is \<open>cn(...xs)\<close> of \<open>lib/utils.ts\<close>, and \<open>Cva base variants defaults args\<close> is
  the call of a variants table. A function a component makes itself is \<open>POwn\<close> with its name and what it
  captures.
\<close>

section \<open>Values and elements\<close>

datatype pv =
    PUndef
  | PNull
  | PBool bool
  | PNum rat
  | PStr string
  | PFn nat
  | POwn string "pv list"
  | PObj "(string \<times> pv) list"
  | PArr "pv list"
  | Elem string "(string \<times> pv) list"
  | Cn "pv list"
  | Cva string "(string \<times> (string \<times> string list) list) list" "(string \<times> string) list" "(string \<times> pv) list"

type_synonym props = "(string \<times> pv) list"

definition pget :: "props \<Rightarrow> string \<Rightarrow> pv" where
  "pget p k = (case map_of p k of Some v \<Rightarrow> v | None \<Rightarrow> PUndef)"

text \<open>A default value in a parameter pattern, and the rest of the pattern.\<close>

definition pget_or :: "props \<Rightarrow> string \<Rightarrow> pv \<Rightarrow> pv" where
  "pget_or p k d = (if pget p k = PUndef then d else pget p k)"

definition rest :: "string list \<Rightarrow> props \<Rightarrow> props" where
  "rest ks p = filter (\<lambda>(k, _). k \<notin> set ks) p"

fun field_of :: "pv \<Rightarrow> string \<Rightarrow> pv" where
  "field_of (PObj fields) k = pget fields k"
| "field_of _ k = PUndef"

fun attr :: "pv \<Rightarrow> string \<Rightarrow> pv" where
  "attr (Elem t a) k = pget a k"
| "attr _ k = PUndef"

fun is_truthy :: "pv \<Rightarrow> bool" where
  "is_truthy PUndef = False"
| "is_truthy PNull = False"
| "is_truthy (PBool b) = b"
| "is_truthy (PNum n) = (n \<noteq> 0)"
| "is_truthy (PStr s) = (s \<noteq> [])"
| "is_truthy _ = True"

definition nullish :: "pv \<Rightarrow> pv \<Rightarrow> pv" where
  "nullish a b = (if a = PUndef \<or> a = PNull then b else a)"

text \<open>\<open>Object.entries(v)\<close>, and what \<open>...v\<close> copies into an object.\<close>

definition entries :: "pv \<Rightarrow> (string \<times> pv) list" where
  "entries v = (case v of PObj fs \<Rightarrow> fs | _ \<Rightarrow> [])"

text \<open>\<open>String(v)\<close> as a template literal writes a primitive value; an object's text is not modelled.\<close>

fun text_of :: "pv \<Rightarrow> string" where
  "text_of PUndef = ''undefined''"
| "text_of PNull = ''null''"
| "text_of (PBool b) = (if b then ''true'' else ''false'')"
| "text_of (PNum n) = show_num n"
| "text_of (PStr s) = s"
| "text_of _ = []"

text \<open>\<open>xs[i]\<close>\<close>

fun item_at :: "pv \<Rightarrow> pv \<Rightarrow> pv" where
  "item_at (PArr xs) (PNum n) =
     (if 0 \<le> n \<and> of_int \<lfloor>n\<rfloor> = n \<and> nat \<lfloor>n\<rfloor> < length xs then xs ! nat \<lfloor>n\<rfloor> else PUndef)"
| "item_at _ _ = PUndef"

section \<open>What is rendered\<close>

text \<open>The elements of a rendered value, outside in, those handed to another element as a property included.\<close>

fun parts :: "pv \<Rightarrow> pv list" where
  "parts (Elem t a) = Elem t a # concat (map (\<lambda>(_, v). parts v) a)"
| "parts (PArr vs) = concat (map parts vs)"
| "parts _ = []"

text \<open>\<open>ends_in v x\<close>: the class names \<open>x\<close> end in \<open>v\<close>; in a merge of class names the last one wins a conflict, and a
  variants table puts the class name it is given last.\<close>

inductive ends_in :: "pv \<Rightarrow> pv \<Rightarrow> bool" for v where
  ends_refl: "ends_in v v"
| ends_cn: "xs \<noteq> [] \<Longrightarrow> ends_in v (last xs) \<Longrightarrow> ends_in v (Cn xs)"
| ends_cva: "ends_in v (pget args ''className'') \<Longrightarrow> ends_in v (Cva base variants defaults args)"

text \<open>\<open>receives e p own\<close>: the element has every property the caller passes, as passed, except those the
  component keeps for itself.\<close>

definition receives :: "pv \<Rightarrow> props \<Rightarrow> string list \<Rightarrow> bool" where
  "receives e p own \<longleftrightarrow> (\<forall>k v. k \<notin> set own \<longrightarrow> map_of p k = Some v \<longrightarrow> attr e k = v)"

text \<open>The contract of the kit: some element of what the component renders gets the caller's properties and
  carries the component's slot unless the caller passes another, and the caller's class names come last
  in some class name.\<close>

definition slotted :: "pv \<Rightarrow> props \<Rightarrow> string list \<Rightarrow> string \<Rightarrow> bool" where
  "slotted e p own slot \<longleftrightarrow> receives e p own \<and>
     (map_of p ''data-slot'' = None \<longrightarrow> attr e ''data-slot'' = PStr slot)"

definition merges_class :: "pv \<Rightarrow> props \<Rightarrow> bool" where
  "merges_class e p \<longleftrightarrow> ends_in (pget p ''className'') (attr e ''className'')"

definition follows :: "(props \<Rightarrow> pv) \<Rightarrow> string \<Rightarrow> string list \<Rightarrow> bool" where
  "follows component slot own \<longleftrightarrow> (\<forall>p.
     list_ex (\<lambda>e. slotted e p own slot) (parts (component p)) \<and>
     (''className'' \<in> set own \<longrightarrow> list_ex (\<lambda>e. merges_class e p) (parts (component p))))"

section \<open>Rules\<close>

lemma pget_Nil [simp]: "pget [] k = PUndef"
  by (simp add: pget_def)

lemma pget_Cons [simp]: "pget ((l, v) # p) k = (if l = k then v else pget p k)"
  by (simp add: pget_def)

lemma map_of_rest [simp]: "map_of (rest ks p) k = (if k \<in> set ks then None else map_of p k)"
  by (induction p) (auto simp: rest_def)

lemma pget_append [simp]: "pget (p @ q) k = (case map_of p k of Some v \<Rightarrow> v | None \<Rightarrow> pget q k)"
  by (simp add: pget_def map_add_def split: option.splits)

lemma pget_rest [simp]: "pget (rest ks p) k = (if k \<in> set ks then PUndef else pget p k)"
  by (simp add: pget_def)

lemma rest_rest [simp]: "rest ks (rest ls p) = rest (ls @ ks) p"
  by (auto simp: rest_def filter_filter intro!: filter_cong)

lemma rest_append [simp]: "rest ks (p @ q) = rest ks p @ rest ks q"
  by (simp add: rest_def)

lemma rest_Nil [simp]: "rest ks [] = []"
  by (simp add: rest_def)

lemma rest_Cons [simp]: "rest ks ((k, v) # p) = (if k \<in> set ks then rest ks p else (k, v) # rest ks p)"
  by (simp add: rest_def)

lemmas ends_rules [simp] = ends_refl ends_cn ends_cva

lemma receives_simp [simp]:
  "receives e p own \<longleftrightarrow> (\<forall>k v. k \<notin> set own \<longrightarrow> map_of p k = Some v \<longrightarrow> attr e k = v)"
  by (simp add: receives_def)

lemmas kit_simps = follows_def slotted_def merges_class_def Let_def

text \<open>Keeps the simplifier out of class names.\<close>

lemma kit_cong: "PStr s = PStr s" "args = args' \<Longrightarrow> Cva base variants defaults args = Cva base variants defaults args'"
  by simp_all

named_theorems kit_contracts "the components that follow the contract of the kit"

end
