(* ===== verification/KitBasics.thy ===== *)
theory KitBasics
  imports Kit
begin

text \<open>
  The plain parts of the kit: buttons, text inputs, cards, tables, items, messages and the layout of form fields
  (\<open>web/src/components/ui\<close>), each component as a function from its properties to what it
  renders.
\<close>

section \<open>\<open>button.tsx\<close>\<close>

definition buttonVariants :: "props \<Rightarrow> pv" where
  "buttonVariants args = Cva ''inline-flex shrink-0 items-center justify-center gap-2 rounded-md text-sm font-medium whitespace-nowrap transition-all outline-none focus-visible:border-ring focus-visible:ring-[3px] focus-visible:ring-ring/50 disabled:pointer-events-none disabled:opacity-50 aria-invalid:border-destructive aria-invalid:ring-destructive/20 dark:aria-invalid:ring-destructive/40 [&_svg]:pointer-events-none [&_svg]:shrink-0 [&_svg:not([class*='size-'])]:size-4''
     [(''variant'', [(''default'', [''bg-primary text-primary-foreground hover:bg-primary/90'']),
        (''destructive'', [''bg-destructive text-white hover:bg-destructive/90 focus-visible:ring-destructive/20 dark:bg-destructive/60 dark:focus-visible:ring-destructive/40'']),
        (''outline'', [''border bg-background shadow-xs hover:bg-accent hover:text-accent-foreground dark:border-input dark:bg-input/30 dark:hover:bg-input/50'']),
        (''secondary'', [''bg-secondary text-secondary-foreground hover:bg-secondary/80'']),
        (''ghost'', [''hover:bg-accent hover:text-accent-foreground dark:hover:bg-accent/50'']),
        (''link'', [''text-primary underline-offset-4 hover:underline''])]),
      (''size'', [(''default'', [''h-9 px-4 py-2 has-[>svg]:px-3'']),
        (''xs'', [''h-6 gap-1 rounded-md px-2 text-xs has-[>svg]:px-1.5 [&_svg:not([class*='size-'])]:size-3'']),
        (''sm'', [''h-8 gap-1.5 rounded-md px-3 has-[>svg]:px-2.5'']),
        (''lg'', [''h-10 rounded-md px-6 has-[>svg]:px-4'']),
        (''icon'', [''size-9'']),
        (''icon-xs'', [''size-6 rounded-md [&_svg:not([class*='size-'])]:size-3'']),
        (''icon-sm'', [''size-8'']),
        (''icon-lg'', [''size-10''])])]
     [(''variant'', ''default''), (''size'', ''default'')] args"

definition Button_ui :: "props \<Rightarrow> pv" where
  "Button_ui p = (let className = pget p ''className'';
     variant = pget_or p ''variant'' (PStr ''default'');
     size' = pget_or p ''size'' (PStr ''default'');
     asChild = pget_or p ''asChild'' (PBool False);
     props = rest [''className'', ''variant'', ''size'', ''asChild''] p;
     Comp = (if is_truthy asChild then ''Slot.Root'' else ''button'')
   in Elem Comp (props @ [(''data-slot'', PStr ''button''), (''data-variant'', variant),
     (''data-size'', size'), (''className'', Cn [buttonVariants [(''variant'', variant),
     (''size'', size'), (''className'', className)]])]))"

lemma button_contract [kit_contracts]:
  "follows Button_ui ''button'' [''className'', ''variant'', ''size'', ''asChild'']"
  by (simp_all add: kit_simps Button_ui_def buttonVariants_def cong: kit_cong)

section \<open>\<open>badge.tsx\<close>\<close>

definition badgeVariants :: "props \<Rightarrow> pv" where
  "badgeVariants args = Cva ''inline-flex w-fit shrink-0 items-center justify-center gap-1 overflow-hidden rounded-full border border-transparent px-2 py-0.5 text-xs font-medium whitespace-nowrap transition-[color,box-shadow] focus-visible:border-ring focus-visible:ring-[3px] focus-visible:ring-ring/50 aria-invalid:border-destructive aria-invalid:ring-destructive/20 dark:aria-invalid:ring-destructive/40 [&>svg]:pointer-events-none [&>svg]:size-3''
     [(''variant'', [(''default'', [''bg-primary text-primary-foreground [a&]:hover:bg-primary/90'']),
        (''secondary'', [''bg-secondary text-secondary-foreground [a&]:hover:bg-secondary/90'']),
        (''destructive'', [''bg-destructive text-white focus-visible:ring-destructive/20 dark:bg-destructive/60 dark:focus-visible:ring-destructive/40 [a&]:hover:bg-destructive/90'']),
        (''outline'', [''border-border text-foreground [a&]:hover:bg-accent [a&]:hover:text-accent-foreground'']),
        (''ghost'', [''[a&]:hover:bg-accent [a&]:hover:text-accent-foreground'']),
        (''link'', [''text-primary underline-offset-4 [a&]:hover:underline''])])]
     [(''variant'', ''default'')] args"

definition Badge_ui :: "props \<Rightarrow> pv" where
  "Badge_ui p = (let className = pget p ''className'';
     variant = pget_or p ''variant'' (PStr ''default'');
     asChild = pget_or p ''asChild'' (PBool False);
     props = rest [''className'', ''variant'', ''asChild''] p;
     Comp = (if is_truthy asChild then ''Slot.Root'' else ''span'')
   in Elem Comp (props @ [(''data-slot'', PStr ''badge''), (''data-variant'', variant),
     (''className'', Cn [badgeVariants [(''variant'', variant)], className])]))"

lemma badge_contract [kit_contracts]:
  "follows Badge_ui ''badge'' [''className'', ''variant'', ''asChild'']"
  by (simp_all add: kit_simps Badge_ui_def badgeVariants_def cong: kit_cong)

section \<open>\<open>label.tsx\<close>\<close>

definition Label :: "props \<Rightarrow> pv" where
  "Label p = (let className = pget p ''className'';
     props = rest [''className''] p
   in Elem ''LabelPrimitive.Root'' (props @ [(''data-slot'', PStr ''label''),
     (''className'', Cn [PStr ''flex items-center gap-2 text-sm leading-none font-medium select-none group-data-[disabled=true]:pointer-events-none group-data-[disabled=true]:opacity-50 peer-disabled:cursor-not-allowed peer-disabled:opacity-50'', className])]))"

lemma label_contract [kit_contracts]:
  "follows Label ''label'' [''className'']"
  by (simp_all add: kit_simps Label_def cong: kit_cong)

section \<open>\<open>input.tsx\<close>\<close>

definition Input :: "props \<Rightarrow> pv" where
  "Input p = (let className = pget p ''className'';
     type' = pget p ''type'';
     props = rest [''className'', ''type''] p
   in Elem ''input'' (props @ [(''type'', type'), (''data-slot'', PStr ''input''),
     (''className'', Cn [PStr ''border-input selection:bg-primary selection:text-primary-foreground file:text-foreground placeholder:text-muted-foreground dark:bg-input/30 h-9 w-full min-w-0 rounded-md border bg-transparent px-3 py-1 text-base shadow-xs transition-[color,box-shadow] outline-none file:inline-flex file:h-7 file:border-0 file:bg-transparent file:text-sm file:font-medium disabled:pointer-events-none disabled:cursor-not-allowed disabled:opacity-50 md:text-sm'',
     PStr ''focus-visible:border-ring focus-visible:ring-ring/50 focus-visible:ring-[3px]'',
     PStr ''aria-invalid:border-destructive aria-invalid:ring-destructive/20 dark:aria-invalid:ring-destructive/40'', className])]))"

lemma input_contract [kit_contracts]:
  "follows Input ''input'' [''className'', ''type'']"
  by (simp_all add: kit_simps Input_def cong: kit_cong)

section \<open>\<open>textarea.tsx\<close>\<close>

definition Textarea :: "props \<Rightarrow> pv" where
  "Textarea p = (let className = pget p ''className'';
     props = rest [''className''] p
   in Elem ''textarea'' (props @ [(''data-slot'', PStr ''textarea''), (''className'',
     Cn [PStr ''border-input placeholder:text-muted-foreground focus-visible:border-ring focus-visible:ring-ring/50 aria-invalid:border-destructive aria-invalid:ring-destructive/20 dark:bg-input/30 dark:aria-invalid:ring-destructive/40 flex field-sizing-content min-h-16 w-full rounded-md border bg-transparent px-3 py-2 text-base shadow-xs transition-[color,box-shadow] outline-none focus-visible:ring-[3px] disabled:cursor-not-allowed disabled:opacity-50 md:text-sm'', className])]))"

lemma textarea_contract [kit_contracts]:
  "follows Textarea ''textarea'' [''className'']"
  by (simp_all add: kit_simps Textarea_def cong: kit_cong)

section \<open>\<open>separator.tsx\<close>\<close>

definition Separator :: "props \<Rightarrow> pv" where
  "Separator p = (let className = pget p ''className'';
     orientation = pget_or p ''orientation'' (PStr ''horizontal'');
     decorative = pget_or p ''decorative'' (PBool True);
     props = rest [''className'', ''orientation'', ''decorative''] p
   in Elem ''SeparatorPrimitive.Root'' (props @ [(''data-slot'', PStr ''separator''),
     (''decorative'', decorative), (''orientation'', orientation), (''className'',
     Cn [PStr ''bg-border shrink-0 data-[orientation=horizontal]:h-px data-[orientation=horizontal]:w-full data-[orientation=vertical]:h-full data-[orientation=vertical]:w-px'', className])]))"

lemma separator_contract [kit_contracts]:
  "follows Separator ''separator'' [''className'', ''orientation'', ''decorative'']"
  by (simp_all add: kit_simps Separator_def cong: kit_cong)

section \<open>\<open>skeleton.tsx\<close>\<close>

definition Skeleton :: "props \<Rightarrow> pv" where
  "Skeleton p = (let className = pget p ''className'';
     props = rest [''className''] p
   in Elem ''div'' (props @ [(''data-slot'', PStr ''skeleton''), (''className'',
     Cn [PStr ''bg-accent animate-pulse rounded-md'', className])]))"

lemma skeleton_contract [kit_contracts]:
  "follows Skeleton ''skeleton'' [''className'']"
  by (simp_all add: kit_simps Skeleton_def cong: kit_cong)

section \<open>\<open>spinner.tsx\<close>\<close>

definition Spinner :: "props \<Rightarrow> pv" where
  "Spinner p = (let className = pget p ''className'';
     props = rest [''className''] p
   in Elem ''Loader2Icon'' (props @ [(''role'', PStr ''status''), (''aria-label'',
     PStr ''Loading''), (''className'', Cn [PStr ''size-4 animate-spin'', className])]))"

section \<open>\<open>kbd.tsx\<close>\<close>

definition Kbd :: "props \<Rightarrow> pv" where
  "Kbd p = (let className = pget p ''className'';
     props = rest [''className''] p
   in Elem ''kbd'' (props @ [(''data-slot'', PStr ''kbd''), (''className'',
     Cn [PStr ''bg-muted text-muted-foreground pointer-events-none inline-flex h-5 w-fit min-w-5 items-center justify-center gap-1 rounded-sm px-1 font-sans text-xs font-medium select-none'',
     PStr ''[&_svg:not([class*='size-'])]:size-3'', PStr ''[[data-slot=tooltip-content]_&]:bg-background/20 [[data-slot=tooltip-content]_&]:text-background dark:[[data-slot=tooltip-content]_&]:bg-background/10'', className])]))"

definition KbdGroup :: "props \<Rightarrow> pv" where
  "KbdGroup p = (let className = pget p ''className'';
     props = rest [''className''] p
   in Elem ''kbd'' (props @ [(''data-slot'', PStr ''kbd-group''), (''className'',
     Cn [PStr ''inline-flex items-center gap-1'', className])]))"

lemma kbd_contract [kit_contracts]:
  "follows Kbd ''kbd'' [''className'']"
  "follows KbdGroup ''kbd-group'' [''className'']"
  by (simp_all add: kit_simps KbdGroup_def Kbd_def cong: kit_cong)

section \<open>\<open>aspect-ratio.tsx\<close>\<close>

definition AspectRatio :: "props \<Rightarrow> pv" where
  "AspectRatio p = Elem ''AspectRatioPrimitive.Root'' (p @ [(''data-slot'',
    PStr ''aspect-ratio'')])"

lemma aspect_ratio_contract [kit_contracts]:
  "follows AspectRatio ''aspect-ratio'' []"
  by (simp_all add: kit_simps AspectRatio_def cong: kit_cong)

section \<open>\<open>progress.tsx\<close>\<close>

definition Progress :: "props \<Rightarrow> pv" where
  "Progress p = (let className = pget p ''className'';
     value' = pget p ''value'';
     props = rest [''className'', ''value''] p;
     shown = (if is_truthy value' then value' else PNum 0);
     left = (case shown of PNum n \<Rightarrow> PNum (100 - n) | _ \<Rightarrow> PUndef)
   in Elem ''ProgressPrimitive.Root'' ([(''children'', Elem ''ProgressPrimitive.Indicator''
         [(''data-slot'', PStr ''progress-indicator''), (''className'', PStr ''bg-primary h-full w-full flex-1 transition-all''),
          (''style'', PObj [(''transform'', PStr (''translateX(-'' @ text_of left @ ''%)''))])])] @
      props @ [(''data-slot'', PStr ''progress''),
        (''className'', Cn [PStr ''bg-primary/20 relative h-2 w-full overflow-hidden rounded-full'', className])]))"

section \<open>\<open>alert.tsx\<close>\<close>

definition alertVariants :: "props \<Rightarrow> pv" where
  "alertVariants args = Cva ''relative grid w-full grid-cols-[0_1fr] items-start gap-y-0.5 rounded-lg border px-4 py-3 text-sm has-[>svg]:grid-cols-[calc(var(--spacing)*4)_1fr] has-[>svg]:gap-x-3 [&>svg]:size-4 [&>svg]:translate-y-0.5 [&>svg]:text-current''
     [(''variant'', [(''default'', [''bg-card text-card-foreground'']),
        (''destructive'', [''bg-card text-destructive *:data-[slot=alert-description]:text-destructive/90 [&>svg]:text-current''])])]
     [(''variant'', ''default'')] args"

definition Alert_ui :: "props \<Rightarrow> pv" where
  "Alert_ui p = (let className = pget p ''className'';
     variant = pget p ''variant'';
     props = rest [''className'', ''variant''] p
   in Elem ''div'' (props @ [(''data-slot'', PStr ''alert''), (''role'',
     PStr ''alert''), (''className'', Cn [alertVariants [(''variant'', variant)], className])]))"

definition AlertTitle :: "props \<Rightarrow> pv" where
  "AlertTitle p = (let className = pget p ''className'';
     props = rest [''className''] p
   in Elem ''div'' (props @ [(''data-slot'', PStr ''alert-title''), (''className'',
     Cn [PStr ''col-start-2 line-clamp-1 min-h-4 font-medium tracking-tight'', className])]))"

definition AlertDescription :: "props \<Rightarrow> pv" where
  "AlertDescription p = (let className = pget p ''className'';
     props = rest [''className''] p
   in Elem ''div'' (props @ [(''data-slot'', PStr ''alert-description''),
     (''className'', Cn [PStr ''text-muted-foreground col-start-2 grid justify-items-start gap-1 text-sm [&_p]:leading-relaxed'', className])]))"

lemma alert_contract [kit_contracts]:
  "follows Alert_ui ''alert'' [''className'', ''variant'']"
  "follows AlertTitle ''alert-title'' [''className'']"
  "follows AlertDescription ''alert-description'' [''className'']"
  by (simp_all add: kit_simps AlertDescription_def AlertTitle_def Alert_ui_def alertVariants_def cong: kit_cong)

section \<open>\<open>card.tsx\<close>\<close>

definition Card :: "props \<Rightarrow> pv" where
  "Card p = (let className = pget p ''className'';
     props = rest [''className''] p
   in Elem ''div'' (props @ [(''data-slot'', PStr ''card''), (''className'',
     Cn [PStr ''bg-card text-card-foreground flex flex-col gap-6 rounded-xl border py-6 shadow-sm'', className])]))"

definition CardHeader :: "props \<Rightarrow> pv" where
  "CardHeader p = (let className = pget p ''className'';
     props = rest [''className''] p
   in Elem ''div'' (props @ [(''data-slot'', PStr ''card-header''), (''className'',
     Cn [PStr ''@container/card-header grid auto-rows-min grid-rows-[auto_auto] items-start gap-2 px-6 has-data-[slot=card-action]:grid-cols-[1fr_auto] [.border-b]:pb-6'', className])]))"

definition CardTitle :: "props \<Rightarrow> pv" where
  "CardTitle p = (let className = pget p ''className'';
     props = rest [''className''] p
   in Elem ''div'' (props @ [(''data-slot'', PStr ''card-title''), (''className'',
     Cn [PStr ''leading-none font-semibold'', className])]))"

definition CardDescription :: "props \<Rightarrow> pv" where
  "CardDescription p = (let className = pget p ''className'';
     props = rest [''className''] p
   in Elem ''div'' (props @ [(''data-slot'', PStr ''card-description''),
     (''className'', Cn [PStr ''text-muted-foreground text-sm'', className])]))"

definition CardAction :: "props \<Rightarrow> pv" where
  "CardAction p = (let className = pget p ''className'';
     props = rest [''className''] p
   in Elem ''div'' (props @ [(''data-slot'', PStr ''card-action''), (''className'',
     Cn [PStr ''col-start-2 row-span-2 row-start-1 self-start justify-self-end'', className])]))"

definition CardContent :: "props \<Rightarrow> pv" where
  "CardContent p = (let className = pget p ''className'';
     props = rest [''className''] p
   in Elem ''div'' (props @ [(''data-slot'', PStr ''card-content''), (''className'',
     Cn [PStr ''px-6'', className])]))"

definition CardFooter :: "props \<Rightarrow> pv" where
  "CardFooter p = (let className = pget p ''className'';
     props = rest [''className''] p
   in Elem ''div'' (props @ [(''data-slot'', PStr ''card-footer''), (''className'',
     Cn [PStr ''flex items-center px-6 [.border-t]:pt-6'', className])]))"

lemma card_contract [kit_contracts]:
  "follows Card ''card'' [''className'']"
  "follows CardHeader ''card-header'' [''className'']"
  "follows CardTitle ''card-title'' [''className'']"
  "follows CardDescription ''card-description'' [''className'']"
  "follows CardAction ''card-action'' [''className'']"
  "follows CardContent ''card-content'' [''className'']"
  "follows CardFooter ''card-footer'' [''className'']"
  by (simp_all add: kit_simps CardAction_def CardContent_def CardDescription_def CardFooter_def CardHeader_def CardTitle_def Card_def cong: kit_cong)

section \<open>\<open>table.tsx\<close>\<close>

definition Table :: "props \<Rightarrow> pv" where
  "Table p = (let className = pget p ''className'';
     props = rest [''className''] p
   in Elem ''div'' ([(''children'', Elem ''table'' (props @ [(''data-slot'',
     PStr ''table''), (''className'', Cn [PStr ''w-full caption-bottom text-sm'', className])]))]
     @ [(''data-slot'', PStr ''table-container''), (''className'', PStr ''relative w-full overflow-x-auto'')]))"

definition TableHeader :: "props \<Rightarrow> pv" where
  "TableHeader p = (let className = pget p ''className'';
     props = rest [''className''] p
   in Elem ''thead'' (props @ [(''data-slot'', PStr ''table-header''), (''className'',
     Cn [PStr ''[&_tr]:border-b'', className])]))"

definition TableBody :: "props \<Rightarrow> pv" where
  "TableBody p = (let className = pget p ''className'';
     props = rest [''className''] p
   in Elem ''tbody'' (props @ [(''data-slot'', PStr ''table-body''), (''className'',
     Cn [PStr ''[&_tr:last-child]:border-0'', className])]))"

definition TableFooter :: "props \<Rightarrow> pv" where
  "TableFooter p = (let className = pget p ''className'';
     props = rest [''className''] p
   in Elem ''tfoot'' (props @ [(''data-slot'', PStr ''table-footer''), (''className'',
     Cn [PStr ''bg-muted/50 border-t font-medium [&>tr]:last:border-b-0'', className])]))"

definition TableRow :: "props \<Rightarrow> pv" where
  "TableRow p = (let className = pget p ''className'';
     props = rest [''className''] p
   in Elem ''tr'' (props @ [(''data-slot'', PStr ''table-row''), (''className'',
     Cn [PStr ''hover:bg-muted/50 has-aria-expanded:bg-muted/50 data-[state=selected]:bg-muted border-b transition-colors'', className])]))"

definition TableHead :: "props \<Rightarrow> pv" where
  "TableHead p = (let className = pget p ''className'';
     props = rest [''className''] p
   in Elem ''th'' (props @ [(''data-slot'', PStr ''table-head''), (''className'',
     Cn [PStr ''text-foreground h-10 px-2 text-left align-middle font-medium whitespace-nowrap [&:has([role=checkbox])]:pr-0 [&>[role=checkbox]]:translate-y-[2px]'', className])]))"

definition TableCell :: "props \<Rightarrow> pv" where
  "TableCell p = (let className = pget p ''className'';
     props = rest [''className''] p
   in Elem ''td'' (props @ [(''data-slot'', PStr ''table-cell''), (''className'',
     Cn [PStr ''p-2 align-middle whitespace-nowrap [&:has([role=checkbox])]:pr-0 [&>[role=checkbox]]:translate-y-[2px]'', className])]))"

definition TableCaption :: "props \<Rightarrow> pv" where
  "TableCaption p = (let className = pget p ''className'';
     props = rest [''className''] p
   in Elem ''caption'' (props @ [(''data-slot'', PStr ''table-caption''),
     (''className'', Cn [PStr ''text-muted-foreground mt-4 text-sm'', className])]))"

lemma table_contract [kit_contracts]:
  "follows Table ''table'' [''className'']"
  "follows TableHeader ''table-header'' [''className'']"
  "follows TableBody ''table-body'' [''className'']"
  "follows TableFooter ''table-footer'' [''className'']"
  "follows TableRow ''table-row'' [''className'']"
  "follows TableHead ''table-head'' [''className'']"
  "follows TableCell ''table-cell'' [''className'']"
  "follows TableCaption ''table-caption'' [''className'']"
  by (simp_all add: kit_simps TableBody_def TableCaption_def TableCell_def TableFooter_def TableHead_def TableHeader_def TableRow_def Table_def cong: kit_cong)

section \<open>\<open>avatar.tsx\<close>\<close>

definition Avatar :: "props \<Rightarrow> pv" where
  "Avatar p = (let className = pget p ''className'';
     size' = pget_or p ''size'' (PStr ''default'');
     props = rest [''className'', ''size''] p
   in Elem ''AvatarPrimitive.Root'' (props @ [(''data-slot'', PStr ''avatar''),
     (''data-size'', size'), (''className'', Cn [PStr ''group/avatar relative flex size-8 shrink-0 overflow-hidden rounded-full select-none data-[size=lg]:size-10 data-[size=sm]:size-6'', className])]))"

definition AvatarImage :: "props \<Rightarrow> pv" where
  "AvatarImage p = (let className = pget p ''className'';
     props = rest [''className''] p
   in Elem ''AvatarPrimitive.Image'' (props @ [(''data-slot'', PStr ''avatar-image''),
     (''className'', Cn [PStr ''aspect-square size-full'', className])]))"

definition AvatarFallback :: "props \<Rightarrow> pv" where
  "AvatarFallback p = (let className = pget p ''className'';
     props = rest [''className''] p
   in Elem ''AvatarPrimitive.Fallback'' (props @ [(''data-slot'', PStr ''avatar-fallback''),
     (''className'', Cn [PStr ''bg-muted text-muted-foreground flex size-full items-center justify-center rounded-full text-sm group-data-[size=sm]/avatar:text-xs'', className])]))"

definition AvatarBadge :: "props \<Rightarrow> pv" where
  "AvatarBadge p = (let className = pget p ''className'';
     props = rest [''className''] p
   in Elem ''span'' (props @ [(''data-slot'', PStr ''avatar-badge''), (''className'',
     Cn [PStr ''bg-primary text-primary-foreground ring-background absolute right-0 bottom-0 z-10 inline-flex items-center justify-center rounded-full ring-2 select-none'',
     PStr ''group-data-[size=sm]/avatar:size-2 group-data-[size=sm]/avatar:[&>svg]:hidden'',
     PStr ''group-data-[size=default]/avatar:size-2.5 group-data-[size=default]/avatar:[&>svg]:size-2'',
     PStr ''group-data-[size=lg]/avatar:size-3 group-data-[size=lg]/avatar:[&>svg]:size-2'', className])]))"

definition AvatarGroup :: "props \<Rightarrow> pv" where
  "AvatarGroup p = (let className = pget p ''className'';
     props = rest [''className''] p
   in Elem ''div'' (props @ [(''data-slot'', PStr ''avatar-group''), (''className'',
     Cn [PStr ''group/avatar-group *:data-[slot=avatar]:ring-background flex -space-x-2 *:data-[slot=avatar]:ring-2'', className])]))"

definition AvatarGroupCount :: "props \<Rightarrow> pv" where
  "AvatarGroupCount p = (let className = pget p ''className'';
     props = rest [''className''] p
   in Elem ''div'' (props @ [(''data-slot'', PStr ''avatar-group-count''),
     (''className'', Cn [PStr ''bg-muted text-muted-foreground ring-background relative flex size-8 shrink-0 items-center justify-center rounded-full text-sm ring-2 group-has-data-[size=lg]/avatar-group:size-10 group-has-data-[size=sm]/avatar-group:size-6 [&>svg]:size-4 group-has-data-[size=lg]/avatar-group:[&>svg]:size-5 group-has-data-[size=sm]/avatar-group:[&>svg]:size-3'', className])]))"

lemma avatar_contract [kit_contracts]:
  "follows Avatar ''avatar'' [''className'', ''size'']"
  "follows AvatarImage ''avatar-image'' [''className'']"
  "follows AvatarFallback ''avatar-fallback'' [''className'']"
  "follows AvatarBadge ''avatar-badge'' [''className'']"
  "follows AvatarGroup ''avatar-group'' [''className'']"
  "follows AvatarGroupCount ''avatar-group-count'' [''className'']"
  by (simp_all add: kit_simps AvatarBadge_def AvatarFallback_def AvatarGroupCount_def AvatarGroup_def AvatarImage_def Avatar_def cong: kit_cong)

section \<open>\<open>empty.tsx\<close>\<close>

definition Empty_ui :: "props \<Rightarrow> pv" where
  "Empty_ui p = (let className = pget p ''className'';
     props = rest [''className''] p
   in Elem ''div'' (props @ [(''data-slot'', PStr ''empty''), (''className'',
     Cn [PStr ''flex min-w-0 flex-1 flex-col items-center justify-center gap-6 rounded-lg border-dashed p-6 text-center text-balance md:p-12'', className])]))"

definition EmptyHeader :: "props \<Rightarrow> pv" where
  "EmptyHeader p = (let className = pget p ''className'';
     props = rest [''className''] p
   in Elem ''div'' (props @ [(''data-slot'', PStr ''empty-header''), (''className'',
     Cn [PStr ''flex max-w-sm flex-col items-center gap-2 text-center'', className])]))"

definition emptyMediaVariants :: "props \<Rightarrow> pv" where
  "emptyMediaVariants args = Cva ''mb-2 flex shrink-0 items-center justify-center [&_svg]:pointer-events-none [&_svg]:shrink-0''
     [(''variant'', [(''default'', [''bg-transparent'']),
        (''icon'', [''flex size-10 shrink-0 items-center justify-center rounded-lg bg-muted text-foreground [&_svg:not([class*='size-'])]:size-6''])])]
     [(''variant'', ''default'')] args"

definition EmptyMedia :: "props \<Rightarrow> pv" where
  "EmptyMedia p = (let className = pget p ''className'';
     variant = pget_or p ''variant'' (PStr ''default'');
     props = rest [''className'', ''variant''] p
   in Elem ''div'' (props @ [(''data-slot'', PStr ''empty-icon''), (''data-variant'', variant),
     (''className'', Cn [emptyMediaVariants [(''variant'', variant), (''className'', className)]])]))"

definition EmptyTitle :: "props \<Rightarrow> pv" where
  "EmptyTitle p = (let className = pget p ''className'';
     props = rest [''className''] p
   in Elem ''div'' (props @ [(''data-slot'', PStr ''empty-title''), (''className'',
     Cn [PStr ''text-lg font-medium tracking-tight'', className])]))"

definition EmptyDescription :: "props \<Rightarrow> pv" where
  "EmptyDescription p = (let className = pget p ''className'';
     props = rest [''className''] p
   in Elem ''div'' (props @ [(''data-slot'', PStr ''empty-description''),
     (''className'', Cn [PStr ''text-muted-foreground [&>a:hover]:text-primary text-sm/relaxed [&>a]:underline [&>a]:underline-offset-4'', className])]))"

definition EmptyContent :: "props \<Rightarrow> pv" where
  "EmptyContent p = (let className = pget p ''className'';
     props = rest [''className''] p
   in Elem ''div'' (props @ [(''data-slot'', PStr ''empty-content''), (''className'',
     Cn [PStr ''flex w-full max-w-sm min-w-0 flex-col items-center gap-4 text-sm text-balance'', className])]))"

lemma empty_contract [kit_contracts]:
  "follows Empty_ui ''empty'' [''className'']"
  "follows EmptyHeader ''empty-header'' [''className'']"
  "follows EmptyMedia ''empty-icon'' [''className'', ''variant'']"
  "follows EmptyTitle ''empty-title'' [''className'']"
  "follows EmptyDescription ''empty-description'' [''className'']"
  "follows EmptyContent ''empty-content'' [''className'']"
  by (simp_all add: kit_simps EmptyContent_def EmptyDescription_def EmptyHeader_def EmptyMedia_def EmptyTitle_def Empty_ui_def emptyMediaVariants_def cong: kit_cong)

section \<open>\<open>item.tsx\<close>\<close>

definition ItemGroup :: "props \<Rightarrow> pv" where
  "ItemGroup p = (let className = pget p ''className'';
     props = rest [''className''] p
   in Elem ''div'' (props @ [(''role'', PStr ''list''), (''data-slot'',
     PStr ''item-group''), (''className'', Cn [PStr ''group/item-group flex flex-col'', className])]))"

definition ItemSeparator :: "props \<Rightarrow> pv" where
  "ItemSeparator p = (let className = pget p ''className'';
     props = rest [''className''] p
   in Separator (props @ [(''data-slot'', PStr ''item-separator''), (''orientation'',
     PStr ''horizontal''), (''className'', Cn [PStr ''my-0'', className])]))"

definition itemVariants :: "props \<Rightarrow> pv" where
  "itemVariants args = Cva ''group/item flex flex-wrap items-center rounded-md border border-transparent text-sm transition-colors duration-100 outline-none focus-visible:border-ring focus-visible:ring-[3px] focus-visible:ring-ring/50 [a]:transition-colors [a]:hover:bg-accent/50''
     [(''variant'', [(''default'', [''bg-transparent'']),
        (''outline'', [''border-border'']),
        (''muted'', [''bg-muted/50''])]),
      (''size'', [(''default'', [''gap-4 p-4'']),
        (''sm'', [''gap-2.5 px-4 py-3''])])]
     [(''variant'', ''default''), (''size'', ''default'')] args"

definition Item :: "props \<Rightarrow> pv" where
  "Item p = (let className = pget p ''className'';
     variant = pget_or p ''variant'' (PStr ''default'');
     size' = pget_or p ''size'' (PStr ''default'');
     asChild = pget_or p ''asChild'' (PBool False);
     props = rest [''className'', ''variant'', ''size'', ''asChild''] p;
     Comp = (if is_truthy asChild then ''Slot.Root'' else ''div'')
   in Elem Comp (props @ [(''data-slot'', PStr ''item''), (''data-variant'', variant),
     (''data-size'', size'), (''className'', Cn [itemVariants [(''variant'', variant),
     (''size'', size'), (''className'', className)]])]))"

definition itemMediaVariants :: "props \<Rightarrow> pv" where
  "itemMediaVariants args = Cva ''flex shrink-0 items-center justify-center gap-2 group-has-[[data-slot=item-description]]/item:translate-y-0.5 group-has-[[data-slot=item-description]]/item:self-start [&_svg]:pointer-events-none''
     [(''variant'', [(''default'', [''bg-transparent'']),
        (''icon'', [''size-8 rounded-sm border bg-muted [&_svg:not([class*='size-'])]:size-4'']),
        (''image'', [''size-10 overflow-hidden rounded-sm [&_img]:size-full [&_img]:object-cover''])])]
     [(''variant'', ''default'')] args"

definition ItemMedia :: "props \<Rightarrow> pv" where
  "ItemMedia p = (let className = pget p ''className'';
     variant = pget_or p ''variant'' (PStr ''default'');
     props = rest [''className'', ''variant''] p
   in Elem ''div'' (props @ [(''data-slot'', PStr ''item-media''), (''data-variant'', variant),
     (''className'', Cn [itemMediaVariants [(''variant'', variant), (''className'', className)]])]))"

definition ItemContent :: "props \<Rightarrow> pv" where
  "ItemContent p = (let className = pget p ''className'';
     props = rest [''className''] p
   in Elem ''div'' (props @ [(''data-slot'', PStr ''item-content''), (''className'',
     Cn [PStr ''flex flex-1 flex-col gap-1 [&+[data-slot=item-content]]:flex-none'', className])]))"

definition ItemTitle :: "props \<Rightarrow> pv" where
  "ItemTitle p = (let className = pget p ''className'';
     props = rest [''className''] p
   in Elem ''div'' (props @ [(''data-slot'', PStr ''item-title''), (''className'',
     Cn [PStr ''flex w-fit items-center gap-2 text-sm leading-snug font-medium'', className])]))"

definition ItemDescription :: "props \<Rightarrow> pv" where
  "ItemDescription p = (let className = pget p ''className'';
     props = rest [''className''] p
   in Elem ''p'' (props @ [(''data-slot'', PStr ''item-description''), (''className'',
     Cn [PStr ''text-muted-foreground line-clamp-2 text-sm leading-normal font-normal text-balance'',
     PStr ''[&>a:hover]:text-primary [&>a]:underline [&>a]:underline-offset-4'', className])]))"

definition ItemActions :: "props \<Rightarrow> pv" where
  "ItemActions p = (let className = pget p ''className'';
     props = rest [''className''] p
   in Elem ''div'' (props @ [(''data-slot'', PStr ''item-actions''), (''className'',
     Cn [PStr ''flex items-center gap-2'', className])]))"

definition ItemHeader :: "props \<Rightarrow> pv" where
  "ItemHeader p = (let className = pget p ''className'';
     props = rest [''className''] p
   in Elem ''div'' (props @ [(''data-slot'', PStr ''item-header''), (''className'',
     Cn [PStr ''flex basis-full items-center justify-between gap-2'', className])]))"

definition ItemFooter :: "props \<Rightarrow> pv" where
  "ItemFooter p = (let className = pget p ''className'';
     props = rest [''className''] p
   in Elem ''div'' (props @ [(''data-slot'', PStr ''item-footer''), (''className'',
     Cn [PStr ''flex basis-full items-center justify-between gap-2'', className])]))"

lemma item_contract [kit_contracts]:
  "follows ItemGroup ''item-group'' [''className'']"
  "follows ItemSeparator ''item-separator'' [''className'', ''orientation'', ''decorative'']"
  "follows Item ''item'' [''className'', ''variant'', ''size'', ''asChild'']"
  "follows ItemMedia ''item-media'' [''className'', ''variant'']"
  "follows ItemContent ''item-content'' [''className'']"
  "follows ItemTitle ''item-title'' [''className'']"
  "follows ItemDescription ''item-description'' [''className'']"
  "follows ItemActions ''item-actions'' [''className'']"
  "follows ItemHeader ''item-header'' [''className'']"
  "follows ItemFooter ''item-footer'' [''className'']"
  by (simp_all add: kit_simps ItemActions_def ItemContent_def ItemDescription_def ItemFooter_def ItemGroup_def ItemHeader_def ItemMedia_def ItemSeparator_def ItemTitle_def Item_def Separator_def itemMediaVariants_def itemVariants_def cong: kit_cong)

section \<open>\<open>breadcrumb.tsx\<close>\<close>

definition Breadcrumb :: "props \<Rightarrow> pv" where
  "Breadcrumb p = Elem ''nav'' (p @ [(''aria-label'', PStr ''breadcrumb''),
    (''data-slot'', PStr ''breadcrumb'')])"

definition BreadcrumbList :: "props \<Rightarrow> pv" where
  "BreadcrumbList p = (let className = pget p ''className'';
     props = rest [''className''] p
   in Elem ''ol'' (props @ [(''data-slot'', PStr ''breadcrumb-list''), (''className'',
     Cn [PStr ''text-muted-foreground flex flex-wrap items-center gap-1.5 text-sm break-words sm:gap-2.5'', className])]))"

definition BreadcrumbItem :: "props \<Rightarrow> pv" where
  "BreadcrumbItem p = (let className = pget p ''className'';
     props = rest [''className''] p
   in Elem ''li'' (props @ [(''data-slot'', PStr ''breadcrumb-item''), (''className'',
     Cn [PStr ''inline-flex items-center gap-1.5'', className])]))"

definition BreadcrumbLink :: "props \<Rightarrow> pv" where
  "BreadcrumbLink p = (let asChild = pget p ''asChild'';
     className = pget p ''className'';
     props = rest [''asChild'', ''className''] p;
     Comp = (if is_truthy asChild then ''Slot.Root'' else ''a'')
   in Elem Comp (props @ [(''data-slot'', PStr ''breadcrumb-link''), (''className'',
     Cn [PStr ''hover:text-foreground transition-colors'', className])]))"

definition BreadcrumbPage :: "props \<Rightarrow> pv" where
  "BreadcrumbPage p = (let className = pget p ''className'';
     props = rest [''className''] p
   in Elem ''span'' (props @ [(''data-slot'', PStr ''breadcrumb-page''),
     (''role'', PStr ''link''), (''aria-disabled'', PStr ''true''), (''aria-current'',
     PStr ''page''), (''className'', Cn [PStr ''text-foreground font-normal'', className])]))"

definition BreadcrumbSeparator :: "props \<Rightarrow> pv" where
  "BreadcrumbSeparator p = (let children = pget p ''children'';
     className = pget p ''className'';
     props = rest [''children'', ''className''] p
   in Elem ''li'' ([(''children'', nullish children (Elem ''ChevronRight'' []))]
     @ props @ [(''data-slot'', PStr ''breadcrumb-separator''), (''role'',
     PStr ''presentation''), (''aria-hidden'', PStr ''true''), (''className'',
     Cn [PStr ''[&>svg]:size-3.5'', className])]))"

definition BreadcrumbEllipsis :: "props \<Rightarrow> pv" where
  "BreadcrumbEllipsis p = (let className = pget p ''className'';
     props = rest [''className''] p
   in Elem ''span'' ([(''children'', PArr [Elem ''MoreHorizontal'' [(''className'',
     PStr ''size-4'')], Elem ''span'' ([(''children'', PStr ''More'')]
     @ [(''className'', PStr ''sr-only'')])])] @ props @ [(''data-slot'',
     PStr ''breadcrumb-ellipsis''), (''role'', PStr ''presentation''), (''aria-hidden'',
     PStr ''true''), (''className'', Cn [PStr ''flex size-9 items-center justify-center'', className])]))"

lemma breadcrumb_contract [kit_contracts]:
  "follows Breadcrumb ''breadcrumb'' []"
  "follows BreadcrumbList ''breadcrumb-list'' [''className'']"
  "follows BreadcrumbItem ''breadcrumb-item'' [''className'']"
  "follows BreadcrumbLink ''breadcrumb-link'' [''asChild'', ''className'']"
  "follows BreadcrumbPage ''breadcrumb-page'' [''className'']"
  "follows BreadcrumbSeparator ''breadcrumb-separator'' [''children'', ''className'']"
  "follows BreadcrumbEllipsis ''breadcrumb-ellipsis'' [''className'', ''children'']"
  by (simp_all add: kit_simps BreadcrumbEllipsis_def BreadcrumbItem_def BreadcrumbLink_def BreadcrumbList_def BreadcrumbPage_def BreadcrumbSeparator_def Breadcrumb_def cong: kit_cong)

section \<open>\<open>pagination.tsx\<close>\<close>

definition Pagination :: "props \<Rightarrow> pv" where
  "Pagination p = (let className = pget p ''className'';
     props = rest [''className''] p
   in Elem ''nav'' (props @ [(''role'', PStr ''navigation''), (''aria-label'',
     PStr ''pagination''), (''data-slot'', PStr ''pagination''), (''className'',
     Cn [PStr ''mx-auto flex w-full justify-center'', className])]))"

definition PaginationContent :: "props \<Rightarrow> pv" where
  "PaginationContent p = (let className = pget p ''className'';
     props = rest [''className''] p
   in Elem ''ul'' (props @ [(''data-slot'', PStr ''pagination-content''),
     (''className'', Cn [PStr ''flex flex-row items-center gap-1'', className])]))"

definition PaginationItem :: "props \<Rightarrow> pv" where
  "PaginationItem p = Elem ''li'' (p @ [(''data-slot'', PStr ''pagination-item'')])"

definition PaginationLink :: "props \<Rightarrow> pv" where
  "PaginationLink p = (let className = pget p ''className'';
     isActive = pget p ''isActive'';
     size' = pget_or p ''size'' (PStr ''icon'');
     props = rest [''className'', ''isActive'', ''size''] p
   in Elem ''a'' (props @ [(''aria-current'', if is_truthy isActive then PStr ''page'' else PUndef),
     (''data-slot'', PStr ''pagination-link''), (''data-active'', isActive),
     (''className'', Cn [buttonVariants [(''variant'', if is_truthy isActive then PStr ''outline'' else PStr ''ghost''),
     (''size'', size')], className])]))"

definition PaginationPrevious :: "props \<Rightarrow> pv" where
  "PaginationPrevious p = (let className = pget p ''className'';
     props = rest [''className''] p
   in PaginationLink ([(''children'', PArr [Elem ''ChevronLeftIcon'' [],
     Elem ''span'' ([(''children'', PStr ''Previous'')] @ [(''className'',
     PStr ''hidden sm:block'')])])] @ props @ [(''aria-label'', PStr ''Go to previous page''),
     (''size'', PStr ''default''), (''className'', Cn [PStr ''gap-1 px-2.5 sm:pl-2.5'', className])]))"

definition PaginationNext :: "props \<Rightarrow> pv" where
  "PaginationNext p = (let className = pget p ''className'';
     props = rest [''className''] p
   in PaginationLink ([(''children'', PArr [Elem ''span'' ([(''children'',
     PStr ''Next'')] @ [(''className'', PStr ''hidden sm:block'')]), Elem ''ChevronRightIcon'' []])]
     @ props @ [(''aria-label'', PStr ''Go to next page''), (''size'', PStr ''default''),
     (''className'', Cn [PStr ''gap-1 px-2.5 sm:pr-2.5'', className])]))"

definition PaginationEllipsis :: "props \<Rightarrow> pv" where
  "PaginationEllipsis p = (let className = pget p ''className'';
     props = rest [''className''] p
   in Elem ''span'' ([(''children'', PArr [Elem ''MoreHorizontalIcon'' [(''className'',
     PStr ''size-4'')], Elem ''span'' ([(''children'', PStr ''More pages'')]
     @ [(''className'', PStr ''sr-only'')])])] @ props @ [(''aria-hidden'', PBool True),
     (''data-slot'', PStr ''pagination-ellipsis''), (''className'', Cn [PStr ''flex size-9 items-center justify-center'', className])]))"

lemma pagination_contract [kit_contracts]:
  "follows Pagination ''pagination'' [''className'']"
  "follows PaginationContent ''pagination-content'' [''className'']"
  "follows PaginationItem ''pagination-item'' []"
  "follows PaginationLink ''pagination-link'' [''className'', ''isActive'', ''size'']"
  "follows PaginationPrevious ''pagination-link'' [''className'', ''children'', ''isActive'', ''size'']"
  "follows PaginationNext ''pagination-link'' [''className'', ''children'', ''isActive'', ''size'']"
  "follows PaginationEllipsis ''pagination-ellipsis'' [''className'', ''children'']"
  by (simp_all add: kit_simps PaginationContent_def PaginationEllipsis_def PaginationItem_def PaginationLink_def PaginationNext_def PaginationPrevious_def Pagination_def buttonVariants_def cong: kit_cong)

section \<open>\<open>attachment.tsx\<close>\<close>

definition attachmentVariants :: "props \<Rightarrow> pv" where
  "attachmentVariants args = Cva ''group/attachment relative flex w-fit max-w-full min-w-0 shrink-0 flex-wrap rounded-xl border bg-card text-card-foreground transition-colors focus-within:ring-1 focus-within:ring-ring/50 has-[>a,>button]:hover:bg-muted/50 data-[state=error]:border-destructive/30 data-[state=idle]:border-dashed''
     [(''size'', [(''default'', [''gap-2 text-sm has-data-[slot=attachment-content]:px-2.5 has-data-[slot=attachment-content]:py-2 has-data-[slot=attachment-media]:p-2'']),
        (''sm'', [''gap-2.5 text-xs has-data-[slot=attachment-content]:px-2 has-data-[slot=attachment-content]:py-1.5 has-data-[slot=attachment-media]:p-1.5'']),
        (''xs'', [''gap-1.5 rounded-lg text-xs has-data-[slot=attachment-content]:px-1.5 has-data-[slot=attachment-content]:py-1 has-data-[slot=attachment-media]:p-1''])]),
      (''orientation'', [(''horizontal'', [''min-w-40 items-center'']),
        (''vertical'', [''w-24 flex-col has-data-[slot=attachment-content]:w-30''])])]
     [] args"

definition Attachment :: "props \<Rightarrow> pv" where
  "Attachment p = (let className = pget p ''className'';
     state' = pget_or p ''state'' (PStr ''done'');
     size' = pget_or p ''size'' (PStr ''default'');
     orientation = pget_or p ''orientation'' (PStr ''horizontal'');
     props = rest [''className'', ''state'', ''size'', ''orientation''] p
   in Elem ''div'' (props @ [(''data-slot'', PStr ''attachment''), (''data-state'', state'),
     (''data-size'', size'), (''data-orientation'', orientation), (''className'',
     Cn [attachmentVariants [(''size'', size'), (''orientation'', orientation)], className])]))"

definition attachmentMediaVariants :: "props \<Rightarrow> pv" where
  "attachmentMediaVariants args = Cva ''relative flex aspect-square w-10 shrink-0 items-center justify-center overflow-hidden rounded-lg bg-muted text-foreground group-data-[orientation=vertical]/attachment:w-full group-data-[size=sm]/attachment:w-8 group-data-[size=xs]/attachment:w-7 group-data-[size=xs]/attachment:rounded-md group-data-[state=error]/attachment:bg-destructive/10 group-data-[state=error]/attachment:text-destructive group-data-[orientation=vertical]/attachment:*:data-[slot=spinner]:size-6! [&_svg]:pointer-events-none [&_svg:not([class*='size-'])]:size-4 group-data-[orientation=vertical]/attachment:[&_svg:not([class*='size-'])]:size-6 group-data-[size=xs]/attachment:[&_svg:not([class*='size-'])]:size-3.5''
     [(''variant'', [(''icon'', [[]]),
        (''image'', [''opacity-60 group-data-[state=done]/attachment:opacity-100 group-data-[state=idle]/attachment:opacity-100 *:[img]:aspect-square *:[img]:w-full *:[img]:object-cover''])])]
     [(''variant'', ''icon'')] args"

definition AttachmentMedia :: "props \<Rightarrow> pv" where
  "AttachmentMedia p = (let className = pget p ''className'';
     variant = pget_or p ''variant'' (PStr ''icon'');
     props = rest [''className'', ''variant''] p
   in Elem ''div'' (props @ [(''data-slot'', PStr ''attachment-media''),
     (''data-variant'', variant), (''className'', Cn [attachmentMediaVariants [(''variant'', variant)], className])]))"

definition AttachmentContent :: "props \<Rightarrow> pv" where
  "AttachmentContent p = (let className = pget p ''className'';
     props = rest [''className''] p
   in Elem ''div'' (props @ [(''data-slot'', PStr ''attachment-content''),
     (''className'', Cn [PStr ''max-w-full min-w-0 flex-1 leading-tight group-data-[orientation=vertical]/attachment:px-1'', className])]))"

definition AttachmentTitle :: "props \<Rightarrow> pv" where
  "AttachmentTitle p = (let className = pget p ''className'';
     props = rest [''className''] p
   in Elem ''span'' (props @ [(''data-slot'', PStr ''attachment-title''),
     (''className'', Cn [PStr ''group-data-[state=processing]/attachment:shimmer group-data-[state=uploading]/attachment:shimmer block max-w-full min-w-0 truncate font-medium'', className])]))"

definition AttachmentDescription :: "props \<Rightarrow> pv" where
  "AttachmentDescription p = (let className = pget p ''className'';
     props = rest [''className''] p
   in Elem ''span'' (props @ [(''data-slot'', PStr ''attachment-description''),
     (''className'', Cn [PStr ''text-muted-foreground group-data-[state=error]/attachment:text-destructive/80 mt-0.5 block min-w-0 truncate text-xs'',
     PStr ''max-w-full'', className])]))"

definition AttachmentActions :: "props \<Rightarrow> pv" where
  "AttachmentActions p = (let className = pget p ''className'';
     props = rest [''className''] p
   in Elem ''div'' (props @ [(''data-slot'', PStr ''attachment-actions''),
     (''className'', Cn [PStr ''relative z-20 flex shrink-0 items-center group-data-[orientation=vertical]/attachment:absolute group-data-[orientation=vertical]/attachment:top-3 group-data-[orientation=vertical]/attachment:right-3 group-data-[orientation=vertical]/attachment:gap-1'', className])]))"

definition AttachmentAction :: "props \<Rightarrow> pv" where
  "AttachmentAction p = (let className = pget p ''className'';
     variant = pget p ''variant'';
     size' = pget_or p ''size'' (PStr ''icon-xs'');
     props = rest [''className'', ''variant'', ''size''] p
   in Button_ui (props @ [(''data-slot'', PStr ''attachment-action''), (''variant'', nullish variant (PStr ''ghost'')),
     (''size'', size'), (''className'', Cn [className])]))"

definition AttachmentTrigger :: "props \<Rightarrow> pv" where
  "AttachmentTrigger p = (let className = pget p ''className'';
     asChild = pget_or p ''asChild'' (PBool False);
     type' = pget p ''type'';
     props = rest [''className'', ''asChild'', ''type''] p;
     Comp = (if is_truthy asChild then ''Slot.Root'' else ''button'')
   in Elem Comp (props @ [(''data-slot'', PStr ''attachment-trigger''),
     (''type'', if is_truthy asChild then PUndef else nullish type' (PStr ''button'')),
     (''className'', Cn [PStr ''absolute inset-0 z-10 outline-none'', className])]))"

definition AttachmentGroup :: "props \<Rightarrow> pv" where
  "AttachmentGroup p = (let className = pget p ''className'';
     props = rest [''className''] p
   in Elem ''div'' (props @ [(''data-slot'', PStr ''attachment-group''),
     (''className'', Cn [PStr ''scroll-fade-x flex min-w-0 snap-x snap-mandatory scroll-px-1 scrollbar-none gap-3 overflow-x-auto overscroll-x-contain py-1 *:data-[slot=attachment]:flex-none *:data-[slot=attachment]:snap-start'', className])]))"

lemma attachment_contract [kit_contracts]:
  "follows Attachment ''attachment'' [''className'', ''state'', ''size'', ''orientation'']"
  "follows AttachmentMedia ''attachment-media'' [''className'', ''variant'']"
  "follows AttachmentContent ''attachment-content'' [''className'']"
  "follows AttachmentTitle ''attachment-title'' [''className'']"
  "follows AttachmentDescription ''attachment-description'' [''className'']"
  "follows AttachmentActions ''attachment-actions'' [''className'']"
  "follows AttachmentAction ''attachment-action'' [''className'', ''variant'', ''size'', ''asChild'']"
  "follows AttachmentTrigger ''attachment-trigger'' [''className'', ''asChild'', ''type'']"
  "follows AttachmentGroup ''attachment-group'' [''className'']"
  by (simp_all add: kit_simps AttachmentAction_def AttachmentActions_def AttachmentContent_def AttachmentDescription_def AttachmentGroup_def AttachmentMedia_def AttachmentTitle_def AttachmentTrigger_def Attachment_def Button_ui_def attachmentMediaVariants_def attachmentVariants_def buttonVariants_def cong: kit_cong)

section \<open>\<open>bubble.tsx\<close>\<close>

definition BubbleGroup :: "props \<Rightarrow> pv" where
  "BubbleGroup p = (let className = pget p ''className'';
     props = rest [''className''] p
   in Elem ''div'' (props @ [(''data-slot'', PStr ''bubble-group''), (''className'',
     Cn [PStr ''flex min-w-0 flex-col gap-2'', className])]))"

definition bubbleVariants :: "props \<Rightarrow> pv" where
  "bubbleVariants args = Cva ''group/bubble relative flex w-fit max-w-[80%] min-w-0 flex-col gap-1 group-data-[align=end]/message:self-end data-[align=end]:self-end data-[variant=ghost]:max-w-full''
     [(''variant'', [(''default'', [''*:data-[slot=bubble-content]:bg-primary *:data-[slot=bubble-content]:text-primary-foreground [&>[data-slot=bubble-content]:is(button,a):hover]:bg-primary/80'']),
        (''secondary'', [''*:data-[slot=bubble-content]:bg-secondary *:data-[slot=bubble-content]:text-secondary-foreground [&>[data-slot=bubble-content]:is(button,a):hover]:bg-[color-mix(in_oklch,var(--secondary),var(--foreground)_5%)]'']),
        (''muted'', [''*:data-[slot=bubble-content]:bg-muted [&>[data-slot=bubble-content]:is(button,a):hover]:bg-[color-mix(in_oklch,var(--muted),var(--foreground)_5%)]'']),
        (''tinted'', [''*:data-[slot=bubble-content]:bg-[oklch(from_var(--primary)_0.93_calc(c*0.4)_h)] *:data-[slot=bubble-content]:text-foreground dark:*:data-[slot=bubble-content]:bg-[oklch(from_var(--primary)_0.3_calc(c*0.4)_h)] [&>[data-slot=bubble-content]:is(button,a):hover]:bg-[oklch(from_var(--primary)_0.88_calc(c*0.5)_h)] dark:[&>[data-slot=bubble-content]:is(button,a):hover]:bg-[oklch(from_var(--primary)_0.35_calc(c*0.5)_h)]'']),
        (''outline'', [''*:data-[slot=bubble-content]:border-border *:data-[slot=bubble-content]:bg-background [&>[data-slot=bubble-content]:is(button,a):hover]:bg-muted [&>[data-slot=bubble-content]:is(button,a):hover]:text-foreground dark:[&>[data-slot=bubble-content]:is(button,a):hover]:bg-input/30'']),
        (''ghost'', [''border-none *:data-[slot=bubble-content]:rounded-none *:data-[slot=bubble-content]:bg-transparent *:data-[slot=bubble-content]:p-0 [&>[data-slot=bubble-content]:is(button,a):hover]:bg-muted [&>[data-slot=bubble-content]:is(button,a):hover]:text-foreground dark:[&>[data-slot=bubble-content]:is(button,a):hover]:bg-muted/50'']),
        (''destructive'', [''*:data-[slot=bubble-content]:bg-destructive/10 *:data-[slot=bubble-content]:text-destructive dark:*:data-[slot=bubble-content]:bg-destructive/20 [&>[data-slot=bubble-content]:is(button,a):hover]:bg-destructive/20 dark:[&>[data-slot=bubble-content]:is(button,a):hover]:bg-destructive/30''])])]
     [(''variant'', ''default'')] args"

definition Bubble :: "props \<Rightarrow> pv" where
  "Bubble p = (let variant = pget_or p ''variant'' (PStr ''default'');
     align = pget_or p ''align'' (PStr ''start'');
     className = pget p ''className'';
     props = rest [''variant'', ''align'', ''className''] p
   in Elem ''div'' (props @ [(''data-slot'', PStr ''bubble''), (''data-variant'', variant),
     (''data-align'', align), (''className'', Cn [bubbleVariants [(''variant'', variant)], className])]))"

definition BubbleContent :: "props \<Rightarrow> pv" where
  "BubbleContent p = (let asChild = pget_or p ''asChild'' (PBool False);
     className = pget p ''className'';
     props = rest [''asChild'', ''className''] p;
     Comp = (if is_truthy asChild then ''Slot.Root'' else ''div'')
   in Elem Comp (props @ [(''data-slot'', PStr ''bubble-content''), (''className'',
     Cn [PStr ''[button,a]:focus-visible:border-ring [button,a]:focus-visible:ring-ring/50 w-fit max-w-full min-w-0 overflow-hidden rounded-xl border border-transparent px-3 py-2 text-sm leading-relaxed wrap-break-word group-data-[align=end]/bubble:self-end [button]:text-left [button,a]:transition-colors [button,a]:outline-none [button,a]:focus-visible:ring-3'', className])]))"

definition bubbleReactionsVariants :: "props \<Rightarrow> pv" where
  "bubbleReactionsVariants args = Cva ''absolute z-10 flex w-fit shrink-0 items-center justify-center gap-1 rounded-full bg-muted px-1.5 py-0.5 text-sm ring-3 ring-card has-[button]:p-0''
     [(''side'', [(''top'', [''top-0 -translate-y-3/4'']),
        (''bottom'', [''bottom-0 translate-y-3/4''])]),
      (''align'', [(''start'', [''left-3'']),
        (''end'', [''right-3''])])]
     [(''side'', ''bottom''), (''align'', ''end'')] args"

definition BubbleReactions :: "props \<Rightarrow> pv" where
  "BubbleReactions p = (let side = pget_or p ''side'' (PStr ''bottom'');
     align = pget_or p ''align'' (PStr ''end'');
     className = pget p ''className'';
     props = rest [''side'', ''align'', ''className''] p
   in Elem ''div'' (props @ [(''data-slot'', PStr ''bubble-reactions''),
     (''data-align'', align), (''data-side'', side), (''className'', Cn [bubbleReactionsVariants [(''side'', side),
     (''align'', align)], className])]))"

lemma bubble_contract [kit_contracts]:
  "follows BubbleGroup ''bubble-group'' [''className'']"
  "follows Bubble ''bubble'' [''variant'', ''align'', ''className'']"
  "follows BubbleContent ''bubble-content'' [''asChild'', ''className'']"
  "follows BubbleReactions ''bubble-reactions'' [''side'', ''align'', ''className'']"
  by (simp_all add: kit_simps BubbleContent_def BubbleGroup_def BubbleReactions_def Bubble_def bubbleReactionsVariants_def bubbleVariants_def cong: kit_cong)

section \<open>\<open>marker.tsx\<close>\<close>

definition markerVariants :: "props \<Rightarrow> pv" where
  "markerVariants args = Cva ''group/marker relative flex min-h-4 w-full items-center gap-2 text-left text-sm text-muted-foreground [&_svg:not([class*='size-'])]:size-4 [a]:underline [a]:underline-offset-3 [a]:hover:text-foreground''
     [(''variant'', [(''default'', [[]]),
        (''separator'', [''before:mr-1 before:h-px before:min-w-0 before:flex-1 before:bg-border after:ml-1 after:h-px after:min-w-0 after:flex-1 after:bg-border'']),
        (''border'', [''border-b border-border pb-2''])])]
     [] args"

definition Marker :: "props \<Rightarrow> pv" where
  "Marker p = (let className = pget p ''className'';
     variant = pget_or p ''variant'' (PStr ''default'');
     asChild = pget_or p ''asChild'' (PBool False);
     props = rest [''className'', ''variant'', ''asChild''] p;
     Comp = (if is_truthy asChild then ''Slot.Root'' else ''div'')
   in Elem Comp (props @ [(''data-slot'', PStr ''marker''), (''data-variant'', variant),
     (''className'', Cn [markerVariants [(''variant'', variant), (''className'', className)]])]))"

definition MarkerIcon :: "props \<Rightarrow> pv" where
  "MarkerIcon p = (let className = pget p ''className'';
     props = rest [''className''] p
   in Elem ''span'' (props @ [(''data-slot'', PStr ''marker-icon''), (''aria-hidden'',
     PStr ''true''), (''className'', Cn [PStr ''size-4 shrink-0 [&_svg:not([class*='size-'])]:size-4'', className])]))"

definition MarkerContent :: "props \<Rightarrow> pv" where
  "MarkerContent p = (let className = pget p ''className'';
     props = rest [''className''] p
   in Elem ''span'' (props @ [(''data-slot'', PStr ''marker-content''),
     (''className'', Cn [PStr ''*:[a]:hover:text-foreground min-w-0 wrap-break-word group-data-[variant=separator]/marker:flex-none group-data-[variant=separator]/marker:text-center *:[a]:underline *:[a]:underline-offset-3'', className])]))"

lemma marker_contract [kit_contracts]:
  "follows Marker ''marker'' [''className'', ''variant'', ''asChild'']"
  "follows MarkerIcon ''marker-icon'' [''className'']"
  "follows MarkerContent ''marker-content'' [''className'']"
  by (simp_all add: kit_simps MarkerContent_def MarkerIcon_def Marker_def markerVariants_def cong: kit_cong)

section \<open>\<open>message.tsx\<close>\<close>

definition MessageGroup :: "props \<Rightarrow> pv" where
  "MessageGroup p = (let className = pget p ''className'';
     props = rest [''className''] p
   in Elem ''div'' (props @ [(''data-slot'', PStr ''message-group''), (''className'',
     Cn [PStr ''flex min-w-0 flex-col gap-2'', className])]))"

definition Message_ui :: "props \<Rightarrow> pv" where
  "Message_ui p = (let className = pget p ''className'';
     align = pget_or p ''align'' (PStr ''start'');
     props = rest [''className'', ''align''] p
   in Elem ''div'' (props @ [(''data-slot'', PStr ''message''), (''data-align'', align),
     (''className'', Cn [PStr ''group/message relative flex w-full min-w-0 gap-2 text-sm data-[align=end]:flex-row-reverse'', className])]))"

definition MessageAvatar :: "props \<Rightarrow> pv" where
  "MessageAvatar p = (let className = pget p ''className'';
     props = rest [''className''] p
   in Elem ''div'' (props @ [(''data-slot'', PStr ''message-avatar''), (''className'',
     Cn [PStr ''bg-muted flex w-fit min-w-8 shrink-0 items-center justify-center self-end overflow-hidden rounded-full group-has-data-[slot=message-footer]/message:-translate-y-8'', className])]))"

definition MessageContent :: "props \<Rightarrow> pv" where
  "MessageContent p = (let className = pget p ''className'';
     props = rest [''className''] p
   in Elem ''div'' (props @ [(''data-slot'', PStr ''message-content''),
     (''className'', Cn [PStr ''flex w-full min-w-0 flex-col gap-2.5 wrap-break-word group-data-[align=end]/message:*:data-slot:self-end'', className])]))"

definition MessageHeader :: "props \<Rightarrow> pv" where
  "MessageHeader p = (let className = pget p ''className'';
     props = rest [''className''] p
   in Elem ''div'' (props @ [(''data-slot'', PStr ''message-header''), (''className'',
     Cn [PStr ''text-muted-foreground flex max-w-full min-w-0 items-center px-3 text-xs font-medium group-has-data-[variant=ghost]/message:px-0'', className])]))"

definition MessageFooter :: "props \<Rightarrow> pv" where
  "MessageFooter p = (let className = pget p ''className'';
     props = rest [''className''] p
   in Elem ''div'' (props @ [(''data-slot'', PStr ''message-footer''), (''className'',
     Cn [PStr ''text-muted-foreground flex max-w-full min-w-0 items-center px-3 text-xs font-medium group-has-data-[variant=ghost]/message:px-0 group-data-[align=end]/message:justify-end'', className])]))"

lemma message_contract [kit_contracts]:
  "follows MessageGroup ''message-group'' [''className'']"
  "follows Message_ui ''message'' [''className'', ''align'']"
  "follows MessageAvatar ''message-avatar'' [''className'']"
  "follows MessageContent ''message-content'' [''className'']"
  "follows MessageHeader ''message-header'' [''className'']"
  "follows MessageFooter ''message-footer'' [''className'']"
  by (simp_all add: kit_simps MessageAvatar_def MessageContent_def MessageFooter_def MessageGroup_def MessageHeader_def Message_ui_def cong: kit_cong)

section \<open>\<open>native-select.tsx\<close>\<close>

definition NativeSelect :: "props \<Rightarrow> pv" where
  "NativeSelect p = (let className = pget p ''className'';
     size' = pget_or p ''size'' (PStr ''default'');
     props = rest [''className'', ''size''] p
   in Elem ''div'' ([(''children'', PArr [Elem ''select'' (props @ [(''data-slot'',
     PStr ''native-select''), (''data-size'', size'), (''className'', Cn [PStr ''border-input selection:bg-primary selection:text-primary-foreground placeholder:text-muted-foreground dark:bg-input/30 dark:hover:bg-input/50 h-9 w-full min-w-0 appearance-none rounded-md border bg-transparent px-3 py-2 pr-9 text-sm shadow-xs transition-[color,box-shadow] outline-none disabled:pointer-events-none disabled:cursor-not-allowed data-[size=sm]:h-8 data-[size=sm]:py-1'',
     PStr ''focus-visible:border-ring focus-visible:ring-ring/50 focus-visible:ring-[3px]'',
     PStr ''aria-invalid:border-destructive aria-invalid:ring-destructive/20 dark:aria-invalid:ring-destructive/40'', className])]),
     Elem ''ChevronDownIcon'' [(''className'', PStr ''text-muted-foreground pointer-events-none absolute top-1/2 right-3.5 size-4 -translate-y-1/2 opacity-50 select-none''),
     (''aria-hidden'', PStr ''true''), (''data-slot'', PStr ''native-select-icon'')]])]
     @ [(''className'', PStr ''group/native-select relative w-fit has-[select:disabled]:opacity-50''),
     (''data-slot'', PStr ''native-select-wrapper'')]))"

definition NativeSelectOption :: "props \<Rightarrow> pv" where
  "NativeSelectOption p = (let className = pget p ''className'';
     props = rest [''className''] p
   in Elem ''option'' (props @ [(''data-slot'', PStr ''native-select-option''),
     (''className'', Cn [PStr ''bg-[Canvas] text-[CanvasText]'', className])]))"

definition NativeSelectOptGroup :: "props \<Rightarrow> pv" where
  "NativeSelectOptGroup p = (let className = pget p ''className'';
     props = rest [''className''] p
   in Elem ''optgroup'' (props @ [(''data-slot'', PStr ''native-select-optgroup''),
     (''className'', Cn [PStr ''bg-[Canvas] text-[CanvasText]'', className])]))"

lemma native_select_contract [kit_contracts]:
  "follows NativeSelect ''native-select'' [''className'', ''size'']"
  "follows NativeSelectOption ''native-select-option'' [''className'']"
  "follows NativeSelectOptGroup ''native-select-optgroup'' [''className'']"
  by (simp_all add: kit_simps NativeSelectOptGroup_def NativeSelectOption_def NativeSelect_def cong: kit_cong)

section \<open>\<open>field.tsx\<close>\<close>

definition FieldSet :: "props \<Rightarrow> pv" where
  "FieldSet p = (let className = pget p ''className'';
     props = rest [''className''] p
   in Elem ''fieldset'' (props @ [(''data-slot'', PStr ''field-set''), (''className'',
     Cn [PStr ''flex flex-col gap-6'', PStr ''has-[>[data-slot=checkbox-group]]:gap-3 has-[>[data-slot=radio-group]]:gap-3'', className])]))"

definition FieldLegend :: "props \<Rightarrow> pv" where
  "FieldLegend p = (let className = pget p ''className'';
     variant = pget_or p ''variant'' (PStr ''legend'');
     props = rest [''className'', ''variant''] p
   in Elem ''legend'' (props @ [(''data-slot'', PStr ''field-legend''),
     (''data-variant'', variant), (''className'', Cn [PStr ''mb-3 font-medium'',
     PStr ''data-[variant=legend]:text-base'', PStr ''data-[variant=label]:text-sm'', className])]))"

definition FieldGroup :: "props \<Rightarrow> pv" where
  "FieldGroup p = (let className = pget p ''className'';
     props = rest [''className''] p
   in Elem ''div'' (props @ [(''data-slot'', PStr ''field-group''), (''className'',
     Cn [PStr ''group/field-group @container/field-group flex w-full flex-col gap-7 data-[slot=checkbox-group]:gap-3 [&>[data-slot=field-group]]:gap-4'', className])]))"

definition fieldVariants :: "props \<Rightarrow> pv" where
  "fieldVariants args = Cva ''group/field flex w-full gap-3 data-[invalid=true]:text-destructive''
     [(''orientation'', [(''vertical'', [''flex-col [&>*]:w-full [&>.sr-only]:w-auto'']),
        (''horizontal'', [''flex-row items-center'', ''[&>[data-slot=field-label]]:flex-auto'', ''has-[>[data-slot=field-content]]:items-start has-[>[data-slot=field-content]]:[&>[role=checkbox],[role=radio]]:mt-px'']),
        (''responsive'', [''flex-col @md/field-group:flex-row @md/field-group:items-center [&>*]:w-full @md/field-group:[&>*]:w-auto [&>.sr-only]:w-auto'', ''@md/field-group:[&>[data-slot=field-label]]:flex-auto'', ''@md/field-group:has-[>[data-slot=field-content]]:items-start @md/field-group:has-[>[data-slot=field-content]]:[&>[role=checkbox],[role=radio]]:mt-px''])])]
     [(''orientation'', ''vertical'')] args"

definition Field_ui :: "props \<Rightarrow> pv" where
  "Field_ui p = (let className = pget p ''className'';
     orientation = pget_or p ''orientation'' (PStr ''vertical'');
     props = rest [''className'', ''orientation''] p
   in Elem ''div'' (props @ [(''role'', PStr ''group''), (''data-slot'',
     PStr ''field''), (''data-orientation'', orientation), (''className'',
     Cn [fieldVariants [(''orientation'', orientation)], className])]))"

definition FieldContent :: "props \<Rightarrow> pv" where
  "FieldContent p = (let className = pget p ''className'';
     props = rest [''className''] p
   in Elem ''div'' (props @ [(''data-slot'', PStr ''field-content''), (''className'',
     Cn [PStr ''group/field-content flex flex-1 flex-col gap-1.5 leading-snug'', className])]))"

definition FieldLabel :: "props \<Rightarrow> pv" where
  "FieldLabel p = (let className = pget p ''className'';
     props = rest [''className''] p
   in Label (props @ [(''data-slot'', PStr ''field-label''), (''className'',
     Cn [PStr ''group/field-label peer/field-label flex w-fit gap-2 leading-snug group-data-[disabled=true]/field:opacity-50'',
     PStr ''has-[>[data-slot=field]]:w-full has-[>[data-slot=field]]:flex-col has-[>[data-slot=field]]:rounded-md has-[>[data-slot=field]]:border [&>*]:data-[slot=field]:p-4'',
     PStr ''has-data-[state=checked]:border-primary has-data-[state=checked]:bg-primary/5 dark:has-data-[state=checked]:bg-primary/10'', className])]))"

definition FieldTitle :: "props \<Rightarrow> pv" where
  "FieldTitle p = (let className = pget p ''className'';
     props = rest [''className''] p
   in Elem ''div'' (props @ [(''data-slot'', PStr ''field-label''), (''className'',
     Cn [PStr ''flex w-fit items-center gap-2 text-sm leading-snug font-medium group-data-[disabled=true]/field:opacity-50'', className])]))"

definition FieldDescription :: "props \<Rightarrow> pv" where
  "FieldDescription p = (let className = pget p ''className'';
     props = rest [''className''] p
   in Elem ''p'' (props @ [(''data-slot'', PStr ''field-description''),
     (''className'', Cn [PStr ''text-muted-foreground text-sm leading-normal font-normal group-has-[[data-orientation=horizontal]]/field:text-balance'',
     PStr ''last:mt-0 nth-last-2:-mt-1 [[data-variant=legend]+&]:-mt-1.5'',
     PStr ''[&>a:hover]:text-primary [&>a]:underline [&>a]:underline-offset-4'', className])]))"

definition FieldSeparator :: "props \<Rightarrow> pv" where
  "FieldSeparator p = (let children = pget p ''children'';
     className = pget p ''className'';
     props = rest [''children'', ''className''] p
   in Elem ''div'' ([(''children'', PArr [Separator [(''className'', PStr ''absolute inset-0 top-1/2'')],
     if is_truthy children then Elem ''span'' ([(''children'', children)]
     @ [(''className'', PStr ''bg-background text-muted-foreground relative mx-auto block w-fit px-2''),
     (''data-slot'', PStr ''field-separator-content'')]) else children])]
     @ props @ [(''data-slot'', PStr ''field-separator''), (''data-content'', PBool (\<not> \<not> is_truthy children)),
     (''className'', Cn [PStr ''relative -my-2 h-5 text-sm group-data-[variant=outline]/field-group:-mb-2'', className])]))"

lemma field_contract [kit_contracts]:
  "follows FieldSet ''field-set'' [''className'']"
  "follows FieldLegend ''field-legend'' [''className'', ''variant'']"
  "follows FieldGroup ''field-group'' [''className'']"
  "follows Field_ui ''field'' [''className'', ''orientation'']"
  "follows FieldContent ''field-content'' [''className'']"
  "follows FieldLabel ''field-label'' [''className'']"
  "follows FieldTitle ''field-label'' [''className'']"
  "follows FieldDescription ''field-description'' [''className'']"
  "follows FieldSeparator ''field-separator'' [''children'', ''className'']"
  by (simp_all add: kit_simps FieldContent_def FieldDescription_def FieldGroup_def FieldLabel_def FieldLegend_def FieldSeparator_def FieldSet_def FieldTitle_def Field_ui_def Label_def Separator_def fieldVariants_def cong: kit_cong)

section \<open>\<open>button-group.tsx\<close>\<close>

definition buttonGroupVariants :: "props \<Rightarrow> pv" where
  "buttonGroupVariants args = Cva ''flex w-fit items-stretch has-[>[data-slot=button-group]]:gap-2 [&>*]:focus-visible:relative [&>*]:focus-visible:z-10 has-[select[aria-hidden=true]:last-child]:[&>[data-slot=select-trigger]:last-of-type]:rounded-r-md [&>[data-slot=select-trigger]:not([class*='w-'])]:w-fit [&>input]:flex-1''
     [(''orientation'', [(''horizontal'', [''[&>*:not(:first-child)]:rounded-l-none [&>*:not(:first-child)]:border-l-0 [&>*:not(:last-child)]:rounded-r-none'']),
        (''vertical'', [''flex-col [&>*:not(:first-child)]:rounded-t-none [&>*:not(:first-child)]:border-t-0 [&>*:not(:last-child)]:rounded-b-none''])])]
     [(''orientation'', ''horizontal'')] args"

definition ButtonGroup :: "props \<Rightarrow> pv" where
  "ButtonGroup p = (let className = pget p ''className'';
     orientation = pget p ''orientation'';
     props = rest [''className'', ''orientation''] p
   in Elem ''div'' (props @ [(''role'', PStr ''group''), (''data-slot'',
     PStr ''button-group''), (''data-orientation'', orientation), (''className'',
     Cn [buttonGroupVariants [(''orientation'', orientation)], className])]))"

definition ButtonGroupText :: "props \<Rightarrow> pv" where
  "ButtonGroupText p = (let className = pget p ''className'';
     asChild = pget_or p ''asChild'' (PBool False);
     props = rest [''className'', ''asChild''] p;
     Comp = (if is_truthy asChild then ''Slot.Root'' else ''div'')
   in Elem Comp (props @ [(''className'', Cn [PStr ''bg-muted flex items-center gap-2 rounded-md border px-4 text-sm font-medium shadow-xs [&_svg]:pointer-events-none [&_svg:not([class*='size-'])]:size-4'', className])]))"

definition ButtonGroupSeparator :: "props \<Rightarrow> pv" where
  "ButtonGroupSeparator p = (let className = pget p ''className'';
     orientation = pget_or p ''orientation'' (PStr ''vertical'');
     props = rest [''className'', ''orientation''] p
   in Separator (props @ [(''data-slot'', PStr ''button-group-separator''),
     (''orientation'', orientation), (''className'', Cn [PStr ''bg-input relative m-0! self-stretch data-[orientation=vertical]:h-auto'', className])]))"

lemma button_group_contract [kit_contracts]:
  "follows ButtonGroup ''button-group'' [''className'', ''orientation'']"
  "follows ButtonGroupSeparator ''button-group-separator'' [''className'', ''orientation'', ''decorative'']"
  by (simp_all add: kit_simps ButtonGroupSeparator_def ButtonGroup_def Separator_def buttonGroupVariants_def cong: kit_cong)

section \<open>\<open>input-group.tsx\<close>\<close>

definition InputGroup :: "props \<Rightarrow> pv" where
  "InputGroup p = (let className = pget p ''className'';
     props = rest [''className''] p
   in Elem ''div'' (props @ [(''data-slot'', PStr ''input-group''), (''role'',
     PStr ''group''), (''className'', Cn [PStr ''group/input-group border-input dark:bg-input/30 relative flex w-full items-center rounded-md border shadow-xs transition-[color,box-shadow] outline-none'',
     PStr ''h-9 min-w-0 has-[>textarea]:h-auto'', PStr ''has-[>[data-align=inline-start]]:[&>input]:pl-2'',
     PStr ''has-[>[data-align=inline-end]]:[&>input]:pr-2'', PStr ''has-[>[data-align=block-start]]:h-auto has-[>[data-align=block-start]]:flex-col has-[>[data-align=block-start]]:[&>input]:pb-3'',
     PStr ''has-[>[data-align=block-end]]:h-auto has-[>[data-align=block-end]]:flex-col has-[>[data-align=block-end]]:[&>input]:pt-3'',
     PStr ''has-[[data-slot=input-group-control]:focus-visible]:border-ring has-[[data-slot=input-group-control]:focus-visible]:ring-ring/50 has-[[data-slot=input-group-control]:focus-visible]:ring-[3px]'',
     PStr ''has-[[data-slot][aria-invalid=true]]:border-destructive has-[[data-slot][aria-invalid=true]]:ring-destructive/20 dark:has-[[data-slot][aria-invalid=true]]:ring-destructive/40'', className])]))"

definition inputGroupAddonVariants :: "props \<Rightarrow> pv" where
  "inputGroupAddonVariants args = Cva ''flex h-auto cursor-text items-center justify-center gap-2 py-1.5 text-sm font-medium text-muted-foreground select-none group-data-[disabled=true]/input-group:opacity-50 [&>kbd]:rounded-[calc(var(--radius)-5px)] [&>svg:not([class*='size-'])]:size-4''
     [(''align'', [(''inline-start'', [''order-first pl-3 has-[>button]:ml-[-0.45rem] has-[>kbd]:ml-[-0.35rem]'']),
        (''inline-end'', [''order-last pr-3 has-[>button]:mr-[-0.45rem] has-[>kbd]:mr-[-0.35rem]'']),
        (''block-start'', [''order-first w-full justify-start px-3 pt-3 group-has-[>input]/input-group:pt-2.5 [.border-b]:pb-3'']),
        (''block-end'', [''order-last w-full justify-start px-3 pb-3 group-has-[>input]/input-group:pb-2.5 [.border-t]:pt-3''])])]
     [(''align'', ''inline-start'')] args"

text \<open>A click on the addon focuses the group's input, unless it landed in a button.\<close>

definition addon_click :: "bool \<Rightarrow> 'el option \<Rightarrow> 'el option" where
  "addon_click in_button input = (if in_button then None else input)"

definition InputGroupAddon :: "props \<Rightarrow> pv" where
  "InputGroupAddon p = (let className = pget p ''className'';
     align = pget_or p ''align'' (PStr ''inline-start'');
     props = rest [''className'', ''align''] p
   in Elem ''div'' (props @ [(''role'', PStr ''group''), (''data-slot'', PStr ''input-group-addon''),
        (''data-align'', align), (''className'', Cn [inputGroupAddonVariants [(''align'', align)], className]),
        (''onClick'', POwn ''addon_click'' [])]))"

definition inputGroupButtonVariants :: "props \<Rightarrow> pv" where
  "inputGroupButtonVariants args = Cva ''flex items-center gap-2 text-sm shadow-none''
     [(''size'', [(''xs'', [''h-6 gap-1 rounded-[calc(var(--radius)-5px)] px-2 has-[>svg]:px-2 [&>svg:not([class*='size-'])]:size-3.5'']),
        (''sm'', [''h-8 gap-1.5 rounded-md px-2.5 has-[>svg]:px-2.5'']),
        (''icon-xs'', [''size-6 rounded-[calc(var(--radius)-5px)] p-0 has-[>svg]:p-0'']),
        (''icon-sm'', [''size-8 p-0 has-[>svg]:p-0''])])]
     [(''size'', ''xs'')] args"

definition InputGroupButton :: "props \<Rightarrow> pv" where
  "InputGroupButton p = (let className = pget p ''className'';
     type' = pget_or p ''type'' (PStr ''button'');
     variant = pget_or p ''variant'' (PStr ''ghost'');
     size' = pget_or p ''size'' (PStr ''xs'');
     props = rest [''className'', ''type'', ''variant'', ''size''] p
   in Button_ui (props @ [(''type'', type'), (''data-size'', size'), (''variant'', variant),
     (''className'', Cn [inputGroupButtonVariants [(''size'', size')], className])]))"

definition InputGroupText :: "props \<Rightarrow> pv" where
  "InputGroupText p = (let className = pget p ''className'';
     props = rest [''className''] p
   in Elem ''span'' (props @ [(''className'', Cn [PStr ''text-muted-foreground flex items-center gap-2 text-sm [&_svg]:pointer-events-none [&_svg:not([class*='size-'])]:size-4'', className])]))"

definition InputGroupInput :: "props \<Rightarrow> pv" where
  "InputGroupInput p = (let className = pget p ''className'';
     props = rest [''className''] p
   in Input (props @ [(''data-slot'', PStr ''input-group-control''), (''className'',
     Cn [PStr ''flex-1 rounded-none border-0 bg-transparent shadow-none focus-visible:ring-0 dark:bg-transparent'', className])]))"

definition InputGroupTextarea :: "props \<Rightarrow> pv" where
  "InputGroupTextarea p = (let className = pget p ''className'';
     props = rest [''className''] p
   in Textarea (props @ [(''data-slot'', PStr ''input-group-control''),
     (''className'', Cn [PStr ''flex-1 resize-none rounded-none border-0 bg-transparent py-3 shadow-none focus-visible:ring-0 dark:bg-transparent'', className])]))"

lemma input_group_contract [kit_contracts]:
  "follows InputGroup ''input-group'' [''className'']"
  "follows InputGroupButton ''button'' [''className'', ''type'', ''variant'', ''size'', ''asChild'']"
  "follows InputGroupInput ''input-group-control'' [''className'', ''type'']"
  "follows InputGroupTextarea ''input-group-control'' [''className'']"
  by (simp_all add: kit_simps Button_ui_def InputGroupButton_def InputGroupInput_def InputGroupTextarea_def InputGroup_def Input_def Textarea_def buttonVariants_def inputGroupButtonVariants_def cong: kit_cong)

section \<open>The components and their contract\<close>

definition basics :: "((props \<Rightarrow> pv) \<times> string \<times> string list) list" where
  "basics =
    [(Button_ui, ''button'', [''className'', ''variant'', ''size'', ''asChild'']),
     (Badge_ui, ''badge'', [''className'', ''variant'', ''asChild'']),
     (Label, ''label'', [''className'']),
     (Input, ''input'', [''className'', ''type'']),
     (Textarea, ''textarea'', [''className'']),
     (Separator, ''separator'', [''className'', ''orientation'', ''decorative'']),
     (Skeleton, ''skeleton'', [''className'']),
     (Kbd, ''kbd'', [''className'']),
     (KbdGroup, ''kbd-group'', [''className'']),
     (AspectRatio, ''aspect-ratio'', []),
     (Alert_ui, ''alert'', [''className'', ''variant'']),
     (AlertTitle, ''alert-title'', [''className'']),
     (AlertDescription, ''alert-description'', [''className'']),
     (Card, ''card'', [''className'']),
     (CardHeader, ''card-header'', [''className'']),
     (CardTitle, ''card-title'', [''className'']),
     (CardDescription, ''card-description'', [''className'']),
     (CardAction, ''card-action'', [''className'']),
     (CardContent, ''card-content'', [''className'']),
     (CardFooter, ''card-footer'', [''className'']),
     (Table, ''table'', [''className'']),
     (TableHeader, ''table-header'', [''className'']),
     (TableBody, ''table-body'', [''className'']),
     (TableFooter, ''table-footer'', [''className'']),
     (TableRow, ''table-row'', [''className'']),
     (TableHead, ''table-head'', [''className'']),
     (TableCell, ''table-cell'', [''className'']),
     (TableCaption, ''table-caption'', [''className'']),
     (Avatar, ''avatar'', [''className'', ''size'']),
     (AvatarImage, ''avatar-image'', [''className'']),
     (AvatarFallback, ''avatar-fallback'', [''className'']),
     (AvatarBadge, ''avatar-badge'', [''className'']),
     (AvatarGroup, ''avatar-group'', [''className'']),
     (AvatarGroupCount, ''avatar-group-count'', [''className'']),
     (Empty_ui, ''empty'', [''className'']),
     (EmptyHeader, ''empty-header'', [''className'']),
     (EmptyMedia, ''empty-icon'', [''className'', ''variant'']),
     (EmptyTitle, ''empty-title'', [''className'']),
     (EmptyDescription, ''empty-description'', [''className'']),
     (EmptyContent, ''empty-content'', [''className'']),
     (ItemGroup, ''item-group'', [''className'']),
     (ItemSeparator, ''item-separator'', [''className'', ''orientation'', ''decorative'']),
     (Item, ''item'', [''className'', ''variant'', ''size'', ''asChild'']),
     (ItemMedia, ''item-media'', [''className'', ''variant'']),
     (ItemContent, ''item-content'', [''className'']),
     (ItemTitle, ''item-title'', [''className'']),
     (ItemDescription, ''item-description'', [''className'']),
     (ItemActions, ''item-actions'', [''className'']),
     (ItemHeader, ''item-header'', [''className'']),
     (ItemFooter, ''item-footer'', [''className'']),
     (Breadcrumb, ''breadcrumb'', []),
     (BreadcrumbList, ''breadcrumb-list'', [''className'']),
     (BreadcrumbItem, ''breadcrumb-item'', [''className'']),
     (BreadcrumbLink, ''breadcrumb-link'', [''asChild'', ''className'']),
     (BreadcrumbPage, ''breadcrumb-page'', [''className'']),
     (BreadcrumbSeparator, ''breadcrumb-separator'', [''children'', ''className'']),
     (BreadcrumbEllipsis, ''breadcrumb-ellipsis'', [''className'', ''children'']),
     (Pagination, ''pagination'', [''className'']),
     (PaginationContent, ''pagination-content'', [''className'']),
     (PaginationItem, ''pagination-item'', []),
     (PaginationLink, ''pagination-link'', [''className'', ''isActive'', ''size'']),
     (PaginationPrevious, ''pagination-link'', [''className'', ''children'', ''isActive'', ''size'']),
     (PaginationNext, ''pagination-link'', [''className'', ''children'', ''isActive'', ''size'']),
     (PaginationEllipsis, ''pagination-ellipsis'', [''className'', ''children'']),
     (Attachment, ''attachment'', [''className'', ''state'', ''size'', ''orientation'']),
     (AttachmentMedia, ''attachment-media'', [''className'', ''variant'']),
     (AttachmentContent, ''attachment-content'', [''className'']),
     (AttachmentTitle, ''attachment-title'', [''className'']),
     (AttachmentDescription, ''attachment-description'', [''className'']),
     (AttachmentActions, ''attachment-actions'', [''className'']),
     (AttachmentAction, ''attachment-action'', [''className'', ''variant'', ''size'', ''asChild'']),
     (AttachmentTrigger, ''attachment-trigger'', [''className'', ''asChild'', ''type'']),
     (AttachmentGroup, ''attachment-group'', [''className'']),
     (BubbleGroup, ''bubble-group'', [''className'']),
     (Bubble, ''bubble'', [''variant'', ''align'', ''className'']),
     (BubbleContent, ''bubble-content'', [''asChild'', ''className'']),
     (BubbleReactions, ''bubble-reactions'', [''side'', ''align'', ''className'']),
     (Marker, ''marker'', [''className'', ''variant'', ''asChild'']),
     (MarkerIcon, ''marker-icon'', [''className'']),
     (MarkerContent, ''marker-content'', [''className'']),
     (MessageGroup, ''message-group'', [''className'']),
     (Message_ui, ''message'', [''className'', ''align'']),
     (MessageAvatar, ''message-avatar'', [''className'']),
     (MessageContent, ''message-content'', [''className'']),
     (MessageHeader, ''message-header'', [''className'']),
     (MessageFooter, ''message-footer'', [''className'']),
     (NativeSelect, ''native-select'', [''className'', ''size'']),
     (NativeSelectOption, ''native-select-option'', [''className'']),
     (NativeSelectOptGroup, ''native-select-optgroup'', [''className'']),
     (FieldSet, ''field-set'', [''className'']),
     (FieldLegend, ''field-legend'', [''className'', ''variant'']),
     (FieldGroup, ''field-group'', [''className'']),
     (Field_ui, ''field'', [''className'', ''orientation'']),
     (FieldContent, ''field-content'', [''className'']),
     (FieldLabel, ''field-label'', [''className'']),
     (FieldTitle, ''field-label'', [''className'']),
     (FieldDescription, ''field-description'', [''className'']),
     (FieldSeparator, ''field-separator'', [''children'', ''className'']),
     (ButtonGroup, ''button-group'', [''className'', ''orientation'']),
     (ButtonGroupSeparator, ''button-group-separator'', [''className'', ''orientation'', ''decorative'']),
     (InputGroup, ''input-group'', [''className'']),
     (InputGroupButton, ''button'', [''className'', ''type'', ''variant'', ''size'', ''asChild'']),
     (InputGroupInput, ''input-group-control'', [''className'', ''type'']),
     (InputGroupTextarea, ''input-group-control'', [''className''])]"

lemma basics_follow: "list_all (\<lambda>(component, slot, own). follows component slot own) basics"
  by (simp add: basics_def kit_contracts)

end
