(* ===== verification/KitControls.thy ===== *)
theory KitControls
  imports KitBasics
begin

text \<open>
  The controls of the kit: switches, toggles, tabs, selects, comboboxes, sliders and code inputs
  (\<open>web/src/components/ui\<close>), each component as a function from its properties to what it
  renders.
\<close>

section \<open>\<open>checkbox.tsx\<close>\<close>

definition Checkbox :: "props \<Rightarrow> pv" where
  "Checkbox p = (let className = pget p ''className'';
     props = rest [''className''] p
   in Elem ''CheckboxPrimitive.Root'' ([(''children'', Elem ''CheckboxPrimitive.Indicator'' ([(''children'',
     Elem ''CheckIcon'' [(''className'', PStr ''size-3.5'')])] @ [(''data-slot'',
     PStr ''checkbox-indicator''), (''className'', PStr ''grid place-content-center text-current transition-none'')]))]
     @ props @ [(''data-slot'', PStr ''checkbox''), (''className'', Cn [PStr ''peer border-input focus-visible:border-ring focus-visible:ring-ring/50 aria-invalid:border-destructive aria-invalid:ring-destructive/20 data-[state=checked]:border-primary data-[state=checked]:bg-primary data-[state=checked]:text-primary-foreground dark:bg-input/30 dark:aria-invalid:ring-destructive/40 dark:data-[state=checked]:bg-primary size-4 shrink-0 rounded-[4px] border shadow-xs transition-shadow outline-none focus-visible:ring-[3px] disabled:cursor-not-allowed disabled:opacity-50'', className])]))"

lemma checkbox_contract [kit_contracts]:
  "follows Checkbox ''checkbox'' [''className'', ''children'']"
  by (simp_all add: kit_simps Checkbox_def cong: kit_cong)

section \<open>\<open>switch.tsx\<close>\<close>

definition Switch :: "props \<Rightarrow> pv" where
  "Switch p = (let className = pget p ''className'';
     size' = pget_or p ''size'' (PStr ''default'');
     props = rest [''className'', ''size''] p
   in Elem ''SwitchPrimitive.Root'' ([(''children'', Elem ''SwitchPrimitive.Thumb'' [(''data-slot'',
     PStr ''switch-thumb''), (''className'', Cn [PStr ''bg-background dark:data-[state=checked]:bg-primary-foreground dark:data-[state=unchecked]:bg-foreground pointer-events-none block rounded-full ring-0 transition-transform group-data-[size=default]/switch:size-4 group-data-[size=sm]/switch:size-3 data-[state=checked]:translate-x-[calc(100%-2px)] data-[state=unchecked]:translate-x-0''])])]
     @ props @ [(''data-slot'', PStr ''switch''), (''data-size'', size'),
     (''className'', Cn [PStr ''peer group/switch focus-visible:border-ring focus-visible:ring-ring/50 data-[state=checked]:bg-primary data-[state=unchecked]:bg-input dark:data-[state=unchecked]:bg-input/80 inline-flex shrink-0 items-center rounded-full border border-transparent shadow-xs transition-all outline-none focus-visible:ring-[3px] disabled:cursor-not-allowed disabled:opacity-50 data-[size=default]:h-[1.15rem] data-[size=default]:w-8 data-[size=sm]:h-3.5 data-[size=sm]:w-6'', className])]))"

lemma switch_contract [kit_contracts]:
  "follows Switch ''switch'' [''className'', ''size'', ''children'']"
  by (simp_all add: kit_simps Switch_def cong: kit_cong)

section \<open>\<open>radio-group.tsx\<close>\<close>

definition RadioGroup :: "props \<Rightarrow> pv" where
  "RadioGroup p = (let className = pget p ''className'';
     props = rest [''className''] p
   in Elem ''RadioGroupPrimitive.Root'' (props @ [(''data-slot'', PStr ''radio-group''),
     (''className'', Cn [PStr ''grid gap-3'', className])]))"

definition RadioGroupItem :: "props \<Rightarrow> pv" where
  "RadioGroupItem p = (let className = pget p ''className'';
     props = rest [''className''] p
   in Elem ''RadioGroupPrimitive.Item'' ([(''children'', Elem ''RadioGroupPrimitive.Indicator'' ([(''children'',
     Elem ''CircleIcon'' [(''className'', PStr ''fill-primary absolute top-1/2 left-1/2 size-2 -translate-x-1/2 -translate-y-1/2'')])]
     @ [(''data-slot'', PStr ''radio-group-indicator''), (''className'',
     PStr ''relative flex items-center justify-center'')]))] @ props @ [(''data-slot'',
     PStr ''radio-group-item''), (''className'', Cn [PStr ''border-input text-primary focus-visible:border-ring focus-visible:ring-ring/50 aria-invalid:border-destructive aria-invalid:ring-destructive/20 dark:bg-input/30 dark:aria-invalid:ring-destructive/40 aspect-square size-4 shrink-0 rounded-full border shadow-xs transition-[color,box-shadow] outline-none focus-visible:ring-[3px] disabled:cursor-not-allowed disabled:opacity-50'', className])]))"

lemma radio_group_contract [kit_contracts]:
  "follows RadioGroup ''radio-group'' [''className'']"
  "follows RadioGroupItem ''radio-group-item'' [''className'', ''children'']"
  by (simp_all add: kit_simps RadioGroupItem_def RadioGroup_def cong: kit_cong)

section \<open>\<open>toggle.tsx\<close>\<close>

definition toggleVariants :: "props \<Rightarrow> pv" where
  "toggleVariants args = Cva ''inline-flex items-center justify-center gap-2 rounded-md text-sm font-medium whitespace-nowrap transition-[color,box-shadow] outline-none hover:bg-muted hover:text-muted-foreground focus-visible:border-ring focus-visible:ring-[3px] focus-visible:ring-ring/50 disabled:pointer-events-none disabled:opacity-50 aria-invalid:border-destructive aria-invalid:ring-destructive/20 data-[state=on]:bg-accent data-[state=on]:text-accent-foreground dark:aria-invalid:ring-destructive/40 [&_svg]:pointer-events-none [&_svg]:shrink-0 [&_svg:not([class*='size-'])]:size-4''
     [(''variant'', [(''default'', [''bg-transparent'']),
        (''outline'', [''border border-input bg-transparent shadow-xs hover:bg-accent hover:text-accent-foreground''])]),
      (''size'', [(''default'', [''h-9 min-w-9 px-2'']),
        (''sm'', [''h-8 min-w-8 px-1.5'']),
        (''lg'', [''h-10 min-w-10 px-2.5''])])]
     [(''variant'', ''default''), (''size'', ''default'')] args"

definition Toggle_ui :: "props \<Rightarrow> pv" where
  "Toggle_ui p = (let className = pget p ''className'';
     variant = pget p ''variant'';
     size' = pget p ''size'';
     props = rest [''className'', ''variant'', ''size''] p
   in Elem ''TogglePrimitive.Root'' (props @ [(''data-slot'', PStr ''toggle''),
     (''className'', Cn [toggleVariants [(''variant'', variant), (''size'', size'),
     (''className'', className)]])]))"

lemma toggle_contract [kit_contracts]:
  "follows Toggle_ui ''toggle'' [''className'', ''variant'', ''size'']"
  by (simp_all add: kit_simps Toggle_ui_def toggleVariants_def cong: kit_cong)

section \<open>\<open>toggle-group.tsx\<close>\<close>

definition ToggleGroup :: "props \<Rightarrow> pv" where
  "ToggleGroup p = (let className = pget p ''className'';
     variant = pget p ''variant'';
     size' = pget p ''size'';
     spacing = pget_or p ''spacing'' (PNum 0);
     children = pget p ''children'';
     props = rest [''className'', ''variant'', ''size'', ''spacing'', ''children''] p
   in Elem ''ToggleGroupPrimitive.Root'' ([(''children'', Elem ''ToggleGroupContext.Provider'' ([(''children'', children)]
     @ [(''value'', PObj [(''variant'', variant), (''size'', size'), (''spacing'', spacing)])]))]
     @ props @ [(''data-slot'', PStr ''toggle-group''), (''data-variant'', variant),
     (''data-size'', size'), (''data-spacing'', spacing), (''style'', PObj [(''--gap'', spacing)]),
     (''className'', Cn [PStr ''group/toggle-group flex w-fit items-center gap-[--spacing(var(--gap))] rounded-md data-[spacing=default]:data-[variant=outline]:shadow-xs'', className])]))"

definition ToggleGroupItem :: "pv \<Rightarrow> props \<Rightarrow> pv" where
  "ToggleGroupItem context p = (let className = pget p ''className'';
     children = pget p ''children'';
     variant = pget p ''variant'';
     size' = pget p ''size'';
     props = rest [''className'', ''children'', ''variant'', ''size''] p
   in Elem ''ToggleGroupPrimitive.Item'' ([(''children'', children)] @ props
     @ [(''data-slot'', PStr ''toggle-group-item''), (''data-variant'',
     if is_truthy (field_of context ''variant'') then field_of context ''variant'' else variant),
     (''data-size'', if is_truthy (field_of context ''size'') then field_of context ''size'' else size'),
     (''data-spacing'', field_of context ''spacing''), (''className'', Cn [toggleVariants [(''variant'',
     if is_truthy (field_of context ''variant'') then field_of context ''variant'' else variant),
     (''size'', if is_truthy (field_of context ''size'') then field_of context ''size'' else size')],
     PStr ''w-auto min-w-0 shrink-0 px-3 focus:z-10 focus-visible:z-10'',
     PStr ''data-[spacing=0]:rounded-none data-[spacing=0]:shadow-none data-[spacing=0]:first:rounded-l-md data-[spacing=0]:last:rounded-r-md data-[spacing=0]:data-[variant=outline]:border-l-0 data-[spacing=0]:data-[variant=outline]:first:border-l'', className])]))"

lemma toggle_group_contract [kit_contracts]:
  "follows ToggleGroup ''toggle-group'' [''className'', ''variant'', ''size'', ''spacing'', ''children'']"
  by (simp_all add: kit_simps ToggleGroup_def cong: kit_cong)

section \<open>\<open>tabs.tsx\<close>\<close>

definition Tabs :: "props \<Rightarrow> pv" where
  "Tabs p = (let className = pget p ''className'';
     orientation = pget_or p ''orientation'' (PStr ''horizontal'');
     props = rest [''className'', ''orientation''] p
   in Elem ''TabsPrimitive.Root'' (props @ [(''data-slot'', PStr ''tabs''),
     (''data-orientation'', orientation), (''orientation'', orientation),
     (''className'', Cn [PStr ''group/tabs flex gap-2 data-[orientation=horizontal]:flex-col'', className])]))"

definition tabsListVariants :: "props \<Rightarrow> pv" where
  "tabsListVariants args = Cva ''group/tabs-list inline-flex w-fit items-center justify-center rounded-lg p-[3px] text-muted-foreground group-data-[orientation=horizontal]/tabs:h-9 group-data-[orientation=vertical]/tabs:h-fit group-data-[orientation=vertical]/tabs:flex-col data-[variant=line]:rounded-none''
     [(''variant'', [(''default'', [''bg-muted'']),
        (''line'', [''gap-1 bg-transparent''])])]
     [(''variant'', ''default'')] args"

definition TabsList :: "props \<Rightarrow> pv" where
  "TabsList p = (let className = pget p ''className'';
     variant = pget_or p ''variant'' (PStr ''default'');
     props = rest [''className'', ''variant''] p
   in Elem ''TabsPrimitive.List'' (props @ [(''data-slot'', PStr ''tabs-list''),
     (''data-variant'', variant), (''className'', Cn [tabsListVariants [(''variant'', variant)], className])]))"

definition TabsTrigger :: "props \<Rightarrow> pv" where
  "TabsTrigger p = (let className = pget p ''className'';
     props = rest [''className''] p
   in Elem ''TabsPrimitive.Trigger'' (props @ [(''data-slot'', PStr ''tabs-trigger''),
     (''className'', Cn [PStr ''text-foreground/60 hover:text-foreground focus-visible:border-ring focus-visible:ring-ring/50 focus-visible:outline-ring dark:text-muted-foreground dark:hover:text-foreground relative inline-flex h-[calc(100%-1px)] flex-1 items-center justify-center gap-1.5 rounded-md border border-transparent px-2 py-1 text-sm font-medium whitespace-nowrap transition-all group-data-[orientation=vertical]/tabs:w-full group-data-[orientation=vertical]/tabs:justify-start focus-visible:ring-[3px] focus-visible:outline-1 disabled:pointer-events-none disabled:opacity-50 group-data-[variant=default]/tabs-list:data-[state=active]:shadow-sm group-data-[variant=line]/tabs-list:data-[state=active]:shadow-none [&_svg]:pointer-events-none [&_svg]:shrink-0 [&_svg:not([class*='size-'])]:size-4'',
     PStr ''group-data-[variant=line]/tabs-list:bg-transparent group-data-[variant=line]/tabs-list:data-[state=active]:bg-transparent dark:group-data-[variant=line]/tabs-list:data-[state=active]:border-transparent dark:group-data-[variant=line]/tabs-list:data-[state=active]:bg-transparent'',
     PStr ''data-[state=active]:bg-background data-[state=active]:text-foreground dark:data-[state=active]:border-input dark:data-[state=active]:bg-input/30 dark:data-[state=active]:text-foreground'',
     PStr ''after:bg-foreground after:absolute after:opacity-0 after:transition-opacity group-data-[orientation=horizontal]/tabs:after:inset-x-0 group-data-[orientation=horizontal]/tabs:after:bottom-[-5px] group-data-[orientation=horizontal]/tabs:after:h-0.5 group-data-[orientation=vertical]/tabs:after:inset-y-0 group-data-[orientation=vertical]/tabs:after:-right-1 group-data-[orientation=vertical]/tabs:after:w-0.5 group-data-[variant=line]/tabs-list:data-[state=active]:after:opacity-100'', className])]))"

definition TabsContent :: "props \<Rightarrow> pv" where
  "TabsContent p = (let className = pget p ''className'';
     props = rest [''className''] p
   in Elem ''TabsPrimitive.Content'' (props @ [(''data-slot'', PStr ''tabs-content''),
     (''className'', Cn [PStr ''flex-1 outline-none'', className])]))"

lemma tabs_contract [kit_contracts]:
  "follows Tabs ''tabs'' [''className'', ''orientation'']"
  "follows TabsList ''tabs-list'' [''className'', ''variant'']"
  "follows TabsTrigger ''tabs-trigger'' [''className'']"
  "follows TabsContent ''tabs-content'' [''className'']"
  by (simp_all add: kit_simps TabsContent_def TabsList_def TabsTrigger_def Tabs_def tabsListVariants_def cong: kit_cong)

section \<open>\<open>accordion.tsx\<close>\<close>

definition Accordion :: "props \<Rightarrow> pv" where
  "Accordion p = Elem ''AccordionPrimitive.Root'' (p @ [(''data-slot'',
    PStr ''accordion'')])"

definition AccordionItem :: "props \<Rightarrow> pv" where
  "AccordionItem p = (let className = pget p ''className'';
     props = rest [''className''] p
   in Elem ''AccordionPrimitive.Item'' (props @ [(''data-slot'', PStr ''accordion-item''),
     (''className'', Cn [PStr ''border-b last:border-b-0'', className])]))"

definition AccordionTrigger :: "props \<Rightarrow> pv" where
  "AccordionTrigger p = (let className = pget p ''className'';
     children = pget p ''children'';
     props = rest [''className'', ''children''] p
   in Elem ''AccordionPrimitive.Header'' ([(''children'', Elem ''AccordionPrimitive.Trigger'' ([(''children'',
     PArr [children, Elem ''ChevronDownIcon'' [(''className'', PStr ''text-muted-foreground pointer-events-none size-4 shrink-0 translate-y-0.5 transition-transform duration-200'')]])]
     @ props @ [(''data-slot'', PStr ''accordion-trigger''), (''className'',
     Cn [PStr ''focus-visible:border-ring focus-visible:ring-ring/50 flex flex-1 items-start justify-between gap-4 rounded-md py-4 text-left text-sm font-medium transition-all outline-none hover:underline focus-visible:ring-[3px] disabled:pointer-events-none disabled:opacity-50 [&[data-state=open]>svg]:rotate-180'', className])]))]
     @ [(''className'', PStr ''flex'')]))"

definition AccordionContent :: "props \<Rightarrow> pv" where
  "AccordionContent p = (let className = pget p ''className'';
     children = pget p ''children'';
     props = rest [''className'', ''children''] p
   in Elem ''AccordionPrimitive.Content'' ([(''children'', Elem ''div'' ([(''children'', children)]
     @ [(''className'', Cn [PStr ''pt-0 pb-4'', className])]))] @ props
     @ [(''data-slot'', PStr ''accordion-content''), (''className'', PStr ''data-[state=closed]:animate-accordion-up data-[state=open]:animate-accordion-down overflow-hidden text-sm'')]))"

lemma accordion_contract [kit_contracts]:
  "follows Accordion ''accordion'' []"
  "follows AccordionItem ''accordion-item'' [''className'']"
  "follows AccordionTrigger ''accordion-trigger'' [''className'', ''children'']"
  "follows AccordionContent ''accordion-content'' [''className'', ''children'']"
  by (simp_all add: kit_simps AccordionContent_def AccordionItem_def AccordionTrigger_def Accordion_def cong: kit_cong)

section \<open>\<open>collapsible.tsx\<close>\<close>

definition Collapsible :: "props \<Rightarrow> pv" where
  "Collapsible p = Elem ''CollapsiblePrimitive.Root'' (p @ [(''data-slot'',
    PStr ''collapsible'')])"

definition CollapsibleTrigger :: "props \<Rightarrow> pv" where
  "CollapsibleTrigger p = Elem ''CollapsiblePrimitive.CollapsibleTrigger'' (p
    @ [(''data-slot'', PStr ''collapsible-trigger'')])"

definition CollapsibleContent :: "props \<Rightarrow> pv" where
  "CollapsibleContent p = Elem ''CollapsiblePrimitive.CollapsibleContent'' (p
    @ [(''data-slot'', PStr ''collapsible-content'')])"

lemma collapsible_contract [kit_contracts]:
  "follows Collapsible ''collapsible'' []"
  "follows CollapsibleTrigger ''collapsible-trigger'' []"
  "follows CollapsibleContent ''collapsible-content'' []"
  by (simp_all add: kit_simps CollapsibleContent_def CollapsibleTrigger_def Collapsible_def cong: kit_cong)

section \<open>\<open>slider.tsx\<close>\<close>

definition slider_values :: "pv \<Rightarrow> pv \<Rightarrow> pv \<Rightarrow> pv \<Rightarrow> pv list" where
  "slider_values value' defaultValue min' max' = (case value' of PArr vs \<Rightarrow> vs
     | _ \<Rightarrow> (case defaultValue of PArr vs \<Rightarrow> vs | _ \<Rightarrow> [min', max']))"

definition slider_thumb :: "nat \<Rightarrow> pv" where
  "slider_thumb i = Elem ''SliderPrimitive.Thumb''
     [(''data-slot'', PStr ''slider-thumb''), (''key'', PNum (of_nat i)),
      (''className'', PStr ''border-primary ring-ring/50 block size-4 shrink-0 rounded-full border bg-white shadow-sm transition-[color,box-shadow] hover:ring-4 focus-visible:ring-4 focus-visible:outline-hidden disabled:pointer-events-none disabled:opacity-50'')]"

definition Slider :: "props \<Rightarrow> pv" where
  "Slider p = (let className = pget p ''className'';
     defaultValue = pget p ''defaultValue'';
     value' = pget p ''value'';
     min' = pget_or p ''min'' (PNum 0);
     max' = pget_or p ''max'' (PNum 100);
     props = rest [''className'', ''defaultValue'', ''value'', ''min'', ''max''] p;
     values = slider_values value' defaultValue min' max'
   in Elem ''SliderPrimitive.Root'' ([(''children'', PArr
        [Elem ''SliderPrimitive.Track'' ([(''children'', Elem ''SliderPrimitive.Range''
            [(''data-slot'', PStr ''slider-range''), (''className'', Cn [PStr ''bg-primary absolute data-[orientation=horizontal]:h-full data-[orientation=vertical]:w-full''])])] @
           [(''data-slot'', PStr ''slider-track''), (''className'', Cn [PStr ''bg-muted relative grow overflow-hidden rounded-full data-[orientation=horizontal]:h-1.5 data-[orientation=horizontal]:w-full data-[orientation=vertical]:h-full data-[orientation=vertical]:w-1.5''])]),
         PArr (map slider_thumb [0..<length values])])] @
      props @ [(''data-slot'', PStr ''slider''), (''defaultValue'', defaultValue), (''value'', value'),
        (''min'', min'), (''max'', max'), (''className'', Cn [PStr ''relative flex w-full touch-none items-center select-none data-[disabled]:opacity-50 data-[orientation=vertical]:h-full data-[orientation=vertical]:min-h-44 data-[orientation=vertical]:w-auto data-[orientation=vertical]:flex-col'', className])]))"

section \<open>\<open>select.tsx\<close>\<close>

definition Select_ui :: "props \<Rightarrow> pv" where
  "Select_ui p = Elem ''SelectPrimitive.Root'' (p @ [(''data-slot'', PStr ''select'')])"

definition SelectGroup :: "props \<Rightarrow> pv" where
  "SelectGroup p = Elem ''SelectPrimitive.Group'' (p @ [(''data-slot'',
    PStr ''select-group'')])"

definition SelectValue :: "props \<Rightarrow> pv" where
  "SelectValue p = Elem ''SelectPrimitive.Value'' (p @ [(''data-slot'',
    PStr ''select-value'')])"

definition SelectTrigger :: "props \<Rightarrow> pv" where
  "SelectTrigger p = (let className = pget p ''className'';
     size' = pget_or p ''size'' (PStr ''default'');
     children = pget p ''children'';
     props = rest [''className'', ''size'', ''children''] p
   in Elem ''SelectPrimitive.Trigger'' ([(''children'', PArr [children,
     Elem ''SelectPrimitive.Icon'' ([(''children'', Elem ''ChevronDownIcon'' [(''className'',
     PStr ''size-4 opacity-50'')])] @ [(''asChild'', PBool True)])])] @ props
     @ [(''data-slot'', PStr ''select-trigger''), (''data-size'', size'),
     (''className'', Cn [PStr ''border-input focus-visible:border-ring focus-visible:ring-ring/50 aria-invalid:border-destructive aria-invalid:ring-destructive/20 data-[placeholder]:text-muted-foreground dark:bg-input/30 dark:hover:bg-input/50 dark:aria-invalid:ring-destructive/40 [&_svg:not([class*='text-'])]:text-muted-foreground flex w-fit items-center justify-between gap-2 rounded-md border bg-transparent px-3 py-2 text-sm whitespace-nowrap shadow-xs transition-[color,box-shadow] outline-none focus-visible:ring-[3px] disabled:cursor-not-allowed disabled:opacity-50 data-[size=default]:h-9 data-[size=sm]:h-8 *:data-[slot=select-value]:line-clamp-1 *:data-[slot=select-value]:flex *:data-[slot=select-value]:items-center *:data-[slot=select-value]:gap-2 [&_svg]:pointer-events-none [&_svg]:shrink-0 [&_svg:not([class*='size-'])]:size-4'', className])]))"

definition SelectLabel :: "props \<Rightarrow> pv" where
  "SelectLabel p = (let className = pget p ''className'';
     props = rest [''className''] p
   in Elem ''SelectPrimitive.Label'' (props @ [(''data-slot'', PStr ''select-label''),
     (''className'', Cn [PStr ''text-muted-foreground px-2 py-1.5 text-xs'', className])]))"

definition SelectItem :: "props \<Rightarrow> pv" where
  "SelectItem p = (let className = pget p ''className'';
     children = pget p ''children'';
     props = rest [''className'', ''children''] p
   in Elem ''SelectPrimitive.Item'' ([(''children'', PArr [Elem ''span'' ([(''children'',
     Elem ''SelectPrimitive.ItemIndicator'' [(''children'', Elem ''CheckIcon'' [(''className'',
     PStr ''size-4'')])])] @ [(''data-slot'', PStr ''select-item-indicator''),
     (''className'', PStr ''absolute right-2 flex size-3.5 items-center justify-center'')]),
     Elem ''SelectPrimitive.ItemText'' [(''children'', children)]])] @ props
     @ [(''data-slot'', PStr ''select-item''), (''className'', Cn [PStr ''focus:bg-accent focus:text-accent-foreground [&_svg:not([class*='text-'])]:text-muted-foreground relative flex w-full cursor-default items-center gap-2 rounded-sm py-1.5 pr-8 pl-2 text-sm outline-hidden select-none data-[disabled]:pointer-events-none data-[disabled]:opacity-50 [&_svg]:pointer-events-none [&_svg]:shrink-0 [&_svg:not([class*='size-'])]:size-4 *:[span]:last:flex *:[span]:last:items-center *:[span]:last:gap-2'', className])]))"

definition SelectSeparator :: "props \<Rightarrow> pv" where
  "SelectSeparator p = (let className = pget p ''className'';
     props = rest [''className''] p
   in Elem ''SelectPrimitive.Separator'' (props @ [(''data-slot'', PStr ''select-separator''),
     (''className'', Cn [PStr ''bg-border pointer-events-none -mx-1 my-1 h-px'', className])]))"

definition SelectScrollUpButton :: "props \<Rightarrow> pv" where
  "SelectScrollUpButton p = (let className = pget p ''className'';
     props = rest [''className''] p
   in Elem ''SelectPrimitive.ScrollUpButton'' ([(''children'', Elem ''ChevronUpIcon'' [(''className'',
     PStr ''size-4'')])] @ props @ [(''data-slot'', PStr ''select-scroll-up-button''),
     (''className'', Cn [PStr ''flex cursor-default items-center justify-center py-1'', className])]))"

definition SelectScrollDownButton :: "props \<Rightarrow> pv" where
  "SelectScrollDownButton p = (let className = pget p ''className'';
     props = rest [''className''] p
   in Elem ''SelectPrimitive.ScrollDownButton'' ([(''children'', Elem ''ChevronDownIcon'' [(''className'',
     PStr ''size-4'')])] @ props @ [(''data-slot'', PStr ''select-scroll-down-button''),
     (''className'', Cn [PStr ''flex cursor-default items-center justify-center py-1'', className])]))"

definition SelectContent :: "props \<Rightarrow> pv" where
  "SelectContent p = (let className = pget p ''className'';
     children = pget p ''children'';
     position' = pget_or p ''position'' (PStr ''item-aligned'');
     align = pget_or p ''align'' (PStr ''center'');
     props = rest [''className'', ''children'', ''position'', ''align''] p
   in Elem ''SelectPrimitive.Portal'' ([(''children'', Elem ''SelectPrimitive.Content'' ([(''children'',
     PArr [SelectScrollUpButton [], Elem ''SelectPrimitive.Viewport'' ([(''children'', children)]
     @ [(''className'', Cn [PStr ''p-1'', if position' = PStr ''popper'' then PStr ''h-[var(--radix-select-trigger-height)] w-full min-w-[var(--radix-select-trigger-width)] scroll-my-1'' else PBool False])]),
     SelectScrollDownButton []])] @ props @ [(''data-slot'', PStr ''select-content''),
     (''className'', Cn [PStr ''bg-popover text-popover-foreground data-[side=bottom]:slide-in-from-top-2 data-[side=left]:slide-in-from-right-2 data-[side=right]:slide-in-from-left-2 data-[side=top]:slide-in-from-bottom-2 data-[state=closed]:animate-out data-[state=closed]:fade-out-0 data-[state=closed]:zoom-out-95 data-[state=open]:animate-in data-[state=open]:fade-in-0 data-[state=open]:zoom-in-95 relative z-50 max-h-(--radix-select-content-available-height) min-w-[8rem] origin-(--radix-select-content-transform-origin) overflow-x-hidden overflow-y-auto rounded-md border shadow-md'',
     if position' = PStr ''popper'' then PStr ''data-[side=bottom]:translate-y-1 data-[side=left]:-translate-x-1 data-[side=right]:translate-x-1 data-[side=top]:-translate-y-1'' else PBool False, className]),
     (''position'', position'), (''align'', align)]))]))"

lemma select_contract [kit_contracts]:
  "follows Select_ui ''select'' []"
  "follows SelectGroup ''select-group'' []"
  "follows SelectValue ''select-value'' []"
  "follows SelectTrigger ''select-trigger'' [''className'', ''size'', ''children'']"
  "follows SelectContent ''select-content'' [''className'', ''children'', ''position'', ''align'']"
  "follows SelectLabel ''select-label'' [''className'']"
  "follows SelectItem ''select-item'' [''className'', ''children'']"
  "follows SelectSeparator ''select-separator'' [''className'']"
  "follows SelectScrollUpButton ''select-scroll-up-button'' [''className'', ''children'']"
  "follows SelectScrollDownButton ''select-scroll-down-button'' [''className'', ''children'']"
  by (simp_all add: kit_simps SelectContent_def SelectGroup_def SelectItem_def SelectLabel_def SelectScrollDownButton_def SelectScrollUpButton_def SelectSeparator_def SelectTrigger_def SelectValue_def Select_ui_def cong: kit_cong)

section \<open>\<open>combobox.tsx\<close>\<close>

definition Combobox :: "props \<Rightarrow> pv" where
  "Combobox p = Elem ''ComboboxPrimitive.Root'' p"

definition ComboboxValue :: "props \<Rightarrow> pv" where
  "ComboboxValue p = Elem ''ComboboxPrimitive.Value'' (p @ [(''data-slot'',
    PStr ''combobox-value'')])"

definition ComboboxTrigger :: "props \<Rightarrow> pv" where
  "ComboboxTrigger p = (let className = pget p ''className'';
     children = pget p ''children'';
     props = rest [''className'', ''children''] p
   in Elem ''ComboboxPrimitive.Trigger'' ([(''children'', PArr [children,
     Elem ''ChevronDownIcon'' [(''data-slot'', PStr ''combobox-trigger-icon''),
     (''className'', PStr ''text-muted-foreground pointer-events-none size-4'')]])]
     @ props @ [(''data-slot'', PStr ''combobox-trigger''), (''className'',
     Cn [PStr ''[&_svg:not([class*='size-'])]:size-4'', className])]))"

definition ComboboxClear :: "props \<Rightarrow> pv" where
  "ComboboxClear p = (let className = pget p ''className'';
     props = rest [''className''] p
   in Elem ''ComboboxPrimitive.Clear'' ([(''children'', Elem ''XIcon'' [(''className'',
     PStr ''pointer-events-none'')])] @ props @ [(''data-slot'', PStr ''combobox-clear''),
     (''render'', InputGroupButton [(''variant'', PStr ''ghost''), (''size'',
     PStr ''icon-xs'')]), (''className'', Cn [className])]))"

definition ComboboxInput :: "props \<Rightarrow> pv" where
  "ComboboxInput p = (let className = pget p ''className'';
     children = pget p ''children'';
     disabled = pget_or p ''disabled'' (PBool False);
     showTrigger = pget_or p ''showTrigger'' (PBool True);
     showClear = pget_or p ''showClear'' (PBool False);
     props = rest [''className'', ''children'', ''disabled'', ''showTrigger'', ''showClear''] p
   in InputGroup ([(''children'', PArr [Elem ''ComboboxPrimitive.Input'' (props
     @ [(''render'', InputGroupInput [(''disabled'', disabled)])]), InputGroupAddon ([(''children'',
     PArr [if is_truthy showTrigger then InputGroupButton ([(''children'',
     ComboboxTrigger [])] @ [(''size'', PStr ''icon-xs''), (''variant'',
     PStr ''ghost''), (''asChild'', PBool True), (''data-slot'', PStr ''input-group-button''),
     (''className'', PStr ''group-has-data-[slot=combobox-clear]/input-group:hidden data-pressed:bg-transparent''),
     (''disabled'', disabled)]) else showTrigger, if is_truthy showClear then ComboboxClear [(''disabled'', disabled)] else showClear])]
     @ [(''align'', PStr ''inline-end'')]), children])] @ [(''className'',
     Cn [PStr ''w-auto'', className])]))"

definition ComboboxContent :: "props \<Rightarrow> pv" where
  "ComboboxContent p = (let className = pget p ''className'';
     side = pget_or p ''side'' (PStr ''bottom'');
     sideOffset = pget_or p ''sideOffset'' (PNum 6);
     align = pget_or p ''align'' (PStr ''start'');
     alignOffset = pget_or p ''alignOffset'' (PNum 0);
     anchor = pget p ''anchor'';
     props = rest [''className'', ''side'', ''sideOffset'', ''align'', ''alignOffset'', ''anchor''] p
   in Elem ''ComboboxPrimitive.Portal'' ([(''children'', Elem ''ComboboxPrimitive.Positioner'' ([(''children'',
     Elem ''ComboboxPrimitive.Popup'' (props @ [(''data-slot'', PStr ''combobox-content''),
     (''data-chips'', PBool (\<not> \<not> is_truthy anchor)), (''className'',
     Cn [PStr ''group/combobox-content bg-popover text-popover-foreground ring-foreground/10 data-[side=bottom]:slide-in-from-top-2 data-[side=left]:slide-in-from-right-2 data-[side=right]:slide-in-from-left-2 data-[side=top]:slide-in-from-bottom-2 *:data-[slot=input-group]:border-input/30 *:data-[slot=input-group]:bg-input/30 data-open:animate-in data-open:fade-in-0 data-open:zoom-in-95 data-closed:animate-out data-closed:fade-out-0 data-closed:zoom-out-95 relative max-h-96 w-(--anchor-width) max-w-(--available-width) min-w-[calc(var(--anchor-width)+--spacing(7))] origin-(--transform-origin) overflow-hidden rounded-md shadow-md ring-1 duration-100 data-[chips=true]:min-w-(--anchor-width) *:data-[slot=input-group]:m-1 *:data-[slot=input-group]:mb-0 *:data-[slot=input-group]:h-8 *:data-[slot=input-group]:shadow-none'', className])]))]
     @ [(''side'', side), (''sideOffset'', sideOffset), (''align'', align),
     (''alignOffset'', alignOffset), (''anchor'', anchor), (''className'',
     PStr ''isolate z-50'')]))]))"

definition ComboboxList :: "props \<Rightarrow> pv" where
  "ComboboxList p = (let className = pget p ''className'';
     props = rest [''className''] p
   in Elem ''ComboboxPrimitive.List'' (props @ [(''data-slot'', PStr ''combobox-list''),
     (''className'', Cn [PStr ''max-h-[min(calc(--spacing(96)---spacing(9)),calc(var(--available-height)---spacing(9)))] scroll-py-1 overflow-y-auto p-1 data-empty:p-0'', className])]))"

definition ComboboxItem :: "props \<Rightarrow> pv" where
  "ComboboxItem p = (let className = pget p ''className'';
     children = pget p ''children'';
     props = rest [''className'', ''children''] p
   in Elem ''ComboboxPrimitive.Item'' ([(''children'', PArr [children, Elem ''ComboboxPrimitive.ItemIndicator'' ([(''children'',
     Elem ''CheckIcon'' [(''className'', PStr ''pointer-events-none size-4 pointer-coarse:size-5'')])]
     @ [(''data-slot'', PStr ''combobox-item-indicator''), (''render'',
     Elem ''span'' [(''className'', PStr ''pointer-events-none absolute right-2 flex size-4 items-center justify-center'')])])])]
     @ props @ [(''data-slot'', PStr ''combobox-item''), (''className'',
     Cn [PStr ''data-highlighted:bg-accent data-highlighted:text-accent-foreground relative flex w-full cursor-default items-center gap-2 rounded-sm py-1.5 pr-8 pl-2 text-sm outline-hidden select-none data-[disabled]:pointer-events-none data-[disabled]:opacity-50 [&_svg]:pointer-events-none [&_svg]:shrink-0 [&_svg:not([class*='size-'])]:size-4'', className])]))"

definition ComboboxGroup :: "props \<Rightarrow> pv" where
  "ComboboxGroup p = (let className = pget p ''className'';
     props = rest [''className''] p
   in Elem ''ComboboxPrimitive.Group'' (props @ [(''data-slot'', PStr ''combobox-group''),
     (''className'', Cn [className])]))"

definition ComboboxLabel :: "props \<Rightarrow> pv" where
  "ComboboxLabel p = (let className = pget p ''className'';
     props = rest [''className''] p
   in Elem ''ComboboxPrimitive.GroupLabel'' (props @ [(''data-slot'', PStr ''combobox-label''),
     (''className'', Cn [PStr ''text-muted-foreground px-2 py-1.5 text-xs pointer-coarse:px-3 pointer-coarse:py-2 pointer-coarse:text-sm'', className])]))"

definition ComboboxCollection :: "props \<Rightarrow> pv" where
  "ComboboxCollection p = Elem ''ComboboxPrimitive.Collection'' (p @ [(''data-slot'',
    PStr ''combobox-collection'')])"

definition ComboboxEmpty :: "props \<Rightarrow> pv" where
  "ComboboxEmpty p = (let className = pget p ''className'';
     props = rest [''className''] p
   in Elem ''ComboboxPrimitive.Empty'' (props @ [(''data-slot'', PStr ''combobox-empty''),
     (''className'', Cn [PStr ''text-muted-foreground hidden w-full justify-center py-2 text-center text-sm group-data-empty/combobox-content:flex'', className])]))"

definition ComboboxSeparator :: "props \<Rightarrow> pv" where
  "ComboboxSeparator p = (let className = pget p ''className'';
     props = rest [''className''] p
   in Elem ''ComboboxPrimitive.Separator'' (props @ [(''data-slot'', PStr ''combobox-separator''),
     (''className'', Cn [PStr ''bg-border -mx-1 my-1 h-px'', className])]))"

definition ComboboxChips :: "props \<Rightarrow> pv" where
  "ComboboxChips p = (let className = pget p ''className'';
     props = rest [''className''] p
   in Elem ''ComboboxPrimitive.Chips'' (props @ [(''data-slot'', PStr ''combobox-chips''),
     (''className'', Cn [PStr ''border-input focus-within:border-ring focus-within:ring-ring/50 has-aria-invalid:border-destructive has-aria-invalid:ring-destructive/20 dark:bg-input/30 dark:has-aria-invalid:border-destructive/50 dark:has-aria-invalid:ring-destructive/40 flex min-h-9 flex-wrap items-center gap-1.5 rounded-md border bg-transparent bg-clip-padding px-2.5 py-1.5 text-sm shadow-xs transition-[color,box-shadow] focus-within:ring-[3px] has-aria-invalid:ring-[3px] has-data-[slot=combobox-chip]:px-1.5'', className])]))"

definition ComboboxChip :: "props \<Rightarrow> pv" where
  "ComboboxChip p = (let className = pget p ''className'';
     children = pget p ''children'';
     showRemove = pget_or p ''showRemove'' (PBool True);
     props = rest [''className'', ''children'', ''showRemove''] p
   in Elem ''ComboboxPrimitive.Chip'' ([(''children'', PArr [children, if is_truthy showRemove then Elem ''ComboboxPrimitive.ChipRemove'' ([(''children'',
     Elem ''XIcon'' [(''className'', PStr ''pointer-events-none'')])] @ [(''render'',
     Button_ui [(''variant'', PStr ''ghost''), (''size'', PStr ''icon-xs'')]),
     (''className'', PStr ''-ml-1 opacity-50 hover:opacity-100''), (''data-slot'',
     PStr ''combobox-chip-remove'')]) else showRemove])] @ props @ [(''data-slot'',
     PStr ''combobox-chip''), (''className'', Cn [PStr ''bg-muted text-foreground flex h-[calc(--spacing(5.5))] w-fit items-center justify-center gap-1 rounded-sm px-1.5 text-xs font-medium whitespace-nowrap has-disabled:pointer-events-none has-disabled:cursor-not-allowed has-disabled:opacity-50 has-data-[slot=combobox-chip-remove]:pr-0'', className])]))"

definition ComboboxChipsInput :: "props \<Rightarrow> pv" where
  "ComboboxChipsInput p = (let className = pget p ''className'';
     props = rest [''className'', ''children''] p
   in Elem ''ComboboxPrimitive.Input'' (props @ [(''data-slot'', PStr ''combobox-chip-input''),
     (''className'', Cn [PStr ''min-w-16 flex-1 outline-none'', className])]))"

lemma combobox_contract [kit_contracts]:
  "follows ComboboxValue ''combobox-value'' []"
  "follows ComboboxTrigger ''combobox-trigger'' [''className'', ''children'']"
  "follows ComboboxClear ''combobox-clear'' [''className'', ''children'']"
  "follows ComboboxContent ''combobox-content'' [''className'', ''side'', ''sideOffset'', ''align'', ''alignOffset'', ''anchor'']"
  "follows ComboboxList ''combobox-list'' [''className'']"
  "follows ComboboxItem ''combobox-item'' [''className'', ''children'']"
  "follows ComboboxGroup ''combobox-group'' [''className'']"
  "follows ComboboxLabel ''combobox-label'' [''className'']"
  "follows ComboboxCollection ''combobox-collection'' []"
  "follows ComboboxEmpty ''combobox-empty'' [''className'']"
  "follows ComboboxSeparator ''combobox-separator'' [''className'']"
  "follows ComboboxChips ''combobox-chips'' [''className'']"
  "follows ComboboxChip ''combobox-chip'' [''className'', ''children'', ''showRemove'']"
  "follows ComboboxChipsInput ''combobox-chip-input'' [''className'', ''children'']"
  by (simp_all add: kit_simps Button_ui_def ComboboxChip_def ComboboxChipsInput_def ComboboxChips_def ComboboxClear_def ComboboxCollection_def ComboboxContent_def ComboboxEmpty_def ComboboxGroup_def ComboboxItem_def ComboboxLabel_def ComboboxList_def ComboboxSeparator_def ComboboxTrigger_def ComboboxValue_def InputGroupButton_def buttonVariants_def inputGroupButtonVariants_def cong: kit_cong)

section \<open>\<open>input-otp.tsx\<close>\<close>

definition InputOTP :: "props \<Rightarrow> pv" where
  "InputOTP p = (let className = pget p ''className'';
     containerClassName = pget p ''containerClassName'';
     props = rest [''className'', ''containerClassName''] p
   in Elem ''OTPInput'' (props @ [(''data-slot'', PStr ''input-otp''), (''containerClassName'',
     Cn [PStr ''flex items-center gap-2 has-disabled:opacity-50'', containerClassName]),
     (''className'', Cn [PStr ''disabled:cursor-not-allowed'', className])]))"

definition InputOTPGroup :: "props \<Rightarrow> pv" where
  "InputOTPGroup p = (let className = pget p ''className'';
     props = rest [''className''] p
   in Elem ''div'' (props @ [(''data-slot'', PStr ''input-otp-group''),
     (''className'', Cn [PStr ''flex items-center'', className])]))"

text \<open>The context is that of the input library; a slot out of range renders empty.\<close>

definition InputOTPSlot :: "pv \<Rightarrow> props \<Rightarrow> pv" where
  "InputOTPSlot inputOTPContext p = (let index' = pget p ''index'';
     className = pget p ''className'';
     props = rest [''index'', ''className''] p;
     slot = nullish (item_at (field_of inputOTPContext ''slots'') index') (PObj []);
     hasFakeCaret = field_of slot ''hasFakeCaret''
   in Elem ''div'' ([(''children'', PArr [field_of slot ''char'',
        if is_truthy hasFakeCaret then Elem ''div'' ([(''children'', Elem ''div'' [(''className'', PStr ''animate-caret-blink bg-foreground h-4 w-px duration-1000'')])] @
            [(''className'', PStr ''pointer-events-none absolute inset-0 flex items-center justify-center'')])
        else hasFakeCaret])] @
      props @ [(''data-slot'', PStr ''input-otp-slot''), (''data-active'', field_of slot ''isActive''),
        (''className'', Cn [PStr ''border-input aria-invalid:border-destructive data-[active=true]:border-ring data-[active=true]:ring-ring/50 data-[active=true]:aria-invalid:border-destructive data-[active=true]:aria-invalid:ring-destructive/20 dark:bg-input/30 dark:data-[active=true]:aria-invalid:ring-destructive/40 relative flex h-9 w-9 items-center justify-center border-y border-r text-sm shadow-xs transition-all outline-none first:rounded-l-md first:border-l last:rounded-r-md data-[active=true]:z-10 data-[active=true]:ring-[3px]'', className])]))"

definition InputOTPSeparator :: "props \<Rightarrow> pv" where
  "InputOTPSeparator p = Elem ''div'' ([(''children'', Elem ''MinusIcon'' [])]
    @ p @ [(''data-slot'', PStr ''input-otp-separator''), (''role'', PStr ''separator'')])"

lemma input_otp_contract [kit_contracts]:
  "follows InputOTP ''input-otp'' [''className'', ''containerClassName'']"
  "follows InputOTPGroup ''input-otp-group'' [''className'']"
  "follows InputOTPSeparator ''input-otp-separator'' [''children'']"
  by (simp_all add: kit_simps InputOTPGroup_def InputOTPSeparator_def InputOTP_def cong: kit_cong)

section \<open>\<open>resizable.tsx\<close>\<close>

definition ResizablePanelGroup :: "props \<Rightarrow> pv" where
  "ResizablePanelGroup p = (let className = pget p ''className'';
     props = rest [''className''] p
   in Elem ''ResizablePrimitive.Group'' (props @ [(''data-slot'', PStr ''resizable-panel-group''),
     (''className'', Cn [PStr ''flex h-full w-full aria-[orientation=vertical]:flex-col'', className])]))"

definition ResizablePanel :: "props \<Rightarrow> pv" where
  "ResizablePanel p = Elem ''ResizablePrimitive.Panel'' (p @ [(''data-slot'',
    PStr ''resizable-panel'')])"

definition ResizableHandle :: "props \<Rightarrow> pv" where
  "ResizableHandle p = (let withHandle = pget p ''withHandle'';
     className = pget p ''className'';
     props = rest [''withHandle'', ''className''] p
   in Elem ''ResizablePrimitive.Separator'' ([(''children'', if is_truthy withHandle then Elem ''div'' ([(''children'',
     Elem ''GripVerticalIcon'' [(''className'', PStr ''size-2.5'')])] @ [(''className'',
     PStr ''bg-border z-10 flex h-4 w-3 items-center justify-center rounded-xs border'')]) else withHandle)]
     @ props @ [(''data-slot'', PStr ''resizable-handle''), (''className'',
     Cn [PStr ''bg-border focus-visible:ring-ring relative flex w-px items-center justify-center after:absolute after:inset-y-0 after:left-1/2 after:w-1 after:-translate-x-1/2 focus-visible:ring-1 focus-visible:ring-offset-1 focus-visible:outline-hidden aria-[orientation=horizontal]:h-px aria-[orientation=horizontal]:w-full aria-[orientation=horizontal]:after:left-0 aria-[orientation=horizontal]:after:h-1 aria-[orientation=horizontal]:after:w-full aria-[orientation=horizontal]:after:translate-x-0 aria-[orientation=horizontal]:after:-translate-y-1/2 [&[aria-orientation=horizontal]>div]:rotate-90'', className])]))"

lemma resizable_contract [kit_contracts]:
  "follows ResizablePanelGroup ''resizable-panel-group'' [''className'']"
  "follows ResizablePanel ''resizable-panel'' []"
  "follows ResizableHandle ''resizable-handle'' [''withHandle'', ''className'', ''children'']"
  by (simp_all add: kit_simps ResizableHandle_def ResizablePanelGroup_def ResizablePanel_def cong: kit_cong)

section \<open>\<open>scroll-area.tsx\<close>\<close>

definition ScrollBar :: "props \<Rightarrow> pv" where
  "ScrollBar p = (let className = pget p ''className'';
     orientation = pget_or p ''orientation'' (PStr ''vertical'');
     props = rest [''className'', ''orientation''] p
   in Elem ''ScrollAreaPrimitive.ScrollAreaScrollbar'' ([(''children'',
     Elem ''ScrollAreaPrimitive.ScrollAreaThumb'' [(''data-slot'', PStr ''scroll-area-thumb''),
     (''className'', PStr ''bg-border relative flex-1 rounded-full'')])]
     @ props @ [(''data-slot'', PStr ''scroll-area-scrollbar''), (''orientation'', orientation),
     (''className'', Cn [PStr ''flex touch-none p-px transition-colors select-none'',
     if orientation = PStr ''vertical'' then PStr ''h-full w-2.5 border-l border-l-transparent'' else PBool False,
     if orientation = PStr ''horizontal'' then PStr ''h-2.5 flex-col border-t border-t-transparent'' else PBool False, className])]))"

definition ScrollArea :: "props \<Rightarrow> pv" where
  "ScrollArea p = (let className = pget p ''className'';
     children = pget p ''children'';
     props = rest [''className'', ''children''] p
   in Elem ''ScrollAreaPrimitive.Root'' ([(''children'', PArr [Elem ''ScrollAreaPrimitive.Viewport'' ([(''children'', children)]
     @ [(''data-slot'', PStr ''scroll-area-viewport''), (''className'',
     PStr ''focus-visible:ring-ring/50 size-full rounded-[inherit] transition-[color,box-shadow] outline-none focus-visible:ring-[3px] focus-visible:outline-1'')]),
     ScrollBar [], Elem ''ScrollAreaPrimitive.Corner'' []])] @ props @ [(''data-slot'',
     PStr ''scroll-area''), (''className'', Cn [PStr ''relative'', className])]))"

lemma scroll_area_contract [kit_contracts]:
  "follows ScrollArea ''scroll-area'' [''className'', ''children'']"
  "follows ScrollBar ''scroll-area-scrollbar'' [''className'', ''orientation'', ''children'']"
  by (simp_all add: kit_simps ScrollArea_def ScrollBar_def cong: kit_cong)

section \<open>\<open>direction.tsx\<close>\<close>

definition DirectionProvider :: "props \<Rightarrow> pv" where
  "DirectionProvider p = (let dir = pget p ''dir'';
     direction = pget p ''direction'';
     children = pget p ''children''
   in Elem ''Direction.DirectionProvider'' ([(''children'', children)]
     @ [(''dir'', nullish direction dir)]))"

section \<open>The components and their contract\<close>

definition controls :: "((props \<Rightarrow> pv) \<times> string \<times> string list) list" where
  "controls =
    [(Checkbox, ''checkbox'', [''className'', ''children'']),
     (Switch, ''switch'', [''className'', ''size'', ''children'']),
     (RadioGroup, ''radio-group'', [''className'']),
     (RadioGroupItem, ''radio-group-item'', [''className'', ''children'']),
     (Toggle_ui, ''toggle'', [''className'', ''variant'', ''size'']),
     (ToggleGroup, ''toggle-group'', [''className'', ''variant'', ''size'', ''spacing'', ''children'']),
     (Tabs, ''tabs'', [''className'', ''orientation'']),
     (TabsList, ''tabs-list'', [''className'', ''variant'']),
     (TabsTrigger, ''tabs-trigger'', [''className'']),
     (TabsContent, ''tabs-content'', [''className'']),
     (Accordion, ''accordion'', []),
     (AccordionItem, ''accordion-item'', [''className'']),
     (AccordionTrigger, ''accordion-trigger'', [''className'', ''children'']),
     (AccordionContent, ''accordion-content'', [''className'', ''children'']),
     (Collapsible, ''collapsible'', []),
     (CollapsibleTrigger, ''collapsible-trigger'', []),
     (CollapsibleContent, ''collapsible-content'', []),
     (Select_ui, ''select'', []),
     (SelectGroup, ''select-group'', []),
     (SelectValue, ''select-value'', []),
     (SelectTrigger, ''select-trigger'', [''className'', ''size'', ''children'']),
     (SelectContent, ''select-content'', [''className'', ''children'', ''position'', ''align'']),
     (SelectLabel, ''select-label'', [''className'']),
     (SelectItem, ''select-item'', [''className'', ''children'']),
     (SelectSeparator, ''select-separator'', [''className'']),
     (SelectScrollUpButton, ''select-scroll-up-button'', [''className'', ''children'']),
     (SelectScrollDownButton, ''select-scroll-down-button'', [''className'', ''children'']),
     (ComboboxValue, ''combobox-value'', []),
     (ComboboxTrigger, ''combobox-trigger'', [''className'', ''children'']),
     (ComboboxClear, ''combobox-clear'', [''className'', ''children'']),
     (ComboboxContent, ''combobox-content'', [''className'', ''side'', ''sideOffset'', ''align'', ''alignOffset'', ''anchor'']),
     (ComboboxList, ''combobox-list'', [''className'']),
     (ComboboxItem, ''combobox-item'', [''className'', ''children'']),
     (ComboboxGroup, ''combobox-group'', [''className'']),
     (ComboboxLabel, ''combobox-label'', [''className'']),
     (ComboboxCollection, ''combobox-collection'', []),
     (ComboboxEmpty, ''combobox-empty'', [''className'']),
     (ComboboxSeparator, ''combobox-separator'', [''className'']),
     (ComboboxChips, ''combobox-chips'', [''className'']),
     (ComboboxChip, ''combobox-chip'', [''className'', ''children'', ''showRemove'']),
     (ComboboxChipsInput, ''combobox-chip-input'', [''className'', ''children'']),
     (InputOTP, ''input-otp'', [''className'', ''containerClassName'']),
     (InputOTPGroup, ''input-otp-group'', [''className'']),
     (InputOTPSeparator, ''input-otp-separator'', [''children'']),
     (ResizablePanelGroup, ''resizable-panel-group'', [''className'']),
     (ResizablePanel, ''resizable-panel'', []),
     (ResizableHandle, ''resizable-handle'', [''withHandle'', ''className'', ''children'']),
     (ScrollArea, ''scroll-area'', [''className'', ''children'']),
     (ScrollBar, ''scroll-area-scrollbar'', [''className'', ''orientation'', ''children''])]"

lemma controls_follow: "list_all (\<lambda>(component, slot, own). follows component slot own) controls"
  by (simp add: controls_def kit_contracts)

end
