(* ===== verification/KitOverlays.thy ===== *)
theory KitOverlays
  imports KitControls
begin

text \<open>
  What the kit shows above the page: dialogs, sheets, popovers, tooltips, menus, the command palette and toasts
  (\<open>web/src/components/ui\<close>), each component as a function from its properties to what it
  renders.
\<close>

section \<open>\<open>dialog.tsx\<close>\<close>

definition Dialog :: "props \<Rightarrow> pv" where
  "Dialog p = Elem ''DialogPrimitive.Root'' (p @ [(''data-slot'', PStr ''dialog'')])"

definition DialogTrigger :: "props \<Rightarrow> pv" where
  "DialogTrigger p = Elem ''DialogPrimitive.Trigger'' (p @ [(''data-slot'',
    PStr ''dialog-trigger'')])"

definition DialogPortal :: "props \<Rightarrow> pv" where
  "DialogPortal p = Elem ''DialogPrimitive.Portal'' (p @ [(''data-slot'',
    PStr ''dialog-portal'')])"

definition DialogClose :: "props \<Rightarrow> pv" where
  "DialogClose p = Elem ''DialogPrimitive.Close'' (p @ [(''data-slot'',
    PStr ''dialog-close'')])"

definition DialogOverlay :: "props \<Rightarrow> pv" where
  "DialogOverlay p = (let className = pget p ''className'';
     props = rest [''className''] p
   in Elem ''DialogPrimitive.Overlay'' (props @ [(''data-slot'', PStr ''dialog-overlay''),
     (''className'', Cn [PStr ''data-[state=closed]:animate-out data-[state=closed]:fade-out-0 data-[state=open]:animate-in data-[state=open]:fade-in-0 fixed inset-0 z-50 bg-black/50'', className])]))"

definition DialogContent :: "props \<Rightarrow> pv" where
  "DialogContent p = (let className = pget p ''className'';
     children = pget p ''children'';
     showCloseButton = pget_or p ''showCloseButton'' (PBool True);
     props = rest [''className'', ''children'', ''showCloseButton''] p
   in DialogPortal ([(''children'', PArr [DialogOverlay [], Elem ''DialogPrimitive.Content'' ([(''children'',
     PArr [children, if is_truthy showCloseButton then Elem ''DialogPrimitive.Close'' ([(''children'',
     PArr [Elem ''XIcon'' [], Elem ''span'' ([(''children'', PStr ''Close'')]
     @ [(''className'', PStr ''sr-only'')])])] @ [(''data-slot'', PStr ''dialog-close''),
     (''className'', PStr ''ring-offset-background focus:ring-ring data-[state=open]:bg-accent data-[state=open]:text-muted-foreground absolute top-4 right-4 rounded-xs opacity-70 transition-opacity hover:opacity-100 focus:ring-2 focus:ring-offset-2 focus:outline-hidden disabled:pointer-events-none [&_svg]:pointer-events-none [&_svg]:shrink-0 [&_svg:not([class*='size-'])]:size-4'')]) else showCloseButton])]
     @ props @ [(''data-slot'', PStr ''dialog-content''), (''className'',
     Cn [PStr ''bg-background data-[state=closed]:animate-out data-[state=closed]:fade-out-0 data-[state=closed]:zoom-out-95 data-[state=open]:animate-in data-[state=open]:fade-in-0 data-[state=open]:zoom-in-95 fixed top-[50%] left-[50%] z-50 grid w-full max-w-[calc(100%-2rem)] translate-x-[-50%] translate-y-[-50%] gap-4 rounded-lg border p-6 shadow-lg duration-200 outline-none sm:max-w-lg'', className])])])]
     @ [(''data-slot'', PStr ''dialog-portal'')]))"

definition DialogHeader :: "props \<Rightarrow> pv" where
  "DialogHeader p = (let className = pget p ''className'';
     props = rest [''className''] p
   in Elem ''div'' (props @ [(''data-slot'', PStr ''dialog-header''), (''className'',
     Cn [PStr ''flex flex-col gap-2 text-center sm:text-left'', className])]))"

definition DialogFooter :: "props \<Rightarrow> pv" where
  "DialogFooter p = (let className = pget p ''className'';
     showCloseButton = pget_or p ''showCloseButton'' (PBool False);
     children = pget p ''children'';
     props = rest [''className'', ''showCloseButton'', ''children''] p
   in Elem ''div'' ([(''children'', PArr [children, if is_truthy showCloseButton then Elem ''DialogPrimitive.Close'' ([(''children'',
     Button_ui ([(''children'', PStr ''Close'')] @ [(''variant'', PStr ''outline'')]))]
     @ [(''asChild'', PBool True)]) else showCloseButton])] @ props @ [(''data-slot'',
     PStr ''dialog-footer''), (''className'', Cn [PStr ''flex flex-col-reverse gap-2 sm:flex-row sm:justify-end'', className])]))"

definition DialogTitle :: "props \<Rightarrow> pv" where
  "DialogTitle p = (let className = pget p ''className'';
     props = rest [''className''] p
   in Elem ''DialogPrimitive.Title'' (props @ [(''data-slot'', PStr ''dialog-title''),
     (''className'', Cn [PStr ''text-lg leading-none font-semibold'', className])]))"

definition DialogDescription :: "props \<Rightarrow> pv" where
  "DialogDescription p = (let className = pget p ''className'';
     props = rest [''className''] p
   in Elem ''DialogPrimitive.Description'' (props @ [(''data-slot'', PStr ''dialog-description''),
     (''className'', Cn [PStr ''text-muted-foreground text-sm'', className])]))"

lemma dialog_contract [kit_contracts]:
  "follows Dialog ''dialog'' []"
  "follows DialogTrigger ''dialog-trigger'' []"
  "follows DialogPortal ''dialog-portal'' []"
  "follows DialogClose ''dialog-close'' []"
  "follows DialogOverlay ''dialog-overlay'' [''className'']"
  "follows DialogContent ''dialog-content'' [''className'', ''children'', ''showCloseButton'']"
  "follows DialogHeader ''dialog-header'' [''className'']"
  "follows DialogFooter ''dialog-footer'' [''className'', ''showCloseButton'', ''children'']"
  "follows DialogTitle ''dialog-title'' [''className'']"
  "follows DialogDescription ''dialog-description'' [''className'']"
  by (simp_all add: kit_simps Button_ui_def DialogClose_def DialogContent_def DialogDescription_def DialogFooter_def DialogHeader_def DialogOverlay_def DialogPortal_def DialogTitle_def DialogTrigger_def Dialog_def buttonVariants_def cong: kit_cong)

section \<open>\<open>alert-dialog.tsx\<close>\<close>

definition AlertDialog :: "props \<Rightarrow> pv" where
  "AlertDialog p = Elem ''AlertDialogPrimitive.Root'' (p @ [(''data-slot'',
    PStr ''alert-dialog'')])"

definition AlertDialogTrigger :: "props \<Rightarrow> pv" where
  "AlertDialogTrigger p = Elem ''AlertDialogPrimitive.Trigger'' (p @ [(''data-slot'',
    PStr ''alert-dialog-trigger'')])"

definition AlertDialogPortal :: "props \<Rightarrow> pv" where
  "AlertDialogPortal p = Elem ''AlertDialogPrimitive.Portal'' (p @ [(''data-slot'',
    PStr ''alert-dialog-portal'')])"

definition AlertDialogOverlay :: "props \<Rightarrow> pv" where
  "AlertDialogOverlay p = (let className = pget p ''className'';
     props = rest [''className''] p
   in Elem ''AlertDialogPrimitive.Overlay'' (props @ [(''data-slot'', PStr ''alert-dialog-overlay''),
     (''className'', Cn [PStr ''data-[state=closed]:animate-out data-[state=closed]:fade-out-0 data-[state=open]:animate-in data-[state=open]:fade-in-0 fixed inset-0 z-50 bg-black/50'', className])]))"

definition AlertDialogContent :: "props \<Rightarrow> pv" where
  "AlertDialogContent p = (let className = pget p ''className'';
     size' = pget_or p ''size'' (PStr ''default'');
     props = rest [''className'', ''size''] p
   in AlertDialogPortal ([(''children'', PArr [AlertDialogOverlay [], Elem ''AlertDialogPrimitive.Content'' (props
     @ [(''data-slot'', PStr ''alert-dialog-content''), (''data-size'', size'),
     (''className'', Cn [PStr ''group/alert-dialog-content bg-background data-[state=closed]:animate-out data-[state=closed]:fade-out-0 data-[state=closed]:zoom-out-95 data-[state=open]:animate-in data-[state=open]:fade-in-0 data-[state=open]:zoom-in-95 fixed top-[50%] left-[50%] z-50 grid w-full max-w-[calc(100%-2rem)] translate-x-[-50%] translate-y-[-50%] gap-4 rounded-lg border p-6 shadow-lg duration-200 data-[size=sm]:max-w-xs data-[size=default]:sm:max-w-lg'', className])])])]))"

definition AlertDialogHeader :: "props \<Rightarrow> pv" where
  "AlertDialogHeader p = (let className = pget p ''className'';
     props = rest [''className''] p
   in Elem ''div'' (props @ [(''data-slot'', PStr ''alert-dialog-header''),
     (''className'', Cn [PStr ''grid grid-rows-[auto_1fr] place-items-center gap-1.5 text-center has-data-[slot=alert-dialog-media]:grid-rows-[auto_auto_1fr] has-data-[slot=alert-dialog-media]:gap-x-6 sm:group-data-[size=default]/alert-dialog-content:place-items-start sm:group-data-[size=default]/alert-dialog-content:text-left sm:group-data-[size=default]/alert-dialog-content:has-data-[slot=alert-dialog-media]:grid-rows-[auto_1fr]'', className])]))"

definition AlertDialogFooter :: "props \<Rightarrow> pv" where
  "AlertDialogFooter p = (let className = pget p ''className'';
     props = rest [''className''] p
   in Elem ''div'' (props @ [(''data-slot'', PStr ''alert-dialog-footer''),
     (''className'', Cn [PStr ''flex flex-col-reverse gap-2 group-data-[size=sm]/alert-dialog-content:grid group-data-[size=sm]/alert-dialog-content:grid-cols-2 sm:flex-row sm:justify-end'', className])]))"

definition AlertDialogTitle :: "props \<Rightarrow> pv" where
  "AlertDialogTitle p = (let className = pget p ''className'';
     props = rest [''className''] p
   in Elem ''AlertDialogPrimitive.Title'' (props @ [(''data-slot'', PStr ''alert-dialog-title''),
     (''className'', Cn [PStr ''text-lg font-semibold sm:group-data-[size=default]/alert-dialog-content:group-has-data-[slot=alert-dialog-media]/alert-dialog-content:col-start-2'', className])]))"

definition AlertDialogDescription :: "props \<Rightarrow> pv" where
  "AlertDialogDescription p = (let className = pget p ''className'';
     props = rest [''className''] p
   in Elem ''AlertDialogPrimitive.Description'' (props @ [(''data-slot'',
     PStr ''alert-dialog-description''), (''className'', Cn [PStr ''text-muted-foreground text-sm'', className])]))"

definition AlertDialogMedia :: "props \<Rightarrow> pv" where
  "AlertDialogMedia p = (let className = pget p ''className'';
     props = rest [''className''] p
   in Elem ''div'' (props @ [(''data-slot'', PStr ''alert-dialog-media''),
     (''className'', Cn [PStr ''bg-muted mb-2 inline-flex size-16 items-center justify-center rounded-md sm:group-data-[size=default]/alert-dialog-content:row-span-2 *:[svg:not([class*='size-'])]:size-8'', className])]))"

definition AlertDialogAction :: "props \<Rightarrow> pv" where
  "AlertDialogAction p = (let className = pget p ''className'';
     variant = pget_or p ''variant'' (PStr ''default'');
     size' = pget_or p ''size'' (PStr ''default'');
     props = rest [''className'', ''variant'', ''size''] p
   in Button_ui ([(''children'', Elem ''AlertDialogPrimitive.Action'' (props
     @ [(''data-slot'', PStr ''alert-dialog-action''), (''className'', Cn [className])]))]
     @ [(''variant'', variant), (''size'', size'), (''asChild'', PBool True)]))"

definition AlertDialogCancel :: "props \<Rightarrow> pv" where
  "AlertDialogCancel p = (let className = pget p ''className'';
     variant = pget_or p ''variant'' (PStr ''outline'');
     size' = pget_or p ''size'' (PStr ''default'');
     props = rest [''className'', ''variant'', ''size''] p
   in Button_ui ([(''children'', Elem ''AlertDialogPrimitive.Cancel'' (props
     @ [(''data-slot'', PStr ''alert-dialog-cancel''), (''className'', Cn [className])]))]
     @ [(''variant'', variant), (''size'', size'), (''asChild'', PBool True)]))"

lemma alert_dialog_contract [kit_contracts]:
  "follows AlertDialog ''alert-dialog'' []"
  "follows AlertDialogTrigger ''alert-dialog-trigger'' []"
  "follows AlertDialogPortal ''alert-dialog-portal'' []"
  "follows AlertDialogOverlay ''alert-dialog-overlay'' [''className'']"
  "follows AlertDialogContent ''alert-dialog-content'' [''className'', ''size'']"
  "follows AlertDialogHeader ''alert-dialog-header'' [''className'']"
  "follows AlertDialogFooter ''alert-dialog-footer'' [''className'']"
  "follows AlertDialogTitle ''alert-dialog-title'' [''className'']"
  "follows AlertDialogDescription ''alert-dialog-description'' [''className'']"
  "follows AlertDialogMedia ''alert-dialog-media'' [''className'']"
  "follows AlertDialogAction ''alert-dialog-action'' [''className'', ''variant'', ''size'']"
  "follows AlertDialogCancel ''alert-dialog-cancel'' [''className'', ''variant'', ''size'']"
  by (simp_all add: kit_simps AlertDialogAction_def AlertDialogCancel_def AlertDialogContent_def AlertDialogDescription_def AlertDialogFooter_def AlertDialogHeader_def AlertDialogMedia_def AlertDialogOverlay_def AlertDialogPortal_def AlertDialogTitle_def AlertDialogTrigger_def AlertDialog_def Button_ui_def buttonVariants_def cong: kit_cong)

section \<open>\<open>sheet.tsx\<close>\<close>

definition Sheet :: "props \<Rightarrow> pv" where
  "Sheet p = Elem ''SheetPrimitive.Root'' (p @ [(''data-slot'', PStr ''sheet'')])"

definition SheetTrigger :: "props \<Rightarrow> pv" where
  "SheetTrigger p = Elem ''SheetPrimitive.Trigger'' (p @ [(''data-slot'',
    PStr ''sheet-trigger'')])"

definition SheetClose :: "props \<Rightarrow> pv" where
  "SheetClose p = Elem ''SheetPrimitive.Close'' (p @ [(''data-slot'', PStr ''sheet-close'')])"

definition SheetPortal :: "props \<Rightarrow> pv" where
  "SheetPortal p = Elem ''SheetPrimitive.Portal'' (p @ [(''data-slot'',
    PStr ''sheet-portal'')])"

definition SheetOverlay :: "props \<Rightarrow> pv" where
  "SheetOverlay p = (let className = pget p ''className'';
     props = rest [''className''] p
   in Elem ''SheetPrimitive.Overlay'' (props @ [(''data-slot'', PStr ''sheet-overlay''),
     (''className'', Cn [PStr ''data-[state=closed]:animate-out data-[state=closed]:fade-out-0 data-[state=open]:animate-in data-[state=open]:fade-in-0 fixed inset-0 z-50 bg-black/50'', className])]))"

definition SheetContent :: "props \<Rightarrow> pv" where
  "SheetContent p = (let className = pget p ''className'';
     children = pget p ''children'';
     side = pget_or p ''side'' (PStr ''right'');
     showCloseButton = pget_or p ''showCloseButton'' (PBool True);
     props = rest [''className'', ''children'', ''side'', ''showCloseButton''] p
   in SheetPortal ([(''children'', PArr [SheetOverlay [], Elem ''SheetPrimitive.Content'' ([(''children'',
     PArr [children, if is_truthy showCloseButton then Elem ''SheetPrimitive.Close'' ([(''children'',
     PArr [Elem ''XIcon'' [(''className'', PStr ''size-4'')], Elem ''span'' ([(''children'',
     PStr ''Close'')] @ [(''className'', PStr ''sr-only'')])])] @ [(''className'',
     PStr ''ring-offset-background focus:ring-ring data-[state=open]:bg-secondary absolute top-4 right-4 rounded-xs opacity-70 transition-opacity hover:opacity-100 focus:ring-2 focus:ring-offset-2 focus:outline-hidden disabled:pointer-events-none'')]) else showCloseButton])]
     @ props @ [(''data-slot'', PStr ''sheet-content''), (''className'',
     Cn [PStr ''bg-background data-[state=closed]:animate-out data-[state=open]:animate-in fixed z-50 flex flex-col gap-4 shadow-lg transition ease-in-out data-[state=closed]:duration-300 data-[state=open]:duration-500'',
     if side = PStr ''right'' then PStr ''data-[state=closed]:slide-out-to-right data-[state=open]:slide-in-from-right inset-y-0 right-0 h-full w-3/4 border-l sm:max-w-sm'' else PBool False,
     if side = PStr ''left'' then PStr ''data-[state=closed]:slide-out-to-left data-[state=open]:slide-in-from-left inset-y-0 left-0 h-full w-3/4 border-r sm:max-w-sm'' else PBool False,
     if side = PStr ''top'' then PStr ''data-[state=closed]:slide-out-to-top data-[state=open]:slide-in-from-top inset-x-0 top-0 h-auto border-b'' else PBool False,
     if side = PStr ''bottom'' then PStr ''data-[state=closed]:slide-out-to-bottom data-[state=open]:slide-in-from-bottom inset-x-0 bottom-0 h-auto border-t'' else PBool False, className])])])]))"

definition SheetHeader :: "props \<Rightarrow> pv" where
  "SheetHeader p = (let className = pget p ''className'';
     props = rest [''className''] p
   in Elem ''div'' (props @ [(''data-slot'', PStr ''sheet-header''), (''className'',
     Cn [PStr ''flex flex-col gap-1.5 p-4'', className])]))"

definition SheetFooter :: "props \<Rightarrow> pv" where
  "SheetFooter p = (let className = pget p ''className'';
     props = rest [''className''] p
   in Elem ''div'' (props @ [(''data-slot'', PStr ''sheet-footer''), (''className'',
     Cn [PStr ''mt-auto flex flex-col gap-2 p-4'', className])]))"

definition SheetTitle :: "props \<Rightarrow> pv" where
  "SheetTitle p = (let className = pget p ''className'';
     props = rest [''className''] p
   in Elem ''SheetPrimitive.Title'' (props @ [(''data-slot'', PStr ''sheet-title''),
     (''className'', Cn [PStr ''text-foreground font-semibold'', className])]))"

definition SheetDescription :: "props \<Rightarrow> pv" where
  "SheetDescription p = (let className = pget p ''className'';
     props = rest [''className''] p
   in Elem ''SheetPrimitive.Description'' (props @ [(''data-slot'', PStr ''sheet-description''),
     (''className'', Cn [PStr ''text-muted-foreground text-sm'', className])]))"

lemma sheet_contract [kit_contracts]:
  "follows Sheet ''sheet'' []"
  "follows SheetTrigger ''sheet-trigger'' []"
  "follows SheetClose ''sheet-close'' []"
  "follows SheetPortal ''sheet-portal'' []"
  "follows SheetOverlay ''sheet-overlay'' [''className'']"
  "follows SheetContent ''sheet-content'' [''className'', ''children'', ''side'', ''showCloseButton'']"
  "follows SheetHeader ''sheet-header'' [''className'']"
  "follows SheetFooter ''sheet-footer'' [''className'']"
  "follows SheetTitle ''sheet-title'' [''className'']"
  "follows SheetDescription ''sheet-description'' [''className'']"
  by (simp_all add: kit_simps SheetClose_def SheetContent_def SheetDescription_def SheetFooter_def SheetHeader_def SheetOverlay_def SheetPortal_def SheetTitle_def SheetTrigger_def Sheet_def cong: kit_cong)

section \<open>\<open>drawer.tsx\<close>\<close>

definition Drawer :: "props \<Rightarrow> pv" where
  "Drawer p = Elem ''DrawerPrimitive.Root'' (p @ [(''data-slot'', PStr ''drawer'')])"

definition DrawerTrigger :: "props \<Rightarrow> pv" where
  "DrawerTrigger p = Elem ''DrawerPrimitive.Trigger'' (p @ [(''data-slot'',
    PStr ''drawer-trigger'')])"

definition DrawerPortal :: "props \<Rightarrow> pv" where
  "DrawerPortal p = Elem ''DrawerPrimitive.Portal'' (p @ [(''data-slot'',
    PStr ''drawer-portal'')])"

definition DrawerClose :: "props \<Rightarrow> pv" where
  "DrawerClose p = Elem ''DrawerPrimitive.Close'' (p @ [(''data-slot'',
    PStr ''drawer-close'')])"

definition DrawerOverlay :: "props \<Rightarrow> pv" where
  "DrawerOverlay p = (let className = pget p ''className'';
     props = rest [''className''] p
   in Elem ''DrawerPrimitive.Overlay'' (props @ [(''data-slot'', PStr ''drawer-overlay''),
     (''className'', Cn [PStr ''data-[state=closed]:animate-out data-[state=closed]:fade-out-0 data-[state=open]:animate-in data-[state=open]:fade-in-0 fixed inset-0 z-50 bg-black/50'', className])]))"

definition DrawerContent :: "props \<Rightarrow> pv" where
  "DrawerContent p = (let className = pget p ''className'';
     children = pget p ''children'';
     props = rest [''className'', ''children''] p
   in DrawerPortal ([(''children'', PArr [DrawerOverlay [], Elem ''DrawerPrimitive.Content'' ([(''children'',
     PArr [Elem ''div'' [(''className'', PStr ''bg-muted mx-auto mt-4 hidden h-2 w-[100px] shrink-0 rounded-full group-data-[vaul-drawer-direction=bottom]/drawer-content:block'')], children])]
     @ props @ [(''data-slot'', PStr ''drawer-content''), (''className'',
     Cn [PStr ''group/drawer-content bg-background fixed z-50 flex h-auto flex-col'',
     PStr ''data-[vaul-drawer-direction=top]:inset-x-0 data-[vaul-drawer-direction=top]:top-0 data-[vaul-drawer-direction=top]:mb-24 data-[vaul-drawer-direction=top]:max-h-[80vh] data-[vaul-drawer-direction=top]:rounded-b-lg data-[vaul-drawer-direction=top]:border-b'',
     PStr ''data-[vaul-drawer-direction=bottom]:inset-x-0 data-[vaul-drawer-direction=bottom]:bottom-0 data-[vaul-drawer-direction=bottom]:mt-24 data-[vaul-drawer-direction=bottom]:max-h-[80vh] data-[vaul-drawer-direction=bottom]:rounded-t-lg data-[vaul-drawer-direction=bottom]:border-t'',
     PStr ''data-[vaul-drawer-direction=right]:inset-y-0 data-[vaul-drawer-direction=right]:right-0 data-[vaul-drawer-direction=right]:w-3/4 data-[vaul-drawer-direction=right]:border-l data-[vaul-drawer-direction=right]:sm:max-w-sm'',
     PStr ''data-[vaul-drawer-direction=left]:inset-y-0 data-[vaul-drawer-direction=left]:left-0 data-[vaul-drawer-direction=left]:w-3/4 data-[vaul-drawer-direction=left]:border-r data-[vaul-drawer-direction=left]:sm:max-w-sm'', className])])])]
     @ [(''data-slot'', PStr ''drawer-portal'')]))"

definition DrawerHeader :: "props \<Rightarrow> pv" where
  "DrawerHeader p = (let className = pget p ''className'';
     props = rest [''className''] p
   in Elem ''div'' (props @ [(''data-slot'', PStr ''drawer-header''), (''className'',
     Cn [PStr ''flex flex-col gap-0.5 p-4 group-data-[vaul-drawer-direction=bottom]/drawer-content:text-center group-data-[vaul-drawer-direction=top]/drawer-content:text-center md:gap-1.5 md:text-left'', className])]))"

definition DrawerFooter :: "props \<Rightarrow> pv" where
  "DrawerFooter p = (let className = pget p ''className'';
     props = rest [''className''] p
   in Elem ''div'' (props @ [(''data-slot'', PStr ''drawer-footer''), (''className'',
     Cn [PStr ''mt-auto flex flex-col gap-2 p-4'', className])]))"

definition DrawerTitle :: "props \<Rightarrow> pv" where
  "DrawerTitle p = (let className = pget p ''className'';
     props = rest [''className''] p
   in Elem ''DrawerPrimitive.Title'' (props @ [(''data-slot'', PStr ''drawer-title''),
     (''className'', Cn [PStr ''text-foreground font-semibold'', className])]))"

definition DrawerDescription :: "props \<Rightarrow> pv" where
  "DrawerDescription p = (let className = pget p ''className'';
     props = rest [''className''] p
   in Elem ''DrawerPrimitive.Description'' (props @ [(''data-slot'', PStr ''drawer-description''),
     (''className'', Cn [PStr ''text-muted-foreground text-sm'', className])]))"

lemma drawer_contract [kit_contracts]:
  "follows Drawer ''drawer'' []"
  "follows DrawerTrigger ''drawer-trigger'' []"
  "follows DrawerPortal ''drawer-portal'' []"
  "follows DrawerClose ''drawer-close'' []"
  "follows DrawerOverlay ''drawer-overlay'' [''className'']"
  "follows DrawerContent ''drawer-content'' [''className'', ''children'']"
  "follows DrawerHeader ''drawer-header'' [''className'']"
  "follows DrawerFooter ''drawer-footer'' [''className'']"
  "follows DrawerTitle ''drawer-title'' [''className'']"
  "follows DrawerDescription ''drawer-description'' [''className'']"
  by (simp_all add: kit_simps DrawerClose_def DrawerContent_def DrawerDescription_def DrawerFooter_def DrawerHeader_def DrawerOverlay_def DrawerPortal_def DrawerTitle_def DrawerTrigger_def Drawer_def cong: kit_cong)

section \<open>\<open>popover.tsx\<close>\<close>

definition Popover :: "props \<Rightarrow> pv" where
  "Popover p = Elem ''PopoverPrimitive.Root'' (p @ [(''data-slot'', PStr ''popover'')])"

definition PopoverTrigger :: "props \<Rightarrow> pv" where
  "PopoverTrigger p = Elem ''PopoverPrimitive.Trigger'' (p @ [(''data-slot'',
    PStr ''popover-trigger'')])"

definition PopoverContent :: "props \<Rightarrow> pv" where
  "PopoverContent p = (let className = pget p ''className'';
     align = pget_or p ''align'' (PStr ''center'');
     sideOffset = pget_or p ''sideOffset'' (PNum 4);
     props = rest [''className'', ''align'', ''sideOffset''] p
   in Elem ''PopoverPrimitive.Portal'' ([(''children'', Elem ''PopoverPrimitive.Content'' (props
     @ [(''data-slot'', PStr ''popover-content''), (''align'', align), (''sideOffset'', sideOffset),
     (''className'', Cn [PStr ''bg-popover text-popover-foreground data-[side=bottom]:slide-in-from-top-2 data-[side=left]:slide-in-from-right-2 data-[side=right]:slide-in-from-left-2 data-[side=top]:slide-in-from-bottom-2 data-[state=closed]:animate-out data-[state=closed]:fade-out-0 data-[state=closed]:zoom-out-95 data-[state=open]:animate-in data-[state=open]:fade-in-0 data-[state=open]:zoom-in-95 z-50 w-72 origin-(--radix-popover-content-transform-origin) rounded-md border p-4 shadow-md outline-hidden'', className])]))]))"

definition PopoverAnchor :: "props \<Rightarrow> pv" where
  "PopoverAnchor p = Elem ''PopoverPrimitive.Anchor'' (p @ [(''data-slot'',
    PStr ''popover-anchor'')])"

definition PopoverHeader :: "props \<Rightarrow> pv" where
  "PopoverHeader p = (let className = pget p ''className'';
     props = rest [''className''] p
   in Elem ''div'' (props @ [(''data-slot'', PStr ''popover-header''), (''className'',
     Cn [PStr ''flex flex-col gap-1 text-sm'', className])]))"

definition PopoverTitle :: "props \<Rightarrow> pv" where
  "PopoverTitle p = (let className = pget p ''className'';
     props = rest [''className''] p
   in Elem ''div'' (props @ [(''data-slot'', PStr ''popover-title''), (''className'',
     Cn [PStr ''font-medium'', className])]))"

definition PopoverDescription :: "props \<Rightarrow> pv" where
  "PopoverDescription p = (let className = pget p ''className'';
     props = rest [''className''] p
   in Elem ''p'' (props @ [(''data-slot'', PStr ''popover-description''),
     (''className'', Cn [PStr ''text-muted-foreground'', className])]))"

lemma popover_contract [kit_contracts]:
  "follows Popover ''popover'' []"
  "follows PopoverTrigger ''popover-trigger'' []"
  "follows PopoverContent ''popover-content'' [''className'', ''align'', ''sideOffset'']"
  "follows PopoverAnchor ''popover-anchor'' []"
  "follows PopoverHeader ''popover-header'' [''className'']"
  "follows PopoverTitle ''popover-title'' [''className'']"
  "follows PopoverDescription ''popover-description'' [''className'']"
  by (simp_all add: kit_simps PopoverAnchor_def PopoverContent_def PopoverDescription_def PopoverHeader_def PopoverTitle_def PopoverTrigger_def Popover_def cong: kit_cong)

section \<open>\<open>tooltip.tsx\<close>\<close>

definition TooltipProvider :: "props \<Rightarrow> pv" where
  "TooltipProvider p = (let delayDuration = pget_or p ''delayDuration'' (PNum 0);
     props = rest [''delayDuration''] p
   in Elem ''TooltipPrimitive.Provider'' (props @ [(''data-slot'', PStr ''tooltip-provider''),
     (''delayDuration'', delayDuration)]))"

definition Tooltip :: "props \<Rightarrow> pv" where
  "Tooltip p = Elem ''TooltipPrimitive.Root'' (p @ [(''data-slot'', PStr ''tooltip'')])"

definition TooltipTrigger :: "props \<Rightarrow> pv" where
  "TooltipTrigger p = Elem ''TooltipPrimitive.Trigger'' (p @ [(''data-slot'',
    PStr ''tooltip-trigger'')])"

definition TooltipContent :: "props \<Rightarrow> pv" where
  "TooltipContent p = (let className = pget p ''className'';
     sideOffset = pget_or p ''sideOffset'' (PNum 0);
     children = pget p ''children'';
     props = rest [''className'', ''sideOffset'', ''children''] p
   in Elem ''TooltipPrimitive.Portal'' ([(''children'', Elem ''TooltipPrimitive.Content'' ([(''children'',
     PArr [children, Elem ''TooltipPrimitive.Arrow'' [(''className'', PStr ''bg-foreground fill-foreground z-50 size-2.5 translate-y-[calc(-50%_-_2px)] rotate-45 rounded-[2px]'')]])]
     @ props @ [(''data-slot'', PStr ''tooltip-content''), (''sideOffset'', sideOffset),
     (''className'', Cn [PStr ''animate-in bg-foreground text-background fade-in-0 zoom-in-95 data-[side=bottom]:slide-in-from-top-2 data-[side=left]:slide-in-from-right-2 data-[side=right]:slide-in-from-left-2 data-[side=top]:slide-in-from-bottom-2 data-[state=closed]:animate-out data-[state=closed]:fade-out-0 data-[state=closed]:zoom-out-95 z-50 w-fit origin-(--radix-tooltip-content-transform-origin) rounded-md px-3 py-1.5 text-xs text-balance'', className])]))]))"

lemma tooltip_contract [kit_contracts]:
  "follows TooltipProvider ''tooltip-provider'' [''delayDuration'']"
  "follows Tooltip ''tooltip'' []"
  "follows TooltipTrigger ''tooltip-trigger'' []"
  "follows TooltipContent ''tooltip-content'' [''className'', ''sideOffset'', ''children'']"
  by (simp_all add: kit_simps TooltipContent_def TooltipProvider_def TooltipTrigger_def Tooltip_def cong: kit_cong)

section \<open>\<open>hover-card.tsx\<close>\<close>

definition HoverCard :: "props \<Rightarrow> pv" where
  "HoverCard p = Elem ''HoverCardPrimitive.Root'' (p @ [(''data-slot'',
    PStr ''hover-card'')])"

definition HoverCardTrigger :: "props \<Rightarrow> pv" where
  "HoverCardTrigger p = Elem ''HoverCardPrimitive.Trigger'' (p @ [(''data-slot'',
    PStr ''hover-card-trigger'')])"

definition HoverCardContent :: "props \<Rightarrow> pv" where
  "HoverCardContent p = (let className = pget p ''className'';
     align = pget_or p ''align'' (PStr ''center'');
     sideOffset = pget_or p ''sideOffset'' (PNum 4);
     props = rest [''className'', ''align'', ''sideOffset''] p
   in Elem ''HoverCardPrimitive.Portal'' ([(''children'', Elem ''HoverCardPrimitive.Content'' (props
     @ [(''data-slot'', PStr ''hover-card-content''), (''align'', align),
     (''sideOffset'', sideOffset), (''className'', Cn [PStr ''bg-popover text-popover-foreground data-[side=bottom]:slide-in-from-top-2 data-[side=left]:slide-in-from-right-2 data-[side=right]:slide-in-from-left-2 data-[side=top]:slide-in-from-bottom-2 data-[state=closed]:animate-out data-[state=closed]:fade-out-0 data-[state=closed]:zoom-out-95 data-[state=open]:animate-in data-[state=open]:fade-in-0 data-[state=open]:zoom-in-95 z-50 w-64 origin-(--radix-hover-card-content-transform-origin) rounded-md border p-4 shadow-md outline-hidden'', className])]))]
     @ [(''data-slot'', PStr ''hover-card-portal'')]))"

lemma hover_card_contract [kit_contracts]:
  "follows HoverCard ''hover-card'' []"
  "follows HoverCardTrigger ''hover-card-trigger'' []"
  "follows HoverCardContent ''hover-card-content'' [''className'', ''align'', ''sideOffset'']"
  by (simp_all add: kit_simps HoverCardContent_def HoverCardTrigger_def HoverCard_def cong: kit_cong)

section \<open>\<open>dropdown-menu.tsx\<close>\<close>

definition DropdownMenu :: "props \<Rightarrow> pv" where
  "DropdownMenu p = Elem ''DropdownMenuPrimitive.Root'' (p @ [(''data-slot'',
    PStr ''dropdown-menu'')])"

definition DropdownMenuPortal :: "props \<Rightarrow> pv" where
  "DropdownMenuPortal p = Elem ''DropdownMenuPrimitive.Portal'' (p @ [(''data-slot'',
    PStr ''dropdown-menu-portal'')])"

definition DropdownMenuTrigger :: "props \<Rightarrow> pv" where
  "DropdownMenuTrigger p = Elem ''DropdownMenuPrimitive.Trigger'' (p @ [(''data-slot'',
    PStr ''dropdown-menu-trigger'')])"

definition DropdownMenuContent :: "props \<Rightarrow> pv" where
  "DropdownMenuContent p = (let className = pget p ''className'';
     sideOffset = pget_or p ''sideOffset'' (PNum 4);
     props = rest [''className'', ''sideOffset''] p
   in Elem ''DropdownMenuPrimitive.Portal'' ([(''children'', Elem ''DropdownMenuPrimitive.Content'' (props
     @ [(''data-slot'', PStr ''dropdown-menu-content''), (''sideOffset'', sideOffset),
     (''className'', Cn [PStr ''bg-popover text-popover-foreground data-[side=bottom]:slide-in-from-top-2 data-[side=left]:slide-in-from-right-2 data-[side=right]:slide-in-from-left-2 data-[side=top]:slide-in-from-bottom-2 data-[state=closed]:animate-out data-[state=closed]:fade-out-0 data-[state=closed]:zoom-out-95 data-[state=open]:animate-in data-[state=open]:fade-in-0 data-[state=open]:zoom-in-95 z-50 max-h-(--radix-dropdown-menu-content-available-height) min-w-[8rem] origin-(--radix-dropdown-menu-content-transform-origin) overflow-x-hidden overflow-y-auto rounded-md border p-1 shadow-md'', className])]))]))"

definition DropdownMenuGroup :: "props \<Rightarrow> pv" where
  "DropdownMenuGroup p = Elem ''DropdownMenuPrimitive.Group'' (p @ [(''data-slot'',
    PStr ''dropdown-menu-group'')])"

definition DropdownMenuItem :: "props \<Rightarrow> pv" where
  "DropdownMenuItem p = (let className = pget p ''className'';
     inset = pget p ''inset'';
     variant = pget_or p ''variant'' (PStr ''default'');
     props = rest [''className'', ''inset'', ''variant''] p
   in Elem ''DropdownMenuPrimitive.Item'' (props @ [(''data-slot'', PStr ''dropdown-menu-item''),
     (''data-inset'', inset), (''data-variant'', variant), (''className'',
     Cn [PStr ''focus:bg-accent focus:text-accent-foreground data-[variant=destructive]:text-destructive data-[variant=destructive]:focus:bg-destructive/10 data-[variant=destructive]:focus:text-destructive dark:data-[variant=destructive]:focus:bg-destructive/20 [&_svg:not([class*='text-'])]:text-muted-foreground data-[variant=destructive]:*:[svg]:text-destructive! relative flex cursor-default items-center gap-2 rounded-sm px-2 py-1.5 text-sm outline-hidden select-none data-[disabled]:pointer-events-none data-[disabled]:opacity-50 data-[inset]:pl-8 [&_svg]:pointer-events-none [&_svg]:shrink-0 [&_svg:not([class*='size-'])]:size-4'', className])]))"

definition DropdownMenuCheckboxItem :: "props \<Rightarrow> pv" where
  "DropdownMenuCheckboxItem p = (let className = pget p ''className'';
     children = pget p ''children'';
     checked = pget p ''checked'';
     props = rest [''className'', ''children'', ''checked''] p
   in Elem ''DropdownMenuPrimitive.CheckboxItem'' ([(''children'', PArr [Elem ''span'' ([(''children'',
     Elem ''DropdownMenuPrimitive.ItemIndicator'' [(''children'', Elem ''CheckIcon'' [(''className'',
     PStr ''size-4'')])])] @ [(''className'', PStr ''pointer-events-none absolute left-2 flex size-3.5 items-center justify-center'')]), children])]
     @ props @ [(''data-slot'', PStr ''dropdown-menu-checkbox-item''), (''className'',
     Cn [PStr ''focus:bg-accent focus:text-accent-foreground relative flex cursor-default items-center gap-2 rounded-sm py-1.5 pr-2 pl-8 text-sm outline-hidden select-none data-[disabled]:pointer-events-none data-[disabled]:opacity-50 [&_svg]:pointer-events-none [&_svg]:shrink-0 [&_svg:not([class*='size-'])]:size-4'', className]),
     (''checked'', checked)]))"

definition DropdownMenuRadioGroup :: "props \<Rightarrow> pv" where
  "DropdownMenuRadioGroup p = Elem ''DropdownMenuPrimitive.RadioGroup'' (p
    @ [(''data-slot'', PStr ''dropdown-menu-radio-group'')])"

definition DropdownMenuRadioItem :: "props \<Rightarrow> pv" where
  "DropdownMenuRadioItem p = (let className = pget p ''className'';
     children = pget p ''children'';
     props = rest [''className'', ''children''] p
   in Elem ''DropdownMenuPrimitive.RadioItem'' ([(''children'', PArr [Elem ''span'' ([(''children'',
     Elem ''DropdownMenuPrimitive.ItemIndicator'' [(''children'', Elem ''CircleIcon'' [(''className'',
     PStr ''size-2 fill-current'')])])] @ [(''className'', PStr ''pointer-events-none absolute left-2 flex size-3.5 items-center justify-center'')]), children])]
     @ props @ [(''data-slot'', PStr ''dropdown-menu-radio-item''), (''className'',
     Cn [PStr ''focus:bg-accent focus:text-accent-foreground relative flex cursor-default items-center gap-2 rounded-sm py-1.5 pr-2 pl-8 text-sm outline-hidden select-none data-[disabled]:pointer-events-none data-[disabled]:opacity-50 [&_svg]:pointer-events-none [&_svg]:shrink-0 [&_svg:not([class*='size-'])]:size-4'', className])]))"

definition DropdownMenuLabel :: "props \<Rightarrow> pv" where
  "DropdownMenuLabel p = (let className = pget p ''className'';
     inset = pget p ''inset'';
     props = rest [''className'', ''inset''] p
   in Elem ''DropdownMenuPrimitive.Label'' (props @ [(''data-slot'', PStr ''dropdown-menu-label''),
     (''data-inset'', inset), (''className'', Cn [PStr ''px-2 py-1.5 text-sm font-medium data-[inset]:pl-8'', className])]))"

definition DropdownMenuSeparator :: "props \<Rightarrow> pv" where
  "DropdownMenuSeparator p = (let className = pget p ''className'';
     props = rest [''className''] p
   in Elem ''DropdownMenuPrimitive.Separator'' (props @ [(''data-slot'',
     PStr ''dropdown-menu-separator''), (''className'', Cn [PStr ''bg-border -mx-1 my-1 h-px'', className])]))"

definition DropdownMenuShortcut :: "props \<Rightarrow> pv" where
  "DropdownMenuShortcut p = (let className = pget p ''className'';
     props = rest [''className''] p
   in Elem ''span'' (props @ [(''data-slot'', PStr ''dropdown-menu-shortcut''),
     (''className'', Cn [PStr ''text-muted-foreground ml-auto text-xs tracking-widest'', className])]))"

definition DropdownMenuSub :: "props \<Rightarrow> pv" where
  "DropdownMenuSub p = Elem ''DropdownMenuPrimitive.Sub'' (p @ [(''data-slot'',
    PStr ''dropdown-menu-sub'')])"

definition DropdownMenuSubTrigger :: "props \<Rightarrow> pv" where
  "DropdownMenuSubTrigger p = (let className = pget p ''className'';
     inset = pget p ''inset'';
     children = pget p ''children'';
     props = rest [''className'', ''inset'', ''children''] p
   in Elem ''DropdownMenuPrimitive.SubTrigger'' ([(''children'', PArr [children,
     Elem ''ChevronRightIcon'' [(''className'', PStr ''ml-auto size-4'')]])]
     @ props @ [(''data-slot'', PStr ''dropdown-menu-sub-trigger''), (''data-inset'', inset),
     (''className'', Cn [PStr ''focus:bg-accent focus:text-accent-foreground data-[state=open]:bg-accent data-[state=open]:text-accent-foreground [&_svg:not([class*='text-'])]:text-muted-foreground flex cursor-default items-center gap-2 rounded-sm px-2 py-1.5 text-sm outline-hidden select-none data-[inset]:pl-8 [&_svg]:pointer-events-none [&_svg]:shrink-0 [&_svg:not([class*='size-'])]:size-4'', className])]))"

definition DropdownMenuSubContent :: "props \<Rightarrow> pv" where
  "DropdownMenuSubContent p = (let className = pget p ''className'';
     props = rest [''className''] p
   in Elem ''DropdownMenuPrimitive.SubContent'' (props @ [(''data-slot'',
     PStr ''dropdown-menu-sub-content''), (''className'', Cn [PStr ''bg-popover text-popover-foreground data-[side=bottom]:slide-in-from-top-2 data-[side=left]:slide-in-from-right-2 data-[side=right]:slide-in-from-left-2 data-[side=top]:slide-in-from-bottom-2 data-[state=closed]:animate-out data-[state=closed]:fade-out-0 data-[state=closed]:zoom-out-95 data-[state=open]:animate-in data-[state=open]:fade-in-0 data-[state=open]:zoom-in-95 z-50 min-w-[8rem] origin-(--radix-dropdown-menu-content-transform-origin) overflow-hidden rounded-md border p-1 shadow-lg'', className])]))"

lemma dropdown_menu_contract [kit_contracts]:
  "follows DropdownMenu ''dropdown-menu'' []"
  "follows DropdownMenuPortal ''dropdown-menu-portal'' []"
  "follows DropdownMenuTrigger ''dropdown-menu-trigger'' []"
  "follows DropdownMenuContent ''dropdown-menu-content'' [''className'', ''sideOffset'']"
  "follows DropdownMenuGroup ''dropdown-menu-group'' []"
  "follows DropdownMenuItem ''dropdown-menu-item'' [''className'', ''inset'', ''variant'']"
  "follows DropdownMenuCheckboxItem ''dropdown-menu-checkbox-item'' [''className'', ''children'', ''checked'']"
  "follows DropdownMenuRadioGroup ''dropdown-menu-radio-group'' []"
  "follows DropdownMenuRadioItem ''dropdown-menu-radio-item'' [''className'', ''children'']"
  "follows DropdownMenuLabel ''dropdown-menu-label'' [''className'', ''inset'']"
  "follows DropdownMenuSeparator ''dropdown-menu-separator'' [''className'']"
  "follows DropdownMenuShortcut ''dropdown-menu-shortcut'' [''className'']"
  "follows DropdownMenuSub ''dropdown-menu-sub'' []"
  "follows DropdownMenuSubTrigger ''dropdown-menu-sub-trigger'' [''className'', ''inset'', ''children'']"
  "follows DropdownMenuSubContent ''dropdown-menu-sub-content'' [''className'']"
  by (simp_all add: kit_simps DropdownMenuCheckboxItem_def DropdownMenuContent_def DropdownMenuGroup_def DropdownMenuItem_def DropdownMenuLabel_def DropdownMenuPortal_def DropdownMenuRadioGroup_def DropdownMenuRadioItem_def DropdownMenuSeparator_def DropdownMenuShortcut_def DropdownMenuSubContent_def DropdownMenuSubTrigger_def DropdownMenuSub_def DropdownMenuTrigger_def DropdownMenu_def cong: kit_cong)

section \<open>\<open>context-menu.tsx\<close>\<close>

definition ContextMenu :: "props \<Rightarrow> pv" where
  "ContextMenu p = Elem ''ContextMenuPrimitive.Root'' (p @ [(''data-slot'',
    PStr ''context-menu'')])"

definition ContextMenuTrigger :: "props \<Rightarrow> pv" where
  "ContextMenuTrigger p = Elem ''ContextMenuPrimitive.Trigger'' (p @ [(''data-slot'',
    PStr ''context-menu-trigger'')])"

definition ContextMenuGroup :: "props \<Rightarrow> pv" where
  "ContextMenuGroup p = Elem ''ContextMenuPrimitive.Group'' (p @ [(''data-slot'',
    PStr ''context-menu-group'')])"

definition ContextMenuPortal :: "props \<Rightarrow> pv" where
  "ContextMenuPortal p = Elem ''ContextMenuPrimitive.Portal'' (p @ [(''data-slot'',
    PStr ''context-menu-portal'')])"

definition ContextMenuSub :: "props \<Rightarrow> pv" where
  "ContextMenuSub p = Elem ''ContextMenuPrimitive.Sub'' (p @ [(''data-slot'',
    PStr ''context-menu-sub'')])"

definition ContextMenuRadioGroup :: "props \<Rightarrow> pv" where
  "ContextMenuRadioGroup p = Elem ''ContextMenuPrimitive.RadioGroup'' (p
    @ [(''data-slot'', PStr ''context-menu-radio-group'')])"

definition ContextMenuSubTrigger :: "props \<Rightarrow> pv" where
  "ContextMenuSubTrigger p = (let className = pget p ''className'';
     inset = pget p ''inset'';
     children = pget p ''children'';
     props = rest [''className'', ''inset'', ''children''] p
   in Elem ''ContextMenuPrimitive.SubTrigger'' ([(''children'', PArr [children,
     Elem ''ChevronRightIcon'' [(''className'', PStr ''ml-auto'')]])] @ props
     @ [(''data-slot'', PStr ''context-menu-sub-trigger''), (''data-inset'', inset),
     (''className'', Cn [PStr ''focus:bg-accent focus:text-accent-foreground data-[state=open]:bg-accent data-[state=open]:text-accent-foreground [&_svg:not([class*='text-'])]:text-muted-foreground flex cursor-default items-center rounded-sm px-2 py-1.5 text-sm outline-hidden select-none data-[inset]:pl-8 [&_svg]:pointer-events-none [&_svg]:shrink-0 [&_svg:not([class*='size-'])]:size-4'', className])]))"

definition ContextMenuSubContent :: "props \<Rightarrow> pv" where
  "ContextMenuSubContent p = (let className = pget p ''className'';
     props = rest [''className''] p
   in Elem ''ContextMenuPrimitive.SubContent'' (props @ [(''data-slot'',
     PStr ''context-menu-sub-content''), (''className'', Cn [PStr ''bg-popover text-popover-foreground data-[side=bottom]:slide-in-from-top-2 data-[side=left]:slide-in-from-right-2 data-[side=right]:slide-in-from-left-2 data-[side=top]:slide-in-from-bottom-2 data-[state=closed]:animate-out data-[state=closed]:fade-out-0 data-[state=closed]:zoom-out-95 data-[state=open]:animate-in data-[state=open]:fade-in-0 data-[state=open]:zoom-in-95 z-50 min-w-[8rem] origin-(--radix-context-menu-content-transform-origin) overflow-hidden rounded-md border p-1 shadow-lg'', className])]))"

definition ContextMenuContent :: "props \<Rightarrow> pv" where
  "ContextMenuContent p = (let className = pget p ''className'';
     props = rest [''className''] p
   in Elem ''ContextMenuPrimitive.Portal'' ([(''children'', Elem ''ContextMenuPrimitive.Content'' (props
     @ [(''data-slot'', PStr ''context-menu-content''), (''className'',
     Cn [PStr ''bg-popover text-popover-foreground data-[side=bottom]:slide-in-from-top-2 data-[side=left]:slide-in-from-right-2 data-[side=right]:slide-in-from-left-2 data-[side=top]:slide-in-from-bottom-2 data-[state=closed]:animate-out data-[state=closed]:fade-out-0 data-[state=closed]:zoom-out-95 data-[state=open]:animate-in data-[state=open]:fade-in-0 data-[state=open]:zoom-in-95 z-50 max-h-(--radix-context-menu-content-available-height) min-w-[8rem] origin-(--radix-context-menu-content-transform-origin) overflow-x-hidden overflow-y-auto rounded-md border p-1 shadow-md'', className])]))]))"

definition ContextMenuItem :: "props \<Rightarrow> pv" where
  "ContextMenuItem p = (let className = pget p ''className'';
     inset = pget p ''inset'';
     variant = pget_or p ''variant'' (PStr ''default'');
     props = rest [''className'', ''inset'', ''variant''] p
   in Elem ''ContextMenuPrimitive.Item'' (props @ [(''data-slot'', PStr ''context-menu-item''),
     (''data-inset'', inset), (''data-variant'', variant), (''className'',
     Cn [PStr ''focus:bg-accent focus:text-accent-foreground data-[variant=destructive]:text-destructive data-[variant=destructive]:focus:bg-destructive/10 data-[variant=destructive]:focus:text-destructive dark:data-[variant=destructive]:focus:bg-destructive/20 [&_svg:not([class*='text-'])]:text-muted-foreground data-[variant=destructive]:*:[svg]:text-destructive! relative flex cursor-default items-center gap-2 rounded-sm px-2 py-1.5 text-sm outline-hidden select-none data-[disabled]:pointer-events-none data-[disabled]:opacity-50 data-[inset]:pl-8 [&_svg]:pointer-events-none [&_svg]:shrink-0 [&_svg:not([class*='size-'])]:size-4'', className])]))"

definition ContextMenuCheckboxItem :: "props \<Rightarrow> pv" where
  "ContextMenuCheckboxItem p = (let className = pget p ''className'';
     children = pget p ''children'';
     checked = pget p ''checked'';
     props = rest [''className'', ''children'', ''checked''] p
   in Elem ''ContextMenuPrimitive.CheckboxItem'' ([(''children'', PArr [Elem ''span'' ([(''children'',
     Elem ''ContextMenuPrimitive.ItemIndicator'' [(''children'', Elem ''CheckIcon'' [(''className'',
     PStr ''size-4'')])])] @ [(''className'', PStr ''pointer-events-none absolute left-2 flex size-3.5 items-center justify-center'')]), children])]
     @ props @ [(''data-slot'', PStr ''context-menu-checkbox-item''), (''className'',
     Cn [PStr ''focus:bg-accent focus:text-accent-foreground relative flex cursor-default items-center gap-2 rounded-sm py-1.5 pr-2 pl-8 text-sm outline-hidden select-none data-[disabled]:pointer-events-none data-[disabled]:opacity-50 [&_svg]:pointer-events-none [&_svg]:shrink-0 [&_svg:not([class*='size-'])]:size-4'', className]),
     (''checked'', checked)]))"

definition ContextMenuRadioItem :: "props \<Rightarrow> pv" where
  "ContextMenuRadioItem p = (let className = pget p ''className'';
     children = pget p ''children'';
     props = rest [''className'', ''children''] p
   in Elem ''ContextMenuPrimitive.RadioItem'' ([(''children'', PArr [Elem ''span'' ([(''children'',
     Elem ''ContextMenuPrimitive.ItemIndicator'' [(''children'', Elem ''CircleIcon'' [(''className'',
     PStr ''size-2 fill-current'')])])] @ [(''className'', PStr ''pointer-events-none absolute left-2 flex size-3.5 items-center justify-center'')]), children])]
     @ props @ [(''data-slot'', PStr ''context-menu-radio-item''), (''className'',
     Cn [PStr ''focus:bg-accent focus:text-accent-foreground relative flex cursor-default items-center gap-2 rounded-sm py-1.5 pr-2 pl-8 text-sm outline-hidden select-none data-[disabled]:pointer-events-none data-[disabled]:opacity-50 [&_svg]:pointer-events-none [&_svg]:shrink-0 [&_svg:not([class*='size-'])]:size-4'', className])]))"

definition ContextMenuLabel :: "props \<Rightarrow> pv" where
  "ContextMenuLabel p = (let className = pget p ''className'';
     inset = pget p ''inset'';
     props = rest [''className'', ''inset''] p
   in Elem ''ContextMenuPrimitive.Label'' (props @ [(''data-slot'', PStr ''context-menu-label''),
     (''data-inset'', inset), (''className'', Cn [PStr ''text-foreground px-2 py-1.5 text-sm font-medium data-[inset]:pl-8'', className])]))"

definition ContextMenuSeparator :: "props \<Rightarrow> pv" where
  "ContextMenuSeparator p = (let className = pget p ''className'';
     props = rest [''className''] p
   in Elem ''ContextMenuPrimitive.Separator'' (props @ [(''data-slot'',
     PStr ''context-menu-separator''), (''className'', Cn [PStr ''bg-border -mx-1 my-1 h-px'', className])]))"

definition ContextMenuShortcut :: "props \<Rightarrow> pv" where
  "ContextMenuShortcut p = (let className = pget p ''className'';
     props = rest [''className''] p
   in Elem ''span'' (props @ [(''data-slot'', PStr ''context-menu-shortcut''),
     (''className'', Cn [PStr ''text-muted-foreground ml-auto text-xs tracking-widest'', className])]))"

lemma context_menu_contract [kit_contracts]:
  "follows ContextMenu ''context-menu'' []"
  "follows ContextMenuTrigger ''context-menu-trigger'' []"
  "follows ContextMenuGroup ''context-menu-group'' []"
  "follows ContextMenuPortal ''context-menu-portal'' []"
  "follows ContextMenuSub ''context-menu-sub'' []"
  "follows ContextMenuRadioGroup ''context-menu-radio-group'' []"
  "follows ContextMenuSubTrigger ''context-menu-sub-trigger'' [''className'', ''inset'', ''children'']"
  "follows ContextMenuSubContent ''context-menu-sub-content'' [''className'']"
  "follows ContextMenuContent ''context-menu-content'' [''className'']"
  "follows ContextMenuItem ''context-menu-item'' [''className'', ''inset'', ''variant'']"
  "follows ContextMenuCheckboxItem ''context-menu-checkbox-item'' [''className'', ''children'', ''checked'']"
  "follows ContextMenuRadioItem ''context-menu-radio-item'' [''className'', ''children'']"
  "follows ContextMenuLabel ''context-menu-label'' [''className'', ''inset'']"
  "follows ContextMenuSeparator ''context-menu-separator'' [''className'']"
  "follows ContextMenuShortcut ''context-menu-shortcut'' [''className'']"
  by (simp_all add: kit_simps ContextMenuCheckboxItem_def ContextMenuContent_def ContextMenuGroup_def ContextMenuItem_def ContextMenuLabel_def ContextMenuPortal_def ContextMenuRadioGroup_def ContextMenuRadioItem_def ContextMenuSeparator_def ContextMenuShortcut_def ContextMenuSubContent_def ContextMenuSubTrigger_def ContextMenuSub_def ContextMenuTrigger_def ContextMenu_def cong: kit_cong)

section \<open>\<open>menubar.tsx\<close>\<close>

definition Menubar :: "props \<Rightarrow> pv" where
  "Menubar p = (let className = pget p ''className'';
     props = rest [''className''] p
   in Elem ''MenubarPrimitive.Root'' (props @ [(''data-slot'', PStr ''menubar''),
     (''className'', Cn [PStr ''bg-background flex h-9 items-center gap-1 rounded-md border p-1 shadow-xs'', className])]))"

definition MenubarMenu :: "props \<Rightarrow> pv" where
  "MenubarMenu p = Elem ''MenubarPrimitive.Menu'' (p @ [(''data-slot'',
    PStr ''menubar-menu'')])"

definition MenubarGroup :: "props \<Rightarrow> pv" where
  "MenubarGroup p = Elem ''MenubarPrimitive.Group'' (p @ [(''data-slot'',
    PStr ''menubar-group'')])"

definition MenubarPortal :: "props \<Rightarrow> pv" where
  "MenubarPortal p = Elem ''MenubarPrimitive.Portal'' (p @ [(''data-slot'',
    PStr ''menubar-portal'')])"

definition MenubarRadioGroup :: "props \<Rightarrow> pv" where
  "MenubarRadioGroup p = Elem ''MenubarPrimitive.RadioGroup'' (p @ [(''data-slot'',
    PStr ''menubar-radio-group'')])"

definition MenubarTrigger :: "props \<Rightarrow> pv" where
  "MenubarTrigger p = (let className = pget p ''className'';
     props = rest [''className''] p
   in Elem ''MenubarPrimitive.Trigger'' (props @ [(''data-slot'', PStr ''menubar-trigger''),
     (''className'', Cn [PStr ''focus:bg-accent focus:text-accent-foreground data-[state=open]:bg-accent data-[state=open]:text-accent-foreground flex items-center rounded-sm px-2 py-1 text-sm font-medium outline-hidden select-none'', className])]))"

definition MenubarContent :: "props \<Rightarrow> pv" where
  "MenubarContent p = (let className = pget p ''className'';
     align = pget_or p ''align'' (PStr ''start'');
     alignOffset = pget_or p ''alignOffset'' (PNum (- 4));
     sideOffset = pget_or p ''sideOffset'' (PNum 8);
     props = rest [''className'', ''align'', ''alignOffset'', ''sideOffset''] p
   in MenubarPortal ([(''children'', Elem ''MenubarPrimitive.Content'' (props
     @ [(''data-slot'', PStr ''menubar-content''), (''align'', align), (''alignOffset'', alignOffset),
     (''sideOffset'', sideOffset), (''className'', Cn [PStr ''bg-popover text-popover-foreground data-[side=bottom]:slide-in-from-top-2 data-[side=left]:slide-in-from-right-2 data-[side=right]:slide-in-from-left-2 data-[side=top]:slide-in-from-bottom-2 data-[state=closed]:fade-out-0 data-[state=closed]:zoom-out-95 data-[state=open]:animate-in data-[state=open]:fade-in-0 data-[state=open]:zoom-in-95 z-50 min-w-[12rem] origin-(--radix-menubar-content-transform-origin) overflow-hidden rounded-md border p-1 shadow-md'', className])]))]))"

definition MenubarItem :: "props \<Rightarrow> pv" where
  "MenubarItem p = (let className = pget p ''className'';
     inset = pget p ''inset'';
     variant = pget_or p ''variant'' (PStr ''default'');
     props = rest [''className'', ''inset'', ''variant''] p
   in Elem ''MenubarPrimitive.Item'' (props @ [(''data-slot'', PStr ''menubar-item''),
     (''data-inset'', inset), (''data-variant'', variant), (''className'',
     Cn [PStr ''focus:bg-accent focus:text-accent-foreground data-[variant=destructive]:text-destructive data-[variant=destructive]:focus:bg-destructive/10 data-[variant=destructive]:focus:text-destructive dark:data-[variant=destructive]:focus:bg-destructive/20 [&_svg:not([class*='text-'])]:text-muted-foreground data-[variant=destructive]:*:[svg]:text-destructive! relative flex cursor-default items-center gap-2 rounded-sm px-2 py-1.5 text-sm outline-hidden select-none data-[disabled]:pointer-events-none data-[disabled]:opacity-50 data-[inset]:pl-8 [&_svg]:pointer-events-none [&_svg]:shrink-0 [&_svg:not([class*='size-'])]:size-4'', className])]))"

definition MenubarCheckboxItem :: "props \<Rightarrow> pv" where
  "MenubarCheckboxItem p = (let className = pget p ''className'';
     children = pget p ''children'';
     checked = pget p ''checked'';
     props = rest [''className'', ''children'', ''checked''] p
   in Elem ''MenubarPrimitive.CheckboxItem'' ([(''children'', PArr [Elem ''span'' ([(''children'',
     Elem ''MenubarPrimitive.ItemIndicator'' [(''children'', Elem ''CheckIcon'' [(''className'',
     PStr ''size-4'')])])] @ [(''className'', PStr ''pointer-events-none absolute left-2 flex size-3.5 items-center justify-center'')]), children])]
     @ props @ [(''data-slot'', PStr ''menubar-checkbox-item''), (''className'',
     Cn [PStr ''focus:bg-accent focus:text-accent-foreground relative flex cursor-default items-center gap-2 rounded-xs py-1.5 pr-2 pl-8 text-sm outline-hidden select-none data-[disabled]:pointer-events-none data-[disabled]:opacity-50 [&_svg]:pointer-events-none [&_svg]:shrink-0 [&_svg:not([class*='size-'])]:size-4'', className]),
     (''checked'', checked)]))"

definition MenubarRadioItem :: "props \<Rightarrow> pv" where
  "MenubarRadioItem p = (let className = pget p ''className'';
     children = pget p ''children'';
     props = rest [''className'', ''children''] p
   in Elem ''MenubarPrimitive.RadioItem'' ([(''children'', PArr [Elem ''span'' ([(''children'',
     Elem ''MenubarPrimitive.ItemIndicator'' [(''children'', Elem ''CircleIcon'' [(''className'',
     PStr ''size-2 fill-current'')])])] @ [(''className'', PStr ''pointer-events-none absolute left-2 flex size-3.5 items-center justify-center'')]), children])]
     @ props @ [(''data-slot'', PStr ''menubar-radio-item''), (''className'',
     Cn [PStr ''focus:bg-accent focus:text-accent-foreground relative flex cursor-default items-center gap-2 rounded-xs py-1.5 pr-2 pl-8 text-sm outline-hidden select-none data-[disabled]:pointer-events-none data-[disabled]:opacity-50 [&_svg]:pointer-events-none [&_svg]:shrink-0 [&_svg:not([class*='size-'])]:size-4'', className])]))"

definition MenubarLabel :: "props \<Rightarrow> pv" where
  "MenubarLabel p = (let className = pget p ''className'';
     inset = pget p ''inset'';
     props = rest [''className'', ''inset''] p
   in Elem ''MenubarPrimitive.Label'' (props @ [(''data-slot'', PStr ''menubar-label''),
     (''data-inset'', inset), (''className'', Cn [PStr ''px-2 py-1.5 text-sm font-medium data-[inset]:pl-8'', className])]))"

definition MenubarSeparator :: "props \<Rightarrow> pv" where
  "MenubarSeparator p = (let className = pget p ''className'';
     props = rest [''className''] p
   in Elem ''MenubarPrimitive.Separator'' (props @ [(''data-slot'', PStr ''menubar-separator''),
     (''className'', Cn [PStr ''bg-border -mx-1 my-1 h-px'', className])]))"

definition MenubarShortcut :: "props \<Rightarrow> pv" where
  "MenubarShortcut p = (let className = pget p ''className'';
     props = rest [''className''] p
   in Elem ''span'' (props @ [(''data-slot'', PStr ''menubar-shortcut''),
     (''className'', Cn [PStr ''text-muted-foreground ml-auto text-xs tracking-widest'', className])]))"

definition MenubarSub :: "props \<Rightarrow> pv" where
  "MenubarSub p = Elem ''MenubarPrimitive.Sub'' (p @ [(''data-slot'', PStr ''menubar-sub'')])"

definition MenubarSubTrigger :: "props \<Rightarrow> pv" where
  "MenubarSubTrigger p = (let className = pget p ''className'';
     inset = pget p ''inset'';
     children = pget p ''children'';
     props = rest [''className'', ''inset'', ''children''] p
   in Elem ''MenubarPrimitive.SubTrigger'' ([(''children'', PArr [children,
     Elem ''ChevronRightIcon'' [(''className'', PStr ''ml-auto h-4 w-4'')]])]
     @ props @ [(''data-slot'', PStr ''menubar-sub-trigger''), (''data-inset'', inset),
     (''className'', Cn [PStr ''focus:bg-accent focus:text-accent-foreground data-[state=open]:bg-accent data-[state=open]:text-accent-foreground flex cursor-default items-center rounded-sm px-2 py-1.5 text-sm outline-none select-none data-[inset]:pl-8'', className])]))"

definition MenubarSubContent :: "props \<Rightarrow> pv" where
  "MenubarSubContent p = (let className = pget p ''className'';
     props = rest [''className''] p
   in Elem ''MenubarPrimitive.SubContent'' (props @ [(''data-slot'', PStr ''menubar-sub-content''),
     (''className'', Cn [PStr ''bg-popover text-popover-foreground data-[side=bottom]:slide-in-from-top-2 data-[side=left]:slide-in-from-right-2 data-[side=right]:slide-in-from-left-2 data-[side=top]:slide-in-from-bottom-2 data-[state=closed]:animate-out data-[state=closed]:fade-out-0 data-[state=closed]:zoom-out-95 data-[state=open]:animate-in data-[state=open]:fade-in-0 data-[state=open]:zoom-in-95 z-50 min-w-[8rem] origin-(--radix-menubar-content-transform-origin) overflow-hidden rounded-md border p-1 shadow-lg'', className])]))"

lemma menubar_contract [kit_contracts]:
  "follows Menubar ''menubar'' [''className'']"
  "follows MenubarMenu ''menubar-menu'' []"
  "follows MenubarGroup ''menubar-group'' []"
  "follows MenubarPortal ''menubar-portal'' []"
  "follows MenubarRadioGroup ''menubar-radio-group'' []"
  "follows MenubarTrigger ''menubar-trigger'' [''className'']"
  "follows MenubarContent ''menubar-content'' [''className'', ''align'', ''alignOffset'', ''sideOffset'']"
  "follows MenubarItem ''menubar-item'' [''className'', ''inset'', ''variant'']"
  "follows MenubarCheckboxItem ''menubar-checkbox-item'' [''className'', ''children'', ''checked'']"
  "follows MenubarRadioItem ''menubar-radio-item'' [''className'', ''children'']"
  "follows MenubarLabel ''menubar-label'' [''className'', ''inset'']"
  "follows MenubarSeparator ''menubar-separator'' [''className'']"
  "follows MenubarShortcut ''menubar-shortcut'' [''className'']"
  "follows MenubarSub ''menubar-sub'' []"
  "follows MenubarSubTrigger ''menubar-sub-trigger'' [''className'', ''inset'', ''children'']"
  "follows MenubarSubContent ''menubar-sub-content'' [''className'']"
  by (simp_all add: kit_simps MenubarCheckboxItem_def MenubarContent_def MenubarGroup_def MenubarItem_def MenubarLabel_def MenubarMenu_def MenubarPortal_def MenubarRadioGroup_def MenubarRadioItem_def MenubarSeparator_def MenubarShortcut_def MenubarSubContent_def MenubarSubTrigger_def MenubarSub_def MenubarTrigger_def Menubar_def cong: kit_cong)

section \<open>\<open>navigation-menu.tsx\<close>\<close>

definition NavigationMenuList :: "props \<Rightarrow> pv" where
  "NavigationMenuList p = (let className = pget p ''className'';
     props = rest [''className''] p
   in Elem ''NavigationMenuPrimitive.List'' (props @ [(''data-slot'', PStr ''navigation-menu-list''),
     (''className'', Cn [PStr ''group flex flex-1 list-none items-center justify-center gap-1'', className])]))"

definition NavigationMenuItem :: "props \<Rightarrow> pv" where
  "NavigationMenuItem p = (let className = pget p ''className'';
     props = rest [''className''] p
   in Elem ''NavigationMenuPrimitive.Item'' (props @ [(''data-slot'', PStr ''navigation-menu-item''),
     (''className'', Cn [PStr ''relative'', className])]))"

definition navigationMenuTriggerStyle :: "props \<Rightarrow> pv" where
  "navigationMenuTriggerStyle args = Cva ''group inline-flex h-9 w-max items-center justify-center rounded-md bg-background px-4 py-2 text-sm font-medium transition-[color,box-shadow] outline-none hover:bg-accent hover:text-accent-foreground focus:bg-accent focus:text-accent-foreground focus-visible:ring-[3px] focus-visible:ring-ring/50 focus-visible:outline-1 disabled:pointer-events-none disabled:opacity-50 data-[state=open]:bg-accent/50 data-[state=open]:text-accent-foreground data-[state=open]:hover:bg-accent data-[state=open]:focus:bg-accent''
     []
     [] args"

definition NavigationMenuTrigger :: "props \<Rightarrow> pv" where
  "NavigationMenuTrigger p = (let className = pget p ''className'';
     children = pget p ''children'';
     props = rest [''className'', ''children''] p
   in Elem ''NavigationMenuPrimitive.Trigger'' ([(''children'', PArr [children,
     PStr '' '', Elem ''ChevronDownIcon'' [(''className'', PStr ''relative top-[1px] ml-1 size-3 transition duration-300 group-data-[state=open]:rotate-180''),
     (''aria-hidden'', PStr ''true'')]])] @ props @ [(''data-slot'', PStr ''navigation-menu-trigger''),
     (''className'', Cn [navigationMenuTriggerStyle [], PStr ''group'', className])]))"

definition NavigationMenuContent :: "props \<Rightarrow> pv" where
  "NavigationMenuContent p = (let className = pget p ''className'';
     props = rest [''className''] p
   in Elem ''NavigationMenuPrimitive.Content'' (props @ [(''data-slot'',
     PStr ''navigation-menu-content''), (''className'', Cn [PStr ''data-[motion=from-end]:slide-in-from-right-52 data-[motion=from-start]:slide-in-from-left-52 data-[motion=to-end]:slide-out-to-right-52 data-[motion=to-start]:slide-out-to-left-52 data-[motion^=from-]:animate-in data-[motion^=from-]:fade-in data-[motion^=to-]:animate-out data-[motion^=to-]:fade-out top-0 left-0 w-full p-2 pr-2.5 md:absolute md:w-auto'',
     PStr ''group-data-[viewport=false]/navigation-menu:bg-popover group-data-[viewport=false]/navigation-menu:text-popover-foreground group-data-[viewport=false]/navigation-menu:data-[state=closed]:animate-out group-data-[viewport=false]/navigation-menu:data-[state=closed]:fade-out-0 group-data-[viewport=false]/navigation-menu:data-[state=closed]:zoom-out-95 group-data-[viewport=false]/navigation-menu:data-[state=open]:animate-in group-data-[viewport=false]/navigation-menu:data-[state=open]:fade-in-0 group-data-[viewport=false]/navigation-menu:data-[state=open]:zoom-in-95 group-data-[viewport=false]/navigation-menu:top-full group-data-[viewport=false]/navigation-menu:mt-1.5 group-data-[viewport=false]/navigation-menu:overflow-hidden group-data-[viewport=false]/navigation-menu:rounded-md group-data-[viewport=false]/navigation-menu:border group-data-[viewport=false]/navigation-menu:shadow group-data-[viewport=false]/navigation-menu:duration-200 **:data-[slot=navigation-menu-link]:focus:ring-0 **:data-[slot=navigation-menu-link]:focus:outline-none'', className])]))"

definition NavigationMenuViewport :: "props \<Rightarrow> pv" where
  "NavigationMenuViewport p = (let className = pget p ''className'';
     props = rest [''className''] p
   in Elem ''div'' ([(''children'', Elem ''NavigationMenuPrimitive.Viewport'' (props
     @ [(''data-slot'', PStr ''navigation-menu-viewport''), (''className'',
     Cn [PStr ''origin-top-center bg-popover text-popover-foreground data-[state=closed]:animate-out data-[state=closed]:zoom-out-95 data-[state=open]:animate-in data-[state=open]:zoom-in-90 relative mt-1.5 h-[var(--radix-navigation-menu-viewport-height)] w-full overflow-hidden rounded-md border shadow md:w-[var(--radix-navigation-menu-viewport-width)]'', className])]))]
     @ [(''className'', Cn [PStr ''absolute top-full left-0 isolate z-50 flex justify-center''])]))"

definition NavigationMenuLink :: "props \<Rightarrow> pv" where
  "NavigationMenuLink p = (let className = pget p ''className'';
     props = rest [''className''] p
   in Elem ''NavigationMenuPrimitive.Link'' (props @ [(''data-slot'', PStr ''navigation-menu-link''),
     (''className'', Cn [PStr ''hover:bg-accent hover:text-accent-foreground focus:bg-accent focus:text-accent-foreground focus-visible:ring-ring/50 data-[active=true]:bg-accent/50 data-[active=true]:text-accent-foreground data-[active=true]:hover:bg-accent data-[active=true]:focus:bg-accent [&_svg:not([class*='text-'])]:text-muted-foreground flex flex-col gap-1 rounded-sm p-2 text-sm transition-all outline-none focus-visible:ring-[3px] focus-visible:outline-1 [&_svg:not([class*='size-'])]:size-4'', className])]))"

definition NavigationMenuIndicator :: "props \<Rightarrow> pv" where
  "NavigationMenuIndicator p = (let className = pget p ''className'';
     props = rest [''className''] p
   in Elem ''NavigationMenuPrimitive.Indicator'' ([(''children'', Elem ''div'' [(''className'',
     PStr ''bg-border relative top-[60%] h-2 w-2 rotate-45 rounded-tl-sm shadow-md'')])]
     @ props @ [(''data-slot'', PStr ''navigation-menu-indicator''), (''className'',
     Cn [PStr ''data-[state=hidden]:animate-out data-[state=hidden]:fade-out data-[state=visible]:animate-in data-[state=visible]:fade-in top-full z-[1] flex h-1.5 items-end justify-center overflow-hidden'', className])]))"

definition NavigationMenu :: "props \<Rightarrow> pv" where
  "NavigationMenu p = (let className = pget p ''className'';
     children = pget p ''children'';
     viewport = pget_or p ''viewport'' (PBool True);
     props = rest [''className'', ''children'', ''viewport''] p
   in Elem ''NavigationMenuPrimitive.Root'' ([(''children'', PArr [children,
     if is_truthy viewport then NavigationMenuViewport [] else viewport])]
     @ props @ [(''data-slot'', PStr ''navigation-menu''), (''data-viewport'', viewport),
     (''className'', Cn [PStr ''group/navigation-menu relative flex max-w-max flex-1 items-center justify-center'', className])]))"

lemma navigation_menu_contract [kit_contracts]:
  "follows NavigationMenu ''navigation-menu'' [''className'', ''children'', ''viewport'']"
  "follows NavigationMenuList ''navigation-menu-list'' [''className'']"
  "follows NavigationMenuItem ''navigation-menu-item'' [''className'']"
  "follows NavigationMenuTrigger ''navigation-menu-trigger'' [''className'', ''children'']"
  "follows NavigationMenuContent ''navigation-menu-content'' [''className'']"
  "follows NavigationMenuViewport ''navigation-menu-viewport'' [''className'']"
  "follows NavigationMenuLink ''navigation-menu-link'' [''className'']"
  "follows NavigationMenuIndicator ''navigation-menu-indicator'' [''className'', ''children'']"
  by (simp_all add: kit_simps NavigationMenuContent_def NavigationMenuIndicator_def NavigationMenuItem_def NavigationMenuLink_def NavigationMenuList_def NavigationMenuTrigger_def NavigationMenuViewport_def NavigationMenu_def navigationMenuTriggerStyle_def cong: kit_cong)

section \<open>\<open>command.tsx\<close>\<close>

definition Command :: "props \<Rightarrow> pv" where
  "Command p = (let className = pget p ''className'';
     props = rest [''className''] p
   in Elem ''CommandPrimitive'' (props @ [(''data-slot'', PStr ''command''),
     (''className'', Cn [PStr ''bg-popover text-popover-foreground flex h-full w-full flex-col overflow-hidden rounded-md'', className])]))"

definition CommandDialog :: "props \<Rightarrow> pv" where
  "CommandDialog p = (let title' = pget_or p ''title'' (PStr ''Command Palette'');
     description = pget_or p ''description'' (PStr ''Search for a command to run...'');
     children = pget p ''children'';
     className = pget p ''className'';
     showCloseButton = pget_or p ''showCloseButton'' (PBool True);
     props = rest [''title'', ''description'', ''children'', ''className'', ''showCloseButton''] p
   in Dialog ([(''children'', PArr [DialogHeader ([(''children'', PArr [DialogTitle [(''children'', title')],
     DialogDescription [(''children'', description)]])] @ [(''className'',
     PStr ''sr-only'')]), DialogContent ([(''children'', Elem ''Command'' ([(''children'', children)]
     @ [(''className'', PStr ''[&_[cmdk-group-heading]]:text-muted-foreground **:data-[slot=command-input-wrapper]:h-12 [&_[cmdk-group-heading]]:px-2 [&_[cmdk-group-heading]]:font-medium [&_[cmdk-group]]:px-2 [&_[cmdk-group]:not([hidden])_~[cmdk-group]]:pt-0 [&_[cmdk-input-wrapper]_svg]:h-5 [&_[cmdk-input-wrapper]_svg]:w-5 [&_[cmdk-input]]:h-12 [&_[cmdk-item]]:px-2 [&_[cmdk-item]]:py-3 [&_[cmdk-item]_svg]:h-5 [&_[cmdk-item]_svg]:w-5'')]))]
     @ [(''className'', Cn [PStr ''overflow-hidden p-0'', className]), (''showCloseButton'', showCloseButton)])])]
     @ props))"

definition CommandInput :: "props \<Rightarrow> pv" where
  "CommandInput p = (let className = pget p ''className'';
     props = rest [''className''] p
   in Elem ''div'' ([(''children'', PArr [Elem ''SearchIcon'' [(''className'',
     PStr ''size-4 shrink-0 opacity-50'')], Elem ''CommandPrimitive.Input'' (props
     @ [(''data-slot'', PStr ''command-input''), (''className'', Cn [PStr ''placeholder:text-muted-foreground flex h-10 w-full rounded-md bg-transparent py-3 text-sm outline-hidden disabled:cursor-not-allowed disabled:opacity-50'', className])])])]
     @ [(''data-slot'', PStr ''command-input-wrapper''), (''className'',
     PStr ''flex h-9 items-center gap-2 border-b px-3'')]))"

definition CommandList :: "props \<Rightarrow> pv" where
  "CommandList p = (let className = pget p ''className'';
     props = rest [''className''] p
   in Elem ''CommandPrimitive.List'' (props @ [(''data-slot'', PStr ''command-list''),
     (''className'', Cn [PStr ''max-h-[300px] scroll-py-1 overflow-x-hidden overflow-y-auto'', className])]))"

definition CommandEmpty :: "props \<Rightarrow> pv" where
  "CommandEmpty p = Elem ''CommandPrimitive.Empty'' (p @ [(''data-slot'',
    PStr ''command-empty''), (''className'', PStr ''py-6 text-center text-sm'')])"

definition CommandGroup :: "props \<Rightarrow> pv" where
  "CommandGroup p = (let className = pget p ''className'';
     props = rest [''className''] p
   in Elem ''CommandPrimitive.Group'' (props @ [(''data-slot'', PStr ''command-group''),
     (''className'', Cn [PStr ''text-foreground [&_[cmdk-group-heading]]:text-muted-foreground overflow-hidden p-1 [&_[cmdk-group-heading]]:px-2 [&_[cmdk-group-heading]]:py-1.5 [&_[cmdk-group-heading]]:text-xs [&_[cmdk-group-heading]]:font-medium'', className])]))"

definition CommandSeparator :: "props \<Rightarrow> pv" where
  "CommandSeparator p = (let className = pget p ''className'';
     props = rest [''className''] p
   in Elem ''CommandPrimitive.Separator'' (props @ [(''data-slot'', PStr ''command-separator''),
     (''className'', Cn [PStr ''bg-border -mx-1 h-px'', className])]))"

definition CommandItem :: "props \<Rightarrow> pv" where
  "CommandItem p = (let className = pget p ''className'';
     props = rest [''className''] p
   in Elem ''CommandPrimitive.Item'' (props @ [(''data-slot'', PStr ''command-item''),
     (''className'', Cn [PStr ''data-[selected=true]:bg-accent data-[selected=true]:text-accent-foreground [&_svg:not([class*='text-'])]:text-muted-foreground relative flex cursor-default items-center gap-2 rounded-sm px-2 py-1.5 text-sm outline-hidden select-none data-[disabled=true]:pointer-events-none data-[disabled=true]:opacity-50 [&_svg]:pointer-events-none [&_svg]:shrink-0 [&_svg:not([class*='size-'])]:size-4'', className])]))"

definition CommandShortcut :: "props \<Rightarrow> pv" where
  "CommandShortcut p = (let className = pget p ''className'';
     props = rest [''className''] p
   in Elem ''span'' (props @ [(''data-slot'', PStr ''command-shortcut''),
     (''className'', Cn [PStr ''text-muted-foreground ml-auto text-xs tracking-widest'', className])]))"

lemma command_contract [kit_contracts]:
  "follows Command ''command'' [''className'']"
  "follows CommandDialog ''dialog'' [''title'', ''description'', ''children'', ''className'', ''showCloseButton'']"
  "follows CommandInput ''command-input'' [''className'']"
  "follows CommandList ''command-list'' [''className'']"
  "follows CommandEmpty ''command-empty'' []"
  "follows CommandGroup ''command-group'' [''className'']"
  "follows CommandSeparator ''command-separator'' [''className'']"
  "follows CommandItem ''command-item'' [''className'']"
  "follows CommandShortcut ''command-shortcut'' [''className'']"
  by (simp_all add: kit_simps CommandDialog_def CommandEmpty_def CommandGroup_def CommandInput_def CommandItem_def CommandList_def CommandSeparator_def CommandShortcut_def Command_def DialogContent_def DialogDescription_def DialogHeader_def DialogOverlay_def DialogPortal_def DialogTitle_def Dialog_def cong: kit_cong)

section \<open>\<open>message-scroller.tsx\<close>\<close>

definition MessageScrollerProvider :: "props \<Rightarrow> pv" where
  "MessageScrollerProvider p = Elem ''MessageScrollerPrimitive.Provider'' p"

definition MessageScroller :: "props \<Rightarrow> pv" where
  "MessageScroller p = (let className = pget p ''className'';
     props = rest [''className''] p
   in Elem ''MessageScrollerPrimitive.Root'' (props @ [(''data-slot'', PStr ''message-scroller''),
     (''className'', Cn [PStr ''group/message-scroller relative flex size-full min-h-0 flex-col overflow-hidden'', className])]))"

definition MessageScrollerViewport :: "props \<Rightarrow> pv" where
  "MessageScrollerViewport p = (let className = pget p ''className'';
     props = rest [''className''] p
   in Elem ''MessageScrollerPrimitive.Viewport'' (props @ [(''data-slot'',
     PStr ''message-scroller-viewport''), (''className'', Cn [PStr ''scroll-fade-b size-full min-h-0 min-w-0 scrollbar-thin scrollbar-gutter-stable overflow-y-auto overscroll-contain contain-content data-autoscrolling:scrollbar-none'', className])]))"

definition MessageScrollerContent :: "props \<Rightarrow> pv" where
  "MessageScrollerContent p = (let className = pget p ''className'';
     props = rest [''className''] p
   in Elem ''MessageScrollerPrimitive.Content'' (props @ [(''data-slot'',
     PStr ''message-scroller-content''), (''className'', Cn [PStr ''flex h-max min-h-full flex-col gap-8'', className])]))"

definition MessageScrollerItem :: "props \<Rightarrow> pv" where
  "MessageScrollerItem p = (let className = pget p ''className'';
     scrollAnchor = pget_or p ''scrollAnchor'' (PBool False);
     props = rest [''className'', ''scrollAnchor''] p
   in Elem ''MessageScrollerPrimitive.Item'' (props @ [(''data-slot'', PStr ''message-scroller-item''),
     (''scrollAnchor'', scrollAnchor), (''className'', Cn [PStr ''min-w-0 shrink-0 [contain-intrinsic-size:auto_10rem] [content-visibility:auto]'', className])]))"

definition MessageScrollerButton :: "props \<Rightarrow> pv" where
  "MessageScrollerButton p = (let direction = pget_or p ''direction'' (PStr ''end'');
     className = pget p ''className'';
     children = pget p ''children'';
     render = pget p ''render'';
     variant = pget_or p ''variant'' (PStr ''secondary'');
     size' = pget_or p ''size'' (PStr ''icon-sm'');
     props = rest [''direction'', ''className'', ''children'', ''render'', ''variant'', ''size''] p
   in Elem ''MessageScrollerPrimitive.Button'' ([(''children'', nullish children (Elem ''Fragment'' ([(''children'',
     PArr [Elem ''ArrowDownIcon'' [], Elem ''span'' ([(''children'', if direction = PStr ''end'' then PStr ''Scroll to end'' else PStr ''Scroll to start'')]
     @ [(''className'', PStr ''sr-only'')])])])))] @ props @ [(''data-slot'',
     PStr ''message-scroller-button''), (''data-direction'', direction),
     (''data-variant'', variant), (''data-size'', size'), (''direction'', direction),
     (''className'', Cn [PStr ''border-border bg-background text-foreground hover:bg-muted hover:text-foreground absolute inset-s-1/2 -translate-x-1/2 transition-[translate,scale,opacity] duration-200 data-[active=false]:pointer-events-none data-[active=false]:scale-95 data-[active=false]:opacity-0 data-[active=false]:duration-400 data-[active=false]:ease-[cubic-bezier(0.7,0,0.84,0)] data-[active=true]:translate-y-0 data-[active=true]:scale-100 data-[active=true]:opacity-100 data-[active=true]:ease-[cubic-bezier(0.23,1,0.32,1)] data-[direction=end]:bottom-4 data-[direction=end]:data-[active=false]:translate-y-full data-[direction=start]:top-4 data-[direction=start]:data-[active=false]:-translate-y-full rtl:translate-x-1/2 data-[direction=start]:[&_svg]:rotate-180'', className]),
     (''render'', nullish render (Button_ui [(''variant'', variant), (''size'', size')]))]))"

lemma message_scroller_contract [kit_contracts]:
  "follows MessageScroller ''message-scroller'' [''className'']"
  "follows MessageScrollerViewport ''message-scroller-viewport'' [''className'']"
  "follows MessageScrollerContent ''message-scroller-content'' [''className'']"
  "follows MessageScrollerItem ''message-scroller-item'' [''className'', ''scrollAnchor'']"
  "follows MessageScrollerButton ''message-scroller-button'' [''direction'', ''className'', ''children'', ''render'', ''variant'', ''size'']"
  by (simp_all add: kit_simps Button_ui_def MessageScrollerButton_def MessageScrollerContent_def MessageScrollerItem_def MessageScrollerViewport_def MessageScroller_def buttonVariants_def cong: kit_cong)

section \<open>\<open>sonner.tsx\<close>\<close>

definition Toaster :: "pv \<Rightarrow> props \<Rightarrow> pv" where
  "Toaster theme_context p = (let theme = (if field_of theme_context ''theme'' = PUndef then PStr ''system'' else field_of theme_context ''theme'')
   in Elem ''Sonner'' (p @
     [(''theme'', theme), (''className'', PStr ''toaster group''),
      (''icons'', PObj
        [(''success'', Elem ''CircleCheckIcon'' [(''className'', PStr ''size-4'')]),
         (''info'', Elem ''InfoIcon'' [(''className'', PStr ''size-4'')]),
         (''warning'', Elem ''TriangleAlertIcon'' [(''className'', PStr ''size-4'')]),
         (''error'', Elem ''OctagonXIcon'' [(''className'', PStr ''size-4'')]),
         (''loading'', Elem ''Loader2Icon'' [(''className'', PStr ''size-4 animate-spin'')])]),
      (''style'', PObj
        [(''--normal-bg'', PStr ''var(--popover)''), (''--normal-text'', PStr ''var(--popover-foreground)''),
         (''--normal-border'', PStr ''var(--border)''), (''--border-radius'', PStr ''var(--radius)'')])]))"

section \<open>The components and their contract\<close>

definition overlays :: "((props \<Rightarrow> pv) \<times> string \<times> string list) list" where
  "overlays =
    [(Dialog, ''dialog'', []),
     (DialogTrigger, ''dialog-trigger'', []),
     (DialogPortal, ''dialog-portal'', []),
     (DialogClose, ''dialog-close'', []),
     (DialogOverlay, ''dialog-overlay'', [''className'']),
     (DialogContent, ''dialog-content'', [''className'', ''children'', ''showCloseButton'']),
     (DialogHeader, ''dialog-header'', [''className'']),
     (DialogFooter, ''dialog-footer'', [''className'', ''showCloseButton'', ''children'']),
     (DialogTitle, ''dialog-title'', [''className'']),
     (DialogDescription, ''dialog-description'', [''className'']),
     (AlertDialog, ''alert-dialog'', []),
     (AlertDialogTrigger, ''alert-dialog-trigger'', []),
     (AlertDialogPortal, ''alert-dialog-portal'', []),
     (AlertDialogOverlay, ''alert-dialog-overlay'', [''className'']),
     (AlertDialogContent, ''alert-dialog-content'', [''className'', ''size'']),
     (AlertDialogHeader, ''alert-dialog-header'', [''className'']),
     (AlertDialogFooter, ''alert-dialog-footer'', [''className'']),
     (AlertDialogTitle, ''alert-dialog-title'', [''className'']),
     (AlertDialogDescription, ''alert-dialog-description'', [''className'']),
     (AlertDialogMedia, ''alert-dialog-media'', [''className'']),
     (AlertDialogAction, ''alert-dialog-action'', [''className'', ''variant'', ''size'']),
     (AlertDialogCancel, ''alert-dialog-cancel'', [''className'', ''variant'', ''size'']),
     (Sheet, ''sheet'', []),
     (SheetTrigger, ''sheet-trigger'', []),
     (SheetClose, ''sheet-close'', []),
     (SheetPortal, ''sheet-portal'', []),
     (SheetOverlay, ''sheet-overlay'', [''className'']),
     (SheetContent, ''sheet-content'', [''className'', ''children'', ''side'', ''showCloseButton'']),
     (SheetHeader, ''sheet-header'', [''className'']),
     (SheetFooter, ''sheet-footer'', [''className'']),
     (SheetTitle, ''sheet-title'', [''className'']),
     (SheetDescription, ''sheet-description'', [''className'']),
     (Drawer, ''drawer'', []),
     (DrawerTrigger, ''drawer-trigger'', []),
     (DrawerPortal, ''drawer-portal'', []),
     (DrawerClose, ''drawer-close'', []),
     (DrawerOverlay, ''drawer-overlay'', [''className'']),
     (DrawerContent, ''drawer-content'', [''className'', ''children'']),
     (DrawerHeader, ''drawer-header'', [''className'']),
     (DrawerFooter, ''drawer-footer'', [''className'']),
     (DrawerTitle, ''drawer-title'', [''className'']),
     (DrawerDescription, ''drawer-description'', [''className'']),
     (Popover, ''popover'', []),
     (PopoverTrigger, ''popover-trigger'', []),
     (PopoverContent, ''popover-content'', [''className'', ''align'', ''sideOffset'']),
     (PopoverAnchor, ''popover-anchor'', []),
     (PopoverHeader, ''popover-header'', [''className'']),
     (PopoverTitle, ''popover-title'', [''className'']),
     (PopoverDescription, ''popover-description'', [''className'']),
     (TooltipProvider, ''tooltip-provider'', [''delayDuration'']),
     (Tooltip, ''tooltip'', []),
     (TooltipTrigger, ''tooltip-trigger'', []),
     (TooltipContent, ''tooltip-content'', [''className'', ''sideOffset'', ''children'']),
     (HoverCard, ''hover-card'', []),
     (HoverCardTrigger, ''hover-card-trigger'', []),
     (HoverCardContent, ''hover-card-content'', [''className'', ''align'', ''sideOffset'']),
     (DropdownMenu, ''dropdown-menu'', []),
     (DropdownMenuPortal, ''dropdown-menu-portal'', []),
     (DropdownMenuTrigger, ''dropdown-menu-trigger'', []),
     (DropdownMenuContent, ''dropdown-menu-content'', [''className'', ''sideOffset'']),
     (DropdownMenuGroup, ''dropdown-menu-group'', []),
     (DropdownMenuItem, ''dropdown-menu-item'', [''className'', ''inset'', ''variant'']),
     (DropdownMenuCheckboxItem, ''dropdown-menu-checkbox-item'', [''className'', ''children'', ''checked'']),
     (DropdownMenuRadioGroup, ''dropdown-menu-radio-group'', []),
     (DropdownMenuRadioItem, ''dropdown-menu-radio-item'', [''className'', ''children'']),
     (DropdownMenuLabel, ''dropdown-menu-label'', [''className'', ''inset'']),
     (DropdownMenuSeparator, ''dropdown-menu-separator'', [''className'']),
     (DropdownMenuShortcut, ''dropdown-menu-shortcut'', [''className'']),
     (DropdownMenuSub, ''dropdown-menu-sub'', []),
     (DropdownMenuSubTrigger, ''dropdown-menu-sub-trigger'', [''className'', ''inset'', ''children'']),
     (DropdownMenuSubContent, ''dropdown-menu-sub-content'', [''className'']),
     (ContextMenu, ''context-menu'', []),
     (ContextMenuTrigger, ''context-menu-trigger'', []),
     (ContextMenuGroup, ''context-menu-group'', []),
     (ContextMenuPortal, ''context-menu-portal'', []),
     (ContextMenuSub, ''context-menu-sub'', []),
     (ContextMenuRadioGroup, ''context-menu-radio-group'', []),
     (ContextMenuSubTrigger, ''context-menu-sub-trigger'', [''className'', ''inset'', ''children'']),
     (ContextMenuSubContent, ''context-menu-sub-content'', [''className'']),
     (ContextMenuContent, ''context-menu-content'', [''className'']),
     (ContextMenuItem, ''context-menu-item'', [''className'', ''inset'', ''variant'']),
     (ContextMenuCheckboxItem, ''context-menu-checkbox-item'', [''className'', ''children'', ''checked'']),
     (ContextMenuRadioItem, ''context-menu-radio-item'', [''className'', ''children'']),
     (ContextMenuLabel, ''context-menu-label'', [''className'', ''inset'']),
     (ContextMenuSeparator, ''context-menu-separator'', [''className'']),
     (ContextMenuShortcut, ''context-menu-shortcut'', [''className'']),
     (Menubar, ''menubar'', [''className'']),
     (MenubarMenu, ''menubar-menu'', []),
     (MenubarGroup, ''menubar-group'', []),
     (MenubarPortal, ''menubar-portal'', []),
     (MenubarRadioGroup, ''menubar-radio-group'', []),
     (MenubarTrigger, ''menubar-trigger'', [''className'']),
     (MenubarContent, ''menubar-content'', [''className'', ''align'', ''alignOffset'', ''sideOffset'']),
     (MenubarItem, ''menubar-item'', [''className'', ''inset'', ''variant'']),
     (MenubarCheckboxItem, ''menubar-checkbox-item'', [''className'', ''children'', ''checked'']),
     (MenubarRadioItem, ''menubar-radio-item'', [''className'', ''children'']),
     (MenubarLabel, ''menubar-label'', [''className'', ''inset'']),
     (MenubarSeparator, ''menubar-separator'', [''className'']),
     (MenubarShortcut, ''menubar-shortcut'', [''className'']),
     (MenubarSub, ''menubar-sub'', []),
     (MenubarSubTrigger, ''menubar-sub-trigger'', [''className'', ''inset'', ''children'']),
     (MenubarSubContent, ''menubar-sub-content'', [''className'']),
     (NavigationMenu, ''navigation-menu'', [''className'', ''children'', ''viewport'']),
     (NavigationMenuList, ''navigation-menu-list'', [''className'']),
     (NavigationMenuItem, ''navigation-menu-item'', [''className'']),
     (NavigationMenuTrigger, ''navigation-menu-trigger'', [''className'', ''children'']),
     (NavigationMenuContent, ''navigation-menu-content'', [''className'']),
     (NavigationMenuViewport, ''navigation-menu-viewport'', [''className'']),
     (NavigationMenuLink, ''navigation-menu-link'', [''className'']),
     (NavigationMenuIndicator, ''navigation-menu-indicator'', [''className'', ''children'']),
     (Command, ''command'', [''className'']),
     (CommandDialog, ''dialog'', [''title'', ''description'', ''children'', ''className'', ''showCloseButton'']),
     (CommandInput, ''command-input'', [''className'']),
     (CommandList, ''command-list'', [''className'']),
     (CommandEmpty, ''command-empty'', []),
     (CommandGroup, ''command-group'', [''className'']),
     (CommandSeparator, ''command-separator'', [''className'']),
     (CommandItem, ''command-item'', [''className'']),
     (CommandShortcut, ''command-shortcut'', [''className'']),
     (MessageScroller, ''message-scroller'', [''className'']),
     (MessageScrollerViewport, ''message-scroller-viewport'', [''className'']),
     (MessageScrollerContent, ''message-scroller-content'', [''className'']),
     (MessageScrollerItem, ''message-scroller-item'', [''className'', ''scrollAnchor'']),
     (MessageScrollerButton, ''message-scroller-button'', [''direction'', ''className'', ''children'', ''render'', ''variant'', ''size''])]"

lemma overlays_follow: "list_all (\<lambda>(component, slot, own). follows component slot own) overlays"
  by (simp add: overlays_def kit_contracts)

end
