(* ===== verification/KitSidebar.thy ===== *)
theory KitSidebar
  imports KitOverlays
begin

text \<open>
  The sidebar of the kit: its state machine, its context and its parts
  (\<open>web/src/components/ui\<close>), each component as a function from its properties to what it
  renders.

  The provider's handlers close over the properties and state of the render they belong to, so a step
  of the machine uses the last render's \<open>sidebar_render\<close>, and \<open>Render\<close> makes a new one: events between two
  renders are a batch. Its effects on the document are the cookie and the calls of \<open>onOpenChange\<close>.
\<close>

section \<open>The width of the window (\<open>hooks/use-mobile.ts\<close>)\<close>

definition MOBILE_BREAKPOINT :: int where
  "MOBILE_BREAKPOINT = 768"

text \<open>The media query \<open>(max-width: ...px)\<close> reports a change of its answer; the hook then reads the width
  itself. Before the effect has run the state is \<open>undefined\<close>.\<close>

record mobile_hook =
  mh_width :: int
  mh_isMobile :: "bool option"

definition media_matches :: "int \<Rightarrow> bool" where
  "media_matches w \<longleftrightarrow> w \<le> MOBILE_BREAKPOINT - 1"

definition mobile_onChange :: "mobile_hook \<Rightarrow> mobile_hook" where
  "mobile_onChange h = h\<lparr>mh_isMobile := Some (mh_width h < MOBILE_BREAKPOINT)\<rparr>"

definition mobile_mount :: "mobile_hook \<Rightarrow> mobile_hook" where
  "mobile_mount h = mobile_onChange h"

definition mobile_resize :: "int \<Rightarrow> mobile_hook \<Rightarrow> mobile_hook" where
  "mobile_resize w h = (let h' = h\<lparr>mh_width := w\<rparr> in
     if mh_isMobile h \<noteq> None \<and> media_matches w \<noteq> media_matches (mh_width h) then mobile_onChange h' else h')"

definition useIsMobile :: "mobile_hook \<Rightarrow> bool" where
  "useIsMobile h = (mh_isMobile h = Some True)"

section \<open>The state of the provider\<close>

definition SIDEBAR_COOKIE_NAME :: string where "SIDEBAR_COOKIE_NAME = ''sidebar_state''"
definition SIDEBAR_COOKIE_MAX_AGE :: nat where "SIDEBAR_COOKIE_MAX_AGE = 60 * 60 * 24 * 7"
definition SIDEBAR_WIDTH :: string where "SIDEBAR_WIDTH = ''16rem''"
definition SIDEBAR_WIDTH_MOBILE :: string where "SIDEBAR_WIDTH_MOBILE = ''18rem''"
definition SIDEBAR_WIDTH_ICON :: string where "SIDEBAR_WIDTH_ICON = ''3rem''"
definition SIDEBAR_KEYBOARD_SHORTCUT :: string where "SIDEBAR_KEYBOARD_SHORTCUT = ''b''"

text \<open>\<open>openProp\<close> is absent, or a boolean of the parent; \<open>setOpenProp\<close> says whether \<open>onOpenChange\<close> was passed.\<close>

record sidebar_props =
  openProp :: "bool option"
  setOpenProp :: bool

record sidebar_render =
  r_open :: bool
  r_isMobile :: bool
  r_setOpenProp :: bool

record sidebar =
  sb_open :: bool
  sb_openMobile :: bool
  sb_mobile :: mobile_hook
  sb_cookie :: "string option"
  sb_calls :: "bool list"
  sb_render :: sidebar_render

definition sidebar_rendered :: "sidebar_props \<Rightarrow> sidebar \<Rightarrow> sidebar" where
  "sidebar_rendered q s = s\<lparr>sb_render := \<lparr>r_open = (case openProp q of Some b \<Rightarrow> b | None \<Rightarrow> sb_open s),
     r_isMobile = useIsMobile (sb_mobile s), r_setOpenProp = setOpenProp q\<rparr>\<rparr>"

definition sidebar_mounted :: "sidebar_props \<Rightarrow> bool \<Rightarrow> int \<Rightarrow> string option \<Rightarrow> sidebar" where
  "sidebar_mounted q defaultOpen width cookie = sidebar_rendered q
     \<lparr>sb_open = defaultOpen, sb_openMobile = False,
      sb_mobile = mobile_mount \<lparr>mh_width = width, mh_isMobile = None\<rparr>,
      sb_cookie = cookie, sb_calls = [],
      sb_render = \<lparr>r_open = defaultOpen, r_isMobile = False, r_setOpenProp = False\<rparr>\<rparr>"

definition cookie_text :: "bool \<Rightarrow> string" where
  "cookie_text openState = SIDEBAR_COOKIE_NAME @ ''='' @ (if openState then ''true'' else ''false'') @
     ''; path=/; max-age='' @ show_nat SIDEBAR_COOKIE_MAX_AGE"

text \<open>\<open>setOpen\<close> takes a value or a function of the value of its render.\<close>

definition setOpen :: "(bool \<Rightarrow> bool) \<Rightarrow> sidebar \<Rightarrow> sidebar" where
  "setOpen value' s = (let openState = value' (r_open (sb_render s));
     s' = (if r_setOpenProp (sb_render s) then s\<lparr>sb_calls := sb_calls s @ [openState]\<rparr>
           else s\<lparr>sb_open := openState\<rparr>)
   in s'\<lparr>sb_cookie := Some (cookie_text openState)\<rparr>)"

definition toggleSidebar :: "sidebar \<Rightarrow> sidebar" where
  "toggleSidebar s = (if r_isMobile (sb_render s) then s\<lparr>sb_openMobile := \<not> sb_openMobile s\<rparr>
     else setOpen Not s)"

definition sidebar_keydown :: "string \<Rightarrow> bool \<Rightarrow> bool \<Rightarrow> sidebar \<Rightarrow> sidebar" where
  "sidebar_keydown key metaKey ctrlKey s =
     (if key = SIDEBAR_KEYBOARD_SHORTCUT \<and> (metaKey \<or> ctrlKey) then toggleSidebar s else s)"

datatype sidebar_event =
    Toggle_sidebar
  | Key_down string bool bool
  | Set_open bool
  | Sheet_change bool
  | Resize int
  | Render

fun sidebar_step :: "sidebar_props \<Rightarrow> sidebar_event \<Rightarrow> sidebar \<Rightarrow> sidebar" where
  "sidebar_step q Toggle_sidebar s = toggleSidebar s"
| "sidebar_step q (Key_down key metaKey ctrlKey) s = sidebar_keydown key metaKey ctrlKey s"
| "sidebar_step q (Set_open b) s = setOpen (\<lambda>_. b) s"
| "sidebar_step q (Sheet_change b) s = s\<lparr>sb_openMobile := b\<rparr>"
| "sidebar_step q (Resize w) s = s\<lparr>sb_mobile := mobile_resize w (sb_mobile s)\<rparr>"
| "sidebar_step q Render s = sidebar_rendered q s"

definition sidebar_run :: "sidebar_props \<Rightarrow> sidebar_event list \<Rightarrow> sidebar \<Rightarrow> sidebar" where
  "sidebar_run q es s = fold (sidebar_step q) es s"

section \<open>The context\<close>

definition contextValue :: "sidebar \<Rightarrow> pv" where
  "contextValue s = (let r = sb_render s in PObj
     [(''state'', PStr (if r_open r then ''expanded'' else ''collapsed'')), (''open'', PBool (r_open r)),
      (''setOpen'', POwn ''setOpen'' []), (''isMobile'', PBool (r_isMobile r)),
      (''openMobile'', PBool (sb_openMobile s)), (''setOpenMobile'', POwn ''setOpenMobile'' []),
      (''toggleSidebar'', POwn ''toggleSidebar'' [])])"

text \<open>A part outside a provider throws; the parts below are given the context that \<open>useSidebar\<close> returns.\<close>

definition useSidebar :: "pv option \<Rightarrow> string + pv" where
  "useSidebar context = (case context of None \<Rightarrow> Inl ''useSidebar must be used within a SidebarProvider.''
     | Some c \<Rightarrow> Inr c)"

section \<open>\<open>sidebar.tsx\<close>\<close>

definition SidebarProvider :: "sidebar \<Rightarrow> props \<Rightarrow> pv" where
  "SidebarProvider s p = (let className = pget p ''className'';
     style = (case pget p ''style'' of PObj fs \<Rightarrow> fs | _ \<Rightarrow> []);
     children = pget p ''children'';
     props = rest [''defaultOpen'', ''open'', ''onOpenChange'', ''className'', ''style'', ''children''] p
   in Elem ''SidebarContext.Provider'' ([(''children'', TooltipProvider ([(''children'',
          Elem ''div'' ([(''children'', children)] @ props @
            [(''data-slot'', PStr ''sidebar-wrapper''),
             (''style'', PObj (style @ [(''--sidebar-width'', PStr SIDEBAR_WIDTH), (''--sidebar-width-icon'', PStr SIDEBAR_WIDTH_ICON)])),
             (''className'', Cn [PStr ''group/sidebar-wrapper has-data-[variant=inset]:bg-sidebar flex min-h-svh w-full'', className])]))] @
        [(''delayDuration'', PNum 0)]))] @ [(''value'', contextValue s)]))"

definition Sidebar :: "pv \<Rightarrow> props \<Rightarrow> pv" where
  "Sidebar sidebar p = (let side = pget_or p ''side'' (PStr ''left'');
     variant = pget_or p ''variant'' (PStr ''sidebar'');
     collapsible = pget_or p ''collapsible'' (PStr ''offcanvas'');
     className = pget p ''className'';
     children = pget p ''children'';
     props = rest [''side'', ''variant'', ''collapsible'', ''className'', ''children''] p;
     isMobile = field_of sidebar ''isMobile'';
     state' = field_of sidebar ''state'';
     openMobile = field_of sidebar ''openMobile'';
     setOpenMobile = field_of sidebar ''setOpenMobile''
   in if collapsible = PStr ''none'' then Elem ''div'' ([(''children'', children)]
     @ props @ [(''data-slot'', PStr ''sidebar''), (''className'', Cn [PStr ''bg-sidebar text-sidebar-foreground flex h-full w-(--sidebar-width) flex-col'', className])]) else if is_truthy isMobile then Sheet ([(''children'',
     SheetContent ([(''children'', PArr [SheetHeader ([(''children'', PArr [SheetTitle [(''children'',
     PStr ''Sidebar'')], SheetDescription [(''children'', PStr ''Displays the mobile sidebar.'')]])]
     @ [(''className'', PStr ''sr-only'')]), Elem ''div'' ([(''children'', children)]
     @ [(''className'', PStr ''flex h-full w-full flex-col'')])])] @ [(''data-sidebar'',
     PStr ''sidebar''), (''data-slot'', PStr ''sidebar''), (''data-mobile'',
     PStr ''true''), (''className'', PStr ''bg-sidebar text-sidebar-foreground w-(--sidebar-width) p-0 [&>button]:hidden''),
     (''style'', PObj [(''--sidebar-width'', PStr SIDEBAR_WIDTH_MOBILE)]),
     (''side'', side)]))] @ props @ [(''open'', openMobile), (''onOpenChange'', setOpenMobile)]) else Elem ''div'' ([(''children'',
     PArr [Elem ''div'' [(''data-slot'', PStr ''sidebar-gap''), (''className'',
     Cn [PStr ''relative w-(--sidebar-width) bg-transparent transition-[width] duration-200 ease-linear'',
     PStr ''group-data-[collapsible=offcanvas]:w-0'', PStr ''group-data-[side=right]:rotate-180'',
     if variant = PStr ''floating'' \<or> variant = PStr ''inset'' then PStr ''group-data-[collapsible=icon]:w-[calc(var(--sidebar-width-icon)+(--spacing(4)))]'' else PStr ''group-data-[collapsible=icon]:w-(--sidebar-width-icon)''])],
     Elem ''div'' ([(''children'', Elem ''div'' ([(''children'', children)]
     @ [(''data-sidebar'', PStr ''sidebar''), (''data-slot'', PStr ''sidebar-inner''),
     (''className'', PStr ''bg-sidebar group-data-[variant=floating]:border-sidebar-border flex h-full w-full flex-col group-data-[variant=floating]:rounded-lg group-data-[variant=floating]:border group-data-[variant=floating]:shadow-sm'')]))]
     @ props @ [(''data-slot'', PStr ''sidebar-container''), (''className'',
     Cn [PStr ''fixed inset-y-0 z-10 hidden h-svh w-(--sidebar-width) transition-[left,right,width] duration-200 ease-linear md:flex'',
     if side = PStr ''left'' then PStr ''left-0 group-data-[collapsible=offcanvas]:left-[calc(var(--sidebar-width)*-1)]'' else PStr ''right-0 group-data-[collapsible=offcanvas]:right-[calc(var(--sidebar-width)*-1)]'',
     if variant = PStr ''floating'' \<or> variant = PStr ''inset'' then PStr ''p-2 group-data-[collapsible=icon]:w-[calc(var(--sidebar-width-icon)+(--spacing(4))+2px)]'' else PStr ''group-data-[collapsible=icon]:w-(--sidebar-width-icon) group-data-[side=left]:border-r group-data-[side=right]:border-l'', className])])])]
     @ [(''className'', PStr ''group peer text-sidebar-foreground hidden md:block''),
     (''data-state'', state'), (''data-collapsible'', if state' = PStr ''collapsed'' then collapsible else PStr []),
     (''data-variant'', variant), (''data-side'', side), (''data-slot'',
     PStr ''sidebar'')]))"

text \<open>The trigger runs the caller's click handler and then toggles.\<close>

definition SidebarTrigger :: "props \<Rightarrow> pv" where
  "SidebarTrigger p = (let className = pget p ''className'';
     onClick = pget p ''onClick'';
     props = rest [''className'', ''onClick''] p
   in Button_ui ([(''children'', PArr [Elem ''PanelLeftIcon'' [],
        Elem ''span'' ([(''children'', PStr ''Toggle Sidebar'')] @ [(''className'', PStr ''sr-only'')])])] @
      props @ [(''data-sidebar'', PStr ''trigger''), (''data-slot'', PStr ''sidebar-trigger''), (''variant'', PStr ''ghost''),
        (''size'', PStr ''icon''), (''className'', Cn [PStr ''size-7'', className]),
        (''onClick'', POwn ''trigger_click'' [onClick])]))"

definition SidebarRail :: "props \<Rightarrow> pv" where
  "SidebarRail p = (let className = pget p ''className'';
     props = rest [''className''] p
   in Elem ''button'' (props @ [(''data-sidebar'', PStr ''rail''), (''data-slot'', PStr ''sidebar-rail''),
        (''aria-label'', PStr ''Toggle Sidebar''), (''tabIndex'', PNum (- 1)), (''onClick'', POwn ''toggleSidebar'' []),
        (''title'', PStr ''Toggle Sidebar''),
        (''className'', Cn [PStr ''hover:after:bg-sidebar-border absolute inset-y-0 z-20 hidden w-4 -translate-x-1/2 transition-all ease-linear group-data-[side=left]:-right-4 group-data-[side=right]:left-0 after:absolute after:inset-y-0 after:left-1/2 after:w-[2px] sm:flex'',
          PStr ''in-data-[side=left]:cursor-w-resize in-data-[side=right]:cursor-e-resize'',
          PStr ''[[data-side=left][data-state=collapsed]_&]:cursor-e-resize [[data-side=right][data-state=collapsed]_&]:cursor-w-resize'',
          PStr ''hover:group-data-[collapsible=offcanvas]:bg-sidebar group-data-[collapsible=offcanvas]:translate-x-0 group-data-[collapsible=offcanvas]:after:left-full'',
          PStr ''[[data-side=left][data-collapsible=offcanvas]_&]:-right-2'',
          PStr ''[[data-side=right][data-collapsible=offcanvas]_&]:-left-2'',
          className])]))"

definition SidebarInset :: "props \<Rightarrow> pv" where
  "SidebarInset p = (let className = pget p ''className'';
     props = rest [''className''] p
   in Elem ''main'' (props @ [(''data-slot'', PStr ''sidebar-inset''), (''className'',
     Cn [PStr ''bg-background relative flex w-full flex-1 flex-col'', PStr ''md:peer-data-[variant=inset]:m-2 md:peer-data-[variant=inset]:ml-0 md:peer-data-[variant=inset]:rounded-xl md:peer-data-[variant=inset]:shadow-sm md:peer-data-[variant=inset]:peer-data-[state=collapsed]:ml-2'', className])]))"

definition SidebarInput :: "props \<Rightarrow> pv" where
  "SidebarInput p = (let className = pget p ''className'';
     props = rest [''className''] p
   in Input (props @ [(''data-slot'', PStr ''sidebar-input''), (''data-sidebar'',
     PStr ''input''), (''className'', Cn [PStr ''bg-background h-8 w-full shadow-none'', className])]))"

definition SidebarHeader :: "props \<Rightarrow> pv" where
  "SidebarHeader p = (let className = pget p ''className'';
     props = rest [''className''] p
   in Elem ''div'' (props @ [(''data-slot'', PStr ''sidebar-header''), (''data-sidebar'',
     PStr ''header''), (''className'', Cn [PStr ''flex flex-col gap-2 p-2'', className])]))"

definition SidebarFooter :: "props \<Rightarrow> pv" where
  "SidebarFooter p = (let className = pget p ''className'';
     props = rest [''className''] p
   in Elem ''div'' (props @ [(''data-slot'', PStr ''sidebar-footer''), (''data-sidebar'',
     PStr ''footer''), (''className'', Cn [PStr ''flex flex-col gap-2 p-2'', className])]))"

definition SidebarSeparator :: "props \<Rightarrow> pv" where
  "SidebarSeparator p = (let className = pget p ''className'';
     props = rest [''className''] p
   in Separator (props @ [(''data-slot'', PStr ''sidebar-separator''), (''data-sidebar'',
     PStr ''separator''), (''className'', Cn [PStr ''bg-sidebar-border mx-2 w-auto'', className])]))"

definition SidebarContent :: "props \<Rightarrow> pv" where
  "SidebarContent p = (let className = pget p ''className'';
     props = rest [''className''] p
   in Elem ''div'' (props @ [(''data-slot'', PStr ''sidebar-content''),
     (''data-sidebar'', PStr ''content''), (''className'', Cn [PStr ''flex min-h-0 flex-1 flex-col gap-2 overflow-auto group-data-[collapsible=icon]:overflow-hidden'', className])]))"

definition SidebarGroup :: "props \<Rightarrow> pv" where
  "SidebarGroup p = (let className = pget p ''className'';
     props = rest [''className''] p
   in Elem ''div'' (props @ [(''data-slot'', PStr ''sidebar-group''), (''data-sidebar'',
     PStr ''group''), (''className'', Cn [PStr ''relative flex w-full min-w-0 flex-col p-2'', className])]))"

definition SidebarGroupLabel :: "props \<Rightarrow> pv" where
  "SidebarGroupLabel p = (let className = pget p ''className'';
     asChild = pget_or p ''asChild'' (PBool False);
     props = rest [''className'', ''asChild''] p;
     Comp = (if is_truthy asChild then ''Slot.Root'' else ''div'')
   in Elem Comp (props @ [(''data-slot'', PStr ''sidebar-group-label''),
     (''data-sidebar'', PStr ''group-label''), (''className'', Cn [PStr ''text-sidebar-foreground/70 ring-sidebar-ring flex h-8 shrink-0 items-center rounded-md px-2 text-xs font-medium outline-hidden transition-[margin,opacity] duration-200 ease-linear focus-visible:ring-2 [&>svg]:size-4 [&>svg]:shrink-0'',
     PStr ''group-data-[collapsible=icon]:-mt-8 group-data-[collapsible=icon]:opacity-0'', className])]))"

definition SidebarGroupAction :: "props \<Rightarrow> pv" where
  "SidebarGroupAction p = (let className = pget p ''className'';
     asChild = pget_or p ''asChild'' (PBool False);
     props = rest [''className'', ''asChild''] p;
     Comp = (if is_truthy asChild then ''Slot.Root'' else ''button'')
   in Elem Comp (props @ [(''data-slot'', PStr ''sidebar-group-action''),
     (''data-sidebar'', PStr ''group-action''), (''className'', Cn [PStr ''text-sidebar-foreground ring-sidebar-ring hover:bg-sidebar-accent hover:text-sidebar-accent-foreground absolute top-3.5 right-3 flex aspect-square w-5 items-center justify-center rounded-md p-0 outline-hidden transition-transform focus-visible:ring-2 [&>svg]:size-4 [&>svg]:shrink-0'',
     PStr ''after:absolute after:-inset-2 md:after:hidden'', PStr ''group-data-[collapsible=icon]:hidden'', className])]))"

definition SidebarGroupContent :: "props \<Rightarrow> pv" where
  "SidebarGroupContent p = (let className = pget p ''className'';
     props = rest [''className''] p
   in Elem ''div'' (props @ [(''data-slot'', PStr ''sidebar-group-content''),
     (''data-sidebar'', PStr ''group-content''), (''className'', Cn [PStr ''w-full text-sm'', className])]))"

definition SidebarMenu :: "props \<Rightarrow> pv" where
  "SidebarMenu p = (let className = pget p ''className'';
     props = rest [''className''] p
   in Elem ''ul'' (props @ [(''data-slot'', PStr ''sidebar-menu''), (''data-sidebar'',
     PStr ''menu''), (''className'', Cn [PStr ''flex w-full min-w-0 flex-col gap-1'', className])]))"

definition SidebarMenuItem :: "props \<Rightarrow> pv" where
  "SidebarMenuItem p = (let className = pget p ''className'';
     props = rest [''className''] p
   in Elem ''li'' (props @ [(''data-slot'', PStr ''sidebar-menu-item''),
     (''data-sidebar'', PStr ''menu-item''), (''className'', Cn [PStr ''group/menu-item relative'', className])]))"

definition sidebarMenuButtonVariants :: "props \<Rightarrow> pv" where
  "sidebarMenuButtonVariants args = Cva ''peer/menu-button flex w-full items-center gap-2 overflow-hidden rounded-md p-2 text-left text-sm ring-sidebar-ring outline-hidden transition-[width,height,padding] group-has-data-[sidebar=menu-action]/menu-item:pr-8 group-data-[collapsible=icon]:size-8! group-data-[collapsible=icon]:p-2! hover:bg-sidebar-accent hover:text-sidebar-accent-foreground focus-visible:ring-2 active:bg-sidebar-accent active:text-sidebar-accent-foreground disabled:pointer-events-none disabled:opacity-50 aria-disabled:pointer-events-none aria-disabled:opacity-50 data-[active=true]:bg-sidebar-accent data-[active=true]:font-medium data-[active=true]:text-sidebar-accent-foreground data-[state=open]:hover:bg-sidebar-accent data-[state=open]:hover:text-sidebar-accent-foreground [&>span:last-child]:truncate [&>svg]:size-4 [&>svg]:shrink-0''
     [(''variant'', [(''default'', [''hover:bg-sidebar-accent hover:text-sidebar-accent-foreground'']),
        (''outline'', [''bg-background shadow-[0_0_0_1px_var(--sidebar-border)] hover:bg-sidebar-accent hover:text-sidebar-accent-foreground hover:shadow-[0_0_0_1px_var(--sidebar-accent)]''])]),
      (''size'', [(''default'', [''h-8 text-sm'']),
        (''sm'', [''h-7 text-xs'']),
        (''lg'', [''h-12 text-sm group-data-[collapsible=icon]:p-0!''])])]
     [(''variant'', ''default''), (''size'', ''default'')] args"

definition SidebarMenuButton :: "pv \<Rightarrow> props \<Rightarrow> pv" where
  "SidebarMenuButton sidebar p = (let asChild = pget_or p ''asChild'' (PBool False);
     isActive = pget_or p ''isActive'' (PBool False);
     variant = pget_or p ''variant'' (PStr ''default'');
     size' = pget_or p ''size'' (PStr ''default'');
     tooltip = pget p ''tooltip'';
     className = pget p ''className'';
     props = rest [''asChild'', ''isActive'', ''variant'', ''size'', ''tooltip'', ''className''] p;
     button = Elem (if is_truthy asChild then ''Slot.Root'' else ''button'')
       (props @ [(''data-slot'', PStr ''sidebar-menu-button''), (''data-sidebar'', PStr ''menu-button''),
         (''data-size'', size'), (''data-active'', isActive),
         (''className'', Cn [sidebarMenuButtonVariants [(''variant'', variant), (''size'', size')], className])]);
     tooltip_props = (case tooltip of PStr t \<Rightarrow> [(''children'', PStr t)] | PObj fs \<Rightarrow> fs | _ \<Rightarrow> [])
   in if \<not> is_truthy tooltip then button
      else Tooltip [(''children'', PArr
        [TooltipTrigger ([(''children'', button)] @ [(''asChild'', PBool True)]),
         TooltipContent (tooltip_props @ [(''side'', PStr ''right''), (''align'', PStr ''center''),
           (''hidden'', PBool (field_of sidebar ''state'' \<noteq> PStr ''collapsed'' \<or> is_truthy (field_of sidebar ''isMobile'')))])])])"

definition SidebarMenuAction :: "props \<Rightarrow> pv" where
  "SidebarMenuAction p = (let className = pget p ''className'';
     asChild = pget_or p ''asChild'' (PBool False);
     showOnHover = pget_or p ''showOnHover'' (PBool False);
     props = rest [''className'', ''asChild'', ''showOnHover''] p;
     Comp = (if is_truthy asChild then ''Slot.Root'' else ''button'')
   in Elem Comp (props @ [(''data-slot'', PStr ''sidebar-menu-action''),
     (''data-sidebar'', PStr ''menu-action''), (''className'', Cn [PStr ''text-sidebar-foreground ring-sidebar-ring peer-hover/menu-button:text-sidebar-accent-foreground hover:bg-sidebar-accent hover:text-sidebar-accent-foreground absolute top-1.5 right-1 flex aspect-square w-5 items-center justify-center rounded-md p-0 outline-hidden transition-transform focus-visible:ring-2 [&>svg]:size-4 [&>svg]:shrink-0'',
     PStr ''after:absolute after:-inset-2 md:after:hidden'', PStr ''peer-data-[size=sm]/menu-button:top-1'',
     PStr ''peer-data-[size=default]/menu-button:top-1.5'', PStr ''peer-data-[size=lg]/menu-button:top-2.5'',
     PStr ''group-data-[collapsible=icon]:hidden'', if is_truthy showOnHover then PStr ''peer-data-[active=true]/menu-button:text-sidebar-accent-foreground group-focus-within/menu-item:opacity-100 group-hover/menu-item:opacity-100 data-[state=open]:opacity-100 md:opacity-0'' else showOnHover, className])]))"

definition SidebarMenuBadge :: "props \<Rightarrow> pv" where
  "SidebarMenuBadge p = (let className = pget p ''className'';
     props = rest [''className''] p
   in Elem ''div'' (props @ [(''data-slot'', PStr ''sidebar-menu-badge''),
     (''data-sidebar'', PStr ''menu-badge''), (''className'', Cn [PStr ''text-sidebar-foreground pointer-events-none absolute right-1 flex h-5 min-w-5 items-center justify-center rounded-md px-1 text-xs font-medium tabular-nums select-none'',
     PStr ''peer-hover/menu-button:text-sidebar-accent-foreground peer-data-[active=true]/menu-button:text-sidebar-accent-foreground'',
     PStr ''peer-data-[size=sm]/menu-button:top-1'', PStr ''peer-data-[size=default]/menu-button:top-1.5'',
     PStr ''peer-data-[size=lg]/menu-button:top-2.5'', PStr ''group-data-[collapsible=icon]:hidden'', className])]))"

text \<open>The width drawn once, from a random number in the unit interval.\<close>

definition skeleton_width :: "rat \<Rightarrow> int" where
  "skeleton_width random = \<lfloor>random * 40\<rfloor> + 50"

definition SidebarMenuSkeleton :: "rat \<Rightarrow> props \<Rightarrow> pv" where
  "SidebarMenuSkeleton random p = (let className = pget p ''className'';
     showIcon = pget_or p ''showIcon'' (PBool False);
     props = rest [''className'', ''showIcon''] p
   in Elem ''div'' ([(''children'', PArr
        [if is_truthy showIcon then Skeleton [(''className'', PStr ''size-4 rounded-md''), (''data-sidebar'', PStr ''menu-skeleton-icon'')] else showIcon,
         Skeleton [(''className'', PStr ''h-4 max-w-(--skeleton-width) flex-1''), (''data-sidebar'', PStr ''menu-skeleton-text''),
           (''style'', PObj [(''--skeleton-width'', PStr (show_int (skeleton_width random) @ ''%''))])]])] @
      props @ [(''data-slot'', PStr ''sidebar-menu-skeleton''), (''data-sidebar'', PStr ''menu-skeleton''),
        (''className'', Cn [PStr ''flex h-8 items-center gap-2 rounded-md px-2'', className])]))"

definition SidebarMenuSub :: "props \<Rightarrow> pv" where
  "SidebarMenuSub p = (let className = pget p ''className'';
     props = rest [''className''] p
   in Elem ''ul'' (props @ [(''data-slot'', PStr ''sidebar-menu-sub''),
     (''data-sidebar'', PStr ''menu-sub''), (''className'', Cn [PStr ''border-sidebar-border mx-3.5 flex min-w-0 translate-x-px flex-col gap-1 border-l px-2.5 py-0.5'',
     PStr ''group-data-[collapsible=icon]:hidden'', className])]))"

definition SidebarMenuSubItem :: "props \<Rightarrow> pv" where
  "SidebarMenuSubItem p = (let className = pget p ''className'';
     props = rest [''className''] p
   in Elem ''li'' (props @ [(''data-slot'', PStr ''sidebar-menu-sub-item''),
     (''data-sidebar'', PStr ''menu-sub-item''), (''className'', Cn [PStr ''group/menu-sub-item relative'', className])]))"

definition SidebarMenuSubButton :: "props \<Rightarrow> pv" where
  "SidebarMenuSubButton p = (let asChild = pget_or p ''asChild'' (PBool False);
     size' = pget_or p ''size'' (PStr ''md'');
     isActive = pget_or p ''isActive'' (PBool False);
     className = pget p ''className'';
     props = rest [''asChild'', ''size'', ''isActive'', ''className''] p;
     Comp = (if is_truthy asChild then ''Slot.Root'' else ''a'')
   in Elem Comp (props @ [(''data-slot'', PStr ''sidebar-menu-sub-button''),
     (''data-sidebar'', PStr ''menu-sub-button''), (''data-size'', size'),
     (''data-active'', isActive), (''className'', Cn [PStr ''text-sidebar-foreground ring-sidebar-ring hover:bg-sidebar-accent hover:text-sidebar-accent-foreground active:bg-sidebar-accent active:text-sidebar-accent-foreground [&>svg]:text-sidebar-accent-foreground flex h-7 min-w-0 -translate-x-px items-center gap-2 overflow-hidden rounded-md px-2 outline-hidden focus-visible:ring-2 disabled:pointer-events-none disabled:opacity-50 aria-disabled:pointer-events-none aria-disabled:opacity-50 [&>span:last-child]:truncate [&>svg]:size-4 [&>svg]:shrink-0'',
     PStr ''data-[active=true]:bg-sidebar-accent data-[active=true]:text-sidebar-accent-foreground'',
     if size' = PStr ''sm'' then PStr ''text-xs'' else PBool False, if size' = PStr ''md'' then PStr ''text-sm'' else PBool False,
     PStr ''group-data-[collapsible=icon]:hidden'', className])]))"

lemma sidebar_contract [kit_contracts]:
  "follows SidebarInset ''sidebar-inset'' [''className'']"
  "follows SidebarInput ''sidebar-input'' [''className'', ''type'']"
  "follows SidebarHeader ''sidebar-header'' [''className'']"
  "follows SidebarFooter ''sidebar-footer'' [''className'']"
  "follows SidebarSeparator ''sidebar-separator'' [''className'', ''orientation'', ''decorative'']"
  "follows SidebarContent ''sidebar-content'' [''className'']"
  "follows SidebarGroup ''sidebar-group'' [''className'']"
  "follows SidebarGroupLabel ''sidebar-group-label'' [''className'', ''asChild'']"
  "follows SidebarGroupAction ''sidebar-group-action'' [''className'', ''asChild'']"
  "follows SidebarGroupContent ''sidebar-group-content'' [''className'']"
  "follows SidebarMenu ''sidebar-menu'' [''className'']"
  "follows SidebarMenuItem ''sidebar-menu-item'' [''className'']"
  "follows SidebarMenuAction ''sidebar-menu-action'' [''className'', ''asChild'', ''showOnHover'']"
  "follows SidebarMenuBadge ''sidebar-menu-badge'' [''className'']"
  "follows SidebarMenuSub ''sidebar-menu-sub'' [''className'']"
  "follows SidebarMenuSubItem ''sidebar-menu-sub-item'' [''className'']"
  "follows SidebarMenuSubButton ''sidebar-menu-sub-button'' [''asChild'', ''size'', ''isActive'', ''className'']"
  by (simp_all add: kit_simps Input_def Separator_def SidebarContent_def SidebarFooter_def SidebarGroupAction_def SidebarGroupContent_def SidebarGroupLabel_def SidebarGroup_def SidebarHeader_def SidebarInput_def SidebarInset_def SidebarMenuAction_def SidebarMenuBadge_def SidebarMenuItem_def SidebarMenuSubButton_def SidebarMenuSubItem_def SidebarMenuSub_def SidebarMenu_def SidebarSeparator_def cong: kit_cong)

section \<open>The components and their contract\<close>

definition sidebar_parts :: "((props \<Rightarrow> pv) \<times> string \<times> string list) list" where
  "sidebar_parts =
    [(SidebarInset, ''sidebar-inset'', [''className'']),
     (SidebarInput, ''sidebar-input'', [''className'', ''type'']),
     (SidebarHeader, ''sidebar-header'', [''className'']),
     (SidebarFooter, ''sidebar-footer'', [''className'']),
     (SidebarSeparator, ''sidebar-separator'', [''className'', ''orientation'', ''decorative'']),
     (SidebarContent, ''sidebar-content'', [''className'']),
     (SidebarGroup, ''sidebar-group'', [''className'']),
     (SidebarGroupLabel, ''sidebar-group-label'', [''className'', ''asChild'']),
     (SidebarGroupAction, ''sidebar-group-action'', [''className'', ''asChild'']),
     (SidebarGroupContent, ''sidebar-group-content'', [''className'']),
     (SidebarMenu, ''sidebar-menu'', [''className'']),
     (SidebarMenuItem, ''sidebar-menu-item'', [''className'']),
     (SidebarMenuAction, ''sidebar-menu-action'', [''className'', ''asChild'', ''showOnHover'']),
     (SidebarMenuBadge, ''sidebar-menu-badge'', [''className'']),
     (SidebarMenuSub, ''sidebar-menu-sub'', [''className'']),
     (SidebarMenuSubItem, ''sidebar-menu-sub-item'', [''className'']),
     (SidebarMenuSubButton, ''sidebar-menu-sub-button'', [''asChild'', ''size'', ''isActive'', ''className''])]"

lemma sidebar_parts_follow: "list_all (\<lambda>(component, slot, own). follows component slot own) sidebar_parts"
  by (simp add: sidebar_parts_def kit_contracts)

end
