(* ===== verification/KitForms.thy ===== *)
theory KitForms
  imports KitBasics
begin

text \<open>
  The form parts of the kit, which tie the label, the control, the description and the message of a field
  together, and the list of errors of a field
  (\<open>web/src/components/ui\<close>), each component as a function from its properties to what it
  renders.

  The form library is not part of the repository: the state of a field (\<open>getFieldState\<close>) is an
  argument. A part reads the fields of the object \<open>useFormField\<close> returns.
\<close>

section \<open>The contexts of a field\<close>

text \<open>\<open>FormFieldContext\<close> and \<open>FormItemContext\<close> start as empty objects.\<close>

definition default_context :: pv where
  "default_context = PObj []"

definition FormField :: "props \<Rightarrow> pv" where
  "FormField p = Elem ''FormFieldContext.Provider''
     ([(''children'', Elem ''Controller'' p)] @ [(''value'', PObj [(''name'', pget p ''name'')])])"

text \<open>What a part of a field reads: the names of its elements, and the field's state spread last.\<close>

definition useFormField :: "(pv \<Rightarrow> (string \<times> pv) list) \<Rightarrow> pv \<Rightarrow> pv \<Rightarrow> string + pv" where
  "useFormField getFieldState fieldContext itemContext =
     (let fieldState = getFieldState (field_of fieldContext ''name'');
          i = field_of itemContext ''id''
      in if \<not> is_truthy fieldContext then Inl ''useFormField should be used within <FormField>''
         else Inr (PObj (fieldState @
           [(''id'', i), (''name'', field_of fieldContext ''name''),
            (''formItemId'', PStr (text_of i @ ''-form-item'')),
            (''formDescriptionId'', PStr (text_of i @ ''-form-item-description'')),
            (''formMessageId'', PStr (text_of i @ ''-form-item-message''))])))"

section \<open>The errors of a field (\<open>field.tsx\<close>)\<close>

text \<open>\<open>new Map(errors.map((error) => [error?.message, error])).values()\<close>: one error for each message, in
  the order in which the messages first appear.\<close>

definition uniqueErrors :: "pv list \<Rightarrow> pv list" where
  "uniqueErrors errors = map snd (from_members (map (\<lambda>error. (field_of error ''message'', error)) errors))"

definition error_item :: "nat \<times> pv \<Rightarrow> pv" where
  "error_item ie = (case ie of (index', error) \<Rightarrow>
     if is_truthy (field_of error ''message'')
     then Elem ''li'' ([(''children'', field_of error ''message'')] @ [(''key'', PNum (of_nat index'))])
     else field_of error ''message'')"

definition error_content :: "pv \<Rightarrow> pv \<Rightarrow> pv" where
  "error_content children errors =
     (if is_truthy children then children
      else case errors of
        PArr es \<Rightarrow>
          if es = [] then PNull
          else let us = uniqueErrors es in
            if length us = 1 then field_of (hd us) ''message''
            else Elem ''ul'' ([(''children'', PArr (map error_item (enumerate 0 us)))] @
                [(''className'', PStr ''ml-4 flex list-disc flex-col gap-1'')])
      | _ \<Rightarrow> PNull)"

definition FieldError :: "props \<Rightarrow> pv" where
  "FieldError p = (let className = pget p ''className'';
     props = rest [''className'', ''children'', ''errors''] p;
     content = error_content (pget p ''children'') (pget p ''errors'')
   in if \<not> is_truthy content then PNull
      else Elem ''div'' ([(''children'', content)] @ props @
        [(''role'', PStr ''alert''), (''data-slot'', PStr ''field-error''),
         (''className'', Cn [PStr ''text-destructive text-sm font-normal'', className])]))"

section \<open>\<open>form.tsx\<close>\<close>

definition Form :: "props \<Rightarrow> pv" where
  "Form p = Elem ''FormProvider'' p"

definition FormItem :: "string \<Rightarrow> props \<Rightarrow> pv" where
  "FormItem i p = (let className = pget p ''className'';
     props = rest [''className''] p
   in Elem ''FormItemContext.Provider'' ([(''children'', Elem ''div'' (props @
        [(''data-slot'', PStr ''form-item''), (''className'', Cn [PStr ''grid gap-2'', className])]))] @
      [(''value'', PObj [(''id'', PStr i)])]))"

definition FormLabel :: "pv \<Rightarrow> props \<Rightarrow> pv" where
  "FormLabel formfield p = (let className = pget p ''className'';
     props = rest [''className''] p;
     error = field_of formfield ''error'';
     formItemId = field_of formfield ''formItemId''
   in Label (props @ [(''data-slot'', PStr ''form-label''), (''data-error'', PBool (\<not> \<not> is_truthy error)),
     (''className'', Cn [PStr ''data-[error=true]:text-destructive'', className]),
     (''htmlFor'', formItemId)]))"

definition FormControl :: "pv \<Rightarrow> props \<Rightarrow> pv" where
  "FormControl formfield p = (let props = p;
     error = field_of formfield ''error'';
     formItemId = field_of formfield ''formItemId'';
     formDescriptionId = field_of formfield ''formDescriptionId'';
     formMessageId = field_of formfield ''formMessageId''
   in Elem ''Slot.Root'' (props @ [(''data-slot'', PStr ''form-control''),
     (''id'', formItemId), (''aria-describedby'', if \<not> is_truthy error then PStr (text_of formDescriptionId) else PStr (text_of formDescriptionId
     @ '' '' @ text_of formMessageId)), (''aria-invalid'', PBool (\<not> \<not> is_truthy error))]))"

definition FormDescription :: "pv \<Rightarrow> props \<Rightarrow> pv" where
  "FormDescription formfield p = (let className = pget p ''className'';
     props = rest [''className''] p;
     formDescriptionId = field_of formfield ''formDescriptionId''
   in Elem ''p'' (props @ [(''data-slot'', PStr ''form-description''), (''id'', formDescriptionId),
     (''className'', Cn [PStr ''text-muted-foreground text-sm'', className])]))"

definition FormMessage :: "pv \<Rightarrow> props \<Rightarrow> pv" where
  "FormMessage formfield p = (let className = pget p ''className'';
     props = rest [''className''] p;
     error = field_of formfield ''error'';
     formMessageId = field_of formfield ''formMessageId'';
     body = if is_truthy error then PStr (text_of (nullish (field_of error ''message'') (PStr []))) else pget props ''children''
   in if \<not> is_truthy body then PNull else Elem ''p'' ([(''children'', body)]
     @ props @ [(''data-slot'', PStr ''form-message''), (''id'', formMessageId),
     (''className'', Cn [PStr ''text-destructive text-sm'', className])]))"

end
