(* ===== verification/KitDisplay.thy ===== *)
theory KitDisplay
  imports KitBasics
begin

text \<open>
  The carousel of the kit with its state machine, and the chart parts
  (\<open>web/src/components/ui\<close>), each component as a function from its properties to what it
  renders.

  The carousel and chart libraries are not part of the repository. Of the carousel's API the component
  uses two answers and two events, which the machine takes as inputs; chart elements are opaque nodes.
\<close>

section \<open>The state of a carousel\<close>

text \<open>The API is there once the library has mounted; its events carry its new answers to \<open>canScrollPrev\<close> and
  \<open>canScrollNext\<close>. The component keeps a copy of the answers, and its subscriptions by event.\<close>

record carousel_api =
  api_prev :: bool
  api_next :: bool
  api_on_select :: nat
  api_on_reInit :: nat

record carousel =
  canScrollPrev :: bool
  canScrollNext :: bool
  carousel_scrolled :: "string list"
  carousel_dispatched :: nat

definition carousel_init :: carousel where
  "carousel_init = \<lparr>canScrollPrev = False, canScrollNext = False, carousel_scrolled = [], carousel_dispatched = 0\<rparr>"

definition onSelect :: "carousel_api option \<Rightarrow> carousel \<Rightarrow> carousel" where
  "onSelect api c = (case api of None \<Rightarrow> c
     | Some a \<Rightarrow> c\<lparr>canScrollPrev := api_prev a, canScrollNext := api_next a,
         carousel_dispatched := carousel_dispatched c + 1\<rparr>)"

definition carousel_subscribe :: "carousel_api \<times> carousel \<Rightarrow> carousel_api \<times> carousel" where
  "carousel_subscribe ac = (case ac of (a, c) \<Rightarrow>
     (a\<lparr>api_on_reInit := api_on_reInit a + 1, api_on_select := api_on_select a + 1\<rparr>, onSelect (Some a) c))"

definition carousel_cleanup :: "carousel_api \<times> carousel \<Rightarrow> carousel_api \<times> carousel" where
  "carousel_cleanup ac = (case ac of (a, c) \<Rightarrow> (a\<lparr>api_on_select := api_on_select a - 1\<rparr>, c))"

text \<open>An event of the API runs the handler once for each subscription.\<close>

datatype carousel_event = Api_select bool bool | Api_reInit bool bool | Scroll_prev | Scroll_next | Key string

definition api_answers :: "bool \<Rightarrow> bool \<Rightarrow> carousel_api \<Rightarrow> carousel_api" where
  "api_answers b n a = a\<lparr>api_prev := b, api_next := n\<rparr>"

definition scrollPrev :: "carousel \<Rightarrow> carousel" where
  "scrollPrev c = c\<lparr>carousel_scrolled := carousel_scrolled c @ [''prev'']\<rparr>"

definition scrollNext :: "carousel \<Rightarrow> carousel" where
  "scrollNext c = c\<lparr>carousel_scrolled := carousel_scrolled c @ [''next'']\<rparr>"

definition carousel_keydown :: "string \<Rightarrow> carousel \<Rightarrow> carousel" where
  "carousel_keydown key c = (if key = ''ArrowLeft'' then scrollPrev c
     else if key = ''ArrowRight'' then scrollNext c else c)"

fun carousel_step :: "carousel_event \<Rightarrow> carousel_api \<times> carousel \<Rightarrow> carousel_api \<times> carousel" where
  "carousel_step (Api_select b n) (a, c) =
     (let a' = api_answers b n a in (a', ((onSelect (Some a')) ^^ api_on_select a) c))"
| "carousel_step (Api_reInit b n) (a, c) =
     (let a' = api_answers b n a in (a', ((onSelect (Some a')) ^^ api_on_reInit a) c))"
| "carousel_step Scroll_prev (a, c) = (a, scrollPrev c)"
| "carousel_step Scroll_next (a, c) = (a, scrollNext c)"
| "carousel_step (Key key) (a, c) = (a, carousel_keydown key c)"

text \<open>What the component hands to the library and to its parts.\<close>

definition carousel_options :: "pv \<Rightarrow> pv \<Rightarrow> pv" where
  "carousel_options opts orientation = PObj ([(''axis'', PStr (if orientation = PStr ''horizontal'' then ''x'' else ''y''))] @
     (case opts of PObj fs \<Rightarrow> fs | _ \<Rightarrow> []))"

definition carousel_context :: "pv \<Rightarrow> pv \<Rightarrow> carousel \<Rightarrow> pv" where
  "carousel_context opts orientation c = PObj
     [(''opts'', opts),
      (''orientation'', if is_truthy orientation then orientation
         else if field_of opts ''axis'' = PStr ''y'' then PStr ''vertical'' else PStr ''horizontal''),
      (''scrollPrev'', POwn ''scrollPrev'' []), (''scrollNext'', POwn ''scrollNext'' []),
      (''carouselRef'', POwn ''carouselRef'' []), (''api'', POwn ''api'' []),
      (''canScrollPrev'', PBool (canScrollPrev c)), (''canScrollNext'', PBool (canScrollNext c))]"

definition useCarousel :: "pv option \<Rightarrow> string + pv" where
  "useCarousel context = (case context of None \<Rightarrow> Inl ''useCarousel must be used within a <Carousel />''
     | Some c \<Rightarrow> Inr c)"

section \<open>Chart entries and styles\<close>

text \<open>The entry of the configuration a payload item names. \<open>key in object\<close> also sees what the object inherits;
  an inherited member is a function.\<close>

definition has_member :: "pv \<Rightarrow> string \<Rightarrow> bool" where
  "has_member v k \<longleftrightarrow> (case v of PObj fs \<Rightarrow> k \<in> set (map fst fs) \<or> k \<in> set inherited_members \<or> k = ''__proto__'' | _ \<Rightarrow> False)"

definition js_member :: "pv \<Rightarrow> string \<Rightarrow> pv" where
  "js_member v k = (case v of PObj fs \<Rightarrow>
     (case map_of fs k of Some w \<Rightarrow> w
      | None \<Rightarrow> if k = ''__proto__'' then PObj [] else if k \<in> set inherited_members then POwn k [] else PUndef)
   | _ \<Rightarrow> PUndef)"

definition is_object :: "pv \<Rightarrow> bool" where
  "is_object v = (case v of PObj _ \<Rightarrow> True | PArr _ \<Rightarrow> True | Elem _ _ \<Rightarrow> True | _ \<Rightarrow> False)"

definition is_string :: "pv \<Rightarrow> bool" where
  "is_string v = (case v of PStr _ \<Rightarrow> True | _ \<Rightarrow> False)"

definition getPayloadConfigFromPayload :: "pv \<Rightarrow> pv \<Rightarrow> string \<Rightarrow> pv" where
  "getPayloadConfigFromPayload config payload key =
     (if \<not> is_object payload then PUndef
      else let payloadPayload = (if has_member payload ''payload'' \<and> is_object (js_member payload ''payload'')
                 then js_member payload ''payload'' else PUndef);
               configLabelKey =
                 (if has_member payload key \<and> is_string (js_member payload key) then text_of (js_member payload key)
                  else if is_truthy payloadPayload \<and> has_member payloadPayload key \<and> is_string (js_member payloadPayload key)
                  then text_of (js_member payloadPayload key) else key)
           in if has_member config configLabelKey then js_member config configLabelKey else js_member config key)"

text \<open>\<open>THEMES\<close> and the styles of the colours; a null line joins as nothing.\<close>

definition THEMES :: "(string \<times> string) list" where
  "THEMES = [(''light'', []), (''dark'', ''.dark'')]"

definition colorConfig :: "pv \<Rightarrow> (string \<times> pv) list" where
  "colorConfig config = filter (\<lambda>(_, c). is_truthy (nullish (field_of c ''theme'') (field_of c ''color''))) (entries config)"

definition color_of :: "string \<Rightarrow> pv \<Rightarrow> pv" where
  "color_of theme itemConfig = nullish (field_of (field_of itemConfig ''theme'') theme) (field_of itemConfig ''color'')"

definition color_line :: "string \<Rightarrow> string \<times> pv \<Rightarrow> string" where
  "color_line theme kc = (case kc of (key, itemConfig) \<Rightarrow>
     (let color = color_of theme itemConfig
      in if is_truthy color then ''  --color-'' @ key @ '': '' @ text_of color @ '';'' else []))"

definition nl :: string where "nl = [CHR 0x0A]"

definition theme_rule :: "string \<Rightarrow> pv \<Rightarrow> string \<times> string \<Rightarrow> string" where
  "theme_rule i config tp = (case tp of (theme, selector) \<Rightarrow>
     nl @ selector @ '' [data-chart='' @ i @ ''] {'' @ nl @
     join nl (map (color_line theme) (colorConfig config)) @ nl @ ''}'' @ nl)"

definition ChartStyle :: "string \<Rightarrow> pv \<Rightarrow> pv" where
  "ChartStyle i config = (if colorConfig config = [] then PNull
     else Elem ''style'' [(''dangerouslySetInnerHTML'', PObj [(''__html'', PStr (join nl (map (theme_rule i config) THEMES)))])])"

definition useChart :: "pv option \<Rightarrow> string + pv" where
  "useChart context = (case context of None \<Rightarrow> Inl ''useChart must be used within a <ChartContainer />''
     | Some c \<Rightarrow> Inr c)"

text \<open>The identifier of the document's generator, without its colons, unless the caller names the chart.\<close>

definition chart_id :: "string \<Rightarrow> pv \<Rightarrow> string" where
  "chart_id uniqueId i = ''chart-'' @ text_of (nullish i (PStr (filter (\<lambda>c. c \<noteq> CHR '':'') uniqueId)))"

definition INITIAL_DIMENSION :: pv where
  "INITIAL_DIMENSION = PObj [(''width'', PNum 320), (''height'', PNum 200)]"

section \<open>Tooltips and legends\<close>

definition payload_items :: "pv \<Rightarrow> pv list" where
  "payload_items payload = (case payload of PArr xs \<Rightarrow> xs | _ \<Rightarrow> [])"

definition tooltipLabel :: "pv \<Rightarrow> props \<Rightarrow> pv" where
  "tooltipLabel config p =
     (let payload = pget p ''payload''; label = pget p ''label''; labelKey = pget p ''labelKey'';
          labelFormatter = pget p ''labelFormatter''; labelClassName = pget p ''labelClassName''
      in if is_truthy (pget_or p ''hideLabel'' (PBool False)) \<or> payload_items payload = [] then PNull
         else let item = hd (payload_items payload);
                  key = text_of (nullish labelKey (nullish (field_of item ''dataKey'') (nullish (field_of item ''name'') (PStr ''value''))));
                  itemConfig = getPayloadConfigFromPayload config item key;
                  value' = (if \<not> is_truthy labelKey \<and> is_string label
                    then nullish (field_of (js_member config (text_of label)) ''label'') label else field_of itemConfig ''label'')
              in if is_truthy labelFormatter
                 then Elem ''div'' ([(''children'', POwn ''labelFormatter'' [value', payload])] @
                   [(''className'', Cn [PStr ''font-medium'', labelClassName])])
                 else if \<not> is_truthy value' then PNull
                 else Elem ''div'' ([(''children'', value')] @ [(''className'', Cn [PStr ''font-medium'', labelClassName])]))"

text \<open>The rows, in the order of the payload, without the items of type \<open>none\<close>.\<close>

definition shown_items :: "pv \<Rightarrow> pv list" where
  "shown_items payload = filter (\<lambda>item. field_of item ''type'' \<noteq> PStr ''none'') (payload_items payload)"

definition tooltip_value :: "(rat \<Rightarrow> string) \<Rightarrow> pv \<Rightarrow> pv" where
  "tooltip_value locale v = (case v of PNum n \<Rightarrow> PStr (locale n) | _ \<Rightarrow> PStr (text_of v))"

definition tooltip_row :: "(rat \<Rightarrow> string) \<Rightarrow> pv \<Rightarrow> props \<Rightarrow> nat \<times> pv \<Rightarrow> pv" where
  "tooltip_row locale config p ii = (case ii of (index', item) \<Rightarrow>
     (let indicator = pget_or p ''indicator'' (PStr ''dot'');
          formatter = pget p ''formatter'';
          nestLabel = (length (payload_items (pget p ''payload'')) = 1 \<and> indicator \<noteq> PStr ''dot'');
          key = text_of (nullish (pget p ''nameKey'') (nullish (field_of item ''name'') (nullish (field_of item ''dataKey'') (PStr ''value''))));
          itemConfig = getPayloadConfigFromPayload config item key;
          indicatorColor = nullish (pget p ''color'') (nullish (field_of (field_of item ''payload'') ''fill'') (field_of item ''color''))
      in Elem ''div'' ([(''children'',
        if is_truthy formatter \<and> field_of item ''value'' \<noteq> PUndef \<and> is_truthy (field_of item ''name'')
        then POwn ''formatter'' [field_of item ''value'', field_of item ''name'', item, PNum (of_nat index'), field_of item ''payload'']
        else PArr
          [if is_truthy (field_of itemConfig ''icon'') then POwn ''element'' [field_of itemConfig ''icon'']
           else if is_truthy (pget_or p ''hideIndicator'' (PBool False)) then PBool False
           else Elem ''div''
             [(''className'', Cn [PStr ''shrink-0 rounded-[2px] border-(--color-border) bg-(--color-bg)'', PObj
                [(''h-2.5 w-2.5'', PBool (indicator = PStr ''dot'')), (''w-1'', PBool (indicator = PStr ''line'')),
                 (''w-0 border-[1.5px] border-dashed bg-transparent'', PBool (indicator = PStr ''dashed'')),
                 (''my-0.5'', PBool (nestLabel \<and> indicator = PStr ''dashed''))]]),
              (''style'', PObj [(''--color-bg'', indicatorColor), (''--color-border'', indicatorColor)])],
           Elem ''div'' ([(''children'', PArr
             [Elem ''div'' ([(''children'', PArr
                [if nestLabel then tooltipLabel config p else PNull,
                 Elem ''span'' ([(''children'', nullish (field_of itemConfig ''label'') (field_of item ''name''))] @
                   [(''className'', PStr ''text-muted-foreground'')])])] @ [(''className'', PStr ''grid gap-1.5'')]),
              if field_of item ''value'' = PUndef \<or> field_of item ''value'' = PNull then PBool False
              else Elem ''span'' ([(''children'', tooltip_value locale (field_of item ''value''))] @
                [(''className'', PStr ''text-foreground font-mono font-medium tabular-nums'')])])] @
             [(''className'', Cn [PStr ''flex flex-1 justify-between leading-none'',
                if nestLabel then PStr ''items-end'' else PStr ''items-center''])])])] @
        [(''key'', PNum (of_nat index')),
         (''className'', Cn [PStr ''[&>svg]:text-muted-foreground flex w-full flex-wrap items-stretch gap-2 [&>svg]:h-2.5 [&>svg]:w-2.5'',
            if indicator = PStr ''dot'' then PStr ''items-center'' else PBool False])])))"

definition ChartTooltipContent :: "(rat \<Rightarrow> string) \<Rightarrow> pv \<Rightarrow> props \<Rightarrow> pv" where
  "ChartTooltipContent locale config p =
     (let payload = pget p ''payload'';
          nestLabel = (length (payload_items payload) = 1 \<and> pget_or p ''indicator'' (PStr ''dot'') \<noteq> PStr ''dot'')
      in if \<not> is_truthy (pget p ''active'') \<or> payload_items payload = [] then PNull
         else Elem ''div'' ([(''children'', PArr
           [if nestLabel then PNull else tooltipLabel config p,
            Elem ''div'' ([(''children'', PArr (map (tooltip_row locale config p) (enumerate 0 (shown_items payload))))] @
              [(''className'', PStr ''grid gap-1.5'')])])] @
           [(''className'', Cn [PStr ''border-border/50 bg-background grid min-w-[8rem] items-start gap-1.5 rounded-lg border px-2.5 py-1.5 text-xs shadow-xl'',
              pget p ''className''])]))"

definition legend_row :: "pv \<Rightarrow> props \<Rightarrow> nat \<times> pv \<Rightarrow> pv" where
  "legend_row config p ii = (case ii of (index', item) \<Rightarrow>
     (let key = text_of (nullish (pget p ''nameKey'') (nullish (field_of item ''dataKey'') (PStr ''value'')));
          itemConfig = getPayloadConfigFromPayload config item key
      in Elem ''div'' ([(''children'', PArr
           [if is_truthy (field_of itemConfig ''icon'') \<and> \<not> is_truthy (pget_or p ''hideIcon'' (PBool False))
            then POwn ''element'' [field_of itemConfig ''icon'']
            else Elem ''div'' [(''className'', PStr ''h-2 w-2 shrink-0 rounded-[2px]''),
              (''style'', PObj [(''backgroundColor'', field_of item ''color'')])],
            field_of itemConfig ''label''])] @
         [(''key'', PNum (of_nat index')),
          (''className'', Cn [PStr ''[&>svg]:text-muted-foreground flex items-center gap-1.5 [&>svg]:h-3 [&>svg]:w-3''])])))"

definition ChartLegendContent :: "pv \<Rightarrow> props \<Rightarrow> pv" where
  "ChartLegendContent config p =
     (let payload = pget p ''payload''
      in if payload_items payload = [] then PNull
         else Elem ''div'' ([(''children'', PArr (map (legend_row config p) (enumerate 0 (shown_items payload))))] @
           [(''className'', Cn [PStr ''flex items-center justify-center gap-4'',
              if pget_or p ''verticalAlign'' (PStr ''bottom'') = PStr ''top'' then PStr ''pb-3'' else PStr ''pt-3'',
              pget p ''className''])]))"

section \<open>\<open>carousel.tsx\<close>\<close>

definition Carousel :: "carousel \<Rightarrow> props \<Rightarrow> pv" where
  "Carousel c p = (let orientation = pget_or p ''orientation'' (PStr ''horizontal'');
     opts = pget p ''opts'';
     className = pget p ''className'';
     children = pget p ''children'';
     props = rest [''orientation'', ''opts'', ''setApi'', ''plugins'', ''className'', ''children''] p
   in Elem ''CarouselContext.Provider'' ([(''children'',
        Elem ''div'' ([(''children'', children)] @ props @
          [(''onKeyDownCapture'', POwn ''handleKeyDown'' []), (''className'', Cn [PStr ''relative'', className]),
           (''role'', PStr ''region''), (''aria-roledescription'', PStr ''carousel''), (''data-slot'', PStr ''carousel'')]))] @
      [(''value'', carousel_context opts orientation c)]))"

definition CarouselContent :: "pv \<Rightarrow> props \<Rightarrow> pv" where
  "CarouselContent carousel p = (let className = pget p ''className'';
     props = rest [''className''] p;
     carouselRef = field_of carousel ''carouselRef'';
     orientation = field_of carousel ''orientation''
   in Elem ''div'' ([(''children'', Elem ''div'' (props @ [(''className'',
     Cn [PStr ''flex'', if orientation = PStr ''horizontal'' then PStr ''-ml-4'' else PStr ''-mt-4 flex-col'', className])]))]
     @ [(''ref'', carouselRef), (''className'', PStr ''overflow-hidden''),
     (''data-slot'', PStr ''carousel-content'')]))"

definition CarouselItem :: "pv \<Rightarrow> props \<Rightarrow> pv" where
  "CarouselItem carousel p = (let className = pget p ''className'';
     props = rest [''className''] p;
     orientation = field_of carousel ''orientation''
   in Elem ''div'' (props @ [(''role'', PStr ''group''), (''aria-roledescription'',
     PStr ''slide''), (''data-slot'', PStr ''carousel-item''), (''className'',
     Cn [PStr ''min-w-0 shrink-0 grow-0 basis-full'', if orientation = PStr ''horizontal'' then PStr ''pl-4'' else PStr ''pt-4'', className])]))"

definition CarouselPrevious :: "pv \<Rightarrow> props \<Rightarrow> pv" where
  "CarouselPrevious carousel p = (let className = pget p ''className'';
     variant = pget_or p ''variant'' (PStr ''outline'');
     size' = pget_or p ''size'' (PStr ''icon'');
     props = rest [''className'', ''variant'', ''size''] p;
     orientation = field_of carousel ''orientation'';
     scrollPrev = field_of carousel ''scrollPrev'';
     canScrollPrev = field_of carousel ''canScrollPrev''
   in Button_ui ([(''children'', PArr [Elem ''ArrowLeft'' [], Elem ''span'' ([(''children'',
     PStr ''Previous slide'')] @ [(''className'', PStr ''sr-only'')])])]
     @ props @ [(''data-slot'', PStr ''carousel-previous''), (''variant'', variant),
     (''size'', size'), (''className'', Cn [PStr ''absolute size-8 rounded-full'',
     if orientation = PStr ''horizontal'' then PStr ''top-1/2 -left-12 -translate-y-1/2'' else PStr ''-top-12 left-1/2 -translate-x-1/2 rotate-90'', className]),
     (''disabled'', PBool (\<not> is_truthy canScrollPrev)), (''onClick'', scrollPrev)]))"

definition CarouselNext :: "pv \<Rightarrow> props \<Rightarrow> pv" where
  "CarouselNext carousel p = (let className = pget p ''className'';
     variant = pget_or p ''variant'' (PStr ''outline'');
     size' = pget_or p ''size'' (PStr ''icon'');
     props = rest [''className'', ''variant'', ''size''] p;
     orientation = field_of carousel ''orientation'';
     scrollNext = field_of carousel ''scrollNext'';
     canScrollNext = field_of carousel ''canScrollNext''
   in Button_ui ([(''children'', PArr [Elem ''ArrowRight'' [], Elem ''span'' ([(''children'',
     PStr ''Next slide'')] @ [(''className'', PStr ''sr-only'')])])] @ props
     @ [(''data-slot'', PStr ''carousel-next''), (''variant'', variant),
     (''size'', size'), (''className'', Cn [PStr ''absolute size-8 rounded-full'',
     if orientation = PStr ''horizontal'' then PStr ''top-1/2 -right-12 -translate-y-1/2'' else PStr ''-bottom-12 left-1/2 -translate-x-1/2 rotate-90'', className]),
     (''disabled'', PBool (\<not> is_truthy canScrollNext)), (''onClick'', scrollNext)]))"

section \<open>\<open>chart.tsx\<close>\<close>

definition ChartContainer :: "string \<Rightarrow> props \<Rightarrow> pv" where
  "ChartContainer uniqueId p = (let config = pget p ''config'';
     children = pget p ''children'';
     className = pget p ''className'';
     initialDimension = pget_or p ''initialDimension'' INITIAL_DIMENSION;
     props = rest [''id'', ''className'', ''children'', ''config'', ''initialDimension''] p;
     chartId = chart_id uniqueId (pget p ''id'')
   in Elem ''ChartContext.Provider'' ([(''children'',
        Elem ''div'' ([(''children'', PArr
            [ChartStyle chartId config,
             Elem ''RechartsPrimitive.ResponsiveContainer'' ([(''children'', children)] @ [(''initialDimension'', initialDimension)])])] @
          props @ [(''data-slot'', PStr ''chart''), (''data-chart'', PStr chartId),
            (''className'', Cn [PStr ''[&_.recharts-cartesian-axis-tick_text]:fill-muted-foreground [&_.recharts-cartesian-grid_line[stroke='#ccc']]:stroke-border/50 [&_.recharts-curve.recharts-tooltip-cursor]:stroke-border [&_.recharts-polar-grid_[stroke='#ccc']]:stroke-border [&_.recharts-radial-bar-background-sector]:fill-muted [&_.recharts-rectangle.recharts-tooltip-cursor]:fill-muted [&_.recharts-reference-line_[stroke='#ccc']]:stroke-border flex aspect-video justify-center text-xs [&_.recharts-dot[stroke='#fff']]:stroke-transparent [&_.recharts-layer]:outline-hidden [&_.recharts-sector]:outline-hidden [&_.recharts-sector[stroke='#fff']]:stroke-transparent [&_.recharts-surface]:outline-hidden'', className])]))] @
      [(''value'', PObj [(''config'', config)])]))"

definition ChartTooltip :: "props \<Rightarrow> pv" where
  "ChartTooltip p = Elem ''RechartsPrimitive.Tooltip'' p"

definition ChartLegend :: "props \<Rightarrow> pv" where
  "ChartLegend p = Elem ''RechartsPrimitive.Legend'' p"

end
