(* ===== verification/KitCalendar.thy ===== *)
theory KitCalendar
  imports KitBasics
begin

text \<open>
  The calendar of the kit (\<open>web/src/components/ui/calendar.tsx\<close>): what it hands to the date picker of
  another package, the parts it replaces in it and the button of a day. \<open>defaultClassNames\<close> is what the
  package's \<open>getDefaultClassNames\<close> returns, \<open>localeDate\<close> the platform's way to write a date.
\<close>

section \<open>The calendar\<close>

definition calendar_classNames :: "pv \<Rightarrow> pv \<Rightarrow> pv \<Rightarrow> pv \<Rightarrow> pv \<Rightarrow> pv" where
  "calendar_classNames defaultClassNames captionLayout buttonVariant showWeekNumber classNames = PObj (entries classNames @
    [(''root'', Cn [PStr ''w-fit'',
        field_of defaultClassNames ''root'']),
     (''months'', Cn [PStr ''relative flex flex-col gap-4 md:flex-row'',
        field_of defaultClassNames ''months'']),
     (''month'', Cn [PStr ''flex w-full flex-col gap-4'',
        field_of defaultClassNames ''month'']),
     (''nav'', Cn [PStr ''absolute inset-x-0 top-0 flex w-full items-center justify-between gap-1'',
        field_of defaultClassNames ''nav'']),
     (''button_previous'', Cn [buttonVariants [(''variant'', buttonVariant)],
        PStr ''size-(--cell-size) p-0 select-none aria-disabled:opacity-50'',
        field_of defaultClassNames ''button_previous'']),
     (''button_next'', Cn [buttonVariants [(''variant'', buttonVariant)],
        PStr ''size-(--cell-size) p-0 select-none aria-disabled:opacity-50'',
        field_of defaultClassNames ''button_next'']),
     (''month_caption'', Cn [PStr ''flex h-(--cell-size) w-full items-center justify-center px-(--cell-size)'',
        field_of defaultClassNames ''month_caption'']),
     (''dropdowns'', Cn [PStr ''flex h-(--cell-size) w-full items-center justify-center gap-1.5 text-sm font-medium'',
        field_of defaultClassNames ''dropdowns'']),
     (''dropdown_root'', Cn [PStr ''relative rounded-md border border-input shadow-xs has-focus:border-ring has-focus:ring-[3px] has-focus:ring-ring/50'',
        field_of defaultClassNames ''dropdown_root'']),
     (''dropdown'', Cn [PStr ''absolute inset-0 bg-popover opacity-0'',
        field_of defaultClassNames ''dropdown'']),
     (''caption_label'', Cn [PStr ''font-medium select-none'',
        (if captionLayout = PStr ''label'' then PStr ''text-sm''
         else PStr ''flex h-8 items-center gap-1 rounded-md pr-1 pl-2 text-sm [&>svg]:size-3.5 [&>svg]:text-muted-foreground''),
        field_of defaultClassNames ''caption_label'']),
     (''month_grid'', Cn [PStr ''w-full border-collapse'',
        field_of defaultClassNames ''month_grid'']),
     (''weekdays'', Cn [PStr ''flex'',
        field_of defaultClassNames ''weekdays'']),
     (''weekday'', Cn [PStr ''flex-1 rounded-md text-[0.8rem] font-normal text-muted-foreground select-none'',
        field_of defaultClassNames ''weekday'']),
     (''week'', Cn [PStr ''mt-2 flex w-full'',
        field_of defaultClassNames ''week'']),
     (''week_number_header'', Cn [PStr ''w-(--cell-size) select-none'',
        field_of defaultClassNames ''week_number_header'']),
     (''week_number'', Cn [PStr ''text-[0.8rem] text-muted-foreground select-none'',
        field_of defaultClassNames ''week_number'']),
     (''day'', Cn [PStr ''group/day relative aspect-square h-full w-full p-0 text-center select-none [&:last-child[data-selected=true]_button]:rounded-r-md'',
        (if is_truthy showWeekNumber then PStr ''[&:nth-child(2)[data-selected=true]_button]:rounded-l-md''
         else PStr ''[&:first-child[data-selected=true]_button]:rounded-l-md''),
        field_of defaultClassNames ''day'']),
     (''range_start'', Cn [PStr ''rounded-l-md bg-accent'',
        field_of defaultClassNames ''range_start'']),
     (''range_middle'', Cn [PStr ''rounded-none'',
        field_of defaultClassNames ''range_middle'']),
     (''range_end'', Cn [PStr ''rounded-r-md bg-accent'',
        field_of defaultClassNames ''range_end'']),
     (''today'', Cn [PStr ''rounded-md bg-accent text-accent-foreground data-[selected=true]:rounded-none'',
        field_of defaultClassNames ''today'']),
     (''outside'', Cn [PStr ''text-muted-foreground aria-selected:text-muted-foreground'',
        field_of defaultClassNames ''outside'']),
     (''disabled'', Cn [PStr ''text-muted-foreground opacity-50'',
        field_of defaultClassNames ''disabled'']),
     (''hidden'', Cn [PStr ''invisible'',
        field_of defaultClassNames ''hidden''])])"

definition Calendar :: "pv \<Rightarrow> props \<Rightarrow> pv" where
  "Calendar defaultClassNames p = (let className = pget p ''className'';
     classNames = pget p ''classNames'';
     showOutsideDays = pget_or p ''showOutsideDays'' (PBool True);
     captionLayout = pget_or p ''captionLayout'' (PStr ''label'');
     buttonVariant = pget_or p ''buttonVariant'' (PStr ''ghost'');
     formatters = pget p ''formatters'';
     components = pget p ''components'';
     props = rest [''className'', ''classNames'', ''showOutsideDays'', ''captionLayout'', ''buttonVariant'', ''formatters'',
       ''components''] p
   in Elem ''DayPicker'' (props @
     [(''components'', PObj (entries components @
        [(''WeekNumber'', POwn ''calendar_WeekNumber'' []), (''DayButton'', POwn ''CalendarDayButton'' []),
         (''Chevron'', POwn ''calendar_Chevron'' []), (''Root'', POwn ''calendar_Root'' [])])),
      (''classNames'', calendar_classNames defaultClassNames captionLayout buttonVariant (pget props ''showWeekNumber'') classNames),
      (''formatters'', PObj (entries formatters @ [(''formatMonthDropdown'', POwn ''formatMonthDropdown'' [])])),
      (''captionLayout'', captionLayout),
      (''className'', Cn
        [PStr ''group/calendar bg-background p-3 [--cell-size:--spacing(8)] [[data-slot=card-content]_&]:bg-transparent [[data-slot=popover-content]_&]:bg-transparent'',
         PStr (''rtl:**:[.rdp-button'' @ [CHR 0x5C] @ ''_next>svg]:rotate-180''),
         PStr (''rtl:**:[.rdp-button'' @ [CHR 0x5C] @ ''_previous>svg]:rotate-180''), className]),
      (''showOutsideDays'', showOutsideDays)]))"

section \<open>The parts it replaces\<close>

definition calendar_Root :: "props \<Rightarrow> pv" where
  "calendar_Root p = (let className = pget p ''className''; rootRef = pget p ''rootRef'';
     props = rest [''className'', ''rootRef''] p
   in Elem ''div'' (props @ [(''className'', Cn [className]), (''ref'', rootRef), (''data-slot'', PStr ''calendar'')]))"

definition calendar_Chevron :: "props \<Rightarrow> pv" where
  "calendar_Chevron p = (let className = pget p ''className''; orientation = pget p ''orientation'';
     props = rest [''className'', ''orientation''] p;
     icon = (if orientation = PStr ''left'' then ''ChevronLeftIcon''
       else if orientation = PStr ''right'' then ''ChevronRightIcon'' else ''ChevronDownIcon'')
   in Elem icon (props @ [(''className'', Cn [PStr ''size-4'', className])]))"

definition calendar_WeekNumber :: "props \<Rightarrow> pv" where
  "calendar_WeekNumber p = (let children = pget p ''children''; props = rest [''children''] p
   in Elem ''td'' ((''children'', Elem ''div'' [(''children'', children),
        (''className'', PStr ''flex size-(--cell-size) items-center justify-center text-center'')]) # props))"

section \<open>The button of a day\<close>

text \<open>\<open>a && b\<close>; \<open>own_ref\<close> is the reference the button keeps for itself.\<close>

definition both :: "pv \<Rightarrow> pv \<Rightarrow> pv" where
  "both a b = (if is_truthy a then b else a)"

definition own_ref :: pv where
  "own_ref = POwn ''ref'' []"

definition selected_single :: "pv \<Rightarrow> pv" where
  "selected_single modifiers = both (both (both (field_of modifiers ''selected'')
       (PBool (\<not> is_truthy (field_of modifiers ''range_start''))))
     (PBool (\<not> is_truthy (field_of modifiers ''range_end''))))
     (PBool (\<not> is_truthy (field_of modifiers ''range_middle'')))"

definition CalendarDayButton :: "pv \<Rightarrow> (pv \<Rightarrow> string) \<Rightarrow> props \<Rightarrow> pv" where
  "CalendarDayButton defaultClassNames localeDate p = (let className = pget p ''className'';
     day = pget p ''day''; modifiers = pget p ''modifiers'';
     props = rest [''className'', ''day'', ''modifiers''] p
   in Button_ui (props @
     [(''className'', Cn [PStr ''group-data-[focused=true]/day:border-ring group-data-[focused=true]/day:ring-ring/50 data-[range-end=true]:bg-primary data-[range-end=true]:text-primary-foreground data-[range-middle=true]:bg-accent data-[range-middle=true]:text-accent-foreground data-[range-start=true]:bg-primary data-[range-start=true]:text-primary-foreground data-[selected-single=true]:bg-primary data-[selected-single=true]:text-primary-foreground dark:hover:text-accent-foreground flex aspect-square size-auto w-full min-w-(--cell-size) flex-col gap-1 leading-none font-normal group-data-[focused=true]/day:relative group-data-[focused=true]/day:z-10 group-data-[focused=true]/day:ring-[3px] data-[range-end=true]:rounded-md data-[range-end=true]:rounded-r-md data-[range-middle=true]:rounded-none data-[range-start=true]:rounded-md data-[range-start=true]:rounded-l-md [&>span]:text-xs [&>span]:opacity-70'',
        field_of defaultClassNames ''day'', className]),
      (''data-range-middle'', field_of modifiers ''range_middle''),
      (''data-range-end'', field_of modifiers ''range_end''),
      (''data-range-start'', field_of modifiers ''range_start''),
      (''data-selected-single'', selected_single modifiers),
      (''data-day'', PStr (localeDate (field_of day ''date''))),
      (''size'', PStr ''icon''), (''variant'', PStr ''ghost''), (''ref'', own_ref)]))"

text \<open>After a render with a changed \<open>focused\<close> modifier the element behind the button's own reference, if there is
  one, takes the focus.\<close>

definition day_focuses :: "pv \<Rightarrow> props \<Rightarrow> bool" where
  "day_focuses modifiers_before p \<longleftrightarrow> field_of (pget p ''modifiers'') ''focused'' \<noteq> field_of modifiers_before ''focused'' \<and>
     is_truthy (field_of (pget p ''modifiers'') ''focused'') \<and> map_of p ''ref'' = None"

section \<open>Contracts\<close>

lemma calendar_root_contract [kit_contracts]: "follows calendar_Root ''calendar'' [''className'', ''rootRef'']"
  by (simp add: kit_simps calendar_Root_def cong: kit_cong)

lemma calendar_day_contract:
  "follows (CalendarDayButton defaultClassNames localeDate) ''button''
     [''className'', ''day'', ''modifiers'', ''variant'', ''size'', ''asChild'']"
  by (simp add: kit_simps CalendarDayButton_def Button_ui_def buttonVariants_def cong: kit_cong)

text \<open>The date picker gets what the caller passes; a class name, a formatter or a part the caller names replaces
  the calendar's, and the others stay.\<close>

lemma calendar_passes:
  "receives (Calendar defaultClassNames p) p
     [''className'', ''classNames'', ''showOutsideDays'', ''captionLayout'', ''buttonVariant'', ''formatters'', ''components'']"
  by (simp add: Calendar_def Let_def cong: kit_cong)

lemma calendar_overrides:
  "map_of (entries (pget p ''components'')) part = Some v \<Longrightarrow>
   field_of (attr (Calendar defaultClassNames p) ''components'') part = v"
  by (simp add: Calendar_def Let_def cong: kit_cong)

lemma calendar_keeps:
  "map_of (entries (pget p ''components'')) ''DayButton'' = None \<Longrightarrow>
   field_of (attr (Calendar defaultClassNames p) ''components'') ''DayButton'' = POwn ''CalendarDayButton'' []"
  by (simp add: Calendar_def Let_def cong: kit_cong)

text \<open>A day is marked as a single selection exactly when it is selected outside a range.\<close>

lemma selected_single_iff:
  "is_truthy (selected_single modifiers) \<longleftrightarrow> is_truthy (field_of modifiers ''selected'') \<and>
     \<not> is_truthy (field_of modifiers ''range_start'') \<and> \<not> is_truthy (field_of modifiers ''range_end'') \<and>
     \<not> is_truthy (field_of modifiers ''range_middle'')"
  by (auto simp: selected_single_def both_def)

text \<open>A caller's own reference takes the place of the button's, which then never gives the focus.\<close>

lemma day_ref: "attr (CalendarDayButton d f p) ''ref'' = (case map_of p ''ref'' of Some r \<Rightarrow> r | None \<Rightarrow> own_ref)"
  by (simp add: CalendarDayButton_def Button_ui_def Let_def cong: kit_cong split: option.splits)

end
