(* ===== verification/Kit_Props.thy ===== *)
theory Kit_Props
  imports KitSidebar KitForms KitDisplay KitCalendar
begin

text \<open>
  Properties of the user-interface kit: the contract every plain component follows, the sidebar's state
  against a specification, the names that tie the parts of a form field together, the errors of a
  field, the copy the carousel keeps of its library's answers, and the chart's configuration lookup.
\<close>

section \<open>The contract of the kit\<close>

definition kit :: "((props \<Rightarrow> pv) \<times> string \<times> string list) list" where
  "kit = basics @ controls @ overlays @ sidebar_parts @ [(calendar_Root, ''calendar'', [''className'', ''rootRef''])]"


section \<open>The sidebar\<close>

text \<open>The specification: the sidebar is open or not, on a narrow window a sheet is; what a user does is
  applied at once. \<open>touched\<close> says whether the desktop state was ever set.\<close>

record sidebar_spec =
  sp_open :: bool
  sp_sheet :: bool
  sp_width :: int
  sp_touched :: bool

definition spec_set :: "bool \<Rightarrow> sidebar_spec \<Rightarrow> sidebar_spec" where
  "spec_set b s = s\<lparr>sp_open := b, sp_touched := True\<rparr>"

definition spec_toggle :: "sidebar_spec \<Rightarrow> sidebar_spec" where
  "spec_toggle s = (if sp_width s < 768 then s\<lparr>sp_sheet := \<not> sp_sheet s\<rparr> else spec_set (\<not> sp_open s) s)"

fun spec_step :: "sidebar_event \<Rightarrow> sidebar_spec \<Rightarrow> sidebar_spec" where
  "spec_step Toggle_sidebar s = spec_toggle s"
| "spec_step (Key_down key metaKey ctrlKey) s = (if key = ''b'' \<and> (metaKey \<or> ctrlKey) then spec_toggle s else s)"
| "spec_step (Set_open b) s = spec_set b s"
| "spec_step (Sheet_change b) s = s\<lparr>sp_sheet := b\<rparr>"
| "spec_step (Resize w) s = s\<lparr>sp_width := w\<rparr>"
| "spec_step Render s = s"

definition uncontrolled :: sidebar_props where
  "uncontrolled = \<lparr>openProp = None, setOpenProp = False\<rparr>"

text \<open>React renders after every event.\<close>

definition rendered_run :: "sidebar_props \<Rightarrow> sidebar_event list \<Rightarrow> sidebar \<Rightarrow> sidebar" where
  "rendered_run q es s = fold (\<lambda>e s. sidebar_rendered q (sidebar_step q e s)) es s"

definition sidebar_sim :: "string option \<Rightarrow> sidebar \<Rightarrow> sidebar_spec \<Rightarrow> bool" where
  "sidebar_sim cookie s a \<longleftrightarrow> sb_open s = sp_open a \<and> sb_openMobile s = sp_sheet a \<and>
     sb_mobile s = \<lparr>mh_width = sp_width a, mh_isMobile = Some (sp_width a < 768)\<rparr> \<and>
     sb_cookie s = (if sp_touched a then Some (cookie_text (sp_open a)) else cookie) \<and> sb_calls s = [] \<and>
     sb_render s = \<lparr>r_open = sp_open a, r_isMobile = sp_width a < 768, r_setOpenProp = False\<rparr>"

lemmas sidebar_defs = sidebar_rendered_def sidebar_sim_def uncontrolled_def toggleSidebar_def setOpen_def
  sidebar_keydown_def useIsMobile_def mobile_resize_def mobile_onChange_def media_matches_def
  MOBILE_BREAKPOINT_def SIDEBAR_KEYBOARD_SHORTCUT_def spec_toggle_def spec_set_def Let_def

lemma sim_toggle: "sidebar_sim c s a \<Longrightarrow> sidebar_sim c (sidebar_rendered uncontrolled (toggleSidebar s)) (spec_toggle a)"
  by (cases "sp_width a < 768") (simp_all add: sidebar_defs)

lemma sim_set: "sidebar_sim c s a \<Longrightarrow> sidebar_sim c (sidebar_rendered uncontrolled (setOpen (\<lambda>_. b) s)) (spec_set b a)"
  by (simp add: sidebar_defs)

lemma sim_render: "sidebar_sim c s a \<Longrightarrow> sidebar_rendered uncontrolled s = s"
  by (simp add: sidebar_defs)

lemma sim_step:
  "sidebar_sim c s a \<Longrightarrow> sidebar_sim c (sidebar_rendered uncontrolled (sidebar_step uncontrolled e s)) (spec_step e a)"
proof (cases e)
  case (Resize w)
  then show "sidebar_sim c s a \<Longrightarrow> ?thesis" by (auto simp: sidebar_defs)
qed (auto simp: sim_toggle sim_set sim_render sidebar_keydown_def SIDEBAR_KEYBOARD_SHORTCUT_def,
     simp_all add: sidebar_defs)

lemma sim_mounted:
  "sidebar_sim c (sidebar_mounted uncontrolled d w c) \<lparr>sp_open = d, sp_sheet = False, sp_width = w, sp_touched = False\<rparr>"
  by (simp add: sidebar_mounted_def mobile_mount_def sidebar_defs)

text \<open>
  C21: the sidebar of the kit is what its specification says. If every event is rendered before the
  next, a sidebar that its parent does not control has, after any history of toggles, key presses,
  settings and window resizes, the open state, the open sheet and the narrow-window answer of the
  specification; its cookie is untouched while the desktop state was never set and afterwards always
  says that state.
\<close>
theorem sidebar_meets_spec:
  "let s = rendered_run uncontrolled es (sidebar_mounted uncontrolled defaultOpen width cookie);
       a = fold spec_step es \<lparr>sp_open = defaultOpen, sp_sheet = False, sp_width = width, sp_touched = False\<rparr>
   in sb_open s = sp_open a \<and> sb_openMobile s = sp_sheet a \<and> useIsMobile (sb_mobile s) = (sp_width a < 768) \<and>
      sb_cookie s = (if sp_touched a then Some (cookie_text (sp_open a)) else cookie)"
proof -
  have "sidebar_sim cookie (rendered_run uncontrolled es s) (fold spec_step es a)" if "sidebar_sim cookie s a" for s a
    using that unfolding rendered_run_def by (induction es arbitrary: s a) (simp_all add: sim_step)
  from this [OF sim_mounted] show ?thesis
    unfolding Let_def sidebar_sim_def by (simp add: useIsMobile_def)
qed

text \<open>The handlers close over the state of their render: a second toggle before the next render is lost on a
  wide window, while on a narrow one it takes the sheet back.\<close>

lemma stale_toggle:
  "\<not> r_isMobile (sb_render s) \<Longrightarrow> \<not> r_setOpenProp (sb_render s) \<Longrightarrow> toggleSidebar (toggleSidebar s) = toggleSidebar s"
  "r_isMobile (sb_render s) \<Longrightarrow> toggleSidebar (toggleSidebar s) = s"
  by (simp_all add: sidebar_defs)

text \<open>A controlled sidebar reports the wish; the cookie records it whether or not the parent follows.\<close>

lemma controlled_cookie:
  "sb_render s = \<lparr>r_open = b, r_isMobile = False, r_setOpenProp = True\<rparr> \<Longrightarrow>
   sb_open (toggleSidebar s) = sb_open s \<and> sb_calls (toggleSidebar s) = sb_calls s @ [\<not> b] \<and>
   sb_cookie (toggleSidebar s) = Some (cookie_text (\<not> b))"
  by (simp add: sidebar_defs)

lemma skeleton_width_bounds: "0 \<le> r \<Longrightarrow> r < 1 \<Longrightarrow> 50 \<le> skeleton_width r \<and> skeleton_width r < 90"
proof -
  assume "0 \<le> r" "r < 1"
  then have "0 \<le> \<lfloor>r * 40\<rfloor>" "\<lfloor>r * 40\<rfloor> < 40" by (simp_all add: floor_less_iff)
  then show ?thesis by (simp add: skeleton_width_def)
qed

text \<open>The trigger keeps the caller's click handler beside the toggle; the rail lets it replace the toggle.\<close>

lemma trigger_and_rail:
  "attr (SidebarTrigger [(''onClick'', PFn n)]) ''onClick'' = POwn ''trigger_click'' [PFn n]"
  "attr (SidebarRail [(''onClick'', PFn n)]) ''onClick'' = PFn n"
  by (simp_all add: SidebarTrigger_def SidebarRail_def Button_ui_def Let_def cong: kit_cong)

section \<open>The parts of a form field\<close>

text \<open>The library's state of a field; the caller leaves the names of the parts alone.\<close>

definition field_state_ok :: "(string \<times> pv) list \<Rightarrow> bool" where
  "field_state_ok fs \<longleftrightarrow> set (map fst fs) \<subseteq> {''invalid'', ''isDirty'', ''isTouched'', ''isValidating'', ''error''}"

definition leaves_names :: "props \<Rightarrow> bool" where
  "leaves_names p \<longleftrightarrow> map_of p ''id'' = None \<and> map_of p ''htmlFor'' = None \<and> map_of p ''aria-describedby'' = None"

definition name_suffixes :: "string list" where
  "name_suffixes = [''-form-item'', ''-form-item-description'', ''-form-item-message'']"

definition item_names :: "string \<Rightarrow> string list" where
  "item_names i = map (\<lambda>s. i @ s) name_suffixes"

lemma suffix_by_last: "list_all (\<lambda>s. s \<noteq> [] \<and> list_all (\<lambda>t. last s = last t \<longrightarrow> s = t) name_suffixes) name_suffixes"
  by code_simp

lemma item_names_disjoint: "i \<noteq> j \<Longrightarrow> set (item_names i) \<inter> set (item_names j) = {}"
proof -
  have "i = j" if st: "s \<in> set name_suffixes" "t \<in> set name_suffixes" and eq: "i @ s = j @ t" for s t
  proof -
    have l: "s \<noteq> [] \<and> t \<noteq> [] \<and> (last s = last t \<longrightarrow> s = t)"
      using suffix_by_last st by (fastforce simp: list_all_iff)
    then have "last s = last t" using arg_cong [OF eq, of last] by simp
    then have "s = t" using l by blast
    then show ?thesis using eq by simp
  qed
  then show "i \<noteq> j \<Longrightarrow> ?thesis" by (auto simp: item_names_def)
qed

lemma state_misses: "field_state_ok fs \<Longrightarrow> k \<notin> {''invalid'', ''isDirty'', ''isTouched'', ''isValidating'', ''error''} \<Longrightarrow> map_of fs k = None"
  unfolding field_state_ok_def map_of_eq_None_iff set_map by blast

text \<open>
  C22: the parts of a form field find each other. In a field of the item \<open>i\<close>, whatever else the caller
  passes, the label points at the control, the control is described by the description's element and,
  exactly when the field has an error, also by the message's; the message carries that name, and it is
  missing although the control refers to it exactly when the error's message is empty. Two items never
  share a name.
\<close>
theorem form_parts_connected:
  assumes "useFormField getFieldState fieldContext (PObj [(''id'', PStr i)]) = Inr field"
    and "field_state_ok (getFieldState (field_of fieldContext ''name''))" and "leaves_names p"
  shows "attr (FormControl field p) ''id'' = PStr (i @ ''-form-item'') \<and>
    attr (FormLabel field p) ''htmlFor'' = attr (FormControl field p) ''id'' \<and>
    attr (FormDescription field p) ''id'' = PStr (i @ ''-form-item-description'') \<and>
    attr (FormControl field p) ''aria-describedby'' =
      PStr (if is_truthy (field_of field ''error'')
            then i @ ''-form-item-description'' @ '' '' @ i @ ''-form-item-message''
            else i @ ''-form-item-description'') \<and>
    (FormMessage field p \<noteq> PNull \<longrightarrow> attr (FormMessage field p) ''id'' = PStr (i @ ''-form-item-message'')) \<and>
    (is_truthy (field_of field ''error'') \<longrightarrow>
      (FormMessage field p = PNull \<longleftrightarrow> text_of (nullish (field_of (field_of field ''error'') ''message'') (PStr [])) = [])) \<and>
    (j \<noteq> i \<longrightarrow> set (item_names i) \<inter> set (item_names j) = {})"
proof -
  let ?fs = "getFieldState (field_of fieldContext ''name'')"
  have field: "field = PObj (?fs @
     [(''id'', PStr i), (''name'', field_of fieldContext ''name''), (''formItemId'', PStr (i @ ''-form-item'')),
      (''formDescriptionId'', PStr (i @ ''-form-item-description'')), (''formMessageId'', PStr (i @ ''-form-item-message''))])"
    using assms(1) by (auto simp: useFormField_def Let_def split: if_splits)
  have names: "field_of field ''formItemId'' = PStr (i @ ''-form-item'')"
    "field_of field ''formDescriptionId'' = PStr (i @ ''-form-item-description'')"
    "field_of field ''formMessageId'' = PStr (i @ ''-form-item-message'')"
    using state_misses [OF assms(2)] by (simp_all add: field)
  have p: "map_of p ''id'' = None" "map_of p ''htmlFor'' = None" "map_of p ''aria-describedby'' = None"
    using assms(3) by (simp_all add: leaves_names_def)
  show ?thesis
    using item_names_disjoint [of i j]
    by (auto simp: FormControl_def FormLabel_def FormDescription_def FormMessage_def Label_def Let_def names p)
qed

lemma form_parts_connected_witness:
  "attr (FormControl (PObj [(''error'', PObj [(''message'', PStr ''Required'')]), (''id'', PStr ''r1''), (''name'', PStr ''email''),
      (''formItemId'', PStr ''r1-form-item''), (''formDescriptionId'', PStr ''r1-form-item-description''),
      (''formMessageId'', PStr ''r1-form-item-message'')]) []) ''aria-describedby'' =
    PStr ''r1-form-item-description r1-form-item-message''"
proof -
  let ?s = "\<lambda>_. [(''error'', PObj [(''message'', PStr ''Required'')])]"
  have u: "useFormField ?s (PObj [(''name'', PStr ''email'')]) (PObj [(''id'', PStr ''r1'')]) = Inr (PObj
     [(''error'', PObj [(''message'', PStr ''Required'')]), (''id'', PStr ''r1''), (''name'', PStr ''email''),
      (''formItemId'', PStr ''r1-form-item''), (''formDescriptionId'', PStr ''r1-form-item-description''),
      (''formMessageId'', PStr ''r1-form-item-message'')])"
    by (simp add: useFormField_def)
  show ?thesis
    using form_parts_connected [OF u, of "[]"] by (simp add: field_state_ok_def leaves_names_def)
qed

text \<open>The guard of \<open>useFormField\<close> never fires: the default context is an object. Outside a field the names are
  made of an identifier that is \<open>undefined\<close>.\<close>

lemma guard_never_fires:
  "useFormField g (PObj fs) itemContext \<noteq> Inl e"
  "useFormField (\<lambda>_. []) default_context default_context = Inr (PObj
     [(''id'', PUndef), (''name'', PUndef), (''formItemId'', PStr ''undefined-form-item''),
      (''formDescriptionId'', PStr ''undefined-form-item-description''), (''formMessageId'', PStr ''undefined-form-item-message'')])"
  by (simp_all add: useFormField_def default_context_def Let_def)

section \<open>The errors of a field\<close>

lemma keys_from_members: "map fst (from_members kvs) = firsts (map fst kvs)"
proof (induction kvs rule: rev_induct)
  case (snoc kv kvs)
  obtain k v where kv: "kv = (k, v)" by (cases kv)
  have step: "from_members (kvs @ [kv]) = AList.update k v (from_members kvs)" by (simp add: from_members_def kv)
  show ?case unfolding step keys_update snoc.IH by (simp add: firsts_snoc kv)
qed (simp add: from_members_def)

lemma from_members_inv:
  "(\<forall>(k, v)\<in>set kvs. P k v) \<Longrightarrow> (k, v) \<in> set (from_members kvs) \<Longrightarrow> P k v"
proof (induction kvs arbitrary: k v rule: rev_induct)
  case (snoc kv kvs)
  obtain k' v' where kv: "kv = (k', v')" by (cases kv)
  have step: "from_members (kvs @ [kv]) = AList.update k' v' (from_members kvs)" by (simp add: from_members_def kv)
  have upd: "(k, v) \<in> set (AList.update k' v' m) \<Longrightarrow> (k, v) = (k', v') \<or> (k, v) \<in> set m" for m
    by (induction m) (auto split: if_splits)
  from upd [OF snoc.prems(2) [unfolded step]] show ?case
    using snoc.IH [of k v] snoc.prems(1) by (auto simp: kv)
qed (simp add: from_members_def)

text \<open>Each message once: the errors that are kept stand for the messages in order of first appearance.\<close>

lemma unique_messages:
  "map (\<lambda>e. field_of e ''message'') (uniqueErrors errors) = firsts (map (\<lambda>e. field_of e ''message'') errors)"
proof -
  let ?kvs = "map (\<lambda>e. (field_of e ''message'', e)) errors"
  have "map (\<lambda>(k, e). field_of e ''message'') (from_members ?kvs) = map fst (from_members ?kvs)"
    using from_members_inv [of ?kvs "\<lambda>k e. field_of e ''message'' = k"] by (auto simp: fst_def)
  also have "\<dots> = firsts (map (\<lambda>e. field_of e ''message'') errors)"
    by (simp add: keys_from_members comp_def)
  finally show ?thesis by (simp add: uniqueErrors_def comp_def case_prod_unfold)
qed

text \<open>When the alert is shown: with children, with a message, and, empty, with two different messages none of
  which has a text.\<close>

lemma field_error_shown:
  "FieldError p \<noteq> PNull \<longleftrightarrow> is_truthy (pget p ''children'') \<or>
     (\<exists>es. pget p ''errors'' = PArr es \<and>
       (let ms = firsts (map (\<lambda>e. field_of e ''message'') es)
        in length ms \<ge> 2 \<or> (length ms = 1 \<and> is_truthy (hd ms))))"
proof (cases "pget p ''errors''")
  case (PArr es)
  have m: "firsts (map (\<lambda>e. field_of e ''message'') es) = map (\<lambda>e. field_of e ''message'') (uniqueErrors es)"
    by (simp add: unique_messages)
  have e: "es = [] \<longleftrightarrow> uniqueErrors es = []"
    using arg_cong [OF m, of length] by (cases es) auto
  show ?thesis
  proof (cases "uniqueErrors es")
    case (Cons u us)
    then show ?thesis using e by (cases us) (simp_all add: FieldError_def error_content_def PArr Let_def m)
  qed (use e in \<open>simp add: FieldError_def error_content_def PArr Let_def\<close>)
qed (auto simp: FieldError_def error_content_def Let_def)

text \<open>An alert without a text.\<close>

lemma empty_alert:
  "FieldError [(''errors'', PArr [PObj [(''message'', PStr [])], PUndef])] \<noteq> PNull"
  by (simp add: field_error_shown Let_def)

section \<open>The carousel\<close>

text \<open>While it is mounted and subscribed, the copy agrees with the library after every event; after the
  cleanup the component still answers \<open>reInit\<close>, and each further mount answers once more.\<close>

definition carousel_agrees :: "carousel_api \<times> carousel \<Rightarrow> bool" where
  "carousel_agrees ac = (case ac of (a, c) \<Rightarrow> api_on_select a > 0 \<and> api_on_reInit a > 0 \<and>
     canScrollPrev c = api_prev a \<and> canScrollNext c = api_next a)"

lemma onSelect_pow:
  "0 < n \<Longrightarrow> canScrollPrev ((onSelect (Some a) ^^ n) c) = api_prev a \<and> canScrollNext ((onSelect (Some a) ^^ n) c) = api_next a"
  "carousel_dispatched ((onSelect (Some a) ^^ n) c) = carousel_dispatched c + n"
  by (induction n) (auto simp: onSelect_def)

lemma carousel_agrees_step: "carousel_agrees ac \<Longrightarrow> carousel_agrees (carousel_step e ac)"
  by (cases ac; cases e)
    (auto simp: carousel_agrees_def Let_def api_answers_def onSelect_pow scrollPrev_def scrollNext_def carousel_keydown_def)

lemma carousel_subscribed: "carousel_agrees (carousel_subscribe ac)"
  by (cases ac) (simp add: carousel_subscribe_def carousel_agrees_def onSelect_def)

lemma carousel_leak:
  "api_on_select a = 0 \<Longrightarrow> api_on_reInit a = n \<Longrightarrow>
   carousel_dispatched (snd (carousel_step (Api_reInit b1 b2) (carousel_cleanup (carousel_subscribe (a, c))))) = carousel_dispatched c + n + 2"
  "api_on_select a = 0 \<Longrightarrow>
   carousel_dispatched (snd (carousel_step (Api_select b1 b2) (carousel_cleanup (carousel_subscribe (a, c))))) = carousel_dispatched c + 1"
  by (simp_all add: carousel_subscribe_def carousel_cleanup_def Let_def api_answers_def onSelect_pow del: funpow.simps)
    (simp_all add: onSelect_def)

text \<open>The axis follows the orientation of the component whatever the options say.\<close>

lemma carousel_axis: "field_of (carousel_options opts orientation) ''axis'' = PStr (if orientation = PStr ''horizontal'' then ''x'' else ''y'')"
  by (simp add: carousel_options_def)

section \<open>Chart entries\<close>

text \<open>With names that no object inherits, the lookup takes the entry named by the item's own text, else by its
  inner payload's, else by the key, and falls back to the key's entry.\<close>

lemma chart_entry:
  assumes "map_of fs key = Some (PStr l)" "map_of cs l = Some e"
  shows "getPayloadConfigFromPayload (PObj cs) (PObj fs) key = e"
proof -
  have "has_member (PObj fs) key" "has_member (PObj cs) l"
    using assms by (force simp: has_member_def dest: map_of_SomeD)+
  then show ?thesis using assms
    by (simp add: getPayloadConfigFromPayload_def Let_def js_member_def is_object_def is_string_def)
qed

text \<open>An item whose text is the name of an inherited member finds that function instead of an entry.\<close>

lemma chart_inherited:
  "getPayloadConfigFromPayload (PObj [(''name'', PObj [(''label'', PStr ''Name'')])]) (PObj [(''name'', PStr ''constructor'')]) ''name'' =
   POwn ''constructor'' []"
  by code_simp

end
