(* ===== verification/Routing.thy ===== *)
theory Routing
  imports ApiClient
begin

text \<open>
  How a call of the dashboard finds its handler in mock mode: the request patterns of
  \<open>web/src/mocks/handlers.ts\<close> in their order, the scenarios of \<open>web/src/mocks/scenarios.ts\<close> that
  \<open>web/src/mocks/browser.ts\<close> puts in front of them, and the URL a call is sent to. What a handler does
  with the request is in \<open>MockStore\<close> and \<open>MockGovernance\<close>.

  The matching itself is the mock library's: an argument \<open>matches\<close> of the definitions, which takes the
  origin of the page, a pattern and the URL of a request, and gives the path parameters if the pattern
  fits. \<open>documented_matching\<close> is what the library documents: a star stands for any beginning of the
  URL, \<open>:name\<close> for one segment of the path, which is decoded, other segments are compared without
  regard to case, the query and the fragment are ignored, and a pattern without a star is relative to
  the page.
\<close>

section \<open>Percent decoding\<close>

text \<open>\<open>decodeURIComponent\<close>, on texts whose bytes encode characters below 256; another text, which the
  function rejects or decodes to a character outside the model, is \<open>None\<close>.\<close>

definition hex_value :: "char \<Rightarrow> nat option" where
  "hex_value c = (let n = code_unit c in
     if 48 \<le> n \<and> n \<le> 57 then Some (n - 48)
     else if 65 \<le> n \<and> n \<le> 70 then Some (n - 55)
     else if 97 \<le> n \<and> n \<le> 102 then Some (n - 87)
     else None)"

definition byte_at :: "string \<Rightarrow> nat option" where
  "byte_at s = (case s of
     p # a # b # _ \<Rightarrow> (if p = CHR ''%'' then
        (case (hex_value a, hex_value b) of (Some m, Some n) \<Rightarrow> Some (16 * m + n) | _ \<Rightarrow> None) else None)
   | _ \<Rightarrow> None)"

function (sequential) decodeURIComponent :: "string \<Rightarrow> string option" where
  "decodeURIComponent [] = Some []"
| "decodeURIComponent (c # s) =
     (if c \<noteq> CHR ''%'' then map_option ((#) c) (decodeURIComponent s)
      else (case byte_at (c # s) of
          None \<Rightarrow> None
        | Some n \<Rightarrow>
            if n < 128 then map_option ((#) (char_of n)) (decodeURIComponent (drop 2 s))
            else if n \<noteq> 194 \<and> n \<noteq> 195 then None
            else (case byte_at (drop 2 s) of
                None \<Rightarrow> None
              | Some m \<Rightarrow>
                  if 128 \<le> m \<and> m < 192
                  then map_option ((#) (char_of ((n - 192) * 64 + (m - 128)))) (decodeURIComponent (drop 5 s))
                  else None)))"
  by pat_completeness auto
termination by (relation "measure length") auto

section \<open>Requests and patterns\<close>

text \<open>A handler's method and path.\<close>

type_synonym request_route = "string \<times> string"

text \<open>Where a call goes: \<open>fetch\<close> resolves a path of the same host against the page.\<close>

definition absolute_url :: "string \<Rightarrow> string \<Rightarrow> string" where
  "absolute_url origin url = (if prefix ''/'' url then origin @ url else url)"

definition request_url :: "string \<Rightarrow> string \<Rightarrow> api_call \<Rightarrow> string" where
  "request_url origin apiUrl c = absolute_url origin (apiUrl @ ac_path c)"

text \<open>The documented matching.\<close>

definition clean_url :: "string \<Rightarrow> string" where
  "clean_url url = takeWhile (\<lambda>c. c \<noteq> CHR ''?'' \<and> c \<noteq> CHR ''#'') url"

definition is_param :: "string \<Rightarrow> bool" where
  "is_param name \<longleftrightarrow> prefix '':'' name"

fun fit :: "string list \<Rightarrow> string list \<Rightarrow> (string \<times> string) list option" where
  "fit [] [] = Some []"
| "fit (n # ns) (s # ss) =
     (if is_param n
      then (case (if s = [] then None else decodeURIComponent s) of
          None \<Rightarrow> None
        | Some v \<Rightarrow> map_option ((#) (tl n, v)) (fit ns ss))
      else if to_lower n = to_lower s then fit ns ss else None)"
| "fit _ _ = None"

definition documented_match :: "string \<Rightarrow> string \<Rightarrow> string \<Rightarrow> (string \<times> string) list option" where
  "documented_match origin pattern url =
     (let segments = split_on CHR ''/'' (clean_url url) in
      if prefix ''*/'' pattern
      then (let names = split_on CHR ''/'' (drop 2 pattern) in
            if length names < length segments then fit names (drop (length segments - length names) segments)
            else None)
      else fit (split_on CHR ''/'' (absolute_url origin pattern)) segments)"

definition documented_matching :: "(string \<Rightarrow> string \<Rightarrow> string \<Rightarrow> (string \<times> string) list option) \<Rightarrow> bool" where
  "documented_matching matches \<longleftrightarrow> (\<forall>origin pattern url.
     list_all (\<lambda>s. decodeURIComponent s \<noteq> None) (split_on CHR ''/'' (clean_url url)) \<longrightarrow>
     matches origin pattern url = documented_match origin pattern url)"

text \<open>The first handler that fits answers; a request that no handler fits goes to the network
  (\<open>onUnhandledRequest: 'bypass'\<close>).\<close>

fun first_route ::
  "(string \<Rightarrow> (string \<times> string) list option) \<Rightarrow> request_route list \<Rightarrow> string \<Rightarrow> (request_route \<times> (string \<times> string) list) option" where
  "first_route fits [] method = None"
| "first_route fits ((m, p) # rs) method =
     (case (if m = method then fits p else None) of
        Some params \<Rightarrow> Some ((m, p), params)
      | None \<Rightarrow> first_route fits rs method)"

definition served ::
  "(string \<Rightarrow> string \<Rightarrow> string \<Rightarrow> (string \<times> string) list option) \<Rightarrow> request_route list \<Rightarrow> string \<Rightarrow> string \<Rightarrow> api_call \<Rightarrow>
   (request_route \<times> (string \<times> string) list) option" where
  "served matches routes origin apiUrl c =
     first_route (\<lambda>p. matches origin p (request_url origin apiUrl c)) routes (ac_method c)"

section \<open>mocks/handlers.ts\<close>

definition user_handlers :: "request_route list" where
  "user_handlers =
    [(''GET'', ''*/api/v1/users''),
     (''POST'', ''*/api/v1/users''),
     (''PATCH'', ''*/api/v1/users/:userID''),
     (''DELETE'', ''*/api/v1/users/:userID'')]"

definition setup_handlers :: "request_route list" where
  "setup_handlers =
    [(''GET'', ''*/api/v1/setup''),
     (''POST'', ''*/api/v1/setup''),
     (''POST'', ''*/api/v1/auth/login''),
     (''GET'', ''*/api/v1/me'')]"

definition organization_handlers :: "request_route list" where
  "organization_handlers =
    [(''GET'', ''*/api/v1/organizations''),
     (''DELETE'', ''*/api/v1/organizations/:organizationSlug''),
     (''DELETE'', ''*/api/v1/organizations/:organizationSlug/projects/:projectKey''),
     (''DELETE'', ''*/api/v1/organizations/:organizationSlug/projects/:projectKey/flags/:flagKey''),
     (''DELETE'', ''*/api/v1/organizations/:organizationSlug/projects/:projectKey/segments/:segKey'')]"

definition access_handlers :: "request_route list" where
  "access_handlers =
    [(''GET'', ''*/api/v1/permissions''),
     (''GET'', ''*/api/v1/organizations/:organizationSlug/roles''),
     (''POST'', ''*/api/v1/organizations/:organizationSlug/roles''),
     (''POST'', ''*/api/v1/organizations/:organizationSlug/projects/:projectKey/roles''),
     (''GET'', ''*/api/v1/organizations/:organizationSlug/members''),
     (''POST'', ''*/api/v1/organizations/:organizationSlug/members'')]"

definition project_handlers :: "request_route list" where
  "project_handlers =
    [(''GET'', ''*/api/v1/organizations/:organizationSlug/projects''),
     (''POST'', ''*/api/v1/organizations/:organizationSlug/projects''),
     (''GET'', ''*/api/v1/organizations/:organizationSlug/projects/:projectKey''),
     (''GET'', ''*/api/v1/organizations/:organizationSlug/projects/:projectKey/flags''),
     (''GET'', ''*/api/v1/organizations/:organizationSlug/projects/:projectKey/flags/lifecycle'')]"

definition stats_handlers :: "request_route list" where
  "stats_handlers =
    [(''GET'', ''*/api/v1/organizations/:organizationSlug/projects/:projectKey/flags/:flagKey/environments/:envKey/stats''),
     (''GET'', ''*/api/v1/organizations/:organizationSlug/projects/:projectKey/environments/:envKey/stats''),
     (''GET'', ''*/api/v1/organizations/:organizationSlug/projects/:projectKey/environments/:envKey/flags''),
     (''PUT'', ''*/api/v1/organizations/:organizationSlug/projects/:projectKey/flags/:flagKey'')]"

definition environment_handlers :: "request_route list" where
  "environment_handlers =
    [(''GET'', ''*/api/v1/organizations/:organizationSlug/projects/:projectKey/environments''),
     (''GET'', ''*/api/v1/organizations/:organizationSlug/projects/:projectKey/environments/:envKey/sdk-keys''),
     (''POST'', ''*/api/v1/organizations/:organizationSlug/projects/:projectKey/environments/:envKey/sdk-keys''),
     (''DELETE'', ''*/api/v1/organizations/:organizationSlug/projects/:projectKey/environments/:envKey/sdk-keys/:keyID''),
     (''POST'', ''*/api/v1/organizations/:organizationSlug/projects/:projectKey/environments''),
     (''GET'', ''*/api/v1/organizations/:organizationSlug/projects/:projectKey/environments/:envKey/contexts''),
     (''GET'', ''*/api/v1/organizations/:organizationSlug/projects/:projectKey/environments/:envKey/contexts/:kind/:key'')]"

definition segment_handlers :: "request_route list" where
  "segment_handlers =
    [(''GET'', ''*/api/v1/organizations/:organizationSlug/projects/:projectKey/segments''),
     (''GET'', ''*/api/v1/organizations/:organizationSlug/projects/:projectKey/segments/:segKey''),
     (''PUT'', ''*/api/v1/organizations/:organizationSlug/projects/:projectKey/segments/:segKey'')]"

definition flag_handlers :: "request_route list" where
  "flag_handlers =
    [(''GET'', ''*/api/v1/organizations/:organizationSlug/projects/:projectKey/flags/:flagKey''),
     (''GET'', ''*/api/v1/organizations/:organizationSlug/projects/:projectKey/flags/:flagKey/environments/:envKey''),
     (''PATCH'', ''*/api/v1/organizations/:organizationSlug/projects/:projectKey/flags/:flagKey/environments/:envKey'')]"

definition change_handlers :: "request_route list" where
  "change_handlers =
    [(''GET'', ''*/api/v1/organizations/:organizationSlug/projects/:projectKey/changes''),
     (''POST'', ''*/api/v1/organizations/:organizationSlug/projects/:projectKey/flags/:flagKey/environments/:envKey/changes''),
     (''POST'', ''*/api/v1/organizations/:organizationSlug/projects/:projectKey/changes/:changeId/approve''),
     (''POST'', ''*/api/v1/organizations/:organizationSlug/projects/:projectKey/changes/:changeId/reject'')]"

definition scheduled_handlers :: "request_route list" where
  "scheduled_handlers =
    [(''GET'', ''*/api/v1/organizations/:organizationSlug/projects/:projectKey/scheduled-changes''),
     (''POST'', ''*/api/v1/organizations/:organizationSlug/projects/:projectKey/flags/:flagKey/environments/:envKey/scheduled-changes''),
     (''POST'', ''*/api/v1/organizations/:organizationSlug/projects/:projectKey/scheduled-changes/:scheduledId/cancel'')]"

definition trigger_handlers :: "request_route list" where
  "trigger_handlers =
    [(''GET'', ''*/api/v1/organizations/:organizationSlug/projects/:projectKey/triggers''),
     (''POST'', ''*/api/v1/organizations/:organizationSlug/projects/:projectKey/flags/:flagKey/environments/:envKey/triggers''),
     (''POST'', ''*/api/v1/organizations/:organizationSlug/projects/:projectKey/triggers/:triggerId/enabled''),
     (''POST'', ''*/api/v1/organizations/:organizationSlug/projects/:projectKey/triggers/:triggerId/reset''),
     (''DELETE'', ''*/api/v1/organizations/:organizationSlug/projects/:projectKey/triggers/:triggerId'')]"

definition webhook_handlers :: "request_route list" where
  "webhook_handlers =
    [(''GET'', ''*/api/v1/organizations/:organizationSlug/audit''),
     (''GET'', ''*/api/v1/organizations/:organizationSlug/webhooks''),
     (''POST'', ''*/api/v1/organizations/:organizationSlug/webhooks''),
     (''POST'', ''*/api/v1/organizations/:organizationSlug/webhooks/:webhookId/enabled''),
     (''POST'', ''*/api/v1/organizations/:organizationSlug/webhooks/:webhookId/reset''),
     (''POST'', ''*/api/v1/organizations/:organizationSlug/webhooks/:webhookId/test''),
     (''GET'', ''*/api/v1/organizations/:organizationSlug/webhooks/:webhookId/deliveries''),
     (''DELETE'', ''*/api/v1/organizations/:organizationSlug/webhooks/:webhookId'')]"

definition handlers :: "request_route list" where
  "handlers = user_handlers @ setup_handlers @ organization_handlers @ access_handlers @ project_handlers @
     stats_handlers @ environment_handlers @ segment_handlers @ flag_handlers @ change_handlers @
     scheduled_handlers @ trigger_handlers @ webhook_handlers"


section \<open>mocks/scenarios.ts, mocks/browser.ts\<close>

text \<open>What a scenario's handler answers, from the parsed body of the request: after a delay in
  milliseconds a status and, if it has one, a JSON body; or the handler throws.\<close>

datatype scenario_answer = Throws | Answer nat int "js option"

definition needs_setup_answer :: "js \<Rightarrow> scenario_answer" where
  "needs_setup_answer input =
     (case (js_get input ''email'', js_get input ''organization_slug'', js_get input ''organization_name'') of
        (Some email, Some slug, Some name) \<Rightarrow>
          Answer 0 201 (Some (JObj
            [(''token'', JStr ''mock-token''),
             (''user'', JObj
               [(''id'', JStr ''u1''), (''email'', email), (''full_name'', JStr ''Admin''), (''is_superuser'', JBool True),
                (''is_active'', JBool True), (''created_at'', JStr ''2026-07-12T00:00:00Z''),
                (''updated_at'', JStr ''2026-07-12T00:00:00Z'')]),
             (''organization'',
                if truthy slug then JObj
                  [(''id'', JStr ''t1''), (''slug'', slug),
                   (''name'', if name = JUndef \<or> name = JNull then slug else name),
                   (''created_at'', JStr ''2026-07-12T00:00:00Z''), (''updated_at'', JStr ''2026-07-12T00:00:00Z'')]
                else JUndef)]))
      | _ \<Rightarrow> Throws)"

definition scenarios :: "(string \<times> (request_route \<times> (js \<Rightarrow> scenario_answer)) list) list" where
  "scenarios =
    [(''users-error'', [((''GET'', ''/api/users''), \<lambda>_. Answer 0 500 None)]),
     (''users-empty'', [((''GET'', ''/api/users''), \<lambda>_. Answer 0 200 (Some (JArr [])))]),
     (''users-slow'', [((''GET'', ''/api/users''), \<lambda>_. Answer 3000 200 (Some (JArr [])))]),
     (''needs-setup'',
       [((''GET'', ''*/api/v1/setup''), \<lambda>_. Answer 0 200 (Some (JObj [(''needs_setup'', JBool True)]))),
        ((''POST'', ''*/api/v1/setup''), needs_setup_answer)]),
     (''login-error'', [((''POST'', ''*/api/v1/auth/login''), \<lambda>_. Answer 0 401 None)])]"

text \<open>The handlers in force after \<open>startWorker\<close>: those of the scenario named in the URL come first. An
  unknown name is only reported, but the name of an inherited member finds something that cannot be
  spread, so the start fails.\<close>

datatype worker_error = NotIterable

definition startWorker :: "string option \<Rightarrow> worker_error + request_route list" where
  "startWorker scenario =
     (if truthy_opt scenario
      then (case map_of scenarios (the scenario) of
          Some scenarioHandlers \<Rightarrow> Inr (map fst scenarioHandlers @ handlers)
        | None \<Rightarrow> if inherited (the scenario) = JUndef then Inr handlers else Inl NotIterable)
      else Inr handlers)"

end
