(* ===== verification/Routing_Props.thy ===== *)
theory Routing_Props
  imports Routing Dashboard_Props Slugs
begin

text \<open>
  Mock mode end to end, on the dashboard's side: with an API base that ends in \<open>/api/v1\<close> every endpoint
  reaches its handler with its own arguments, with the documented base none does.
\<close>

section \<open>Percent encoding is undone\<close>

lemma hex_value_upper_hex [simp]: "d < 16 \<Longrightarrow> hex_value (upper_hex d) = Some d"
  by (cases "d < 10") (simp_all add: hex_value_def upper_hex_def code_unit_def)

lemma byte_at_pct [simp]: "b < 256 \<Longrightarrow> byte_at (pct_byte b @ t) = Some b"
  by (simp add: byte_at_def pct_byte_def)

lemma decode_plain_char: "c \<noteq> CHR ''%'' \<Longrightarrow> decodeURIComponent (c # s) = map_option ((#) c) (decodeURIComponent s)"
  by simp

lemma pct_byte_shape: "pct_byte b @ t = CHR ''%'' # upper_hex (b div 16) # upper_hex (b mod 16) # t"
  by (simp add: pct_byte_def)

lemma decode_two_bytes:
  "byte_at (CHR ''%'' # s) = Some h \<Longrightarrow> h = 194 \<or> h = 195 \<Longrightarrow> byte_at (drop 2 s) = Some m \<Longrightarrow> 128 \<le> m \<Longrightarrow> m < 192 \<Longrightarrow>
   decodeURIComponent (CHR ''%'' # s) = map_option ((#) (char_of ((h - 192) * 64 + (m - 128)))) (decodeURIComponent (drop 5 s))"
  by (simp only: decodeURIComponent.simps option.case) auto

lemma decode_encode_char: "decodeURIComponent (encode_char c @ t) = map_option ((#) c) (decodeURIComponent t)"
proof -
  define n where "n = code_unit c"
  have n: "n < 256" "char_of n = c" by (simp_all add: n_def code_unit_def)
  consider "unreserved c" | "\<not> unreserved c" "n < 128" | "\<not> unreserved c" "128 \<le> n" by linarith
  then show ?thesis
  proof cases
    case 1
    then have "c \<noteq> CHR ''%''" by (auto simp: unreserved_def code_unit_def)
    then show ?thesis using 1 by (simp add: encode_char_def Let_def)
  next
    case 2
    have b: "byte_at (CHR ''%'' # upper_hex (n div 16) # upper_hex (n mod 16) # t) = Some n"
      using byte_at_pct [of n t] n by (simp add: pct_byte_shape)
    show ?thesis using 2 n by (simp add: encode_char_def Let_def pct_byte_shape b flip: n_def)
  next
    case 3
    define h l where "h = 192 + n div 64" and "l = 128 + n mod 64"
    let ?t = "CHR ''%'' # upper_hex (l div 16) # upper_hex (l mod 16) # t"
    have "n div 64 = 2 \<or> n div 64 = 3" using n(1) 3(2) by linarith
    then have h: "h < 256" "h = 194 \<or> h = 195" by (auto simp: h_def)
    have l: "l < 256" "128 \<le> l" "l < 192" by (simp_all add: l_def)
    have bl: "byte_at ?t = Some l" using byte_at_pct [OF l(1), of t] by (simp only: pct_byte_shape)
    have bh: "byte_at (CHR ''%'' # upper_hex (h div 16) # upper_hex (h mod 16) # ?t) = Some h"
      using byte_at_pct [OF h(1), of ?t] by (simp only: pct_byte_shape)
    have e: "encode_char c @ t = CHR ''%'' # upper_hex (h div 16) # upper_hex (h mod 16) # ?t"
      using 3 by (simp only: encode_char_def Let_def if_False not_less [symmetric] append_assoc pct_byte_shape flip: n_def)
        (simp add: h_def l_def pct_byte_shape)
    have v: "(h - 192) * 64 + (l - 128) = n" by (simp add: h_def l_def)
    show ?thesis unfolding e using decode_two_bytes [OF bh h(2) _ l(2,3)] bl by (simp add: v n(2))
  qed
qed

lemma decode_encode: "decodeURIComponent (encodeURIComponent s) = Some s"
  by (induction s) (simp_all add: encodeURIComponent_def decode_encode_char)

lemma decode_no_escape: "CHR ''%'' \<notin> set s \<Longrightarrow> decodeURIComponent s = Some s"
  by (induction s) auto

section \<open>Finding the handler\<close>

lemma split_on_sep: "split_on c (h @ c # s) = split_on c h @ split_on c s"
  by (induction h) (auto split: list.splits)

lemma split_path:
  "list_all (\<lambda>s. CHR ''/'' \<notin> set s) segs \<Longrightarrow> split_on CHR ''/'' (h @ path_of segs) = split_on CHR ''/'' h @ segs"
proof (induction segs arbitrary: h)
  case (Cons s ss)
  have "h @ path_of (s # ss) = (h @ CHR ''/'' # s) @ path_of ss" by (simp add: path_of_def)
  then show ?case using Cons.IH [of "h @ CHR ''/'' # s"] Cons.prems by (simp only: split_on_sep) simp
qed (simp add: path_of_def)

text \<open>Somewhere in a path, \<open>api\<close>, \<open>v1\<close> and a further segment follow each other.\<close>

fun has_marker :: "string list \<Rightarrow> bool" where
  "has_marker (x # y # z # r) \<longleftrightarrow> (to_lower x = ''api'' \<and> to_lower y = ''v1'') \<or> has_marker (y # z # r)"
| "has_marker _ \<longleftrightarrow> False"

lemma has_marker_tl: "has_marker (tl ss) \<Longrightarrow> has_marker ss"
  by (cases ss rule: has_marker.cases) auto

lemma has_marker_drop: "has_marker (drop k ss) \<Longrightarrow> has_marker ss"
  by (induction k arbitrary: ss) (auto simp: drop_Suc dest: has_marker_tl)

lemma fit_length: "fit ns ss = Some b \<Longrightarrow> length ns = length ss"
  by (induction ns ss arbitrary: b rule: fit.induct) (auto split: if_splits option.splits)

lemma literals: "\<not> is_param ''api''" "\<not> is_param ''v1''" "to_lower ''api'' = ''api''" "to_lower ''v1'' = ''v1''"
  by (simp_all add: is_param_def to_lower_def lower_char_def code_unit_def)

lemma fit_marker:
  assumes "fit (''api'' # ''v1'' # n # ns) ss = Some b"
  shows "has_marker ss \<and> to_lower (hd ss) = ''api'' \<and> to_lower (hd (tl ss)) = ''v1''"
proof -
  from fit_length [OF assms] obtain x y z r where ss: "ss = x # y # z # r"
    by (cases ss; cases "tl ss"; cases "tl (tl ss)") auto
  show ?thesis using assms by (auto simp: ss literals split: if_splits)
qed

text \<open>The version marker is found at one place only, so that a pattern is compared with the segments behind it.\<close>

lemma fit_behind_marker:
  assumes "list_all (\<lambda>s. to_lower s \<noteq> ''api'') H" "\<not> has_marker segs"
  shows "fit (''api'' # ''v1'' # n # ns) (drop k (H @ ''api'' # ''v1'' # segs)) =
    (if k = length H then fit (n # ns) segs else None)"
proof (cases "k = length H")
  case False
  have "fit (''api'' # ''v1'' # n # ns) (drop k (H @ ''api'' # ''v1'' # segs)) = None"
  proof (rule ccontr)
    assume "fit (''api'' # ''v1'' # n # ns) (drop k (H @ ''api'' # ''v1'' # segs)) \<noteq> None"
    then have m: "has_marker (drop k (H @ ''api'' # ''v1'' # segs))" "to_lower (hd (drop k (H @ ''api'' # ''v1'' # segs))) = ''api''"
      using fit_marker by blast+
    show False
    proof (cases "k < length H")
      case True
      then have "hd (drop k (H @ ''api'' # ''v1'' # segs)) = H ! k" by (simp add: hd_drop_conv_nth nth_append)
      then show False using m(2) assms(1) True by (auto simp: list_all_length)
    next
      case nl: False
      then obtain j where j: "k = length H + Suc j" using False by (metis Suc_diff_Suc add_diff_inverse_nat linorder_neqE_nat)
      then show False
      proof (cases j)
        case 0
        then show False using m(2) j by (simp add: literals)
      next
        case (Suc i)
        then have "drop k (H @ ''api'' # ''v1'' # segs) = drop i segs" using j by simp
        then show False using m(1) has_marker_drop assms(2) by metis
      qed
    qed
  qed
  then show ?thesis using False by simp
qed (simp add: literals)

lemma nothing_fits:
  "\<not> has_marker ss \<Longrightarrow> fit (''api'' # ''v1'' # n # ns) (drop k ss) = None"
  using fit_marker has_marker_drop by (metis not_None_eq)

text \<open>Every pattern of the handlers is a star, the marker and at least one name.\<close>

definition pattern_names :: "string \<Rightarrow> string list" where
  "pattern_names p = split_on CHR ''/'' (drop 2 p)"

definition marked_pattern :: "string \<Rightarrow> bool" where
  "marked_pattern p \<longleftrightarrow> prefix ''*/'' p \<and> take 2 (pattern_names p) = [''api'', ''v1''] \<and> 2 < length (pattern_names p)"

lemma handlers_marked: "list_all (\<lambda>(m, p). marked_pattern p) handlers"
  by code_simp

lemma marked_cases:
  assumes "marked_pattern p"
  obtains n ns where "pattern_names p = ''api'' # ''v1'' # n # ns" "prefix ''*/'' p"
  using assms unfolding marked_pattern_def
  by (cases "pattern_names p"; cases "tl (pattern_names p)"; cases "tl (tl (pattern_names p))") auto

lemma match_behind_marker:
  assumes "marked_pattern p" "split_on CHR ''/'' (clean_url url) = H @ ''api'' # ''v1'' # segs"
    "list_all (\<lambda>s. to_lower s \<noteq> ''api'') H" "\<not> has_marker segs" "H \<noteq> []"
  shows "documented_match origin p url = fit (drop 2 (pattern_names p)) segs"
proof -
  obtain n ns where p: "pattern_names p = ''api'' # ''v1'' # n # ns" "prefix ''*/'' p"
    by (rule marked_cases [OF assms(1)])
  let ?k = "length H + length segs - Suc (length ns)"
  have n: "Suc (length ns) \<noteq> length segs \<Longrightarrow> fit (n # ns) segs = None"
    using fit_length [of "n # ns" segs] by (cases "fit (n # ns) segs") auto
  have "documented_match origin p url = (if Suc (length ns) < length H + length segs
      then fit (''api'' # ''v1'' # n # ns) (drop ?k (H @ ''api'' # ''v1'' # segs)) else None)"
    using p assms(2) by (simp add: documented_match_def Let_def pattern_names_def del: drop_append fit.simps)
  also have "\<dots> = fit (n # ns) segs"
    using n assms(5) unfolding fit_behind_marker [OF assms(3,4)] by (cases "Suc (length ns) = length segs") auto
  finally show ?thesis using p by simp
qed

lemma match_nothing:
  assumes "marked_pattern p" "\<not> has_marker (split_on CHR ''/'' (clean_url url))"
  shows "documented_match origin p url = None"
proof -
  obtain n ns where p: "pattern_names p = ''api'' # ''v1'' # n # ns" "prefix ''*/'' p"
    by (rule marked_cases [OF assms(1)])
  then show ?thesis using nothing_fits [OF assms(2)] by (simp add: documented_match_def Let_def pattern_names_def)
qed

section \<open>The endpoints\<close>

text \<open>Keys as the dashboard makes them (\<open>Slugs\<close>) and identifiers: characters that no URL rewrites.\<close>

definition plain_key :: "string \<Rightarrow> bool" where
  "plain_key s \<longleftrightarrow> s \<noteq> [] \<and> s \<noteq> ''.'' \<and> s \<noteq> ''..'' \<and> list_all unreserved s"

text \<open>The base that the handlers expect: anything, without a query and without another \<open>api\<close> segment, and
  then \<open>/api/v1\<close>.\<close>

definition segment_ok :: "string \<Rightarrow> bool" where
  "segment_ok s \<longleftrightarrow> CHR ''/'' \<notin> set s \<and> CHR ''?'' \<notin> set s \<and> CHR ''#'' \<notin> set s \<and> decodeURIComponent s \<noteq> None"

definition host_ok :: "string \<Rightarrow> bool" where
  "host_ok h \<longleftrightarrow> list_all (\<lambda>s. segment_ok s \<and> to_lower s \<noteq> ''api'') (split_on CHR ''/'' h)"

definition api_base :: "string \<Rightarrow> string \<Rightarrow> bool" where
  "api_base origin apiUrl \<longleftrightarrow> (let b = absolute_url origin apiUrl; n = length b - 7 in
     drop n b = ''/api/v1'' \<and> host_ok (take n b))"

lemma special_chars: "\<not> unreserved CHR ''/''" "\<not> unreserved CHR ''?''" "\<not> unreserved CHR ''#''" "\<not> unreserved CHR ''%''"
  by (simp_all add: unreserved_def code_unit_def)

lemma unreserved_set: "list_all unreserved s \<Longrightarrow> \<not> unreserved c \<Longrightarrow> c \<notin> set s"
  by (auto simp: list_all_iff)

lemma plain_decode: "plain_key s \<Longrightarrow> decodeURIComponent s = Some s \<and> s \<noteq> []"
  by (simp add: plain_key_def decode_no_escape unreserved_set special_chars)

lemma plain_ok: "plain_key s \<Longrightarrow> segment_ok s"
  using plain_decode [of s] by (simp add: plain_key_def segment_ok_def unreserved_set special_chars)

lemma upper_hex_not: "d < 16 \<Longrightarrow> upper_hex d \<notin> {CHR ''/'', CHR ''?'', CHR ''#''}"
  using hex_value_upper_hex [of d] by (auto simp: hex_value_def code_unit_def)

lemma encode_char_set: "c \<in> set (encode_char x) \<Longrightarrow> c \<notin> {CHR ''/'', CHR ''?'', CHR ''#''}"
proof -
  have n: "code_unit x < 256" by (simp add: code_unit_def)
  have "set (pct_byte b) \<inter> {CHR ''/'', CHR ''?'', CHR ''#''} = {}" if "b < 256" for b
    using that upper_hex_not [of "b div 16"] upper_hex_not [of "b mod 16"] by (auto simp: pct_byte_def)
  from this [of "code_unit x"] this [of "192 + code_unit x div 64"] this [of "128 + code_unit x mod 64"] n
  have p: "set (pct_byte (code_unit x)) \<inter> {CHR ''/'', CHR ''?'', CHR ''#''} = {}"
    "set (pct_byte (192 + code_unit x div 64)) \<inter> {CHR ''/'', CHR ''?'', CHR ''#''} = {}"
    "set (pct_byte (128 + code_unit x mod 64)) \<inter> {CHR ''/'', CHR ''?'', CHR ''#''} = {}"
    by simp_all
  assume "c \<in> set (encode_char x)"
  then consider "c = x \<and> unreserved x" | "c \<in> set (pct_byte (code_unit x))" |
      "c \<in> set (pct_byte (192 + code_unit x div 64))" | "c \<in> set (pct_byte (128 + code_unit x mod 64))"
    by (simp add: encode_char_def Let_def split: if_splits) blast
  then show ?thesis
  proof cases
    case 1
    then show ?thesis using special_chars by blast
  qed (use p in blast)+
qed

lemma encode_ok: "segment_ok (encodeURIComponent s)"
proof -
  have "c \<notin> set (encodeURIComponent s)" if "c \<in> {CHR ''/'', CHR ''?'', CHR ''#''}" for c
    using that encode_char_set unfolding encodeURIComponent_def set_concat set_map by blast
  then show ?thesis by (simp add: segment_ok_def decode_encode)
qed

lemma encode_Nil: "encodeURIComponent s = [] \<longleftrightarrow> s = []"
  by (cases s) (auto simp: encodeURIComponent_def encode_char_def pct_byte_def Let_def)

lemma literal_ok:
  "list_all segment_ok [''approve'', ''audit'', ''auth'', ''cancel'', ''changes'', ''contexts'', ''deliveries'', ''enabled'', ''environments'', ''flags'', ''lifecycle'', ''login'', ''me'', ''members'', ''organizations'', ''permissions'', ''projects'', ''reject'', ''reset'', ''roles'', ''scheduled-changes'', ''sdk-keys'', ''segments'', ''setup'', ''stats'', ''test'', ''triggers'', ''users'', ''webhooks'']"
  by (simp add: segment_ok_def)

lemma literal_segments:
  "segment_ok ''approve''"
  "segment_ok ''audit''"
  "segment_ok ''auth''"
  "segment_ok ''cancel''"
  "segment_ok ''changes''"
  "segment_ok ''contexts''"
  "segment_ok ''deliveries''"
  "segment_ok ''enabled''"
  "segment_ok ''environments''"
  "segment_ok ''flags''"
  "segment_ok ''lifecycle''"
  "segment_ok ''login''"
  "segment_ok ''me''"
  "segment_ok ''members''"
  "segment_ok ''organizations''"
  "segment_ok ''permissions''"
  "segment_ok ''projects''"
  "segment_ok ''reject''"
  "segment_ok ''reset''"
  "segment_ok ''roles''"
  "segment_ok ''scheduled-changes''"
  "segment_ok ''sdk-keys''"
  "segment_ok ''segments''"
  "segment_ok ''setup''"
  "segment_ok ''stats''"
  "segment_ok ''test''"
  "segment_ok ''triggers''"
  "segment_ok ''users''"
  "segment_ok ''webhooks''"
  using literal_ok by simp_all

lemma literal_lower:
  "to_lower ''approve'' = ''approve''"
  "to_lower ''audit'' = ''audit''"
  "to_lower ''auth'' = ''auth''"
  "to_lower ''cancel'' = ''cancel''"
  "to_lower ''changes'' = ''changes''"
  "to_lower ''contexts'' = ''contexts''"
  "to_lower ''deliveries'' = ''deliveries''"
  "to_lower ''enabled'' = ''enabled''"
  "to_lower ''environments'' = ''environments''"
  "to_lower ''flags'' = ''flags''"
  "to_lower ''lifecycle'' = ''lifecycle''"
  "to_lower ''login'' = ''login''"
  "to_lower ''me'' = ''me''"
  "to_lower ''members'' = ''members''"
  "to_lower ''organizations'' = ''organizations''"
  "to_lower ''permissions'' = ''permissions''"
  "to_lower ''projects'' = ''projects''"
  "to_lower ''reject'' = ''reject''"
  "to_lower ''reset'' = ''reset''"
  "to_lower ''roles'' = ''roles''"
  "to_lower ''scheduled-changes'' = ''scheduled-changes''"
  "to_lower ''sdk-keys'' = ''sdk-keys''"
  "to_lower ''segments'' = ''segments''"
  "to_lower ''setup'' = ''setup''"
  "to_lower ''stats'' = ''stats''"
  "to_lower ''test'' = ''test''"
  "to_lower ''triggers'' = ''triggers''"
  "to_lower ''users'' = ''users''"
  "to_lower ''webhooks'' = ''webhooks''"
  by (simp_all add: to_lower_def lower_char_def code_unit_def)

text \<open>The handlers of a method whose pattern has a given number of names behind the marker.\<close>

definition named_handlers :: "(string \<times> string \<times> string list) list" where
  "named_handlers = map (\<lambda>(m, p). (m, p, drop 2 (pattern_names p))) handlers"

lemma named_handlers_eq:
  "named_handlers =
    [(''GET'', ''*/api/v1/users'', [''users'']),
     (''POST'', ''*/api/v1/users'', [''users'']),
     (''PATCH'', ''*/api/v1/users/:userID'', [''users'', '':userID'']),
     (''DELETE'', ''*/api/v1/users/:userID'', [''users'', '':userID'']),
     (''GET'', ''*/api/v1/setup'', [''setup'']),
     (''POST'', ''*/api/v1/setup'', [''setup'']),
     (''POST'', ''*/api/v1/auth/login'', [''auth'', ''login'']),
     (''GET'', ''*/api/v1/me'', [''me'']),
     (''GET'', ''*/api/v1/organizations'', [''organizations'']),
     (''DELETE'', ''*/api/v1/organizations/:organizationSlug'', [''organizations'', '':organizationSlug'']),
     (''DELETE'', ''*/api/v1/organizations/:organizationSlug/projects/:projectKey'', [''organizations'', '':organizationSlug'', ''projects'', '':projectKey'']),
     (''DELETE'', ''*/api/v1/organizations/:organizationSlug/projects/:projectKey/flags/:flagKey'', [''organizations'', '':organizationSlug'', ''projects'', '':projectKey'', ''flags'', '':flagKey'']),
     (''DELETE'', ''*/api/v1/organizations/:organizationSlug/projects/:projectKey/segments/:segKey'', [''organizations'', '':organizationSlug'', ''projects'', '':projectKey'', ''segments'', '':segKey'']),
     (''GET'', ''*/api/v1/permissions'', [''permissions'']),
     (''GET'', ''*/api/v1/organizations/:organizationSlug/roles'', [''organizations'', '':organizationSlug'', ''roles'']),
     (''POST'', ''*/api/v1/organizations/:organizationSlug/roles'', [''organizations'', '':organizationSlug'', ''roles'']),
     (''POST'', ''*/api/v1/organizations/:organizationSlug/projects/:projectKey/roles'', [''organizations'', '':organizationSlug'', ''projects'', '':projectKey'', ''roles'']),
     (''GET'', ''*/api/v1/organizations/:organizationSlug/members'', [''organizations'', '':organizationSlug'', ''members'']),
     (''POST'', ''*/api/v1/organizations/:organizationSlug/members'', [''organizations'', '':organizationSlug'', ''members'']),
     (''GET'', ''*/api/v1/organizations/:organizationSlug/projects'', [''organizations'', '':organizationSlug'', ''projects'']),
     (''POST'', ''*/api/v1/organizations/:organizationSlug/projects'', [''organizations'', '':organizationSlug'', ''projects'']),
     (''GET'', ''*/api/v1/organizations/:organizationSlug/projects/:projectKey'', [''organizations'', '':organizationSlug'', ''projects'', '':projectKey'']),
     (''GET'', ''*/api/v1/organizations/:organizationSlug/projects/:projectKey/flags'', [''organizations'', '':organizationSlug'', ''projects'', '':projectKey'', ''flags'']),
     (''GET'', ''*/api/v1/organizations/:organizationSlug/projects/:projectKey/flags/lifecycle'', [''organizations'', '':organizationSlug'', ''projects'', '':projectKey'', ''flags'', ''lifecycle'']),
     (''GET'', ''*/api/v1/organizations/:organizationSlug/projects/:projectKey/flags/:flagKey/environments/:envKey/stats'', [''organizations'', '':organizationSlug'', ''projects'', '':projectKey'', ''flags'', '':flagKey'', ''environments'', '':envKey'', ''stats'']),
     (''GET'', ''*/api/v1/organizations/:organizationSlug/projects/:projectKey/environments/:envKey/stats'', [''organizations'', '':organizationSlug'', ''projects'', '':projectKey'', ''environments'', '':envKey'', ''stats'']),
     (''GET'', ''*/api/v1/organizations/:organizationSlug/projects/:projectKey/environments/:envKey/flags'', [''organizations'', '':organizationSlug'', ''projects'', '':projectKey'', ''environments'', '':envKey'', ''flags'']),
     (''PUT'', ''*/api/v1/organizations/:organizationSlug/projects/:projectKey/flags/:flagKey'', [''organizations'', '':organizationSlug'', ''projects'', '':projectKey'', ''flags'', '':flagKey'']),
     (''GET'', ''*/api/v1/organizations/:organizationSlug/projects/:projectKey/environments'', [''organizations'', '':organizationSlug'', ''projects'', '':projectKey'', ''environments'']),
     (''GET'', ''*/api/v1/organizations/:organizationSlug/projects/:projectKey/environments/:envKey/sdk-keys'', [''organizations'', '':organizationSlug'', ''projects'', '':projectKey'', ''environments'', '':envKey'', ''sdk-keys'']),
     (''POST'', ''*/api/v1/organizations/:organizationSlug/projects/:projectKey/environments/:envKey/sdk-keys'', [''organizations'', '':organizationSlug'', ''projects'', '':projectKey'', ''environments'', '':envKey'', ''sdk-keys'']),
     (''DELETE'', ''*/api/v1/organizations/:organizationSlug/projects/:projectKey/environments/:envKey/sdk-keys/:keyID'', [''organizations'', '':organizationSlug'', ''projects'', '':projectKey'', ''environments'', '':envKey'', ''sdk-keys'', '':keyID'']),
     (''POST'', ''*/api/v1/organizations/:organizationSlug/projects/:projectKey/environments'', [''organizations'', '':organizationSlug'', ''projects'', '':projectKey'', ''environments'']),
     (''GET'', ''*/api/v1/organizations/:organizationSlug/projects/:projectKey/environments/:envKey/contexts'', [''organizations'', '':organizationSlug'', ''projects'', '':projectKey'', ''environments'', '':envKey'', ''contexts'']),
     (''GET'', ''*/api/v1/organizations/:organizationSlug/projects/:projectKey/environments/:envKey/contexts/:kind/:key'', [''organizations'', '':organizationSlug'', ''projects'', '':projectKey'', ''environments'', '':envKey'', ''contexts'', '':kind'', '':key'']),
     (''GET'', ''*/api/v1/organizations/:organizationSlug/projects/:projectKey/segments'', [''organizations'', '':organizationSlug'', ''projects'', '':projectKey'', ''segments'']),
     (''GET'', ''*/api/v1/organizations/:organizationSlug/projects/:projectKey/segments/:segKey'', [''organizations'', '':organizationSlug'', ''projects'', '':projectKey'', ''segments'', '':segKey'']),
     (''PUT'', ''*/api/v1/organizations/:organizationSlug/projects/:projectKey/segments/:segKey'', [''organizations'', '':organizationSlug'', ''projects'', '':projectKey'', ''segments'', '':segKey'']),
     (''GET'', ''*/api/v1/organizations/:organizationSlug/projects/:projectKey/flags/:flagKey'', [''organizations'', '':organizationSlug'', ''projects'', '':projectKey'', ''flags'', '':flagKey'']),
     (''GET'', ''*/api/v1/organizations/:organizationSlug/projects/:projectKey/flags/:flagKey/environments/:envKey'', [''organizations'', '':organizationSlug'', ''projects'', '':projectKey'', ''flags'', '':flagKey'', ''environments'', '':envKey'']),
     (''PATCH'', ''*/api/v1/organizations/:organizationSlug/projects/:projectKey/flags/:flagKey/environments/:envKey'', [''organizations'', '':organizationSlug'', ''projects'', '':projectKey'', ''flags'', '':flagKey'', ''environments'', '':envKey'']),
     (''GET'', ''*/api/v1/organizations/:organizationSlug/projects/:projectKey/changes'', [''organizations'', '':organizationSlug'', ''projects'', '':projectKey'', ''changes'']),
     (''POST'', ''*/api/v1/organizations/:organizationSlug/projects/:projectKey/flags/:flagKey/environments/:envKey/changes'', [''organizations'', '':organizationSlug'', ''projects'', '':projectKey'', ''flags'', '':flagKey'', ''environments'', '':envKey'', ''changes'']),
     (''POST'', ''*/api/v1/organizations/:organizationSlug/projects/:projectKey/changes/:changeId/approve'', [''organizations'', '':organizationSlug'', ''projects'', '':projectKey'', ''changes'', '':changeId'', ''approve'']),
     (''POST'', ''*/api/v1/organizations/:organizationSlug/projects/:projectKey/changes/:changeId/reject'', [''organizations'', '':organizationSlug'', ''projects'', '':projectKey'', ''changes'', '':changeId'', ''reject'']),
     (''GET'', ''*/api/v1/organizations/:organizationSlug/projects/:projectKey/scheduled-changes'', [''organizations'', '':organizationSlug'', ''projects'', '':projectKey'', ''scheduled-changes'']),
     (''POST'', ''*/api/v1/organizations/:organizationSlug/projects/:projectKey/flags/:flagKey/environments/:envKey/scheduled-changes'', [''organizations'', '':organizationSlug'', ''projects'', '':projectKey'', ''flags'', '':flagKey'', ''environments'', '':envKey'', ''scheduled-changes'']),
     (''POST'', ''*/api/v1/organizations/:organizationSlug/projects/:projectKey/scheduled-changes/:scheduledId/cancel'', [''organizations'', '':organizationSlug'', ''projects'', '':projectKey'', ''scheduled-changes'', '':scheduledId'', ''cancel'']),
     (''GET'', ''*/api/v1/organizations/:organizationSlug/projects/:projectKey/triggers'', [''organizations'', '':organizationSlug'', ''projects'', '':projectKey'', ''triggers'']),
     (''POST'', ''*/api/v1/organizations/:organizationSlug/projects/:projectKey/flags/:flagKey/environments/:envKey/triggers'', [''organizations'', '':organizationSlug'', ''projects'', '':projectKey'', ''flags'', '':flagKey'', ''environments'', '':envKey'', ''triggers'']),
     (''POST'', ''*/api/v1/organizations/:organizationSlug/projects/:projectKey/triggers/:triggerId/enabled'', [''organizations'', '':organizationSlug'', ''projects'', '':projectKey'', ''triggers'', '':triggerId'', ''enabled'']),
     (''POST'', ''*/api/v1/organizations/:organizationSlug/projects/:projectKey/triggers/:triggerId/reset'', [''organizations'', '':organizationSlug'', ''projects'', '':projectKey'', ''triggers'', '':triggerId'', ''reset'']),
     (''DELETE'', ''*/api/v1/organizations/:organizationSlug/projects/:projectKey/triggers/:triggerId'', [''organizations'', '':organizationSlug'', ''projects'', '':projectKey'', ''triggers'', '':triggerId'']),
     (''GET'', ''*/api/v1/organizations/:organizationSlug/audit'', [''organizations'', '':organizationSlug'', ''audit'']),
     (''GET'', ''*/api/v1/organizations/:organizationSlug/webhooks'', [''organizations'', '':organizationSlug'', ''webhooks'']),
     (''POST'', ''*/api/v1/organizations/:organizationSlug/webhooks'', [''organizations'', '':organizationSlug'', ''webhooks'']),
     (''POST'', ''*/api/v1/organizations/:organizationSlug/webhooks/:webhookId/enabled'', [''organizations'', '':organizationSlug'', ''webhooks'', '':webhookId'', ''enabled'']),
     (''POST'', ''*/api/v1/organizations/:organizationSlug/webhooks/:webhookId/reset'', [''organizations'', '':organizationSlug'', ''webhooks'', '':webhookId'', ''reset'']),
     (''POST'', ''*/api/v1/organizations/:organizationSlug/webhooks/:webhookId/test'', [''organizations'', '':organizationSlug'', ''webhooks'', '':webhookId'', ''test'']),
     (''GET'', ''*/api/v1/organizations/:organizationSlug/webhooks/:webhookId/deliveries'', [''organizations'', '':organizationSlug'', ''webhooks'', '':webhookId'', ''deliveries'']),
     (''DELETE'', ''*/api/v1/organizations/:organizationSlug/webhooks/:webhookId'', [''organizations'', '':organizationSlug'', ''webhooks'', '':webhookId''])]"
  by code_simp

lemma filter_fixed: "P = Q \<Longrightarrow> filter P xs = filter Q xs"
  by simp

definition candidates :: "string \<Rightarrow> nat \<Rightarrow> (string \<times> string list) list" where
  "candidates method n = map snd (filter (\<lambda>(m, p, ns). m = method \<and> length ns = n) named_handlers)"

lemma candidate_table:
  "n = 2 \<Longrightarrow> candidates ''DELETE'' n =
     [(''*/api/v1/users/:userID'', [''users'', '':userID'']),
      (''*/api/v1/organizations/:organizationSlug'', [''organizations'', '':organizationSlug''])]"
  "n = 4 \<Longrightarrow> candidates ''DELETE'' n =
     [(''*/api/v1/organizations/:organizationSlug/projects/:projectKey'', [''organizations'', '':organizationSlug'', ''projects'', '':projectKey'']),
      (''*/api/v1/organizations/:organizationSlug/webhooks/:webhookId'', [''organizations'', '':organizationSlug'', ''webhooks'', '':webhookId''])]"
  "n = 6 \<Longrightarrow> candidates ''DELETE'' n =
     [(''*/api/v1/organizations/:organizationSlug/projects/:projectKey/flags/:flagKey'', [''organizations'', '':organizationSlug'', ''projects'', '':projectKey'', ''flags'', '':flagKey'']),
      (''*/api/v1/organizations/:organizationSlug/projects/:projectKey/segments/:segKey'', [''organizations'', '':organizationSlug'', ''projects'', '':projectKey'', ''segments'', '':segKey'']),
      (''*/api/v1/organizations/:organizationSlug/projects/:projectKey/triggers/:triggerId'', [''organizations'', '':organizationSlug'', ''projects'', '':projectKey'', ''triggers'', '':triggerId''])]"
  "n = 8 \<Longrightarrow> candidates ''DELETE'' n =
     [(''*/api/v1/organizations/:organizationSlug/projects/:projectKey/environments/:envKey/sdk-keys/:keyID'', [''organizations'', '':organizationSlug'', ''projects'', '':projectKey'', ''environments'', '':envKey'', ''sdk-keys'', '':keyID''])]"
  "n = 1 \<Longrightarrow> candidates ''GET'' n =
     [(''*/api/v1/users'', [''users'']),
      (''*/api/v1/setup'', [''setup'']),
      (''*/api/v1/me'', [''me'']),
      (''*/api/v1/organizations'', [''organizations'']),
      (''*/api/v1/permissions'', [''permissions''])]"
  "n = 3 \<Longrightarrow> candidates ''GET'' n =
     [(''*/api/v1/organizations/:organizationSlug/roles'', [''organizations'', '':organizationSlug'', ''roles'']),
      (''*/api/v1/organizations/:organizationSlug/members'', [''organizations'', '':organizationSlug'', ''members'']),
      (''*/api/v1/organizations/:organizationSlug/projects'', [''organizations'', '':organizationSlug'', ''projects'']),
      (''*/api/v1/organizations/:organizationSlug/audit'', [''organizations'', '':organizationSlug'', ''audit'']),
      (''*/api/v1/organizations/:organizationSlug/webhooks'', [''organizations'', '':organizationSlug'', ''webhooks''])]"
  "n = 4 \<Longrightarrow> candidates ''GET'' n =
     [(''*/api/v1/organizations/:organizationSlug/projects/:projectKey'', [''organizations'', '':organizationSlug'', ''projects'', '':projectKey''])]"
  "n = 5 \<Longrightarrow> candidates ''GET'' n =
     [(''*/api/v1/organizations/:organizationSlug/projects/:projectKey/flags'', [''organizations'', '':organizationSlug'', ''projects'', '':projectKey'', ''flags'']),
      (''*/api/v1/organizations/:organizationSlug/projects/:projectKey/environments'', [''organizations'', '':organizationSlug'', ''projects'', '':projectKey'', ''environments'']),
      (''*/api/v1/organizations/:organizationSlug/projects/:projectKey/segments'', [''organizations'', '':organizationSlug'', ''projects'', '':projectKey'', ''segments'']),
      (''*/api/v1/organizations/:organizationSlug/projects/:projectKey/changes'', [''organizations'', '':organizationSlug'', ''projects'', '':projectKey'', ''changes'']),
      (''*/api/v1/organizations/:organizationSlug/projects/:projectKey/scheduled-changes'', [''organizations'', '':organizationSlug'', ''projects'', '':projectKey'', ''scheduled-changes'']),
      (''*/api/v1/organizations/:organizationSlug/projects/:projectKey/triggers'', [''organizations'', '':organizationSlug'', ''projects'', '':projectKey'', ''triggers'']),
      (''*/api/v1/organizations/:organizationSlug/webhooks/:webhookId/deliveries'', [''organizations'', '':organizationSlug'', ''webhooks'', '':webhookId'', ''deliveries''])]"
  "n = 6 \<Longrightarrow> candidates ''GET'' n =
     [(''*/api/v1/organizations/:organizationSlug/projects/:projectKey/flags/lifecycle'', [''organizations'', '':organizationSlug'', ''projects'', '':projectKey'', ''flags'', ''lifecycle'']),
      (''*/api/v1/organizations/:organizationSlug/projects/:projectKey/segments/:segKey'', [''organizations'', '':organizationSlug'', ''projects'', '':projectKey'', ''segments'', '':segKey'']),
      (''*/api/v1/organizations/:organizationSlug/projects/:projectKey/flags/:flagKey'', [''organizations'', '':organizationSlug'', ''projects'', '':projectKey'', ''flags'', '':flagKey''])]"
  "n = 7 \<Longrightarrow> candidates ''GET'' n =
     [(''*/api/v1/organizations/:organizationSlug/projects/:projectKey/environments/:envKey/stats'', [''organizations'', '':organizationSlug'', ''projects'', '':projectKey'', ''environments'', '':envKey'', ''stats'']),
      (''*/api/v1/organizations/:organizationSlug/projects/:projectKey/environments/:envKey/flags'', [''organizations'', '':organizationSlug'', ''projects'', '':projectKey'', ''environments'', '':envKey'', ''flags'']),
      (''*/api/v1/organizations/:organizationSlug/projects/:projectKey/environments/:envKey/sdk-keys'', [''organizations'', '':organizationSlug'', ''projects'', '':projectKey'', ''environments'', '':envKey'', ''sdk-keys'']),
      (''*/api/v1/organizations/:organizationSlug/projects/:projectKey/environments/:envKey/contexts'', [''organizations'', '':organizationSlug'', ''projects'', '':projectKey'', ''environments'', '':envKey'', ''contexts''])]"
  "n = 8 \<Longrightarrow> candidates ''GET'' n =
     [(''*/api/v1/organizations/:organizationSlug/projects/:projectKey/flags/:flagKey/environments/:envKey'', [''organizations'', '':organizationSlug'', ''projects'', '':projectKey'', ''flags'', '':flagKey'', ''environments'', '':envKey''])]"
  "n = 9 \<Longrightarrow> candidates ''GET'' n =
     [(''*/api/v1/organizations/:organizationSlug/projects/:projectKey/flags/:flagKey/environments/:envKey/stats'', [''organizations'', '':organizationSlug'', ''projects'', '':projectKey'', ''flags'', '':flagKey'', ''environments'', '':envKey'', ''stats'']),
      (''*/api/v1/organizations/:organizationSlug/projects/:projectKey/environments/:envKey/contexts/:kind/:key'', [''organizations'', '':organizationSlug'', ''projects'', '':projectKey'', ''environments'', '':envKey'', ''contexts'', '':kind'', '':key''])]"
  "n = 2 \<Longrightarrow> candidates ''PATCH'' n =
     [(''*/api/v1/users/:userID'', [''users'', '':userID''])]"
  "n = 8 \<Longrightarrow> candidates ''PATCH'' n =
     [(''*/api/v1/organizations/:organizationSlug/projects/:projectKey/flags/:flagKey/environments/:envKey'', [''organizations'', '':organizationSlug'', ''projects'', '':projectKey'', ''flags'', '':flagKey'', ''environments'', '':envKey''])]"
  "n = 1 \<Longrightarrow> candidates ''POST'' n =
     [(''*/api/v1/users'', [''users'']),
      (''*/api/v1/setup'', [''setup''])]"
  "n = 2 \<Longrightarrow> candidates ''POST'' n =
     [(''*/api/v1/auth/login'', [''auth'', ''login''])]"
  "n = 3 \<Longrightarrow> candidates ''POST'' n =
     [(''*/api/v1/organizations/:organizationSlug/roles'', [''organizations'', '':organizationSlug'', ''roles'']),
      (''*/api/v1/organizations/:organizationSlug/members'', [''organizations'', '':organizationSlug'', ''members'']),
      (''*/api/v1/organizations/:organizationSlug/projects'', [''organizations'', '':organizationSlug'', ''projects'']),
      (''*/api/v1/organizations/:organizationSlug/webhooks'', [''organizations'', '':organizationSlug'', ''webhooks''])]"
  "n = 5 \<Longrightarrow> candidates ''POST'' n =
     [(''*/api/v1/organizations/:organizationSlug/projects/:projectKey/roles'', [''organizations'', '':organizationSlug'', ''projects'', '':projectKey'', ''roles'']),
      (''*/api/v1/organizations/:organizationSlug/projects/:projectKey/environments'', [''organizations'', '':organizationSlug'', ''projects'', '':projectKey'', ''environments'']),
      (''*/api/v1/organizations/:organizationSlug/webhooks/:webhookId/enabled'', [''organizations'', '':organizationSlug'', ''webhooks'', '':webhookId'', ''enabled'']),
      (''*/api/v1/organizations/:organizationSlug/webhooks/:webhookId/reset'', [''organizations'', '':organizationSlug'', ''webhooks'', '':webhookId'', ''reset'']),
      (''*/api/v1/organizations/:organizationSlug/webhooks/:webhookId/test'', [''organizations'', '':organizationSlug'', ''webhooks'', '':webhookId'', ''test''])]"
  "n = 7 \<Longrightarrow> candidates ''POST'' n =
     [(''*/api/v1/organizations/:organizationSlug/projects/:projectKey/environments/:envKey/sdk-keys'', [''organizations'', '':organizationSlug'', ''projects'', '':projectKey'', ''environments'', '':envKey'', ''sdk-keys'']),
      (''*/api/v1/organizations/:organizationSlug/projects/:projectKey/changes/:changeId/approve'', [''organizations'', '':organizationSlug'', ''projects'', '':projectKey'', ''changes'', '':changeId'', ''approve'']),
      (''*/api/v1/organizations/:organizationSlug/projects/:projectKey/changes/:changeId/reject'', [''organizations'', '':organizationSlug'', ''projects'', '':projectKey'', ''changes'', '':changeId'', ''reject'']),
      (''*/api/v1/organizations/:organizationSlug/projects/:projectKey/scheduled-changes/:scheduledId/cancel'', [''organizations'', '':organizationSlug'', ''projects'', '':projectKey'', ''scheduled-changes'', '':scheduledId'', ''cancel'']),
      (''*/api/v1/organizations/:organizationSlug/projects/:projectKey/triggers/:triggerId/enabled'', [''organizations'', '':organizationSlug'', ''projects'', '':projectKey'', ''triggers'', '':triggerId'', ''enabled'']),
      (''*/api/v1/organizations/:organizationSlug/projects/:projectKey/triggers/:triggerId/reset'', [''organizations'', '':organizationSlug'', ''projects'', '':projectKey'', ''triggers'', '':triggerId'', ''reset''])]"
  "n = 9 \<Longrightarrow> candidates ''POST'' n =
     [(''*/api/v1/organizations/:organizationSlug/projects/:projectKey/flags/:flagKey/environments/:envKey/changes'', [''organizations'', '':organizationSlug'', ''projects'', '':projectKey'', ''flags'', '':flagKey'', ''environments'', '':envKey'', ''changes'']),
      (''*/api/v1/organizations/:organizationSlug/projects/:projectKey/flags/:flagKey/environments/:envKey/scheduled-changes'', [''organizations'', '':organizationSlug'', ''projects'', '':projectKey'', ''flags'', '':flagKey'', ''environments'', '':envKey'', ''scheduled-changes'']),
      (''*/api/v1/organizations/:organizationSlug/projects/:projectKey/flags/:flagKey/environments/:envKey/triggers'', [''organizations'', '':organizationSlug'', ''projects'', '':projectKey'', ''flags'', '':flagKey'', ''environments'', '':envKey'', ''triggers''])]"
  "n = 6 \<Longrightarrow> candidates ''PUT'' n =
     [(''*/api/v1/organizations/:organizationSlug/projects/:projectKey/flags/:flagKey'', [''organizations'', '':organizationSlug'', ''projects'', '':projectKey'', ''flags'', '':flagKey'']),
      (''*/api/v1/organizations/:organizationSlug/projects/:projectKey/segments/:segKey'', [''organizations'', '':organizationSlug'', ''projects'', '':projectKey'', ''segments'', '':segKey''])]"
  unfolding candidates_def named_handlers_eq by (simp_all cong: filter_fixed)

fun first_fit :: "(string \<times> string list) list \<Rightarrow> string list \<Rightarrow> (string \<times> (string \<times> string) list) option" where
  "first_fit [] segs = None"
| "first_fit ((p, ns) # rs) segs =
     (case fit ns segs of Some b \<Rightarrow> Some (p, b) | None \<Rightarrow> first_fit rs segs)"

lemma first_route_fit:
  assumes "\<And>p. marked_pattern p \<Longrightarrow> fits p = fit (drop 2 (pattern_names p)) segs"
  shows "list_all (\<lambda>(m, p). marked_pattern p) rs \<Longrightarrow> first_route fits rs method =
    map_option (\<lambda>(p, b). ((method, p), b)) (first_fit (map snd (filter (\<lambda>(m, p, ns). m = method \<and> length ns = length segs)
      (map (\<lambda>(m, p). (m, p, drop 2 (pattern_names p))) rs))) segs)"
proof (induction rs)
  case (Cons r rs)
  obtain m p where r: "r = (m, p)" by (cases r)
  have f: "fits p = fit (drop 2 (pattern_names p)) segs" using Cons.prems assms by (simp add: r)
  have l: "fit (drop 2 (pattern_names p)) segs = Some b \<Longrightarrow> length (drop 2 (pattern_names p)) = length segs" for b
    by (rule fit_length)
  show ?case
    using Cons f l by (cases "fit (drop 2 (pattern_names p)) segs") (auto simp: r simp del: length_drop)
qed simp

lemma first_route_None:
  "(\<And>p. marked_pattern p \<Longrightarrow> fits p = None) \<Longrightarrow> list_all (\<lambda>(m, p). marked_pattern p) rs \<Longrightarrow> first_route fits rs method = None"
  by (induction rs) auto

text \<open>A call to the base: where it goes, and who answers.\<close>

definition query_ok :: "string \<Rightarrow> bool" where
  "query_ok q \<longleftrightarrow> q = [] \<or> prefix ''?'' q"

lemma path_of_Cons: "path_of (s # ss) = CHR ''/'' # s @ path_of ss"
  by (simp add: path_of_def)

lemma request_url_base:
  assumes "apiUrl \<noteq> []"
  shows "request_url origin apiUrl c = absolute_url origin apiUrl @ ac_path c"
  using assms by (cases apiUrl) (auto simp: request_url_def absolute_url_def)

lemma clean_path:
  assumes "CHR ''?'' \<notin> set h" "CHR ''#'' \<notin> set h" "query_ok q"
  shows "clean_url (h @ q) = h"
proof -
  have "takeWhile (\<lambda>c. c \<noteq> CHR ''?'' \<and> c \<noteq> CHR ''#'') q = []"
    using assms(3) by (cases q) (auto simp: query_ok_def)
  moreover have "\<And>c. c \<in> set h \<Longrightarrow> c \<noteq> CHR ''?'' \<and> c \<noteq> CHR ''#''" using assms(1,2) by metis
  ultimately show ?thesis by (simp add: clean_url_def takeWhile_append2)
qed

lemma split_set: "x \<noteq> c \<Longrightarrow> x \<in> set s \<longleftrightarrow> (\<exists>y\<in>set (split_on c s). x \<in> set y)"
proof (induction s)
  case (Cons a s)
  obtain y ys where y: "split_on c s = y # ys" by (cases "split_on c s") auto
  then show ?case using Cons by auto
qed simp

lemma segments_clean:
  assumes "list_all segment_ok (split_on CHR ''/'' u)"
  shows "CHR ''?'' \<notin> set u" "CHR ''#'' \<notin> set u"
  using assms by (auto simp: split_set [of _ "CHR ''/''" u] list_all_iff segment_ok_def)

lemma url_segments:
  assumes "list_all segment_ok (split_on CHR ''/'' u)" "list_all segment_ok segs" "query_ok q"
  shows "split_on CHR ''/'' (clean_url (u @ path_of segs @ q)) = split_on CHR ''/'' u @ segs"
proof -
  have "list_all (\<lambda>s. CHR ''/'' \<notin> set s) segs" using assms(2) by (auto simp: list_all_iff segment_ok_def)
  then have s: "split_on CHR ''/'' (u @ path_of segs) = split_on CHR ''/'' u @ segs" by (rule split_path)
  then have "list_all segment_ok (split_on CHR ''/'' (u @ path_of segs))" using assms(1,2) by simp
  from clean_path [OF segments_clean [OF this] assms(3)] s show ?thesis by simp
qed

lemma served_at:
  assumes "documented_matching matches" "api_base origin apiUrl" "ac_path c = path_of segs @ q"
    "list_all segment_ok segs" "\<not> has_marker segs" "query_ok q"
  shows "served matches handlers origin apiUrl c =
    map_option (\<lambda>(p, b). ((ac_method c, p), b)) (first_fit (candidates (ac_method c) (length segs)) segs)"
proof -
  define b n where "b = absolute_url origin apiUrl" and "n = length b - 7"
  define h where "h = take n b"
  have b: "b = h @ path_of [''api'', ''v1'']" and h: "host_ok h"
    using assms(2) append_take_drop_id [of n b] by (auto simp: api_base_def Let_def b_def n_def h_def path_of_def)
  have "apiUrl \<noteq> []" using b by (auto simp: b_def absolute_url_def path_of_def)
  then have url: "request_url origin apiUrl c = h @ path_of ([''api'', ''v1''] @ segs) @ q"
    using b assms(3) by (simp add: request_url_base path_of_def flip: b_def)
  have "list_all segment_ok ([''api'', ''v1''] @ segs)" using assms(4) by (simp add: segment_ok_def)
  then have s: "split_on CHR ''/'' (clean_url (request_url origin apiUrl c)) = split_on CHR ''/'' h @ ''api'' # ''v1'' # segs"
    unfolding url using h assms(6) by (subst url_segments) (auto simp: host_ok_def list_all_iff)
  have "list_all (\<lambda>s. decodeURIComponent s \<noteq> None) (split_on CHR ''/'' h @ ''api'' # ''v1'' # segs)"
    using h assms(4) by (auto simp: host_ok_def list_all_iff segment_ok_def)
  then have "matches origin p (request_url origin apiUrl c) = documented_match origin p (request_url origin apiUrl c)" for p
    using assms(1) s unfolding documented_matching_def by metis
  moreover have "list_all (\<lambda>s. to_lower s \<noteq> ''api'') (split_on CHR ''/'' h)"
    using h by (auto simp: host_ok_def list_all_iff)
  ultimately have "marked_pattern p \<Longrightarrow> matches origin p (request_url origin apiUrl c) = fit (drop 2 (pattern_names p)) segs" for p
    using match_behind_marker [OF _ s _ assms(5)] by simp
  from first_route_fit [OF this handlers_marked] show ?thesis
    by (simp add: served_def candidates_def named_handlers_def)
qed

text \<open>The calls of the dashboard: each with the segments and the query it is sent to, the pattern of the
  handler that is meant for it and the path parameters that handler is meant to see.\<close>

type_synonym route_row = "api_call \<times> string list \<times> string \<times> string \<times> (string \<times> string) list"

definition account_rows :: "string \<Rightarrow> js \<Rightarrow> route_row list" where
  "account_rows i body =
    [(auth_login body, [''auth'', ''login''], [],
       ''*/api/v1/auth/login'', []),
     (auth_me, [''me''], [],
       ''*/api/v1/me'', []),
     (setup_status_call, [''setup''], [],
       ''*/api/v1/setup'', []),
     (setup_complete body, [''setup''], [],
       ''*/api/v1/setup'', []),
     (users_list, [''users''], [],
       ''*/api/v1/users'', []),
     (users_create body, [''users''], [],
       ''*/api/v1/users'', []),
     (users_update i body, [''users'', i], [],
       ''*/api/v1/users/:userID'', [(''userID'', i)]),
     (users_remove i, [''users'', i], [],
       ''*/api/v1/users/:userID'', [(''userID'', i)]),
     (roles_permissions, [''permissions''], [],
       ''*/api/v1/permissions'', [])]"

definition organization_rows :: "string \<Rightarrow> string \<Rightarrow> string \<Rightarrow> bool \<Rightarrow> js \<Rightarrow> route_row list" where
  "organization_rows org i text b body =
    [(organizations_list, [''organizations''], [],
       ''*/api/v1/organizations'', []),
     (organizations_remove org, [''organizations'', org], [],
       ''*/api/v1/organizations/:organizationSlug'', [(''organizationSlug'', org)]),
     (roles_list org, [''organizations'', org, ''roles''], [],
       ''*/api/v1/organizations/:organizationSlug/roles'', [(''organizationSlug'', org)]),
     (roles_create org body, [''organizations'', org, ''roles''], [],
       ''*/api/v1/organizations/:organizationSlug/roles'', [(''organizationSlug'', org)]),
     (members_list org, [''organizations'', org, ''members''], [],
       ''*/api/v1/organizations/:organizationSlug/members'', [(''organizationSlug'', org)]),
     (members_add org body, [''organizations'', org, ''members''], [],
       ''*/api/v1/organizations/:organizationSlug/members'', [(''organizationSlug'', org)]),
     (audit_list org text, [''organizations'', org, ''audit''], query_string (optional_param ''resource_type'' (Some text)),
       ''*/api/v1/organizations/:organizationSlug/audit'', [(''organizationSlug'', org)]),
     (webhooks_list org, [''organizations'', org, ''webhooks''], [],
       ''*/api/v1/organizations/:organizationSlug/webhooks'', [(''organizationSlug'', org)]),
     (webhooks_create org body, [''organizations'', org, ''webhooks''], [],
       ''*/api/v1/organizations/:organizationSlug/webhooks'', [(''organizationSlug'', org)]),
     (webhooks_setEnabled org i b, [''organizations'', org, ''webhooks'', i, ''enabled''], [],
       ''*/api/v1/organizations/:organizationSlug/webhooks/:webhookId/enabled'', [(''organizationSlug'', org), (''webhookId'', i)]),
     (webhooks_reset org i, [''organizations'', org, ''webhooks'', i, ''reset''], [],
       ''*/api/v1/organizations/:organizationSlug/webhooks/:webhookId/reset'', [(''organizationSlug'', org), (''webhookId'', i)]),
     (webhooks_test org i, [''organizations'', org, ''webhooks'', i, ''test''], [],
       ''*/api/v1/organizations/:organizationSlug/webhooks/:webhookId/test'', [(''organizationSlug'', org), (''webhookId'', i)]),
     (webhooks_deliveries org i, [''organizations'', org, ''webhooks'', i, ''deliveries''], [],
       ''*/api/v1/organizations/:organizationSlug/webhooks/:webhookId/deliveries'', [(''organizationSlug'', org), (''webhookId'', i)]),
     (webhooks_remove org i, [''organizations'', org, ''webhooks'', i], [],
       ''*/api/v1/organizations/:organizationSlug/webhooks/:webhookId'', [(''organizationSlug'', org), (''webhookId'', i)])]"

definition project_rows :: "string \<Rightarrow> string \<Rightarrow> string \<Rightarrow> string \<Rightarrow> js \<Rightarrow> route_row list" where
  "project_rows org proj segKey text body =
    [(projects_list org, [''organizations'', org, ''projects''], [],
       ''*/api/v1/organizations/:organizationSlug/projects'', [(''organizationSlug'', org)]),
     (projects_create org body, [''organizations'', org, ''projects''], [],
       ''*/api/v1/organizations/:organizationSlug/projects'', [(''organizationSlug'', org)]),
     (projects_get org proj, [''organizations'', org, ''projects'', proj], [],
       ''*/api/v1/organizations/:organizationSlug/projects/:projectKey'', [(''organizationSlug'', org), (''projectKey'', proj)]),
     (projects_remove org proj, [''organizations'', org, ''projects'', proj], [],
       ''*/api/v1/organizations/:organizationSlug/projects/:projectKey'', [(''organizationSlug'', org), (''projectKey'', proj)]),
     (members_grantProjectRole org proj body, [''organizations'', org, ''projects'', proj, ''roles''], [],
       ''*/api/v1/organizations/:organizationSlug/projects/:projectKey/roles'', [(''organizationSlug'', org), (''projectKey'', proj)]),
     (environments_list org proj text, [''organizations'', org, ''projects'', proj, ''environments''], search_suffix text,
       ''*/api/v1/organizations/:organizationSlug/projects/:projectKey/environments'', [(''organizationSlug'', org), (''projectKey'', proj)]),
     (environments_create org proj body, [''organizations'', org, ''projects'', proj, ''environments''], [],
       ''*/api/v1/organizations/:organizationSlug/projects/:projectKey/environments'', [(''organizationSlug'', org), (''projectKey'', proj)]),
     (segments_list org proj text, [''organizations'', org, ''projects'', proj, ''segments''], search_suffix text,
       ''*/api/v1/organizations/:organizationSlug/projects/:projectKey/segments'', [(''organizationSlug'', org), (''projectKey'', proj)]),
     (segments_get org proj segKey, [''organizations'', org, ''projects'', proj, ''segments'', segKey], [],
       ''*/api/v1/organizations/:organizationSlug/projects/:projectKey/segments/:segKey'', [(''organizationSlug'', org), (''projectKey'', proj), (''segKey'', segKey)]),
     (segments_save org proj segKey body, [''organizations'', org, ''projects'', proj, ''segments'', segKey], [],
       ''*/api/v1/organizations/:organizationSlug/projects/:projectKey/segments/:segKey'', [(''organizationSlug'', org), (''projectKey'', proj), (''segKey'', segKey)]),
     (segments_remove org proj segKey, [''organizations'', org, ''projects'', proj, ''segments'', segKey], [],
       ''*/api/v1/organizations/:organizationSlug/projects/:projectKey/segments/:segKey'', [(''organizationSlug'', org), (''projectKey'', proj), (''segKey'', segKey)])]"

definition environment_rows :: "string \<Rightarrow> string \<Rightarrow> string \<Rightarrow> string \<Rightarrow> string \<Rightarrow> string \<Rightarrow> string \<Rightarrow> js \<Rightarrow> route_row list" where
  "environment_rows org proj envKey i kind key text body =
    [(sdkKeys_list org proj envKey, [''organizations'', org, ''projects'', proj, ''environments'', envKey, ''sdk-keys''], [],
       ''*/api/v1/organizations/:organizationSlug/projects/:projectKey/environments/:envKey/sdk-keys'', [(''organizationSlug'', org), (''projectKey'', proj), (''envKey'', envKey)]),
     (sdkKeys_create org proj envKey body, [''organizations'', org, ''projects'', proj, ''environments'', envKey, ''sdk-keys''], [],
       ''*/api/v1/organizations/:organizationSlug/projects/:projectKey/environments/:envKey/sdk-keys'', [(''organizationSlug'', org), (''projectKey'', proj), (''envKey'', envKey)]),
     (sdkKeys_revoke org proj envKey i, [''organizations'', org, ''projects'', proj, ''environments'', envKey, ''sdk-keys'', i], [],
       ''*/api/v1/organizations/:organizationSlug/projects/:projectKey/environments/:envKey/sdk-keys/:keyID'', [(''organizationSlug'', org), (''projectKey'', proj), (''envKey'', envKey), (''keyID'', i)]),
     (contexts_list org proj envKey text, [''organizations'', org, ''projects'', proj, ''environments'', envKey, ''contexts''], search_suffix text,
       ''*/api/v1/organizations/:organizationSlug/projects/:projectKey/environments/:envKey/contexts'', [(''organizationSlug'', org), (''projectKey'', proj), (''envKey'', envKey)]),
     (contexts_get org proj envKey kind key, [''organizations'', org, ''projects'', proj, ''environments'', envKey, ''contexts'', encodeURIComponent kind, encodeURIComponent key], [],
       ''*/api/v1/organizations/:organizationSlug/projects/:projectKey/environments/:envKey/contexts/:kind/:key'', [(''organizationSlug'', org), (''projectKey'', proj), (''envKey'', envKey), (''kind'', kind), (''key'', key)]),
     (flags_listInEnv org proj envKey text, [''organizations'', org, ''projects'', proj, ''environments'', envKey, ''flags''], search_suffix text,
       ''*/api/v1/organizations/:organizationSlug/projects/:projectKey/environments/:envKey/flags'', [(''organizationSlug'', org), (''projectKey'', proj), (''envKey'', envKey)]),
     (analytics_envStats org proj envKey text, [''organizations'', org, ''projects'', proj, ''environments'', envKey, ''stats''], ''?since='' @ text,
       ''*/api/v1/organizations/:organizationSlug/projects/:projectKey/environments/:envKey/stats'', [(''organizationSlug'', org), (''projectKey'', proj), (''envKey'', envKey)])]"

definition flag_rows :: "string \<Rightarrow> string \<Rightarrow> string \<Rightarrow> string \<Rightarrow> string \<Rightarrow> bool \<Rightarrow> js \<Rightarrow> create_flag_input \<Rightarrow> route_row list" where
  "flag_rows org proj envKey flagKey text b body input =
    [(flags_list org proj, [''organizations'', org, ''projects'', proj, ''flags''], [],
       ''*/api/v1/organizations/:organizationSlug/projects/:projectKey/flags'', [(''organizationSlug'', org), (''projectKey'', proj)]),
     (flags_create org proj input, [''organizations'', org, ''projects'', proj, ''flags'', cf_key input], [],
       ''*/api/v1/organizations/:organizationSlug/projects/:projectKey/flags/:flagKey'', [(''organizationSlug'', org), (''projectKey'', proj), (''flagKey'', cf_key input)]),
     (flags_listLifecycle org proj, [''organizations'', org, ''projects'', proj, ''flags'', ''lifecycle''], [],
       ''*/api/v1/organizations/:organizationSlug/projects/:projectKey/flags/lifecycle'', [(''organizationSlug'', org), (''projectKey'', proj)]),
     (flags_get org proj flagKey, [''organizations'', org, ''projects'', proj, ''flags'', flagKey], [],
       (if to_lower flagKey = ''lifecycle'' then ''*/api/v1/organizations/:organizationSlug/projects/:projectKey/flags/lifecycle'' else ''*/api/v1/organizations/:organizationSlug/projects/:projectKey/flags/:flagKey''), [(''organizationSlug'', org), (''projectKey'', proj)] @ (if to_lower flagKey = ''lifecycle'' then [] else [(''flagKey'', flagKey)])),
     (flags_remove org proj flagKey, [''organizations'', org, ''projects'', proj, ''flags'', flagKey], [],
       ''*/api/v1/organizations/:organizationSlug/projects/:projectKey/flags/:flagKey'', [(''organizationSlug'', org), (''projectKey'', proj), (''flagKey'', flagKey)]),
     (flags_getConfig org proj flagKey envKey, [''organizations'', org, ''projects'', proj, ''flags'', flagKey, ''environments'', envKey], [],
       ''*/api/v1/organizations/:organizationSlug/projects/:projectKey/flags/:flagKey/environments/:envKey'', [(''organizationSlug'', org), (''projectKey'', proj), (''flagKey'', flagKey), (''envKey'', envKey)]),
     (flags_toggle org proj flagKey envKey b, [''organizations'', org, ''projects'', proj, ''flags'', flagKey, ''environments'', envKey], [],
       ''*/api/v1/organizations/:organizationSlug/projects/:projectKey/flags/:flagKey/environments/:envKey'', [(''organizationSlug'', org), (''projectKey'', proj), (''flagKey'', flagKey), (''envKey'', envKey)]),
     (flags_patchConfig org proj flagKey envKey body, [''organizations'', org, ''projects'', proj, ''flags'', flagKey, ''environments'', envKey], [],
       ''*/api/v1/organizations/:organizationSlug/projects/:projectKey/flags/:flagKey/environments/:envKey'', [(''organizationSlug'', org), (''projectKey'', proj), (''flagKey'', flagKey), (''envKey'', envKey)]),
     (analytics_flagStats org proj flagKey envKey text, [''organizations'', org, ''projects'', proj, ''flags'', flagKey, ''environments'', envKey, ''stats''], ''?since='' @ text,
       ''*/api/v1/organizations/:organizationSlug/projects/:projectKey/flags/:flagKey/environments/:envKey/stats'', [(''organizationSlug'', org), (''projectKey'', proj), (''flagKey'', flagKey), (''envKey'', envKey)])]"

definition governance_rows :: "string \<Rightarrow> string \<Rightarrow> string \<Rightarrow> string \<Rightarrow> string \<Rightarrow> string option \<Rightarrow> bool \<Rightarrow> js \<Rightarrow> route_row list" where
  "governance_rows org proj envKey flagKey i status b body =
    [(changes_list org proj status, [''organizations'', org, ''projects'', proj, ''changes''], (if truthy_opt status then ''?status='' @ the status else []),
       ''*/api/v1/organizations/:organizationSlug/projects/:projectKey/changes'', [(''organizationSlug'', org), (''projectKey'', proj)]),
     (changes_create org proj flagKey envKey body, [''organizations'', org, ''projects'', proj, ''flags'', flagKey, ''environments'', envKey, ''changes''], [],
       ''*/api/v1/organizations/:organizationSlug/projects/:projectKey/flags/:flagKey/environments/:envKey/changes'', [(''organizationSlug'', org), (''projectKey'', proj), (''flagKey'', flagKey), (''envKey'', envKey)]),
     (changes_approve org proj i status, [''organizations'', org, ''projects'', proj, ''changes'', i, ''approve''], [],
       ''*/api/v1/organizations/:organizationSlug/projects/:projectKey/changes/:changeId/approve'', [(''organizationSlug'', org), (''projectKey'', proj), (''changeId'', i)]),
     (changes_reject org proj i status, [''organizations'', org, ''projects'', proj, ''changes'', i, ''reject''], [],
       ''*/api/v1/organizations/:organizationSlug/projects/:projectKey/changes/:changeId/reject'', [(''organizationSlug'', org), (''projectKey'', proj), (''changeId'', i)]),
     (scheduledChanges_list org proj status status status, [''organizations'', org, ''projects'', proj, ''scheduled-changes''], query_string (optional_param ''status'' status @ optional_param ''flag'' status @ optional_param ''env'' status),
       ''*/api/v1/organizations/:organizationSlug/projects/:projectKey/scheduled-changes'', [(''organizationSlug'', org), (''projectKey'', proj)]),
     (scheduledChanges_create org proj flagKey envKey body, [''organizations'', org, ''projects'', proj, ''flags'', flagKey, ''environments'', envKey, ''scheduled-changes''], [],
       ''*/api/v1/organizations/:organizationSlug/projects/:projectKey/flags/:flagKey/environments/:envKey/scheduled-changes'', [(''organizationSlug'', org), (''projectKey'', proj), (''flagKey'', flagKey), (''envKey'', envKey)]),
     (scheduledChanges_cancel org proj i, [''organizations'', org, ''projects'', proj, ''scheduled-changes'', i, ''cancel''], [],
       ''*/api/v1/organizations/:organizationSlug/projects/:projectKey/scheduled-changes/:scheduledId/cancel'', [(''organizationSlug'', org), (''projectKey'', proj), (''scheduledId'', i)]),
     (triggers_list org proj flagKey envKey, [''organizations'', org, ''projects'', proj, ''triggers''], ''?flag='' @ flagKey @ ''&env='' @ envKey,
       ''*/api/v1/organizations/:organizationSlug/projects/:projectKey/triggers'', [(''organizationSlug'', org), (''projectKey'', proj)]),
     (triggers_create org proj flagKey envKey body, [''organizations'', org, ''projects'', proj, ''flags'', flagKey, ''environments'', envKey, ''triggers''], [],
       ''*/api/v1/organizations/:organizationSlug/projects/:projectKey/flags/:flagKey/environments/:envKey/triggers'', [(''organizationSlug'', org), (''projectKey'', proj), (''flagKey'', flagKey), (''envKey'', envKey)]),
     (triggers_setEnabled org proj i b, [''organizations'', org, ''projects'', proj, ''triggers'', i, ''enabled''], [],
       ''*/api/v1/organizations/:organizationSlug/projects/:projectKey/triggers/:triggerId/enabled'', [(''organizationSlug'', org), (''projectKey'', proj), (''triggerId'', i)]),
     (triggers_reset org proj i, [''organizations'', org, ''projects'', proj, ''triggers'', i, ''reset''], [],
       ''*/api/v1/organizations/:organizationSlug/projects/:projectKey/triggers/:triggerId/reset'', [(''organizationSlug'', org), (''projectKey'', proj), (''triggerId'', i)]),
     (triggers_remove org proj i, [''organizations'', org, ''projects'', proj, ''triggers'', i], [],
       ''*/api/v1/organizations/:organizationSlug/projects/:projectKey/triggers/:triggerId'', [(''organizationSlug'', org), (''projectKey'', proj), (''triggerId'', i)])]"

definition endpoint_rows ::
  "string \<Rightarrow> string \<Rightarrow> string \<Rightarrow> string \<Rightarrow> string \<Rightarrow> string \<Rightarrow> string \<Rightarrow> string \<Rightarrow> string \<Rightarrow> string option \<Rightarrow>
   bool \<Rightarrow> js \<Rightarrow> create_flag_input \<Rightarrow> route_row list" where
  "endpoint_rows org proj envKey flagKey segKey i kind key text status b body input =
    account_rows i body @
    organization_rows org i text b body @
    project_rows org proj segKey text body @
    environment_rows org proj envKey i kind key text body @
    flag_rows org proj envKey flagKey text b body input @
    governance_rows org proj envKey flagKey i status b body"

definition row_ok :: "route_row \<Rightarrow> bool" where
  "row_ok r \<longleftrightarrow> (case r of (c, segs, q, p, params) \<Rightarrow>
     ac_path c = path_of segs @ q \<and> list_all segment_ok segs \<and> \<not> has_marker segs \<and> to_lower (hd segs) \<noteq> ''v1'' \<and> query_ok q \<and>
     first_fit (candidates (ac_method c) (length segs)) segs = Some (p, params))"

lemma row_served:
  assumes "documented_matching matches" "api_base origin apiUrl" "row_ok (c, segs, q, p, params)"
  shows "ac_path c = path_of segs @ q \<and> served matches handlers origin apiUrl c = Some ((ac_method c, p), params)"
  using assms(3) served_at [OF assms(1,2), of c segs q] by (simp add: row_ok_def)

lemmas call_defs = call_get_def call_post_def call_put_def call_patch_def call_delete_def

lemmas row_simps = row_ok_def call_defs path_of_def project_path_def environment_path_def config_path_def webhooks_path_def
  literal_segments literal_lower plain_ok plain_decode encode_ok decode_encode encode_Nil is_param_def query_ok_def
  candidate_table

lemma account_rows_ok:
  assumes "plain_key i"
  shows "list_all row_ok (account_rows i body)"
  using assms by (simp add: account_rows_def row_simps auth_login_def auth_me_def setup_status_call_def setup_complete_def users_list_def users_create_def users_update_def users_remove_def roles_permissions_def)

lemma organization_rows_ok:
  assumes "plain_key org" "plain_key i"
  shows "list_all row_ok (organization_rows org i text b body)"
  using assms by (simp add: organization_rows_def row_simps organizations_list_def organizations_remove_def roles_list_def roles_create_def members_list_def members_add_def audit_list_def webhooks_list_def webhooks_create_def webhooks_setEnabled_def webhooks_reset_def webhooks_test_def webhooks_deliveries_def webhooks_remove_def query_string_def optional_param_def)

lemma project_rows_ok:
  assumes "plain_key org" "plain_key proj" "plain_key segKey"
  shows "list_all row_ok (project_rows org proj segKey text body)"
  using assms by (simp add: project_rows_def row_simps projects_list_def projects_create_def projects_get_def projects_remove_def members_grantProjectRole_def environments_list_def environments_create_def segments_list_def segments_get_def segments_save_def segments_remove_def search_suffix_def)

lemma environment_rows_ok:
  assumes "plain_key org" "plain_key proj" "plain_key envKey" "plain_key i" "kind \<noteq> []" "key \<noteq> []"
  shows "list_all row_ok (environment_rows org proj envKey i kind key text body)"
  using assms by (simp add: environment_rows_def row_simps sdkKeys_list_def sdkKeys_create_def sdkKeys_revoke_def contexts_list_def contexts_get_def flags_listInEnv_def analytics_envStats_def search_suffix_def)

lemma flag_rows_ok:
  assumes "plain_key org" "plain_key proj" "plain_key envKey" "plain_key flagKey" "plain_key (cf_key input)"
  shows "list_all row_ok (flag_rows org proj envKey flagKey text b body input)"
  using assms by (simp add: flag_rows_def row_simps flags_list_def flags_create_def flags_listLifecycle_def flags_get_def flags_remove_def flags_getConfig_def flags_toggle_def flags_patchConfig_def analytics_flagStats_def)

lemma governance_rows_ok:
  assumes "plain_key org" "plain_key proj" "plain_key envKey" "plain_key flagKey" "plain_key i"
  shows "list_all row_ok (governance_rows org proj envKey flagKey i status b body)"
  using assms by (simp add: governance_rows_def row_simps changes_list_def changes_create_def changes_approve_def changes_reject_def scheduledChanges_list_def scheduledChanges_create_def scheduledChanges_cancel_def triggers_list_def triggers_create_def triggers_setEnabled_def triggers_reset_def triggers_remove_def query_string_def optional_param_def)

definition path_key :: "string \<Rightarrow> bool" where
  "path_key k \<longleftrightarrow> k \<noteq> [] \<and> k \<noteq> ''.'' \<and> k \<noteq> ''..''"

lemma endpoint_rows_ok:
  assumes "list_all plain_key [org, proj, envKey, flagKey, segKey, i, cf_key input]" "list_all path_key [kind, key]"
  shows "list_all row_ok (endpoint_rows org proj envKey flagKey segKey i kind key text status b body input)"
  using assms unfolding endpoint_rows_def list_all_append
  by (intro conjI account_rows_ok organization_rows_ok project_rows_ok environment_rows_ok flag_rows_ok governance_rows_ok)
    (simp_all add: path_key_def)

lemma no_candidates: "candidates ''PATCH'' 4 = []"
  unfolding candidates_def named_handlers_eq by (simp cong: filter_fixed)

lemma no_project_patch:
  assumes "documented_matching matches" "api_base origin apiUrl" "plain_key org" "plain_key proj"
  shows "served matches handlers origin apiUrl (projects_update org proj name) = None"
proof -
  have "served matches handlers origin apiUrl (projects_update org proj name) =
    map_option (\<lambda>(p, b). ((ac_method (projects_update org proj name), p), b))
      (first_fit (candidates (ac_method (projects_update org proj name)) (length (project_path org proj))) (project_path org proj))"
    using assms by (intro served_at [where q = "[]"]) (simp_all add: projects_update_def project_path_def call_patch_def
      literal_segments literal_lower plain_ok query_ok_def)
  moreover have "ac_method (projects_update org proj name) = ''PATCH''" "length (project_path org proj) = 4"
    by (simp_all add: projects_update_def call_patch_def project_path_def)
  ultimately show ?thesis by (simp add: no_candidates)
qed

text \<open>The base of the documentation: nothing follows its \<open>api\<close> that could be a version.\<close>

lemma no_marker_append: "list_all (\<lambda>s. to_lower s \<noteq> ''api'') H \<Longrightarrow> \<not> has_marker ss \<Longrightarrow> \<not> has_marker (H @ ss)"
proof (induction H)
  case (Cons x H)
  then show ?case by (cases "H @ ss" rule: has_marker.cases) auto
qed simp

lemma unserved_at:
  assumes "documented_matching matches" "host_ok origin" "ac_path c = path_of segs @ q"
    "list_all segment_ok segs" "\<not> has_marker segs" "query_ok q" "to_lower (hd segs) \<noteq> ''v1''"
  shows "served matches handlers origin ''/api'' c = None"
proof -
  have url: "request_url origin ''/api'' c = origin @ path_of (''api'' # segs) @ q"
    using assms(3) by (simp add: request_url_def absolute_url_def path_of_def)
  have "list_all segment_ok (''api'' # segs)" using assms(4) by (simp add: segment_ok_def)
  then have s: "split_on CHR ''/'' (clean_url (request_url origin ''/api'' c)) = split_on CHR ''/'' origin @ ''api'' # segs"
    unfolding url using assms(2,6) by (subst url_segments) (auto simp: host_ok_def list_all_iff)
  have "\<not> has_marker (''api'' # segs)"
    using assms(5,7) by (cases segs; cases "tl segs") auto
  then have m: "\<not> has_marker (split_on CHR ''/'' origin @ ''api'' # segs)"
    using assms(2) by (intro no_marker_append) (simp_all add: host_ok_def list_all_iff)
  have "list_all (\<lambda>s. decodeURIComponent s \<noteq> None) (split_on CHR ''/'' origin @ ''api'' # segs)"
    using assms(2,4) by (auto simp: host_ok_def list_all_iff segment_ok_def)
  then have "matches origin p (request_url origin ''/api'' c) = documented_match origin p (request_url origin ''/api'' c)" for p
    using assms(1) s unfolding documented_matching_def by metis
  then have "marked_pattern p \<Longrightarrow> matches origin p (request_url origin ''/api'' c) = None" for p
    using match_nothing [of p] m s by simp
  from first_route_None [OF this handlers_marked] show ?thesis by (simp add: served_def)
qed

lemma row_unserved:
  "documented_matching matches \<Longrightarrow> host_ok origin \<Longrightarrow> row_ok (c, segs, q, p, params) \<Longrightarrow>
   served matches handlers origin ''/api'' c = None"
  by (simp add: row_ok_def unserved_at)

section \<open>Properties\<close>


definition demo_flag :: create_flag_input where
  "demo_flag = \<lparr>cf_key = ''new-ui'', cf_name = ''New UI'', cf_description = None, cf_client_side_available = None,
     cf_temporary = None, cf_variations = []\<rparr>"

definition demo_origin :: string where
  "demo_origin = ''http://localhost:5173''"

lemma demo_api_base: "api_base demo_origin ''/api/v1''" "host_ok demo_origin"
  by (simp_all add: api_base_def host_ok_def demo_origin_def absolute_url_def segment_ok_def to_lower_def lower_char_def code_unit_def)

lemma demo_plain: "list_all plain_key [''acme'', ''web'', ''prod'', ''new-ui'', ''beta'', ''i1'', cf_key demo_flag]"
  by (simp add: plain_key_def unreserved_def code_unit_def demo_flag_def)

lemma documented_match_documented: "documented_matching documented_match"
  by (simp add: documented_matching_def)


text \<open>
  C32: with the documented base mock mode answers nothing. If \<open>APP_API_URL\<close> is unset or \<open>/api\<close>, as the
  example environment and the readme have it, the configuration the build writes and the dashboard loads
  names the base \<open>/api\<close>, and no handler answers any of the dashboard's calls: they all go to the network.
\<close>
theorem documented_base_unserved:
  assumes "documented_matching matches" "host_ok origin"
    and "\<forall>v c. safeParse v = Some c \<longleftrightarrow> config_schema v c" and "json_parse t = Some (runtimeConfig env command)"
    and "the_default ''/api'' (env ''APP_API_URL'') = ''/api''" and "fst (loadConfig safeParse 200 t None) = Inr config"
    and "list_all plain_key [org, proj, envKey, flagKey, segKey, i, cf_key input]" "list_all path_key [kind, key]"
  shows "cg_apiUrl config = ''/api'' \<and>
    list_all (\<lambda>(c, _). served matches handlers origin (cg_apiUrl config) c = None)
      (endpoint_rows org proj envKey flagKey segKey i kind key text status b body input) \<and>
    served matches handlers origin (cg_apiUrl config) (projects_update org proj name) = None"
proof -
  have "safeParse (runtimeConfig env command) = Some config"
    using assms(4,6) by (auto simp: loadConfig_def split: option.splits)
  then have "js_get (runtimeConfig env command) ''apiUrl'' = Some (JStr (cg_apiUrl config))"
    using assms(3) by (simp add: config_schema_def)
  then have url: "cg_apiUrl config = ''/api''" using assms(5) by (simp add: runtimeConfig_def Let_def)
  have "served matches handlers origin ''/api'' (projects_update org proj name) = None"
    by (rule unserved_at [OF assms(1,2), where segs = "project_path org proj" and q = "[]"])
      (use assms(7) in \<open>simp_all add: projects_update_def project_path_def call_patch_def literal_segments literal_lower
         plain_ok query_ok_def\<close>)
  moreover have "list_all (\<lambda>(c, _). served matches handlers origin ''/api'' c = None)
      (endpoint_rows org proj envKey flagKey segKey i kind key text status b body input)"
    by (rule list.pred_mono_strong [OF endpoint_rows_ok [OF assms(7,8)]]) (use row_unserved [OF assms(1,2)] in auto)
  ultimately show ?thesis by (simp add: url)
qed

lemma documented_base_unserved_witness:
  "list_all (\<lambda>(c, _). served documented_match handlers demo_origin ''/api'' c = None)
    (endpoint_rows ''acme'' ''web'' ''prod'' ''new-ui'' ''beta'' ''i1'' ''user'' ''a/b'' [] None True JNull demo_flag)"
proof -
  let ?c = "\<lparr>cg_apiUrl = ''/api'', cg_environment = Development, cg_enableMocking = True\<rparr>"
  have "fst (loadConfig parse_config 200 config_text None) = Inr ?c"
    by (simp add: loadConfig_def config_text_parses parse_config_def runtimeConfig_def deployment_of_def the_default_def)
  moreover have "list_all path_key [''user'', ''a/b'']" by (simp add: path_key_def)
  ultimately show ?thesis
    using documented_base_unserved [OF documented_match_documented demo_api_base(2) _ config_text_parses _ _ demo_plain,
      of parse_config ?c "''user''" "''a/b''"] by (simp add: parse_config_schema the_default_def)
qed

text \<open>Every key the dashboard creates is one no URL rewrites.\<close>

lemma created_key_plain: "key_ok k \<Longrightarrow> plain_key k"
  using key_ok_chars [of k]
  by (auto simp: plain_key_def key_ok_def list_all_iff slug_set_def slug_char_def unreserved_def code_unit_def Let_def)

text \<open>The scenarios for the users page name \<open>/api/users\<close>: with the base the handlers need they change nothing,
  with the documented base they are the only thing that is answered.\<close>

lemma users_scenarios:
  assumes "startWorker (Some ''users-error'') = Inr routes"
  shows "served documented_match routes demo_origin ''/api/v1'' users_list = Some ((''GET'', ''*/api/v1/users''), [])"
    and "served documented_match routes demo_origin ''/api'' users_list = Some ((''GET'', ''/api/users''), [])"
proof -
  have r: "routes = (''GET'', ''/api/users'') # handlers"
    using assms by (simp add: startWorker_def scenarios_def truthy_opt_def)
  note url = served_def request_url_def absolute_url_def users_list_def call_get_def demo_origin_def
  have no: "documented_match demo_origin ''/api/users'' (request_url demo_origin ''/api/v1'' users_list) = None"
    by (simp add: documented_match_def clean_url_def url is_param_def to_lower_def lower_char_def code_unit_def)
  have yes: "documented_match demo_origin ''/api/users'' (request_url demo_origin ''/api'' users_list) = Some []"
    by (simp add: documented_match_def clean_url_def url is_param_def)
  have "served documented_match handlers demo_origin ''/api/v1'' users_list = Some ((''GET'', ''*/api/v1/users''), [])"
    by (subst served_at [OF documented_match_documented demo_api_base(1), of _ "[''users'']" "[]"])
      (simp_all add: users_list_def call_get_def path_of_def literal_segments literal_lower query_ok_def candidate_table is_param_def)
  then show "served documented_match routes demo_origin ''/api/v1'' users_list = Some ((''GET'', ''*/api/v1/users''), [])"
    using no by (simp add: r served_def)
  show "served documented_match routes demo_origin ''/api'' users_list = Some ((''GET'', ''/api/users''), [])"
    using yes by (simp add: r served_def users_list_def call_get_def)
qed

text \<open>The empty list of \<open>users-empty\<close> is not the object the endpoint unwraps, but reads as no users.\<close>

lemma empty_users: "unwrap_value (ac_unwrap users_list) (JArr []) = Inr (JArr [])"
  by (simp add: unwrap_value_def users_list_def call_get_def)

text \<open>A scenario with the name of an inherited member stops the worker's start.\<close>

lemma inherited_scenario: "startWorker (Some ''constructor'') = Inl NotIterable" "startWorker (Some ''nonsense'') = Inr handlers"
  by (simp_all add: startWorker_def scenarios_def truthy_opt_def inherited_def inherited_members_def)

end
