(* ===== verification/WireTypes.thy ===== *)
theory WireTypes
  imports Wire MockGovernance
begin

text \<open>
  The records of \<open>web/src/types\<close> as the objects that travel: what \<open>JSON.stringify\<close> is given by the
  handlers of \<open>web/src/mocks/handlers.ts\<close> and by the dashboard. A member that is \<open>undefined\<close> is left
  out; the two dates that the handlers set to \<open>null\<close> are written so. The locale \<open>json_codec\<close> is what a
  sender and a receiver agree on: a typed view that undoes the encoding, and which values are plain JSON.
\<close>

section \<open>Encodings\<close>

definition or_null :: "('a \<Rightarrow> js) \<Rightarrow> 'a option \<Rightarrow> js" where
  "or_null f x = (case x of None \<Rightarrow> JNull | Some v \<Rightarrow> f v)"

definition trigger_action_name :: "trigger_action \<Rightarrow> string" where
  "trigger_action_name a = (case a of TrOn \<Rightarrow> ''on'' | TrOff \<Rightarrow> ''off'')"

definition delivery_name :: "delivery_status \<Rightarrow> string" where
  "delivery_name s = (case s of DlPending \<Rightarrow> ''pending'' | DlSuccess \<Rightarrow> ''success'' | DlFailed \<Rightarrow> ''failed'')"

definition sdk_kind_name :: "sdk_kind \<Rightarrow> string" where
  "sdk_kind_name k = (case k of KServer \<Rightarrow> ''server'' | KClient \<Rightarrow> ''client'')"

definition role_scope_name :: "role_scope \<Rightarrow> string" where
  "role_scope_name s = (case s of ScopeOrganization \<Rightarrow> ''organization'' | ScopeProject \<Rightarrow> ''project'')"

definition lifecycle_name :: "lifecycle_status \<Rightarrow> string" where
  "lifecycle_name s = (case s of LcNew \<Rightarrow> ''new'' | LcActive \<Rightarrow> ''active'' | LcInactive \<Rightarrow> ''inactive'')"

definition user_object :: "user \<Rightarrow> js" where
  "user_object x = JObj (
     [(''id'', JStr (us_id x)), (''email'', JStr (us_email x)), (''full_name'', JStr (us_full_name x)),
     (''is_superuser'', JBool (us_is_superuser x)), (''is_active'', JBool (us_is_active x)),
     (''created_at'', JStr (us_created_at x)), (''updated_at'', JStr (us_updated_at x))])"

definition organization_json :: "organization \<Rightarrow> js" where
  "organization_json x = JObj (
     [(''id'', JStr (or_id x)), (''slug'', JStr (or_slug x)), (''name'', JStr (or_name x)),
     (''created_at'', JStr (or_created_at x)), (''updated_at'', JStr (or_updated_at x))])"

definition project_json :: "project \<Rightarrow> js" where
  "project_json x = JObj (
     [(''id'', JStr (pr_id x)), (''organization_id'', JStr (pr_organization_id x)), (''key'', JStr (pr_key x)),
     (''name'', JStr (pr_name x)), (''created_at'', JStr (pr_created_at x)),
     (''updated_at'', JStr (pr_updated_at x))])"

definition environment_json :: "environment \<Rightarrow> js" where
  "environment_json x = JObj (
     [(''id'', JStr (en_id x)), (''project_id'', JStr (en_project_id x)), (''key'', JStr (en_key x)),
     (''name'', JStr (en_name x)), (''created_at'', JStr (en_created_at x)),
     (''updated_at'', JStr (en_updated_at x))])"

definition sdk_key_object :: "sdk_key \<Rightarrow> js" where
  "sdk_key_object x = JObj (
     [(''id'', JStr (sk_id x)), (''environment_id'', JStr (sk_environment_id x)), (''key'', JStr (sk_key x)),
     (''kind'', JStr (sdk_kind_name (sk_kind x))), (''name'', JStr (sk_name x))] @
     opt_member ''last_used_at'' JStr (sk_last_used_at x) @ opt_member ''revoked_at'' JStr (sk_revoked_at x) @
     [(''created_at'', JStr (sk_created_at x))])"

definition role_object :: "role \<Rightarrow> js" where
  "role_object x = JObj (
     [(''id'', JStr (rl_id x)), (''organization_id'', JStr (rl_organization_id x)), (''key'', JStr (rl_key x)),
     (''name'', JStr (rl_name x)), (''description'', JStr (rl_description x)),
     (''scope'', JStr (role_scope_name (rl_scope x))), (''is_system'', JBool (rl_is_system x)),
     (''permissions'', strings_json (rl_permissions x)), (''created_at'', JStr (rl_created_at x)),
     (''updated_at'', JStr (rl_updated_at x))])"

definition member_json :: "member \<Rightarrow> js" where
  "member_json x = JObj (
     [(''user_id'', JStr (mb_user_id x)), (''email'', JStr (mb_email x)),
     (''full_name'', JStr (mb_full_name x)), (''role'', JStr (mb_role x))])"

definition segment_rule_object :: "segment_rule \<Rightarrow> js" where
  "segment_rule_object x = JObj (
     opt_member ''id'' JStr (sr_id x) @ [(''clauses'', JArr (map clause_json (sr_clauses x)))] @
     opt_member ''weight'' int_json (sr_weight x) @ opt_member ''bucketBy'' JStr (sr_bucketBy x) @
     opt_member ''rolloutContextKind'' JStr (sr_rolloutContextKind x))"

definition segment_target_json :: "segment_target \<Rightarrow> js" where
  "segment_target_json x = JObj (
     [(''contextKind'', JStr (st_contextKind x)), (''values'', strings_json (st_values x))])"

definition segment_json :: "segment \<Rightarrow> js" where
  "segment_json x = JObj (
     [(''id'', JStr (sg_id x)), (''project_id'', JStr (sg_project_id x)), (''key'', JStr (sg_key x)),
     (''name'', JStr (sg_name x)), (''description'', JStr (sg_description x)),
     (''included'', strings_json (sg_included x)), (''excluded'', strings_json (sg_excluded x)),
     (''included_contexts'', JArr (map segment_target_json (sg_included_contexts x))),
     (''excluded_contexts'', JArr (map segment_target_json (sg_excluded_contexts x))),
     (''rules'', JArr (map segment_rule_object (sg_rules x))), (''version'', int_json (sg_version x)),
     (''created_at'', JStr (sg_created_at x)), (''updated_at'', JStr (sg_updated_at x))])"

definition flag_members :: "flag \<Rightarrow> (string \<times> js) list" where
  "flag_members x =
     [(''id'', JStr (fl_id x)), (''project_id'', JStr (fl_project_id x)), (''key'', JStr (fl_key x)),
     (''name'', JStr (fl_name x)), (''description'', JStr (fl_description x)),
     (''client_side_available'', JBool (fl_client_side_available x)), (''temporary'', JBool (fl_temporary x)),
     (''variations'', JArr (fl_variations x)), (''created_at'', JStr (fl_created_at x)),
     (''updated_at'', JStr (fl_updated_at x))]"

definition flag_json :: "flag \<Rightarrow> js" where
  "flag_json x = JObj (flag_members x)"

definition served_json :: "variation_or_rollout \<Rightarrow> js" where
  "served_json x = JObj (
     opt_member ''variation'' int_json (vr_variation x) @ opt_member ''rollout'' rollout_json (vr_rollout x))"

definition rule_json :: "flag_rule \<Rightarrow> js" where
  "rule_json x = JObj (
     opt_member ''id'' JStr (fr_id x) @ [(''clauses'', JArr (map clause_json (fr_clauses x)))] @
     opt_member ''variation'' int_json (fr_variation x) @ opt_member ''rollout'' rollout_json (fr_rollout x))"

definition target_object :: "target \<Rightarrow> js" where
  "target_object x = JObj (
     [(''contextKind'', JStr (tg_contextKind x)), (''values'', strings_json (tg_values x)),
     (''variation'', int_json (tg_variation x))])"

definition flag_config_json :: "flag_config \<Rightarrow> js" where
  "flag_config_json x = JObj (
     [(''on'', JBool (fc_on x)), (''off_variation'', int_json (fc_off_variation x)),
     (''fallthrough'', served_json (fc_fallthrough x)), (''targets'', JArr (map target_object (fc_targets x))),
     (''rules'', JArr (map rule_json (fc_rules x))), (''version'', int_json (fc_version x))])"

definition change_json :: "change_request \<Rightarrow> js" where
  "change_json x = JObj (
     [(''id'', JStr (cr_id x)), (''project_id'', JStr (cr_project_id x)),
     (''environment_id'', JStr (cr_environment_id x)), (''environment_key'', JStr (cr_environment_key x)),
     (''flag_key'', JStr (cr_flag_key x)), (''instructions'', JArr (map instruction_json (cr_instructions x))),
     (''comment'', JStr (cr_comment x)), (''status'', JStr (change_status_text (cr_status x))),
     (''requested_by'', JStr (cr_requested_by x)), (''requested_by_email'', JStr (cr_requested_by_email x)),
     (''created_at'', JStr (cr_created_at x))] @ opt_member ''reviewed_by'' JStr (cr_reviewed_by x) @
     opt_member ''reviewed_by_email'' JStr (cr_reviewed_by_email x) @
     opt_member ''review_comment'' JStr (cr_review_comment x) @
     opt_member ''reviewed_at'' JStr (cr_reviewed_at x))"

definition scheduled_json :: "scheduled_change \<Rightarrow> js" where
  "scheduled_json x = JObj (
     [(''id'', JStr (sc_id x)), (''project_id'', JStr (sc_project_id x)),
     (''environment_id'', JStr (sc_environment_id x)), (''environment_key'', JStr (sc_environment_key x)),
     (''flag_key'', JStr (sc_flag_key x)), (''instructions'', JArr (map instruction_json (sc_instructions x))),
     (''comment'', JStr (sc_comment x)), (''scheduled_for'', JStr (sc_scheduled_for x)),
     (''status'', JStr (scheduled_status_text (sc_status x)))] @ opt_member ''error'' JStr (sc_error x) @
     [(''created_by'', JStr (sc_created_by x)), (''created_by_email'', JStr (sc_created_by_email x)),
     (''created_at'', JStr (sc_created_at x))] @ opt_member ''applied_at'' JStr (sc_applied_at x))"

definition trigger_json :: "flag_trigger \<Rightarrow> js" where
  "trigger_json x = JObj (
     [(''id'', JStr (tr_id x)), (''project_id'', JStr (tr_project_id x)),
     (''environment_id'', JStr (tr_environment_id x)), (''environment_key'', JStr (tr_environment_key x)),
     (''flag_key'', JStr (tr_flag_key x)), (''action'', JStr (trigger_action_name (tr_action x))),
     (''description'', JStr (tr_description x)), (''enabled'', JBool (tr_enabled x)),
     (''exec_count'', int_json (tr_exec_count x)), (''created_by'', JStr (tr_created_by x)),
     (''created_by_email'', JStr (tr_created_by_email x)), (''created_at'', JStr (tr_created_at x)),
     (''last_executed_at'', or_null JStr (tr_last_executed_at x))] @ opt_member ''token'' JStr (tr_token x) @
     opt_member ''url'' JStr (tr_url x))"

definition webhook_object :: "webhook \<Rightarrow> js" where
  "webhook_object x = JObj (
     [(''id'', JStr (wh_id x)), (''organization_id'', JStr (wh_organization_id x)),
     (''url'', JStr (wh_url x))] @ opt_member ''secret'' JStr (wh_secret x) @
     [(''event_types'', strings_json (wh_event_types x)), (''description'', JStr (wh_description x)),
     (''enabled'', JBool (wh_enabled x)), (''created_by'', JStr (wh_created_by x)),
     (''created_by_email'', JStr (wh_created_by_email x)), (''created_at'', JStr (wh_created_at x))])"

definition delivery_json :: "webhook_delivery \<Rightarrow> js" where
  "delivery_json x = JObj (
     [(''id'', JStr (wd_id x)), (''webhook_id'', JStr (wd_webhook_id x)),
     (''event_type'', JStr (wd_event_type x)), (''status'', JStr (delivery_name (wd_status x))),
     (''attempts'', int_json (wd_attempts x)), (''response_status'', int_json (wd_response_status x))] @
     opt_member ''error'' JStr (wd_error x) @ [(''next_attempt_at'', JStr (wd_next_attempt_at x)),
     (''created_at'', JStr (wd_created_at x)), (''delivered_at'', or_null JStr (wd_delivered_at x))])"

definition audit_json :: "audit_entry \<Rightarrow> js" where
  "audit_json x = JObj (
     [(''id'', JStr (au_id x)), (''actor_email'', JStr (au_actor_email x)), (''action'', JStr (au_action x)),
     (''resource_type'', JStr (au_resource_type x)), (''resource_key'', JStr (au_resource_key x))] @
     opt_member ''comment'' JStr (au_comment x) @ [(''created_at'', JStr (au_created_at x))])"

definition seen_context_json :: "seen_context \<Rightarrow> js" where
  "seen_context_json x = JObj (
     [(''id'', JStr (sn_id x)), (''environment_id'', JStr (sn_environment_id x)), (''kind'', JStr (sn_kind x)),
     (''key'', JStr (sn_key x)), (''attributes'', JObj (sn_attributes x)),
     (''first_seen'', JStr (sn_first_seen x)), (''last_seen'', JStr (sn_last_seen x))])"

definition evaluation_json :: "context_evaluation \<Rightarrow> js" where
  "evaluation_json x = JObj (
     [(''flag_key'', JStr (ce_flag_key x)), (''variation'', int_json (ce_variation x)),
     (''value'', ce_value x), (''reason'', JStr (ce_reason x))])"


definition flag_with_state_json :: "flag_with_state \<Rightarrow> js" where
  "flag_with_state_json x = JObj (flag_members (fs_flag x) @ [(''on'', JBool (fs_on x))])"

definition flag_lifecycle_json :: "flag_lifecycle \<Rightarrow> js" where
  "flag_lifecycle_json x = JObj (flag_members (lf_flag x) @
     [(''status'', JStr (lifecycle_name (lf_status x))), (''last_evaluated'', or_null JStr (lf_last_evaluated x))])"

definition session_members :: "session \<Rightarrow> (string \<times> js) list" where
  "session_members s = [(''token'', JStr (se_token s)), (''user'', user_object (se_user s))]"

definition context_detail_json :: "context_detail \<Rightarrow> js" where
  "context_detail_json d = JObj [(''context'', seen_context_json (cd_context d)),
     (''evaluations'', JArr (map evaluation_json (cd_evaluations d)))]"

definition counted_json :: "string \<Rightarrow> ('a \<Rightarrow> js) \<Rightarrow> 'a \<times> int \<Rightarrow> js" where
  "counted_json k f x = JObj [(k, f (fst x)), (''count'', int_json (snd x))]"

definition flag_stats_json :: "flag_stats \<Rightarrow> js" where
  "flag_stats_json s = JObj [(''flag_key'', JStr (fa_flag_key s)), (''environment'', JStr (fa_environment s)),
     (''since'', JStr (fa_since s)),
     (''variations'', JArr (map (counted_json ''variation'' int_json) (fa_variations s))),
     (''total'', int_json (fa_total s))]"

definition env_stats_json :: "env_stats \<Rightarrow> js" where
  "env_stats_json s = JObj [(''environment'', JStr (ea_environment s)), (''since'', JStr (ea_since s)),
     (''flags'', JArr (map (counted_json ''flag_key'' JStr) (ea_flags s))), (''total'', int_json (ea_total s))]"

section \<open>Typed views\<close>

definition flag_of :: "js \<Rightarrow> flag option" where
  "flag_of v = Option.bind (members v) (\<lambda>o1.
     Option.bind (required str_of o1 ''id'') (\<lambda>i.
     Option.bind (required str_of o1 ''project_id'') (\<lambda>p.
     Option.bind (required str_of o1 ''key'') (\<lambda>k.
     Option.bind (required str_of o1 ''name'') (\<lambda>n.
     Option.bind (required str_of o1 ''description'') (\<lambda>d.
     Option.bind (required bool_of o1 ''client_side_available'') (\<lambda>c.
     Option.bind (required bool_of o1 ''temporary'') (\<lambda>t.
     Option.bind (required (list_of Some) o1 ''variations'') (\<lambda>vs.
     Option.bind (required str_of o1 ''created_at'') (\<lambda>ca.
     Option.bind (required str_of o1 ''updated_at'') (\<lambda>ua.
       Some \<lparr>fl_id = i, fl_project_id = p, fl_key = k, fl_name = n, fl_description = d,
             fl_client_side_available = c, fl_temporary = t, fl_variations = vs,
             fl_created_at = ca, fl_updated_at = ua\<rparr>)))))))))))"

definition served_of_js :: "js \<Rightarrow> variation_or_rollout option" where
  "served_of_js v = Option.bind (members v) (\<lambda>o1.
     Option.bind (optional int_of_js o1 ''variation'') (\<lambda>i.
     Option.bind (optional rollout_of o1 ''rollout'') (\<lambda>r. Some \<lparr>vr_variation = i, vr_rollout = r\<rparr>)))"

definition rule_of :: "js \<Rightarrow> flag_rule option" where
  "rule_of v = Option.bind (members v) (\<lambda>o1.
     Option.bind (optional str_of o1 ''id'') (\<lambda>i.
     Option.bind (required (list_of clause_of) o1 ''clauses'') (\<lambda>cs.
     Option.bind (optional int_of_js o1 ''variation'') (\<lambda>w.
     Option.bind (optional rollout_of o1 ''rollout'') (\<lambda>r.
       Some \<lparr>fr_id = i, fr_clauses = cs, fr_variation = w, fr_rollout = r\<rparr>)))))"

definition target_of :: "js \<Rightarrow> target option" where
  "target_of v = Option.bind (members v) (\<lambda>o1.
     Option.bind (required str_of o1 ''contextKind'') (\<lambda>k.
     Option.bind (required (list_of str_of) o1 ''values'') (\<lambda>vs.
     Option.bind (required int_of_js o1 ''variation'') (\<lambda>i.
       Some \<lparr>tg_contextKind = k, tg_values = vs, tg_variation = i\<rparr>))))"

definition flag_config_of :: "js \<Rightarrow> flag_config option" where
  "flag_config_of v = Option.bind (members v) (\<lambda>o1.
     Option.bind (required bool_of o1 ''on'') (\<lambda>b.
     Option.bind (required int_of_js o1 ''off_variation'') (\<lambda>ov.
     Option.bind (required served_of_js o1 ''fallthrough'') (\<lambda>ft.
     Option.bind (required (list_of target_of) o1 ''targets'') (\<lambda>ts.
     Option.bind (required (list_of rule_of) o1 ''rules'') (\<lambda>rs.
     Option.bind (required int_of_js o1 ''version'') (\<lambda>n.
       Some \<lparr>fc_on = b, fc_off_variation = ov, fc_fallthrough = ft, fc_targets = ts, fc_rules = rs,
             fc_version = n\<rparr>)))))))"

section \<open>Codecs\<close>

locale json_codec =
  fixes enc :: "'a \<Rightarrow> js" and dec :: "js \<Rightarrow> 'a option" and plain_val :: "'a \<Rightarrow> bool"
  assumes dec_enc: "dec (enc x) = Some x"
    and plain_enc: "plain_val x \<Longrightarrow> plain (enc x)"
begin

lemma travels: "plain_val x \<Longrightarrow> \<exists>t. stringify (enc x) = Some t \<and> json_parse t = Some (enc x)"
  using plain_stringify [of "enc x"] json_roundtrip plain_enc by blast

lemma received: "plain_val x \<Longrightarrow> Option.bind (Option.bind (stringify (enc x)) json_parse) dec = Some x"
  using travels dec_enc by fastforce

lemma list_dec: "list_of dec (JArr (map enc xs)) = Some xs"
  by (rule those_inverse) (rule dec_enc)

lemma list_plain: "list_all plain_val xs \<Longrightarrow> plain (JArr (map enc xs))"
  by (auto simp: list_all_iff plain_enc)

end

definition plain_clause_val :: "clause \<Rightarrow> bool" where
  "plain_clause_val c \<longleftrightarrow> list_all plain (cl_values c)"

interpretation clause_codec: json_codec clause_json clause_of plain_clause_val
  by unfold_locales (simp_all add: clause_inverse plain_clause plain_clause_val_def)

interpretation rollout_codec: json_codec rollout_json rollout_of "\<lambda>_. True"
  by unfold_locales (simp_all add: rollout_inverse plain_rollout)

interpretation instruction_codec: json_codec instruction_json instruction_of plain_instruction
  by unfold_locales (simp_all add: instruction_inverse plain_instruction)

interpretation served_codec: json_codec served_json served_of_js "\<lambda>_. True"
proof
  show "served_of_js (served_json x) = Some x" for x
    by (simp add: served_of_js_def served_json_def field_rules rollout_inverse del: map_of_append)
  show "plain (served_json x)" for x
    unfolding served_json_def by (intro plain_object) (simp_all add: map_of_miss plain_rollout del: map_of_append)
qed

interpretation target_codec: json_codec target_object target_of "\<lambda>_. True"
  by unfold_locales (simp_all add: target_of_def target_object_def field_rules)

definition plain_rule :: "flag_rule \<Rightarrow> bool" where
  "plain_rule r \<longleftrightarrow> list_all plain_clause_val (fr_clauses r)"

interpretation rule_codec: json_codec rule_json rule_of plain_rule
proof
  show "rule_of (rule_json x) = Some x" for x
    by (simp add: rule_of_def rule_json_def field_rules rollout_inverse clause_codec.list_dec del: map_of_append)
  show "plain (rule_json x)" if "plain_rule x" for x
    using that clause_codec.list_plain unfolding rule_json_def append_Cons append_Nil plain_rule_def
    by (intro plain_object) (simp_all add: map_of_miss plain_rollout del: map_of_append)
qed

definition plain_config :: "flag_config \<Rightarrow> bool" where
  "plain_config c \<longleftrightarrow> list_all plain_rule (fc_rules c)"

interpretation config_codec: json_codec flag_config_json flag_config_of plain_config
proof
  show "flag_config_of (flag_config_json x) = Some x" for x
    by (simp add: flag_config_of_def flag_config_json_def field_rules served_codec.dec_enc target_codec.list_dec
        rule_codec.list_dec)
  show "plain (flag_config_json x)" if "plain_config x" for x
    using that rule_codec.list_plain [of "fc_rules x"] target_codec.list_plain [of "fc_targets x"]
    by (simp add: flag_config_json_def plain_config_def served_codec.plain_enc list.pred_True)
qed

definition plain_flag :: "flag \<Rightarrow> bool" where
  "plain_flag f \<longleftrightarrow> list_all plain (fl_variations f)"

interpretation flag_codec: json_codec flag_json flag_of plain_flag
  by unfold_locales (simp_all add: flag_of_def flag_json_def flag_members_def field_rules plain_flag_def)

end
