(* ===== verification/MockServer.thy ===== *)
theory MockServer
  imports WireTypes Routing
begin

text \<open>
  The mock backend as the dashboard meets it, over HTTP: \<open>web/src/mocks/handlers.ts\<close> from the intercepted
  request to the response. Each resolver reads the path parameters, the query and the body of its
  request, runs the handler of \<open>MockStore\<close> or \<open>MockGovernance\<close>, and writes the answer as JSON. The
  resolvers stand in the order of the patterns of \<open>Routing\<close>, group by group, and \<open>mock_fetch\<close> is the
  \<open>fetch\<close> that the interception library gives the dashboard.

  A resolver that throws (the body is no JSON) is answered by the library with status 500. The sources
  cast a parsed body to the type they expect; a body of another type is outside the model and is treated
  like one that does not parse.
\<close>

section \<open>Requests\<close>

record mock_request =
  mq_params :: "(string \<times> string) list"
  mq_url :: string
  mq_body :: "string option"

text \<open>\<open>String(params.k)\<close>.\<close>

definition path_param :: "mock_request \<Rightarrow> string \<Rightarrow> string" where
  "path_param r k = the_default ''undefined'' (map_of (mq_params r) k)"

text \<open>\<open>new URL(request.url).searchParams\<close>; a text that is no escaped code unit stays as it is.\<close>

definition url_query :: "string \<Rightarrow> string" where
  "url_query url = drop 1 (dropWhile (\<lambda>c. c \<noteq> CHR ''?'') (takeWhile (\<lambda>c. c \<noteq> CHR ''#'') url))"

definition form_decode :: "string \<Rightarrow> string" where
  "form_decode s = (let t = map (\<lambda>c. if c = CHR ''+'' then CHR '' '' else c) s
     in the_default t (decodeURIComponent t))"

definition searchParams :: "string \<Rightarrow> (string \<times> string) list" where
  "searchParams url = map (\<lambda>part. (form_decode (takeWhile (\<lambda>c. c \<noteq> CHR ''='') part),
       form_decode (drop 1 (dropWhile (\<lambda>c. c \<noteq> CHR ''='') part))))
     (filter (\<lambda>part. part \<noteq> []) (split_on CHR ''&'' (url_query url)))"

definition query_param :: "mock_request \<Rightarrow> string \<Rightarrow> string option" where
  "query_param r k = map_of (searchParams (mq_url r)) k"

definition read_body :: "(js \<Rightarrow> 'a option) \<Rightarrow> mock_request \<Rightarrow> 'a option" where
  "read_body dec r = Option.bind (Option.bind (mq_body r) json_parse) dec"

section \<open>Answers\<close>

type_synonym resolver = "mock_request \<Rightarrow> backend \<Rightarrow> http_response \<times> backend"

definition json_answer :: "int \<Rightarrow> js \<Rightarrow> http_response" where
  "json_answer s v = \<lparr>rs_status = s, rs_body = stringify v\<rparr>"

definition reply :: "('a \<Rightarrow> js) \<Rightarrow> 'a response \<Rightarrow> http_response" where
  "reply enc r = (case r of
     Json s v \<Rightarrow> json_answer s (enc v)
   | Detail s t \<Rightarrow> json_answer s (JObj [(''detail'', JStr t)])
   | Empty s \<Rightarrow> \<lparr>rs_status = s, rs_body = None\<rparr>)"

definition thrown :: http_response where
  "thrown = \<lparr>rs_status = 500, rs_body = None\<rparr>"

definition reads :: "('a \<Rightarrow> js) \<Rightarrow> (mock_request \<Rightarrow> backend \<Rightarrow> 'a response) \<Rightarrow> resolver" where
  "reads enc f r st = (reply enc (f r st), st)"

definition writes :: "('a \<Rightarrow> js) \<Rightarrow> (mock_request \<Rightarrow> backend \<Rightarrow> 'a response \<times> backend) \<Rightarrow> resolver" where
  "writes enc f r st = (reply enc (fst (f r st)), snd (f r st))"

text \<open>A resolver that parses the body first, and one that parses it after a check that may answer early
  (\<open>probe\<close> is the handler without the body).\<close>

definition takes :: "(js \<Rightarrow> 'b option) \<Rightarrow> ('a \<Rightarrow> js) \<Rightarrow> (mock_request \<Rightarrow> 'b \<Rightarrow> backend \<Rightarrow> 'a response \<times> backend) \<Rightarrow> resolver" where
  "takes dec enc f r st = (case read_body dec r of
     None \<Rightarrow> (thrown, st)
   | Some b \<Rightarrow> (reply enc (fst (f r b st)), snd (f r b st)))"

definition checks_first ::
  "(mock_request \<Rightarrow> backend \<Rightarrow> bool) \<Rightarrow> (js \<Rightarrow> 'b option) \<Rightarrow> ('a \<Rightarrow> js) \<Rightarrow>
   (mock_request \<Rightarrow> 'b \<Rightarrow> backend \<Rightarrow> 'a response \<times> backend) \<Rightarrow> resolver" where
  "checks_first found dec enc f r st =
     (if found r st then takes dec enc f r st else (json_answer 404 (JObj [(''detail'', JStr ''not found'')]), st))"

definition listed :: "string \<Rightarrow> ('a \<Rightarrow> js) \<Rightarrow> 'a list \<Rightarrow> js" where
  "listed k enc xs = JObj [(k, JArr (map enc xs))]"

definition no_json :: "unit \<Rightarrow> js" where
  "no_json _ = JUndef"

section \<open>Bodies\<close>

text \<open>An optional member: absent and \<open>null\<close> are the same to \<open>??\<close>.\<close>

definition maybe :: "(js \<Rightarrow> 'a option) \<Rightarrow> (string \<times> js) list \<Rightarrow> string \<Rightarrow> 'a option option" where
  "maybe f kvs k = (if map_of kvs k = Some JNull then Some None else optional f kvs k)"

definition user_body :: "js \<Rightarrow> (string \<times> string option \<times> bool option) option" where
  "user_body v = Option.bind (members v) (\<lambda>o1.
     Option.bind (required str_of o1 ''email'') (\<lambda>e.
     Option.bind (maybe str_of o1 ''full_name'') (\<lambda>n.
     Option.bind (maybe bool_of o1 ''is_superuser'') (\<lambda>s. Some (e, n, s)))))"

definition user_patch_body :: "js \<Rightarrow> (string \<times> bool) option" where
  "user_patch_body v = Option.bind (members v) (\<lambda>o1.
     Option.bind (required str_of o1 ''full_name'') (\<lambda>n.
     Option.bind (required bool_of o1 ''is_active'') (\<lambda>a. Some (n, a))))"

definition setup_body :: "js \<Rightarrow> setup_input option" where
  "setup_body v = Option.bind (members v) (\<lambda>o1.
     Option.bind (required str_of o1 ''email'') (\<lambda>e.
     Option.bind (required str_of o1 ''password'') (\<lambda>p.
     Option.bind (maybe str_of o1 ''full_name'') (\<lambda>n.
     Option.bind (maybe str_of o1 ''organization_slug'') (\<lambda>s.
     Option.bind (maybe str_of o1 ''organization_name'') (\<lambda>g.
       Some \<lparr>su_email = e, su_password = p, su_full_name = n, su_organization_slug = s,
             su_organization_name = g\<rparr>))))))"

definition scope_of :: "js \<Rightarrow> role_scope option" where
  "scope_of v = (if v = JStr ''organization'' then Some ScopeOrganization
     else if v = JStr ''project'' then Some ScopeProject else None)"

definition role_body :: "js \<Rightarrow> (string \<times> string \<times> string option \<times> role_scope \<times> string list) option" where
  "role_body v = Option.bind (members v) (\<lambda>o1.
     Option.bind (required str_of o1 ''key'') (\<lambda>k.
     Option.bind (required str_of o1 ''name'') (\<lambda>n.
     Option.bind (maybe str_of o1 ''description'') (\<lambda>d.
     Option.bind (required scope_of o1 ''scope'') (\<lambda>s.
     Option.bind (required (list_of str_of) o1 ''permissions'') (\<lambda>p. Some (k, n, d, s, p)))))))"

definition two_strings :: "string \<Rightarrow> string \<Rightarrow> js \<Rightarrow> (string \<times> string) option" where
  "two_strings a b v = Option.bind (members v) (\<lambda>o1.
     Option.bind (required str_of o1 a) (\<lambda>x. Option.bind (required str_of o1 b) (\<lambda>y. Some (x, y))))"

definition string_and :: "string \<Rightarrow> string \<Rightarrow> js \<Rightarrow> (string \<times> string option) option" where
  "string_and a b v = Option.bind (members v) (\<lambda>o1.
     Option.bind (required str_of o1 a) (\<lambda>x. Option.bind (maybe str_of o1 b) (\<lambda>y. Some (x, y))))"

definition kind_of :: "js \<Rightarrow> sdk_kind option" where
  "kind_of v = (if v = JStr ''server'' then Some KServer else if v = JStr ''client'' then Some KClient else None)"

definition sdk_key_body :: "js \<Rightarrow> (sdk_kind \<times> string option) option" where
  "sdk_key_body v = Option.bind (members v) (\<lambda>o1.
     Option.bind (required kind_of o1 ''kind'') (\<lambda>k. Option.bind (maybe str_of o1 ''name'') (\<lambda>n. Some (k, n))))"

definition flag_body_of :: "js \<Rightarrow> flag_body option" where
  "flag_body_of v = Option.bind (members v) (\<lambda>o1.
     Option.bind (required str_of o1 ''name'') (\<lambda>n.
     Option.bind (maybe str_of o1 ''description'') (\<lambda>d.
     Option.bind (maybe bool_of o1 ''client_side_available'') (\<lambda>c.
     Option.bind (maybe bool_of o1 ''temporary'') (\<lambda>t.
     Option.bind (required (list_of Some) o1 ''variations'') (\<lambda>vs.
       Some \<lparr>fb_name = n, fb_description = d, fb_client_side_available = c, fb_temporary = t,
             fb_variations = vs\<rparr>))))))"

definition segment_target_of :: "js \<Rightarrow> segment_target option" where
  "segment_target_of v = Option.bind (members v) (\<lambda>o1.
     Option.bind (required str_of o1 ''contextKind'') (\<lambda>k.
     Option.bind (required (list_of str_of) o1 ''values'') (\<lambda>vs. Some \<lparr>st_contextKind = k, st_values = vs\<rparr>)))"

definition segment_rule_of :: "js \<Rightarrow> segment_rule option" where
  "segment_rule_of v = Option.bind (members v) (\<lambda>o1.
     Option.bind (optional str_of o1 ''id'') (\<lambda>i.
     Option.bind (required (list_of clause_of) o1 ''clauses'') (\<lambda>cs.
     Option.bind (optional int_of_js o1 ''weight'') (\<lambda>w.
     Option.bind (optional str_of o1 ''bucketBy'') (\<lambda>b.
     Option.bind (optional str_of o1 ''rolloutContextKind'') (\<lambda>k.
       Some \<lparr>sr_id = i, sr_clauses = cs, sr_weight = w, sr_bucketBy = b, sr_rolloutContextKind = k\<rparr>))))))"

definition segment_body_of :: "js \<Rightarrow> segment_body option" where
  "segment_body_of v = Option.bind (members v) (\<lambda>o1.
     Option.bind (maybe str_of o1 ''name'') (\<lambda>n.
     Option.bind (maybe str_of o1 ''description'') (\<lambda>d.
     Option.bind (maybe (list_of str_of) o1 ''included'') (\<lambda>inc.
     Option.bind (maybe (list_of str_of) o1 ''excluded'') (\<lambda>exc.
     Option.bind (maybe (list_of segment_target_of) o1 ''included_contexts'') (\<lambda>ic.
     Option.bind (maybe (list_of segment_target_of) o1 ''excluded_contexts'') (\<lambda>ec.
     Option.bind (maybe (list_of segment_rule_of) o1 ''rules'') (\<lambda>rs.
       Some \<lparr>sb_name = n, sb_description = d, sb_included = inc, sb_excluded = exc,
             sb_included_contexts = ic, sb_excluded_contexts = ec, sb_rules = rs\<rparr>))))))))"

definition change_body :: "js \<Rightarrow> (string option \<times> flag_instruction list option) option" where
  "change_body v = Option.bind (members v) (\<lambda>o1.
     Option.bind (maybe str_of o1 ''comment'') (\<lambda>c.
     Option.bind (maybe (list_of instruction_of) o1 ''instructions'') (\<lambda>xs. Some (c, xs))))"

text \<open>\<open>request.json().catch(() => ({}))\<close>.\<close>

definition review_comment :: "mock_request \<Rightarrow> string option" where
  "review_comment r = Option.bind (read_body (\<lambda>v. Option.bind (members v) (\<lambda>o1. maybe str_of o1 ''comment'')) r) id"

definition scheduled_body :: "js \<Rightarrow> (string option \<times> string option \<times> flag_instruction list option) option" where
  "scheduled_body v = Option.bind (members v) (\<lambda>o1.
     Option.bind (maybe str_of o1 ''comment'') (\<lambda>c.
     Option.bind (maybe str_of o1 ''scheduled_for'') (\<lambda>d.
     Option.bind (maybe (list_of instruction_of) o1 ''instructions'') (\<lambda>xs. Some (c, d, xs)))))"

definition trigger_action_of :: "js \<Rightarrow> trigger_action option" where
  "trigger_action_of v = (if v = JStr ''on'' then Some TrOn else if v = JStr ''off'' then Some TrOff else None)"

definition trigger_body :: "js \<Rightarrow> (trigger_action \<times> string option) option" where
  "trigger_body v = Option.bind (members v) (\<lambda>o1.
     Option.bind (required trigger_action_of o1 ''action'') (\<lambda>a.
     Option.bind (maybe str_of o1 ''description'') (\<lambda>d. Some (a, d))))"

definition enabled_body :: "js \<Rightarrow> bool option" where
  "enabled_body v = Option.bind (members v) (\<lambda>o1. required bool_of o1 ''enabled'')"

definition webhook_body :: "js \<Rightarrow> (string \<times> string list option \<times> string option) option" where
  "webhook_body v = Option.bind (members v) (\<lambda>o1.
     Option.bind (required str_of o1 ''url'') (\<lambda>u.
     Option.bind (maybe (list_of str_of) o1 ''event_types'') (\<lambda>es.
     Option.bind (maybe str_of o1 ''description'') (\<lambda>d. Some (u, es, d)))))"

section \<open>The resolvers\<close>

definition user_resolvers :: "host \<Rightarrow> int \<Rightarrow> resolver list" where
  "user_resolvers h now =
    [reads (listed ''users'' user_object) (\<lambda>r. get_users),
     takes user_body user_object (\<lambda>r (e, n, s). post_user h now e n s),
     checks_first (\<lambda>r st. \<exists>u\<in>set (users_of st). us_id u = path_param r ''userID'') user_patch_body user_object
       (\<lambda>r (n, a). patch_user (path_param r ''userID'') n a),
     writes no_json (\<lambda>r. delete_user (path_param r ''userID''))]"

definition setup_reply :: "(session \<times> organization option) response \<Rightarrow> http_response" where
  "setup_reply a = (case a of
     Json s (se, g) \<Rightarrow> json_answer s (JObj (session_members se @ opt_member ''organization'' organization_json g))
   | Detail s t \<Rightarrow> json_answer s (JObj [(''title'', JStr ''Conflict''), (''detail'', JStr t)])
   | Empty s \<Rightarrow> \<lparr>rs_status = s, rs_body = None\<rparr>)"

definition setup_resolver :: "host \<Rightarrow> resolver" where
  "setup_resolver h r st =
     (if \<not> bk_needsSetup st then (setup_reply (Detail 409 ''setup already complete''), st)
      else (case read_body setup_body r of
          None \<Rightarrow> (thrown, st)
        | Some inp \<Rightarrow> (setup_reply (fst (post_setup h inp st)), snd (post_setup h inp st))))"

definition setup_resolvers :: "host \<Rightarrow> int \<Rightarrow> resolver list" where
  "setup_resolvers h now =
    [reads (\<lambda>b. JObj [(''needs_setup'', JBool b)]) (\<lambda>r. get_setup),
     setup_resolver h,
     reads (\<lambda>s. JObj (session_members s)) (\<lambda>r st. post_login),
     reads user_object (\<lambda>r st. get_me)]"

definition organization_resolvers :: "host \<Rightarrow> int \<Rightarrow> resolver list" where
  "organization_resolvers h now =
    [reads (listed ''organizations'' organization_json) (\<lambda>r. get_organizations),
     writes no_json (\<lambda>r. delete_organization (path_param r ''organizationSlug'')),
     writes no_json (\<lambda>r. delete_project (path_param r ''projectKey'')),
     writes no_json (\<lambda>r. delete_flag (path_param r ''flagKey'')),
     writes no_json (\<lambda>r. delete_segment (path_param r ''segKey''))]"

definition grant_object :: "grant \<Rightarrow> js" where
  "grant_object g = JObj [(''user_email'', JStr (gr_user_email g)), (''role'', JStr (gr_role g)),
     (''scope'', JStr (gr_scope g)), (''project_id'', JStr (gr_project_id g))]"

definition access_resolvers :: "host \<Rightarrow> int \<Rightarrow> resolver list" where
  "access_resolvers h now =
    [reads (listed ''permissions'' JStr) (\<lambda>r st. get_permissions),
     reads (listed ''roles'' role_object) (\<lambda>r. get_roles),
     takes role_body role_object (\<lambda>r (k, n, d, s, p). post_role h k n d s p),
     takes (two_strings ''email'' ''role'') grant_object
       (\<lambda>r (e, x) st. (post_project_role (path_param r ''projectKey'') e x, st)),
     reads (listed ''members'' member_json) (\<lambda>r. get_members),
     takes (string_and ''email'' ''role'') (\<lambda>i. JObj [(''membership'', JObj [(''id'', JStr i)])])
       (\<lambda>r (e, x). post_member h e x)]"

definition project_resolvers :: "host \<Rightarrow> int \<Rightarrow> resolver list" where
  "project_resolvers h now =
    [reads (listed ''projects'' project_json) (\<lambda>r. get_projects),
     takes (two_strings ''key'' ''name'')
       (\<lambda>(p, es). JObj [(''project'', project_json p), (''environments'', JArr (map environment_json es))])
       (\<lambda>r (k, n). post_project h k n),
     reads project_json (\<lambda>r. get_project (path_param r ''projectKey'')),
     reads (listed ''flags'' flag_json) (\<lambda>r. get_flags),
     reads (listed ''flags'' flag_lifecycle_json) (\<lambda>r. get_flag_lifecycle)]"

definition stats_resolvers :: "host \<Rightarrow> int \<Rightarrow> resolver list" where
  "stats_resolvers h now =
    [reads flag_stats_json (\<lambda>r st. get_flag_stats (path_param r ''flagKey'') (path_param r ''envKey'') (query_param r ''since'')),
     reads env_stats_json (\<lambda>r st. get_env_stats (path_param r ''envKey'') (query_param r ''since'')),
     reads (listed ''flags'' flag_with_state_json) (\<lambda>r. get_env_flags (path_param r ''envKey'') (query_param r ''search'')),
     takes flag_body_of flag_json (\<lambda>r. put_flag h (path_param r ''flagKey''))]"

text \<open>The handler decodes the key of a context a second time; a key that cannot be decoded throws.\<close>

definition context_resolver :: resolver where
  "context_resolver r st = (case decodeURIComponent (path_param r ''key'') of
     None \<Rightarrow> (thrown, st)
   | Some key \<Rightarrow> reads context_detail_json (\<lambda>r. get_context (path_param r ''kind'') key) r st)"

definition environment_resolvers :: "host \<Rightarrow> int \<Rightarrow> resolver list" where
  "environment_resolvers h now =
    [reads (listed ''environments'' environment_json) (\<lambda>r. get_environments (query_param r ''search'')),
     reads (listed ''sdk_keys'' sdk_key_object) (\<lambda>r. get_sdk_keys),
     takes sdk_key_body sdk_key_object (\<lambda>r (k, n). post_sdk_key h k n),
     writes no_json (\<lambda>r. delete_sdk_key (path_param r ''keyID'')),
     takes (two_strings ''key'' ''name'') environment_json (\<lambda>r (k, n). post_environment h k n),
     reads (listed ''contexts'' seen_context_json) (\<lambda>r st. get_contexts (query_param r ''search'')),
     context_resolver]"

definition segment_resolvers :: "host \<Rightarrow> int \<Rightarrow> resolver list" where
  "segment_resolvers h now =
    [reads (listed ''segments'' segment_json) (\<lambda>r. get_segments (query_param r ''search'')),
     reads segment_json (\<lambda>r. get_segment (path_param r ''segKey'')),
     takes segment_body_of segment_json (\<lambda>r. put_segment h (path_param r ''segKey''))]"

text \<open>The configuration is created before the body is parsed.\<close>

definition patch_config_resolver :: "host \<Rightarrow> resolver" where
  "patch_config_resolver h r st = (let f = path_param r ''flagKey''; e = path_param r ''envKey''
     in case read_body patch_body_of r of
       None \<Rightarrow> (thrown, snd (ensure_config (configKey f e) st))
     | Some xs \<Rightarrow> writes flag_config_json (\<lambda>r. patch_flag_config h f e xs) r st)"

definition flag_resolvers :: "host \<Rightarrow> int \<Rightarrow> resolver list" where
  "flag_resolvers h now =
    [reads flag_json (\<lambda>r. get_flag (path_param r ''flagKey'')),
     writes flag_config_json (\<lambda>r. get_flag_config (path_param r ''flagKey'') (path_param r ''envKey'')),
     patch_config_resolver h]"

definition change_resolvers :: "host \<Rightarrow> int \<Rightarrow> resolver list" where
  "change_resolvers h now =
    [reads (listed ''changes'' change_json) (\<lambda>r. get_changes (query_param r ''status'')),
     takes change_body change_json
       (\<lambda>r (c, xs). post_change h now (path_param r ''projectKey'') (path_param r ''flagKey'') (path_param r ''envKey'') c xs),
     writes change_json (\<lambda>r. approve_change h now (path_param r ''changeId'') (review_comment r)),
     writes change_json (\<lambda>r. reject_change h now (path_param r ''changeId'') (review_comment r))]"

definition scheduled_resolvers :: "host \<Rightarrow> int \<Rightarrow> resolver list" where
  "scheduled_resolvers h now =
    [writes (listed ''scheduled_changes'' scheduled_json)
       (\<lambda>r. get_scheduled h now (query_param r ''status'') (query_param r ''flag'') (query_param r ''env'')),
     takes scheduled_body scheduled_json (\<lambda>r (c, d, xs).
       post_scheduled h now (path_param r ''projectKey'') (path_param r ''flagKey'') (path_param r ''envKey'') c d xs),
     writes scheduled_json (\<lambda>r. cancel_scheduled (path_param r ''scheduledId''))]"

definition trigger_resolvers :: "host \<Rightarrow> int \<Rightarrow> resolver list" where
  "trigger_resolvers h now =
    [reads (listed ''triggers'' trigger_json) (\<lambda>r. get_triggers (query_param r ''flag'') (query_param r ''env'')),
     takes trigger_body trigger_json
       (\<lambda>r (a, d). post_trigger h now (path_param r ''projectKey'') (path_param r ''flagKey'') (path_param r ''envKey'') a d),
     checks_first (\<lambda>r st. \<exists>t\<in>set (bk_triggers st). tr_id t = path_param r ''triggerId'') enabled_body trigger_json
       (\<lambda>r. enable_trigger (path_param r ''triggerId'')),
     writes trigger_json (\<lambda>r. reset_trigger h (path_param r ''triggerId'')),
     writes no_json (\<lambda>r. delete_trigger (path_param r ''triggerId''))]"

definition webhook_resolvers :: "host \<Rightarrow> int \<Rightarrow> resolver list" where
  "webhook_resolvers h now =
    [reads (listed ''entries'' audit_json) (\<lambda>r st. get_audit (query_param r ''resource_type'')),
     reads (listed ''webhooks'' webhook_object) (\<lambda>r. get_webhooks),
     takes webhook_body webhook_object (\<lambda>r (u, es, d). post_webhook h now u es d),
     checks_first (\<lambda>r st. \<exists>w\<in>set (bk_webhooks st). wh_id w = path_param r ''webhookId'') enabled_body webhook_object
       (\<lambda>r. enable_webhook (path_param r ''webhookId'')),
     writes webhook_object (\<lambda>r. reset_webhook h (path_param r ''webhookId'')),
     writes delivery_json (\<lambda>r. test_webhook h now (path_param r ''webhookId'')),
     reads (listed ''deliveries'' delivery_json) (\<lambda>r st. get_deliveries (path_param r ''webhookId'')),
     writes no_json (\<lambda>r. delete_webhook (path_param r ''webhookId''))]"

definition resolvers :: "host \<Rightarrow> int \<Rightarrow> resolver list" where
  "resolvers h now = user_resolvers h now @ setup_resolvers h now @ organization_resolvers h now @
     access_resolvers h now @ project_resolvers h now @ stats_resolvers h now @ environment_resolvers h now @
     segment_resolvers h now @ flag_resolvers h now @ change_resolvers h now @ scheduled_resolvers h now @
     trigger_resolvers h now @ webhook_resolvers h now"

text \<open>The intercepted \<open>fetch\<close> at the time \<open>now\<close>; a request without a handler goes to the network.\<close>

definition mock_fetch ::
  "host \<Rightarrow> int \<Rightarrow> (string \<Rightarrow> string \<Rightarrow> string \<Rightarrow> (string \<times> string) list option) \<Rightarrow> string \<Rightarrow> backend fetch \<Rightarrow> backend fetch" where
  "mock_fetch h now matches origin network q st =
     (let url = absolute_url origin (rq_url q)
      in case first_route (\<lambda>p. matches origin p url) handlers (rq_method q) of
          None \<Rightarrow> network q st
        | Some (found, params) \<Rightarrow>
            (case map_of (zip handlers (resolvers h now)) found of
               None \<Rightarrow> network q st
             | Some f \<Rightarrow>
                 (let (res, st1) = f \<lparr>mq_params = params, mq_url = url, mq_body = rq_body q\<rparr> st in (Inr res, st1))))"

text \<open>Every pattern has its resolver.\<close>

lemma resolvers_aligned:
  "length (user_resolvers h now) = length user_handlers" "length (setup_resolvers h now) = length setup_handlers"
  "length (organization_resolvers h now) = length organization_handlers"
  "length (access_resolvers h now) = length access_handlers"
  "length (project_resolvers h now) = length project_handlers" "length (stats_resolvers h now) = length stats_handlers"
  "length (environment_resolvers h now) = length environment_handlers"
  "length (segment_resolvers h now) = length segment_handlers" "length (flag_resolvers h now) = length flag_handlers"
  "length (change_resolvers h now) = length change_handlers"
  "length (scheduled_resolvers h now) = length scheduled_handlers"
  "length (trigger_resolvers h now) = length trigger_handlers"
  "length (webhook_resolvers h now) = length webhook_handlers"
  by (simp_all add: user_resolvers_def user_handlers_def setup_resolvers_def setup_handlers_def
      organization_resolvers_def organization_handlers_def access_resolvers_def access_handlers_def
      project_resolvers_def project_handlers_def stats_resolvers_def stats_handlers_def
      environment_resolvers_def environment_handlers_def segment_resolvers_def segment_handlers_def
      flag_resolvers_def flag_handlers_def change_resolvers_def change_handlers_def scheduled_resolvers_def
      scheduled_handlers_def trigger_resolvers_def trigger_handlers_def webhook_resolvers_def webhook_handlers_def)

end
