(* ===== verification/MockServer_Props.thy ===== *)
theory MockServer_Props
  imports MockServer Routing_Props Dashboard_Props MockGovernance_Props
begin

text \<open>
  Mock mode end to end: a call of the dashboard through the transport, the interception, the handler and
  back. What an endpoint gets is what its handler answers, and the state changes as the handler says.
\<close>

section \<open>One exchange\<close>

definition receive :: "string \<Rightarrow> api_call \<Rightarrow> http_response \<Rightarrow> api_error + js" where
  "receive apiUrl c res =
     (if \<not> ok_status (rs_status res)
      then Inl (ApiError (rs_status res) (apiUrl @ ac_path c)
             (''Request failed: '' @ show_int (rs_status res) @ '' '' @ ac_path c))
      else if rs_status res = 204 then unwrap_value (ac_unwrap c) JUndef
      else (case rs_body res of
          None \<Rightarrow> Inl ApiSyntax
        | Some t \<Rightarrow> (case json_parse t of Some v \<Rightarrow> unwrap_value (ac_unwrap c) v | None \<Rightarrow> Inl ApiSyntax)))"

definition sent_body :: "api_call \<Rightarrow> string option" where
  "sent_body c = Option.bind (ac_body c) stringify"

definition incoming :: "string \<Rightarrow> string \<Rightarrow> api_call \<Rightarrow> (string \<times> string) list \<Rightarrow> mock_request" where
  "incoming origin apiUrl c params =
     \<lparr>mq_params = params, mq_url = request_url origin apiUrl c, mq_body = sent_body c\<rparr>"

lemma exchange:
  assumes "served matches handlers origin (cg_apiUrl g) c = Some (r, params)"
    and "map_of (zip handlers (resolvers h now)) r = Some f"
  shows "send (Some g) token (mock_fetch h now matches origin network) c st =
    (receive (cg_apiUrl g) c (fst (f (incoming origin (cg_apiUrl g) c params) st)),
     snd (f (incoming origin (cg_apiUrl g) c params) st))"
proof -
  have "(case ac_body c of None \<Rightarrow> None | Some b \<Rightarrow> stringify b) = sent_body c"
    by (simp add: sent_body_def split: option.split)
  then show ?thesis using assms
    by (simp add: send_def api_request_def getConfig_def api_http_def mock_fetch_def served_def request_url_def
        incoming_def receive_def case_prod_beta Let_def split: option.split)
qed

lemma receive_json: "plain v \<Longrightarrow> ok_status s \<Longrightarrow> s \<noteq> 204 \<Longrightarrow> receive apiUrl c (json_answer s v) = unwrap_value (ac_unwrap c) v"
  using plain_stringify [of v] json_roundtrip [of v] by (auto simp: receive_def json_answer_def)

lemma read_sent: "plain b \<Longrightarrow> ac_body c = Some b \<Longrightarrow> read_body dec (incoming origin apiUrl c params) = dec b"
  using plain_stringify [of b] json_roundtrip [of b] by (auto simp: read_body_def incoming_def sent_body_def)

lemma incoming_param [simp]: "path_param (incoming origin apiUrl c params) k = the_default ''undefined'' (map_of params k)"
  by (simp add: path_param_def incoming_def)

lemma the_default_Some [simp]: "the_default d (Some x) = x"
  by (simp add: the_default_def)

section \<open>The flag feature's resolvers\<close>

lemmas tables = handlers_def user_handlers_def setup_handlers_def organization_handlers_def access_handlers_def
  project_handlers_def stats_handlers_def environment_handlers_def segment_handlers_def flag_handlers_def
  resolvers_def user_resolvers_def setup_resolvers_def organization_resolvers_def access_resolvers_def
  project_resolvers_def stats_resolvers_def environment_resolvers_def segment_resolvers_def flag_resolvers_def

lemma flag_resolvers_at:
  "map_of (zip handlers (resolvers h now)) (''GET'', ''*/api/v1/organizations/:organizationSlug/projects/:projectKey/flags'') =
     Some (reads (listed ''flags'' flag_json) (\<lambda>r. get_flags))"
  "map_of (zip handlers (resolvers h now)) (''GET'', ''*/api/v1/organizations/:organizationSlug/projects/:projectKey/flags/lifecycle'') =
     Some (reads (listed ''flags'' flag_lifecycle_json) (\<lambda>r. get_flag_lifecycle))"
  "map_of (zip handlers (resolvers h now)) (''GET'', ''*/api/v1/organizations/:organizationSlug/projects/:projectKey/environments/:envKey/flags'') =
     Some (reads (listed ''flags'' flag_with_state_json) (\<lambda>r. get_env_flags (path_param r ''envKey'') (query_param r ''search'')))"
  "map_of (zip handlers (resolvers h now)) (''PUT'', ''*/api/v1/organizations/:organizationSlug/projects/:projectKey/flags/:flagKey'') =
     Some (takes flag_body_of flag_json (\<lambda>r. put_flag h (path_param r ''flagKey'')))"
  "map_of (zip handlers (resolvers h now)) (''GET'', ''*/api/v1/organizations/:organizationSlug/projects/:projectKey/flags/:flagKey'') =
     Some (reads flag_json (\<lambda>r. get_flag (path_param r ''flagKey'')))"
  "map_of (zip handlers (resolvers h now)) (''DELETE'', ''*/api/v1/organizations/:organizationSlug/projects/:projectKey/flags/:flagKey'') =
     Some (writes no_json (\<lambda>r. delete_flag (path_param r ''flagKey'')))"
  "map_of (zip handlers (resolvers h now)) (''GET'', ''*/api/v1/organizations/:organizationSlug/projects/:projectKey/flags/:flagKey/environments/:envKey'') =
     Some (writes flag_config_json (\<lambda>r. get_flag_config (path_param r ''flagKey'') (path_param r ''envKey'')))"
  "map_of (zip handlers (resolvers h now)) (''PATCH'', ''*/api/v1/organizations/:organizationSlug/projects/:projectKey/flags/:flagKey/environments/:envKey'') =
     Some (patch_config_resolver h)"
  by (simp_all add: tables)

section \<open>The flag calls of the dashboard\<close>

definition flag_params :: "string \<Rightarrow> string \<Rightarrow> string \<Rightarrow> (string \<times> string) list" where
  "flag_params org proj k = [(''organizationSlug'', org), (''projectKey'', proj), (''flagKey'', k)]"

lemma flag_param [simp]: "map_of (flag_params org proj k) ''flagKey'' = Some k"
  by (simp_all add: flag_params_def)

lemma flag_calls_served:
  assumes "documented_matching matches" "api_base origin apiUrl" "list_all plain_key [org, proj, k]"
  shows "cf_key input = k \<Longrightarrow> served matches handlers origin apiUrl (flags_create org proj input) =
      Some ((''PUT'', ''*/api/v1/organizations/:organizationSlug/projects/:projectKey/flags/:flagKey''), flag_params org proj k)"
    and "to_lower k \<noteq> ''lifecycle'' \<Longrightarrow> served matches handlers origin apiUrl (flags_get org proj k) =
      Some ((''GET'', ''*/api/v1/organizations/:organizationSlug/projects/:projectKey/flags/:flagKey''), flag_params org proj k)"
    and "served matches handlers origin apiUrl (flags_remove org proj k) =
      Some ((''DELETE'', ''*/api/v1/organizations/:organizationSlug/projects/:projectKey/flags/:flagKey''), flag_params org proj k)"
    and "plain_key e \<Longrightarrow> served matches handlers origin apiUrl (flags_getConfig org proj k e) =
      Some ((''GET'', ''*/api/v1/organizations/:organizationSlug/projects/:projectKey/flags/:flagKey/environments/:envKey''), flag_params org proj k @ [(''envKey'', e)])"
    and "plain_key e \<Longrightarrow> served matches handlers origin apiUrl (flags_patchConfig org proj k e body) =
      Some ((''PATCH'', ''*/api/v1/organizations/:organizationSlug/projects/:projectKey/flags/:flagKey/environments/:envKey''), flag_params org proj k @ [(''envKey'', e)])"
proof -
  have rows: "list_all row_ok (flag_rows org proj e k [] True body i)" if "plain_key e" "cf_key i = k" for e body i
    using assms(3) that by (intro flag_rows_ok) auto
  note served = row_served [OF assms(1,2), THEN conjunct2]
  define i where "i = \<lparr>cf_key = k, cf_name = [], cf_description = None, cf_client_side_available = None,
     cf_temporary = None, cf_variations = []\<rparr>"
  have i: "cf_key i = k" "plain_key k" using assms(3) by (simp_all add: i_def)
  note r = rows [unfolded flag_rows_def list.pred_inject]
  show "cf_key input = k \<Longrightarrow> served matches handlers origin apiUrl (flags_create org proj input) =
      Some ((''PUT'', ''*/api/v1/organizations/:organizationSlug/projects/:projectKey/flags/:flagKey''), flag_params org proj k)"
    using r [OF i(2), of input JNull] served by (fastforce simp: flags_create_def call_defs flag_params_def)
  show "to_lower k \<noteq> ''lifecycle'' \<Longrightarrow> served matches handlers origin apiUrl (flags_get org proj k) =
      Some ((''GET'', ''*/api/v1/organizations/:organizationSlug/projects/:projectKey/flags/:flagKey''), flag_params org proj k)"
    using r [OF i(2,1), of JNull] served by (fastforce simp: flags_get_def call_defs flag_params_def)
  show "served matches handlers origin apiUrl (flags_remove org proj k) =
      Some ((''DELETE'', ''*/api/v1/organizations/:organizationSlug/projects/:projectKey/flags/:flagKey''), flag_params org proj k)"
    using r [OF i(2,1), of JNull] served by (fastforce simp: flags_remove_def call_defs flag_params_def)
  show "plain_key e \<Longrightarrow> served matches handlers origin apiUrl (flags_getConfig org proj k e) =
      Some ((''GET'', ''*/api/v1/organizations/:organizationSlug/projects/:projectKey/flags/:flagKey/environments/:envKey''), flag_params org proj k @ [(''envKey'', e)])"
    using r [OF _ i(1), of e JNull] served by (fastforce simp: flags_getConfig_def call_defs flag_params_def)
  show "plain_key e \<Longrightarrow> served matches handlers origin apiUrl (flags_patchConfig org proj k e body) =
      Some ((''PATCH'', ''*/api/v1/organizations/:organizationSlug/projects/:projectKey/flags/:flagKey/environments/:envKey''), flag_params org proj k @ [(''envKey'', e)])"
    using r [OF _ i(1), of e body] served by (fastforce simp: flags_patchConfig_def call_defs flag_params_def)
qed

text \<open>What each of them is answered, and the backend afterwards.\<close>

lemma call_shapes [simp]:
  "ac_unwrap (flags_get org proj k) = Whole" "ac_unwrap (flags_create org proj input) = Whole"
  "ac_unwrap (flags_remove org proj k) = Whole" "ac_unwrap (flags_getConfig org proj k e) = Whole"
  "ac_unwrap (flags_patchConfig org proj k e body) = Whole"
  by (simp_all add: flags_get_def flags_create_def flags_remove_def flags_getConfig_def flags_patchConfig_def call_defs)

lemma receive_reply:
  "plain (enc v) \<Longrightarrow> ac_unwrap c = Whole \<Longrightarrow> receive apiUrl c (reply enc (Json 200 v)) = Inr (enc v)"
  "receive apiUrl c (reply enc (Empty 404)) = Inl (ApiError 404 (apiUrl @ ac_path c) (''Request failed: '' @ show_int 404 @ '' '' @ ac_path c))"
  "ac_unwrap c = Whole \<Longrightarrow> receive apiUrl c (reply enc (Empty 204)) = Inr JUndef"
  by (simp_all add: reply_def receive_json unwrap_value_def ok_status_def) (simp_all add: receive_def ok_status_def unwrap_value_def)

definition wanted :: "create_flag_input \<Rightarrow> flag_body" where
  "wanted i = \<lparr>fb_name = cf_name i, fb_description = Some (the_default [] (cf_description i)),
     fb_client_side_available = Some (the_default False (cf_client_side_available i)),
     fb_temporary = Some (the_default False (cf_temporary i)), fb_variations = cf_variations i\<rparr>"

lemma create_body_read:
  assumes "list_all plain (cf_variations i)"
  shows "read_body flag_body_of (incoming origin apiUrl (flags_create org proj i) params) = Some (wanted i)"
proof -
  have b: "ac_body (flags_create org proj i) = Some (JObj [(''name'', JStr (cf_name i)),
      (''description'', JStr (the_default [] (cf_description i))),
      (''client_side_available'', JBool (the_default False (cf_client_side_available i))),
      (''temporary'', JBool (the_default False (cf_temporary i))), (''variations'', JArr (cf_variations i))])"
    by (simp add: flags_create_def call_put_def)
  have "list_of Some (JArr (cf_variations i)) = Some (cf_variations i)"
    using those_inverse [of "cf_variations i" Some "\<lambda>x. x"] by simp
  then show ?thesis
    using assms by (simp add: read_sent [OF _ b] flag_body_of_def maybe_def field_rules wanted_def)
qed

lemma flag_exchanges:
  assumes "documented_matching matches" "api_base origin (cg_apiUrl g)" "list_all plain_key [org, proj, k]"
  shows "cf_key i = k \<Longrightarrow> list_all plain (cf_variations i) \<Longrightarrow>
      send (Some g) token (mock_fetch h now matches origin network) (flags_create org proj i) st =
      (receive (cg_apiUrl g) (flags_create org proj i) (reply flag_json (fst (put_flag h k (wanted i) st))),
       snd (put_flag h k (wanted i) st))"
    and "to_lower k \<noteq> ''lifecycle'' \<Longrightarrow>
      send (Some g) token (mock_fetch h now matches origin network) (flags_get org proj k) st =
      (receive (cg_apiUrl g) (flags_get org proj k) (reply flag_json (get_flag k st)), st)"
    and "send (Some g) token (mock_fetch h now matches origin network) (flags_remove org proj k) st =
      (receive (cg_apiUrl g) (flags_remove org proj k) (reply no_json (fst (delete_flag k st))), snd (delete_flag k st))"
    and "plain_key e \<Longrightarrow>
      send (Some g) token (mock_fetch h now matches origin network) (flags_getConfig org proj k e) st =
      (receive (cg_apiUrl g) (flags_getConfig org proj k e) (reply flag_config_json (fst (get_flag_config k e st))),
       snd (get_flag_config k e st))"
    and "plain_key e \<Longrightarrow> list_all plain_instruction xs \<Longrightarrow>
      send (Some g) token (mock_fetch h now matches origin network) (flags_patchConfig org proj k e (instructions_json xs)) st =
      (receive (cg_apiUrl g) (flags_patchConfig org proj k e (instructions_json xs))
         (reply flag_config_json (fst (patch_flag_config h k e xs st))), snd (patch_flag_config h k e xs st))"
proof -
  note s = flag_calls_served [OF assms] and f = flag_resolvers_at [of h now]
  show "cf_key i = k \<Longrightarrow> list_all plain (cf_variations i) \<Longrightarrow>
      send (Some g) token (mock_fetch h now matches origin network) (flags_create org proj i) st =
      (receive (cg_apiUrl g) (flags_create org proj i) (reply flag_json (fst (put_flag h k (wanted i) st))),
       snd (put_flag h k (wanted i) st))"
    by (simp add: exchange [OF s(1) f(4)] takes_def create_body_read)
  show "to_lower k \<noteq> ''lifecycle'' \<Longrightarrow>
      send (Some g) token (mock_fetch h now matches origin network) (flags_get org proj k) st =
      (receive (cg_apiUrl g) (flags_get org proj k) (reply flag_json (get_flag k st)), st)"
    by (simp add: exchange [OF s(2) f(5)] reads_def)
  show "send (Some g) token (mock_fetch h now matches origin network) (flags_remove org proj k) st =
      (receive (cg_apiUrl g) (flags_remove org proj k) (reply no_json (fst (delete_flag k st))), snd (delete_flag k st))"
    by (simp add: exchange [OF s(3) f(6)] writes_def)
  show "plain_key e \<Longrightarrow>
      send (Some g) token (mock_fetch h now matches origin network) (flags_getConfig org proj k e) st =
      (receive (cg_apiUrl g) (flags_getConfig org proj k e) (reply flag_config_json (fst (get_flag_config k e st))),
       snd (get_flag_config k e st))"
    by (simp add: exchange [OF s(4) f(7)] writes_def flag_params_def)
  assume e: "plain_key e" and xs: "list_all plain_instruction xs"
  have b: "ac_body (flags_patchConfig org proj k e (instructions_json xs)) = Some (JObj [(''instructions'', instructions_json xs)])"
    by (simp add: flags_patchConfig_def call_patch_def)
  show "send (Some g) token (mock_fetch h now matches origin network) (flags_patchConfig org proj k e (instructions_json xs)) st =
      (receive (cg_apiUrl g) (flags_patchConfig org proj k e (instructions_json xs))
         (reply flag_config_json (fst (patch_flag_config h k e xs st))), snd (patch_flag_config h k e xs st))"
    using e by (simp add: exchange [OF s(5) f(8)] patch_config_resolver_def writes_def flag_params_def read_sent [OF plain_instructions [OF xs] b]
        patch_body_inverse Let_def)
qed

section \<open>Flags as a keyed store\<close>

text \<open>The abstract store: what the dashboard knows a flag by. Identifiers and times are the backend's.\<close>

type_synonym flag_contents = "string \<times> string \<times> bool \<times> bool \<times> js list"

datatype flag_op = FlagGet string | FlagCreate create_flag_input | FlagRemove string

datatype flag_answer = Found string flag_contents | Missing | Done

definition asked :: "create_flag_input \<Rightarrow> flag_contents" where
  "asked i = (cf_name i, the_default [] (cf_description i), the_default False (cf_client_side_available i),
     the_default False (cf_temporary i), cf_variations i)"

fun spec_step :: "flag_op \<Rightarrow> (string \<Rightarrow> flag_contents option) \<Rightarrow> flag_answer \<times> (string \<Rightarrow> flag_contents option)" where
  "spec_step (FlagGet k) m = ((case m k of None \<Rightarrow> Missing | Some c \<Rightarrow> Found k c), m)"
| "spec_step (FlagCreate i) m = (Found (cf_key i) (asked i), m(cf_key i := Some (asked i)))"
| "spec_step (FlagRemove k) m = (Done, m(k := None))"

text \<open>The same operations as calls of the API client, and what a caller reads in their answers.\<close>

fun flag_call :: "string \<Rightarrow> string \<Rightarrow> flag_op \<Rightarrow> api_call" where
  "flag_call org proj (FlagGet k) = flags_get org proj k"
| "flag_call org proj (FlagCreate i) = flags_create org proj i"
| "flag_call org proj (FlagRemove k) = flags_remove org proj k"

definition contents :: "flag \<Rightarrow> flag_contents" where
  "contents f = (fl_name f, fl_description f, fl_client_side_available f, fl_temporary f, fl_variations f)"

definition read_answer :: "api_error + js \<Rightarrow> flag_answer option" where
  "read_answer r = (case r of
     Inr v \<Rightarrow> (if v = JUndef then Some Done else map_option (\<lambda>f. Found (fl_key f) (contents f)) (flag_of v))
   | Inl (ApiError s _ _) \<Rightarrow> (if s = 404 then Some Missing else None)
   | Inl _ \<Rightarrow> None)"

fun run_steps :: "('o \<Rightarrow> 's \<Rightarrow> 'a \<times> 's) \<Rightarrow> 'o list \<Rightarrow> 's \<Rightarrow> 'a list \<times> 's" where
  "run_steps step [] s = ([], s)"
| "run_steps step (x # xs) s =
     (let (a, s1) = step x s; (bs, s2) = run_steps step xs s1 in (a # bs, s2))"

definition stored_flags :: "backend \<Rightarrow> string \<Rightarrow> flag_contents option" where
  "stored_flags st k = map_option contents (find_flag (bk_flags st) k)"

definition plain_store :: "backend \<Rightarrow> bool" where
  "plain_store st \<longleftrightarrow> list_all plain_flag (bk_flags st)"

fun op_ok :: "flag_op \<Rightarrow> bool" where
  "op_ok (FlagGet k) \<longleftrightarrow> plain_key k \<and> to_lower k \<noteq> ''lifecycle''"
| "op_ok (FlagCreate i) \<longleftrightarrow> plain_key (cf_key i) \<and> list_all plain (cf_variations i)"
| "op_ok (FlagRemove k) \<longleftrightarrow> plain_key k"

text \<open>A simulation of one step carries over to runs.\<close>

lemma run_simulates:
  assumes "\<And>x s. ok x \<Longrightarrow> good s \<Longrightarrow> good (snd (step x s)) \<and>
      spec x (abs_state s) = (view (fst (step x s)), abs_state (snd (step x s)))"
    and "list_all ok xs" "good s"
  shows "run_steps spec xs (abs_state s) =
    (map view (fst (run_steps step xs s)), abs_state (snd (run_steps step xs s)))"
  using assms(2,3)
proof (induction xs arbitrary: s)
  case (Cons x xs)
  then show ?case using assms(1) [of x s] by (simp add: case_prod_beta Let_def)
qed simp

lemma flag_json_defined: "flag_json f \<noteq> JUndef"
  by (simp add: flag_json_def)

lemma read_found: "read_answer (Inr (flag_json f)) = Some (Found (fl_key f) (contents f))"
  by (simp add: read_answer_def flag_json_defined flag_codec.dec_enc)

lemma put_flag_plain:
  assumes "plain_store st" "list_all plain (fb_variations b)"
  shows "plain_store (snd (put_flag h k b st)) \<and> (\<exists>f. fst (put_flag h k b st) = Json 200 f \<and> plain_flag f)"
proof -
  have u: "list_all plain_flag (update_first p (\<lambda>_. f) fs)" if "list_all plain_flag fs" "plain_flag f" for p f fs
    using that by (induction fs) auto
  show ?thesis using assms
    by (auto simp: put_flag_def randomUUID_def Let_def plain_store_def upsert_flag_def plain_flag_def intro!: u)
qed

lemma plain_found: "plain_store st \<Longrightarrow> find_flag (bk_flags st) k = Some f \<Longrightarrow> plain_flag f \<and> fl_key f = k"
  by (auto simp: plain_store_def find_flag_def find_Some_iff list_all_length)

lemma put_flag_stored:
  "stored_flags (snd (put_flag h (cf_key i) (wanted i) st)) = (stored_flags st)(cf_key i := Some (asked i))"
  "fst (put_flag h (cf_key i) (wanted i) st) = Json 200 f \<Longrightarrow> fl_key f = cf_key i \<and> contents f = asked i"
  by (auto simp: stored_flags_def put_flag_def randomUUID_def Let_def flg.get_upsert contents_def asked_def wanted_def)

lemma delete_flag_stored: "stored_flags (snd (delete_flag k st)) = (stored_flags st)(k := None)"
  by (auto simp: stored_flags_def delete_flag_def flg.get_delete)

lemma delete_flag_plain: "plain_store st \<Longrightarrow> plain_store (snd (delete_flag k st))"
  by (simp add: plain_store_def delete_flag_def remove_flag_def list_all_iff)


lemma flag_op_simulates:
  assumes "documented_matching matches" "api_base origin (cg_apiUrl g)" "plain_key org" "plain_key proj"
    and "op_ok x" "plain_store st"
    and answer_def: "answer = send (Some g) token (mock_fetch h now matches origin network) (flag_call org proj x) st"
  shows "plain_store (snd answer) \<and>
    (let (a, m) = spec_step x (stored_flags st) in (Some a, m)) = (read_answer (fst answer), stored_flags (snd answer))"
proof (cases x)
  case (FlagGet k)
  then have "list_all plain_key [org, proj, k]" "to_lower k \<noteq> ''lifecycle''" using assms(3-5) by simp_all
  note e = flag_exchanges(2) [OF assms(1,2) this]
  show ?thesis
  proof (cases "find_flag (bk_flags st) k")
    case None
    then show ?thesis using assms(6) FlagGet
      by (simp add: answer_def e get_flag_def stored_flags_def receive_reply read_answer_def)
  next
    case (Some f)
    then show ?thesis using assms(6) FlagGet plain_found [OF assms(6) Some] flag_codec.plain_enc [of f]
      by (simp add: answer_def e get_flag_def stored_flags_def receive_reply read_found)
  qed
next
  case (FlagCreate i)
  then have "list_all plain_key [org, proj, cf_key i]" and v: "list_all plain (cf_variations i)" using assms(3-5) by simp_all
  note e = flag_exchanges(1) [OF assms(1,2) this(1) refl v]
  have "list_all plain (fb_variations (wanted i))" using v by (simp add: wanted_def)
  from put_flag_plain [OF assms(6) this, of h "cf_key i"] obtain f
    where p: "plain_store (snd (put_flag h (cf_key i) (wanted i) st))" and f: "fst (put_flag h (cf_key i) (wanted i) st) = Json 200 f" "plain_flag f"
    by blast
  then show ?thesis using FlagCreate put_flag_stored(2) [OF f(1)] flag_codec.plain_enc [OF f(2)]
    by (simp add: answer_def e f put_flag_stored(1) receive_reply read_found)
next
  case (FlagRemove k)
  then have "list_all plain_key [org, proj, k]" using assms(3-5) by simp
  note e = flag_exchanges(3) [OF assms(1,2) this]
  have "fst (delete_flag k st) = Empty 204" by (simp add: delete_flag_def)
  then show ?thesis using FlagRemove delete_flag_plain [OF assms(6)]
    by (simp add: answer_def e delete_flag_stored receive_reply read_answer_def)
qed



lemma demo_store_plain: "plain_store initial_backend"
  by (simp add: plain_store_def initial_backend_def seedFlags_def plain_flag_def)

abbreviation demo_config :: app_config where
  "demo_config \<equiv> \<lparr>cg_apiUrl = ''/api/v1'', cg_environment = Development, cg_enableMocking = True\<rparr>"

definition no_network :: "'w fetch" where
  "no_network q w = (Inl ''Failed to fetch'', w)"


section \<open>Configurations\<close>

definition plain_configs :: "backend \<Rightarrow> bool" where
  "plain_configs st \<longleftrightarrow> (\<forall>k. plain_config (config_of st k))"

lemma plain_apply_instruction:
  assumes "plain_instruction ins" "plain_config (fst s)"
  shows "plain_config (fst (apply_instruction uuid s ins))"
proof -
  have c: "list_all plain_clause_val (the (fi_clauses ins))" if "fi_clauses ins \<noteq> None"
    using assms(1) that by (auto simp: plain_instruction_def plain_clause_val_def list_all_iff)
  have r: "list_all plain_rule (fc_rules (fst s))" using assms(2) by (simp add: plain_config_def)
  show ?thesis unfolding apply_instruction_def Let_def plain_config_def
    using r c by (auto simp: plain_rule_def reorder_rules_def list_all_iff)
qed

lemma plain_applyInstructions:
  "list_all plain_instruction xs \<Longrightarrow> plain_config (fst s) \<Longrightarrow> plain_config (fst (applyInstructions uuid s xs))"
proof -
  have "plain_config (fst (fold (\<lambda>ins s. apply_instruction uuid s ins) xs s))"
    if "list_all plain_instruction xs" "plain_config (fst s)" for s
    using that by (induction xs arbitrary: s) (simp_all add: plain_apply_instruction)
  then show "list_all plain_instruction xs \<Longrightarrow> plain_config (fst s) \<Longrightarrow> plain_config (fst (applyInstructions uuid s xs))"
    by (simp add: applyInstructions_def plain_config_def Let_def)
qed



section \<open>Nothing leaves\<close>

lemma first_route_in: "first_route m rs meth = Some (r, params) \<Longrightarrow> r \<in> set rs"
  by (induction m rs meth rule: first_route.induct) (auto split: if_splits option.splits)

lemma all_aligned: "length (resolvers h now) = length handlers"
  by (simp add: resolvers_def handlers_def resolvers_aligned)

lemma served_resolver:
  "served matches handlers origin apiUrl c = Some (r, params) \<Longrightarrow> \<exists>f. map_of (zip handlers (resolvers h now)) r = Some f"
  using first_route_in [of _ handlers "ac_method c" r params] map_of_zip_is_Some [of handlers "resolvers h now" r] all_aligned [of h now]
  unfolding served_def by metis

text \<open>
  Mock mode is closed: with the base the handlers need, what a call of the dashboard is answered and what it
  does to the backend do not depend on the network.
\<close>

theorem mock_mode_is_closed:
  assumes "documented_matching matches" "api_base origin (cg_apiUrl g)"
    and "list_all plain_key [org, proj, envKey, flagKey, segKey, i, cf_key input]" "list_all path_key [kind, key]"
  shows "list_all (\<lambda>(c, _). send (Some g) token (mock_fetch h now matches origin network) c st =
       send (Some g) token (mock_fetch h now matches origin network') c st)
     (endpoint_rows org proj envKey flagKey segKey i kind key text status b body input)"
proof (rule list.pred_mono_strong [OF endpoint_rows_ok [OF assms(3,4)]], clarify)
  fix c segs q p params assume "row_ok (c, segs, q, p, params)"
  then have s: "served matches handlers origin (cg_apiUrl g) c = Some ((ac_method c, p), params)"
    using row_served [OF assms(1,2)] by blast
  from served_resolver [OF s] obtain f where "map_of (zip handlers (resolvers h now)) (ac_method c, p) = Some f" by blast
  from exchange [OF s this] show "send (Some g) token (mock_fetch h now matches origin network) c st =
      send (Some g) token (mock_fetch h now matches origin network') c st" by simp
qed

end
