(* ===== verification/ServiceWorker.thy ===== *)
theory ServiceWorker
  imports Prelude
begin

text \<open>
  The service worker that mock mode installs in front of the network, \<open>web/public/mockServiceWorker.js\<close>. Its
  state is the set of clients that have switched mocking on; an intercepted request is a job that awaits
  the browser, the client or the network several times, and other events happen in between. The code between two
  awaits is one step; the clock, the request identifiers, the browser's answers about its clients, the
  replies of a client and the network's responses arrive with the events. Posted messages are recorded in
  the order they are posted.

  Header names are in lower case, as the browser keeps them. \<open>self.clients\<close> is always there in a worker.
\<close>

section \<open>Requests, responses and messages\<close>

record sw_client =
  ct_id :: string
  ct_frameType :: string
  ct_visibilityState :: string

record sw_request =
  wq_url :: string
  wq_mode :: string
  wq_method :: string
  wq_headers :: "(string \<times> string) list"
  wq_cache :: string
  wq_credentials :: string
  wq_destination :: string
  wq_integrity :: string
  wq_redirect :: string
  wq_referrer :: string
  wq_referrerPolicy :: string
  wq_body :: string
  wq_keepalive :: bool

record sw_response =
  wr_type :: string
  wr_status :: int
  wr_statusText :: string
  wr_headers :: "(string \<times> string) list"
  wr_body :: "string option"
  wr_mocked :: bool

text \<open>The payload of a request is the request with its body read (\<open>serializeRequest\<close>).\<close>

datatype sw_message =
    KEEPALIVE_RESPONSE
  | INTEGRITY_CHECK_RESPONSE string string
  | MOCKING_ENABLED string string
  | REQUEST string int sw_request
  | RESPONSE bool string sw_request string int string "(string \<times> string) list" "string option"

text \<open>What a client replies on the message channel: a message with an \<open>error\<close> rejects the promise.\<close>

record mock_data =
  md_status :: int
  md_statusText :: string
  md_headers :: "(string \<times> string) list"
  md_body :: "string option"

datatype sw_reply = MOCK_RESPONSE mock_data | PASSTHROUGH | OtherReply | ReplyError

definition PACKAGE_VERSION :: string where
  "PACKAGE_VERSION = ''2.15.0''"

definition INTEGRITY_CHECKSUM :: string where
  "INTEGRITY_CHECKSUM = ''03cb67ac84128e63d7cd722a6e5b7f1e''"

section \<open>One request\<close>

definition passthrough_headers :: "(string \<times> string) list \<Rightarrow> (string \<times> string) list" where
  "passthrough_headers headers =
     (case map_of headers ''accept'' of
        None \<Rightarrow> headers
      | Some acceptHeader \<Rightarrow>
          if acceptHeader = [] then headers
          else (let values = map trim (split_on CHR '','' acceptHeader);
                    filteredValues = filter (\<lambda>v. v \<noteq> ''msw/passthrough'') values
                in if filteredValues \<noteq> []
                   then map (\<lambda>(k, v). (k, if k = ''accept'' then join '', '' filteredValues else v)) headers
                   else filter (\<lambda>(k, _). k \<noteq> ''accept'') headers))"

definition passthrough :: "sw_request \<Rightarrow> sw_request" where
  "passthrough r = r\<lparr>wq_headers := passthrough_headers (wq_headers r)\<rparr>"

text \<open>\<open>Response.error()\<close>, and \<open>new Response(body, init)\<close>, which throws for a status outside 200 to 599 and for a
  body with a status that has none.\<close>

definition error_response :: sw_response where
  "error_response = \<lparr>wr_type = ''error'', wr_status = 0, wr_statusText = [], wr_headers = [], wr_body = None,
     wr_mocked = False\<rparr>"

definition new_response :: "mock_data \<Rightarrow> sw_response option" where
  "new_response d =
     (if md_status d < 200 \<or> 599 < md_status d \<or> md_body d \<noteq> None \<and> md_status d \<in> {204, 205, 304} then None
      else Some \<lparr>wr_type = ''default'', wr_status = md_status d, wr_statusText = md_statusText d,
                 wr_headers = md_headers d, wr_body = md_body d, wr_mocked = False\<rparr>)"

definition respondWithMock :: "mock_data \<Rightarrow> sw_response option" where
  "respondWithMock d = (if md_status d = 0 then Some error_response
     else map_option (\<lambda>r. r\<lparr>wr_mocked := True\<rparr>) (new_response d))"

text \<open>Where a job stands: which await it is in, with the variables that are still needed.\<close>

datatype job_state =
    AwaitClient
  | AwaitWindows
  | AwaitMain "sw_client option"
  | AwaitBody sw_client
  | AwaitReply sw_client
  | AwaitNetwork "sw_client option" sw_request
  | GotResponse "sw_client option" sw_response
  | AwaitEventBody sw_client sw_response
  | Responded sw_response
  | Failed

record job =
  jb_request :: sw_request
  jb_clientId :: string
  jb_id :: string
  jb_at :: int
  jb_state :: job_state

datatype job_input =
    GotClient "sw_client option"
  | GotWindows "sw_client list"
  | Resume
  | GotReply sw_reply
  | GotNetwork "sw_response option"

record worker =
  wk_activeClientIds :: "string list"
  wk_unregistered :: bool
  wk_jobs :: "job list"
  wk_posted :: "(string \<times> sw_message) list"

definition client_active :: "worker \<Rightarrow> string \<Rightarrow> bool" where
  "client_active w i \<longleftrightarrow> i \<in> set (wk_activeClientIds w)"

definition sendToClient :: "string \<Rightarrow> sw_message \<Rightarrow> worker \<Rightarrow> worker" where
  "sendToClient i m w = w\<lparr>wk_posted := wk_posted w @ [(i, m)]\<rparr>"

section \<open>Steps\<close>

text \<open>\<open>resolveMainClient\<close>: the client of the request if it is active or a whole page, else a visible active one.\<close>

definition main_of_client :: "worker \<Rightarrow> string \<Rightarrow> sw_client option \<Rightarrow> job_state" where
  "main_of_client w clientId client =
     (if client_active w clientId then AwaitMain client
      else (case client of
          Some c \<Rightarrow> if ct_frameType c = ''top-level'' then AwaitMain client else AwaitWindows
        | None \<Rightarrow> AwaitWindows))"

definition main_of_windows :: "worker \<Rightarrow> sw_client list \<Rightarrow> sw_client option" where
  "main_of_windows w allClients =
     find (\<lambda>c. client_active w (ct_id c)) (filter (\<lambda>c. ct_visibilityState c = ''visible'') allClients)"

text \<open>\<open>getResponse\<close> up to its first await, and what it does with the client's reply.\<close>

definition ask_or_pass :: "worker \<Rightarrow> sw_request \<Rightarrow> sw_client option \<Rightarrow> job_state" where
  "ask_or_pass w r client =
     (case client of
        None \<Rightarrow> AwaitNetwork None (passthrough r)
      | Some c \<Rightarrow> if client_active w (ct_id c) then AwaitBody c else AwaitNetwork client (passthrough r))"

definition on_reply :: "sw_request \<Rightarrow> sw_client \<Rightarrow> sw_reply \<Rightarrow> job_state" where
  "on_reply r c reply =
     (case reply of
        MOCK_RESPONSE d \<Rightarrow> (case respondWithMock d of Some res \<Rightarrow> GotResponse (Some c) res | None \<Rightarrow> Failed)
      | PASSTHROUGH \<Rightarrow> AwaitNetwork (Some c) (passthrough r)
      | OtherReply \<Rightarrow> AwaitNetwork (Some c) (passthrough r)
      | ReplyError \<Rightarrow> Failed)"

text \<open>The rest of \<open>handleRequest\<close>: an active client is told of the response, without the body of an event stream.\<close>

definition is_event_stream :: "sw_response \<Rightarrow> bool" where
  "is_event_stream res = (case map_of (wr_headers res) ''content-type'' of
     None \<Rightarrow> False | Some t \<Rightarrow> take (length ''text/event-stream'') (to_lower t) = ''text/event-stream'')"

definition tell_or_respond :: "worker \<Rightarrow> sw_client option \<Rightarrow> sw_response \<Rightarrow> job_state" where
  "tell_or_respond w client res =
     (case client of
        Some c \<Rightarrow> if client_active w (ct_id c) then AwaitEventBody c res else Responded res
      | None \<Rightarrow> Responded res)"

definition response_message :: "job \<Rightarrow> sw_response \<Rightarrow> sw_message" where
  "response_message j res = RESPONSE (wr_mocked res) (jb_id j) (jb_request j) (wr_type res) (wr_status res)
     (wr_statusText res) (wr_headers res) (if is_event_stream res then None else wr_body res)"

text \<open>One step of a job: its next state and what it posts. An input it does not wait for changes nothing; a
  network that fails rejects the promise.\<close>

fun job_step :: "worker \<Rightarrow> job \<Rightarrow> job_state \<Rightarrow> job_input \<Rightarrow> job_state \<times> (string \<times> sw_message) list" where
  "job_step w j AwaitClient (GotClient c) = (main_of_client w (jb_clientId j) c, [])"
| "job_step w j AwaitWindows (GotWindows cs) = (AwaitMain (main_of_windows w cs), [])"
| "job_step w j (AwaitMain c) Resume = (ask_or_pass w (jb_request j) c, [])"
| "job_step w j (AwaitBody c) Resume = (AwaitReply c, [(ct_id c, REQUEST (jb_id j) (jb_at j) (jb_request j))])"
| "job_step w j (AwaitReply c) (GotReply r) = (on_reply (jb_request j) c r, [])"
| "job_step w j (AwaitNetwork c q) (GotNetwork None) = (Failed, [])"
| "job_step w j (AwaitNetwork c q) (GotNetwork (Some res)) = (GotResponse c (res\<lparr>wr_mocked := False\<rparr>), [])"
| "job_step w j (GotResponse c res) Resume = (tell_or_respond w c res, [])"
| "job_step w j (AwaitEventBody c res) Resume = (Responded res, [(ct_id c, response_message j res)])"
| "job_step w j s _ = (s, [])"

text \<open>The message listener, with the browser's answers to \<open>clients.get\<close> and \<open>clients.matchAll\<close>.\<close>

definition on_message :: "string option \<Rightarrow> string \<Rightarrow> sw_client option \<Rightarrow> sw_client list \<Rightarrow> worker \<Rightarrow> worker" where
  "on_message source data client allClients w =
     (case (source, client) of
        (Some clientId, Some c) \<Rightarrow>
          if clientId = [] then w
          else if data = ''KEEPALIVE_REQUEST'' then sendToClient (ct_id c) KEEPALIVE_RESPONSE w
          else if data = ''INTEGRITY_CHECK_REQUEST''
            then sendToClient (ct_id c) (INTEGRITY_CHECK_RESPONSE PACKAGE_VERSION INTEGRITY_CHECKSUM) w
          else if data = ''MOCK_ACTIVATE''
            then sendToClient (ct_id c) (MOCKING_ENABLED (ct_id c) (ct_frameType c))
              (w\<lparr>wk_activeClientIds := List.insert clientId (wk_activeClientIds w)\<rparr>)
          else if data = ''CLIENT_CLOSED''
            then w\<lparr>wk_activeClientIds := removeAll clientId (wk_activeClientIds w),
                   wk_unregistered := wk_unregistered w \<or> filter (\<lambda>o1. ct_id o1 \<noteq> clientId) allClients = []\<rparr>
          else w
      | _ \<Rightarrow> w)"

text \<open>The fetch listener: which requests it lets go by, and the job it starts for the others.\<close>

definition bypassed :: "worker \<Rightarrow> sw_request \<Rightarrow> bool" where
  "bypassed w r \<longleftrightarrow> wq_mode r = ''navigate'' \<or>
     wq_cache r = ''only-if-cached'' \<and> wq_mode r \<noteq> ''same-origin'' \<or> wk_activeClientIds w = []"

definition on_fetch :: "sw_request \<Rightarrow> string \<Rightarrow> string \<Rightarrow> int \<Rightarrow> worker \<Rightarrow> worker" where
  "on_fetch r clientId requestId requestInterceptedAt w =
     (if bypassed w r then w
      else w\<lparr>wk_jobs := wk_jobs w @ [\<lparr>jb_request = r, jb_clientId = clientId, jb_id = requestId,
               jb_at = requestInterceptedAt, jb_state = AwaitClient\<rparr>]\<rparr>)"

datatype sw_event =
    SwMessage "string option" string "sw_client option" "sw_client list"
  | SwFetch sw_request string string int
  | SwAdvance nat job_input

fun worker_step :: "worker \<Rightarrow> sw_event \<Rightarrow> worker" where
  "worker_step w (SwMessage source data client cs) = on_message source data client cs w"
| "worker_step w (SwFetch r clientId i now) = on_fetch r clientId i now w"
| "worker_step w (SwAdvance n x) =
     (if n < length (wk_jobs w)
      then (let j = wk_jobs w ! n; (s, posts) = job_step w j (jb_state j) x
            in w\<lparr>wk_jobs := (wk_jobs w)[n := j\<lparr>jb_state := s\<rparr>], wk_posted := wk_posted w @ posts\<rparr>)
      else w)"

definition worker_start :: worker where
  "worker_start = \<lparr>wk_activeClientIds = [], wk_unregistered = False, wk_jobs = [], wk_posted = []\<rparr>"

definition worker_run :: "sw_event list \<Rightarrow> worker" where
  "worker_run es = foldl worker_step worker_start es"

end
