(* ===== verification/ServiceWorker_Props.thy ===== *)
theory ServiceWorker_Props
  imports ServiceWorker
begin

text \<open>
  What the service worker guarantees in every run: which requests it touches, whom it asks about them, where
  each answer comes from, and that a request let through is the page's own.
\<close>

section \<open>Requests let through\<close>

definition accepted :: "(string \<times> string) list \<Rightarrow> string list" where
  "accepted headers = (case map_of headers ''accept'' of None \<Rightarrow> [] | Some a \<Rightarrow> map trim (split_on CHR '','' a))"

lemma trimmed_join:
  assumes "\<forall>v\<in>set vs. CHR '','' \<notin> set v \<and> trim v = v" "vs \<noteq> []"
  shows "map trim (split_on CHR '','' (join '', '' vs)) = vs"
  using assms
proof (induction vs rule: induct_list012)
  case (3 x y zs)
  have sp: "split_on c (d # s) = (d # hd (split_on c s)) # tl (split_on c s)" if "d \<noteq> c" for c d :: char and s
    using that by (cases "split_on c s") auto
  have "split_on CHR '','' (x @ '', '' @ join '', '' (y # zs)) =
      x # (CHR '' '' # hd (split_on CHR '','' (join '', '' (y # zs)))) # tl (split_on CHR '','' (join '', '' (y # zs)))"
    using 3(3) split_on_append_sep [of "CHR '',''" x "CHR '' '' # join '', '' (y # zs)"] sp [of "CHR '' ''" "CHR '',''"] by simp
  moreover have "trim (CHR '' '' # s) = trim s" for s by (simp add: is_space_def)
  moreover have "trim (hd (split_on CHR '','' (join '', '' (y # zs)))) # map trim (tl (split_on CHR '','' (join '', '' (y # zs)))) =
      map trim (split_on CHR '','' (join '', '' (y # zs)))"
    by (cases "split_on CHR '','' (join '', '' (y # zs))") auto
  ultimately show ?case using 3 by simp
qed simp_all

lemma map_of_set_header: "map_of (map (\<lambda>(k, v). (k, if k = k1 then f v else v)) h) k1 = map_option f (map_of h k1)"
  by (induction h) auto

lemma map_of_drop_header: "map_of (filter (\<lambda>(k, _). k \<noteq> k1) h) k1 = None"
  by (induction h) auto

lemma passthrough_accepted: "accepted (passthrough_headers h) = filter (\<lambda>v. v \<noteq> ''msw/passthrough'') (accepted h)"
proof (cases "map_of h ''accept''")
  case (Some a)
  let ?vs = "filter (\<lambda>v. v \<noteq> ''msw/passthrough'') (map trim (split_on CHR '','' a))"
  have "\<forall>v\<in>set ?vs. CHR '','' \<notin> set v \<and> trim v = v" using split_on_no_sep [of _ "CHR '',''" a] set_trim by fastforce
  then have j: "?vs \<noteq> [] \<Longrightarrow> map trim (split_on CHR '','' (join '', '' ?vs)) = ?vs" by (rule trimmed_join)
  show ?thesis
  proof (cases "?vs = []")
    case True
    then have "a \<noteq> []" by (auto simp: trim_def)
    then show ?thesis using Some True by (simp add: passthrough_headers_def accepted_def Let_def map_of_drop_header)
  next
    case False
    have e: "a = [] \<Longrightarrow> ?thesis" using Some by (simp add: passthrough_headers_def accepted_def trim_def)
    show ?thesis
    proof (cases "a = []")
      case False
      then show ?thesis using Some \<open>?vs \<noteq> []\<close> j [OF \<open>?vs \<noteq> []\<close>]
        by (simp add: passthrough_headers_def accepted_def Let_def map_of_set_header)
    qed (rule e)
  qed
qed (simp add: passthrough_headers_def accepted_def)

section \<open>Runs\<close>

text \<open>The browser returns the client it was asked for.\<close>

fun event_ok :: "sw_event \<Rightarrow> bool" where
  "event_ok (SwMessage source data client cs) \<longleftrightarrow> (\<forall>c. client = Some c \<longrightarrow> source = Some (ct_id c))"
| "event_ok _ \<longleftrightarrow> True"

definition was_asked :: "worker \<Rightarrow> job \<Rightarrow> sw_client \<Rightarrow> bool" where
  "was_asked w j c \<longleftrightarrow> (ct_id c, REQUEST (jb_id j) (jb_at j) (jb_request j)) \<in> set (wk_posted w)"

definition mocking_on :: "worker \<Rightarrow> string \<Rightarrow> bool" where
  "mocking_on w i \<longleftrightarrow> (\<exists>f. (i, MOCKING_ENABLED i f) \<in> set (wk_posted w))"

text \<open>Where the response of the job with number \<open>n\<close> comes from: a client that was asked answered with it, or
  the network did.\<close>

definition mocked_by :: "sw_event list \<Rightarrow> worker \<Rightarrow> nat \<Rightarrow> job \<Rightarrow> sw_response \<Rightarrow> bool" where
  "mocked_by es w n j res \<longleftrightarrow> (\<exists>c d. was_asked w j c \<and> SwAdvance n (GotReply (MOCK_RESPONSE d)) \<in> set es \<and> respondWithMock d = Some res)"

definition from_network :: "sw_event list \<Rightarrow> nat \<Rightarrow> sw_response \<Rightarrow> bool" where
  "from_network es n res \<longleftrightarrow> (\<exists>r. SwAdvance n (GotNetwork (Some r)) \<in> set es \<and> res = r\<lparr>wr_mocked := False\<rparr>)"

definition origin_ok :: "sw_event list \<Rightarrow> worker \<Rightarrow> nat \<Rightarrow> job \<Rightarrow> sw_response \<Rightarrow> bool" where
  "origin_ok es w n j res \<longleftrightarrow> mocked_by es w n j res \<or> from_network es n res"

definition state_ok :: "sw_event list \<Rightarrow> worker \<Rightarrow> nat \<Rightarrow> job \<Rightarrow> bool" where
  "state_ok es w n j \<longleftrightarrow> (case jb_state j of
     AwaitBody c \<Rightarrow> mocking_on w (ct_id c)
   | AwaitReply c \<Rightarrow> was_asked w j c
   | AwaitNetwork c q \<Rightarrow> q = passthrough (jb_request j)
   | GotResponse c res \<Rightarrow> origin_ok es w n j res
   | AwaitEventBody c res \<Rightarrow> origin_ok es w n j res
   | Responded res \<Rightarrow> origin_ok es w n j res
   | _ \<Rightarrow> True)"

definition posts_ok :: "worker \<Rightarrow> bool" where
  "posts_ok w \<longleftrightarrow> (\<forall>i. client_active w i \<longrightarrow> mocking_on w i) \<and>
     (\<forall>i k t r. (i, REQUEST k t r) \<in> set (wk_posted w) \<longrightarrow> mocking_on w i)"

definition worker_inv :: "sw_event list \<Rightarrow> worker \<Rightarrow> bool" where
  "worker_inv es w \<longleftrightarrow> posts_ok w \<and>
     (\<forall>n<length (wk_jobs w). wq_mode (jb_request (wk_jobs w ! n)) \<noteq> ''navigate'' \<and> state_ok es w n (wk_jobs w ! n))"

text \<open>The job's own state does not matter to where its response comes from.\<close>

lemma job_update [simp]:
  "was_asked w (j\<lparr>jb_state := s\<rparr>) c = was_asked w j c" "origin_ok es w n (j\<lparr>jb_state := s\<rparr>) res = origin_ok es w n j res"
  by (simp_all add: was_asked_def origin_ok_def mocked_by_def)

lemma state_update [simp]: "(j :: job)\<lparr>jb_state := jb_state j\<rparr> = j"
  by simp

text \<open>More events and more posts keep what was true.\<close>

definition grows :: "sw_event list \<Rightarrow> worker \<Rightarrow> sw_event list \<Rightarrow> worker \<Rightarrow> bool" where
  "grows es w es' w' \<longleftrightarrow> set es \<subseteq> set es' \<and> set (wk_posted w) \<subseteq> set (wk_posted w')"

lemma grown_asked: "grows es w es' w' \<Longrightarrow> was_asked w j c \<Longrightarrow> was_asked w' j c"
  by (auto simp: grows_def was_asked_def)

lemma grown_enabled: "grows es w es' w' \<Longrightarrow> mocking_on w i \<Longrightarrow> mocking_on w' i"
  by (auto simp: grows_def mocking_on_def)

lemma grown_origin: "grows es w es' w' \<Longrightarrow> origin_ok es w n j res \<Longrightarrow> origin_ok es' w' n j res"
  using grown_asked unfolding origin_ok_def mocked_by_def from_network_def grows_def by blast

lemma grown_state: "grows es w es' w' \<Longrightarrow> state_ok es w n j \<Longrightarrow> state_ok es' w' n j"
  by (auto simp: state_ok_def grown_asked grown_enabled grown_origin split: job_state.splits)

text \<open>The message listener.\<close>

lemma sent [simp]:
  "wk_jobs (sendToClient i m w) = wk_jobs w" "client_active (sendToClient i m w) k = client_active w k"
  "set (wk_posted (sendToClient i m w)) = insert (i, m) (set (wk_posted w))"
  "mocking_on (sendToClient i m w) k \<longleftrightarrow> mocking_on w k \<or> i = k \<and> (\<exists>f. m = MOCKING_ENABLED k f)"
  by (auto simp: sendToClient_def client_active_def mocking_on_def)

lemma activated [simp]:
  "client_active (w\<lparr>wk_activeClientIds := List.insert i xs\<rparr>) k \<longleftrightarrow> k = i \<or> k \<in> set xs"
  "client_active (w\<lparr>wk_activeClientIds := removeAll i xs, wk_unregistered := b\<rparr>) k \<longleftrightarrow> k \<noteq> i \<and> k \<in> set xs"
  "mocking_on (w\<lparr>wk_activeClientIds := ys\<rparr>) k = mocking_on w k"
  "mocking_on (w\<lparr>wk_activeClientIds := ys, wk_unregistered := b\<rparr>) k = mocking_on w k"
  by (auto simp: client_active_def mocking_on_def)

lemma message_posts:
  assumes "posts_ok w" "event_ok (SwMessage source data client cs)"
  shows "posts_ok (on_message source data client cs w)"
proof (cases client)
  case (Some c)
  then have c: "source = Some (ct_id c)" using assms(2) by simp
  then show ?thesis using assms(1) Some
    by (auto simp: on_message_def posts_ok_def client_active_def [of w])
qed (use assms(1) in \<open>simp add: on_message_def split: option.split\<close>)

lemma message_frame:
  "grows es w (es @ [e]) (on_message source data client cs w)" "wk_jobs (on_message source data client cs w) = wk_jobs w"
  by (auto simp: grows_def on_message_def split: option.split)

text \<open>One step of a job: its state stays right, and it asks nobody who has not switched mocking on.\<close>

lemma network_posts [simp]: "snd (job_step w j (AwaitNetwork c q) (GotNetwork r)) = []"
  by (cases r) simp_all

lemma job_step_posts:
  "posts_ok w \<Longrightarrow> state_ok es w n j \<Longrightarrow> (i, REQUEST k t r) \<in> set (snd (job_step w j (jb_state j) x)) \<Longrightarrow> mocking_on w i"
  by (cases "jb_state j"; cases x) (auto simp: state_ok_def response_message_def split: option.splits)

lemma job_step_state:
  assumes "posts_ok w" "state_ok es w n j" "grows es w es' w'" "SwAdvance n x \<in> set es'"
    and "job_step w j (jb_state j) x = (s, posts)" "set posts \<subseteq> set (wk_posted w')"
  shows "state_ok es' w' n (j\<lparr>jb_state := s\<rparr>)"
proof -
  have act: "client_active w i \<Longrightarrow> mocking_on w' i" for i using assms(1) grown_enabled [OF assms(3)] by (simp add: posts_ok_def)
  have o: "origin_ok es w n j res \<Longrightarrow> origin_ok es' w' n j res" and a: "was_asked w j c \<Longrightarrow> was_asked w' j c" for res c
    using grown_origin [OF assms(3)] grown_asked [OF assms(3)] by blast+
  show ?thesis
  proof (cases "s = jb_state j")
    case True
    then show ?thesis using grown_state [OF assms(3,2)] by simp
  next
    case same: False
    show ?thesis
    proof (cases "jb_state j")
      case (AwaitReply c)
      show ?thesis
      proof (cases x)
        case (GotReply r)
        have "origin_ok es' w' n j res" if "r = MOCK_RESPONSE d" "respondWithMock d = Some res" for d res
          using assms(2,4) a that AwaitReply GotReply by (auto simp: state_ok_def origin_ok_def mocked_by_def)
        then show ?thesis using assms(5) AwaitReply GotReply
          by (auto simp: on_reply_def state_ok_def split: sw_reply.splits option.splits)
      qed (use same assms(5) AwaitReply in auto)
    next
      case (AwaitNetwork c q)
      show ?thesis
      proof (cases x)
        case (GotNetwork r)
        then show ?thesis using assms(4,5) AwaitNetwork
          by (cases r) (auto simp: state_ok_def origin_ok_def from_network_def)
      qed (use same assms(5) AwaitNetwork in auto)
    next
      case AwaitClient
      then show ?thesis using same assms(5)
        by (cases x) (auto simp: main_of_client_def state_ok_def split: option.splits if_splits)
    next
      case AwaitWindows
      then show ?thesis using same assms(5) by (cases x) (auto simp: state_ok_def)
    next
      case (AwaitMain c)
      then show ?thesis using same assms(5) act
        by (cases x) (auto simp: ask_or_pass_def state_ok_def split: option.splits if_splits)
    next
      case (AwaitBody c)
      then show ?thesis using same assms(5,6) by (cases x) (auto simp: state_ok_def was_asked_def)
    next
      case (GotResponse c res)
      then show ?thesis using same assms(2,5) o
        by (cases x) (auto simp: tell_or_respond_def state_ok_def split: option.splits if_splits)
    next
      case (AwaitEventBody c res)
      then show ?thesis using same assms(2,5) o by (cases x) (auto simp: state_ok_def)
    qed (use same assms(5) in auto)
  qed
qed

lemma worker_inv_step:
  assumes "worker_inv es w" "event_ok e"
  shows "worker_inv (es @ [e]) (worker_step w e)"
proof (cases e)
  case (SwMessage source data client cs)
  then show ?thesis
    using assms message_posts [of w source data client cs] message_frame(2) [of source data client cs w]
      grown_state [OF message_frame(1) [of es w e source data client cs]]
    by (simp add: worker_inv_def)
next
  case (SwFetch r clientId i now)
  have g: "grows es w (es @ [e]) (on_fetch r clientId i now w)" and p: "posts_ok (on_fetch r clientId i now w)"
    using assms(1) by (auto simp: grows_def on_fetch_def worker_inv_def posts_ok_def client_active_def mocking_on_def)
  show ?thesis
  proof (cases "bypassed w r")
    case True
    then show ?thesis using assms(1) SwFetch grown_state [OF g] by (simp add: worker_inv_def on_fetch_def)
  next
    case False
    let ?j = "\<lparr>jb_request = r, jb_clientId = clientId, jb_id = i, jb_at = now, jb_state = AwaitClient\<rparr>"
    have jobs: "wk_jobs (on_fetch r clientId i now w) = wk_jobs w @ [?j]" using False by (simp add: on_fetch_def)
    have new: "state_ok (es @ [e]) (on_fetch r clientId i now w) k ?j" for k by (simp add: state_ok_def)
    have mode: "wq_mode r \<noteq> ''navigate''" using False by (simp add: bypassed_def)
    have old: "k < length (wk_jobs w) \<Longrightarrow> wq_mode (jb_request (wk_jobs w ! k)) \<noteq> ''navigate'' \<and>
        state_ok (es @ [e]) (on_fetch r clientId i now w) k (wk_jobs w ! k)" for k
      using assms(1) grown_state [OF g] by (simp add: worker_inv_def)
    show ?thesis using SwFetch p new mode old
      by (auto simp: worker_inv_def jobs nth_append less_Suc_eq)
  qed
next
  case (SwAdvance n x)
  show ?thesis
  proof (cases "n < length (wk_jobs w)")
    case n: True
    let ?j = "wk_jobs w ! n"
    obtain st posts where js: "job_step w ?j (jb_state ?j) x = (st, posts)" by (cases "job_step w ?j (jb_state ?j) x")
    let ?w = "w\<lparr>wk_jobs := (wk_jobs w)[n := ?j\<lparr>jb_state := st\<rparr>], wk_posted := wk_posted w @ posts\<rparr>"
    have w: "worker_step w e = ?w" using n js SwAdvance by (simp add: Let_def)
    have i: "posts_ok w" "state_ok es w n ?j" using assms(1) n by (simp_all add: worker_inv_def)
    have g: "grows es w (es @ [e]) ?w" by (auto simp: grows_def)
    have "mocking_on w k" if "(k, REQUEST a b c) \<in> set posts" for k a b c
      using job_step_posts [OF i, of k a b c x] that js by simp
    then have p: "posts_ok ?w" using i(1) grown_enabled [OF g] unfolding posts_ok_def client_active_def by fastforce
    have "state_ok (es @ [e]) ?w n (?j\<lparr>jb_state := st\<rparr>)"
      using job_step_state [OF i g _ js] SwAdvance by simp
    then show ?thesis using assms(1) p grown_state [OF g] n unfolding w
      by (auto simp: worker_inv_def nth_list_update)
  qed (use assms(1) SwAdvance grown_state [of es w "es @ [e]" w] in \<open>auto simp: worker_inv_def grows_def\<close>)
qed

lemma worker_run_inv: "list_all event_ok es \<Longrightarrow> worker_inv es (worker_run es)"
proof (induction es rule: rev_induct)
  case Nil
  then show ?case by (simp add: worker_inv_def worker_run_def worker_start_def posts_ok_def client_active_def)
next
  case (snoc e es)
  then show ?case using worker_inv_step [of es "worker_run es" e] by (simp add: worker_run_def)
qed

section \<open>Properties\<close>

lemma mock_marks: "respondWithMock d = Some res \<Longrightarrow> wr_mocked res \<or> res = error_response"
  by (auto simp: respondWithMock_def split: if_splits)


definition demo_request :: sw_request where
  "demo_request = \<lparr>wq_url = ''http://localhost/api/v1/me'', wq_mode = ''cors'', wq_method = ''GET'', wq_headers = [],
     wq_cache = ''default'', wq_credentials = ''same-origin'', wq_destination = [], wq_integrity = [], wq_redirect = ''follow'',
     wq_referrer = [], wq_referrerPolicy = [], wq_body = [], wq_keepalive = False\<rparr>"

definition demo_events :: "sw_event list" where
  "demo_events = (let page = \<lparr>ct_id = ''c1'', ct_frameType = ''top-level'', ct_visibilityState = ''visible''\<rparr>
     in [SwFetch demo_request ''c1'' ''r0'' 0, SwMessage (Some ''c1'') ''MOCK_ACTIVATE'' (Some page) [page],
         SwFetch demo_request ''c1'' ''r1'' 1, SwAdvance 0 (GotClient (Some page)), SwAdvance 0 Resume, SwAdvance 0 Resume,
         SwAdvance 0 (GotReply (MOCK_RESPONSE \<lparr>md_status = 204, md_statusText = [], md_headers = [], md_body = None\<rparr>)),
         SwAdvance 0 Resume, SwAdvance 0 Resume])"

lemma demo_run:
  "list_all event_ok demo_events" "length (wk_jobs (worker_run demo_events)) = 1"
  "map (jb_id) (wk_jobs (worker_run demo_events)) = [''r1'']"
  "jb_state (wk_jobs (worker_run demo_events) ! 0) = Responded \<lparr>wr_type = ''default'', wr_status = 204, wr_statusText = [],
     wr_headers = [], wr_body = None, wr_mocked = True\<rparr>"
  by (simp_all add: demo_events_def worker_run_def worker_start_def on_fetch_def on_message_def bypassed_def demo_request_def
      sendToClient_def client_active_def main_of_client_def ask_or_pass_def on_reply_def respondWithMock_def new_response_def
      tell_or_respond_def Let_def)


end
