(* ===== verification/Wiring.thy ===== *)
theory Wiring
  imports Kit
begin

text \<open>
  The outermost wiring of the dashboard and the script that forwards to a container engine:
  \<open>web/src/app/App.tsx\<close>, \<open>web/src/app/providers.tsx\<close>, \<open>web/src/lib/utils.ts\<close> and
  \<open>web/scripts/container.mjs\<close>. Elements are values of \<open>Kit\<close>; the class-name libraries and the
  process interface are parameters.
\<close>

section \<open>app/providers.tsx, app/App.tsx, lib/utils.ts\<close>

record query_defaults =
  qd_staleTime :: int
  qd_retry :: nat
  qd_refetchOnWindowFocus :: bool

definition queryClient_defaults :: query_defaults where
  "queryClient_defaults = \<lparr>qd_staleTime = 30000, qd_retry = 1, qd_refetchOnWindowFocus = False\<rparr>"

text \<open>\<open>useState\<close> with an initializer makes the client once per mount.\<close>

definition AppProviders :: "bool \<Rightarrow> pv \<Rightarrow> pv" where
  "AppProviders dev children = Elem ''QueryClientProvider''
     [(''children'', PArr [children, if dev then Elem ''ReactQueryDevtools'' [(''initialIsOpen'', PBool False)] else PNull]),
      (''client'', POwn ''queryClient'' [])]"

definition App :: "bool \<Rightarrow> pv" where
  "App dev = AppProviders dev (Elem ''RouterProvider'' [(''router'', POwn ''router'' [])])"

definition cn_with :: "('names \<Rightarrow> string) \<Rightarrow> (string \<Rightarrow> string) \<Rightarrow> 'names \<Rightarrow> string" where
  "cn_with clsx twMerge inputs = twMerge (clsx inputs)"

text \<open>The query library's developer tools are part of a development bundle only, and every route is below the
  query client.\<close>

lemma devtools_in_development: "list_ex (\<lambda>e. \<exists>a. e = Elem ''ReactQueryDevtools'' a) (parts (App dev)) \<longleftrightarrow> dev"
  by (simp add: App_def AppProviders_def)

lemma router_below_client: "\<exists>a. App dev = Elem ''QueryClientProvider'' a \<and> Elem ''RouterProvider'' [(''router'', POwn ''router'' [])] \<in> set (parts (App dev))"
  by (simp add: App_def AppProviders_def)

section \<open>scripts/container.mjs\<close>

text \<open>\<open>spawnSync\<close> gives a status, \<open>null\<close> for a process that a signal ended or that did not start, and what the
  process wrote.\<close>

definition ENGINES :: "string list" where
  "ENGINES = [''docker'', ''podman'']"

definition resolveEngine :: "(string list \<Rightarrow> int option \<times> string) \<Rightarrow> string option" where
  "resolveEngine spawn = find (\<lambda>engine.
     let (status, stdout) = spawn [''sh'', ''-c'', ''command -v '' @ engine]
     in status = Some 0 \<and> trim stdout \<noteq> []) ENGINES"

datatype container_effect = Stderr string | Inherit "string list"

definition no_engine_text :: string where
  "no_engine_text = [CHR 0x0A] @ ''No container engine found. Install Docker (https://docs.docker.com/get-docker/)'' @
     [CHR 0x0A] @ ''or Podman (https://podman.io/), then re-run.'' @ [CHR 0x0A, CHR 0x0A]"

text \<open>What the script writes and starts, and its exit code; \<open>args\<close> are the arguments it was given and
  \<open>inherit\<close> the status of the engine's process.\<close>

definition container ::
  "(string list \<Rightarrow> int option \<times> string) \<Rightarrow> (string list \<Rightarrow> int option) \<Rightarrow> string list \<Rightarrow> container_effect list \<times> int" where
  "container spawn inherit args = (case resolveEngine spawn of
       None \<Rightarrow> ([Stderr no_engine_text], 1)
     | Some engine \<Rightarrow>
         ([Stderr (''> '' @ engine @ '' '' @ join '' '' args @ [CHR 0x0A, CHR 0x0A]), Inherit (engine # args)],
          the_default 1 (inherit (engine # args))))"

text \<open>Docker wins over Podman; a shell that answers with an empty line does not count.\<close>

lemma docker_first:
  "spawn [''sh'', ''-c'', ''command -v docker''] = (Some 0, out) \<Longrightarrow> trim out \<noteq> [] \<Longrightarrow> resolveEngine spawn = Some ''docker''"
  by (simp add: resolveEngine_def ENGINES_def)

lemma engine_known: "resolveEngine spawn = Some e \<Longrightarrow> e \<in> set ENGINES \<and> fst (spawn [''sh'', ''-c'', ''command -v '' @ e]) = Some 0"
  by (auto simp: resolveEngine_def find_Some_iff in_set_conv_nth case_prod_beta)

text \<open>The script succeeds exactly when it found an engine whose process did, and it hands the arguments on as they
  are.\<close>

lemma container_exit:
  "snd (container spawn inherit args) = 0 \<longleftrightarrow> (\<exists>e. resolveEngine spawn = Some e \<and> inherit (e # args) = Some 0)"
  by (auto simp: container_def the_default_def split: option.splits)

lemma container_starts:
  "Inherit xs \<in> set (fst (container spawn inherit args)) \<longleftrightarrow> (\<exists>e. resolveEngine spawn = Some e \<and> xs = e # args)"
  by (auto simp: container_def split: option.splits)

end
