(* ===== verification/TestingLibrary.thy ===== *)
theory TestingLibrary
  imports View
begin

text \<open>
  The interaction tests of the stories (\<open>web/src/features/**/*.stories.tsx\<close>) as programs over a rendered
  component. The testing library finds an element by its label, placeholder or role and name, and throws
  unless exactly one matches; an event on a disabled element does nothing; typing sends one event per key.
  Throwing is \<open>None\<close>. A component's callbacks are mock functions that record their calls.

  A test that does not throw is a session of a user (\<open>play_is_session\<close>).
\<close>

section \<open>Steps\<close>

text \<open>\<open>Types l t\<close>: \<open>userEvent.type\<close> into the field labelled \<open>l\<close>; \<open>Clicks b\<close>: click on the button \<open>b\<close>;
  \<open>Flips l\<close>: click on the switch \<open>l\<close>; \<open>Ticks n\<close>: click on the \<open>n\<close>-th of all check boxes; \<open>Expects l v\<close>:
  the field labelled \<open>l\<close> holds \<open>v\<close>.\<close>

datatype user_action =
    Types string string
  | Clicks string
  | Flips string
  | Ticks nat
  | Expects string string

fun labelled :: "string \<Rightarrow> 'm node \<Rightarrow> bool" where
  "labelled l (Field k x e f) \<longleftrightarrow> k = l"
| "labelled l (Choice k options x e f) \<longleftrightarrow> k = l"
| "labelled l (Select k labels x e f) \<longleftrightarrow> k = l"
| "labelled l (Check k b e f) \<longleftrightarrow> k = l"
| "labelled l _ \<longleftrightarrow> False"

fun button_named :: "string \<Rightarrow> 'm node \<Rightarrow> bool" where
  "button_named l (Button k e m) \<longleftrightarrow> k = l"
| "button_named l _ \<longleftrightarrow> False"

fun ticked_box :: "'m node \<Rightarrow> bool" where
  "ticked_box (Check k b e f) \<longleftrightarrow> True"
| "ticked_box _ \<longleftrightarrow> False"

definition the_one :: "('a \<Rightarrow> bool) \<Rightarrow> 'a list \<Rightarrow> 'a option" where
  "the_one p xs = (case filter p xs of [x] \<Rightarrow> Some x | _ \<Rightarrow> None)"

text \<open>The message of a key or a click, if the element takes one; \<open>Some None\<close> for a disabled element.\<close>

fun key_message :: "char \<Rightarrow> 'm node \<Rightarrow> 'm option option" where
  "key_message c (Field k x e f) = Some (if e then Some (f (x @ [c])) else None)"
| "key_message c _ = None"

fun click_message :: "'m node \<Rightarrow> 'm option option" where
  "click_message (Button k e m) = Some (if e then Some m else None)"
| "click_message (Check k b e f) = Some (if e then Some (f (\<not> b)) else None)"
| "click_message _ = None"

fun field_value :: "'m node \<Rightarrow> string option" where
  "field_value (Field k x e f) = Some x"
| "field_value _ = None"

definition react :: "('s \<Rightarrow> 'm \<Rightarrow> 's \<times> 'e list) \<Rightarrow> 's \<times> 'e list \<Rightarrow> 'm option \<Rightarrow> 's \<times> 'e list" where
  "react update r message = (case message of None \<Rightarrow> r
     | Some m \<Rightarrow> (fst (update (fst r) m), snd r @ snd (update (fst r) m)))"

definition react_to :: "('s \<Rightarrow> 'm \<Rightarrow> 's \<times> 'e list) \<Rightarrow> 's \<times> 'e list \<Rightarrow> 'm option option \<Rightarrow> ('s \<times> 'e list) option" where
  "react_to update r message = map_option (react update r) message"

fun type_keys :: "('s \<Rightarrow> 'm node list) \<Rightarrow> ('s \<Rightarrow> 'm \<Rightarrow> 's \<times> 'e list) \<Rightarrow> string \<Rightarrow> string \<Rightarrow>
    's \<times> 'e list \<Rightarrow> ('s \<times> 'e list) option" where
  "type_keys view update l [] r = Some r"
| "type_keys view update l (c # cs) r = Option.bind
     (react_to update r (Option.bind (the_one (labelled l) (view (fst r))) (key_message c)))
     (type_keys view update l cs)"

fun test_step :: "('s \<Rightarrow> 'm node list) \<Rightarrow> ('s \<Rightarrow> 'm \<Rightarrow> 's \<times> 'e list) \<Rightarrow> user_action \<Rightarrow>
    's \<times> 'e list \<Rightarrow> ('s \<times> 'e list) option" where
  "test_step view update (Types l t) r = type_keys view update l t r"
| "test_step view update (Clicks b) r =
     react_to update r (Option.bind (the_one (button_named b) (view (fst r))) click_message)"
| "test_step view update (Flips l) r =
     react_to update r (Option.bind (the_one (\<lambda>n. labelled l n \<and> ticked_box n) (view (fst r))) click_message)"
| "test_step view update (Ticks i) r = (let boxes = filter ticked_box (view (fst r))
     in if i < length boxes then react_to update r (click_message (boxes ! i)) else None)"
| "test_step view update (Expects l v) r =
     (if Option.bind (the_one (labelled l) (view (fst r))) field_value = Some v then Some r else None)"

fun play :: "('s \<Rightarrow> 'm node list) \<Rightarrow> ('s \<Rightarrow> 'm \<Rightarrow> 's \<times> 'e list) \<Rightarrow> user_action list \<Rightarrow>
    's \<times> 'e list \<Rightarrow> ('s \<times> 'e list) option" where
  "play view update [] r = Some r"
| "play view update (e # es) r = Option.bind (test_step view update e r) (play view update es)"

text \<open>The calls a test's component has made when the test is through, and its last assertion.\<close>

definition test_calls :: "('s \<Rightarrow> 'm node list) \<Rightarrow> ('s \<Rightarrow> 'm \<Rightarrow> 's \<times> 'e list) \<Rightarrow> 's \<Rightarrow> user_action list \<Rightarrow> 'e list option" where
  "test_calls view update s es = map_option snd (play view update es (s, []))"

definition toHaveBeenCalledWith :: "'e list option \<Rightarrow> 'e \<Rightarrow> bool" where
  "toHaveBeenCalledWith cs e = (case cs of None \<Rightarrow> False | Some es \<Rightarrow> e \<in> set es)"

definition toHaveBeenCalled :: "'e list option \<Rightarrow> bool" where
  "toHaveBeenCalled cs = (case cs of None \<Rightarrow> False | Some es \<Rightarrow> es \<noteq> [])"

section \<open>Typing into a field\<close>

text \<open>A field that is on the screen and enabled as long as \<open>p\<close> holds of the state, shows \<open>val\<close> and whose
  handler overwrites it: typing is one overwrite with the whole text.\<close>

lemma type_field:
  assumes field: "\<And>s. p s \<Longrightarrow> the_one (labelled l) (view s) = Some (Field l (val s) True f)"
    and handler: "\<And>s v. update s (f v) = (upd v s, [])"
    and keeps: "\<And>s v. p s \<Longrightarrow> p (upd v s)"
    and overwrites: "\<And>s v w. val (upd v s) = v \<and> upd v (upd w s) = upd v s"
    and "p s" "t \<noteq> []"
  shows "type_keys view update l t (s, out) = Some (upd (val s @ t) s, out)"
  using \<open>p s\<close> \<open>t \<noteq> []\<close>
proof (induction t arbitrary: s)
  case (Cons c cs)
  then have "react_to update (s, out) (Option.bind (the_one (labelled l) (view s)) (key_message c)) =
      Some (upd (val s @ [c]) s, out)"
    by (simp add: field handler react_to_def react_def)
  then show ?case
    using Cons.IH [of "upd (val s @ [c]) s"] Cons.prems keeps [of s] by (cases cs) (simp_all add: overwrites)
qed simp

section \<open>A test is a session\<close>

lemma the_one_in: "the_one p xs = Some x \<Longrightarrow> x \<in> set xs"
proof -
  assume "the_one p xs = Some x"
  then have "filter p xs = [x]" by (simp add: the_one_def split: list.splits)
  then have "x \<in> set (filter p xs)" by simp
  then show ?thesis by simp
qed

lemma key_offered: "n \<in> set v \<Longrightarrow> key_message c n = Some (Some m) \<Longrightarrow> offers v m"
  by (cases n) (auto split: if_splits intro: offers.type_in)

lemma click_offered: "n \<in> set v \<Longrightarrow> click_message n = Some (Some m) \<Longrightarrow> offers v m"
  by (cases n) (auto split: if_splits intro: offers.press offers.tick)

text \<open>Properties of a test do not change, so every output carries the same ones.\<close>

lemma used_to_append:
  "used_to ps view update s out s1 \<Longrightarrow> used_to ps view update s1 out1 s2 \<Longrightarrow> used_to ps view update s (out @ out1) s2"
  by (induction rule: used_to.induct) (auto dest: used_to.act)

lemma react_session:
  assumes "\<And>m. message = Some m \<Longrightarrow> offers (view (fst r)) m"
  shows "\<exists>out. used_to {()} (\<lambda>_. view) (\<lambda>_. update) (fst r) (map (Pair ()) out) (fst (react update r message)) \<and>
    snd (react update r message) = snd r @ out"
proof (cases message)
  case None
  then show ?thesis by (auto simp: react_def intro: used_to.idle)
next
  case (Some m)
  obtain s1 out where u: "update (fst r) m = (s1, out)" by force
  have "used_to {()} (\<lambda>_. view) (\<lambda>_. update) (fst r) (map (Pair ()) out @ []) s1"
    by (rule used_to.act [where m = m]) (use assms Some u in \<open>auto intro: used_to.idle\<close>)
  then show ?thesis using Some u by (auto simp: react_def)
qed

definition session_of where
  "session_of view update r q \<longleftrightarrow> (\<exists>out. used_to {()} (\<lambda>_. view) (\<lambda>_. update) (fst r) (map (Pair ()) out) (fst q) \<and>
     snd q = snd r @ out)"

lemma session_idle: "session_of view update r r"
  by (auto simp: session_of_def intro: used_to.idle)

lemma session_trans: "session_of view update r q \<Longrightarrow> session_of view update q p \<Longrightarrow> session_of view update r p"
  unfolding session_of_def by (fastforce dest: used_to_append simp flip: map_append)

lemma react_to_session:
  assumes "react_to update r message = Some q" and "\<And>m. message = Some (Some m) \<Longrightarrow> offers (view (fst r)) m"
  shows "session_of view update r q"
  using assms react_session [of _ view r update] by (auto simp: react_to_def session_of_def)

lemma type_keys_session: "type_keys view update l t r = Some q \<Longrightarrow> session_of view update r q"
proof (induction t arbitrary: r)
  case (Cons c cs)
  then obtain p where p: "react_to update r (Option.bind (the_one (labelled l) (view (fst r))) (key_message c)) = Some p"
    "type_keys view update l cs p = Some q" by (auto simp: bind_eq_Some_conv)
  have "session_of view update r p"
    by (rule react_to_session [OF p(1)]) (auto simp: bind_eq_Some_conv dest: the_one_in intro: key_offered)
  then show ?case using Cons.IH [OF p(2)] by (rule session_trans)
qed (simp add: session_idle)

lemma click_session:
  assumes "react_to update r (Option.bind (the_one p (view (fst r))) click_message) = Some q"
  shows "session_of view update r q"
proof (rule react_to_session [OF assms])
  fix m assume "Option.bind (the_one p (view (fst r))) click_message = Some (Some m)"
  then obtain n where "the_one p (view (fst r)) = Some n" "click_message n = Some (Some m)"
    by (auto simp: bind_eq_Some_conv)
  then show "offers (view (fst r)) m" by (rule click_offered [OF the_one_in])
qed

lemma test_step_session: "test_step view update e r = Some q \<Longrightarrow> session_of view update r q"
proof (cases e)
  case (Ticks i)
  assume "test_step view update e r = Some q"
  then have i: "i < length (filter ticked_box (view (fst r)))"
    and q: "react_to update r (click_message (filter ticked_box (view (fst r)) ! i)) = Some q"
    using Ticks by (auto simp: Let_def split: if_splits)
  have "filter ticked_box (view (fst r)) ! i \<in> set (view (fst r))" using nth_mem [OF i] by simp
  then show ?thesis by (intro react_to_session [OF q]) (rule click_offered)
qed (auto dest: type_keys_session click_session simp: session_idle split: if_splits)

lemma play_session: "play view update es r = Some q \<Longrightarrow> session_of view update r q"
  by (induction es arbitrary: r) (auto simp: session_idle bind_eq_Some_conv dest: test_step_session intro: session_trans)

lemma play_is_session:
  assumes "test_calls view update s es = Some out"
  shows "\<exists>t. used_to {()} (\<lambda>_. view) (\<lambda>_. update) s (map (Pair ()) out) t"
  using assms play_session [of view update es "(s, [])"] by (auto simp: test_calls_def session_of_def)

section \<open>Looks\<close>

text \<open>What a node looks like, without its handler.\<close>

datatype appearance = Text string | Control string string string bool

fun look :: "'m node \<Rightarrow> appearance" where
  "look (Says t) = Text t"
| "look (Alert t) = Control ''alert'' t [] True"
| "look (Badge v t) = Control ''badge'' t v True"
| "look Placeholder = Control ''skeleton'' [] [] True"
| "look (Link l p) = Control ''link'' l p True"
| "look (Button l e m) = Control ''button'' l [] e"
| "look (Field l x e f) = Control ''textbox'' l x e"
| "look (Choice l options x e f) = Control ''combobox'' l (the_default x (map_of options x)) e"
| "look (Select l labels i e f) = Control ''combobox'' l (if 0 \<le> i \<and> nat i < length labels then labels ! nat i else []) e"
| "look (Check l b e f) = Control ''checkbox'' l (if b then ''on'' else ''off'') e"

abbreviation looks :: "'m node list \<Rightarrow> appearance list" where
  "looks v \<equiv> map look v"

lemma looks_map_node [simp]: "looks (map (map_node f) v) = looks v"
proof -
  have "look (map_node f n) = look n" for n by (cases n) simp_all
  then show ?thesis by simp
qed

end
