(* ===== verification/Stories.thy ===== *)
theory Stories
  imports TestingLibrary AdminPages ProjectPages
begin

text \<open>
  The stories of the dashboard's components (\<open>web/src/features/**/*.stories.tsx\<close> and
  \<open>web/src/components/*.stories.tsx\<close>): the fixtures of a file, the screens of its stories and, as a
  truth value, its interaction test. A story is the component with the story's arguments in its initial
  state. \<open>fmt\<close> and \<open>fmtn\<close> are \<open>toLocaleString\<close>; an argument that only changes the styling is left out.
\<close>

section \<open>Projects/ProjectList\<close>

definition ProjectList_projects :: "project list" where
  "ProjectList_projects =
     [\<lparr>pr_id = ''1'', pr_organization_id = ''t1'', pr_key = ''checkout'', pr_name = ''Checkout'',
     pr_created_at = ''2026-07-12T00:00:00Z'', pr_updated_at = ''2026-07-12T00:00:00Z''\<rparr>,
     \<lparr>pr_id = ''2'', pr_organization_id = ''t1'', pr_key = ''mobile-app'', pr_name = ''Mobile App'',
     pr_created_at = ''2026-07-12T00:00:00Z'', pr_updated_at = ''2026-07-12T00:00:00Z''\<rparr>]"

definition ProjectList_stories :: "string \<times> (string \<times> appearance list) list" where
  "ProjectList_stories = (''Projects/ProjectList'',
    [(''Default'', looks (ProjectList False False None ProjectList_projects)),
     (''Empty'', looks (ProjectList False False None []))])"

section \<open>Projects/ProjectSwitcher\<close>

definition ProjectSwitcher_projects :: "project list" where
  "ProjectSwitcher_projects =
     [\<lparr>pr_id = ''p1'', pr_organization_id = ''t1'', pr_key = ''checkout'', pr_name = ''Checkout'',
     pr_created_at = ''2026-07-12T00:00:00Z'', pr_updated_at = ''2026-07-12T00:00:00Z''\<rparr>,
     \<lparr>pr_id = ''p2'', pr_organization_id = ''t1'', pr_key = ''mobile-app'', pr_name = ''Mobile App'',
     pr_created_at = ''2026-07-12T00:00:00Z'', pr_updated_at = ''2026-07-12T00:00:00Z''\<rparr>]"

definition ProjectSwitcher_stories :: "string \<times> (string \<times> appearance list) list" where
  "ProjectSwitcher_stories = (''Projects/ProjectSwitcher'',
    [(''Default'', looks (ProjectSwitcher False ProjectSwitcher_projects ''checkout'' () (\<lambda>_. ())))])"

section \<open>Projects/CreateProjectDialog\<close>

definition CreateProjectDialog_stories :: "string \<times> (string \<times> appearance list) list" where
  "CreateProjectDialog_stories = (''Projects/CreateProjectDialog'',
    [(''Default'', looks (CreateProjectDialog \<lparr>dp_open = True, dp_busy = False,
     dp_error = None\<rparr> blank_keyed)),
     (''Creating'', looks (CreateProjectDialog \<lparr>dp_open = True, dp_busy = True,
     dp_error = None\<rparr> blank_keyed)),
     (''WithError'', looks (CreateProjectDialog \<lparr>dp_open = True, dp_busy = False,
     dp_error = Some ''Could not create project - the key may already be taken.''\<rparr> blank_keyed))])"

definition CreateProjectDialog_play :: bool where
  "CreateProjectDialog_play \<longleftrightarrow> toHaveBeenCalledWith (test_calls (CreateProjectDialog \<lparr>dp_open = True, dp_busy = False, dp_error = None\<rparr>)
     project_update blank_keyed
     [Types ''Name'' ''Mobile App'',
      Expects ''Key'' ''mobile-app'',
      Clicks ''Create project'']) (Emitted (''mobile-app'', ''Mobile App''))"

section \<open>Organizations/OrganizationList\<close>

definition OrganizationList_organizations :: "organization list" where
  "OrganizationList_organizations =
     [\<lparr>or_id = ''1'', or_slug = ''acme'', or_name = ''Acme Inc'', or_created_at = ''2026-07-12T00:00:00Z'',
     or_updated_at = ''2026-07-12T00:00:00Z''\<rparr>, \<lparr>or_id = ''2'', or_slug = ''globex'',
     or_name = ''Globex Corporation'', or_created_at = ''2026-07-12T00:00:00Z'',
     or_updated_at = ''2026-07-12T00:00:00Z''\<rparr>]"

definition OrganizationList_stories :: "string \<times> (string \<times> appearance list) list" where
  "OrganizationList_stories = (''Organizations/OrganizationList'',
    [(''Default'', looks (OrganizationList False False None OrganizationList_organizations)),
     (''Empty'', looks (OrganizationList False False None []))])"

section \<open>Environments/EnvironmentList\<close>

definition EnvironmentList_environments :: "environment list" where
  "EnvironmentList_environments =
     [\<lparr>en_id = ''e1'', en_project_id = ''p1'', en_key = ''production'', en_name = ''Production'',
     en_created_at = ''2026-07-12T00:00:00Z'', en_updated_at = ''2026-07-12T00:00:00Z''\<rparr>,
     \<lparr>en_id = ''e2'', en_project_id = ''p1'', en_key = ''staging'', en_name = ''Staging'',
     en_created_at = ''2026-07-12T00:00:00Z'', en_updated_at = ''2026-07-12T00:00:00Z''\<rparr>]"

definition EnvironmentList_stories :: "string \<times> (string \<times> appearance list) list" where
  "EnvironmentList_stories = (''Environments/EnvironmentList'',
    [(''Default'', looks ((EnvironmentList EnvironmentList_environments) :: unit node list)),
     (''Empty'', looks ((EnvironmentList []) :: unit node list))])"

section \<open>Environments/EnvironmentTabs\<close>

definition EnvironmentTabs_environments :: "environment list" where
  "EnvironmentTabs_environments =
     [\<lparr>en_id = ''e1'', en_project_id = ''p1'', en_key = ''production'', en_name = ''Production'',
     en_created_at = ''2026-07-12T00:00:00Z'', en_updated_at = ''2026-07-12T00:00:00Z''\<rparr>,
     \<lparr>en_id = ''e2'', en_project_id = ''p1'', en_key = ''staging'', en_name = ''Staging'',
     en_created_at = ''2026-07-12T00:00:00Z'', en_updated_at = ''2026-07-12T00:00:00Z''\<rparr>]"

definition EnvironmentTabs_stories :: "string \<times> (string \<times> appearance list) list" where
  "EnvironmentTabs_stories = (''Environments/EnvironmentTabs'',
    [(''Default'', looks (EnvironmentTabs EnvironmentTabs_environments ''production'' (\<lambda>_. ()))),
     (''StagingSelected'', looks (EnvironmentTabs EnvironmentTabs_environments ''staging'' (\<lambda>_. ())))])"

section \<open>Environments/CreateEnvironmentDialog\<close>

definition CreateEnvironmentDialog_stories :: "string \<times> (string \<times> appearance list) list" where
  "CreateEnvironmentDialog_stories = (''Environments/CreateEnvironmentDialog'',
    [(''Default'', looks (CreateEnvironmentDialog \<lparr>dp_open = True, dp_busy = False,
     dp_error = None\<rparr> blank_keyed)),
     (''Creating'', looks (CreateEnvironmentDialog \<lparr>dp_open = True, dp_busy = True,
     dp_error = None\<rparr> blank_keyed))])"

definition CreateEnvironmentDialog_play :: bool where
  "CreateEnvironmentDialog_play \<longleftrightarrow> toHaveBeenCalledWith (test_calls (CreateEnvironmentDialog \<lparr>dp_open = True, dp_busy = False, dp_error = None\<rparr>)
     environment_update blank_keyed
     [Types ''Name'' ''QA'',
      Expects ''Key'' ''qa'',
      Clicks ''Create environment'']) (Emitted (''qa'', ''QA''))"

section \<open>Users/CreateUserDialog\<close>

definition CreateUserDialog_stories :: "string \<times> (string \<times> appearance list) list" where
  "CreateUserDialog_stories = (''Users/CreateUserDialog'',
    [(''Default'', looks (CreateUserDialog False None blank_user_form))])"

section \<open>Users/UserList\<close>

definition UserList_users :: "user list" where
  "UserList_users =
     [\<lparr>us_id = ''1'', us_email = ''ada@example.com'', us_full_name = ''Ada Lovelace'', us_is_superuser = True,
     us_is_active = True, us_created_at = ''2026-07-01T00:00:00Z'', us_updated_at = ''2026-07-01T00:00:00Z''\<rparr>,
     \<lparr>us_id = ''2'', us_email = ''alan@example.com'', us_full_name = ''Alan Turing'', us_is_superuser = False,
     us_is_active = True, us_created_at = ''2026-07-01T00:00:00Z'', us_updated_at = ''2026-07-01T00:00:00Z''\<rparr>,
     \<lparr>us_id = ''3'', us_email = ''grace@example.com'', us_full_name = [], us_is_superuser = False,
     us_is_active = False, us_created_at = ''2026-07-01T00:00:00Z'', us_updated_at = ''2026-07-01T00:00:00Z''\<rparr>]"

definition UserList_stories :: "string \<times> (string \<times> appearance list) list" where
  "UserList_stories = (''Users/UserList'',
    [(''Default'', looks (UserList False None UserList_users)),
     (''Empty'', looks (UserList False None []))])"

section \<open>Auth/UserMenu\<close>

definition UserMenu_stories :: "string \<times> (string \<times> appearance list) list" where
  "UserMenu_stories = (''Auth/UserMenu'',
    [(''Default'', looks (UserMenu False (Some (''admin@flag-it.dev'', ''Miguel Rosales'')) () ())),
     (''NoName'', looks (UserMenu False (Some (''admin@flag-it.dev'', [])) () ())),
     (''Loading'', looks (UserMenu False None () ()))])"

section \<open>Auth/LoginForm\<close>

definition LoginForm_stories :: "string \<times> (string \<times> appearance list) list" where
  "LoginForm_stories = (''Auth/LoginForm'',
    [(''Default'', looks (LoginForm False None \<lparr>lo_email = [], lo_password = []\<rparr>)),
     (''Submitting'', looks (LoginForm True None \<lparr>lo_email = [], lo_password = []\<rparr>)),
     (''WithError'', looks (LoginForm False (Some ''Invalid email or password.'') \<lparr>lo_email = [],
     lo_password = []\<rparr>))])"

definition LoginForm_play :: bool where
  "LoginForm_play \<longleftrightarrow> toHaveBeenCalledWith (test_calls (LoginForm False None)
     login_update \<lparr>lo_email = [], lo_password = []\<rparr>
     [Types ''Email'' ''admin@flag-it.dev'',
      Types ''Password'' ''supersecret123'',
      Clicks ''Sign in'']) \<lparr>li_email = ''admin@flag-it.dev'', li_password = ''supersecret123''\<rparr>"

section \<open>Setup/SetupWizard\<close>

definition SetupWizard_stories :: "string \<times> (string \<times> appearance list) list" where
  "SetupWizard_stories = (''Setup/SetupWizard'',
    [(''Default'', looks (SetupWizard_view False None SetupWizard)),
     (''Submitting'', looks (SetupWizard_view True None SetupWizard))])"

definition SetupWizard_play :: bool where
  "SetupWizard_play \<longleftrightarrow> toHaveBeenCalledWith (test_calls (SetupWizard_view False None)
     wizard_update SetupWizard
     [Types ''Email'' ''admin@flag-it.dev'',
      Types ''Password'' ''supersecret123'',
      Clicks ''Continue'',
      Types ''Organization name'' ''Acme Inc'',
      Expects ''Organization slug'' ''acme-inc'',
      Clicks ''Finish setup''])
      \<lparr>su_email = ''admin@flag-it.dev'', su_password = ''supersecret123'', su_full_name = None,
       su_organization_slug = Some ''acme-inc'', su_organization_name = Some ''Acme Inc''\<rparr>"

section \<open>Segments/SegmentList\<close>

definition SegmentList_segments :: "segment list" where
  "SegmentList_segments =
     [\<lparr>sg_id = ''s1'', sg_project_id = ''p1'', sg_key = ''beta-users'', sg_name = ''Beta users'',
     sg_description = ''Early-access cohort.'', sg_included = [''user-1'', ''user-2''], sg_excluded = [],
     sg_included_contexts = [], sg_excluded_contexts = [], sg_rules = [\<lparr>sr_id = None,
     sr_clauses = [\<lparr>cl_contextKind = Some ''user'', cl_attribute = Some ''plan'', cl_op = ''in'',
     cl_values = [JStr ''pro''], cl_negate = None\<rparr>], sr_weight = None, sr_bucketBy = None,
     sr_rolloutContextKind = None\<rparr>], sg_version = 2, sg_created_at = ''2026-07-12T00:00:00Z'',
     sg_updated_at = ''2026-07-12T00:00:00Z''\<rparr>, \<lparr>sg_id = ''s2'', sg_project_id = ''p1'',
     sg_key = ''internal'', sg_name = ''Internal staff'', sg_description = [], sg_included = [], sg_excluded = [],
     sg_included_contexts = [], sg_excluded_contexts = [], sg_rules = [], sg_version = 1,
     sg_created_at = ''2026-07-12T00:00:00Z'', sg_updated_at = ''2026-07-12T00:00:00Z''\<rparr>]"

definition SegmentList_stories :: "string \<times> (string \<times> appearance list) list" where
  "SegmentList_stories = (''Segments/SegmentList'',
    [(''Default'', looks (SegmentList SegmentList_segments)),
     (''Empty'', looks (SegmentList []))])"

section \<open>Segments/ClauseEditor\<close>

definition ClauseEditor_clause :: "clause" where
  "ClauseEditor_clause =
     \<lparr>cl_contextKind = Some ''user'', cl_attribute = Some ''country'', cl_op = ''in'',
     cl_values = [JStr ''US'', JStr ''CA''], cl_negate = Some False\<rparr>"

definition ClauseEditor_stories :: "string \<times> (string \<times> appearance list) list" where
  "ClauseEditor_stories = (''Segments/ClauseEditor'',
    [(''Default'',
     looks (ClauseEditor False ClauseEditor_clause (displayValues (cl_values ClauseEditor_clause)) (\<lambda>_. ()) ()))])"

section \<open>Segments/RuleEditor\<close>

definition RuleEditor_rule :: "segment_rule" where
  "RuleEditor_rule =
     \<lparr>sr_id = None, sr_clauses = [\<lparr>cl_contextKind = Some ''user'', cl_attribute = Some ''plan'',
     cl_op = ''in'', cl_values = [JStr ''pro''], cl_negate = Some False\<rparr>,
     \<lparr>cl_contextKind = Some ''user'', cl_attribute = Some ''country'', cl_op = ''in'',
     cl_values = [JStr ''US''], cl_negate = Some False\<rparr>], sr_weight = None, sr_bucketBy = None,
     sr_rolloutContextKind = None\<rparr>"

definition RuleEditor_stories :: "string \<times> (string \<times> appearance list) list" where
  "RuleEditor_stories = (''Segments/RuleEditor'',
    [(''Default'', looks (RuleEditor False 0 RuleEditor_rule (mounted [] (sr_clauses RuleEditor_rule))))])"

section \<open>Segments/SegmentEditor\<close>

definition SegmentEditor_segment :: "segment" where
  "SegmentEditor_segment =
     \<lparr>sg_id = ''s1'', sg_project_id = ''p1'', sg_key = ''beta-users'', sg_name = ''Beta users'',
     sg_description = ''Early-access cohort.'', sg_included = [''user-1'', ''user-2''], sg_excluded = [''user-9''],
     sg_included_contexts = [], sg_excluded_contexts = [], sg_rules = [\<lparr>sr_id = None,
     sr_clauses = [\<lparr>cl_contextKind = Some ''user'', cl_attribute = Some ''plan'', cl_op = ''in'',
     cl_values = [JStr ''pro''], cl_negate = None\<rparr>], sr_weight = None, sr_bucketBy = None,
     sr_rolloutContextKind = None\<rparr>], sg_version = 3, sg_created_at = ''2026-07-12T00:00:00Z'',
     sg_updated_at = ''2026-07-12T00:00:00Z''\<rparr>"

definition SegmentEditor_stories :: "string \<times> (string \<times> appearance list) list" where
  "SegmentEditor_stories = (''Segments/SegmentEditor'',
    [(''Default'', looks (SegmentEditor_view SegmentEditor_segment False None (SegmentEditor SegmentEditor_segment))),
     (''Saving'', looks (SegmentEditor_view SegmentEditor_segment True None (SegmentEditor SegmentEditor_segment)))])"

section \<open>Segments/SegmentTargetsEditor\<close>

definition SegmentTargetsEditor_stories :: "string \<times> (string \<times> appearance list) list" where
  "SegmentTargetsEditor_stories = (''Segments/SegmentTargetsEditor'',
    [(''Default'', looks (SegmentTargetsEditor ''Included'' [''user-1'', ''user-2''] [])),
     (''Empty'', looks (SegmentTargetsEditor ''Included'' [] []))])"

definition SegmentTargetsEditor_play :: bool where
  "SegmentTargetsEditor_play \<longleftrightarrow> toHaveBeenCalledWith (test_calls (SegmentTargetsEditor ''Included'' [''user-1'', ''user-2''])
     (\<lambda>draft m. case targets_update [''user-1'', ''user-2''] draft m of
       (draft1, next) \<Rightarrow> (draft1, case next of None \<Rightarrow> [] | Some values \<Rightarrow> [values])) []
     [Types ''Add a context key'' ''user-3'',
      Clicks ''Add'']) [''user-1'', ''user-2'', ''user-3'']"

section \<open>Segments/SegmentRulesEditor\<close>

definition SegmentRulesEditor_rules :: "segment_rule list" where
  "SegmentRulesEditor_rules =
     [\<lparr>sr_id = None, sr_clauses = [\<lparr>cl_contextKind = Some ''user'', cl_attribute = Some ''plan'',
     cl_op = ''in'', cl_values = [JStr ''pro''], cl_negate = Some False\<rparr>], sr_weight = None,
     sr_bucketBy = None, sr_rolloutContextKind = None\<rparr>]"

definition SegmentRulesEditor_stories :: "string \<times> (string \<times> appearance list) list" where
  "SegmentRulesEditor_stories = (''Segments/SegmentRulesEditor'',
    [(''Default'', looks (SegmentRulesEditor False SegmentRulesEditor_rules (retexts [] SegmentRulesEditor_rules))),
     (''Empty'', looks (SegmentRulesEditor False [] []))])"

definition SegmentRulesEditor_play :: bool where
  "SegmentRulesEditor_play \<longleftrightarrow> toHaveBeenCalled (test_calls (SegmentRulesEditor False [])
     (\<lambda>texts m. (retexts (typed [] texts m) [], [segment_rules [] m])) []
     [Clicks ''Add rule''])"

section \<open>Segments/CreateSegmentDialog\<close>

definition CreateSegmentDialog_stories :: "string \<times> (string \<times> appearance list) list" where
  "CreateSegmentDialog_stories = (''Segments/CreateSegmentDialog'',
    [(''Default'', looks (CreateSegmentDialog \<lparr>dp_open = True, dp_busy = False,
     dp_error = None\<rparr> blank_segment_form))])"

definition CreateSegmentDialog_play :: bool where
  "CreateSegmentDialog_play \<longleftrightarrow> toHaveBeenCalledWith (test_calls (CreateSegmentDialog \<lparr>dp_open = True, dp_busy = False, dp_error = None\<rparr>)
     segment_form_update blank_segment_form
     [Types ''Name'' ''Beta users'',
      Expects ''Key'' ''beta-users'',
      Clicks ''Create segment'']) (Emitted \<lparr>cs_key = ''beta-users'', cs_name = ''Beta users'', cs_description = Some []\<rparr>)"

section \<open>Audit/AuditList\<close>

definition AuditList_entries :: "audit_entry list" where
  "AuditList_entries =
     [\<lparr>au_id = ''a1'', au_actor_email = ''ada@example.com'', au_action = ''flag.config.patched'',
     au_resource_type = ''flag'', au_resource_key = ''new-checkout'', au_comment = Some ''Launch for GA'',
     au_created_at = ''2026-07-13T12:00:00Z''\<rparr>, \<lparr>au_id = ''a2'', au_actor_email = ''alan@example.com'',
     au_action = ''change.approved'', au_resource_type = ''flag'', au_resource_key = ''pricing-tier'',
     au_comment = None, au_created_at = ''2026-07-13T11:30:00Z''\<rparr>, \<lparr>au_id = ''a3'',
     au_actor_email = ''grace@example.com'', au_action = ''sdk_key.revoked'', au_resource_type = ''sdk_key'',
     au_resource_key = ''k-123'', au_comment = None, au_created_at = ''2026-07-13T10:00:00Z''\<rparr>]"

definition AuditList_stories :: "(string \<Rightarrow> string) \<Rightarrow> string \<times> (string \<times> appearance list) list" where
  "AuditList_stories fmt = (''Audit/AuditList'',
    [(''Default'', looks ((AuditList fmt AuditList_entries) :: unit node list)),
     (''Empty'', looks ((AuditList fmt []) :: unit node list))])"

section \<open>Approvals/ChangeRequestList\<close>

definition ChangeRequestList_changes :: "change_request list" where
  "ChangeRequestList_changes =
     [\<lparr>cr_id = ''c1'', cr_project_id = ''web'', cr_environment_id = ''production'',
     cr_environment_key = ''production'', cr_flag_key = ''new-checkout'',
     cr_instructions = [instruction ''turnFlagOn''], cr_comment = ''Launch checkout for GA'', cr_status = ChPending,
     cr_requested_by = ''u1'', cr_requested_by_email = ''ada@example.com'', cr_reviewed_by = None,
     cr_reviewed_by_email = None, cr_review_comment = None, cr_created_at = ''2026-07-12T10:00:00Z'',
     cr_reviewed_at = None\<rparr>, \<lparr>cr_id = ''c2'', cr_project_id = ''web'',
     cr_environment_id = ''production'', cr_environment_key = ''production'', cr_flag_key = ''new-checkout'',
     cr_instructions = [instruction ''turnFlagOff''], cr_comment = [], cr_status = ChApproved,
     cr_requested_by = ''u1'', cr_requested_by_email = ''ada@example.com'', cr_reviewed_by = Some ''u2'',
     cr_reviewed_by_email = Some ''alan@example.com'', cr_review_comment = Some ''LGTM'',
     cr_created_at = ''2026-07-12T10:00:00Z'', cr_reviewed_at = Some ''2026-07-12T11:00:00Z''\<rparr>]"

definition ChangeRequestList_stories :: "(string \<Rightarrow> string) \<Rightarrow> string \<times> (string \<times> appearance list) list" where
  "ChangeRequestList_stories fmt = (''Approvals/ChangeRequestList'',
    [(''Default'', looks (ChangeRequestList fmt True False ChangeRequestList_changes)),
     (''Empty'', looks (ChangeRequestList fmt True False [])),
     (''ReadOnly'', looks (ChangeRequestList fmt False False ChangeRequestList_changes))])"

section \<open>Contexts/ExpectedVariationsTable\<close>

definition ExpectedVariationsTable_evaluations :: "context_evaluation list" where
  "ExpectedVariationsTable_evaluations =
     [\<lparr>ce_flag_key = ''dark-mode'', ce_variation = 0, ce_value = JBool True,
     ce_reason = ''FALLTHROUGH''\<rparr>, \<lparr>ce_flag_key = ''pricing-tier'', ce_variation = 1,
     ce_value = JStr ''pro'', ce_reason = ''RULE_MATCH''\<rparr>]"

definition ExpectedVariationsTable_stories :: "string \<times> (string \<times> appearance list) list" where
  "ExpectedVariationsTable_stories = (''Contexts/ExpectedVariationsTable'',
    [(''Default'', looks ((ExpectedVariationsTable ExpectedVariationsTable_evaluations) :: unit node list)),
     (''Empty'', looks ((ExpectedVariationsTable []) :: unit node list))])"

section \<open>Contexts/ContextList\<close>

definition ContextList_contexts :: "seen_context list" where
  "ContextList_contexts =
     [\<lparr>sn_id = ''c1'', sn_environment_id = ''e1'', sn_kind = ''user'', sn_key = ''alice'',
     sn_attributes = [(''plan'', JStr ''pro'')], sn_first_seen = ''2026-07-12T00:00:00Z'',
     sn_last_seen = ''2026-07-12T09:20:00Z''\<rparr>, \<lparr>sn_id = ''c2'', sn_environment_id = ''e1'',
     sn_kind = ''account'', sn_key = ''acme-corp'', sn_attributes = [(''tier'', JStr ''enterprise'')],
     sn_first_seen = ''2026-07-12T00:00:00Z'', sn_last_seen = ''2026-07-12T09:10:00Z''\<rparr>]"

definition ContextList_stories :: "(string \<Rightarrow> string) \<Rightarrow> string \<times> (string \<times> appearance list) list" where
  "ContextList_stories fmt = (''Contexts/ContextList'',
    [(''Default'', looks (ContextList fmt ContextList_contexts)),
     (''Empty'', looks (ContextList fmt []))])"

section \<open>Flags/TriggersCard\<close>

definition TriggersCard_triggers :: "flag_trigger list" where
  "TriggersCard_triggers =
     [\<lparr>tr_id = ''t1'', tr_project_id = ''web'', tr_environment_id = ''production'',
     tr_environment_key = ''production'', tr_flag_key = ''kill-switch'', tr_action = TrOff,
     tr_description = ''PagerDuty incident webhook'', tr_enabled = True, tr_exec_count = 3, tr_created_by = ''u1'',
     tr_created_by_email = ''ada@example.com'', tr_created_at = ''2026-07-13T09:00:00Z'',
     tr_last_executed_at = Some ''2026-07-13T12:00:00Z'', tr_token = None, tr_url = None\<rparr>,
     \<lparr>tr_id = ''t2'', tr_project_id = ''web'', tr_environment_id = ''production'',
     tr_environment_key = ''production'', tr_flag_key = ''kill-switch'', tr_action = TrOn,
     tr_description = ''Manual re-enable'', tr_enabled = False, tr_exec_count = 0, tr_created_by = ''u1'',
     tr_created_by_email = ''ada@example.com'', tr_created_at = ''2026-07-13T09:00:00Z'', tr_last_executed_at = None,
     tr_token = None, tr_url = None\<rparr>]"

definition TriggersCard_stories :: "(string \<Rightarrow> string) \<Rightarrow> string \<times> (string \<times> appearance list) list" where
  "TriggersCard_stories fmt = (''Flags/TriggersCard'',
    [(''Default'', looks (TriggersCard fmt False None TriggersCard_triggers)),
     (''Empty'', looks (TriggersCard fmt False None [])),
     (''UrlRevealed'',
     looks (TriggersCard fmt False (Some ''http://localhost:8080/api/v1/triggers/trg_4056cb7182af4e1b'') TriggersCard_triggers))])"

section \<open>Flags/ScheduledChangesCard\<close>

definition ScheduledChangesCard_changes :: "scheduled_change list" where
  "ScheduledChangesCard_changes =
     [\<lparr>sc_id = ''s1'', sc_project_id = ''web'', sc_environment_id = ''production'',
     sc_environment_key = ''production'', sc_flag_key = ''beta'', sc_instructions = [instruction ''turnFlagOn''],
     sc_comment = ''Go live for GA'', sc_scheduled_for = ''2026-07-20T09:00:00Z'', sc_status = ScPending,
     sc_error = None, sc_created_by = ''u1'', sc_created_by_email = ''ada@example.com'',
     sc_created_at = ''2026-07-13T09:00:00Z'', sc_applied_at = None\<rparr>, \<lparr>sc_id = ''s2'',
     sc_project_id = ''web'', sc_environment_id = ''production'', sc_environment_key = ''production'',
     sc_flag_key = ''beta'', sc_instructions = [instruction ''turnFlagOff''], sc_comment = ''Go live for GA'',
     sc_scheduled_for = ''2026-07-20T09:00:00Z'', sc_status = ScApplied, sc_error = None, sc_created_by = ''u1'',
     sc_created_by_email = ''ada@example.com'', sc_created_at = ''2026-07-13T09:00:00Z'',
     sc_applied_at = Some ''2026-07-14T09:00:00Z''\<rparr>]"

definition ScheduledChangesCard_stories :: "(string \<Rightarrow> string) \<Rightarrow> string \<times> (string \<times> appearance list) list" where
  "ScheduledChangesCard_stories fmt = (''Flags/ScheduledChangesCard'',
    [(''Default'', looks (ScheduledChangesCard fmt True False ScheduledChangesCard_changes)),
     (''Empty'', looks (ScheduledChangesCard fmt True False []))])"

section \<open>Flags/RolloutEditor\<close>

definition RolloutEditor_stories :: "string \<times> (string \<times> appearance list) list" where
  "RolloutEditor_stories = (''Flags/RolloutEditor'',
    [(''Default'', looks (RolloutEditor [JBool True, JBool False] [70, 30] False (\<lambda>_ _. ()))),
     (''Uneven'', looks (RolloutEditor [JStr ''free'', JStr ''pro'', JStr ''enterprise''] [50, 30,
     20] False (\<lambda>_ _. ()))),
     (''Invalid'', looks (RolloutEditor [JBool True, JBool False] [60, 30] False (\<lambda>_ _. ())))])"

section \<open>Flags/VariationSelect\<close>

definition VariationSelect_stories :: "string \<times> (string \<times> appearance list) list" where
  "VariationSelect_stories = (''Flags/VariationSelect'',
    [(''Boolean_'', looks (VariationSelect [] [JBool True, JBool False] 0 False (\<lambda>_. ()))),
     (''Strings'', looks (VariationSelect [] [JStr ''free'', JStr ''pro'',
     JStr ''enterprise''] 1 False (\<lambda>_. ())))])"

section \<open>Flags/FlagTargeting\<close>

definition FlagTargeting_flag :: "flag" where
  "FlagTargeting_flag =
     \<lparr>fl_id = ''f1'', fl_project_id = ''p1'', fl_key = ''dark-mode'', fl_name = ''Dark mode'',
     fl_description = [], fl_client_side_available = True, fl_temporary = False, fl_variations = [JBool True,
     JBool False], fl_created_at = ''2026-07-12T00:00:00Z'', fl_updated_at = ''2026-07-12T00:00:00Z''\<rparr>"

definition FlagTargeting_config :: "flag_config" where
  "FlagTargeting_config =
     \<lparr>fc_on = True, fc_off_variation = 1, fc_fallthrough = \<lparr>vr_variation = Some 0,
     vr_rollout = None\<rparr>, fc_targets = [\<lparr>tg_contextKind = ''user'', tg_values = [''user-1''],
     tg_variation = 0\<rparr>], fc_rules = [], fc_version = 3\<rparr>"

definition FlagTargeting_stories :: "string \<times> (string \<times> appearance list) list" where
  "FlagTargeting_stories = (''Flags/FlagTargeting'',
    [(''Default'',
     looks (FlagTargeting_view (fl_variations FlagTargeting_flag) FlagTargeting_config False \<lparr>it_key = [],
     it_variation = 0\<rparr>))])"

section \<open>Flags/FlagLifecycleList\<close>

definition FlagLifecycleList_flags :: "flag_lifecycle list" where
  "FlagLifecycleList_flags =
     [\<lparr>lf_flag = \<lparr>fl_id = ''f1'', fl_project_id = ''web'', fl_key = ''new-checkout'',
     fl_name = ''New checkout'', fl_description = [], fl_client_side_available = False, fl_temporary = True,
     fl_variations = [JBool True, JBool False], fl_created_at = ''2026-07-01T00:00:00Z'',
     fl_updated_at = ''2026-07-01T00:00:00Z''\<rparr>, lf_status = LcActive,
     lf_last_evaluated = Some ''2026-07-12T00:00:00Z''\<rparr>, \<lparr>lf_flag = \<lparr>fl_id = ''f2'',
     fl_project_id = ''web'', fl_key = ''old-banner'', fl_name = ''Old banner'', fl_description = [],
     fl_client_side_available = False, fl_temporary = True, fl_variations = [JBool True, JBool False],
     fl_created_at = ''2026-07-01T00:00:00Z'', fl_updated_at = ''2026-07-01T00:00:00Z''\<rparr>,
     lf_status = LcInactive, lf_last_evaluated = Some ''2026-05-01T00:00:00Z''\<rparr>,
     \<lparr>lf_flag = \<lparr>fl_id = ''f3'', fl_project_id = ''web'', fl_key = ''perms-v2'',
     fl_name = ''Perms v2'', fl_description = [], fl_client_side_available = False, fl_temporary = False,
     fl_variations = [JBool True, JBool False], fl_created_at = ''2026-07-01T00:00:00Z'',
     fl_updated_at = ''2026-07-01T00:00:00Z''\<rparr>, lf_status = LcNew, lf_last_evaluated = None\<rparr>]"

definition FlagLifecycleList_stories :: "(string \<Rightarrow> string) \<Rightarrow> string \<times> (string \<times> appearance list) list" where
  "FlagLifecycleList_stories fmt = (''Flags/FlagLifecycleList'',
    [(''Default'', looks (FlagLifecycleList fmt FlagLifecycleList_flags)),
     (''Empty'', looks (FlagLifecycleList fmt []))])"

section \<open>Flags/RuleForm\<close>

definition RuleForm_stories :: "string \<times> (string \<times> appearance list) list" where
  "RuleForm_stories = (''Flags/RuleForm'',
    [(''NewRule'', looks (RuleForm_view \<lparr>rp_variations = [JBool True, JBool False], rp_initialClauses = None,
     rp_initialServe = None, rp_busy = False\<rparr> ''Add rule'' 0 (RuleForm \<lparr>rp_variations = [JBool True,
     JBool False], rp_initialClauses = None, rp_initialServe = None, rp_busy = False\<rparr>))),
     (''EditingRule'', looks (RuleForm_view \<lparr>rp_variations = [JBool True, JBool False],
     rp_initialClauses = Some [\<lparr>cl_contextKind = Some ''user'', cl_attribute = Some ''plan'', cl_op = ''in'',
     cl_values = [JStr ''pro''], cl_negate = Some False\<rparr>], rp_initialServe = Some \<lparr>vr_variation = None,
     vr_rollout = Some \<lparr>ro_variations = [\<lparr>wv_variation = 0, wv_weight = 70000\<rparr>,
     \<lparr>wv_variation = 1, wv_weight = 30000\<rparr>], ro_bucketBy = None, ro_contextKind = None,
     ro_seed = None\<rparr>\<rparr>,
     rp_busy = False\<rparr> ''Save'' 0 (RuleForm \<lparr>rp_variations = [JBool True, JBool False],
     rp_initialClauses = Some [\<lparr>cl_contextKind = Some ''user'', cl_attribute = Some ''plan'', cl_op = ''in'',
     cl_values = [JStr ''pro''], cl_negate = Some False\<rparr>], rp_initialServe = Some \<lparr>vr_variation = None,
     vr_rollout = Some \<lparr>ro_variations = [\<lparr>wv_variation = 0, wv_weight = 70000\<rparr>,
     \<lparr>wv_variation = 1, wv_weight = 30000\<rparr>], ro_bucketBy = None, ro_contextKind = None,
     ro_seed = None\<rparr>\<rparr>, rp_busy = False\<rparr>)) @ [Control ''button'' ''Cancel'' [] True])])"

section \<open>Flags/FlagRules\<close>

definition FlagRules_flag :: "flag" where
  "FlagRules_flag =
     \<lparr>fl_id = ''f1'', fl_project_id = ''p1'', fl_key = ''promo'', fl_name = ''Promo'', fl_description = [],
     fl_client_side_available = True, fl_temporary = False, fl_variations = [JBool True, JBool False],
     fl_created_at = ''2026-07-12T00:00:00Z'', fl_updated_at = ''2026-07-12T00:00:00Z''\<rparr>"

definition FlagRules_rules :: "flag_rule list" where
  "FlagRules_rules =
     [\<lparr>fr_id = Some ''rule-1'', fr_clauses = [\<lparr>cl_contextKind = Some ''user'',
     cl_attribute = Some ''country'', cl_op = ''in'', cl_values = [JStr ''US'', JStr ''CA''],
     cl_negate = Some False\<rparr>], fr_variation = Some 0, fr_rollout = None\<rparr>,
     \<lparr>fr_id = Some ''rule-2'', fr_clauses = [\<lparr>cl_contextKind = Some ''user'',
     cl_attribute = Some ''plan'', cl_op = ''in'', cl_values = [JStr ''pro''], cl_negate = Some False\<rparr>],
     fr_variation = None, fr_rollout = Some \<lparr>ro_variations = [\<lparr>wv_variation = 0,
     wv_weight = 70000\<rparr>, \<lparr>wv_variation = 1, wv_weight = 30000\<rparr>], ro_bucketBy = None,
     ro_contextKind = None, ro_seed = None\<rparr>\<rparr>]"

definition FlagRules_stories :: "string \<times> (string \<times> appearance list) list" where
  "FlagRules_stories = (''Flags/FlagRules'',
    [(''Default'',
     looks (FlagRules (fl_variations FlagRules_flag) FlagRules_rules False 0 (initial_rules (fl_variations FlagRules_flag)))),
     (''Empty'',
     looks (FlagRules (fl_variations FlagRules_flag) [] False 0 (initial_rules (fl_variations FlagRules_flag))))])"

section \<open>Flags/CreateTriggerDialog\<close>

definition CreateTriggerDialog_stories :: "string \<times> (string \<times> appearance list) list" where
  "CreateTriggerDialog_stories = (''Flags/CreateTriggerDialog'',
    [(''Default'', looks (CreateTriggerDialog ''production'' False \<lparr>tf_open = False, tf_action = ''on'',
     tf_description = []\<rparr>))])"

section \<open>Flags/ScheduleChangeDialog\<close>

definition ScheduleChangeDialog_stories :: "string \<times> (string \<times> appearance list) list" where
  "ScheduleChangeDialog_stories = (''Flags/ScheduleChangeDialog'',
    [(''Default'', looks (ScheduleChangeDialog ''production'' False 0 (initial_schedule_form False))),
     (''CurrentlyOn'', looks (ScheduleChangeDialog ''production'' False 0 (initial_schedule_form True)))])"

section \<open>Flags/RequestChangeDialog\<close>

definition RequestChangeDialog_stories :: "string \<times> (string \<times> appearance list) list" where
  "RequestChangeDialog_stories = (''Flags/RequestChangeDialog'',
    [(''Default'', looks (RequestChangeDialog ''production'' False (initial_change_form False))),
     (''CurrentlyOn'', looks (RequestChangeDialog ''production'' False (initial_change_form True)))])"

section \<open>Flags/CreateFlagDialog\<close>

definition CreateFlagDialog_stories :: "string \<times> (string \<times> appearance list) list" where
  "CreateFlagDialog_stories = (''Flags/CreateFlagDialog'',
    [(''Default'', looks (CreateFlagDialog \<lparr>dp_open = True, dp_busy = False,
     dp_error = None\<rparr> blank_flag_form)),
     (''Creating'', looks (CreateFlagDialog \<lparr>dp_open = True, dp_busy = True,
     dp_error = None\<rparr> blank_flag_form)),
     (''WithError'', looks (CreateFlagDialog \<lparr>dp_open = True, dp_busy = False,
     dp_error = Some ''Could not create flag - the key may already be taken.''\<rparr> blank_flag_form))])"

definition CreateFlagDialog_play :: bool where
  "CreateFlagDialog_play \<longleftrightarrow> toHaveBeenCalledWith (test_calls (CreateFlagDialog \<lparr>dp_open = True, dp_busy = False, dp_error = None\<rparr>)
     flag_form_update blank_flag_form
     [Types ''Name'' ''Dark mode'',
      Expects ''Key'' ''dark-mode'',
      Clicks ''Create flag'']) (Emitted \<lparr>cf_key = ''dark-mode'', cf_name = ''Dark mode'',
      cf_description = None, cf_client_side_available = None, cf_temporary = None, cf_variations = [JBool True, JBool False]\<rparr>)"

section \<open>Flags/FlagList\<close>

definition FlagList_flags :: "flag_with_state list" where
  "FlagList_flags =
     [\<lparr>fs_flag = \<lparr>fl_id = ''f1'', fl_project_id = ''p1'', fl_key = ''new-checkout'',
     fl_name = ''New checkout'', fl_description = ''Rolls out the redesigned checkout flow.'',
     fl_client_side_available = True, fl_temporary = False, fl_variations = [JBool True, JBool False],
     fl_created_at = ''2026-07-12T00:00:00Z'', fl_updated_at = ''2026-07-12T00:00:00Z''\<rparr>,
     fs_on = True\<rparr>, \<lparr>fs_flag = \<lparr>fl_id = ''f2'', fl_project_id = ''p1'',
     fl_key = ''pricing-tier'', fl_name = ''Pricing tier'', fl_description = [], fl_client_side_available = False,
     fl_temporary = False, fl_variations = [JStr ''free'', JStr ''pro'', JStr ''enterprise''],
     fl_created_at = ''2026-07-12T00:00:00Z'', fl_updated_at = ''2026-07-12T00:00:00Z''\<rparr>,
     fs_on = False\<rparr>]"

definition FlagList_stories :: "string \<times> (string \<times> appearance list) list" where
  "FlagList_stories = (''Flags/FlagList'',
    [(''Default'', looks (FlagList None FlagList_flags)),
     (''Empty'', looks (FlagList None []))])"

definition FlagList_play :: bool where
  "FlagList_play \<longleftrightarrow> toHaveBeenCalledWith (test_calls (\<lambda>_. FlagList None FlagList_flags)
     (\<lambda>_ m. ((), [m])) ()
     [Flips ''Toggle Pricing tier'']) (ToggleFlag ''pricing-tier'' True)"

section \<open>Flags/FlagConfigCard\<close>

definition FlagConfigCard_flag :: "flag" where
  "FlagConfigCard_flag =
     \<lparr>fl_id = ''f1'', fl_project_id = ''p1'', fl_key = ''dark-mode'', fl_name = ''Dark mode'',
     fl_description = [], fl_client_side_available = True, fl_temporary = False, fl_variations = [JBool True,
     JBool False], fl_created_at = ''2026-07-12T00:00:00Z'', fl_updated_at = ''2026-07-12T00:00:00Z''\<rparr>"

definition FlagConfigCard_config :: "flag_config" where
  "FlagConfigCard_config =
     \<lparr>fc_on = True, fc_off_variation = 1, fc_fallthrough = \<lparr>vr_variation = Some 0,
     vr_rollout = None\<rparr>, fc_targets = [], fc_rules = [], fc_version = 3\<rparr>"

definition FlagConfigCard_stories :: "string \<times> (string \<times> appearance list) list" where
  "FlagConfigCard_stories = (''Flags/FlagConfigCard'',
    [(''On'', looks (FlagConfigCard (fl_variations FlagConfigCard_flag) FlagConfigCard_config False)),
     (''Off'',
     looks (FlagConfigCard (fl_variations FlagConfigCard_flag) (FlagConfigCard_config\<lparr>fc_on := False\<rparr>) False)),
     (''Toggling'', looks (FlagConfigCard (fl_variations FlagConfigCard_flag) FlagConfigCard_config True))])"

definition FlagConfigCard_play :: bool where
  "FlagConfigCard_play \<longleftrightarrow> toHaveBeenCalledWith (test_calls (\<lambda>_. FlagConfigCard (fl_variations FlagConfigCard_flag) (FlagConfigCard_config\<lparr>fc_on := False\<rparr>) False)
     (\<lambda>_ m. ((), [m])) ()
     [Flips ''Toggle flag'']) True"

section \<open>Flags/IndividualTargets\<close>

definition IndividualTargets_targets :: "target list" where
  "IndividualTargets_targets =
     [\<lparr>tg_contextKind = ''user'', tg_values = [''user-1'', ''user-2''], tg_variation = 0\<rparr>]"

definition IndividualTargets_stories :: "string \<times> (string \<times> appearance list) list" where
  "IndividualTargets_stories = (''Flags/IndividualTargets'',
    [(''Default'', looks (IndividualTargets [JBool True,
     JBool False] IndividualTargets_targets False \<lparr>it_key = [], it_variation = 0\<rparr>)),
     (''Empty'', looks (IndividualTargets [JBool True, JBool False] [] False \<lparr>it_key = [],
     it_variation = 0\<rparr>))])"

definition IndividualTargets_play :: bool where
  "IndividualTargets_play \<longleftrightarrow> toHaveBeenCalledWith (test_calls (IndividualTargets [JBool True, JBool False] [] False)
     individual_update \<lparr>it_key = [], it_variation = 0\<rparr>
     [Types ''Context key'' ''user-9'',
      Clicks ''Add'']) (OnAdd 0 ''user-9'')"

section \<open>Members/AddMemberDialog\<close>

definition AddMemberDialog_roles :: "role list" where
  "AddMemberDialog_roles =
     [\<lparr>rl_id = ''r1'', rl_organization_id = ''t1'', rl_key = ''organization_admin'',
     rl_name = ''Organization Admin'', rl_description = [], rl_scope = ScopeOrganization, rl_is_system = True,
     rl_permissions = [], rl_created_at = [], rl_updated_at = []\<rparr>]"

definition AddMemberDialog_stories :: "string \<times> (string \<times> appearance list) list" where
  "AddMemberDialog_stories = (''Members/AddMemberDialog'',
    [(''Default'', looks (AddMemberDialog \<lparr>dp_open = True, dp_busy = False,
     dp_error = None\<rparr> AddMemberDialog_roles blank_member_form))])"

definition AddMemberDialog_play :: bool where
  "AddMemberDialog_play \<longleftrightarrow> toHaveBeenCalledWith (test_calls (AddMemberDialog \<lparr>dp_open = True, dp_busy = False, dp_error = None\<rparr> AddMemberDialog_roles)
     member_update blank_member_form
     [Types ''Email'' ''dev@flag-it.dev'',
      Clicks ''Add member'']) (Emitted (''dev@flag-it.dev'', None))"

section \<open>Members/GrantProjectRoleDialog\<close>

definition GrantProjectRoleDialog_roles :: "role list" where
  "GrantProjectRoleDialog_roles =
     [\<lparr>rl_id = ''r2'', rl_organization_id = ''t1'', rl_key = ''writer'', rl_name = ''Writer'',
     rl_description = [], rl_scope = ScopeProject, rl_is_system = True, rl_permissions = [],
     rl_created_at = ''2026-07-12T00:00:00Z'', rl_updated_at = ''2026-07-12T00:00:00Z''\<rparr>,
     \<lparr>rl_id = ''r3'', rl_organization_id = ''t1'', rl_key = ''reader'', rl_name = ''Reader'',
     rl_description = [], rl_scope = ScopeProject, rl_is_system = True, rl_permissions = [],
     rl_created_at = ''2026-07-12T00:00:00Z'', rl_updated_at = ''2026-07-12T00:00:00Z''\<rparr>]"

definition GrantProjectRoleDialog_stories :: "string \<times> (string \<times> appearance list) list" where
  "GrantProjectRoleDialog_stories = (''Members/GrantProjectRoleDialog'',
    [(''Default'',
     looks (GrantProjectRoleDialog ''checkout'' GrantProjectRoleDialog_roles False None \<lparr>rg_open = False,
     rg_email = [], rg_role = []\<rparr>))])"

section \<open>Members/MemberList\<close>

definition MemberList_members :: "member list" where
  "MemberList_members =
     [\<lparr>mb_user_id = ''u1'', mb_email = ''admin@flag-it.dev'', mb_full_name = ''Admin'',
     mb_role = ''organization_admin''\<rparr>, \<lparr>mb_user_id = ''u2'', mb_email = ''dev@flag-it.dev'',
     mb_full_name = ''Dev'', mb_role = []\<rparr>]"

definition MemberList_stories :: "string \<times> (string \<times> appearance list) list" where
  "MemberList_stories = (''Members/MemberList'',
    [(''Default'', looks ((MemberList MemberList_members) :: unit node list)),
     (''Empty'', looks ((MemberList []) :: unit node list))])"

section \<open>Roles/CreateRoleDialog\<close>

definition CreateRoleDialog_permissions :: "string list" where
  "CreateRoleDialog_permissions =
     [''flag.read'', ''flag.write'', ''flag.delete'', ''project.read'', ''project.update'']"

definition CreateRoleDialog_stories :: "string \<times> (string \<times> appearance list) list" where
  "CreateRoleDialog_stories = (''Roles/CreateRoleDialog'',
    [(''Default'', looks (CreateRoleDialog \<lparr>dp_open = True, dp_busy = False,
     dp_error = None\<rparr> CreateRoleDialog_permissions blank_role_form))])"

definition CreateRoleDialog_play :: bool where
  "CreateRoleDialog_play \<longleftrightarrow> toHaveBeenCalledWith (test_calls (CreateRoleDialog \<lparr>dp_open = True, dp_busy = False, dp_error = None\<rparr> CreateRoleDialog_permissions)
     role_form_update blank_role_form
     [Types ''Name'' ''QA'',
      Expects ''Key'' ''qa'',
      Ticks 0,
      Ticks 1,
      Clicks ''Create role'']) (Emitted \<lparr>ci_key = ''qa'', ci_name = ''QA'', ci_description = [],
      ci_scope = ''project'', ci_permissions = [''flag.read'', ''flag.write'']\<rparr>)"

section \<open>Roles/RoleList\<close>

definition RoleList_roles :: "role list" where
  "RoleList_roles =
     [\<lparr>rl_id = ''r1'', rl_organization_id = ''t1'', rl_key = ''organization_admin'',
     rl_name = ''Organization Admin'', rl_description = [], rl_scope = ScopeOrganization, rl_is_system = True,
     rl_permissions = [''*''], rl_created_at = ''2026-07-12T00:00:00Z'',
     rl_updated_at = ''2026-07-12T00:00:00Z''\<rparr>, \<lparr>rl_id = ''r2'', rl_organization_id = ''t1'',
     rl_key = ''writer'', rl_name = ''Writer'', rl_description = [], rl_scope = ScopeProject, rl_is_system = True,
     rl_permissions = [''flag.read'', ''flag.write''], rl_created_at = ''2026-07-12T00:00:00Z'',
     rl_updated_at = ''2026-07-12T00:00:00Z''\<rparr>]"

definition RoleList_stories :: "string \<times> (string \<times> appearance list) list" where
  "RoleList_stories = (''Roles/RoleList'',
    [(''Default'', looks ((RoleList RoleList_roles) :: unit node list)),
     (''Empty'', looks ((RoleList []) :: unit node list))])"

section \<open>SDKKeys/SdkKeyList\<close>

definition SdkKeyList_keys :: "sdk_key list" where
  "SdkKeyList_keys =
     [\<lparr>sk_id = ''k1'', sk_environment_id = ''e1'', sk_key = ''sdk-abcdef0123456789'', sk_kind = KServer,
     sk_name = ''CI'', sk_last_used_at = None, sk_revoked_at = None,
     sk_created_at = ''2026-07-12T00:00:00Z''\<rparr>, \<lparr>sk_id = ''k2'', sk_environment_id = ''e1'',
     sk_key = ''client-9876543210fedcba'', sk_kind = KClient, sk_name = ''Web app'', sk_last_used_at = None,
     sk_revoked_at = None, sk_created_at = ''2026-07-12T00:00:00Z''\<rparr>]"

definition SdkKeyList_stories :: "string \<times> (string \<times> appearance list) list" where
  "SdkKeyList_stories = (''SDKKeys/SdkKeyList'',
    [(''Default'', looks (SdkKeyList True None SdkKeyList_keys)),
     (''Empty'', looks (SdkKeyList True None []))])"

section \<open>SDKKeys/CreateSdkKeyDialog\<close>

definition CreateSdkKeyDialog_stories :: "string \<times> (string \<times> appearance list) list" where
  "CreateSdkKeyDialog_stories = (''SDKKeys/CreateSdkKeyDialog'',
    [(''Default'', looks (CreateSdkKeyDialog \<lparr>dp_open = True, dp_busy = False,
     dp_error = None\<rparr> blank_sdk_key_form))])"

definition CreateSdkKeyDialog_play :: bool where
  "CreateSdkKeyDialog_play \<longleftrightarrow> toHaveBeenCalledWith (test_calls (CreateSdkKeyDialog \<lparr>dp_open = True, dp_busy = False, dp_error = None\<rparr>)
     sdk_key_update blank_sdk_key_form
     [Types ''Name'' ''CI'',
      Clicks ''Create key'']) (Emitted (''server'', ''CI''))"

section \<open>Webhooks/WebhookDeliveries\<close>

definition WebhookDeliveries_deliveries :: "webhook_delivery list" where
  "WebhookDeliveries_deliveries =
     [\<lparr>wd_id = ''d1'', wd_webhook_id = ''w1'', wd_event_type = ''flag.config.patched'', wd_status = DlSuccess,
     wd_attempts = 1, wd_response_status = 200, wd_error = None, wd_next_attempt_at = ''2026-07-13T12:00:00Z'',
     wd_created_at = ''2026-07-13T12:00:00Z'', wd_delivered_at = Some ''2026-07-13T12:00:01Z''\<rparr>,
     \<lparr>wd_id = ''d2'', wd_webhook_id = ''w1'', wd_event_type = ''change.approved'', wd_status = DlFailed,
     wd_attempts = 5, wd_response_status = 500, wd_error = Some ''status 500'',
     wd_next_attempt_at = ''2026-07-13T11:00:00Z'', wd_created_at = ''2026-07-13T11:00:00Z'',
     wd_delivered_at = None\<rparr>]"

definition WebhookDeliveries_stories :: "(string \<Rightarrow> string) \<Rightarrow> string \<times> (string \<times> appearance list) list" where
  "WebhookDeliveries_stories fmt = (''Webhooks/WebhookDeliveries'',
    [(''Default'', looks ((WebhookDeliveries fmt WebhookDeliveries_deliveries) :: unit node list)),
     (''Empty'', looks ((WebhookDeliveries fmt []) :: unit node list))])"

section \<open>Webhooks/CreateWebhookDialog\<close>

definition CreateWebhookDialog_stories :: "string \<times> (string \<times> appearance list) list" where
  "CreateWebhookDialog_stories = (''Webhooks/CreateWebhookDialog'',
    [(''Default'', looks (CreateWebhookDialog False blank_webhook_form))])"

section \<open>Webhooks/WebhookList\<close>

definition WebhookList_webhooks :: "webhook list" where
  "WebhookList_webhooks =
     [\<lparr>wh_id = ''w1'', wh_organization_id = ''t1'', wh_url = ''https://hooks.slack.com/services/xxx'',
     wh_secret = None, wh_event_types = [''*''], wh_description = ''Slack notifications'', wh_enabled = True,
     wh_created_by = ''u1'', wh_created_by_email = ''ada@example.com'',
     wh_created_at = ''2026-07-13T09:00:00Z''\<rparr>, \<lparr>wh_id = ''w2'', wh_organization_id = ''t1'',
     wh_url = ''https://example.com/hooks/flag-it'', wh_secret = None, wh_event_types = [''flag.saved'',
     ''change.approved''], wh_description = ''CI pipeline'', wh_enabled = False, wh_created_by = ''u1'',
     wh_created_by_email = ''ada@example.com'', wh_created_at = ''2026-07-13T09:00:00Z''\<rparr>]"

definition WebhookList_stories :: "string \<times> (string \<times> appearance list) list" where
  "WebhookList_stories = (''Webhooks/WebhookList'',
    [(''Default'', looks (WebhookList False None None WebhookList_webhooks)),
     (''Empty'', looks (WebhookList False None None [])),
     (''SecretRevealed'',
     looks (WebhookList False (Some ''whsec_9b72aec7d1f04a2b8c3e5f6a7b8c9d0e'') None WebhookList_webhooks))])"

section \<open>Analytics/StatsBars\<close>

definition StatsBars_rows :: "stats_row list" where
  "StatsBars_rows =
     [\<lparr>sb_key = ''new-checkout'', sb_label = ''new-checkout'', sb_count = 10300\<rparr>,
     \<lparr>sb_key = ''pricing-tier'', sb_label = ''pricing-tier'', sb_count = 4200\<rparr>,
     \<lparr>sb_key = ''dark-mode'', sb_label = ''dark-mode'', sb_count = 900\<rparr>]"

definition StatsBars_stories :: "(int \<Rightarrow> string) \<Rightarrow> string \<times> (string \<times> appearance list) list" where
  "StatsBars_stories fmtn = (''Analytics/StatsBars'',
    [(''Default'', looks (StatsBars fmtn False (sum_list (map sb_count StatsBars_rows)) StatsBars_rows)),
     (''Clickable'', looks (StatsBars fmtn True (sum_list (map sb_count StatsBars_rows)) StatsBars_rows)),
     (''Empty'', looks (StatsBars fmtn False 0 []))])"

section \<open>UI/ErrorState\<close>

definition ErrorState_stories :: "string \<times> (string \<times> appearance list) list" where
  "ErrorState_stories = (''UI/ErrorState'',
    [(''Default'', looks (ErrorState_view None None (Some ()))),
     (''WithMessage'', looks (ErrorState_view None (Some ''Request failed: 500 /users'') (Some ()))),
     (''CustomTitle'',
     looks (ErrorState_view (Some ''Could not load users'') (Some ''The server is not responding.'') (Some ()))),
     (''NotRetryable'',
     looks (ErrorState_view None (Some ''You do not have access to this resource.'') (None :: unit option)))])"

section \<open>Components/ConfirmDeleteDialog\<close>

definition ConfirmDeleteDialog_stories :: "string \<times> (string \<times> appearance list) list" where
  "ConfirmDeleteDialog_stories = (''Components/ConfirmDeleteDialog'',
    [(''Default'',
     looks (ConfirmDeleteDialog False ''Delete flag'' ''Delete new-checkout?'' ''This removes the flag and its configuration in every environment. This cannot be undone.'' ''Delete flag'' False () () ())),
     (''RowAction'',
     looks (ConfirmDeleteDialog False ''Delete'' ''Delete new-checkout?'' ''This removes the flag and its configuration in every environment. This cannot be undone.'' ''Delete flag'' False () () ()))])"

section \<open>App/EnvironmentBanner\<close>

definition EnvironmentBanner_stories :: "string \<times> (string \<times> appearance list) list" where
  "EnvironmentBanner_stories = (''App/EnvironmentBanner'',
    [(''DevelopmentLiveApi'', looks ((EnvironmentBanner Development False) :: unit node list)),
     (''DevelopmentMocked'', looks ((EnvironmentBanner Development True) :: unit node list)),
     (''Staging'', looks ((EnvironmentBanner Staging False) :: unit node list)),
     (''Production'', looks ((EnvironmentBanner Production False) :: unit node list))])"

end
