(* ===== verification/Story_Props.thy ===== *)
theory Story_Props
  imports Stories
begin

text \<open>
  The interaction tests of the stories hold of the model, except one that leaves out a property of the
  call it expects; and which stories of a file look alike.
\<close>

section \<open>The fields the tests type into\<close>

lemmas found = the_one_def alert_def dialog_def

lemma story_permissions:
  "groupByResource CreateRoleDialog_permissions =
     [(''flag'', [''flag.read'', ''flag.write'', ''flag.delete'']), (''project'', [''project.read'', ''project.update''])]"
  "action_of ''flag.read'' = ''read''" "action_of ''flag.write'' = ''write''" "action_of ''flag.delete'' = ''delete''"
  "action_of ''project.read'' = ''read''" "action_of ''project.update'' = ''update''"
  by code_simp+

lemma project_name_field: "dp_open p \<Longrightarrow> t \<noteq> [] \<Longrightarrow>
    type_keys (CreateProjectDialog p) project_update ''Name'' t (s, out) = Some (handleNameChange (kf_name s @ t) s, out)"
  by (rule type_field [where p = "\<lambda>_. True" and f = "TypeName" and val = "kf_name" and upd = "handleNameChange"])
    (auto simp: CreateProjectDialog_def found handleNameChange_def Let_def split: option.splits)

lemma environment_name_field: "dp_open p \<Longrightarrow> t \<noteq> [] \<Longrightarrow>
    type_keys (CreateEnvironmentDialog p) environment_update ''Name'' t (s, out) = Some (handleNameChange (kf_name s @ t) s, out)"
  by (rule type_field [where p = "\<lambda>_. True" and f = "TypeName" and val = "kf_name" and upd = "handleNameChange"])
    (auto simp: CreateEnvironmentDialog_def found handleNameChange_def Let_def split: option.splits)

lemma segment_name_field: "dp_open p \<Longrightarrow> t \<noteq> [] \<Longrightarrow>
    type_keys (CreateSegmentDialog p) segment_form_update ''Name'' t (s, out) = Some (handleNameChange (kf_name s @ t) s, out)"
  by (rule type_field [where p = "\<lambda>_. True" and f = "TypeName" and val = "kf_name" and upd = "handleNameChange"])
    (auto simp: CreateSegmentDialog_def found handleNameChange_def Let_def split: option.splits)

lemma flag_name_field: "dp_open p \<Longrightarrow> t \<noteq> [] \<Longrightarrow> ff_type s = ''boolean'' \<Longrightarrow>
    type_keys (CreateFlagDialog p) flag_form_update ''Name'' t (s, out) = Some (handleNameChange (kf_name s @ t) s, out)"
  by (rule type_field [where p = "\<lambda>s. ff_type s = ''boolean''" and f = "TypeName" and val = "kf_name" and upd = "handleNameChange"])
    (auto simp: CreateFlagDialog_def variation_fields_def found handleNameChange_def Let_def split: option.splits)

lemma role_name_field: "dp_open p \<Longrightarrow> t \<noteq> [] \<Longrightarrow>
    type_keys (CreateRoleDialog p CreateRoleDialog_permissions) role_form_update ''Name'' t (s, out) = Some (handleNameChange (kf_name s @ t) s, out)"
  by (rule type_field [where p = "\<lambda>_. True" and f = "TypeName" and val = "kf_name" and upd = "handleNameChange"])
    (auto simp: CreateRoleDialog_def story_permissions found handleNameChange_def Let_def split: option.splits)

lemma sdk_key_name_field: "dp_open p \<Longrightarrow> t \<noteq> [] \<Longrightarrow>
    type_keys (CreateSdkKeyDialog p) sdk_key_update ''Name'' t (s, out) = Some ((\<lambda>s. s\<lparr>kk_name := (kk_name s @ t)\<rparr>) s, out)"
  by (rule type_field [where p = "\<lambda>_. True" and f = "KTypeName" and val = "kk_name" and upd = "\<lambda>v s. (\<lambda>s. s\<lparr>kk_name := v\<rparr>) s"])
    (auto simp: CreateSdkKeyDialog_def found handleNameChange_def Let_def split: option.splits)

lemma member_email_field: "dp_open p \<Longrightarrow> t \<noteq> [] \<Longrightarrow>
    type_keys (AddMemberDialog p roles) member_update ''Email'' t (s, out) = Some ((\<lambda>s. s\<lparr>mf_email := (mf_email s @ t)\<rparr>) s, out)"
  by (rule type_field [where p = "\<lambda>_. True" and f = "MEmail" and val = "mf_email" and upd = "\<lambda>v s. (\<lambda>s. s\<lparr>mf_email := v\<rparr>) s"])
    (auto simp: AddMemberDialog_def found handleNameChange_def Let_def split: option.splits)

lemma login_email_field: "t \<noteq> [] \<Longrightarrow>
    type_keys (LoginForm b e) login_update ''Email'' t (s, out) = Some ((\<lambda>s. s\<lparr>lo_email := (lo_email s @ t)\<rparr>) s, out)"
  by (rule type_field [where p = "\<lambda>_. True" and f = "LoginEmail" and val = "lo_email" and upd = "\<lambda>v s. (\<lambda>s. s\<lparr>lo_email := v\<rparr>) s"])
    (auto simp: LoginForm_def found handleNameChange_def Let_def split: option.splits)

lemma login_password_field: "t \<noteq> [] \<Longrightarrow>
    type_keys (LoginForm b e) login_update ''Password'' t (s, out) = Some ((\<lambda>s. s\<lparr>lo_password := (lo_password s @ t)\<rparr>) s, out)"
  by (rule type_field [where p = "\<lambda>_. True" and f = "LoginPassword" and val = "lo_password" and upd = "\<lambda>v s. (\<lambda>s. s\<lparr>lo_password := v\<rparr>) s"])
    (auto simp: LoginForm_def found handleNameChange_def Let_def split: option.splits)

lemma wizard_email_field: "t \<noteq> [] \<Longrightarrow> wz_step s = 1 \<Longrightarrow>
    type_keys (SetupWizard_view b e) wizard_update ''Email'' t (s, out) = Some ((\<lambda>s. s\<lparr>wz_email := (wz_email s @ t)\<rparr>) s, out)"
  by (rule type_field [where p = "\<lambda>s. wz_step s = 1" and f = "WizEmail" and val = "wz_email" and upd = "\<lambda>v s. (\<lambda>s. s\<lparr>wz_email := v\<rparr>) s"])
    (auto simp: SetupWizard_view_def found handleNameChange_def Let_def split: option.splits)

lemma wizard_password_field: "t \<noteq> [] \<Longrightarrow> wz_step s = 1 \<Longrightarrow>
    type_keys (SetupWizard_view b e) wizard_update ''Password'' t (s, out) = Some ((\<lambda>s. s\<lparr>wz_password := (wz_password s @ t)\<rparr>) s, out)"
  by (rule type_field [where p = "\<lambda>s. wz_step s = 1" and f = "WizPassword" and val = "wz_password" and upd = "\<lambda>v s. (\<lambda>s. s\<lparr>wz_password := v\<rparr>) s"])
    (auto simp: SetupWizard_view_def found handleNameChange_def Let_def split: option.splits)

lemma wizard_organization_field: "t \<noteq> [] \<Longrightarrow> wz_step s = 2 \<Longrightarrow>
    type_keys (SetupWizard_view b e) wizard_update ''Organization name'' t (s, out) = Some (handleOrganizationNameChange (wz_organizationName s @ t) s, out)"
  by (rule type_field [where p = "\<lambda>s. wz_step s = 2" and f = "WizOrganization" and val = "wz_organizationName" and upd = "handleOrganizationNameChange"])
    (auto simp: SetupWizard_view_def handleOrganizationNameChange_def found handleNameChange_def Let_def split: option.splits)

lemma targets_key_field: "t \<noteq> [] \<Longrightarrow>
    type_keys (IndividualTargets vs [] False) individual_update ''Context key'' t (s, out) = Some ((\<lambda>s. s\<lparr>it_key := (it_key s @ t)\<rparr>) s, out)"
  by (rule type_field [where p = "\<lambda>_. True" and f = "ItKey" and val = "it_key" and upd = "\<lambda>v s. (\<lambda>s. s\<lparr>it_key := v\<rparr>) s"])
    (auto simp: IndividualTargets_def VariationSelect_def hasTargets_def found handleNameChange_def Let_def split: option.splits)


section \<open>The tests\<close>

lemmas run_test = test_calls_def toHaveBeenCalledWith_def toHaveBeenCalled_def react_to_def react_def found

lemma test_texts:
  "slugify ''Mobile App'' = ''mobile-app''" "trim ''Mobile App'' = ''Mobile App''" "trim ''mobile-app'' = ''mobile-app''"
  "slugify ''QA'' = ''qa''" "trim ''QA'' = ''QA''" "trim ''qa'' = ''qa''"
  "slugify ''Beta users'' = ''beta-users''" "trim ''Beta users'' = ''Beta users''" "trim ''beta-users'' = ''beta-users''"
  "slugify ''Dark mode'' = ''dark-mode''" "trim ''Dark mode'' = ''Dark mode''" "trim ''dark-mode'' = ''dark-mode''"
  "slugify ''Acme Inc'' = ''acme-inc''" "trim ''Acme Inc'' = ''Acme Inc''" "trim ''acme-inc'' = ''acme-inc''"
  "trim ''user-3'' = ''user-3''" "trim ''user-9'' = ''user-9''" "trim ''CI'' = ''CI''" "trim [] = []"
  "trim ''dev@flag-it.dev'' = ''dev@flag-it.dev''" "trim ''admin@flag-it.dev'' = ''admin@flag-it.dev''"
  by code_simp+

lemma project_dialog_test: "CreateProjectDialog_play"
  by (simp add: CreateProjectDialog_play_def run_test project_name_field CreateProjectDialog_def handleNameChange_def
      blank_keyed_def named_def test_texts)

lemma environment_dialog_test: "CreateEnvironmentDialog_play"
  by (simp add: CreateEnvironmentDialog_play_def run_test environment_name_field CreateEnvironmentDialog_def
      handleNameChange_def blank_keyed_def named_def test_texts)

lemma segment_dialog_test: "CreateSegmentDialog_play"
  by (simp add: CreateSegmentDialog_play_def run_test segment_name_field CreateSegmentDialog_def
      handleNameChange_def blank_segment_form_def named_def test_texts)

lemma flag_dialog_calls:
  "test_calls (CreateFlagDialog \<lparr>dp_open = True, dp_busy = False, dp_error = None\<rparr>) flag_form_update blank_flag_form
     [Types ''Name'' ''Dark mode'', Expects ''Key'' ''dark-mode'', Clicks ''Create flag''] =
   Some [Emitted \<lparr>cf_key = ''dark-mode'', cf_name = ''Dark mode'', cf_description = None,
     cf_client_side_available = None, cf_temporary = Some False, cf_variations = [JBool True, JBool False]\<rparr>]"
  by (simp add: run_test flag_name_field CreateFlagDialog_def variation_fields_def flag_canSubmit_def flag_input_def
      handleNameChange_def blank_flag_form_def named_def test_texts)

lemma flag_dialog_test: "\<not> CreateFlagDialog_play"
  by (simp add: CreateFlagDialog_play_def flag_dialog_calls toHaveBeenCalledWith_def)

lemma role_dialog_test: "CreateRoleDialog_play"
  by (simp add: CreateRoleDialog_play_def run_test role_name_field CreateRoleDialog_def story_permissions
      handleNameChange_def blank_role_form_def named_def toggle_in_def test_texts)

lemma sdk_key_dialog_test: "CreateSdkKeyDialog_play"
  by (simp add: CreateSdkKeyDialog_play_def run_test sdk_key_name_field CreateSdkKeyDialog_def
      blank_sdk_key_form_def test_texts)

lemma member_dialog_test: "AddMemberDialog_play"
  by (simp add: AddMemberDialog_play_def run_test member_email_field AddMemberDialog_def blank_member_form_def test_texts)

lemma login_test: "LoginForm_play"
  by (simp add: LoginForm_play_def run_test login_email_field login_password_field LoginForm_def)

lemma wizard_test: "SetupWizard_play"
  by (simp add: SetupWizard_play_def run_test wizard_email_field wizard_password_field wizard_organization_field
      SetupWizard_view_def SetupWizard_def accountValid_def organizationValid_def handleOrganizationNameChange_def test_texts)

lemma targets_test: "SegmentTargetsEditor_play"
  by (simp add: SegmentTargetsEditor_play_def run_test SegmentTargetsEditor_def test_texts)

lemma rules_test: "SegmentRulesEditor_play"
  by (simp add: SegmentRulesEditor_play_def run_test SegmentRulesEditor_def)

lemma flag_list_test: "FlagList_play"
  by (simp add: FlagList_play_def run_test FlagList_def flag_row_def FlagList_flags_def shown_name_def says_if_def)

lemma flag_card_test: "FlagConfigCard_play"
  by (simp add: FlagConfigCard_play_def run_test FlagConfigCard_def FlagConfigCard_flag_def FlagConfigCard_config_def)

lemma individual_test: "IndividualTargets_play"
  by (simp add: IndividualTargets_play_def run_test targets_key_field IndividualTargets_def VariationSelect_def hasTargets_def
      add_target_def test_texts)

section \<open>All tests\<close>

definition story_tests :: "(string \<times> string \<times> bool) list" where
  "story_tests =
    [(''Projects/CreateProjectDialog'', ''SubmitEmitsKeyAndName'', CreateProjectDialog_play),
     (''Environments/CreateEnvironmentDialog'', ''SubmitEmitsKeyAndName'', CreateEnvironmentDialog_play),
     (''Auth/LoginForm'', ''SubmitEmitsCredentials'', LoginForm_play),
     (''Setup/SetupWizard'', ''CompletingBothSteps'', SetupWizard_play),
     (''Segments/SegmentTargetsEditor'', ''AddingAKeyEmitsTheNextList'', SegmentTargetsEditor_play),
     (''Segments/SegmentRulesEditor'', ''AddingARuleEmits'', SegmentRulesEditor_play),
     (''Segments/CreateSegmentDialog'', ''SubmitEmitsKeyNameDescription'', CreateSegmentDialog_play),
     (''Flags/CreateFlagDialog'', ''CreateBooleanFlag'', CreateFlagDialog_play),
     (''Flags/FlagList'', ''FlippingASwitchEmitsKeyAndState'', FlagList_play),
     (''Flags/FlagConfigCard'', ''FlippingEmitsTheNewState'', FlagConfigCard_play),
     (''Flags/IndividualTargets'', ''AddingATargetEmits'', IndividualTargets_play),
     (''Members/AddMemberDialog'', ''SubmitEmitsEmail'', AddMemberDialog_play),
     (''Roles/CreateRoleDialog'', ''PickingPermissionsAndSubmitting'', CreateRoleDialog_play),
     (''SDKKeys/CreateSdkKeyDialog'', ''CreatingAServerKey'', CreateSdkKeyDialog_play)]"

definition failing_tests :: "(string \<times> string) list" where
  "failing_tests = map (\<lambda>(file, test, passes). (file, test)) (filter (\<lambda>(file, test, passes). \<not> passes) story_tests)"


section \<open>Stories that look alike\<close>

definition looks_alike :: "(string \<times> (string \<times> appearance list) list) \<Rightarrow> bool" where
  "looks_alike file \<longleftrightarrow> \<not> distinct (map snd (snd file))"

lemma story_labels:
  "variationLabel [JBool True, JBool False] 0 = ''true''"
  "variationLabel [JStr ''free'', JStr ''pro'', JStr ''enterprise''] 1 = ''pro''"
  by code_simp+

lemma initials_steps:
  "trim ''Miguel Rosales'' = ''Miguel Rosales''" "trim [] = []" "words_of ''Miguel Rosales'' = [''Miguel'', ''Rosales'']"
  "upper ''MR'' = ''MR''" "upper ''ad'' = ''AD''"
  by (simp_all add: trim_def is_space_def code_unit_def upper_def upper_char_def) (simp_all add: char_of_def bit_0)

lemma story_initials:
  "initials (Some (''admin@flag-it.dev'', ''Miguel Rosales'')) = ''MR''" "initials (Some (''admin@flag-it.dev'', [])) = ''AD''"
  "initials None = ''?''"
proof -
  show "initials (Some (''admin@flag-it.dev'', ''Miguel Rosales'')) = ''MR''"
    by (simp only: initials_def option.case prod.case initials_steps Let_def)
      (simp add: js_nth_def first_char_def initials_steps)
qed (simp_all add: initials_def initials_steps)

lemmas story_simps = ProjectList_projects_def ProjectList_stories_def ProjectSwitcher_projects_def
    ProjectSwitcher_stories_def CreateProjectDialog_stories_def OrganizationList_organizations_def
    OrganizationList_stories_def EnvironmentList_environments_def EnvironmentList_stories_def
    EnvironmentTabs_environments_def EnvironmentTabs_stories_def CreateEnvironmentDialog_stories_def
    CreateUserDialog_stories_def UserList_users_def UserList_stories_def UserMenu_stories_def
    LoginForm_stories_def SetupWizard_stories_def SegmentList_segments_def SegmentList_stories_def
    ClauseEditor_clause_def ClauseEditor_stories_def RuleEditor_rule_def RuleEditor_stories_def
    SegmentEditor_segment_def SegmentEditor_stories_def SegmentTargetsEditor_stories_def
    SegmentRulesEditor_rules_def SegmentRulesEditor_stories_def CreateSegmentDialog_stories_def
    AuditList_entries_def AuditList_stories_def ChangeRequestList_changes_def ChangeRequestList_stories_def
    ExpectedVariationsTable_evaluations_def ExpectedVariationsTable_stories_def ContextList_contexts_def
    ContextList_stories_def TriggersCard_triggers_def TriggersCard_stories_def ScheduledChangesCard_changes_def
    ScheduledChangesCard_stories_def RolloutEditor_stories_def VariationSelect_stories_def FlagTargeting_flag_def
    FlagTargeting_config_def FlagTargeting_stories_def FlagLifecycleList_flags_def FlagLifecycleList_stories_def
    RuleForm_stories_def FlagRules_flag_def FlagRules_rules_def FlagRules_stories_def
    CreateTriggerDialog_stories_def ScheduleChangeDialog_stories_def RequestChangeDialog_stories_def
    CreateFlagDialog_stories_def FlagList_flags_def FlagList_stories_def FlagConfigCard_flag_def
    FlagConfigCard_config_def FlagConfigCard_stories_def IndividualTargets_targets_def
    IndividualTargets_stories_def AddMemberDialog_roles_def AddMemberDialog_stories_def
    GrantProjectRoleDialog_roles_def GrantProjectRoleDialog_stories_def MemberList_members_def
    MemberList_stories_def CreateRoleDialog_permissions_def CreateRoleDialog_stories_def RoleList_roles_def
    RoleList_stories_def SdkKeyList_keys_def SdkKeyList_stories_def CreateSdkKeyDialog_stories_def
    WebhookDeliveries_deliveries_def WebhookDeliveries_stories_def CreateWebhookDialog_stories_def
    WebhookList_webhooks_def WebhookList_stories_def StatsBars_rows_def StatsBars_stories_def
    ErrorState_stories_def ConfirmDeleteDialog_stories_def EnvironmentBanner_stories_def
  ProjectList_def project_row_def OrganizationList_def EnvironmentList_def EnvironmentTabs_def CreateProjectDialog_def CreateEnvironmentDialog_def
  UserList_def UserMenu_def LoginForm_def SetupWizard_view_def SetupWizard_def SegmentList_def SegmentEditor_view_def SegmentEditor_def dirty_def SegmentTargetsEditor_def
  SegmentRulesEditor_def AuditList_def ChangeRequestList_def change_card_def ExpectedVariationsTable_def ContextList_def TriggersCard_def ScheduledChangesCard_def
  RolloutEditor_def VariationSelect_def FlagLifecycleList_def RuleForm_view_def FlagRules_def ScheduleChangeDialog_def RequestChangeDialog_def CreateFlagDialog_def
  FlagList_def flag_row_def FlagConfigCard_def IndividualTargets_def MemberList_def RoleList_def SdkKeyList_def WebhookDeliveries_def WebhookList_def StatsBars_def
  ErrorState_view_def ConfirmDeleteDialog_def EnvironmentBanner_def says_if_def alert_def dialog_def shown_name_def RuleEditor_def the_default_def story_initials scheduled_row_def trigger_row_def truthy_opt_def rule_row_def story_labels
  webhook_row_def target_rows_def initial_change_form_def initial_schedule_form_def hasTargets_def blank_keyed_def blank_role_form_def blank_flag_form_def

lemma ProjectList_looks: "\<not> looks_alike ProjectList_stories"
  by (simp add: looks_alike_def story_simps)

lemma CreateProjectDialog_looks: "\<not> looks_alike CreateProjectDialog_stories"
  by (simp add: looks_alike_def story_simps)

lemma OrganizationList_looks: "\<not> looks_alike OrganizationList_stories"
  by (simp add: looks_alike_def story_simps)

lemma EnvironmentList_looks: "\<not> looks_alike EnvironmentList_stories"
  by (simp add: looks_alike_def story_simps)

lemma EnvironmentTabs_looks: "\<not> looks_alike EnvironmentTabs_stories"
  by (simp add: looks_alike_def story_simps)

lemma CreateEnvironmentDialog_looks: "\<not> looks_alike CreateEnvironmentDialog_stories"
  by (simp add: looks_alike_def story_simps)

lemma UserList_looks: "\<not> looks_alike UserList_stories"
  by (simp add: looks_alike_def story_simps)

lemma UserMenu_looks: "\<not> looks_alike UserMenu_stories"
  by (simp add: looks_alike_def story_simps)

lemma LoginForm_looks: "\<not> looks_alike LoginForm_stories"
  by (simp add: looks_alike_def story_simps)

lemma SetupWizard_looks: "looks_alike SetupWizard_stories"
  by (simp add: looks_alike_def story_simps)

lemma SegmentList_looks: "\<not> looks_alike SegmentList_stories"
  by (simp add: looks_alike_def story_simps)

lemma SegmentEditor_looks: "\<not> looks_alike SegmentEditor_stories"
  by (simp add: looks_alike_def story_simps)

lemma SegmentTargetsEditor_looks: "\<not> looks_alike SegmentTargetsEditor_stories"
  by (simp add: looks_alike_def story_simps)

lemma SegmentRulesEditor_looks: "\<not> looks_alike SegmentRulesEditor_stories"
  by (simp add: looks_alike_def story_simps)

lemma AuditList_looks: "\<not> looks_alike (AuditList_stories fmt)"
  by (simp add: looks_alike_def story_simps)

lemma ChangeRequestList_looks: "\<not> looks_alike (ChangeRequestList_stories fmt)"
  by (simp add: looks_alike_def story_simps)

lemma ExpectedVariationsTable_looks: "\<not> looks_alike ExpectedVariationsTable_stories"
  by (simp add: looks_alike_def story_simps)

lemma ContextList_looks: "\<not> looks_alike (ContextList_stories fmt)"
  by (simp add: looks_alike_def story_simps)

lemma TriggersCard_looks: "\<not> looks_alike (TriggersCard_stories fmt)"
  by (simp add: looks_alike_def story_simps)

lemma ScheduledChangesCard_looks: "\<not> looks_alike (ScheduledChangesCard_stories fmt)"
  by (simp add: looks_alike_def story_simps)

lemma RolloutEditor_looks: "\<not> looks_alike RolloutEditor_stories"
  by code_simp

lemma VariationSelect_looks: "\<not> looks_alike VariationSelect_stories"
  by (simp add: looks_alike_def story_simps)

lemma FlagLifecycleList_looks: "\<not> looks_alike (FlagLifecycleList_stories fmt)"
  by (simp add: looks_alike_def story_simps)

lemma RuleForm_looks: "\<not> looks_alike RuleForm_stories"
  by (simp add: looks_alike_def story_simps)

lemma FlagRules_looks: "\<not> looks_alike FlagRules_stories"
  by (simp add: looks_alike_def story_simps)

lemma ScheduleChangeDialog_looks: "looks_alike ScheduleChangeDialog_stories"
  by (simp add: looks_alike_def story_simps)

lemma RequestChangeDialog_looks: "looks_alike RequestChangeDialog_stories"
  by (simp add: looks_alike_def story_simps)

lemma CreateFlagDialog_looks: "\<not> looks_alike CreateFlagDialog_stories"
  by (simp add: looks_alike_def story_simps)

lemma FlagList_looks: "\<not> looks_alike FlagList_stories"
  by (simp add: looks_alike_def story_simps)

lemma FlagConfigCard_looks: "\<not> looks_alike FlagConfigCard_stories"
  by (simp add: looks_alike_def story_simps)

lemma IndividualTargets_looks: "\<not> looks_alike IndividualTargets_stories"
  by (simp add: looks_alike_def story_simps)

lemma MemberList_looks: "\<not> looks_alike MemberList_stories"
  by (simp add: looks_alike_def story_simps)

lemma RoleList_looks: "\<not> looks_alike RoleList_stories"
  by (simp add: looks_alike_def story_simps)

lemma SdkKeyList_looks: "\<not> looks_alike SdkKeyList_stories"
  by (simp add: looks_alike_def story_simps)

lemma WebhookDeliveries_looks: "\<not> looks_alike (WebhookDeliveries_stories fmt)"
  by (simp add: looks_alike_def story_simps)

lemma WebhookList_looks: "\<not> looks_alike WebhookList_stories"
  by (simp add: looks_alike_def story_simps)

lemma StatsBars_looks: "\<not> looks_alike (StatsBars_stories fmtn)"
  by (simp add: looks_alike_def story_simps)

lemma ErrorState_looks: "\<not> looks_alike ErrorState_stories"
  by (simp add: looks_alike_def story_simps)

lemma ConfirmDeleteDialog_looks: "\<not> looks_alike ConfirmDeleteDialog_stories"
  by (simp add: looks_alike_def story_simps)

lemma EnvironmentBanner_looks: "\<not> looks_alike EnvironmentBanner_stories"
  by (simp add: looks_alike_def story_simps)

definition story_files :: "(string \<Rightarrow> string) \<Rightarrow> (int \<Rightarrow> string) \<Rightarrow> (string \<times> (string \<times> appearance list) list) list" where
  "story_files fmt fmtn =
    [ProjectList_stories,
     ProjectSwitcher_stories,
     CreateProjectDialog_stories,
     OrganizationList_stories,
     EnvironmentList_stories,
     EnvironmentTabs_stories,
     CreateEnvironmentDialog_stories,
     CreateUserDialog_stories,
     UserList_stories,
     UserMenu_stories,
     LoginForm_stories,
     SetupWizard_stories,
     SegmentList_stories,
     ClauseEditor_stories,
     RuleEditor_stories,
     SegmentEditor_stories,
     SegmentTargetsEditor_stories,
     SegmentRulesEditor_stories,
     CreateSegmentDialog_stories,
     AuditList_stories fmt,
     ChangeRequestList_stories fmt,
     ExpectedVariationsTable_stories,
     ContextList_stories fmt,
     TriggersCard_stories fmt,
     ScheduledChangesCard_stories fmt,
     RolloutEditor_stories,
     VariationSelect_stories,
     FlagTargeting_stories,
     FlagLifecycleList_stories fmt,
     RuleForm_stories,
     FlagRules_stories,
     CreateTriggerDialog_stories,
     ScheduleChangeDialog_stories,
     RequestChangeDialog_stories,
     CreateFlagDialog_stories,
     FlagList_stories,
     FlagConfigCard_stories,
     IndividualTargets_stories,
     AddMemberDialog_stories,
     GrantProjectRoleDialog_stories,
     MemberList_stories,
     CreateRoleDialog_stories,
     RoleList_stories,
     SdkKeyList_stories,
     CreateSdkKeyDialog_stories,
     WebhookDeliveries_stories fmt,
     CreateWebhookDialog_stories,
     WebhookList_stories,
     StatsBars_stories fmtn,
     ErrorState_stories,
     ConfirmDeleteDialog_stories,
     EnvironmentBanner_stories]"

lemma single_story: "length (snd file) = 1 \<Longrightarrow> \<not> looks_alike file"
  by (cases "snd file") (auto simp: looks_alike_def)

lemma single_stories:
  "\<not> looks_alike ProjectSwitcher_stories"
  "\<not> looks_alike CreateUserDialog_stories"
  "\<not> looks_alike ClauseEditor_stories"
  "\<not> looks_alike RuleEditor_stories"
  "\<not> looks_alike CreateSegmentDialog_stories"
  "\<not> looks_alike FlagTargeting_stories"
  "\<not> looks_alike CreateTriggerDialog_stories"
  "\<not> looks_alike AddMemberDialog_stories"
  "\<not> looks_alike GrantProjectRoleDialog_stories"
  "\<not> looks_alike CreateRoleDialog_stories"
  "\<not> looks_alike CreateSdkKeyDialog_stories"
  "\<not> looks_alike CreateWebhookDialog_stories"
  by (rule single_story; simp add: ProjectSwitcher_stories_def CreateUserDialog_stories_def
    ClauseEditor_stories_def RuleEditor_stories_def CreateSegmentDialog_stories_def FlagTargeting_stories_def
    CreateTriggerDialog_stories_def AddMemberDialog_stories_def GrantProjectRoleDialog_stories_def
    CreateRoleDialog_stories_def CreateSdkKeyDialog_stories_def CreateWebhookDialog_stories_def)+

lemma story_titles: "map fst (story_files fmt fmtn) =
    [''Projects/ProjectList'',
     ''Projects/ProjectSwitcher'',
     ''Projects/CreateProjectDialog'',
     ''Organizations/OrganizationList'',
     ''Environments/EnvironmentList'',
     ''Environments/EnvironmentTabs'',
     ''Environments/CreateEnvironmentDialog'',
     ''Users/CreateUserDialog'',
     ''Users/UserList'',
     ''Auth/UserMenu'',
     ''Auth/LoginForm'',
     ''Setup/SetupWizard'',
     ''Segments/SegmentList'',
     ''Segments/ClauseEditor'',
     ''Segments/RuleEditor'',
     ''Segments/SegmentEditor'',
     ''Segments/SegmentTargetsEditor'',
     ''Segments/SegmentRulesEditor'',
     ''Segments/CreateSegmentDialog'',
     ''Audit/AuditList'',
     ''Approvals/ChangeRequestList'',
     ''Contexts/ExpectedVariationsTable'',
     ''Contexts/ContextList'',
     ''Flags/TriggersCard'',
     ''Flags/ScheduledChangesCard'',
     ''Flags/RolloutEditor'',
     ''Flags/VariationSelect'',
     ''Flags/FlagTargeting'',
     ''Flags/FlagLifecycleList'',
     ''Flags/RuleForm'',
     ''Flags/FlagRules'',
     ''Flags/CreateTriggerDialog'',
     ''Flags/ScheduleChangeDialog'',
     ''Flags/RequestChangeDialog'',
     ''Flags/CreateFlagDialog'',
     ''Flags/FlagList'',
     ''Flags/FlagConfigCard'',
     ''Flags/IndividualTargets'',
     ''Members/AddMemberDialog'',
     ''Members/GrantProjectRoleDialog'',
     ''Members/MemberList'',
     ''Roles/CreateRoleDialog'',
     ''Roles/RoleList'',
     ''SDKKeys/SdkKeyList'',
     ''SDKKeys/CreateSdkKeyDialog'',
     ''Webhooks/WebhookDeliveries'',
     ''Webhooks/CreateWebhookDialog'',
     ''Webhooks/WebhookList'',
     ''Analytics/StatsBars'',
     ''UI/ErrorState'',
     ''Components/ConfirmDeleteDialog'',
     ''App/EnvironmentBanner'']"
  by (simp add: story_files_def ProjectList_stories_def ProjectSwitcher_stories_def
    CreateProjectDialog_stories_def OrganizationList_stories_def EnvironmentList_stories_def
    EnvironmentTabs_stories_def CreateEnvironmentDialog_stories_def CreateUserDialog_stories_def
    UserList_stories_def UserMenu_stories_def LoginForm_stories_def SetupWizard_stories_def
    SegmentList_stories_def ClauseEditor_stories_def RuleEditor_stories_def SegmentEditor_stories_def
    SegmentTargetsEditor_stories_def SegmentRulesEditor_stories_def CreateSegmentDialog_stories_def
    AuditList_stories_def ChangeRequestList_stories_def ExpectedVariationsTable_stories_def
    ContextList_stories_def TriggersCard_stories_def ScheduledChangesCard_stories_def RolloutEditor_stories_def
    VariationSelect_stories_def FlagTargeting_stories_def FlagLifecycleList_stories_def RuleForm_stories_def
    FlagRules_stories_def CreateTriggerDialog_stories_def ScheduleChangeDialog_stories_def
    RequestChangeDialog_stories_def CreateFlagDialog_stories_def FlagList_stories_def FlagConfigCard_stories_def
    IndividualTargets_stories_def AddMemberDialog_stories_def GrantProjectRoleDialog_stories_def
    MemberList_stories_def CreateRoleDialog_stories_def RoleList_stories_def SdkKeyList_stories_def
    CreateSdkKeyDialog_stories_def WebhookDeliveries_stories_def CreateWebhookDialog_stories_def
    WebhookList_stories_def StatsBars_stories_def ErrorState_stories_def ConfirmDeleteDialog_stories_def
    EnvironmentBanner_stories_def)

text \<open>
  However dates and numbers are written, the stories of a file show different screens, except in three
  files: the two stories of \<open>RequestChangeDialog\<close> and of \<open>ScheduleChangeDialog\<close> are the closed dialog, and
  \<open>SetupWizard\<close>'s \<open>Submitting\<close> is the first step, which does not depend on \<open>isSubmitting\<close>.
\<close>

theorem stories_differ:
  "map fst (filter looks_alike (story_files fmt fmtn)) =
     [''Setup/SetupWizard'', ''Flags/ScheduleChangeDialog'', ''Flags/RequestChangeDialog''] \<and>
   distinct (map fst (story_files fmt fmtn))"
proof
  show "map fst (filter looks_alike (story_files fmt fmtn)) =
     [''Setup/SetupWizard'', ''Flags/ScheduleChangeDialog'', ''Flags/RequestChangeDialog'']"
    by (simp add: story_files_def single_stories ProjectList_looks CreateProjectDialog_looks
      OrganizationList_looks EnvironmentList_looks EnvironmentTabs_looks CreateEnvironmentDialog_looks
      UserList_looks UserMenu_looks LoginForm_looks SetupWizard_looks SegmentList_looks SegmentEditor_looks
      SegmentTargetsEditor_looks SegmentRulesEditor_looks AuditList_looks ChangeRequestList_looks
      ExpectedVariationsTable_looks ContextList_looks TriggersCard_looks ScheduledChangesCard_looks
      RolloutEditor_looks VariationSelect_looks FlagLifecycleList_looks RuleForm_looks FlagRules_looks
      ScheduleChangeDialog_looks RequestChangeDialog_looks CreateFlagDialog_looks FlagList_looks
      FlagConfigCard_looks IndividualTargets_looks MemberList_looks RoleList_looks SdkKeyList_looks
      WebhookDeliveries_looks WebhookList_looks StatsBars_looks ErrorState_looks ConfirmDeleteDialog_looks
      EnvironmentBanner_looks)
      (simp add: SetupWizard_stories_def ScheduleChangeDialog_stories_def RequestChangeDialog_stories_def)
  show "distinct (map fst (story_files fmt fmtn))"
    by (simp add: story_titles)
qed

end
