(* ===== verification/Spec2Isabelle.thy ===== *)
theory Spec2Isabelle
  imports SdkCached_Props Clauses Variations MockStore_Props Dashboard_Props Console_Props
    Layering_Props Kit_Props Routing_Props MockServer_Props ServiceWorker_Props Wiring Story_Props
begin

text \<open>
  flag-it is a feature-flag service: a Go backend, SDKs that evaluate flags over HTTP, and a React
  dashboard. This development models the TypeScript of the repository: the JavaScript SDK
  (\<open>sdk/javascript/src/index.ts\<close>), the dashboard (\<open>web/src\<close>) and the in-memory backend that the
  dashboard runs on in development and in its tests (\<open>web/src/mocks/handlers.ts\<close>). Names of the
  definitions are those of the source; a name that clashes carries a suffix or its owner
  (\<open>RuleForm_view\<close>, \<open>flags_toggle\<close> for \<open>flagsApi.toggle\<close>).

  How the parts meet. An SDK client evaluates one flag per request or keeps a store that a server-sent
  event stream fills. In the dashboard a page (container) runs query and mutation hooks and passes data
  and callbacks to presentational components; a hook binds an endpoint to cache keys and says what a
  success refreshes; an endpoint is one call of the transport, which adds the base URL of the
  configuration and the bearer token of the session; the backend applies batches of instructions to a
  flag's configuration, directly, through an approved change request, a due scheduled change or a
  trigger.

  Theories, in the order of their imports.

  \<^item> \<open>Prelude\<close>: JavaScript strings and arrays, insertion-ordered maps, the locales
  \<open>invariant_machine\<close> (a step function with an invariant) and \<open>keyed_collection\<close> (get, upsert, delete by
  key). Strings are lists of code units below U+0100.
  \<^item> \<open>Json\<close>, \<open>Json_Props\<close>: values, \<open>JSON.stringify\<close> and \<open>JSON.parse\<close>. The parser has fuel; twice the
  length of the text is enough and more changes nothing (\<open>pvalue_fuel\<close>). Plain values (no functions or
  undefined, distinct members, whole numbers) survive the round trip (\<open>json_roundtrip\<close>).
  \<^item> \<open>SdkClient\<close>, \<open>SdkClient_Props\<close>: \<open>createClient\<close> and its calls; \<open>fetch\<close> is a parameter that maps a
  request and a world to an answer and a world. The reconnecting stream is the state machine
  \<open>stream_step\<close> over the phases connecting, reading, sleeping, stopped.
  \<^item> \<open>SseStream\<close>: \<open>readEventStream\<close>, with the locale \<open>chunked_parser\<close> (the result does not depend on
  how the text is cut).
  \<^item> \<open>SdkCached\<close>, \<open>SdkCached_Props\<close>: \<open>createCachedClient\<close> as a state machine whose events are the
  program's calls and what the streams and timers do; promises are tickets, waiting or resolved.
  \<^item> \<open>Types\<close>: the records and enumerations of \<open>web/src/types\<close>. \<open>Clauses\<close>, \<open>Variations\<close>, \<open>Instructions\<close>:
  \<open>web/src/lib\<close> and the instruction interpreter of the backend with the invariant of a configuration
  (\<open>config_inv\<close>: distinct rule ids that cannot be drawn again, well-formed targets).
  \<^item> \<open>MockStore\<close>, \<open>MockGovernance\<close> and their \<open>_Props\<close>: every handler of the in-memory backend as a
  function of request and state; a request sequence is \<open>backend_run\<close>. A handler that awaits between
  checking and acting is two steps, so overlapping requests are runs of the model.
  \<^item> \<open>Session\<close>: token holder, stores, runtime configuration, boot and route guards. \<open>ApiClient\<close>: the
  transport and every endpoint as a call. \<open>Hooks\<close>: query keys and every hook; the query cache itself is
  the library's, of which only "an invalidation reaches the keys it is a prefix of" is used. \<open>Wire\<close>:
  instructions as JSON and their decoder. \<open>Freshness\<close>: which cached views a mutation makes stale.
  \<^item> \<open>View\<close>: a rendered component is the list of its texts and controls; \<open>offers v m\<close> says that a user
  looking at \<open>v\<close> can send \<open>m\<close>; \<open>used_to\<close> is a session with a component whose page may change its
  properties between any two events; the locale \<open>component\<close> turns an invariant kept by the handlers
  into a property of all sessions. Every dialog or panel with a contract interprets it.
  \<^item> \<open>Slugs\<close>, \<open>Dialogs\<close>, \<open>Dialogs_Props\<close>, \<open>AdminDialogs\<close>, \<open>AuthForms\<close>: the creation dialogs, the login form
  and the setup wizard: state, update per message, view.
  \<^item> \<open>RuleForms\<close>, \<open>FlagPanels\<close>, \<open>FlagPanels_Props\<close>, \<open>SegmentForms\<close>: the clause editor, the rule form, the
  rule list and the other panels of a flag's page; the segment editor.
  \<^item> \<open>Lists\<close>, \<open>Pages\<close>, \<open>AdminPages\<close>, \<open>ProjectPages\<close>: the lists, and the containers of all screens: their
  state, what each message makes them run, navigate to or refetch, and their view; the layouts and the
  route table.
  \<^item> \<open>Kit\<close>, \<open>KitBasics\<close>, \<open>KitControls\<close>, \<open>KitOverlays\<close>, \<open>KitSidebar\<close>, \<open>KitForms\<close>, \<open>KitDisplay\<close>,
  \<open>KitCalendar\<close>, \<open>Kit_Props\<close>: the component kit \<open>web/src/components/ui\<close>. A component is a function from its properties to
  the element it renders (\<open>pv\<close>), class names included; primitives and icons of other packages are opaque
  elements, and the two class-name libraries are the free constructors \<open>Cn\<close> and \<open>Cva\<close>. \<open>follows\<close> is the
  contract of the plain components, which each file's lemma proves for the components of that file. The
  sidebar and the carousel are state machines; the context a part reads is an argument.
  \<^item> \<open>Layering\<close>, \<open>Layering_Props\<close>: the dependency matrix of \<open>web/eslint.config.js\<close> and the script
  \<open>web/scripts/list-components.mjs\<close>, over a directory tree.
  \<^item> \<open>Routing\<close>, \<open>Routing_Props\<close>: how a call of \<open>ApiClient\<close> finds its handler in mock mode: the patterns of
  \<open>web/src/mocks/handlers.ts\<close> in order, the scenarios in front of them, and the library's matching as a
  parameter with its documented behaviour.
  \<^item> \<open>WireTypes\<close>, \<open>MockServer\<close>, \<open>MockServer_Props\<close>: the dashboard on the in-memory backend, over HTTP. The
  records as JSON, with the locale \<open>json_codec\<close> (a typed view undoes an encoding, and which values travel);
  each handler as a resolver from the intercepted request to the response; \<open>mock_fetch\<close>, the \<open>fetch\<close> that
  the interception gives the API client. \<open>exchange\<close> says what one call is answered; the flag endpoints
  refine a map from keys to contents, a patch of a configuration survives the wire, and no call reaches the
  network (\<open>mock_mode_is_closed\<close>).
  \<^item> \<open>ServiceWorker\<close>, \<open>ServiceWorker_Props\<close>: the worker that carries out the interception in a browser,
  \<open>web/public/mockServiceWorker.js\<close>, as a state machine whose steps are what runs between two awaits, so
  that messages of clients fall between the steps of a request; \<open>worker_inv\<close> is its invariant.
  \<^item> \<open>Wiring\<close>: the providers around the router, the query client's defaults, the class-name helper over its two
  libraries, and \<open>web/scripts/container.mjs\<close>, which forwards to the first container engine found.
  \<^item> \<open>TestingLibrary\<close>, \<open>Stories\<close>, \<open>Story_Props\<close>: the stories of the dashboard's components. A test is a list of
  user actions that finds its elements on the screen, and a session in the sense of \<open>used_to\<close>
  (\<open>play_is_session\<close>); the tests are truth values that the model decides.
  \<^item> \<open>Dashboard_Props\<close>, \<open>Console_Props\<close> and this theory: the other properties. C1 to C7 are the SDK's, C8,
  C9, C11 and C12 the domain libraries', C10 and C32 the routing's, C13 to C15, C17 and C20 the
  backend's, C18 and C26 those of the dashboard together with it, C16 and C19 the layering's, C21, C22 and C33
  the kit's, C23 to C25 and C27 to C29 the dashboard's below its screens, C30, C31, C34 to C38 the screens', C39
  the interaction tests of the stories, C40 the service worker's.

  State and operations. A React component with local state is a record and an update function from a
  message to the next state and the callbacks it calls; \<open>useState\<close> initializers are the initial record.
  The text of a clause's values field is local to its editor and is part of the form's state here.
  Mutation and query results reach a page as \<open>loaded\<close> data and run states.

  Parameters. \<open>fetch\<close>, the schema library (\<open>safeParse\<close>), the mock library's matching of requests
  (\<open>matches\<close>), the linter's matching of files (\<open>folder_matches\<close>, \<open>glob\<close>), date and number formatting, time zones, random
  numbers and identifier supplies are arguments of the definitions that use them.

  Not modelled: the Go backend, the Go and Python SDKs (other languages); in the views of the screens,
  styling, focus and keyboard navigation; the query cache's timing; the kit's stories, end-to-end tests and the bundler's
  and Storybook's configuration; React's \<open>key\<close> and \<open>ref\<close> as distinct from other properties;
  code units above U+00FF and numbers outside the rationals (except where \<open>Number\<close> yields them).
\<close>

section \<open>The JavaScript SDK\<close>

lemma stream_run_closed_iff:
  "sm_closed (fst (stream_run s es)) \<longleftrightarrow> sm_closed s \<or> Close \<in> set es"
proof (induction es arbitrary: s)
  case (Cons e es)
  have "sm_closed (fst (stream_step s e)) \<longleftrightarrow> sm_closed s \<or> e = Close"
    by (cases e; cases "sm_phase s")
      (auto simp: caught_def after_attempt_def Let_def case_prod_beta)
  with Cons.IH show ?case by (auto simp: case_prod_beta Let_def)
qed simp


definition connected_client :: cached where
  "connected_client = fst (cached_run (fst (createCachedClient (context_of ''user'' ''u1'' []) True 5000))
     [WaitForInit, Subscribe 7, StreamEv 0 (FetchResponds 200 True)])"

lemma connected_client_state:
  "length (cc_streams connected_client) = 1" "sm_phase (cc_streams connected_client ! 0) = Reading []"
  "cc_waiters connected_client = [0]" "cc_listeners connected_client = [7]" "promises_inv connected_client"
  by (simp_all add: connected_client_def createCachedClient_def startStream_def initial_stream_def
      waitForInitialization_def new_waiter_def ok_status_def promises_inv_def)


text \<open>
  C2: while the service cannot be reached, the stream waits 1 s, 2 s, 4 s, ... and from the sixth
  attempt on 30 s, reports each error before the wait, and keeps retrying; \<open>k\<close> failures leave it
  ready for attempt \<open>k\<close>.
\<close>

theorem sdk_backoff_schedule:
  "stream_run initial_stream (concat (replicate k [FetchFails e, TimerFires])) =
     (initial_stream\<lparr>sm_backoff := min (1000 * 2 ^ k) 30000\<rparr>,
      concat (map (\<lambda>j. [OnError (NetworkError e), Delay (min (1000 * 2 ^ j) 30000), OpenRequest]) [0..<k]))"
  using failing_cycles [of initial_stream 0 k e]
  by (simp add: initial_stream_def nth_delay_def)

text \<open>
  C3: a stream stops only when the caller closes it, every delay it asks for, whatever the network
  does, is between one and thirty seconds, and after \<open>close()\<close> it opens no request, reports no error
  and sleeps no more: the only effects left are deliveries from a chunk already being read.
\<close>

theorem sdk_stream_safety:
  fixes es es' :: "stream_event list"
  defines "s \<equiv> fst (stream_run initial_stream es)"
  shows "(sm_phase s = Stopped \<longrightarrow> Close \<in> set es) \<and>
     (\<forall>d. Delay d \<in> set (snd (stream_run initial_stream es)) \<longrightarrow> 1000 \<le> d \<and> d \<le> 30000) \<and>
     (Close \<in> set es \<longrightarrow> (\<forall>fx \<in> set (snd (stream_run s es')). fx = Abort \<or> (\<exists>v. fx = OnUpdate v)))"
proof (intro conjI impI allI ballI)
  assume "sm_phase s = Stopped"
  moreover have "stream_inv s" unfolding s_def by (rule stream_run_inv [OF initial_stream_inv])
  ultimately have "sm_closed s" by (simp add: stream_inv_def)
  then show "Close \<in> set es" by (simp add: s_def stream_run_closed_iff initial_stream_def)
next
  fix d
  assume "Delay d \<in> set (snd (stream_run initial_stream es))"
  then show "1000 \<le> d" "d \<le> 30000" using stream_run_delay [OF initial_stream_inv] by blast+
next
  fix fx
  assume "Close \<in> set es" "fx \<in> set (snd (stream_run s es'))"
  then show "fx = Abort \<or> (\<exists>v. fx = OnUpdate v)"
    using stream_run_closed [of s fx es'] by (simp add: s_def stream_run_closed_iff)
qed

lemma sdk_stream_safety_witness:
  "sm_phase (fst (stream_run initial_stream [FetchFails ''x'', Close, TimerFires])) = Stopped \<and>
   Delay 1000 \<in> set (snd (stream_run initial_stream [FetchFails ''x'', Close, TimerFires])) \<and>
   Close \<in> set [FetchFails ''x'', Close, TimerFires] \<and> (1000 :: int) \<le> 30000"
  using sdk_stream_safety [of "[FetchFails ''x'', Close, TimerFires]" "[TimerFires]"]
  by (simp add: initial_stream_def caught_def after_attempt_def Let_def)


definition answering_client :: "unit client" where
  "answering_client = \<lparr>ct_baseUrl = strip_slashes ''http://flags//'', ct_sdkKey = ''sdk-1'',
     ct_fetch = (\<lambda>rq w. (Inr \<lparr>rs_status = 200, rs_body = stringify (JObj [(''value'', JBool True)])\<rparr>, w))\<rparr>"


text \<open>
  C5: the evaluation calls never throw: a rejected request, a status outside 2xx, an accepted but
  empty answer (202, 204) and a body that is not JSON all give the fallback.
\<close>

theorem sdk_fallback_on_failure:
  assumes "ct_fetch c (request_of c ''POST'' ''/api/v1/eval''
      (Some (JObj [(''flag_key'', JStr flagKey), (''context'', ctx)]))) w = (r, w')"
    and "(\<exists>e. r = Inl e) \<or> (\<exists>res. r = Inr res \<and>
      (\<not> ok_status (rs_status res) \<or> rs_status res \<in> {202, 204} \<or> rs_body res = None
        \<or> (\<exists>t. rs_body res = Some t \<and> json_parse t = None)))"
  shows "boolVariation c flagKey ctx b w = (b, w') \<and> stringVariation c flagKey ctx s w = (s, w') \<and>
     numberVariation c flagKey ctx n w = (n, w') \<and> variation c flagKey ctx v w = (v, w')"
proof -
  have "safeValue c flagKey ctx w = (JUndef, w')"
    using assms by (auto simp: safeValue_def evaluate_def request_def response_json_def split: option.splits sum.splits)
  then show ?thesis
    by (simp add: boolVariation_def stringVariation_def numberVariation_def variation_def
        bool_or_def string_or_def number_or_def value_or_def)
qed

definition failing_client :: "unit client" where
  "failing_client = \<lparr>ct_baseUrl = ''http://flags'', ct_sdkKey = ''sdk-1'',
     ct_fetch = (\<lambda>rq w. (Inr \<lparr>rs_status = 503, rs_body = None\<rparr>, w))\<rparr>"

lemma sdk_fallback_on_failure_witness:
  "stringVariation failing_client ''tier'' JNull ''free'' () = (''free'', ())"
  using sdk_fallback_on_failure [of failing_client "''tier''" JNull "()" _ "()" True "''free''" 0 JNull]
  by (simp add: failing_client_def ok_status_def)

text \<open>
  C6: usage is conserved. Whatever a cached client goes through, for every flag and variation the
  counts it has sent and the counts still buffered add up to the reads it has served from its store.
\<close>

theorem sdk_usage_conserved:
  "count_of (cc_counts (fst (cached_run (fst (createCachedClient ctx t ms)) es))) f v +
     sent_of (snd (cached_run (fst (createCachedClient ctx t ms)) es)) f v =
   reads_of (fst (createCachedClient ctx t ms)) es f v"
  using cached_run_counts [of "fst (createCachedClient ctx t ms)" es f v]
  by (simp add: createCachedClient_def startStream_def)

text \<open>
  C7: in every reachable state of a cached client each promise handed out is waiting or resolved,
  once; none waits once the client is ready; every stream but the last one has been closed; and every
  stream is in a consistent phase with its delay in bounds.
\<close>

theorem sdk_cached_invariant: "cached_inv (fst (cached_run (fst (createCachedClient ctx t ms)) es))"
  by (rule cached_run_inv [OF createCachedClient_inv])

section \<open>Flag configurations\<close>

lemma inj_replicate: "inj (\<lambda>n. replicate n c)"
  by (rule injI) (metis length_replicate)

lemma demo_host_inj: "inj (ho_uuid demo_host)" "inj (token_of demo_host)"
proof -
  show "inj (ho_uuid demo_host)" by (simp add: demo_host_def inj_replicate)
  show "inj (token_of demo_host)"
    by (rule injI) (simp add: demo_host_def token_of_def strip_dashes_def replicate_eq_replicate)
qed

text \<open>
  C8: any sequence of instruction batches applied to a fresh configuration leaves rules with distinct
  ids and individual targets with one entry per context kind and variation and no repeated key, and
  bumps the version exactly once per batch, whatever the batch holds.
\<close>

theorem instruction_batches:
  assumes "inj uuid"
  shows "config_inv uuid (fold (\<lambda>b s. applyInstructions uuid s b) batches (newConfig, n)) \<and>
     fc_version (fst (fold (\<lambda>b s. applyInstructions uuid s b) batches (newConfig, n))) = 1 + int (length batches)"
proof -
  have "config_inv uuid (fold (\<lambda>b s. applyInstructions uuid s b) bs st) \<and>
      fc_version (fst (fold (\<lambda>b s. applyInstructions uuid s b) bs st)) = fc_version (fst st) + int (length bs)"
    if "config_inv uuid st" for bs st
    using that
    by (induction bs arbitrary: st) (simp_all add: applyInstructions_inv applyInstructions_version)
  from this [OF newConfig_inv [OF assms], of batches n] show ?thesis by (simp add: newConfig_def)
qed

lemma instruction_batches_witness:
  "config_inv (ho_uuid demo_host) (fold (\<lambda>b s. applyInstructions (ho_uuid demo_host) s b)
     [[instruction ''turnFlagOn''], []] (newConfig, 0))"
  using instruction_batches [of "ho_uuid demo_host" "[[instruction ''turnFlagOn''], []]" 0] demo_host_inj by simp

text \<open>
  C9: on well-formed targets \<open>addTargets\<close> adds exactly the listed keys to the variation and context
  kind it names, \<open>removeTargets\<close> removes exactly those, and neither touches another entry.
\<close>

theorem target_instructions:
  assumes "targets_ok (fc_targets c)"
  shows "target_set (fc_targets (fst (apply_instruction uuid (c, n) ((instruction ''addTargets'')
       \<lparr>fi_contextKind := k, fi_variation := Some v, fi_values := Some xs\<rparr>)))) =
     target_set (fc_targets c) \<union> {(the_default ''user'' k, v, x) |x. x \<in> set xs} \<and>
   target_set (fc_targets (fst (apply_instruction uuid (c, n) ((instruction ''removeTargets'')
       \<lparr>fi_contextKind := k, fi_variation := Some v, fi_values := Some xs\<rparr>)))) =
     target_set (fc_targets c) - {(the_default ''user'' k, v, x) |x. x \<in> set xs}"
  using assms by (simp add: apply_instruction_def instruction_def Let_def add_targets_set remove_targets_set)

lemma target_instructions_witness:
  "target_set (fc_targets (fst (apply_instruction (ho_uuid demo_host) (newConfig, 0) ((instruction ''addTargets'')
     \<lparr>fi_contextKind := None, fi_variation := Some 1, fi_values := Some [''ada'', ''ada'']\<rparr>)))) = {(''user'', 1, ''ada'')}"
  using target_instructions [where c = newConfig and uuid = "ho_uuid demo_host" and n = 0 and k = None and v = 1
      and xs = "[''ada'', ''ada'']"]
  by (simp add: newConfig_def targets_ok_def target_set_def the_default_def)

text \<open>
  \<open>reorderRules\<close> with the ids of all rules, in any order, puts the rules in exactly that order
  and changes nothing else.
\<close>

theorem reorder_instruction:
  assumes "mset (fc_rules c) = mset rs" "map fr_id rs = map Some order" "distinct order"
  shows "apply_instruction uuid (c, n) ((instruction ''reorderRules'')\<lparr>fi_ruleIds := Some order\<rparr>) =
     (c\<lparr>fc_rules := rs\<rparr>, n)"
  using reorder_rules_exact [OF assms] by (simp add: apply_instruction_def instruction_def Let_def)

definition two_rules :: "flag_rule list" where
  "two_rules = [\<lparr>fr_id = Some ''a'', fr_clauses = [], fr_variation = Some 0, fr_rollout = None\<rparr>,
     \<lparr>fr_id = Some ''b'', fr_clauses = [], fr_variation = Some 1, fr_rollout = None\<rparr>]"

lemma reorder_instruction_witness:
  "fc_rules (fst (apply_instruction (ho_uuid demo_host) (newConfig\<lparr>fc_rules := two_rules\<rparr>, 0)
     ((instruction ''reorderRules'')\<lparr>fi_ruleIds := Some [''b'', ''a'']\<rparr>))) = rev two_rules"
  using reorder_instruction [of "newConfig\<lparr>fc_rules := two_rules\<rparr>" "rev two_rules" "[''b'', ''a'']" "ho_uuid demo_host" 0]
  by (simp add: two_rules_def)

section \<open>Clause values and rollouts\<close>



text \<open>
  C12: a percentage rollout between the variations starts even and complete (one share per variation,
  adding to 100), the payload's weights add to 100000 exactly when the percentages add to 100, and an
  existing payload is loaded back into the percentages it was made from.
\<close>

theorem rollout_percentages:
  assumes "0 < n"
  shows "length (evenPercents n) = nat n \<and> sum_list (evenPercents n) = 100 \<and>
     (\<forall>p\<in>set (evenPercents n). 100 div n \<le> p \<and> p \<le> 100) \<and>
     (sum_list (map wv_weight (ro_variations (rolloutFromPercents ps opts))) = 100000 \<longleftrightarrow> sum_list ps = 100) \<and>
     percentsFromRollout (Some (rolloutFromPercents ps opts)) (int (length ps)) = ps"
  using evenPercents_sum [OF assms] evenPercents_close [OF assms]
  by (simp add: evenPercents_length rolloutFromPercents_total percentsFromRollout_roundtrip)

lemma rollout_percentages_witness:
  "sum_list (evenPercents 3) = 100 \<and> evenPercents 3 = [34, 33, 33]"
  using rollout_percentages [of 3 "[]" "\<lparr>op_bucketBy = None, op_contextKind = None, op_seed = None\<rparr>"]
  by (simp add: evenPercents_def Let_def numeral_eq_Suc)

section \<open>The fixture backend\<close>


definition demo_calls :: "call list" where
  "demo_calls = [PostChange 1 ''p'' ''f'' ''e'' None (Some [instruction ''turnFlagOn'']), ApproveChange 2 [] None,
     ApproveChange 3 [] None, PatchFlagConfig ''f'' ''e'' [instruction ''turnFlagOff''],
     PostScheduled 4 ''p'' ''f'' ''e'' None (Some ''2026-01-01'') (Some [instruction ''turnFlagOn'']),
     GetScheduled 20 None None None]"




text \<open>
  C15: the lazy scheduler is exact. Reading the scheduled changes at time \<open>now\<close> leaves no pending
  change whose time has come, alters no change that is not due, bumps each configuration once per
  due change for it, and running it again at the same time does nothing.
\<close>

theorem scheduler_exact:
  fixes h :: host and now :: int and st :: backend
  defines "st' \<equiv> runDueScheduledChanges h now st"
  shows "filter (is_due h now) (bk_scheduled st') = [] \<and>
     bk_scheduled st' = map (\<lambda>c. if is_due h now c
        then c\<lparr>sc_status := ScApplied, sc_applied_at := Some (ho_iso h now)\<rparr> else c) (bk_scheduled st) \<and>
     fc_version (config_of st' k) = fc_version (config_of st k) +
        int (length (filter (\<lambda>c. is_due h now c \<and> sc_config_key c = k) (bk_scheduled st))) \<and>
     runDueScheduledChanges h now st' = st'"
proof -
  have l: "bk_scheduled st' = map (mark_applied h now) (bk_scheduled st)" by (simp add: st'_def runDue_parts)
  then have none: "filter (is_due h now) (bk_scheduled st') = []"
    by (auto simp: filter_empty_conv)
  moreover have "map (mark_applied h now) (bk_scheduled st') = bk_scheduled st'"
    using none by (auto simp: mark_applied_def filter_empty_conv intro!: map_idI)
  then have "runDueScheduledChanges h now st' = st'"
    using none by (simp add: runDueScheduledChanges_def case_prod_beta Let_def run_due_list run_due_state)
  moreover have "fc_version (config_of st' k) = fc_version (config_of st k) +
        int (length (filter (\<lambda>c. is_due h now c \<and> sc_config_key c = k) (bk_scheduled st)))"
    by (simp add: st'_def runDue_parts)
  ultimately show ?thesis by (simp add: l mark_applied_def)
qed

text \<open>
  A scheduled change that was applied or cancelled is final: no later request alters it, and
  cancelling it answers 404 and changes nothing.
\<close>

theorem settled_schedule_is_final:
  fixes h :: host and calls :: "call list"
  defines "st \<equiv> backend_run h initial_backend calls"
  assumes "inj (ho_uuid h)" "find (\<lambda>c. sc_id c = i) (bk_scheduled st) = Some sc" "sc_status sc \<noteq> ScPending"
    and "ResetBackend \<notin> set later"
  shows "find (\<lambda>c. sc_id c = i) (bk_scheduled (backend_run h st later)) = Some sc \<and>
     cancel_scheduled i st = (Detail 404 ''not found'', st)"
  using scheduled_final_run [OF run_invs(2) [OF assms(2)] assms(3) [unfolded st_def] assms(4,5)] assms(3,4)
  by (simp add: st_def cancel_scheduled_def)

definition cancelled_calls :: "call list" where
  "cancelled_calls = [PostScheduled 4 ''p'' ''f'' ''e'' None (Some ''2026-01-01'') (Some [instruction ''turnFlagOn'']),
     CancelScheduled []]"

lemma settled_schedule_is_final_witness:
  "cancel_scheduled [] (backend_run demo_host initial_backend cancelled_calls) =
     (Detail 404 ''not found'', backend_run demo_host initial_backend cancelled_calls)"
proof -
  let ?st = "backend_run demo_host initial_backend cancelled_calls"
  have "\<exists>sc. find (\<lambda>c. sc_id c = []) (bk_scheduled ?st) = Some sc \<and> sc_status sc \<noteq> ScPending"
    by (simp add: cancelled_calls_def demo_host_def initial_backend_def backend_run_def post_scheduled_def
        randomUUID_def no_instructions_def truthy_opt_def not_after_def cancel_scheduled_def Let_def)
  then obtain sc where "find (\<lambda>c. sc_id c = []) (bk_scheduled ?st) = Some sc" "sc_status sc \<noteq> ScPending" by blast
  from settled_schedule_is_final [OF demo_host_inj(1) this, of "[]"] show ?thesis by simp
qed

text \<open>
  C17: in every reachable state each trigger has its own secret token and the URL made from it,
  resetting a trigger revokes the old token (no trigger has it afterwards), and no list shows one.
\<close>

theorem trigger_secrets:
  fixes h :: host and calls :: "call list"
  defines "st \<equiv> backend_run h initial_backend calls"
  assumes "inj (token_of h)" "find (\<lambda>x. tr_id x = i) (bk_triggers st) = Some t"
  shows "distinct (map tr_token (bk_triggers st)) \<and>
     (\<forall>u\<in>set (bk_triggers st). tr_token u \<noteq> None \<and> tr_url u = map_option triggerURL (tr_token u)) \<and>
     (\<forall>u\<in>set (bk_triggers (snd (reset_trigger h i st))). tr_token u \<noteq> tr_token t) \<and>
     (\<forall>us. get_triggers f e st = Json 200 us \<longrightarrow> (\<forall>u\<in>set us. tr_token u = None \<and> tr_url u = None))"
proof -
  have inv: "triggers_inv h st" unfolding st_def by (rule run_triggers [OF assms(2)])
  then have tok: "\<forall>u\<in>set (bk_triggers st). tr_token u \<noteq> None \<and> tr_url u = map_option triggerURL (tr_token u)"
    by (simp add: triggers_inv_def list_all_iff)
  have "distinct (map the (map tr_token (bk_triggers st)))"
    using inv by (simp add: triggers_inv_def ids_fresh_def comp_def)
  then have "distinct (map tr_token (bk_triggers st))" by (simp only: distinct_map)
  with tok reset_revokes [OF inv assms(3)] listed_triggers show ?thesis by blast
qed

lemma not_in_image: "\<forall>u\<in>S. f u \<noteq> a \<Longrightarrow> a \<notin> f ` S"
  by auto

lemma trigger_secrets_witness:
  "Some ''trg_'' \<notin> tr_token ` set (bk_triggers (snd (reset_trigger demo_host ''x''
      (backend_run demo_host initial_backend [PostTrigger 1 ''p'' ''f'' ''e'' TrOn None]))))"
proof -
  let ?st = "backend_run demo_host initial_backend [PostTrigger 1 ''p'' ''f'' ''e'' TrOn None]"
  have "\<exists>t. find (\<lambda>x. tr_id x = ''x'') (bk_triggers ?st) = Some t \<and> tr_token t = Some ''trg_''"
    by (simp add: backend_run_def post_trigger_def trigger_token_eq randomUUID_def token_of_def strip_dashes_def
        demo_host_def initial_backend_def Let_def)
  then obtain t where "find (\<lambda>x. tr_id x = ''x'') (bk_triggers ?st) = Some t" "tr_token t = Some ''trg_''" by blast
  note t = this
  have "\<forall>u\<in>set (bk_triggers (snd (reset_trigger demo_host ''x'' ?st))). tr_token u \<noteq> tr_token t"
    using trigger_secrets [OF demo_host_inj(2) t(1), of None None] by (elim conjE)
  then show ?thesis unfolding t(2) by (rule not_in_image)
qed

text \<open>
  Flags are stored by key, below the wire. After a PUT the flag's GET answers what the PUT answered, after a
  DELETE it answers 404, no other flag is affected, and in every reachable state flag and segment keys
  are unique and segment versions positive.
\<close>

theorem flag_store:
  "get_flag k' (snd (put_flag h k b st)) = (if k' = k then fst (put_flag h k b st) else get_flag k' st) \<and>
   get_flag k' (snd (delete_flag k st)) = (if k' = k then Empty 404 else get_flag k' st) \<and>
   catalogue_inv (backend_run h initial_backend calls)"
  by (simp add: put_flag_get delete_flag_get run_catalogue)

text \<open>
  Segments are stored by key; saving an existing one keeps its id and creation time and adds one
  to its version, and no other segment is affected.
\<close>

theorem segment_store:
  "get_segment k' (snd (put_segment h k b st)) = (if k' = k then fst (put_segment h k b st) else get_segment k' st) \<and>
   get_segment k' (snd (delete_segment k st)) = (if k' = k then Empty 404 else get_segment k' st) \<and>
   (\<forall>s. get_segment k st = Json 200 s \<longrightarrow> (\<exists>s'. fst (put_segment h k b st) = Json 200 s' \<and> sg_id s' = sg_id s \<and>
      sg_created_at s' = sg_created_at s \<and> sg_version s' = sg_version s + 1))"
proof -
  have "\<exists>s'. fst (put_segment h k b st) = Json 200 s' \<and> sg_id s' = sg_id s \<and>
      sg_created_at s' = sg_created_at s \<and> sg_version s' = sg_version s + 1" if "get_segment k st = Json 200 s" for s
    using that by (intro put_segment_existing) (auto simp: get_segment_def split: option.splits)
  then show ?thesis by (simp add: put_segment_get delete_segment_get)
qed

lemma segment_store_witness:
  "\<exists>s'. fst (put_segment demo_host ''beta-users'' \<lparr>sb_name = None, sb_description = None, sb_included = None,
     sb_excluded = None, sb_included_contexts = None, sb_excluded_contexts = None, sb_rules = None\<rparr> initial_backend)
     = Json 200 s' \<and> sg_id s' = ''s1'' \<and> sg_version s' = 2"
proof -
  have "\<exists>s. get_segment ''beta-users'' initial_backend = Json 200 s \<and> sg_id s = ''s1'' \<and> sg_version s = 1"
    by (simp add: get_segment_def find_segment_def initial_backend_def seedSegments_def)
  then show ?thesis using segment_store [of "''beta-users''" demo_host "''beta-users''" _ initial_backend] by fastforce
qed

text \<open>
  C20: in every reachable state the configuration of any flag in any environment has rules with
  distinct ids and well-formed individual targets, whichever handlers (patch, approval, schedule)
  changed it.
\<close>

theorem stored_configs_wellformed:
  assumes "inj (ho_uuid h)"
  shows "config_inv (ho_uuid h) (config_of (backend_run h initial_backend calls) k,
     bk_drawn (backend_run h initial_backend calls))"
  using run_configs [OF assms, of calls] by (simp add: configs_inv_def)

lemma stored_configs_wellformed_witness:
  "config_inv (ho_uuid demo_host) (config_of (backend_run demo_host initial_backend demo_calls) (configKey ''f'' ''e''),
     bk_drawn (backend_run demo_host initial_backend demo_calls))"
  by (rule stored_configs_wellformed [OF demo_host_inj(1)])

text \<open>
  Two approvals of the same pending change whose handlers overlap (both have checked the status
  before either has read its body) are both carried out: the instructions are applied twice.
\<close>

theorem overlapping_approvals:
  assumes "review_begin i st = Inr cr" "k = configKey (cr_flag_key cr) (cr_environment_key cr)"
  shows "fc_version (config_of (snd (approve_finish h t2 cr c2 (snd (approve_finish h t1 cr c1 st)))) k) =
     fc_version (config_of st k) + 2"
  using assms(2) by (simp add: approve_finish_version)

lemma overlapping_approvals_witness:
  "\<exists>cr. review_begin [] (backend_run demo_host initial_backend (take 1 demo_calls)) = Inr cr \<and>
     fc_version (config_of (snd (approve_finish demo_host 3 cr None (snd (approve_finish demo_host 2 cr None
       (backend_run demo_host initial_backend (take 1 demo_calls)))))) (configKey ''f'' ''e'')) = 3"
proof -
  let ?st = "backend_run demo_host initial_backend (take 1 demo_calls)"
  have "\<exists>cr. review_begin [] ?st = Inr cr \<and> cr_flag_key cr = ''f'' \<and> cr_environment_key cr = ''e''"
    by (simp add: demo_calls_def demo_host_def initial_backend_def backend_run_def post_change_def randomUUID_def
        no_instructions_def review_begin_def Let_def)
  then obtain cr where cr: "review_begin [] ?st = Inr cr" "configKey ''f'' ''e'' = configKey (cr_flag_key cr) (cr_environment_key cr)"
    by auto
  moreover have "fc_version (config_of ?st (configKey ''f'' ''e'')) = 1"
    by (simp add: demo_calls_def demo_host_def initial_backend_def backend_run_def post_change_def randomUUID_def
        no_instructions_def Let_def config_of_def the_default_def newConfig_def)
  ultimately show ?thesis using overlapping_approvals [OF cr, of demo_host 3 None 2 None] by auto
qed

text \<open>
  Resetting the users does not undo an edit of a seeded user, because the seed array and the
  working array share their objects.
\<close>

theorem reset_users_keeps_edits:
  "us_full_name (hd (users_of (resetUsers (snd (patch_user ''1'' name active initial_backend))))) = name \<and>
   us_is_active (hd (users_of (resetUsers (snd (patch_user ''1'' name active initial_backend))))) = active"
  by (simp add: patch_user_def initial_backend_def seedUsers_def resetUsers_def users_of_def Let_def)

end
